(* ===== verification/Prelude.thy ===== *)
theory Prelude
  imports Complex_Main "HOL-Library.Word"
begin

text \<open>
  Shared vocabulary of the development: identifiers, timestamps and JSON values as the
  TypeScript code passes them around, the string operations of JavaScript the code calls, and the
  two effect types every component is written in. \<open>tx\<close> is a statement running inside one open
  database transaction (a thrown error aborts it), \<open>op\<close> is code outside a transaction, whose
  database changes persist even if a later step throws. The lemma collections and the generic
  lemmas below carry the component proofs.
\<close>

named_theorems tx_simps \<open>success and failure of composed transaction steps\<close>
named_theorems rel_intros \<open>closure rules for relations between the databases before and after\<close>

subsection \<open>Identifiers, timestamps, JSON\<close>

text \<open>
  A UUID is its 128-bit value, so every id of the model passes \<open>z.string().uuid()\<close> and the
  \<open>uuid\<close> columns of the database by construction. A timestamp is its number of milliseconds
  since the epoch: \<open>toISOString()\<close> and \<open>timestamptz\<close> represent the same instants in the same order.
\<close>

type_synonym uuid = "128 word"
type_synonym timestamp = int

datatype json =
    JNull
  | JBool bool
  | JNum rat
  | JStr string
  | JArr "json list"
  | JObj "(string \<times> json) list"

type_synonym metadata = "(string \<times> json) list"

text \<open>\<open>{ ...obj, key: v }\<close>: an existing key keeps its place, a new one comes last.\<close>

fun obj_put :: "metadata \<Rightarrow> string \<Rightarrow> json \<Rightarrow> metadata" where
  "obj_put [] k v = [(k, v)]"
| "obj_put ((k', v') # m) k v = (if k' = k then (k, v) # m else (k', v') # obj_put m k v)"

lemma map_of_obj_put [simp]: "map_of (obj_put m k v) = (map_of m)(k \<mapsto> v)"
  by (induction m k v rule: obj_put.induct) (auto simp: fun_eq_iff)

subsection \<open>JavaScript strings\<close>

text \<open>
  A string is the list of its UTF-16 code units; the model has those up to 255 (\<^typ>\<open>char\<close>).
  \<open>slice(0, n)\<close> is \<^const>\<open>take\<close>. White space is what \<open>trim\<close> and \<open>\s\<close> accept in that range.
\<close>

definition is_ws :: "char \<Rightarrow> bool" where
  "is_ws c \<longleftrightarrow> of_char c \<in> {9, 10, 11, 12, 13, 32, 160 :: nat}"

definition js_trim :: "string \<Rightarrow> string" where
  "js_trim s = rev (dropWhile is_ws (rev (dropWhile is_ws s)))"

definition lower_char :: "char \<Rightarrow> char" where
  "lower_char c = (let n = (of_char c :: nat) in if 65 \<le> n \<and> n \<le> 90 then char_of (n + 32) else c)"

definition is_digit_char :: "char \<Rightarrow> bool" where
  "is_digit_char c \<longleftrightarrow> (let n = (of_char c :: nat) in 48 \<le> n \<and> n \<le> 57)"

definition is_alpha_char :: "char \<Rightarrow> bool" where
  "is_alpha_char c \<longleftrightarrow> (let n = (of_char (lower_char c) :: nat) in 97 \<le> n \<and> n \<le> 122)"

text \<open>\<open>parts.join(sep)\<close>\<close>

fun join :: "string \<Rightarrow> string list \<Rightarrow> string" where
  "join sep [] = ''''"
| "join sep [x] = x"
| "join sep (x # y # xs) = x @ sep @ join sep (y # xs)"

lemma join_Cons: "xs \<noteq> [] \<Longrightarrow> join sep (x # xs) = x @ sep @ join sep xs"
  by (cases xs) auto

lemma dropWhile_idem [simp]: "dropWhile P (dropWhile P xs) = dropWhile P xs"
  by (induction xs) auto

subsection \<open>Small list facts\<close>

lemma distinct_map_append_singleton:
  "distinct (map f (xs @ [y])) \<longleftrightarrow> distinct (map f xs) \<and> f y \<notin> f ` set xs"
  by auto

text \<open>
  \<open>rows[0]\<close> of a result set, \<open>undefined\<close> when it is empty.
\<close>

definition first_row :: "'a list \<Rightarrow> 'a option" where
  "first_row xs = (case xs of [] \<Rightarrow> None | x # _ \<Rightarrow> Some x)"

lemma first_row_simps [simp]:
  "first_row [] = None" "first_row (x # xs) = Some x"
  by (simp_all add: first_row_def)

lemma first_row_None [simp]: "first_row xs = None \<longleftrightarrow> xs = []"
  by (cases xs) auto

lemma first_row_SomeD: "first_row xs = Some x \<Longrightarrow> x \<in> set xs"
  by (cases xs) auto

lemma first_row_filterD: "first_row (filter P xs) = Some x \<Longrightarrow> x \<in> set xs \<and> P x"
  by (drule first_row_SomeD) auto

lemma first_row_filter_distinct:
  assumes "distinct (map key xs)" "x \<in> set xs"
  shows "first_row (filter (\<lambda>r. key r = key x) xs) = Some x"
proof -
  have "filter (\<lambda>r. key r = key x) xs = [x]"
    using assms by (induction xs) (auto simp: filter_empty_conv, metis imageI)
  then show ?thesis by simp
qed

text \<open>\<open>ORDER BY key\<close>: PostgreSQL leaves the order of equal keys open; the model keeps insertion order.\<close>

definition order_by_asc :: "('a \<Rightarrow> int) \<Rightarrow> 'a list \<Rightarrow> 'a list" where
  "order_by_asc key rows = sort_key key rows"

definition order_by_desc :: "('a \<Rightarrow> int) \<Rightarrow> 'a list \<Rightarrow> 'a list" where
  "order_by_desc key rows = sort_key (\<lambda>r. - key r) rows"

lemma set_order_by [simp]:
  "set (order_by_asc key rows) = set rows" "set (order_by_desc key rows) = set rows"
  by (simp_all add: order_by_asc_def order_by_desc_def)

lemma order_by_Nil [simp]:
  "order_by_asc key rows = [] \<longleftrightarrow> rows = []" "order_by_desc key rows = [] \<longleftrightarrow> rows = []"
  by (metis set_order_by(1) set_empty, metis set_order_by(2) set_empty)

lemma order_by_singleton [simp]:
  "order_by_asc key [r] = [r]" "order_by_desc key [r] = [r]"
  by (simp_all add: order_by_asc_def order_by_desc_def)

text \<open>\<open>UPDATE t SET \<dots> WHERE P\<close>\<close>

definition update_where :: "('a \<Rightarrow> bool) \<Rightarrow> ('a \<Rightarrow> 'a) \<Rightarrow> 'a list \<Rightarrow> 'a list" where
  "update_where P f rows = map (\<lambda>r. if P r then f r else r) rows"

lemma update_where_simps [simp]:
  "update_where P f [] = []"
  "update_where P f (r # rs) = (if P r then f r else r) # update_where P f rs"
  "update_where P f (xs @ ys) = update_where P f xs @ update_where P f ys"
  by (simp_all add: update_where_def)

lemma map_update_where [simp]:
  "(\<And>r. P r \<Longrightarrow> g (f r) = g r) \<Longrightarrow> map g (update_where P f rows) = map g rows"
  by (simp add: update_where_def)

lemma set_update_where:
  "set (update_where P f rows) = (\<lambda>r. if P r then f r else r) ` set rows"
  by (simp add: update_where_def)

lemma filter_update_where_other:
  "(\<And>r. P r \<Longrightarrow> \<not> Q r) \<Longrightarrow> (\<And>r. P r \<Longrightarrow> \<not> Q (f r)) \<Longrightarrow> filter Q (update_where P f rows) = filter Q rows"
  by (induction rows) auto

lemma update_where_id: "(\<And>r. r \<in> set rows \<Longrightarrow> \<not> P r) \<Longrightarrow> update_where P f rows = rows"
  by (induction rows) auto

subsection \<open>Statements of one transaction\<close>

type_synonym ('e, 'd, 'a) tx = "'d \<Rightarrow> 'e + ('a \<times> 'd)"

definition treturn :: "'a \<Rightarrow> ('e, 'd, 'a) tx" where
  "treturn x d = Inr (x, d)"

definition throw :: "'e \<Rightarrow> ('e, 'd, 'a) tx" where
  "throw e d = Inl e"

definition tbind :: "('e, 'd, 'a) tx \<Rightarrow> ('a \<Rightarrow> ('e, 'd, 'b) tx) \<Rightarrow> ('e, 'd, 'b) tx" where
  "tbind m f d = (case m d of Inl e \<Rightarrow> Inl e | Inr (x, d') \<Rightarrow> f x d')"

text \<open>A read of the current database.\<close>

definition query :: "('d \<Rightarrow> 'a) \<Rightarrow> ('e, 'd, 'a) tx" where
  "query f d = Inr (f d, d)"

text \<open>\<open>if (!b) throw e\<close>\<close>

definition ensure :: "bool \<Rightarrow> 'e \<Rightarrow> ('e, 'd, unit) tx" where
  "ensure b e d = (if b then Inr ((), d) else Inl e)"

definition modify :: "('d \<Rightarrow> 'd) \<Rightarrow> ('e, 'd, unit) tx" where
  "modify f d = Inr ((), f d)"

text \<open>\<open>try { m } catch (e) { throw h(e) }\<close>\<close>

definition rethrow :: "('e \<Rightarrow> 'e) \<Rightarrow> ('e, 'd, 'a) tx \<Rightarrow> ('e, 'd, 'a) tx" where
  "rethrow h m d = (case m d of Inl e \<Rightarrow> Inl (h e) | Inr r \<Rightarrow> Inr r)"

text \<open>A step whose value comes from a pure computation that may throw (a schema's \<open>parse\<close>).\<close>

definition lift_result :: "'e + 'a \<Rightarrow> ('e, 'd, 'a) tx" where
  "lift_result r d = (case r of Inl e \<Rightarrow> Inl e | Inr x \<Rightarrow> Inr (x, d))"

lemmas tx_defs = treturn_def throw_def tbind_def query_def ensure_def modify_def rethrow_def
  lift_result_def

lemma tbind_Inr_iff [tx_simps]:
  "tbind m f d = Inr r \<longleftrightarrow> (\<exists>x d'. m d = Inr (x, d') \<and> f x d' = Inr r)"
  by (auto simp: tbind_def split: sum.splits)

lemma tbind_Inl_iff [tx_simps]:
  "tbind m f d = Inl e \<longleftrightarrow> m d = Inl e \<or> (\<exists>x d'. m d = Inr (x, d') \<and> f x d' = Inl e)"
  by (auto simp: tbind_def split: sum.splits)

lemma treturn_iff [tx_simps]: "treturn x d = Inr r \<longleftrightarrow> r = (x, d)" "treturn x d \<noteq> Inl e"
  by (auto simp: treturn_def)

lemma throw_iff [tx_simps]: "throw e d \<noteq> Inr r" "throw e d = Inl e' \<longleftrightarrow> e' = e"
  by (auto simp: throw_def)

lemma query_iff [tx_simps]: "query f d = Inr r \<longleftrightarrow> r = (f d, d)" "query f d \<noteq> Inl e"
  by (auto simp: query_def)

lemma ensure_iff [tx_simps]:
  "ensure b e d = Inr r \<longleftrightarrow> b \<and> r = ((), d)" "ensure b e d = Inl e' \<longleftrightarrow> \<not> b \<and> e' = e"
  by (auto simp: ensure_def)

lemma modify_iff [tx_simps]: "modify f d = Inr r \<longleftrightarrow> r = ((), f d)" "modify f d \<noteq> Inl e"
  by (auto simp: modify_def)

lemma rethrow_iff [tx_simps]:
  "rethrow h m d = Inr r \<longleftrightarrow> m d = Inr r"
  "rethrow h m d = Inl e \<longleftrightarrow> (\<exists>e'. m d = Inl e' \<and> e = h e')"
  by (auto simp: rethrow_def split: sum.splits)

lemma lift_result_iff [tx_simps]:
  "lift_result v d = Inr r \<longleftrightarrow> (\<exists>x. v = Inr x \<and> r = (x, d))"
  "lift_result v d = Inl e \<longleftrightarrow> v = Inl e"
  by (auto simp: lift_result_def split: sum.splits)

text \<open>A case distinction on a row that may be missing.\<close>

lemma option_tx_iff [tx_simps]:
  "(case v of None \<Rightarrow> m | Some x \<Rightarrow> f x) d = Inr r \<longleftrightarrow>
     (v = None \<and> m d = Inr r) \<or> (\<exists>x. v = Some x \<and> f x d = Inr r)"
  "(case v of None \<Rightarrow> m | Some x \<Rightarrow> f x) d = Inl err \<longleftrightarrow>
     (v = None \<and> m d = Inl err) \<or> (\<exists>x. v = Some x \<and> f x d = Inl err)"
  for m :: "('e, 'd, 'a) tx"
  by (auto split: option.splits)

text \<open>The rows of a loop, whose \<open>i\<close>-th turn is numbered \<open>i\<close>\<close>

definition numbered :: "(nat \<Rightarrow> 'a \<Rightarrow> 'b) \<Rightarrow> 'a list \<Rightarrow> 'b list" where
  "numbered f xs = map (case_prod f) (enumerate 0 xs)"

lemma length_numbered [simp]: "length (numbered f xs) = length xs"
  by (simp add: numbered_def)

lemma nth_numbered [simp]: "i < length xs \<Longrightarrow> numbered f xs ! i = f i (xs ! i)"
  by (simp add: numbered_def nth_enumerate_eq)

lemma set_numbered: "set (numbered f xs) = {f i (xs ! i) | i. i < length xs}"
  by (force simp: in_set_conv_nth)

text \<open>\<open>for (const x of xs) { insert; rows.push(parse(row)) }\<close>\<close>

fun insert_each :: "('r \<Rightarrow> ('e, 'd, unit) tx) \<Rightarrow> ('r \<Rightarrow> 'e + 'p) \<Rightarrow> 'r list \<Rightarrow> ('e, 'd, 'p list) tx" where
  "insert_each ins parse [] = treturn []"
| "insert_each ins parse (r # rs) =
     tbind (ins r) (\<lambda>_. tbind (lift_result (parse r)) (\<lambda>p. tbind (insert_each ins parse rs) (\<lambda>ps. treturn (p # ps))))"

lemma insert_each_Inr:
  assumes "insert_each ins parse rs d = Inr (ps, d')"
    and "\<And>r d d'. ins r d = Inr ((), d') \<Longrightarrow> d' = store [r] d"
    and "\<And>d. store [] d = d" "\<And>r rs d. store rs (store [r] d) = store (r # rs) d"
  shows "d' = store rs d \<and> map parse rs = map Inr ps"
  using assms(1)
proof (induction rs arbitrary: d ps)
  case Nil
  then show ?case by (simp add: tx_simps assms(3))
next
  case (Cons r rs)
  then obtain p ps' where ps: "parse r = Inr p" "insert_each ins parse rs (store [r] d) = Inr (ps', d')" "ps = p # ps'"
    by (auto simp: tx_simps dest!: assms(2))
  with Cons.IH [OF ps(2)] show ?case by (simp add: assms(4))
qed

subsection \<open>Relations a transaction step maintains\<close>

text \<open>
  \<open>steps R m\<close>: whenever \<open>m\<close> succeeds, \<open>R\<close> holds between the databases before and after. For a
  reflexive and transitive \<open>R\<close> (what a step may change, what it must keep) the rules below lift it
  from the single statements to every composed operation.
\<close>

definition steps :: "('d \<Rightarrow> 'd \<Rightarrow> bool) \<Rightarrow> ('e, 'd, 'a) tx \<Rightarrow> bool" where
  "steps R m \<longleftrightarrow> (\<forall>d x d'. m d = Inr (x, d') \<longrightarrow> R d d')"

lemma stepsD: "steps R m \<Longrightarrow> m d = Inr (x, d') \<Longrightarrow> R d d'"
  by (simp add: steps_def)

locale step_preorder =
  fixes R :: "'d \<Rightarrow> 'd \<Rightarrow> bool"
  assumes R_refl: "R d d"
    and R_trans: "R d d' \<Longrightarrow> R d' d'' \<Longrightarrow> R d d''"
begin

lemma steps_pure:
  "steps R (treturn x)" "steps R (throw e)" "steps R (query f)" "steps R (ensure b e)"
  "steps R (lift_result v)"
  by (auto simp: steps_def tx_simps R_refl)

lemma steps_tbind: "steps R m \<Longrightarrow> (\<And>x. steps R (f x)) \<Longrightarrow> steps R (tbind m f)"
  unfolding steps_def tx_simps by (blast intro: R_trans)

lemma steps_rethrow: "steps R m \<Longrightarrow> steps R (rethrow h m)"
  by (auto simp: steps_def tx_simps)

lemma steps_if: "steps R m \<Longrightarrow> steps R n \<Longrightarrow> steps R (if b then m else n)"
  by simp

lemma steps_option:
  "steps R m \<Longrightarrow> (\<And>x. steps R (f x)) \<Longrightarrow> steps R (case v of None \<Rightarrow> m | Some x \<Rightarrow> f x)"
  by (cases v) auto

lemma steps_modify: "(\<And>d. R d (g d)) \<Longrightarrow> steps R (modify g)"
  by (auto simp: steps_def tx_simps)

lemma steps_insert_each: "(\<And>r. r \<in> set rs \<Longrightarrow> steps R (ins r)) \<Longrightarrow> steps R (insert_each ins parse rs)"
  by (induction rs) (auto intro!: steps_pure steps_tbind)

lemmas steps_rules = steps_pure steps_tbind steps_rethrow steps_if steps_option

end

subsection \<open>Code outside a transaction\<close>

type_synonym ('e, 'd, 'a) op = "'d \<Rightarrow> ('e + 'a) \<times> 'd"

definition oreturn :: "'a \<Rightarrow> ('e, 'd, 'a) op" where
  "oreturn x d = (Inr x, d)"

definition othrow :: "'e \<Rightarrow> ('e, 'd, 'a) op" where
  "othrow e d = (Inl e, d)"

text \<open>Sequential awaits: an error ends the sequence, what was committed before stays.\<close>

definition obind :: "('e, 'd, 'a) op \<Rightarrow> ('a \<Rightarrow> ('e, 'd, 'b) op) \<Rightarrow> ('e, 'd, 'b) op" where
  "obind m f d = (case m d of (Inl e, d') \<Rightarrow> (Inl e, d') | (Inr x, d') \<Rightarrow> f x d')"

lemma obind_Inr [simp]: "m d = (Inr x, d') \<Longrightarrow> obind m f d = f x d'"
  by (simp add: obind_def)

lemma obind_Inl [simp]: "m d = (Inl e, d') \<Longrightarrow> obind m f d = (Inl e, d')"
  by (simp add: obind_def)

text \<open>\<open>osteps R m\<close>: \<open>R\<close> holds between the databases before and after, whether \<open>m\<close> succeeds or throws.\<close>

definition osteps :: "('d \<Rightarrow> 'd \<Rightarrow> bool) \<Rightarrow> ('e, 'd, 'a) op \<Rightarrow> bool" where
  "osteps R m \<longleftrightarrow> (\<forall>d. R d (snd (m d)))"

lemma ostepsD: "osteps R m \<Longrightarrow> R d (snd (m d))"
  by (simp add: osteps_def)

context step_preorder
begin

lemma osteps_pure: "osteps R (oreturn x)" "osteps R (othrow e)"
  by (simp_all add: osteps_def oreturn_def othrow_def R_refl)

lemma osteps_obind:
  assumes "osteps R m" "\<And>x. osteps R (f x)"
  shows "osteps R (obind m f)"
  unfolding osteps_def
proof
  fix d
  obtain r d' where m: "m d = (r, d')" by fastforce
  with assms(1) have "R d d'" by (auto dest: ostepsD [of R m d])
  then show "R d (snd (obind m f d))"
    using m ostepsD [OF assms(2)] by (cases r) (auto intro: R_trans)
qed

lemma osteps_if: "osteps R m \<Longrightarrow> osteps R n \<Longrightarrow> osteps R (if b then m else n)"
  by simp

lemma osteps_option:
  "osteps R m \<Longrightarrow> (\<And>x. osteps R (f x)) \<Longrightarrow> osteps R (case v of None \<Rightarrow> m | Some x \<Rightarrow> f x)"
  by (cases v) auto

lemmas osteps_rules = osteps_pure osteps_obind osteps_if osteps_option

end

end
