(* ===== verification/Schemas.thy ===== *)
theory Schemas
  imports Prelude
begin

text \<open>
  The data the runtime persists and validates: the enums of \<open>src/src/shared/runtimeTypes.ts\<close>, of the
  status modules and of \<open>src/src/schemas/\<close>, one record per table row or schema object with the columns
  the code writes, and the receipt payloads as the discriminated union of
  \<open>src/src/schemas/actionReceipt.ts\<close>. The \<open>_ok\<close> predicates are the checks of the Zod schemas that can
  still fail once ids and enums are typed.
\<close>

subsection \<open>Enums\<close>

datatype authority_outcome =
  act | act_and_report | escalate | setup_required | capability_missing | refuse

datatype work_order_status =
    RECEIVED | INTENT_PARSED | AUTHORITY_CLASSIFIED | READY_TO_ACT | AWAITING_AUTHORIZATION
  | SETUP_REQUIRED | CAPABILITY_MISSING | REFUSED | EXECUTING | VALIDATING | RECEIPT_WRITTEN
  | MEMORY_CANDIDATES_CREATED | COMPLETED | FAILED

datatype memory_candidate_review_status =
  proposed | needs_review | approved | rejected | consolidated | superseded | promoted

datatype run_status =
  RUN_PENDING | RUN_EXECUTING | RUN_VALIDATING | RUN_COMPLETED | RUN_FAILED

datatype delegation_mode = supervised | peer

datatype directive_type = decision | focus | action | blocker | watch

datatype directive_state =
    PROPOSED | OPEN | IN_PROGRESS | DEFERRED | D_COMPLETED | DISMISSED | EXPIRED | SUPERSEDED

datatype directive_completion_mode = operator_attested | system_validated

datatype cognitive_run_status =
  CR_PENDING | CR_RUNNING | CR_COMPLETED | CR_FAILED | CR_CANCELLED

datatype model_invocation_status = STARTED | SUCCEEDED | INV_FAILED | TIMED_OUT

datatype tool_invocation_status = ti_pending | ti_succeeded | ti_failed

datatype polarity = pol_approve | pol_refuse

datatype rule_status = rule_active | rule_revoked

subsection \<open>Context rows: actors, workspaces, projects, threads, messages\<close>

record actor =
  ac_id :: uuid
  ac_tenant_id :: uuid
  ac_actor_name :: string
  ac_reports_to_actor_id :: "uuid option"

record workspace =
  ws_id :: uuid
  ws_tenant_id :: uuid

record project =
  pj_id :: uuid
  pj_tenant_id :: uuid
  pj_workspace_id :: uuid

record thread =
  th_id :: uuid
  th_tenant_id :: uuid
  th_workspace_id :: "uuid option"
  th_project_id :: "uuid option"
  th_title :: string
  th_originating_surface :: "string option"

record message =
  ms_id :: uuid
  ms_tenant_id :: uuid
  ms_thread_id :: uuid
  ms_actor_id :: uuid
  ms_role :: string
  ms_content :: string
  ms_source_surface :: "string option"
  ms_source_correlation_id :: "string option"
  ms_created_at :: timestamp

subsection \<open>WorkOrders, runs, authority decisions\<close>

record work_order =
  wo_id :: uuid
  wo_tenant_id :: uuid
  wo_workspace_id :: "uuid option"
  wo_project_id :: "uuid option"
  wo_thread_id :: "uuid option"
  wo_message_id :: "uuid option"
  wo_owner_actor_id :: "uuid option"
  wo_task_type :: string
  wo_interpreted_intent :: "string option"
  wo_status :: work_order_status
  wo_idempotency_key :: string
  wo_authority_decision_id :: "uuid option"
  wo_created_at :: timestamp
  wo_updated_at :: timestamp
  wo_parent_work_order_id :: "uuid option"
  wo_delegation_mode :: "delegation_mode option"

definition workOrderSchema_ok :: "work_order \<Rightarrow> bool" where
  "workOrderSchema_ok w \<longleftrightarrow> wo_task_type w \<noteq> [] \<and> wo_idempotency_key w \<noteq> []"

record wo_transition =
  wt_id :: uuid
  wt_tenant_id :: uuid
  wt_work_order_id :: uuid
  wt_from_status :: "work_order_status option"
  wt_to_status :: work_order_status
  wt_actor_id :: "uuid option"
  wt_reason :: string
  wt_transition_type :: string
  wt_metadata :: metadata
  wt_created_at :: timestamp

record run =
  ru_id :: uuid
  ru_tenant_id :: uuid
  ru_work_order_id :: uuid
  ru_actor_id :: uuid
  ru_status :: run_status
  ru_attempt_number :: nat
  ru_started_at :: "timestamp option"
  ru_idempotency_key :: string
  ru_created_at :: timestamp

record authority_decision =
  ad_id :: uuid
  ad_tenant_id :: uuid
  ad_schema_version :: nat
  ad_outcome :: authority_outcome
  ad_requires_human_gatekeeper :: bool
  ad_reason :: "string option"
  ad_risk_level :: "string option"
  ad_deciding_actor_id :: "uuid option"
  ad_work_order_id :: "uuid option"
  ad_run_id :: "uuid option"
  ad_tool_invocation_id :: "uuid option"
  ad_required_setup :: "string option"
  ad_resolved_via_standing_rule_id :: "uuid option"
  ad_created_at :: timestamp

record standing_rule =
  sr_id :: uuid
  sr_tenant_id :: uuid
  sr_polarity :: polarity
  sr_scope_actor_id :: uuid
  sr_match_criteria :: metadata
  sr_status :: rule_status
  sr_created_at :: timestamp

record tool_invocation =
  ti_id :: uuid
  ti_tenant_id :: uuid
  ti_work_order_id :: "uuid option"
  ti_tool_identifier :: string
  ti_tool_version :: "string option"
  ti_input_payload :: json
  ti_output_payload :: "json option"
  ti_status :: tool_invocation_status
  ti_error_payload :: "(string \<times> string) option"
  ti_idempotency_key :: string
  ti_created_at :: timestamp
  ti_completed_at :: "timestamp option"

record artifact =
  af_id :: uuid
  af_tenant_id :: uuid
  af_workspace_id :: "uuid option"
  af_project_id :: "uuid option"
  af_work_order_id :: "uuid option"
  af_actor_id :: "uuid option"
  af_artifact_type :: string
  af_storage_reference :: "string option"
  af_mime_type :: "string option"
  af_byte_count :: "nat option"
  af_content_hash :: "string option"
  af_idempotency_key :: string
  af_created_at :: timestamp

subsection \<open>Receipts\<close>

datatype skip_reason = ownership_unauthorized | owner_not_elora

datatype receipt_payload =
    work_order_created uuid string "string option"
  | authority_decided uuid authority_outcome bool
  | state_transitioned string uuid string string
  | tool_invoked uuid string string
  | agent_delegated string string uuid uuid delegation_mode string
  | artifact_created uuid string
  | memory_candidate_created uuid "string option"
  | run_failed uuid string string
  | run_completed uuid "string option"
  | receipt_corrected uuid string
  | receipt_superseded uuid string
  | elora_ingestion_completed uuid string "uuid list"
  | elora_request_blocked "uuid option" string
  | trigger_created uuid string string authority_outcome
  | trigger_fire_skipped uuid string string skip_reason timestamp

text \<open>The literal of \<open>receipt_type\<close>, as the column stores it.\<close>

fun receipt_type :: "receipt_payload \<Rightarrow> string" where
  "receipt_type (work_order_created _ _ _) = ''work_order_created''"
| "receipt_type (authority_decided _ _ _) = ''authority_decided''"
| "receipt_type (state_transitioned _ _ _ _) = ''state_transitioned''"
| "receipt_type (tool_invoked _ _ _) = ''tool_invoked''"
| "receipt_type (agent_delegated _ _ _ _ _ _) = ''agent_delegated''"
| "receipt_type (artifact_created _ _) = ''artifact_created''"
| "receipt_type (memory_candidate_created _ _) = ''memory_candidate_created''"
| "receipt_type (run_failed _ _ _) = ''run_failed''"
| "receipt_type (run_completed _ _) = ''run_completed''"
| "receipt_type (receipt_corrected _ _) = ''receipt_corrected''"
| "receipt_type (receipt_superseded _ _) = ''receipt_superseded''"
| "receipt_type (elora_ingestion_completed _ _ _) = ''elora_ingestion_completed''"
| "receipt_type (elora_request_blocked _ _) = ''elora_request_blocked''"
| "receipt_type (trigger_created _ _ _ _) = ''trigger_created''"
| "receipt_type (trigger_fire_skipped _ _ _ _ _) = ''trigger_fire_skipped''"

text \<open>The \<open>min(1)\<close> checks of the payload schemas.\<close>

fun receipt_payload_ok :: "receipt_payload \<Rightarrow> bool" where
  "receipt_payload_ok (work_order_created _ t _) \<longleftrightarrow> t \<noteq> []"
| "receipt_payload_ok (authority_decided _ _ _) \<longleftrightarrow> True"
| "receipt_payload_ok (state_transitioned e _ f t) \<longleftrightarrow> e \<noteq> [] \<and> f \<noteq> [] \<and> t \<noteq> []"
| "receipt_payload_ok (tool_invoked _ i s) \<longleftrightarrow> i \<noteq> [] \<and> s \<noteq> []"
| "receipt_payload_ok (agent_delegated p c _ _ _ r) \<longleftrightarrow> p \<noteq> [] \<and> c \<noteq> [] \<and> r \<noteq> []"
| "receipt_payload_ok (artifact_created _ t) \<longleftrightarrow> t \<noteq> []"
| "receipt_payload_ok (memory_candidate_created _ _) \<longleftrightarrow> True"
| "receipt_payload_ok (run_failed _ t m) \<longleftrightarrow> t \<noteq> [] \<and> m \<noteq> []"
| "receipt_payload_ok (run_completed _ _) \<longleftrightarrow> True"
| "receipt_payload_ok (receipt_corrected _ r) \<longleftrightarrow> r \<noteq> []"
| "receipt_payload_ok (receipt_superseded _ r) \<longleftrightarrow> r \<noteq> []"
| "receipt_payload_ok (elora_ingestion_completed _ s _) \<longleftrightarrow> s \<noteq> []"
| "receipt_payload_ok (elora_request_blocked _ s) \<longleftrightarrow> s \<noteq> []"
| "receipt_payload_ok (trigger_created _ a k _) \<longleftrightarrow> a \<noteq> [] \<and> k \<noteq> []"
| "receipt_payload_ok (trigger_fire_skipped _ a c _ _) \<longleftrightarrow> a \<noteq> [] \<and> c \<noteq> []"

record action_receipt =
  re_id :: uuid
  re_tenant_id :: uuid
  re_schema_version :: nat
  re_actor_id :: uuid
  re_acting_system :: string
  re_created_at :: timestamp
  re_parent_receipt_id :: "uuid option"
  re_supersedes_receipt_id :: "uuid option"
  re_correction_receipt_id :: "uuid option"
  re_payload :: receipt_payload

definition actionReceiptSchema_ok :: "('a) action_receipt_scheme \<Rightarrow> bool" where
  "actionReceiptSchema_ok r \<longleftrightarrow>
     0 < re_schema_version r \<and> re_acting_system r \<noteq> [] \<and> receipt_payload_ok (re_payload r)"

text \<open>The row adds the columns the payload does not carry.\<close>

record action_receipt_row = action_receipt +
  re_work_order_id :: "uuid option"
  re_run_id :: "uuid option"
  re_authority_decision_id :: "uuid option"
  re_tool_invocation_id :: "uuid option"
  re_idempotency_key :: string

subsection \<open>Memory\<close>

record memory_candidate =
  mc_id :: uuid
  mc_tenant_id :: uuid
  mc_source_message_id :: "uuid option"
  mc_source_receipt_id :: "uuid option"
  mc_source_work_order_id :: "uuid option"
  mc_candidate_content :: string
  mc_candidate_type :: "string option"
  mc_confidence :: "rat option"
  mc_scope :: "string option"
  mc_review_status :: memory_candidate_review_status
  mc_reason_for_creation :: "string option"
  mc_promoted_memory_record_id :: "uuid option"
  mc_created_at :: timestamp
  mc_reviewed_by_actor_id :: "uuid option"
  mc_reviewed_at :: "timestamp option"
  mc_review_note :: "string option"

definition memoryCandidateSchema_ok :: "memory_candidate \<Rightarrow> bool" where
  "memoryCandidateSchema_ok c \<longleftrightarrow>
     mc_candidate_content c \<noteq> [] \<and>
     (case mc_confidence c of None \<Rightarrow> True | Some p \<Rightarrow> 0 \<le> p \<and> p \<le> 1) \<and>
     (mc_source_message_id c \<noteq> None \<or> mc_source_receipt_id c \<noteq> None \<or> mc_source_work_order_id c \<noteq> None)"

record memory_record =
  mr_id :: uuid
  mr_tenant_id :: uuid
  mr_source_candidate_id :: "uuid option"
  mr_content :: string
  mr_record_type :: "string option"
  mr_scope :: "string option"
  mr_current_version_id :: "uuid option"
  mr_deleted_at :: "timestamp option"
  mr_created_at :: timestamp

definition memoryRecordSchema_ok :: "memory_record \<Rightarrow> bool" where
  "memoryRecordSchema_ok r \<longleftrightarrow> mr_content r \<noteq> []"

record memory_record_version =
  mv_id :: uuid
  mv_tenant_id :: uuid
  mv_memory_record_id :: uuid
  mv_version_number :: nat
  mv_content :: string
  mv_change_reason :: string
  mv_is_deletion_marker :: bool
  mv_created_at :: timestamp

definition memoryRecordVersionSchema_ok :: "memory_record_version \<Rightarrow> bool" where
  "memoryRecordVersionSchema_ok v \<longleftrightarrow> 0 < mv_version_number v \<and> mv_change_reason v \<noteq> []"

datatype embedding_status = ACTIVE | EMB_SUPERSEDED

text \<open>\<open>me_embedding\<close> is the text form in which the driver reads and writes a \<open>vector\<close> column.\<close>

record memory_embedding =
  me_id :: uuid
  me_tenant_id :: uuid
  me_memory_record_version_id :: uuid
  me_embedding :: string
  me_model_provider :: string
  me_model_name :: string
  me_model_version :: string
  me_dimensions :: nat
  me_source_content_hash :: string
  me_status :: embedding_status
  me_superseded_by_embedding_id :: "uuid option"
  me_created_at :: timestamp

definition memoryEmbeddingSchema_ok :: "memory_embedding \<Rightarrow> bool" where
  "memoryEmbeddingSchema_ok m \<longleftrightarrow> me_model_provider m \<noteq> [] \<and> me_model_name m \<noteq> [] \<and> me_model_version m \<noteq> [] \<and>
     0 < me_dimensions m \<and> me_source_content_hash m \<noteq> []"

subsection \<open>Operator directives\<close>

record operator_directive =
  od_id :: uuid
  od_tenant_id :: uuid
  od_directive_type :: directive_type
  od_state :: directive_state
  od_dedupe_key :: string
  od_cycle_number :: "int option"
  od_issuing_actor_id :: uuid
  od_owning_actor_id :: uuid
  od_first_seen_at :: timestamp
  od_last_seen_at :: timestamp
  od_accepted_at :: "timestamp option"
  od_started_at :: "timestamp option"
  od_completed_at :: "timestamp option"
  od_deferred_at :: "timestamp option"
  od_dismissed_at :: "timestamp option"
  od_expires_at :: "timestamp option"
  od_due_at :: "timestamp option"
  od_window_start_at :: "timestamp option"
  od_window_end_at :: "timestamp option"
  od_created_at :: timestamp
  od_updated_at :: timestamp

definition operatorDirectiveSchema_ok :: "operator_directive \<Rightarrow> bool" where
  "operatorDirectiveSchema_ok x \<longleftrightarrow> od_dedupe_key x \<noteq> []"

record directive_revision =
  dr_id :: uuid
  dr_tenant_id :: uuid
  dr_directive_id :: uuid
  dr_revision_number :: nat
  dr_title :: string
  dr_body :: "string option"
  dr_why_now :: "string option"
  dr_priority :: "string option"
  dr_proposed_owner_actor_id :: "uuid option"
  dr_due_at :: "timestamp option"
  dr_window_start_at :: "timestamp option"
  dr_window_end_at :: "timestamp option"
  dr_expires_at :: "timestamp option"
  dr_content_hash :: string
  dr_change_reason :: "string option"
  dr_created_by_actor_id :: uuid
  dr_created_at :: timestamp

definition operatorDirectiveRevisionSchema_ok :: "directive_revision \<Rightarrow> bool" where
  "operatorDirectiveRevisionSchema_ok r \<longleftrightarrow>
     0 < dr_revision_number r \<and> dr_title r \<noteq> [] \<and> dr_content_hash r \<noteq> []"

record directive_transition =
  dt_id :: uuid
  dt_tenant_id :: uuid
  dt_directive_id :: uuid
  dt_from_state :: "directive_state option"
  dt_to_state :: directive_state
  dt_actor_id :: "uuid option"
  dt_transition_type :: string
  dt_reason :: string
  dt_metadata :: metadata
  dt_created_at :: timestamp

definition operatorDirectiveTransitionSchema_ok :: "directive_transition \<Rightarrow> bool" where
  "operatorDirectiveTransitionSchema_ok t \<longleftrightarrow> dt_transition_type t \<noteq> [] \<and> dt_reason t \<noteq> []"

record directive_provenance =
  dp_id :: uuid
  dp_tenant_id :: uuid
  dp_directive_id :: uuid
  dp_message_id :: "uuid option"
  dp_work_order_id :: "uuid option"
  dp_run_id :: "uuid option"
  dp_authority_decision_id :: "uuid option"
  dp_tool_invocation_id :: "uuid option"
  dp_action_receipt_id :: "uuid option"
  dp_artifact_id :: "uuid option"
  dp_memory_candidate_id :: "uuid option"
  dp_memory_record_id :: "uuid option"
  dp_provider :: "string option"
  dp_external_identifier :: "string option"
  dp_external_locator :: "string option"
  dp_label :: "string option"
  dp_observed_at :: "timestamp option"
  dp_content_hash :: "string option"
  dp_metadata :: metadata
  dp_created_at :: timestamp

definition provenance_internal_refs :: "directive_provenance \<Rightarrow> uuid option list" where
  "provenance_internal_refs p =
     [dp_message_id p, dp_work_order_id p, dp_run_id p, dp_authority_decision_id p,
      dp_tool_invocation_id p, dp_action_receipt_id p, dp_artifact_id p,
      dp_memory_candidate_id p, dp_memory_record_id p]"

text \<open>The schema's \<open>refine\<close>, and the same CHECK of the table: exactly one source form.\<close>

definition provenance_one_source :: "directive_provenance \<Rightarrow> bool" where
  "provenance_one_source p \<longleftrightarrow>
     length (filter (\<lambda>v. v \<noteq> None) (provenance_internal_refs p))
       + (if dp_provider p \<noteq> None then 1 else 0) = 1"

record directive_suppression =
  ds_id :: uuid
  ds_tenant_id :: uuid
  ds_dedupe_key :: string
  ds_reason :: string
  ds_suppressed_by_actor_id :: uuid
  ds_suppressed_until :: timestamp
  ds_created_at :: timestamp

definition operatorDirectiveSuppressionSchema_ok :: "directive_suppression \<Rightarrow> bool" where
  "operatorDirectiveSuppressionSchema_ok x \<longleftrightarrow> ds_dedupe_key x \<noteq> [] \<and> ds_reason x \<noteq> []"

subsection \<open>Cognitive runs\<close>

record cognitive_run =
  cr_id :: uuid
  cr_tenant_id :: uuid
  cr_thread_id :: "uuid option"
  cr_message_id :: "uuid option"
  cr_initiated_by_actor_id :: "uuid option"
  cr_objective_kind :: string
  cr_status :: cognitive_run_status
  cr_idempotency_key :: string
  cr_started_at :: "timestamp option"
  cr_ended_at :: "timestamp option"
  cr_created_at :: timestamp
  cr_updated_at :: timestamp

text \<open>\<open>/^[a-z][a-z0-9_]*$/\<close>, 1 to 64 characters.\<close>

definition objective_kind_ok :: "string \<Rightarrow> bool" where
  "objective_kind_ok s \<longleftrightarrow>
     (case s of [] \<Rightarrow> False
      | c # cs \<Rightarrow> is_alpha_char c \<and> lower_char c = c \<and> length s \<le> 64 \<and>
          list_all (\<lambda>x. (is_alpha_char x \<and> lower_char x = x) \<or> is_digit_char x \<or> x = CHR ''_'') cs)"

definition cognitiveRunSchema_ok :: "cognitive_run \<Rightarrow> bool" where
  "cognitiveRunSchema_ok r \<longleftrightarrow> objective_kind_ok (cr_objective_kind r) \<and> cr_idempotency_key r \<noteq> []"

record cognitive_run_transition =
  ct_id :: uuid
  ct_tenant_id :: uuid
  ct_cognitive_run_id :: uuid
  ct_from_state :: "cognitive_run_status option"
  ct_to_state :: cognitive_run_status
  ct_actor_id :: "uuid option"
  ct_reason :: string
  ct_transition_type :: string
  ct_metadata :: metadata
  ct_created_at :: timestamp

datatype model_operation_kind =
    response_synthesis | intent_interpretation | planning | critique | extraction | reranking | embedding

datatype data_classification = PUBLIC | INTERNAL | CONFIDENTIAL | RESTRICTED | SECRET

record model_invocation =
  mi_id :: uuid
  mi_tenant_id :: uuid
  mi_cognitive_run_id :: "uuid option"
  mi_operation_kind :: model_operation_kind
  mi_operation_version :: int
  mi_input_schema_version :: int
  mi_output_schema_version :: int
  mi_provider :: string
  mi_model :: string
  mi_status :: model_invocation_status
  mi_invocation_key :: string
  mi_attempt_number :: int
  mi_input_tokens :: "int option"
  mi_output_tokens :: "int option"
  mi_cache_creation_input_tokens :: "int option"
  mi_cache_read_input_tokens :: "int option"
  mi_provider_usage :: metadata
  mi_request_fingerprint :: "string option"
  mi_response_fingerprint :: "string option"
  mi_duration_ms :: "int option"
  mi_error_class :: "string option"
  mi_provider_request_id :: "string option"
  mi_provider_response_id :: "string option"
  mi_resolved_model :: "string option"
  mi_input_policy_version :: int
  mi_input_classification :: data_classification
  mi_redaction_applied :: bool
  mi_redaction_count :: int
  mi_started_at :: timestamp
  mi_completed_at :: "timestamp option"
  mi_created_at :: timestamp

subsection \<open>Scheduled triggers\<close>

datatype trigger_status = tg_active | tg_paused | tg_revoked

datatype schedule_kind = cron | interval | one_off

fun schedule_kind_str :: "schedule_kind \<Rightarrow> string" where
  "schedule_kind_str cron = ''cron''"
| "schedule_kind_str interval = ''interval''"
| "schedule_kind_str one_off = ''one_off''"

record scheduled_trigger =
  tg_id :: uuid
  tg_tenant_id :: uuid
  tg_workspace_id :: "uuid option"
  tg_project_id :: "uuid option"
  tg_owning_actor_id :: uuid
  tg_created_by_actor_id :: uuid
  tg_authority_decision_id :: uuid
  tg_status :: trigger_status
  tg_schedule_kind :: schedule_kind
  tg_schedule_expression :: string
  tg_timezone :: "string option"
  tg_synthetic_message_content :: string
  tg_trigger_category :: "string option"
  tg_next_fire_at :: "timestamp option"
  tg_last_fired_at :: "timestamp option"
  tg_last_fired_work_order_id :: "uuid option"
  tg_thread_id :: "uuid option"
  tg_idempotency_key :: string
  tg_created_at :: timestamp
  tg_updated_at :: timestamp

definition scheduledTriggerSchema_ok :: "scheduled_trigger \<Rightarrow> bool" where
  "scheduledTriggerSchema_ok x \<longleftrightarrow> tg_schedule_expression x \<noteq> [] \<and> tg_synthetic_message_content x \<noteq> []"

subsection \<open>World state\<close>

record entity =
  en_id :: uuid
  en_tenant_id :: uuid
  en_entity_type :: string
  en_canonical_name :: string
  en_created_at :: timestamp

definition entitySchema_ok :: "entity \<Rightarrow> bool" where
  "entitySchema_ok x \<longleftrightarrow> en_entity_type x \<noteq> [] \<and> en_canonical_name x \<noteq> []"

record entity_alias =
  ea_id :: uuid
  ea_tenant_id :: uuid
  ea_entity_id :: uuid
  ea_alias :: string
  ea_created_at :: timestamp

definition entityAliasSchema_ok :: "entity_alias \<Rightarrow> bool" where
  "entityAliasSchema_ok x \<longleftrightarrow> ea_alias x \<noteq> []"

datatype claim_kind =
  observed | user_asserted | retrieved | inferred | predicted | planned | hypothetical

datatype claim_status = cs_active | cs_stale | cs_disputed | cs_superseded | cs_retracted

text \<open>\<open>clm_object_value = Some JNull\<close> is the jsonb value \<open>null\<close>, \<open>None\<close> the SQL NULL.\<close>

record claim =
  clm_id :: uuid
  clm_tenant_id :: uuid
  clm_subject_entity_id :: "uuid option"
  clm_predicate :: string
  clm_object_entity_id :: "uuid option"
  clm_object_value :: "json option"
  clm_claim_kind :: claim_kind
  clm_confidence :: "rat option"
  clm_sensitivity :: "string option"
  clm_refresh_after :: "timestamp option"
  clm_valid_from :: timestamp
  clm_valid_to :: "timestamp option"
  clm_recorded_at :: timestamp
  clm_status :: claim_status
  clm_supersedes_claim_id :: "uuid option"

definition claimSchema_ok :: "claim \<Rightarrow> bool" where
  "claimSchema_ok x \<longleftrightarrow> clm_predicate x \<noteq> [] \<and>
     (case clm_confidence x of None \<Rightarrow> True | Some p \<Rightarrow> 0 \<le> p \<and> p \<le> 1) \<and> clm_sensitivity x \<noteq> Some []"

datatype evidence_kind =
    ev_message | ev_work_order | ev_authority_decision | ev_action_receipt | ev_directive
  | ev_briefing_issue | ev_trigger | ev_memory_record

record claim_evidence =
  ce_id :: uuid
  ce_tenant_id :: uuid
  ce_claim_id :: uuid
  ce_source_kind :: evidence_kind
  ce_message_id :: "uuid option"
  ce_work_order_id :: "uuid option"
  ce_authority_decision_id :: "uuid option"
  ce_action_receipt_id :: "uuid option"
  ce_directive_id :: "uuid option"
  ce_briefing_issue_id :: "uuid option"
  ce_trigger_id :: "uuid option"
  ce_memory_record_id :: "uuid option"
  ce_created_at :: timestamp

subsection \<open>Briefings\<close>

datatype briefing_issue_status = ASSEMBLING | ISSUED | UPDATED | CLOSED | BI_FAILED

datatype briefing_lane = Lane directive_type | lane_completed | lane_evidence

datatype briefing_entry_status = be_active | be_removed

record briefing_issue =
  bi_id :: uuid
  bi_tenant_id :: uuid
  bi_briefing_type :: string
  bi_local_issue_date :: string
  bi_timezone :: string
  bi_status :: briefing_issue_status
  bi_issued_by_actor_id :: uuid
  bi_source_message_id :: "uuid option"
  bi_source_work_order_id :: "uuid option"
  bi_first_move_directive_id :: "uuid option"
  bi_prose_artifact_id :: "uuid option"
  bi_idempotency_key :: string
  bi_generated_at :: "timestamp option"
  bi_published_at :: "timestamp option"
  bi_closed_at :: "timestamp option"
  bi_created_at :: timestamp

definition briefingIssueSchema_ok :: "briefing_issue \<Rightarrow> bool" where
  "briefingIssueSchema_ok x \<longleftrightarrow> bi_briefing_type x \<noteq> [] \<and> bi_local_issue_date x \<noteq> [] \<and> bi_timezone x \<noteq> [] \<and>
     bi_idempotency_key x \<noteq> []"

record briefing_issue_entry =
  be_id :: uuid
  be_tenant_id :: uuid
  be_briefing_issue_id :: uuid
  be_directive_id :: "uuid option"
  be_directive_revision_id :: "uuid option"
  be_work_order_id :: "uuid option"
  be_action_receipt_id :: "uuid option"
  be_memory_candidate_id :: "uuid option"
  be_lane :: briefing_lane
  be_rank :: nat
  be_entry_status :: briefing_entry_status
  be_new_to_issue :: bool
  be_carried_from_issue_id :: "uuid option"
  be_age_days_snapshot :: "int option"
  be_carry_count_snapshot :: "int option"
  be_defer_count_snapshot :: "int option"
  be_escalation_level_snapshot :: "int option"
  be_inclusion_reason :: string
  be_created_at :: timestamp

text \<open>The schema's \<open>refine\<close>, and the same CHECK of the table.\<close>

definition entry_one_source :: "briefing_issue_entry \<Rightarrow> bool" where
  "entry_one_source x \<longleftrightarrow> length (filter (\<lambda>v. v \<noteq> None)
     [be_directive_id x, be_work_order_id x, be_action_receipt_id x, be_memory_candidate_id x]) = 1"

definition briefingIssueEntrySchema_ok :: "briefing_issue_entry \<Rightarrow> bool" where
  "briefingIssueEntrySchema_ok x \<longleftrightarrow> 0 < be_rank x \<and> be_inclusion_reason x \<noteq> [] \<and> entry_one_source x"

end
