(* ===== verification/Errors.thy ===== *)
theory Errors
  imports Schemas
begin

text \<open>
  Every error the modelled code can throw, one datatype per error module, joined in \<open>error\<close>. A
  wrapper class that only carries the message of the error it caught (\<open>DirectivePersistenceError\<close> and
  its kin) carries that error here.
\<close>

datatype db_error =
    CheckViolation string
  | UniqueViolation string
  | ForeignKeyViolation string
  | InvalidTextRepresentation string

text \<open>\<open>src/src/state/errors.ts\<close>\<close>

datatype state_error =
    InvalidWorkOrderTransitionError uuid work_order_status work_order_status
  | TerminalWorkOrderStateError uuid work_order_status
  | AuthorityOutcomeMismatchError uuid authority_outcome work_order_status work_order_status
  | WorkOrderNotFoundError uuid
  | DelegationReceiptWriteError db_error
  | StateReferenceNotFoundError string uuid
  | TenantScopeViolationError uuid uuid uuid

text \<open>\<open>src/src/directives/errors.ts\<close>\<close>

datatype directive_persistence_cause = QueryFailed db_error | SchemaRejected string | RaceRowMissing string

datatype directive_error =
    InvalidDirectiveInputError string
  | DirectiveActorNotFoundError string uuid
  | DirectiveReferenceNotFoundError string uuid
  | DirectiveNotFoundError uuid
  | InvalidDirectiveTransitionError uuid directive_state directive_state
  | TerminalDirectiveStateError uuid directive_state
  | UnsubstantiatedCompletionError uuid
  | DirectivePersistenceError directive_persistence_cause

text \<open>\<open>src/src/cognition/errors.ts\<close>\<close>

datatype cognition_error =
    InvalidCognitiveRunTransitionError uuid cognitive_run_status cognitive_run_status
  | TerminalCognitiveRunStateError uuid cognitive_run_status
  | CognitiveRunNotFoundError uuid
  | CognitiveRunCompletionUnsubstantiatedError uuid

text \<open>\<open>src/src/tools/errors.ts\<close>\<close>

datatype tool_error =
    DuplicateToolNameError string
  | ToolNotFoundError string
  | ToolAuthorityDeniedError string string
  | WorkspaceBoundaryViolationError string

text \<open>\<open>src/src/elora/errors.ts\<close>\<close>

datatype elora_error =
    EloraInvalidIngressInputError string
  | EloraContextResolutionError string uuid
  | EloraActorNotFoundError uuid
  | EloraTenantMismatchError uuid uuid uuid
  | EloraThreadPersistenceError db_error
  | EloraMessagePersistenceError db_error
  | EloraPersonaActorNotFoundError uuid string
  | EloraReceiptWriteError db_error
  | EloraMemoryCandidateError db_error

text \<open>\<open>src/src/elora/memory/errors.ts\<close>\<close>

datatype memory_error =
    MemoryCandidateNotFoundError uuid
  | InvalidCandidateReviewStateError uuid memory_candidate_review_status
  | CandidateNotApprovedError uuid memory_candidate_review_status
  | MemoryRecordNotFoundError uuid
  | MemoryRecordAlreadyDeletedError uuid
  | MemoryRecordVersionNotFoundError uuid
  | MemoryRecordVersionIsDeletionMarkerError uuid

text \<open>\<open>src/src/elora/triggers/errors.ts\<close>\<close>

datatype trigger_error =
    InvalidScheduledTriggerInputError string
  | ScheduledTriggerActorNotFoundError string uuid
  | ScheduledTriggerPersistenceError string
  | ScheduledTriggerReceiptWriteError db_error
  | InvalidScheduleExpressionError string schedule_kind

text \<open>\<open>src/src/elora/world-state/errors.ts\<close>\<close>

datatype world_state_error =
    InvalidEntityInputError string
  | InvalidClaimInputError string
  | EntityNotFoundError string uuid
  | ClaimNotFoundError uuid
  | ClaimEvidenceSourceNotFoundError evidence_kind uuid

text \<open>\<open>src/src/briefing/errors.ts\<close>\<close>

datatype briefing_error =
    InvalidBriefingInputError string
  | BriefingReferenceNotFoundError string uuid
  | BriefingIssueNotFoundError uuid
  | BriefingPersistenceError string

text \<open>
  \<open>DbError\<close> is a failed query of the driver, \<open>ZodError\<close> a schema's \<open>parse\<close>, \<open>PlainError\<close> a bare
  \<open>new Error\<close>, \<open>JsTypeError\<close> a property read of \<open>undefined\<close>.
\<close>

datatype error =
    DbError db_error
  | ZodError string
  | PlainError string
  | JsTypeError
  | StateError state_error
  | DirectiveError directive_error
  | CognitionError cognition_error
  | ToolError tool_error
  | EloraError elora_error
  | MemoryError memory_error
  | TriggerError trigger_error
  | WorldStateError world_state_error
  | BriefingError briefing_error

text \<open>
  A catch block that turns the failure of a query into its domain's own error. Only \<^const>\<open>DbError\<close>
  can reach it: the guarded block holds one query.
\<close>

fun on_db_error :: "(db_error \<Rightarrow> error) \<Rightarrow> error \<Rightarrow> error" where
  "on_db_error h (DbError e) = h e"
| "on_db_error h e = e"

end
