(* ===== verification/Ids.thy ===== *)
theory Ids
  imports Prelude
begin

text \<open>
  Identifiers as text (\<open>src/src/shared/ids.ts\<close> and the \<open>UUID_PATTERN\<close> of
  \<open>src/src/elora/normalizeIngress.ts\<close>): the canonical 8-4-4-4-12 rendering of a UUID, its parser,
  and the idempotency keys built by joining such renderings with \<open>:\<close>. The lemmas show that the
  rendering is read back exactly, so keys made of UUIDs and fixed texts determine their parts.
\<close>

subsection \<open>Hexadecimal digits\<close>

definition hex_digit :: "nat \<Rightarrow> char" where
  "hex_digit n = (if n < 10 then char_of (48 + n) else char_of (87 + n))"

definition hex_value :: "char \<Rightarrow> nat option" where
  "hex_value c = (let n = (of_char (lower_char c) :: nat) in
     if 48 \<le> n \<and> n \<le> 57 then Some (n - 48)
     else if 97 \<le> n \<and> n \<le> 102 then Some (n - 87) else None)"

lemma hex_value_digit [simp]: "n < 16 \<Longrightarrow> hex_value (hex_digit n) = Some n"
  by (auto simp: hex_value_def hex_digit_def lower_char_def Let_def)

lemma hex_digit_not_special:
  "n < 16 \<Longrightarrow> hex_digit n \<noteq> CHR '':''" "n < 16 \<Longrightarrow> hex_digit n \<noteq> CHR ''-''"
proof -
  have "hex_value CHR '':'' = None" "hex_value CHR ''-'' = None"
    by (simp_all add: hex_value_def lower_char_def)
  then show "n < 16 \<Longrightarrow> hex_digit n \<noteq> CHR '':''" "n < 16 \<Longrightarrow> hex_digit n \<noteq> CHR ''-''"
    by (metis hex_value_digit option.distinct(1))+
qed

text \<open>Big-endian base 16.\<close>

definition nibbles :: "nat \<Rightarrow> nat \<Rightarrow> nat list" where
  "nibbles k n = map (\<lambda>i. n div 16 ^ (k - 1 - i) mod 16) [0..<k]"

definition of_nibbles :: "nat list \<Rightarrow> nat" where
  "of_nibbles ds = foldl (\<lambda>a x. 16 * a + x) 0 ds"

lemma length_nibbles [simp]: "length (nibbles k n) = k"
  by (simp add: nibbles_def)

lemma nibbles_lt: "x \<in> set (nibbles k n) \<Longrightarrow> x < 16"
  by (auto simp: nibbles_def)

lemma nibbles_Suc: "nibbles (Suc k) n = nibbles k (n div 16) @ [n mod 16]"
proof -
  have "n div 16 ^ (k - i) = n div 16 div 16 ^ (k - 1 - i)" if "i < k" for i
  proof -
    from that have "k - i = Suc (k - 1 - i)" by simp
    then show ?thesis by (simp only: power_Suc div_mult2_eq)
  qed
  then show ?thesis by (simp add: nibbles_def)
qed

lemma of_nibbles_nibbles: "of_nibbles (nibbles k n) = n mod 16 ^ k"
proof (induction k arbitrary: n)
  case 0
  then show ?case by (simp add: nibbles_def of_nibbles_def)
next
  case (Suc k)
  have "of_nibbles (nibbles (Suc k) n) = 16 * (n div 16 mod 16 ^ k) + n mod 16"
    using Suc.IH [of "n div 16"] by (simp add: nibbles_Suc of_nibbles_def)
  also have "\<dots> = n mod 16 ^ Suc k"
    by (simp add: mod_mult2_eq)
  finally show ?case .
qed

subsection \<open>UUID text\<close>

definition uuid_hex :: "uuid \<Rightarrow> string" where
  "uuid_hex w = map hex_digit (nibbles 32 (unat w))"

definition uuid_str :: "uuid \<Rightarrow> string" where
  "uuid_str w = (let h = uuid_hex w in
     take 8 h @ ''-'' @ take 4 (drop 8 h) @ ''-'' @ take 4 (drop 12 h) @ ''-'' @
     take 4 (drop 16 h) @ ''-'' @ drop 20 h)"

text \<open>
  \<open>/^[0-9a-f]{8}-[0-9a-f]{4}-[0-9a-f]{4}-[0-9a-f]{4}-[0-9a-f]{12}$/i\<close>, with the value it denotes.
\<close>

definition uuid_of_str :: "string \<Rightarrow> uuid option" where
  "uuid_of_str s =
    (let h = take 8 s @ take 4 (drop 9 s) @ take 4 (drop 14 s) @ take 4 (drop 19 s) @ drop 24 s
     in if length s = 36 \<and> s ! 8 = CHR ''-'' \<and> s ! 13 = CHR ''-'' \<and> s ! 18 = CHR ''-''
           \<and> s ! 23 = CHR ''-'' \<and> list_all (\<lambda>c. hex_value c \<noteq> None) h
        then Some (word_of_nat (of_nibbles (map (\<lambda>c. the (hex_value c)) h)))
        else None)"

definition UUID_PATTERN_test :: "string \<Rightarrow> bool" where
  "UUID_PATTERN_test s \<longleftrightarrow> uuid_of_str s \<noteq> None"

lemma length_uuid_hex [simp]: "length (uuid_hex w) = 32"
  by (simp add: uuid_hex_def)

lemma length_uuid_str [simp]: "length (uuid_str w) = 36"
  by (simp add: uuid_str_def Let_def)

lemma uuid_str_colon_free: "CHR '':'' \<notin> set (uuid_str w)"
proof -
  have "CHR '':'' \<notin> set (uuid_hex w)"
    by (auto simp: uuid_hex_def dest!: nibbles_lt dest: hex_digit_not_special(1))
  then show ?thesis
    by (auto simp: uuid_str_def Let_def dest!: in_set_takeD in_set_dropD)
qed

lemma uuid_groups:
  fixes w :: uuid
  defines "s \<equiv> uuid_str w" and "h \<equiv> uuid_hex w"
  shows "take 8 s @ take 4 (drop 9 s) @ take 4 (drop 14 s) @ take 4 (drop 19 s) @ drop 24 s = h"
    and "s ! 8 = CHR ''-''" "s ! 13 = CHR ''-''" "s ! 18 = CHR ''-''" "s ! 23 = CHR ''-''"
proof -
  have h: "length h = 32" by (simp add: h_def)
  have s: "s = take 8 h @ ''-'' @ take 4 (drop 8 h) @ ''-'' @ take 4 (drop 12 h) @ ''-'' @
     take 4 (drop 16 h) @ ''-'' @ drop 20 h"
    by (simp add: s_def h_def uuid_str_def Let_def)
  have "take 8 h @ take 4 (drop 8 h) @ take 4 (drop 12 h) @ take 4 (drop 16 h) @ drop 20 h = h"
    by (intro nth_equalityI) (auto simp: h nth_append)
  then show "take 8 s @ take 4 (drop 9 s) @ take 4 (drop 14 s) @ take 4 (drop 19 s) @ drop 24 s = h"
    by (simp add: s h)
  show "s ! 8 = CHR ''-''" "s ! 13 = CHR ''-''" "s ! 18 = CHR ''-''" "s ! 23 = CHR ''-''"
    by (simp_all add: s h nth_append)
qed

lemma uuid_roundtrip: "uuid_of_str (uuid_str w) = Some w"
proof -
  have "list_all (\<lambda>c. hex_value c \<noteq> None) (uuid_hex w)"
    by (auto simp: list_all_iff uuid_hex_def dest!: nibbles_lt)
  moreover have "map (\<lambda>c. the (hex_value c)) (uuid_hex w) = nibbles 32 (unat w)"
    by (simp add: uuid_hex_def nibbles_lt map_idI)
  moreover have "unat w mod 16 ^ 32 = unat w"
    using unsigned_less [where ?'a = nat and w = w] by simp
  ultimately show ?thesis
    by (simp add: uuid_of_str_def uuid_groups Let_def of_nibbles_nibbles)
qed

lemma uuid_str_inject [simp]: "uuid_str v = uuid_str w \<longleftrightarrow> v = w"
  by (metis uuid_roundtrip option.inject)

subsection \<open>Idempotency keys\<close>

definition buildIdempotencyKey :: "string list \<Rightarrow> string" where
  "buildIdempotencyKey parts = join '':'' parts"

lemma key_uuid_inject [simp]:
  "xs \<noteq> [] \<Longrightarrow> ys \<noteq> [] \<Longrightarrow>
   buildIdempotencyKey (uuid_str v # xs) = buildIdempotencyKey (uuid_str w # ys) \<longleftrightarrow>
   v = w \<and> buildIdempotencyKey xs = buildIdempotencyKey ys"
  by (simp add: buildIdempotencyKey_def join_Cons)

lemma key_same_inject [simp]:
  "xs \<noteq> [] \<Longrightarrow> ys \<noteq> [] \<Longrightarrow>
   buildIdempotencyKey (x # xs) = buildIdempotencyKey (x # ys) \<longleftrightarrow>
   buildIdempotencyKey xs = buildIdempotencyKey ys"
  by (simp add: buildIdempotencyKey_def join_Cons)

lemma key_last_fixed_length:
  "length x = length y \<Longrightarrow>
   buildIdempotencyKey [a, x] = buildIdempotencyKey [b, y] \<longleftrightarrow> a = b \<and> x = y"
  by (auto simp: buildIdempotencyKey_def append_eq_append_conv)

lemma key_singleton [simp]: "buildIdempotencyKey [x] = x"
  by (simp add: buildIdempotencyKey_def)

text \<open>Keys that part at a UUID on one side and a shorter fixed text on the other differ.\<close>

lemma key_uuid_neq_text:
  assumes "xs \<noteq> []" "CHR '':'' \<notin> set x" "length x \<noteq> 36"
  shows "buildIdempotencyKey (uuid_str w # ys) \<noteq> buildIdempotencyKey (x # xs)"
proof
  let ?P = "\<lambda>c. c \<noteq> CHR '':''"
  have tw: "takeWhile ?P (buildIdempotencyKey (u # us)) = u" if "CHR '':'' \<notin> set u" for u us
    using that by (cases us) (auto simp: buildIdempotencyKey_def takeWhile_append takeWhile_eq_all_conv)
  assume "buildIdempotencyKey (uuid_str w # ys) = buildIdempotencyKey (x # xs)"
  then have "uuid_str w = x"
    using tw [OF uuid_str_colon_free, of w ys] tw [OF assms(2), of xs] by simp
  with assms(3) length_uuid_str show False by metis
qed

end
