(* ===== verification/Database.thy ===== *)
theory Database
  imports Errors Ids
begin

text \<open>
  The PostgreSQL database as the migrations set it up (\<open>src/migrations/\<close>) and the access layer of
  \<open>src/src/db/\<close>. A table is the list of its rows in insertion order; an \<open>insert_\<dots>\<close> operation checks the
  table's CHECK, primary key, UNIQUE and FOREIGN KEY constraints and fails with the violation.
  \<open>rls_rows\<close> is what row-level security lets a query see. \<open>withTenantTransaction\<close> runs a callback and
  commits or rolls back. The environment holds what the runtime takes from outside the repository:
  clock readings, random UUIDs, the SHA-256 digest and whether the database role is subject to
  row-level security.
\<close>

subsection \<open>State\<close>

record db =
  tenants :: "uuid list"
  actors :: "actor list"
  workspaces :: "workspace list"
  projects :: "project list"
  threads :: "thread list"
  messages :: "message list"
  work_orders :: "work_order list"
  wo_transitions :: "wo_transition list"
  runs :: "run list"
  authority_decisions :: "authority_decision list"
  standing_rules :: "standing_rule list"
  tool_invocations :: "tool_invocation list"
  action_receipts :: "action_receipt_row list"
  memory_candidates :: "memory_candidate list"
  memory_records :: "memory_record list"
  memory_record_versions :: "memory_record_version list"
  memory_embeddings :: "memory_embedding list"
  artifacts :: "artifact list"
  operator_directives :: "operator_directive list"
  directive_revisions :: "directive_revision list"
  directive_transitions :: "directive_transition list"
  directive_provenance_rows :: "directive_provenance list"
  directive_suppressions :: "directive_suppression list"
  cognitive_runs :: "cognitive_run list"
  cognitive_run_transitions :: "cognitive_run_transition list"
  model_invocations :: "model_invocation list"
  scheduled_triggers :: "scheduled_trigger list"
  entities :: "entity list"
  entity_aliases :: "entity_alias list"
  claims :: "claim list"
  claim_evidence_rows :: "claim_evidence list"
  briefing_issues :: "briefing_issue list"
  briefing_issue_entries :: "briefing_issue_entry list"

definition empty_db :: db where
  "empty_db = \<lparr>tenants = [], actors = [], workspaces = [], projects = [], threads = [], messages = [],
     work_orders = [], wo_transitions = [], runs = [], authority_decisions = [], standing_rules = [],
     tool_invocations = [], action_receipts = [], memory_candidates = [], memory_records = [],
     memory_record_versions = [], memory_embeddings = [], artifacts = [], operator_directives = [],
     directive_revisions = [], directive_transitions = [], directive_provenance_rows = [],
     directive_suppressions = [], cognitive_runs = [], cognitive_run_transitions = [],
     model_invocations = [], scheduled_triggers = [], entities = [], entity_aliases = [], claims = [],
     claim_evidence_rows = [], briefing_issues = [], briefing_issue_entries = []\<rparr>"

type_synonym 'a dtx = "(error, db, 'a) tx"
type_synonym 'a dop = "(error, db, 'a) op"

text \<open>
  \<open>env_now i\<close> is what the \<open>i\<close>-th \<open>new Date()\<close> in the text of an operation returns, \<open>env_uuid i\<close> the
  value of its \<open>i\<close>-th \<open>randomUUID()\<close>, \<open>env_db_now\<close> the database's \<open>now()\<close>. \<open>env_at k\<close> is the
  environment of the \<open>k\<close>-th nested call, which reads later elements of the same streams: no single
  function of the code has sixteen such call sites.
\<close>

record env =
  env_now :: "nat \<Rightarrow> timestamp"
  env_db_now :: "nat \<Rightarrow> timestamp"
  env_uuid :: "nat \<Rightarrow> uuid"
  env_sha256 :: "string \<Rightarrow> string"
  env_rls :: bool

definition env_at :: "nat \<Rightarrow> env \<Rightarrow> env" where
  "env_at k e = e\<lparr>env_now := (\<lambda>i. env_now e (i + 16 * k)), env_db_now := (\<lambda>i. env_db_now e (i + 16 * k)),
     env_uuid := (\<lambda>i. env_uuid e (i + 16 * k))\<rparr>"

lemma env_at_simps [simp]:
  "env_rls (env_at k e) = env_rls e" "env_sha256 (env_at k e) = env_sha256 e"
  "env_now (env_at k e) i = env_now e (i + 16 * k)"
  "env_db_now (env_at k e) i = env_db_now e (i + 16 * k)"
  "env_uuid (env_at k e) i = env_uuid e (i + 16 * k)"
  by (simp_all add: env_at_def)

subsection \<open>Tenant transactions\<close>

record client =
  cl_tenant :: uuid
  cl_rls :: bool

definition withTenantTransaction :: "env \<Rightarrow> uuid \<Rightarrow> (client \<Rightarrow> 'a dtx) \<Rightarrow> 'a dop" where
  "withTenantTransaction e tenantId callback d =
     (case callback \<lparr>cl_tenant = tenantId, cl_rls = env_rls e\<rparr> d of
        Inr (result, d') \<Rightarrow> (Inr result, d')
      | Inl err \<Rightarrow> (Inl err, d))"

text \<open>The rows of a table that the policy \<open>tenant_isolation\<close> shows to the transaction.\<close>

definition rls_rows :: "client \<Rightarrow> ('r \<Rightarrow> uuid) \<Rightarrow> 'r list \<Rightarrow> 'r list" where
  "rls_rows c tenant_of rows = (if cl_rls c then filter (\<lambda>r. tenant_of r = cl_tenant c) rows else rows)"

text \<open>\<open>WHERE id = $1 AND tenant_id = $2\<close>\<close>

definition scoped_rows :: "client \<Rightarrow> ('r \<Rightarrow> uuid) \<Rightarrow> ('r \<Rightarrow> uuid) \<Rightarrow> uuid \<Rightarrow> uuid \<Rightarrow> 'r list \<Rightarrow> 'r list" where
  "scoped_rows c id_of tenant_of i t rows =
     filter (\<lambda>r. id_of r = i \<and> tenant_of r = t) (rls_rows c tenant_of rows)"

lemma set_rls_rows: "x \<in> set (rls_rows c tenant_of rows) \<Longrightarrow> x \<in> set rows"
  by (auto simp: rls_rows_def split: if_splits)

lemma filter_rls_own [simp]:
  "t = cl_tenant c \<Longrightarrow> filter (\<lambda>r. P r \<and> tenant_of r = t) (rls_rows c tenant_of rows) = filter (\<lambda>r. P r \<and> tenant_of r = t) rows"
  "t = cl_tenant c \<Longrightarrow> filter (\<lambda>r. tenant_of r = t \<and> P r) (rls_rows c tenant_of rows) = filter (\<lambda>r. tenant_of r = t \<and> P r) rows"
  by (auto simp: rls_rows_def intro!: filter_cong)

lemma scoped_rows_own:
  "scoped_rows \<lparr>cl_tenant = t, cl_rls = b\<rparr> id_of tenant_of i t rows =
     filter (\<lambda>r. id_of r = i \<and> tenant_of r = t) rows"
  by (simp add: scoped_rows_def)

lemma scoped_first_row:
  "first_row (scoped_rows c id_of tenant_of i t rows) = Some r \<Longrightarrow> r \<in> set rows \<and> id_of r = i \<and> tenant_of r = t"
  by (auto simp: scoped_rows_def dest!: first_row_filterD set_rls_rows)

text \<open>The two outcomes of a transaction: commit, or the database as it was.\<close>

lemma withTenantTransaction_Inr:
  "withTenantTransaction e t f d = (Inr r, d') \<longleftrightarrow> f \<lparr>cl_tenant = t, cl_rls = env_rls e\<rparr> d = Inr (r, d')"
  by (auto simp: withTenantTransaction_def split: sum.splits)

lemma withTenantTransaction_Inl:
  "withTenantTransaction e t f d = (Inl err, d') \<longleftrightarrow> f \<lparr>cl_tenant = t, cl_rls = env_rls e\<rparr> d = Inl err \<and> d' = d"
  by (auto simp: withTenantTransaction_def split: sum.splits)

lemma withTenantTransaction_rollback:
  "fst (withTenantTransaction e t f d) = Inl err \<Longrightarrow> snd (withTenantTransaction e t f d) = d"
  by (auto simp: withTenantTransaction_def split: sum.splits)

locale db_preorder = step_preorder R for R :: "db \<Rightarrow> db \<Rightarrow> bool"
begin

lemma osteps_tx:
  assumes "\<And>c. cl_tenant c = t \<Longrightarrow> steps R (f c)"
  shows "osteps R (withTenantTransaction e t f)"
  using stepsD [OF assms, of "\<lparr>cl_tenant = t, cl_rls = env_rls e\<rparr>"]
  by (auto simp: osteps_def withTenantTransaction_def R_refl split: sum.splits)

end

subsection \<open>Constraints and inserts\<close>

definition fk_ok :: "('r \<Rightarrow> uuid) \<Rightarrow> 'r list \<Rightarrow> uuid option \<Rightarrow> bool" where
  "fk_ok id_of rows v = (case v of None \<Rightarrow> True | Some i \<Rightarrow> i \<in> set (map id_of rows))"

text \<open>A composite reference \<open>(tenant_id, x) REFERENCES t (tenant_id, id)\<close>.\<close>

definition tenant_fk_ok ::
  "('r \<Rightarrow> uuid) \<Rightarrow> ('r \<Rightarrow> uuid) \<Rightarrow> 'r list \<Rightarrow> uuid \<Rightarrow> uuid option \<Rightarrow> bool" where
  "tenant_fk_ok id_of tenant_of rows t v =
     (case v of None \<Rightarrow> True | Some i \<Rightarrow> (t, i) \<in> set (map (\<lambda>r. (tenant_of r, id_of r)) rows))"

lemma fk_ok_simps [simp]:
  "fk_ok id_of rows None" "fk_ok id_of rows (Some i) \<longleftrightarrow> i \<in> id_of ` set rows"
  by (simp_all add: fk_ok_def)

lemma tenant_fk_ok_None [simp]: "tenant_fk_ok id_of tenant_of rows t None"
  by (simp add: tenant_fk_ok_def)

text \<open>\<open>INSERT INTO t \<dots>\<close>: the CHECKs, then the unique indexes, then the foreign keys.\<close>

definition insert_into ::
  "string \<Rightarrow> bool \<Rightarrow> (db \<Rightarrow> bool) \<Rightarrow> (db \<Rightarrow> bool) \<Rightarrow> (db \<Rightarrow> db) \<Rightarrow> unit dtx" where
  "insert_into tbl check_ok unique_ok fks_ok store d =
     (if \<not> check_ok then Inl (DbError (CheckViolation tbl))
      else if \<not> unique_ok d then Inl (DbError (UniqueViolation tbl))
      else if \<not> fks_ok d then Inl (DbError (ForeignKeyViolation tbl))
      else Inr ((), store d))"

text \<open>
  An \<open>UPDATE\<close> whose new values refer to other rows, or must satisfy a CHECK, fails with the violation.
\<close>

definition require :: "(db \<Rightarrow> bool) \<Rightarrow> db_error \<Rightarrow> unit dtx" where
  "require P err d = (if P d then Inr ((), d) else Inl (DbError err))"

lemma require_iff [tx_simps]:
  "require P err d = Inr r \<longleftrightarrow> P d \<and> r = ((), d)"
  "require P err d = Inl e \<longleftrightarrow> \<not> P d \<and> e = DbError err"
  by (auto simp: require_def)

text \<open>
  \<open>INSERT \<dots> ON CONFLICT (\<dots>) DO NOTHING RETURNING *\<close>: whether a row was returned. Only a conflict on
  the named columns does nothing; any other violation still fails.
\<close>

definition insert_or_nothing :: "(db \<Rightarrow> bool) \<Rightarrow> unit dtx \<Rightarrow> bool dtx" where
  "insert_or_nothing conflict ins d =
     (if conflict d then Inr (False, d) else tbind ins (\<lambda>_. treturn True) d)"

lemma insert_into_Inr [tx_simps]:
  "insert_into tbl ck un fk st d = Inr r \<longleftrightarrow> ck \<and> un d \<and> fk d \<and> r = ((), st d)"
  by (auto simp: insert_into_def)

lemma insert_into_Inl [tx_simps]:
  "insert_into tbl ck un fk st d = Inl e \<longleftrightarrow>
     (\<not> ck \<and> e = DbError (CheckViolation tbl)) \<or>
     (ck \<and> \<not> un d \<and> e = DbError (UniqueViolation tbl)) \<or>
     (ck \<and> un d \<and> \<not> fk d \<and> e = DbError (ForeignKeyViolation tbl))"
  by (auto simp: insert_into_def)

lemma insert_or_nothing_Inr [tx_simps]:
  "insert_or_nothing cf ins d = Inr r \<longleftrightarrow>
     (cf d \<and> r = (False, d)) \<or> (\<not> cf d \<and> (\<exists>d'. ins d = Inr ((), d') \<and> r = (True, d')))"
  by (auto simp: insert_or_nothing_def tx_simps)

lemma insert_or_nothing_Inl [tx_simps]:
  "insert_or_nothing cf ins d = Inl e \<longleftrightarrow> \<not> cf d \<and> ins d = Inl e"
  by (auto simp: insert_or_nothing_def tx_simps)

definition insert_thread :: "thread \<Rightarrow> unit dtx" where
  "insert_thread r = insert_into ''threads'' True
     (\<lambda>d. th_id r \<notin> set (map th_id (threads d)))
     (\<lambda>d. th_tenant_id r \<in> set (tenants d) \<and> fk_ok ws_id (workspaces d) (th_workspace_id r)
        \<and> fk_ok pj_id (projects d) (th_project_id r))
     (\<lambda>d. d\<lparr>threads := threads d @ [r]\<rparr>)"

definition insert_message :: "message \<Rightarrow> unit dtx" where
  "insert_message r = insert_into ''messages'' True
     (\<lambda>d. ms_id r \<notin> set (map ms_id (messages d)))
     (\<lambda>d. ms_tenant_id r \<in> set (tenants d) \<and> fk_ok th_id (threads d) (Some (ms_thread_id r))
        \<and> fk_ok ac_id (actors d) (Some (ms_actor_id r)))
     (\<lambda>d. d\<lparr>messages := messages d @ [r]\<rparr>)"

definition insert_work_order :: "work_order \<Rightarrow> unit dtx" where
  "insert_work_order w = insert_into ''work_orders'' True
     (\<lambda>d. wo_id w \<notin> set (map wo_id (work_orders d)) \<and>
        (wo_tenant_id w, wo_idempotency_key w) \<notin> set (map (\<lambda>x. (wo_tenant_id x, wo_idempotency_key x)) (work_orders d)))
     (\<lambda>d. wo_tenant_id w \<in> set (tenants d) \<and> fk_ok ws_id (workspaces d) (wo_workspace_id w)
        \<and> fk_ok pj_id (projects d) (wo_project_id w) \<and> fk_ok th_id (threads d) (wo_thread_id w)
        \<and> fk_ok ms_id (messages d) (wo_message_id w) \<and> fk_ok ac_id (actors d) (wo_owner_actor_id w)
        \<and> fk_ok ad_id (authority_decisions d) (wo_authority_decision_id w)
        \<and> tenant_fk_ok wo_id wo_tenant_id (work_orders d) (wo_tenant_id w) (wo_parent_work_order_id w))
     (\<lambda>d. d\<lparr>work_orders := work_orders d @ [w]\<rparr>)"

definition insert_wo_transition :: "wo_transition \<Rightarrow> unit dtx" where
  "insert_wo_transition r = insert_into ''work_order_state_transitions'' True
     (\<lambda>d. wt_id r \<notin> set (map wt_id (wo_transitions d)))
     (\<lambda>d. wt_tenant_id r \<in> set (tenants d) \<and> fk_ok wo_id (work_orders d) (Some (wt_work_order_id r))
        \<and> fk_ok ac_id (actors d) (wt_actor_id r))
     (\<lambda>d. d\<lparr>wo_transitions := wo_transitions d @ [r]\<rparr>)"

definition insert_run :: "run \<Rightarrow> unit dtx" where
  "insert_run r = insert_into ''runs'' True
     (\<lambda>d. ru_id r \<notin> set (map ru_id (runs d)) \<and>
        (ru_tenant_id r, ru_idempotency_key r) \<notin> set (map (\<lambda>x. (ru_tenant_id x, ru_idempotency_key x)) (runs d)))
     (\<lambda>d. ru_tenant_id r \<in> set (tenants d) \<and> fk_ok wo_id (work_orders d) (Some (ru_work_order_id r))
        \<and> fk_ok ac_id (actors d) (Some (ru_actor_id r)))
     (\<lambda>d. d\<lparr>runs := runs d @ [r]\<rparr>)"

definition insert_authority_decision :: "authority_decision \<Rightarrow> unit dtx" where
  "insert_authority_decision r = insert_into ''authority_decisions'' True
     (\<lambda>d. ad_id r \<notin> set (map ad_id (authority_decisions d)))
     (\<lambda>d. ad_tenant_id r \<in> set (tenants d) \<and> fk_ok ac_id (actors d) (ad_deciding_actor_id r)
        \<and> fk_ok wo_id (work_orders d) (ad_work_order_id r) \<and> fk_ok ru_id (runs d) (ad_run_id r)
        \<and> fk_ok ti_id (tool_invocations d) (ad_tool_invocation_id r)
        \<and> fk_ok sr_id (standing_rules d) (ad_resolved_via_standing_rule_id r))
     (\<lambda>d. d\<lparr>authority_decisions := authority_decisions d @ [r]\<rparr>)"

definition insert_tool_invocation :: "tool_invocation \<Rightarrow> unit dtx" where
  "insert_tool_invocation r = insert_into ''tool_invocations'' True
     (\<lambda>d. ti_id r \<notin> set (map ti_id (tool_invocations d)) \<and>
        (ti_tenant_id r, ti_idempotency_key r) \<notin> set (map (\<lambda>x. (ti_tenant_id x, ti_idempotency_key x)) (tool_invocations d)))
     (\<lambda>d. ti_tenant_id r \<in> set (tenants d) \<and> fk_ok wo_id (work_orders d) (ti_work_order_id r))
     (\<lambda>d. d\<lparr>tool_invocations := tool_invocations d @ [r]\<rparr>)"

definition insert_action_receipt :: "action_receipt_row \<Rightarrow> unit dtx" where
  "insert_action_receipt r = insert_into ''action_receipts'' True
     (\<lambda>d. re_id r \<notin> set (map re_id (action_receipts d)) \<and>
        (re_tenant_id r, re_idempotency_key r) \<notin> set (map (\<lambda>x. (re_tenant_id x, re_idempotency_key x)) (action_receipts d)))
     (\<lambda>d. re_tenant_id r \<in> set (tenants d) \<and> fk_ok ac_id (actors d) (Some (re_actor_id r))
        \<and> fk_ok wo_id (work_orders d) (re_work_order_id r) \<and> fk_ok ru_id (runs d) (re_run_id r)
        \<and> fk_ok ad_id (authority_decisions d) (re_authority_decision_id r)
        \<and> fk_ok ti_id (tool_invocations d) (re_tool_invocation_id r)
        \<and> fk_ok re_id (action_receipts d) (re_parent_receipt_id r)
        \<and> fk_ok re_id (action_receipts d) (re_supersedes_receipt_id r)
        \<and> fk_ok re_id (action_receipts d) (re_correction_receipt_id r))
     (\<lambda>d. d\<lparr>action_receipts := action_receipts d @ [r]\<rparr>)"

definition insert_memory_candidate :: "memory_candidate \<Rightarrow> unit dtx" where
  "insert_memory_candidate r = insert_into ''memory_candidates'' True
     (\<lambda>d. mc_id r \<notin> set (map mc_id (memory_candidates d)))
     (\<lambda>d. mc_tenant_id r \<in> set (tenants d) \<and> fk_ok ms_id (messages d) (mc_source_message_id r)
        \<and> fk_ok re_id (action_receipts d) (mc_source_receipt_id r)
        \<and> fk_ok wo_id (work_orders d) (mc_source_work_order_id r)
        \<and> fk_ok mr_id (memory_records d) (mc_promoted_memory_record_id r))
     (\<lambda>d. d\<lparr>memory_candidates := memory_candidates d @ [r]\<rparr>)"

definition insert_memory_record :: "memory_record \<Rightarrow> unit dtx" where
  "insert_memory_record r = insert_into ''memory_records'' True
     (\<lambda>d. mr_id r \<notin> set (map mr_id (memory_records d)))
     (\<lambda>d. mr_tenant_id r \<in> set (tenants d) \<and> fk_ok mc_id (memory_candidates d) (mr_source_candidate_id r)
        \<and> fk_ok mv_id (memory_record_versions d) (mr_current_version_id r))
     (\<lambda>d. d\<lparr>memory_records := memory_records d @ [r]\<rparr>)"

definition insert_memory_record_version :: "memory_record_version \<Rightarrow> unit dtx" where
  "insert_memory_record_version r = insert_into ''memory_record_versions'' (0 < mv_version_number r)
     (\<lambda>d. mv_id r \<notin> set (map mv_id (memory_record_versions d)) \<and>
        (mv_tenant_id r, mv_memory_record_id r, mv_version_number r)
          \<notin> set (map (\<lambda>x. (mv_tenant_id x, mv_memory_record_id x, mv_version_number x)) (memory_record_versions d)))
     (\<lambda>d. mv_tenant_id r \<in> set (tenants d) \<and> fk_ok mr_id (memory_records d) (Some (mv_memory_record_id r)))
     (\<lambda>d. d\<lparr>memory_record_versions := memory_record_versions d @ [r]\<rparr>)"

definition insert_operator_directive :: "operator_directive \<Rightarrow> unit dtx" where
  "insert_operator_directive r = insert_into ''operator_directives'' True
     (\<lambda>d. od_id r \<notin> set (map od_id (operator_directives d)) \<and>
        (od_tenant_id r, od_dedupe_key r) \<notin> set (map (\<lambda>x. (od_tenant_id x, od_dedupe_key x)) (operator_directives d)))
     (\<lambda>d. od_tenant_id r \<in> set (tenants d) \<and> fk_ok ac_id (actors d) (Some (od_issuing_actor_id r))
        \<and> fk_ok ac_id (actors d) (Some (od_owning_actor_id r)))
     (\<lambda>d. d\<lparr>operator_directives := operator_directives d @ [r]\<rparr>)"

definition insert_directive_revision :: "directive_revision \<Rightarrow> unit dtx" where
  "insert_directive_revision r = insert_into ''operator_directive_revisions'' True
     (\<lambda>d. dr_id r \<notin> set (map dr_id (directive_revisions d)) \<and>
        (dr_tenant_id r, dr_directive_id r, dr_revision_number r)
          \<notin> set (map (\<lambda>x. (dr_tenant_id x, dr_directive_id x, dr_revision_number x)) (directive_revisions d)))
     (\<lambda>d. dr_tenant_id r \<in> set (tenants d) \<and> fk_ok od_id (operator_directives d) (Some (dr_directive_id r))
        \<and> fk_ok ac_id (actors d) (dr_proposed_owner_actor_id r)
        \<and> fk_ok ac_id (actors d) (Some (dr_created_by_actor_id r)))
     (\<lambda>d. d\<lparr>directive_revisions := directive_revisions d @ [r]\<rparr>)"

definition insert_directive_transition :: "directive_transition \<Rightarrow> unit dtx" where
  "insert_directive_transition r = insert_into ''operator_directive_transitions'' True
     (\<lambda>d. dt_id r \<notin> set (map dt_id (directive_transitions d)))
     (\<lambda>d. dt_tenant_id r \<in> set (tenants d) \<and> fk_ok od_id (operator_directives d) (Some (dt_directive_id r))
        \<and> fk_ok ac_id (actors d) (dt_actor_id r))
     (\<lambda>d. d\<lparr>directive_transitions := directive_transitions d @ [r]\<rparr>)"

definition insert_directive_provenance :: "directive_provenance \<Rightarrow> unit dtx" where
  "insert_directive_provenance r = insert_into ''operator_directive_provenance''
     (provenance_one_source r \<and> (dp_provider r = None \<or> dp_external_identifier r \<noteq> None))
     (\<lambda>d. dp_id r \<notin> set (map dp_id (directive_provenance_rows d)))
     (\<lambda>d. dp_tenant_id r \<in> set (tenants d) \<and> fk_ok od_id (operator_directives d) (Some (dp_directive_id r))
        \<and> fk_ok ms_id (messages d) (dp_message_id r) \<and> fk_ok wo_id (work_orders d) (dp_work_order_id r)
        \<and> fk_ok ru_id (runs d) (dp_run_id r) \<and> fk_ok ad_id (authority_decisions d) (dp_authority_decision_id r)
        \<and> fk_ok ti_id (tool_invocations d) (dp_tool_invocation_id r)
        \<and> fk_ok re_id (action_receipts d) (dp_action_receipt_id r)
        \<and> fk_ok af_id (artifacts d) (dp_artifact_id r)
        \<and> fk_ok mc_id (memory_candidates d) (dp_memory_candidate_id r)
        \<and> fk_ok mr_id (memory_records d) (dp_memory_record_id r))
     (\<lambda>d. d\<lparr>directive_provenance_rows := directive_provenance_rows d @ [r]\<rparr>)"

definition insert_directive_suppression :: "directive_suppression \<Rightarrow> unit dtx" where
  "insert_directive_suppression r = insert_into ''operator_directive_suppressions'' True
     (\<lambda>d. ds_id r \<notin> set (map ds_id (directive_suppressions d)))
     (\<lambda>d. ds_tenant_id r \<in> set (tenants d) \<and> fk_ok ac_id (actors d) (Some (ds_suppressed_by_actor_id r)))
     (\<lambda>d. d\<lparr>directive_suppressions := directive_suppressions d @ [r]\<rparr>)"

definition insert_cognitive_run :: "cognitive_run \<Rightarrow> unit dtx" where
  "insert_cognitive_run r = insert_into ''cognitive_runs'' (objective_kind_ok (cr_objective_kind r))
     (\<lambda>d. cr_id r \<notin> set (map cr_id (cognitive_runs d)) \<and>
        (cr_tenant_id r, cr_idempotency_key r) \<notin> set (map (\<lambda>x. (cr_tenant_id x, cr_idempotency_key x)) (cognitive_runs d)))
     (\<lambda>d. cr_tenant_id r \<in> set (tenants d) \<and> fk_ok th_id (threads d) (cr_thread_id r)
        \<and> fk_ok ms_id (messages d) (cr_message_id r) \<and> fk_ok ac_id (actors d) (cr_initiated_by_actor_id r))
     (\<lambda>d. d\<lparr>cognitive_runs := cognitive_runs d @ [r]\<rparr>)"

definition insert_cognitive_run_transition :: "cognitive_run_transition \<Rightarrow> unit dtx" where
  "insert_cognitive_run_transition r = insert_into ''cognitive_run_transitions'' True
     (\<lambda>d. ct_id r \<notin> set (map ct_id (cognitive_run_transitions d)))
     (\<lambda>d. ct_tenant_id r \<in> set (tenants d) \<and> fk_ok cr_id (cognitive_runs d) (Some (ct_cognitive_run_id r))
        \<and> fk_ok ac_id (actors d) (ct_actor_id r))
     (\<lambda>d. d\<lparr>cognitive_run_transitions := cognitive_run_transitions d @ [r]\<rparr>)"

definition insert_memory_embedding :: "memory_embedding \<Rightarrow> unit dtx" where
  "insert_memory_embedding r = insert_into ''memory_embeddings'' (0 < me_dimensions r)
     (\<lambda>d. me_id r \<notin> set (map me_id (memory_embeddings d)))
     (\<lambda>d. me_tenant_id r \<in> set (tenants d)
        \<and> fk_ok mv_id (memory_record_versions d) (Some (me_memory_record_version_id r))
        \<and> fk_ok me_id (memory_embeddings d) (me_superseded_by_embedding_id r))
     (\<lambda>d. d\<lparr>memory_embeddings := memory_embeddings d @ [r]\<rparr>)"

text \<open>The CHECKs of \<open>model_invocations\<close> (\<open>0014\<close>, \<open>0015\<close>).\<close>

definition nonneg_or_null :: "int option \<Rightarrow> bool" where
  "nonneg_or_null v = (case v of None \<Rightarrow> True | Some x \<Rightarrow> 0 \<le> x)"

definition invocation_checks :: "model_invocation \<Rightarrow> bool" where
  "invocation_checks r \<longleftrightarrow>
     0 < mi_operation_version r \<and> 0 < mi_input_schema_version r \<and> 0 < mi_output_schema_version r \<and>
     0 < mi_attempt_number r \<and> nonneg_or_null (mi_input_tokens r) \<and> nonneg_or_null (mi_output_tokens r) \<and>
     nonneg_or_null (mi_cache_creation_input_tokens r) \<and> nonneg_or_null (mi_cache_read_input_tokens r) \<and>
     nonneg_or_null (mi_duration_ms r) \<and> 0 < mi_input_policy_version r \<and> 0 \<le> mi_redaction_count r \<and>
     (if mi_status r = STARTED then mi_completed_at r = None \<and> mi_duration_ms r = None
      else mi_completed_at r \<noteq> None \<and> mi_duration_ms r \<noteq> None)"

definition insert_model_invocation :: "model_invocation \<Rightarrow> unit dtx" where
  "insert_model_invocation r = insert_into ''model_invocations'' (invocation_checks r)
     (\<lambda>d. mi_id r \<notin> set (map mi_id (model_invocations d)) \<and>
        (mi_tenant_id r, mi_invocation_key r, mi_attempt_number r)
          \<notin> set (map (\<lambda>x. (mi_tenant_id x, mi_invocation_key x, mi_attempt_number x)) (model_invocations d)))
     (\<lambda>d. mi_tenant_id r \<in> set (tenants d) \<and> fk_ok cr_id (cognitive_runs d) (mi_cognitive_run_id r))
     (\<lambda>d. d\<lparr>model_invocations := model_invocations d @ [r]\<rparr>)"

definition insert_artifact :: "artifact \<Rightarrow> unit dtx" where
  "insert_artifact r = insert_into ''artifacts'' True
     (\<lambda>d. af_id r \<notin> set (map af_id (artifacts d)) \<and>
        (af_tenant_id r, af_idempotency_key r) \<notin> set (map (\<lambda>x. (af_tenant_id x, af_idempotency_key x)) (artifacts d)))
     (\<lambda>d. af_tenant_id r \<in> set (tenants d) \<and> fk_ok ws_id (workspaces d) (af_workspace_id r)
        \<and> fk_ok pj_id (projects d) (af_project_id r) \<and> fk_ok wo_id (work_orders d) (af_work_order_id r)
        \<and> fk_ok ac_id (actors d) (af_actor_id r))
     (\<lambda>d. d\<lparr>artifacts := artifacts d @ [r]\<rparr>)"

definition insert_scheduled_trigger :: "scheduled_trigger \<Rightarrow> unit dtx" where
  "insert_scheduled_trigger r = insert_into ''scheduled_triggers'' True
     (\<lambda>d. tg_id r \<notin> set (map tg_id (scheduled_triggers d)) \<and>
        (tg_tenant_id r, tg_idempotency_key r) \<notin> set (map (\<lambda>x. (tg_tenant_id x, tg_idempotency_key x)) (scheduled_triggers d)))
     (\<lambda>d. tg_tenant_id r \<in> set (tenants d) \<and> fk_ok ws_id (workspaces d) (tg_workspace_id r)
        \<and> fk_ok pj_id (projects d) (tg_project_id r) \<and> fk_ok ac_id (actors d) (Some (tg_owning_actor_id r))
        \<and> fk_ok ac_id (actors d) (Some (tg_created_by_actor_id r))
        \<and> fk_ok ad_id (authority_decisions d) (Some (tg_authority_decision_id r))
        \<and> fk_ok wo_id (work_orders d) (tg_last_fired_work_order_id r)
        \<and> fk_ok th_id (threads d) (tg_thread_id r))
     (\<lambda>d. d\<lparr>scheduled_triggers := scheduled_triggers d @ [r]\<rparr>)"

text \<open>\<open>btrim(s) <> ''\<close>: PostgreSQL's \<open>btrim\<close> strips blanks only.\<close>

definition btrim_nonempty :: "string \<Rightarrow> bool" where
  "btrim_nonempty s \<longleftrightarrow> (\<exists>c\<in>set s. c \<noteq> CHR '' '')"

definition insert_entity :: "entity \<Rightarrow> unit dtx" where
  "insert_entity r = insert_into ''entities'' (btrim_nonempty (en_entity_type r) \<and> btrim_nonempty (en_canonical_name r))
     (\<lambda>d. en_id r \<notin> set (map en_id (entities d)))
     (\<lambda>d. en_tenant_id r \<in> set (tenants d))
     (\<lambda>d. d\<lparr>entities := entities d @ [r]\<rparr>)"

definition insert_entity_alias :: "entity_alias \<Rightarrow> unit dtx" where
  "insert_entity_alias r = insert_into ''entity_aliases'' (btrim_nonempty (ea_alias r))
     (\<lambda>d. ea_id r \<notin> set (map ea_id (entity_aliases d)) \<and>
        (ea_tenant_id r, ea_entity_id r, ea_alias r)
          \<notin> set (map (\<lambda>x. (ea_tenant_id x, ea_entity_id x, ea_alias x)) (entity_aliases d)))
     (\<lambda>d. ea_tenant_id r \<in> set (tenants d) \<and> fk_ok en_id (entities d) (Some (ea_entity_id r)))
     (\<lambda>d. d\<lparr>entity_aliases := entity_aliases d @ [r]\<rparr>)"

text \<open>The CHECKs of \<open>claims\<close> and of \<open>claim_evidence\<close> (\<open>0018_entities_claims_evidence.sql\<close>).\<close>

definition claim_checks :: "claim \<Rightarrow> bool" where
  "claim_checks r \<longleftrightarrow>
     (case clm_confidence r of None \<Rightarrow> True | Some p \<Rightarrow> 0 \<le> p \<and> p \<le> 1) \<and>
     btrim_nonempty (clm_predicate r) \<and>
     (clm_object_entity_id r \<noteq> None) \<noteq> (clm_object_value r \<noteq> None) \<and>
     (case clm_valid_to r of None \<Rightarrow> True | Some v \<Rightarrow> clm_valid_from r < v) \<and>
     clm_supersedes_claim_id r \<noteq> Some (clm_id r) \<and>
     (case clm_sensitivity r of None \<Rightarrow> True | Some s \<Rightarrow> btrim_nonempty s)"

definition insert_claim :: "claim \<Rightarrow> unit dtx" where
  "insert_claim r = insert_into ''claims'' (claim_checks r)
     (\<lambda>d. clm_id r \<notin> set (map clm_id (claims d)))
     (\<lambda>d. clm_tenant_id r \<in> set (tenants d) \<and> fk_ok en_id (entities d) (clm_subject_entity_id r)
        \<and> fk_ok en_id (entities d) (clm_object_entity_id r)
        \<and> fk_ok clm_id (claims d) (clm_supersedes_claim_id r))
     (\<lambda>d. d\<lparr>claims := claims d @ [r]\<rparr>)"

definition evidence_refs :: "claim_evidence \<Rightarrow> (evidence_kind \<times> uuid option) list" where
  "evidence_refs r =
     [(ev_message, ce_message_id r), (ev_work_order, ce_work_order_id r),
      (ev_authority_decision, ce_authority_decision_id r), (ev_action_receipt, ce_action_receipt_id r),
      (ev_directive, ce_directive_id r), (ev_briefing_issue, ce_briefing_issue_id r),
      (ev_trigger, ce_trigger_id r), (ev_memory_record, ce_memory_record_id r)]"

definition evidence_checks :: "claim_evidence \<Rightarrow> bool" where
  "evidence_checks r \<longleftrightarrow> length (filter (\<lambda>p. snd p \<noteq> None) (evidence_refs r)) = 1 \<and>
     list_ex (\<lambda>p. fst p = ce_source_kind r \<and> snd p \<noteq> None) (evidence_refs r)"

definition insert_claim_evidence :: "claim_evidence \<Rightarrow> unit dtx" where
  "insert_claim_evidence r = insert_into ''claim_evidence'' (evidence_checks r)
     (\<lambda>d. ce_id r \<notin> set (map ce_id (claim_evidence_rows d)))
     (\<lambda>d. ce_tenant_id r \<in> set (tenants d) \<and> fk_ok clm_id (claims d) (Some (ce_claim_id r))
        \<and> fk_ok ms_id (messages d) (ce_message_id r) \<and> fk_ok wo_id (work_orders d) (ce_work_order_id r)
        \<and> fk_ok ad_id (authority_decisions d) (ce_authority_decision_id r)
        \<and> fk_ok re_id (action_receipts d) (ce_action_receipt_id r)
        \<and> fk_ok od_id (operator_directives d) (ce_directive_id r)
        \<and> fk_ok bi_id (briefing_issues d) (ce_briefing_issue_id r)
        \<and> fk_ok tg_id (scheduled_triggers d) (ce_trigger_id r)
        \<and> fk_ok mr_id (memory_records d) (ce_memory_record_id r))
     (\<lambda>d. d\<lparr>claim_evidence_rows := claim_evidence_rows d @ [r]\<rparr>)"

definition insert_briefing_issue :: "briefing_issue \<Rightarrow> unit dtx" where
  "insert_briefing_issue r = insert_into ''briefing_issues'' True
     (\<lambda>d. bi_id r \<notin> set (map bi_id (briefing_issues d)) \<and>
        (bi_tenant_id r, bi_idempotency_key r) \<notin> set (map (\<lambda>x. (bi_tenant_id x, bi_idempotency_key x)) (briefing_issues d)))
     (\<lambda>d. bi_tenant_id r \<in> set (tenants d) \<and> fk_ok ac_id (actors d) (Some (bi_issued_by_actor_id r))
        \<and> fk_ok ms_id (messages d) (bi_source_message_id r) \<and> fk_ok wo_id (work_orders d) (bi_source_work_order_id r)
        \<and> fk_ok od_id (operator_directives d) (bi_first_move_directive_id r)
        \<and> fk_ok af_id (artifacts d) (bi_prose_artifact_id r))
     (\<lambda>d. d\<lparr>briefing_issues := briefing_issues d @ [r]\<rparr>)"

definition insert_briefing_issue_entry :: "briefing_issue_entry \<Rightarrow> unit dtx" where
  "insert_briefing_issue_entry r = insert_into ''briefing_issue_entries''
     (entry_one_source r \<and> (be_directive_revision_id r = None \<or> be_directive_id r \<noteq> None))
     (\<lambda>d. be_id r \<notin> set (map be_id (briefing_issue_entries d)))
     (\<lambda>d. be_tenant_id r \<in> set (tenants d) \<and> fk_ok bi_id (briefing_issues d) (Some (be_briefing_issue_id r))
        \<and> fk_ok od_id (operator_directives d) (be_directive_id r)
        \<and> fk_ok dr_id (directive_revisions d) (be_directive_revision_id r)
        \<and> fk_ok wo_id (work_orders d) (be_work_order_id r) \<and> fk_ok re_id (action_receipts d) (be_action_receipt_id r)
        \<and> fk_ok mc_id (memory_candidates d) (be_memory_candidate_id r)
        \<and> fk_ok bi_id (briefing_issues d) (be_carried_from_issue_id r))
     (\<lambda>d. d\<lparr>briefing_issue_entries := briefing_issue_entries d @ [r]\<rparr>)"

lemmas insert_defs = insert_thread_def insert_message_def insert_work_order_def
  insert_wo_transition_def insert_run_def insert_authority_decision_def insert_tool_invocation_def
  insert_action_receipt_def insert_memory_candidate_def insert_memory_record_def
  insert_memory_record_version_def insert_operator_directive_def insert_directive_revision_def
  insert_directive_transition_def insert_directive_provenance_def insert_directive_suppression_def
  insert_cognitive_run_def insert_cognitive_run_transition_def insert_memory_embedding_def
  insert_model_invocation_def insert_artifact_def insert_scheduled_trigger_def insert_entity_def insert_entity_alias_def
  insert_claim_def insert_claim_evidence_def insert_briefing_issue_def insert_briefing_issue_entry_def

subsection \<open>Tenant-scoped references\<close>

text \<open>
  The tables a caller-influenced reference may name. A foreign key only proves that the row exists
  somewhere, so the write paths look it up under the acting tenant first.
\<close>

datatype ref_table =
    tbl_actors | tbl_messages | tbl_work_orders | tbl_runs | tbl_authority_decisions
  | tbl_tool_invocations | tbl_action_receipts | tbl_artifacts | tbl_memory_candidates
  | tbl_memory_records | tbl_entities | tbl_claims | tbl_operator_directives | tbl_briefing_issues
  | tbl_scheduled_triggers

text \<open>\<open>SELECT id FROM ${table} WHERE id = $1 AND tenant_id = $2\<close>\<close>

fun ref_ids :: "client \<Rightarrow> ref_table \<Rightarrow> uuid \<Rightarrow> uuid \<Rightarrow> db \<Rightarrow> uuid list" where
  "ref_ids c tbl_actors i t d = map ac_id (scoped_rows c ac_id ac_tenant_id i t (actors d))"
| "ref_ids c tbl_messages i t d = map ms_id (scoped_rows c ms_id ms_tenant_id i t (messages d))"
| "ref_ids c tbl_work_orders i t d = map wo_id (scoped_rows c wo_id wo_tenant_id i t (work_orders d))"
| "ref_ids c tbl_runs i t d = map ru_id (scoped_rows c ru_id ru_tenant_id i t (runs d))"
| "ref_ids c tbl_authority_decisions i t d = map ad_id (scoped_rows c ad_id ad_tenant_id i t (authority_decisions d))"
| "ref_ids c tbl_tool_invocations i t d = map ti_id (scoped_rows c ti_id ti_tenant_id i t (tool_invocations d))"
| "ref_ids c tbl_action_receipts i t d = map re_id (scoped_rows c re_id re_tenant_id i t (action_receipts d))"
| "ref_ids c tbl_artifacts i t d = map af_id (scoped_rows c af_id af_tenant_id i t (artifacts d))"
| "ref_ids c tbl_memory_candidates i t d = map mc_id (scoped_rows c mc_id mc_tenant_id i t (memory_candidates d))"
| "ref_ids c tbl_memory_records i t d = map mr_id (scoped_rows c mr_id mr_tenant_id i t (memory_records d))"
| "ref_ids c tbl_entities i t d = map en_id (scoped_rows c en_id en_tenant_id i t (entities d))"
| "ref_ids c tbl_claims i t d = map clm_id (scoped_rows c clm_id clm_tenant_id i t (claims d))"
| "ref_ids c tbl_operator_directives i t d = map od_id (scoped_rows c od_id od_tenant_id i t (operator_directives d))"
| "ref_ids c tbl_briefing_issues i t d = map bi_id (scoped_rows c bi_id bi_tenant_id i t (briefing_issues d))"
| "ref_ids c tbl_scheduled_triggers i t d = map tg_id (scoped_rows c tg_id tg_tenant_id i t (scheduled_triggers d))"

definition assertTenantScopedReference :: "client \<Rightarrow> ref_table \<Rightarrow> uuid \<Rightarrow> uuid \<Rightarrow> error \<Rightarrow> unit dtx" where
  "assertTenantScopedReference c tbl i t onNotFound =
     tbind (query (ref_ids c tbl i t)) (\<lambda>rows. ensure (rows \<noteq> []) onNotFound)"

lemma assertTenantScopedReference_Inr [tx_simps]:
  "assertTenantScopedReference c tbl i t err d = Inr r \<longleftrightarrow> ref_ids c tbl i t d \<noteq> [] \<and> r = ((), d)"
  by (auto simp: assertTenantScopedReference_def tx_simps)

lemma assertTenantScopedReference_Inl [tx_simps]:
  "assertTenantScopedReference c tbl i t err d = Inl e \<longleftrightarrow> ref_ids c tbl i t d = [] \<and> e = err"
  by (auto simp: assertTenantScopedReference_def tx_simps)

end
