(* ===== verification/Frames.thy ===== *)
theory Frames
  imports Database
begin

text \<open>
  What an operation of one tenant may do to the database as a whole. \<open>tenant_frame t\<close> relates the
  databases before and after: the audit tables only grow at their end, and, as long as primary keys
  are unique, they stay unique and no row of another tenant changes. It is reflexive and transitive,
  so each operation inherits it from its single statements; the rules for the inserts are collected
  in \<open>rel_intros\<close>.
\<close>

subsection \<open>Append-only tables\<close>

definition appended :: "'a list \<Rightarrow> 'a list \<Rightarrow> bool" where
  "appended xs ys \<longleftrightarrow> take (length xs) ys = xs"

lemma appended_iff: "appended xs ys \<longleftrightarrow> (\<exists>zs. ys = xs @ zs)"
  by (auto simp: appended_def) (metis append_take_drop_id)

lemma appended_refl [simp, intro]: "appended xs xs"
  by (simp add: appended_def)

lemma appended_append [simp, intro]: "appended xs (xs @ ys)"
  by (simp add: appended_def)

lemma appended_trans: "appended xs ys \<Longrightarrow> appended ys zs \<Longrightarrow> appended xs zs"
  by (auto simp: appended_iff)

lemma appended_subset: "appended xs ys \<Longrightarrow> x \<in> set xs \<Longrightarrow> x \<in> set ys"
  by (auto simp: appended_iff)

text \<open>The tables whose rows the runtime never updates or deletes.\<close>

definition audit_appends :: "db \<Rightarrow> db \<Rightarrow> bool" where
  "audit_appends d d' \<longleftrightarrow>
     appended (messages d) (messages d') \<and>
     appended (wo_transitions d) (wo_transitions d') \<and>
     appended (authority_decisions d) (authority_decisions d') \<and>
     appended (action_receipts d) (action_receipts d') \<and>
     appended (directive_revisions d) (directive_revisions d') \<and>
     appended (directive_transitions d) (directive_transitions d') \<and>
     appended (directive_provenance_rows d) (directive_provenance_rows d') \<and>
     appended (directive_suppressions d) (directive_suppressions d') \<and>
     appended (cognitive_run_transitions d) (cognitive_run_transitions d') \<and>
     appended (entities d) (entities d') \<and>
     appended (entity_aliases d) (entity_aliases d') \<and>
     appended (claims d) (claims d') \<and>
     appended (claim_evidence_rows d) (claim_evidence_rows d') \<and>
     appended (briefing_issue_entries d) (briefing_issue_entries d')"

subsection \<open>Primary keys and the rows of other tenants\<close>

definition pk_ok :: "db \<Rightarrow> bool" where
  "pk_ok d \<longleftrightarrow>
     distinct (map th_id (threads d)) \<and>
     distinct (map ms_id (messages d)) \<and>
     distinct (map wo_id (work_orders d)) \<and>
     distinct (map wt_id (wo_transitions d)) \<and>
     distinct (map ru_id (runs d)) \<and>
     distinct (map ad_id (authority_decisions d)) \<and>
     distinct (map sr_id (standing_rules d)) \<and>
     distinct (map ti_id (tool_invocations d)) \<and>
     distinct (map re_id (action_receipts d)) \<and>
     distinct (map mc_id (memory_candidates d)) \<and>
     distinct (map mr_id (memory_records d)) \<and>
     distinct (map mv_id (memory_record_versions d)) \<and>
     distinct (map me_id (memory_embeddings d)) \<and>
     distinct (map af_id (artifacts d)) \<and>
     distinct (map od_id (operator_directives d)) \<and>
     distinct (map dr_id (directive_revisions d)) \<and>
     distinct (map dt_id (directive_transitions d)) \<and>
     distinct (map dp_id (directive_provenance_rows d)) \<and>
     distinct (map ds_id (directive_suppressions d)) \<and>
     distinct (map cr_id (cognitive_runs d)) \<and>
     distinct (map ct_id (cognitive_run_transitions d)) \<and>
     distinct (map mi_id (model_invocations d)) \<and>
     distinct (map tg_id (scheduled_triggers d)) \<and>
     distinct (map en_id (entities d)) \<and>
     distinct (map ea_id (entity_aliases d)) \<and>
     distinct (map clm_id (claims d)) \<and>
     distinct (map ce_id (claim_evidence_rows d)) \<and>
     distinct (map bi_id (briefing_issues d)) \<and>
     distinct (map be_id (briefing_issue_entries d))"

definition foreign_view :: "uuid \<Rightarrow> db \<Rightarrow> db" where
  "foreign_view t d = d\<lparr>
     threads := filter (\<lambda>r. th_tenant_id r \<noteq> t) (threads d),
     messages := filter (\<lambda>r. ms_tenant_id r \<noteq> t) (messages d),
     work_orders := filter (\<lambda>r. wo_tenant_id r \<noteq> t) (work_orders d),
     wo_transitions := filter (\<lambda>r. wt_tenant_id r \<noteq> t) (wo_transitions d),
     runs := filter (\<lambda>r. ru_tenant_id r \<noteq> t) (runs d),
     authority_decisions := filter (\<lambda>r. ad_tenant_id r \<noteq> t) (authority_decisions d),
     standing_rules := filter (\<lambda>r. sr_tenant_id r \<noteq> t) (standing_rules d),
     tool_invocations := filter (\<lambda>r. ti_tenant_id r \<noteq> t) (tool_invocations d),
     action_receipts := filter (\<lambda>r. re_tenant_id r \<noteq> t) (action_receipts d),
     memory_candidates := filter (\<lambda>r. mc_tenant_id r \<noteq> t) (memory_candidates d),
     memory_records := filter (\<lambda>r. mr_tenant_id r \<noteq> t) (memory_records d),
     memory_record_versions := filter (\<lambda>r. mv_tenant_id r \<noteq> t) (memory_record_versions d),
     memory_embeddings := filter (\<lambda>r. me_tenant_id r \<noteq> t) (memory_embeddings d),
     artifacts := filter (\<lambda>r. af_tenant_id r \<noteq> t) (artifacts d),
     operator_directives := filter (\<lambda>r. od_tenant_id r \<noteq> t) (operator_directives d),
     directive_revisions := filter (\<lambda>r. dr_tenant_id r \<noteq> t) (directive_revisions d),
     directive_transitions := filter (\<lambda>r. dt_tenant_id r \<noteq> t) (directive_transitions d),
     directive_provenance_rows := filter (\<lambda>r. dp_tenant_id r \<noteq> t) (directive_provenance_rows d),
     directive_suppressions := filter (\<lambda>r. ds_tenant_id r \<noteq> t) (directive_suppressions d),
     cognitive_runs := filter (\<lambda>r. cr_tenant_id r \<noteq> t) (cognitive_runs d),
     cognitive_run_transitions := filter (\<lambda>r. ct_tenant_id r \<noteq> t) (cognitive_run_transitions d),
     model_invocations := filter (\<lambda>r. mi_tenant_id r \<noteq> t) (model_invocations d),
     scheduled_triggers := filter (\<lambda>r. tg_tenant_id r \<noteq> t) (scheduled_triggers d),
     entities := filter (\<lambda>r. en_tenant_id r \<noteq> t) (entities d),
     entity_aliases := filter (\<lambda>r. ea_tenant_id r \<noteq> t) (entity_aliases d),
     claims := filter (\<lambda>r. clm_tenant_id r \<noteq> t) (claims d),
     claim_evidence_rows := filter (\<lambda>r. ce_tenant_id r \<noteq> t) (claim_evidence_rows d),
     briefing_issues := filter (\<lambda>r. bi_tenant_id r \<noteq> t) (briefing_issues d),
     briefing_issue_entries := filter (\<lambda>r. be_tenant_id r \<noteq> t) (briefing_issue_entries d)\<rparr>"

definition tenant_frame :: "uuid \<Rightarrow> db \<Rightarrow> db \<Rightarrow> bool" where
  "tenant_frame t d d' \<longleftrightarrow>
     audit_appends d d' \<and> (pk_ok d \<longrightarrow> pk_ok d' \<and> foreign_view t d' = foreign_view t d)"

lemmas tenant_frame_defs = tenant_frame_def audit_appends_def pk_ok_def foreign_view_def

lemma audit_appends_trans:
  "audit_appends d d' \<Longrightarrow> audit_appends d' d'' \<Longrightarrow> audit_appends d d''"
  unfolding audit_appends_def by (meson appended_trans)

interpretation frame: db_preorder "tenant_frame t" for t
proof
  show "tenant_frame t d d" for d
    by (simp add: tenant_frame_def audit_appends_def)
  show "tenant_frame t d d' \<Longrightarrow> tenant_frame t d' d'' \<Longrightarrow> tenant_frame t d d''" for d d' d''
    by (auto simp: tenant_frame_def intro: audit_appends_trans)
qed

text \<open>An update by id alone stays with the tenant of the row it names, because ids are unique.\<close>

lemma filter_update_by_id:
  assumes "distinct (map id_of rows)" "r \<in> set rows" "\<And>x. P x \<Longrightarrow> id_of x = id_of r" "\<not> Q r" "\<not> Q (f r)"
  shows "filter Q (update_where P f rows) = filter Q rows"
proof -
  have "x = r" if "x \<in> set rows" "P x" for x
    using assms(1-3) that by (auto simp: distinct_map dest: inj_onD)
  with assms(4,5) have "x \<in> set rows \<Longrightarrow> P x \<Longrightarrow> \<not> Q x \<and> \<not> Q (f x)" for x by blast
  then show ?thesis by (induction rows) auto
qed

lemma frame_insert:
  assumes "\<And>d. un d \<Longrightarrow> tenant_frame t d (store d)"
  shows "steps (tenant_frame t) (insert_into tbl ck un fk store)"
  using assms by (auto simp: steps_def tx_simps)

lemma frame_insert_or_nothing [rel_intros]:
  assumes "steps (tenant_frame t) ins"
  shows "steps (tenant_frame t) (insert_or_nothing cf ins)"
  using assms by (auto simp: steps_def tx_simps frame.R_refl)

lemma frame_reference [rel_intros]: "steps (tenant_frame t) (assertTenantScopedReference c tbl i t' e)"
  by (auto simp: steps_def tx_simps frame.R_refl)

lemma frame_insert_thread [rel_intros]: "th_tenant_id r = t \<Longrightarrow> steps (tenant_frame t) (insert_thread r)"
  by (auto simp: insert_thread_def intro!: frame_insert simp: tenant_frame_defs)

lemma frame_insert_message [rel_intros]: "ms_tenant_id r = t \<Longrightarrow> steps (tenant_frame t) (insert_message r)"
  by (auto simp: insert_message_def intro!: frame_insert simp: tenant_frame_defs)

lemma frame_insert_work_order [rel_intros]: "wo_tenant_id r = t \<Longrightarrow> steps (tenant_frame t) (insert_work_order r)"
  by (auto simp: insert_work_order_def intro!: frame_insert simp: tenant_frame_defs)

lemma frame_insert_wo_transition [rel_intros]: "wt_tenant_id r = t \<Longrightarrow> steps (tenant_frame t) (insert_wo_transition r)"
  by (auto simp: insert_wo_transition_def intro!: frame_insert simp: tenant_frame_defs)

lemma frame_insert_run [rel_intros]: "ru_tenant_id r = t \<Longrightarrow> steps (tenant_frame t) (insert_run r)"
  by (auto simp: insert_run_def intro!: frame_insert simp: tenant_frame_defs)

lemma frame_insert_authority_decision [rel_intros]: "ad_tenant_id r = t \<Longrightarrow> steps (tenant_frame t) (insert_authority_decision r)"
  by (auto simp: insert_authority_decision_def intro!: frame_insert simp: tenant_frame_defs)

lemma frame_insert_tool_invocation [rel_intros]: "ti_tenant_id r = t \<Longrightarrow> steps (tenant_frame t) (insert_tool_invocation r)"
  by (auto simp: insert_tool_invocation_def intro!: frame_insert simp: tenant_frame_defs)

lemma frame_insert_action_receipt [rel_intros]: "re_tenant_id r = t \<Longrightarrow> steps (tenant_frame t) (insert_action_receipt r)"
  by (auto simp: insert_action_receipt_def intro!: frame_insert simp: tenant_frame_defs)

lemma frame_insert_memory_candidate [rel_intros]: "mc_tenant_id r = t \<Longrightarrow> steps (tenant_frame t) (insert_memory_candidate r)"
  by (auto simp: insert_memory_candidate_def intro!: frame_insert simp: tenant_frame_defs)

lemma frame_insert_memory_record [rel_intros]: "mr_tenant_id r = t \<Longrightarrow> steps (tenant_frame t) (insert_memory_record r)"
  by (auto simp: insert_memory_record_def intro!: frame_insert simp: tenant_frame_defs)

lemma frame_insert_memory_record_version [rel_intros]: "mv_tenant_id r = t \<Longrightarrow> steps (tenant_frame t) (insert_memory_record_version r)"
  by (auto simp: insert_memory_record_version_def intro!: frame_insert simp: tenant_frame_defs)

lemma frame_insert_operator_directive [rel_intros]: "od_tenant_id r = t \<Longrightarrow> steps (tenant_frame t) (insert_operator_directive r)"
  by (auto simp: insert_operator_directive_def intro!: frame_insert simp: tenant_frame_defs)

lemma frame_insert_directive_revision [rel_intros]: "dr_tenant_id r = t \<Longrightarrow> steps (tenant_frame t) (insert_directive_revision r)"
  by (auto simp: insert_directive_revision_def intro!: frame_insert simp: tenant_frame_defs)

lemma frame_insert_directive_transition [rel_intros]: "dt_tenant_id r = t \<Longrightarrow> steps (tenant_frame t) (insert_directive_transition r)"
  by (auto simp: insert_directive_transition_def intro!: frame_insert simp: tenant_frame_defs)

lemma frame_insert_directive_provenance [rel_intros]: "dp_tenant_id r = t \<Longrightarrow> steps (tenant_frame t) (insert_directive_provenance r)"
  by (auto simp: insert_directive_provenance_def intro!: frame_insert simp: tenant_frame_defs)

lemma frame_insert_directive_suppression [rel_intros]: "ds_tenant_id r = t \<Longrightarrow> steps (tenant_frame t) (insert_directive_suppression r)"
  by (auto simp: insert_directive_suppression_def intro!: frame_insert simp: tenant_frame_defs)

lemma frame_insert_cognitive_run [rel_intros]: "cr_tenant_id r = t \<Longrightarrow> steps (tenant_frame t) (insert_cognitive_run r)"
  by (auto simp: insert_cognitive_run_def intro!: frame_insert simp: tenant_frame_defs)

lemma frame_insert_cognitive_run_transition [rel_intros]: "ct_tenant_id r = t \<Longrightarrow> steps (tenant_frame t) (insert_cognitive_run_transition r)"
  by (auto simp: insert_cognitive_run_transition_def intro!: frame_insert simp: tenant_frame_defs)

lemma frame_insert_memory_embedding [rel_intros]: "me_tenant_id r = t \<Longrightarrow> steps (tenant_frame t) (insert_memory_embedding r)"
  by (auto simp: insert_memory_embedding_def intro!: frame_insert simp: tenant_frame_defs)

lemma frame_insert_model_invocation [rel_intros]: "mi_tenant_id r = t \<Longrightarrow> steps (tenant_frame t) (insert_model_invocation r)"
  by (auto simp: insert_model_invocation_def intro!: frame_insert simp: tenant_frame_defs)

lemma frame_require [rel_intros]: "steps (tenant_frame t) (require P err)"
  by (auto simp: steps_def tx_simps frame.R_refl)

lemma frame_insert_artifact [rel_intros]: "af_tenant_id r = t \<Longrightarrow> steps (tenant_frame t) (insert_artifact r)"
  by (auto simp: insert_artifact_def intro!: frame_insert simp: tenant_frame_defs)

lemma frame_insert_scheduled_trigger [rel_intros]: "tg_tenant_id r = t \<Longrightarrow> steps (tenant_frame t) (insert_scheduled_trigger r)"
  by (auto simp: insert_scheduled_trigger_def intro!: frame_insert simp: tenant_frame_defs)

lemma frame_insert_entity [rel_intros]: "en_tenant_id r = t \<Longrightarrow> steps (tenant_frame t) (insert_entity r)"
  by (auto simp: insert_entity_def intro!: frame_insert simp: tenant_frame_defs)

lemma frame_insert_entity_alias [rel_intros]: "ea_tenant_id r = t \<Longrightarrow> steps (tenant_frame t) (insert_entity_alias r)"
  by (auto simp: insert_entity_alias_def intro!: frame_insert simp: tenant_frame_defs)

lemma frame_insert_claim [rel_intros]: "clm_tenant_id r = t \<Longrightarrow> steps (tenant_frame t) (insert_claim r)"
  by (auto simp: insert_claim_def intro!: frame_insert simp: tenant_frame_defs)

lemma frame_insert_claim_evidence [rel_intros]: "ce_tenant_id r = t \<Longrightarrow> steps (tenant_frame t) (insert_claim_evidence r)"
  by (auto simp: insert_claim_evidence_def intro!: frame_insert simp: tenant_frame_defs)

lemma frame_insert_briefing_issue [rel_intros]: "bi_tenant_id r = t \<Longrightarrow> steps (tenant_frame t) (insert_briefing_issue r)"
  by (auto simp: insert_briefing_issue_def intro!: frame_insert simp: tenant_frame_defs)

lemma frame_insert_briefing_issue_entry [rel_intros]: "be_tenant_id r = t \<Longrightarrow> steps (tenant_frame t) (insert_briefing_issue_entry r)"
  by (auto simp: insert_briefing_issue_entry_def intro!: frame_insert simp: tenant_frame_defs)

end
