(* ===== verification/Lifecycle.thy ===== *)
theory Lifecycle
  imports Prelude
begin

text \<open>
  The contract shared by the three audited entities (WorkOrder, Directive, CognitiveRun): a status
  enum with a table of permitted moves, a set of terminal statuses, and an assertion that throws
  before a move is made. \<open>trail\<close> specifies the transition history such an entity may have, \<open>replay\<close>
  computes the status a history leads to; the locales state what the tables must satisfy and what
  follows for every history.
\<close>

subsection \<open>Histories\<close>

inductive trail :: "('s \<Rightarrow> 's list) \<Rightarrow> 's \<Rightarrow> ('s option \<times> 's) list \<Rightarrow> 's \<Rightarrow> bool"
  for valid init where
  start: "trail valid init [(None, init)] init"
| move: "trail valid init h s \<Longrightarrow> t \<in> set (valid s) \<Longrightarrow> trail valid init (h @ [(Some s, t)]) t"

fun replay_from :: "('s \<Rightarrow> 's list) \<Rightarrow> 's \<Rightarrow> ('s option \<times> 's) list \<Rightarrow> 's option" where
  "replay_from valid s [] = Some s"
| "replay_from valid s ((f, t) # h) =
     (if f = Some s \<and> t \<in> set (valid s) then replay_from valid t h else None)"

fun replay :: "('s \<Rightarrow> 's list) \<Rightarrow> 's \<Rightarrow> ('s option \<times> 's) list \<Rightarrow> 's option" where
  "replay valid init [] = None"
| "replay valid init ((f, t) # h) = (if f = None \<and> t = init then replay_from valid t h else None)"

lemma trail_not_Nil: "trail valid init h s \<Longrightarrow> h \<noteq> []"
  by (induction rule: trail.induct) auto

lemma trail_last: "trail valid init h s \<Longrightarrow> snd (last h) = s"
  by (induction rule: trail.induct) auto

lemma trail_hd: "trail valid init h s \<Longrightarrow> hd h = (None, init)"
  by (induction rule: trail.induct) (auto simp: hd_append dest: trail_not_Nil)

lemma trail_functional: "trail valid init h s \<Longrightarrow> trail valid init h s' \<Longrightarrow> s = s'"
  by (metis trail_last)

lemma replay_from_append:
  "replay_from valid s (h @ h') =
     (case replay_from valid s h of None \<Rightarrow> None | Some t \<Rightarrow> replay_from valid t h')"
  by (induction valid s h rule: replay_from.induct) auto

lemma replay_append:
  "h \<noteq> [] \<Longrightarrow> replay valid init (h @ h') =
     (case replay valid init h of None \<Rightarrow> None | Some t \<Rightarrow> replay_from valid t h')"
  by (cases h) (auto simp: replay_from_append)

lemma trail_imp_replay: "trail valid init h s \<Longrightarrow> replay valid init h = Some s"
  by (induction rule: trail.induct) (auto simp: replay_append dest: trail_not_Nil)

lemma trail_replay_from:
  "trail valid init h s \<Longrightarrow> replay_from valid s h' = Some t \<Longrightarrow> trail valid init (h @ h') t"
proof (induction h' arbitrary: h s)
  case Nil
  then show ?case by simp
next
  case (Cons m h')
  obtain f u where m: "m = (f, u)" by fastforce
  with Cons.prems have "f = Some s" "u \<in> set (valid s)" "replay_from valid u h' = Some t"
    by (auto split: if_splits)
  moreover from Cons.prems this have "trail valid init (h @ [(Some s, u)]) u"
    by (intro trail.move)
  ultimately show ?case using Cons.IH m by fastforce
qed

lemma trail_iff_replay: "trail valid init h s \<longleftrightarrow> replay valid init h = Some s"
proof
  assume "replay valid init h = Some s"
  then obtain h' where "h = (None, init) # h'" "replay_from valid init h' = Some s"
    by (cases h) (auto split: if_splits)
  then show "trail valid init h s"
    using trail_replay_from [OF trail.start, of valid init h' s] by simp
qed (rule trail_imp_replay)

lemma trail_moves:
  "trail valid init h s \<Longrightarrow> (Some f, t) \<in> set h \<Longrightarrow> t \<in> set (valid f) \<and> f \<in> snd ` set h"
proof (induction rule: trail.induct)
  case (move h s u)
  then show ?case
    using trail_last [OF move.hyps(1)] trail_not_Nil [OF move.hyps(1)]
    by (force dest: last_in_set)
qed simp

text \<open>A status that was visited and is not the first was entered by a recorded, permitted move.\<close>

lemma trail_entered:
  assumes "trail valid init h s" "t \<in> snd ` set h" "t \<noteq> init"
  shows "\<exists>f. (Some f, t) \<in> set h \<and> t \<in> set (valid f) \<and> f \<in> snd ` set h"
proof -
  from assms obtain f where f: "(f, t) \<in> set h" by auto
  have "f \<noteq> None"
    using assms(1,3) f by (induction rule: trail.induct) auto
  with f obtain g where "(Some g, t) \<in> set h" by auto
  with trail_moves [OF assms(1) this] show ?thesis by blast
qed

lemma trail_current: "trail valid init h s \<Longrightarrow> s \<in> snd ` set h"
  using trail_last trail_not_Nil last_in_set by (metis image_eqI)

subsection \<open>The contract\<close>

locale lifecycle =
  fixes valid :: "'s \<Rightarrow> 's list"
    and terminal :: "'s \<Rightarrow> bool"
    and assert_valid :: "'i \<Rightarrow> 's \<Rightarrow> 's \<Rightarrow> 'e + unit"
    and terminal_error :: "'i \<Rightarrow> 's \<Rightarrow> 'e"
    and invalid_error :: "'i \<Rightarrow> 's \<Rightarrow> 's \<Rightarrow> 'e"
  assumes terminal_iff: "terminal s \<longleftrightarrow> valid s = []"
    and assert_terminal: "terminal s \<Longrightarrow> assert_valid i s t = Inl (terminal_error i s)"
    and assert_invalid:
      "\<not> terminal s \<Longrightarrow> t \<notin> set (valid s) \<Longrightarrow> assert_valid i s t = Inl (invalid_error i s t)"
    and assert_ok: "t \<in> set (valid s) \<Longrightarrow> assert_valid i s t = Inr ()"
begin

lemma assert_Inr_iff: "assert_valid i s t = Inr r \<longleftrightarrow> t \<in> set (valid s)"
proof
  assume "assert_valid i s t = Inr r"
  then show "t \<in> set (valid s)"
    by (cases "terminal s") (metis assert_terminal assert_invalid Inl_Inr_False)+
next
  assume "t \<in> set (valid s)"
  then show "assert_valid i s t = Inr r" by (simp add: assert_ok)
qed

lemma assert_Inl_cases:
  "assert_valid i s t = Inl e \<Longrightarrow>
   (terminal s \<and> e = terminal_error i s) \<or> (\<not> terminal s \<and> t \<notin> set (valid s) \<and> e = invalid_error i s t)"
  by (metis assert_terminal assert_invalid assert_ok sum.distinct(1) sum.inject(1))

lemma trail_terminal_last:
  "trail valid init h s \<Longrightarrow> (f, t) \<in> set (butlast h) \<Longrightarrow> \<not> terminal t"
proof (induction rule: trail.induct)
  case start
  then show ?case by simp
next
  case (move h s u)
  from move.prems have "(f, t) \<in> set h" by simp
  then have "(f, t) \<in> set (butlast h) \<or> (f, t) = last h"
    by (metis append_butlast_last_id in_set_conv_decomp set_ConsD rotate1.simps(2)
        set_rotate1 empty_iff empty_set)
  then show ?case
  proof
    assume "(f, t) = last h"
    with move.hyps(1) have "t = s" by (metis snd_conv trail_last)
    with move.hyps(2) show ?thesis by (auto simp: terminal_iff)
  qed (rule move.IH)
qed

end

locale acyclic_lifecycle = lifecycle +
  fixes rank :: "'s \<Rightarrow> nat"
  assumes rank_mono: "t \<in> set (valid s) \<Longrightarrow> rank s < rank t"
begin

lemma no_self_move: "s \<notin> set (valid s)"
  using rank_mono by blast

lemma trail_length: "trail valid init h s \<Longrightarrow> length h \<le> Suc (rank s - rank init)"
  and trail_rank: "trail valid init h s \<Longrightarrow> rank init \<le> rank s"
proof (induction rule: trail.induct)
  case (move h s t)
  case 1
  from rank_mono [OF move.hyps(2)] move.IH show ?case by simp
next
  case (move h s t)
  case 2
  from rank_mono [OF move.hyps(2)] move.IH show ?case by simp
qed simp_all

lemma trail_ranks_below: "trail valid init h s \<Longrightarrow> (f, t) \<in> set h \<Longrightarrow> rank t \<le> rank s"
proof (induction rule: trail.induct)
  case (move h s u)
  from rank_mono [OF move.hyps(2)] move show ?case by fastforce
qed simp

lemma trail_distinct: "trail valid init h s \<Longrightarrow> distinct (map snd h)"
proof (induction rule: trail.induct)
  case (move h s t)
  have "t \<noteq> snd p" if "p \<in> set h" for p
    using trail_ranks_below [OF move.hyps(1), of "fst p" "snd p"] rank_mono [OF move.hyps(2)] that
    by fastforce
  then show ?case using move.IH by (auto simp: image_iff)
qed simp

lemma trail_fresh: "trail valid init h s \<Longrightarrow> t \<in> set (valid s) \<Longrightarrow> t \<notin> snd ` set h"
  by (drule (1) trail.move, drule trail_distinct) simp

lemma trail_not_left: "trail valid init h s \<Longrightarrow> (Some s, t) \<notin> set h"
  by (meson trail_moves trail_ranks_below rank_mono not_less)

end

end
