(* ===== verification/WorkOrderState.thy ===== *)
theory WorkOrderState
  imports Errors Lifecycle
begin

text \<open>
  \<open>src/src/state/workOrderState.ts\<close>: the WorkOrder status graph, its terminal statuses, the map from
  authority outcomes to statuses and the assertion \<open>transitionWorkOrder\<close> makes before every move.
  The graph is an acyclic lifecycle, so a WorkOrder's history is bounded and never repeats a status.
\<close>

fun VALID_WORK_ORDER_TRANSITIONS :: "work_order_status \<Rightarrow> work_order_status list" where
  "VALID_WORK_ORDER_TRANSITIONS RECEIVED = [INTENT_PARSED, FAILED]"
| "VALID_WORK_ORDER_TRANSITIONS INTENT_PARSED = [AUTHORITY_CLASSIFIED, FAILED]"
| "VALID_WORK_ORDER_TRANSITIONS AUTHORITY_CLASSIFIED =
     [READY_TO_ACT, AWAITING_AUTHORIZATION, SETUP_REQUIRED, CAPABILITY_MISSING, REFUSED, FAILED]"
| "VALID_WORK_ORDER_TRANSITIONS READY_TO_ACT = [EXECUTING, FAILED]"
| "VALID_WORK_ORDER_TRANSITIONS AWAITING_AUTHORIZATION = [READY_TO_ACT, REFUSED, FAILED]"
| "VALID_WORK_ORDER_TRANSITIONS SETUP_REQUIRED = [READY_TO_ACT, FAILED]"
| "VALID_WORK_ORDER_TRANSITIONS CAPABILITY_MISSING = []"
| "VALID_WORK_ORDER_TRANSITIONS REFUSED = []"
| "VALID_WORK_ORDER_TRANSITIONS EXECUTING = [VALIDATING, FAILED]"
| "VALID_WORK_ORDER_TRANSITIONS VALIDATING = [RECEIPT_WRITTEN, FAILED]"
| "VALID_WORK_ORDER_TRANSITIONS RECEIPT_WRITTEN = [MEMORY_CANDIDATES_CREATED, COMPLETED, FAILED]"
| "VALID_WORK_ORDER_TRANSITIONS MEMORY_CANDIDATES_CREATED = [COMPLETED, FAILED]"
| "VALID_WORK_ORDER_TRANSITIONS COMPLETED = []"
| "VALID_WORK_ORDER_TRANSITIONS FAILED = []"

definition TERMINAL_WORK_ORDER_STATUSES :: "work_order_status list" where
  "TERMINAL_WORK_ORDER_STATUSES = [CAPABILITY_MISSING, REFUSED, COMPLETED, FAILED]"

fun AUTHORITY_OUTCOME_TO_WORK_ORDER_STATUS :: "authority_outcome \<Rightarrow> work_order_status" where
  "AUTHORITY_OUTCOME_TO_WORK_ORDER_STATUS act = READY_TO_ACT"
| "AUTHORITY_OUTCOME_TO_WORK_ORDER_STATUS act_and_report = READY_TO_ACT"
| "AUTHORITY_OUTCOME_TO_WORK_ORDER_STATUS escalate = AWAITING_AUTHORIZATION"
| "AUTHORITY_OUTCOME_TO_WORK_ORDER_STATUS setup_required = SETUP_REQUIRED"
| "AUTHORITY_OUTCOME_TO_WORK_ORDER_STATUS capability_missing = CAPABILITY_MISSING"
| "AUTHORITY_OUTCOME_TO_WORK_ORDER_STATUS refuse = REFUSED"

definition isTerminalWorkOrderStatus :: "work_order_status \<Rightarrow> bool" where
  "isTerminalWorkOrderStatus s \<longleftrightarrow> s \<in> set TERMINAL_WORK_ORDER_STATUSES"

definition isValidWorkOrderTransition :: "work_order_status \<Rightarrow> work_order_status \<Rightarrow> bool" where
  "isValidWorkOrderTransition s t \<longleftrightarrow> t \<in> set (VALID_WORK_ORDER_TRANSITIONS s)"

definition assertValidWorkOrderTransition ::
  "uuid \<Rightarrow> work_order_status \<Rightarrow> work_order_status \<Rightarrow> error + unit" where
  "assertValidWorkOrderTransition i s t =
     (if isTerminalWorkOrderStatus s then Inl (StateError (TerminalWorkOrderStateError i s))
      else if \<not> isValidWorkOrderTransition s t
        then Inl (StateError (InvalidWorkOrderTransitionError i s t))
      else Inr ())"

text \<open>The literal of a status, as receipts and messages quote it.\<close>

fun status_name :: "work_order_status \<Rightarrow> string" where
  "status_name RECEIVED = ''RECEIVED''"
| "status_name INTENT_PARSED = ''INTENT_PARSED''"
| "status_name AUTHORITY_CLASSIFIED = ''AUTHORITY_CLASSIFIED''"
| "status_name READY_TO_ACT = ''READY_TO_ACT''"
| "status_name AWAITING_AUTHORIZATION = ''AWAITING_AUTHORIZATION''"
| "status_name SETUP_REQUIRED = ''SETUP_REQUIRED''"
| "status_name CAPABILITY_MISSING = ''CAPABILITY_MISSING''"
| "status_name REFUSED = ''REFUSED''"
| "status_name EXECUTING = ''EXECUTING''"
| "status_name VALIDATING = ''VALIDATING''"
| "status_name RECEIPT_WRITTEN = ''RECEIPT_WRITTEN''"
| "status_name MEMORY_CANDIDATES_CREATED = ''MEMORY_CANDIDATES_CREATED''"
| "status_name COMPLETED = ''COMPLETED''"
| "status_name FAILED = ''FAILED''"

text \<open>A rank that every permitted move increases.\<close>

fun wo_rank :: "work_order_status \<Rightarrow> nat" where
  "wo_rank RECEIVED = 0"
| "wo_rank INTENT_PARSED = 1"
| "wo_rank AUTHORITY_CLASSIFIED = 2"
| "wo_rank AWAITING_AUTHORIZATION = 3"
| "wo_rank SETUP_REQUIRED = 3"
| "wo_rank CAPABILITY_MISSING = 9"
| "wo_rank REFUSED = 9"
| "wo_rank READY_TO_ACT = 4"
| "wo_rank EXECUTING = 5"
| "wo_rank VALIDATING = 6"
| "wo_rank RECEIPT_WRITTEN = 7"
| "wo_rank MEMORY_CANDIDATES_CREATED = 8"
| "wo_rank COMPLETED = 9"
| "wo_rank FAILED = 9"

lemma status_name_not_Nil [simp]: "status_name s \<noteq> []"
  by (cases s) auto

interpretation wo_life: acyclic_lifecycle VALID_WORK_ORDER_TRANSITIONS isTerminalWorkOrderStatus
  assertValidWorkOrderTransition "\<lambda>i s. StateError (TerminalWorkOrderStateError i s)"
  "\<lambda>i s t. StateError (InvalidWorkOrderTransitionError i s t)" wo_rank
proof
  fix s t :: work_order_status and i :: uuid
  show "isTerminalWorkOrderStatus s \<longleftrightarrow> VALID_WORK_ORDER_TRANSITIONS s = []"
    by (cases s) (simp_all add: isTerminalWorkOrderStatus_def TERMINAL_WORK_ORDER_STATUSES_def)
  then show "t \<in> set (VALID_WORK_ORDER_TRANSITIONS s) \<Longrightarrow> assertValidWorkOrderTransition i s t = Inr ()"
    by (auto simp: assertValidWorkOrderTransition_def isValidWorkOrderTransition_def)
  show "t \<in> set (VALID_WORK_ORDER_TRANSITIONS s) \<Longrightarrow> wo_rank s < wo_rank t"
    by (cases s) auto
qed (simp_all add: assertValidWorkOrderTransition_def isValidWorkOrderTransition_def)

lemma wo_rank_le: "wo_rank s \<le> 9"
  by (cases s) auto

text \<open>Which status can precede: the edges into the statuses later proofs ask about.\<close>

lemma into_status:
  "EXECUTING \<in> set (VALID_WORK_ORDER_TRANSITIONS s) \<longleftrightarrow> s = READY_TO_ACT"
  "VALIDATING \<in> set (VALID_WORK_ORDER_TRANSITIONS s) \<longleftrightarrow> s = EXECUTING"
  "RECEIPT_WRITTEN \<in> set (VALID_WORK_ORDER_TRANSITIONS s) \<longleftrightarrow> s = VALIDATING"
  "AUTHORITY_CLASSIFIED \<in> set (VALID_WORK_ORDER_TRANSITIONS s) \<longleftrightarrow> s = INTENT_PARSED"
  "READY_TO_ACT \<in> set (VALID_WORK_ORDER_TRANSITIONS s) \<longleftrightarrow>
     s \<in> {AUTHORITY_CLASSIFIED, AWAITING_AUTHORIZATION, SETUP_REQUIRED}"
  "AWAITING_AUTHORIZATION \<in> set (VALID_WORK_ORDER_TRANSITIONS s) \<longleftrightarrow> s = AUTHORITY_CLASSIFIED"
  "SETUP_REQUIRED \<in> set (VALID_WORK_ORDER_TRANSITIONS s) \<longleftrightarrow> s = AUTHORITY_CLASSIFIED"
  "RECEIVED \<notin> set (VALID_WORK_ORDER_TRANSITIONS s)"
  by (cases s; simp)+

end
