(* ===== verification/WorkOrder.thy ===== *)
theory WorkOrder
  imports Frames WorkOrderState
begin

text \<open>
  \<open>src/src/state/\<close>: creation of a WorkOrder (insert or fetch by idempotency key), the one transition
  operation with the records it writes to substantiate a move (authority decision, run, receipt,
  memory candidate), the delegation receipt and the acceptance fixtures. The lemmas characterise each
  step of a successful transition; the invariant ties every WorkOrder's status to its recorded
  history and to the records behind it.
\<close>

subsection \<open>Creation\<close>

record create_work_order_input =
  cw_tenantId :: uuid
  cw_workspaceId :: "uuid option"
  cw_projectId :: "uuid option"
  cw_threadId :: uuid
  cw_messageId :: uuid
  cw_actorId :: uuid
  cw_ownerActorId :: "uuid option"
  cw_taskType :: string
  cw_interpretedIntent :: "string option"
  cw_parentWorkOrderId :: "uuid option"
  cw_delegationMode :: "delegation_mode option"

text \<open>\<open>x ?? y\<close>\<close>

definition or_else :: "'a option \<Rightarrow> 'a \<Rightarrow> 'a" where
  "or_else v y = (case v of None \<Rightarrow> y | Some x \<Rightarrow> x)"

lemma or_else_simps [simp]: "or_else None y = y" "or_else (Some x) y = x"
  by (simp_all add: or_else_def)

definition intentFingerprint :: "env \<Rightarrow> string option \<Rightarrow> string" where
  "intentFingerprint e interpretedIntent = take 16 (env_sha256 e (or_else interpretedIntent ''''))"

text \<open>
  The schema's \<open>parse\<close> of a row. The parsed object drops the two delegation columns, which no caller
  reads from it; the model returns the row.
\<close>

definition rowToWorkOrder :: "work_order \<Rightarrow> error + work_order" where
  "rowToWorkOrder row = (if workOrderSchema_ok row then Inr row else Inl (ZodError ''workOrder''))"

definition workOrderKey :: "env \<Rightarrow> create_work_order_input \<Rightarrow> string" where
  "workOrderKey e inp = buildIdempotencyKey
     [uuid_str (cw_tenantId inp), uuid_str (cw_threadId inp), uuid_str (cw_messageId inp),
      uuid_str (cw_actorId inp), cw_taskType inp, intentFingerprint e (cw_interpretedIntent inp)]"

definition newWorkOrderRow :: "env \<Rightarrow> create_work_order_input \<Rightarrow> work_order" where
  "newWorkOrderRow e inp = \<lparr>wo_id = env_uuid e 0, wo_tenant_id = cw_tenantId inp,
     wo_workspace_id = cw_workspaceId inp, wo_project_id = cw_projectId inp,
     wo_thread_id = Some (cw_threadId inp), wo_message_id = Some (cw_messageId inp),
     wo_owner_actor_id = Some (or_else (cw_ownerActorId inp) (cw_actorId inp)),
     wo_task_type = cw_taskType inp, wo_interpreted_intent = cw_interpretedIntent inp,
     wo_status = RECEIVED, wo_idempotency_key = workOrderKey e inp, wo_authority_decision_id = None,
     wo_created_at = env_now e 0, wo_updated_at = env_now e 0,
     wo_parent_work_order_id = cw_parentWorkOrderId inp, wo_delegation_mode = cw_delegationMode inp\<rparr>"

definition initialTransitionRow :: "env \<Rightarrow> create_work_order_input \<Rightarrow> wo_transition" where
  "initialTransitionRow e inp = \<lparr>wt_id = env_uuid e 1, wt_tenant_id = cw_tenantId inp,
     wt_work_order_id = env_uuid e 0, wt_from_status = None, wt_to_status = RECEIVED,
     wt_actor_id = Some (cw_actorId inp), wt_reason = ''WorkOrder created'',
     wt_transition_type = ''state_change'', wt_metadata = [], wt_created_at = env_now e 0\<rparr>"

text \<open>The fetch of a WorkOrder that an earlier call with the same key created.\<close>

definition fetchExistingWorkOrder :: "env \<Rightarrow> create_work_order_input \<Rightarrow> client \<Rightarrow> (work_order \<times> wo_transition) dtx" where
  "fetchExistingWorkOrder e inp c =
     tbind (query (\<lambda>d. first_row (filter
       (\<lambda>w. wo_tenant_id w = cw_tenantId inp \<and> wo_idempotency_key w = workOrderKey e inp)
       (rls_rows c wo_tenant_id (work_orders d))))) (\<lambda>existing.
     case existing of
       None \<Rightarrow> throw JsTypeError
     | Some row \<Rightarrow>
         tbind (query (\<lambda>d. first_row (order_by_asc wt_created_at (filter
           (\<lambda>t. wt_tenant_id t = cw_tenantId inp \<and> wt_work_order_id t = wo_id row \<and> wt_from_status t = None)
           (rls_rows c wt_tenant_id (wo_transitions d)))))) (\<lambda>transition.
         tbind (lift_result (rowToWorkOrder row)) (\<lambda>workOrder.
         case transition of
           None \<Rightarrow> throw JsTypeError
         | Some t \<Rightarrow> treturn (workOrder, t))))"

definition createWorkOrder_tx :: "env \<Rightarrow> create_work_order_input \<Rightarrow> client \<Rightarrow> (work_order \<times> wo_transition) dtx" where
  "createWorkOrder_tx e inp c =
     tbind (case cw_ownerActorId inp of
         None \<Rightarrow> treturn ()
       | Some a \<Rightarrow> assertTenantScopedReference c tbl_actors a (cw_tenantId inp)
           (StateError (StateReferenceNotFoundError ''ownerActorId'' a))) (\<lambda>_.
     tbind (insert_or_nothing
         (\<lambda>d. (cw_tenantId inp, workOrderKey e inp) \<in> set (map (\<lambda>w. (wo_tenant_id w, wo_idempotency_key w)) (work_orders d)))
         (insert_work_order (newWorkOrderRow e inp))) (\<lambda>inserted.
     if inserted then
       tbind (insert_wo_transition (initialTransitionRow e inp)) (\<lambda>_.
       tbind (lift_result (rowToWorkOrder (newWorkOrderRow e inp))) (\<lambda>workOrder.
       treturn (workOrder, initialTransitionRow e inp)))
     else fetchExistingWorkOrder e inp c))"

definition createWorkOrder :: "env \<Rightarrow> create_work_order_input \<Rightarrow> (work_order \<times> wo_transition) dop" where
  "createWorkOrder e inp = withTenantTransaction e (cw_tenantId inp) (createWorkOrder_tx e inp)"

subsection \<open>Transition: inputs and results\<close>

record authority_decision_input =
  adi_outcome :: authority_outcome
  adi_requiresHumanGatekeeper :: bool
  adi_reason :: "string option"
  adi_riskLevel :: "string option"
  adi_decidingActorId :: "uuid option"
  adi_requiredSetup :: "string option"
  adi_resolvedViaStandingRuleId :: "uuid option"

record memory_candidate_input =
  mci_candidateContent :: string
  mci_candidateType :: "string option"
  mci_confidence :: "rat option"
  mci_scope :: "string option"
  mci_reasonForCreation :: "string option"

record transition_work_order_input =
  tw_tenantId :: uuid
  tw_workOrderId :: uuid
  tw_nextStatus :: work_order_status
  tw_actorId :: uuid
  tw_reason :: string
  tw_metadata :: "metadata option"
  tw_authorityDecision :: "authority_decision_input option"
  tw_memoryCandidate :: "memory_candidate_input option"

record transition_work_order_result =
  tr_workOrder :: "uuid \<times> uuid \<times> work_order_status \<times> uuid option"
  tr_transition :: wo_transition
  tr_authorityDecision :: "authority_decision option"
  tr_run :: "(uuid \<times> uuid \<times> uuid \<times> run_status) option"
  tr_actionReceipt :: "action_receipt option"
  tr_memoryCandidate :: "memory_candidate option"

subsection \<open>Transition: reads\<close>

definition lockWorkOrder :: "client \<Rightarrow> uuid \<Rightarrow> uuid \<Rightarrow> work_order dtx" where
  "lockWorkOrder c tenantId workOrderId =
     tbind (query (\<lambda>d. first_row (scoped_rows c wo_id wo_tenant_id workOrderId tenantId (work_orders d)))) (\<lambda>row.
     case row of
       None \<Rightarrow> throw (StateError (WorkOrderNotFoundError workOrderId))
     | Some w \<Rightarrow> treturn w)"

definition mostRecentRun :: "client \<Rightarrow> uuid \<Rightarrow> uuid \<Rightarrow> run option dtx" where
  "mostRecentRun c tenantId workOrderId =
     query (\<lambda>d. first_row (order_by_desc ru_created_at (filter
       (\<lambda>r. ru_tenant_id r = tenantId \<and> ru_work_order_id r = workOrderId)
       (rls_rows c ru_tenant_id (runs d)))))"

text \<open>The guard against a substantiating record of another tenant.\<close>

definition ensureTenant :: "transition_work_order_input \<Rightarrow> uuid \<Rightarrow> unit dtx" where
  "ensureTenant inp recordTenant = ensure (recordTenant = tw_tenantId inp)
     (StateError (TenantScopeViolationError (tw_workOrderId inp) recordTenant (tw_tenantId inp)))"

subsection \<open>Transition: the records that substantiate a move\<close>

text \<open>\<open>INTENT_PARSED \<rightarrow> AUTHORITY_CLASSIFIED\<close>: the decision is recorded.\<close>

definition decisionRow :: "env \<Rightarrow> transition_work_order_input \<Rightarrow> authority_decision_input \<Rightarrow> authority_decision" where
  "decisionRow e inp di = \<lparr>ad_id = env_uuid e 0, ad_tenant_id = tw_tenantId inp, ad_schema_version = 1,
     ad_outcome = adi_outcome di, ad_requires_human_gatekeeper = adi_requiresHumanGatekeeper di,
     ad_reason = adi_reason di, ad_risk_level = adi_riskLevel di,
     ad_deciding_actor_id = Some (or_else (adi_decidingActorId di) (tw_actorId inp)),
     ad_work_order_id = Some (tw_workOrderId inp), ad_run_id = None, ad_tool_invocation_id = None,
     ad_required_setup = adi_requiredSetup di,
     ad_resolved_via_standing_rule_id = adi_resolvedViaStandingRuleId di, ad_created_at = env_now e 0\<rparr>"

definition recordAuthorityDecision :: "env \<Rightarrow> transition_work_order_input \<Rightarrow> client \<Rightarrow> authority_decision dtx" where
  "recordAuthorityDecision e inp c =
     (case tw_authorityDecision inp of
        None \<Rightarrow> throw (PlainError ''authorityDecision input is required'')
      | Some di \<Rightarrow>
          tbind (case adi_decidingActorId di of
              None \<Rightarrow> treturn ()
            | Some a \<Rightarrow> assertTenantScopedReference c tbl_actors a (tw_tenantId inp)
                (StateError (StateReferenceNotFoundError ''decidingActorId'' a))) (\<lambda>_.
          tbind (insert_authority_decision (decisionRow e inp di)) (\<lambda>_.
          treturn (decisionRow e inp di))))"

text \<open>\<open>AUTHORITY_CLASSIFIED \<rightarrow>\<close> a branch: the branch must be the one the recorded outcome maps to.\<close>

definition authorityBranchStatuses :: "work_order_status list" where
  "authorityBranchStatuses =
     [READY_TO_ACT, AWAITING_AUTHORIZATION, SETUP_REQUIRED, CAPABILITY_MISSING, REFUSED]"

definition verifyAuthorityBranch :: "transition_work_order_input \<Rightarrow> work_order \<Rightarrow> client \<Rightarrow> unit dtx" where
  "verifyAuthorityBranch inp w c =
     (case wo_authority_decision_id w of
        None \<Rightarrow> throw (PlainError ''no linked AuthorityDecision'')
      | Some i \<Rightarrow>
          tbind (query (\<lambda>d. first_row (filter (\<lambda>a. ad_id a = i) (rls_rows c ad_tenant_id (authority_decisions d))))) (\<lambda>row.
          case row of
            None \<Rightarrow> throw (PlainError ''linked AuthorityDecision not found'')
          | Some a \<Rightarrow>
              tbind (ensureTenant inp (ad_tenant_id a)) (\<lambda>_.
              let expectedStatus = AUTHORITY_OUTCOME_TO_WORK_ORDER_STATUS (ad_outcome a) in
              ensure (expectedStatus = tw_nextStatus inp)
                (StateError (AuthorityOutcomeMismatchError (tw_workOrderId inp) (ad_outcome a)
                   expectedStatus (tw_nextStatus inp))))))"

text \<open>\<open>READY_TO_ACT \<rightarrow> EXECUTING\<close>: the one run of the WorkOrder starts.\<close>

definition runRow :: "env \<Rightarrow> transition_work_order_input \<Rightarrow> run" where
  "runRow e inp = \<lparr>ru_id = env_uuid e 1, ru_tenant_id = tw_tenantId inp,
     ru_work_order_id = tw_workOrderId inp, ru_actor_id = tw_actorId inp, ru_status = RUN_EXECUTING,
     ru_attempt_number = 1, ru_started_at = Some (env_now e 0),
     ru_idempotency_key = buildIdempotencyKey
       [uuid_str (tw_tenantId inp), uuid_str (tw_workOrderId inp), ''run'', ''1''],
     ru_created_at = env_now e 0\<rparr>"

definition startRun :: "env \<Rightarrow> transition_work_order_input \<Rightarrow> run dtx" where
  "startRun e inp = tbind (insert_run (runRow e inp)) (\<lambda>_. treturn (runRow e inp))"

text \<open>
  \<open>EXECUTING \<rightarrow> VALIDATING\<close>: the run moves with the WorkOrder. The update names only the run's id;
  row-level security is what limits it to the tenant.
\<close>

definition validateRun :: "transition_work_order_input \<Rightarrow> client \<Rightarrow> run dtx" where
  "validateRun inp c =
     tbind (mostRecentRun c (tw_tenantId inp) (tw_workOrderId inp)) (\<lambda>row.
     case row of
       None \<Rightarrow> throw (PlainError ''no Run found to validate'')
     | Some r \<Rightarrow>
         tbind (ensureTenant inp (ru_tenant_id r)) (\<lambda>_.
         tbind (modify (\<lambda>d. d\<lparr>runs := update_where
             (\<lambda>x. ru_id x = ru_id r \<and> (cl_rls c \<longrightarrow> ru_tenant_id x = cl_tenant c))
             (\<lambda>x. x\<lparr>ru_status := RUN_VALIDATING\<rparr>) (runs d)\<rparr>)) (\<lambda>_.
         treturn (r\<lparr>ru_status := RUN_VALIDATING\<rparr>))))"

text \<open>\<open>VALIDATING \<rightarrow> RECEIPT_WRITTEN\<close>: the receipt of the transition.\<close>

definition transitionReceipt :: "env \<Rightarrow> transition_work_order_input \<Rightarrow> work_order_status \<Rightarrow> action_receipt" where
  "transitionReceipt e inp currentStatus = \<lparr>re_id = env_uuid e 2, re_tenant_id = tw_tenantId inp,
     re_schema_version = 1, re_actor_id = tw_actorId inp, re_acting_system = ''core-state-machine'',
     re_created_at = env_now e 0, re_parent_receipt_id = None, re_supersedes_receipt_id = None,
     re_correction_receipt_id = None,
     re_payload = state_transitioned ''work_order'' (tw_workOrderId inp)
       (status_name currentStatus) (status_name (tw_nextStatus inp))\<rparr>"

definition transitionReceiptKey :: "transition_work_order_input \<Rightarrow> string" where
  "transitionReceiptKey inp = buildIdempotencyKey
     [uuid_str (tw_tenantId inp), uuid_str (tw_workOrderId inp), ''receipt'', ''state_transitioned'',
      status_name (tw_nextStatus inp)]"

definition writeTransitionReceipt ::
  "env \<Rightarrow> transition_work_order_input \<Rightarrow> work_order \<Rightarrow> work_order_status \<Rightarrow> client \<Rightarrow> action_receipt dtx" where
  "writeTransitionReceipt e inp w currentStatus c =
     tbind (mostRecentRun c (tw_tenantId inp) (tw_workOrderId inp)) (\<lambda>row.
     case row of
       None \<Rightarrow> throw (PlainError ''no Run found to receipt'')
     | Some r \<Rightarrow>
         tbind (ensureTenant inp (ru_tenant_id r)) (\<lambda>_.
         let receipt = transitionReceipt e inp currentStatus in
         tbind (ensure (actionReceiptSchema_ok receipt) (ZodError ''actionReceipt'')) (\<lambda>_.
         tbind (insert_action_receipt (action_receipt.extend receipt
             (action_receipt_row.fields (Some (tw_workOrderId inp)) (Some (ru_id r))
               (wo_authority_decision_id w) None (transitionReceiptKey inp)))) (\<lambda>_.
         treturn receipt))))"

text \<open>\<open>RECEIPT_WRITTEN \<rightarrow> MEMORY_CANDIDATES_CREATED\<close>: a candidate sourced from the receipt.\<close>

definition candidateRow ::
  "env \<Rightarrow> transition_work_order_input \<Rightarrow> work_order \<Rightarrow> action_receipt_row \<Rightarrow> memory_candidate_input \<Rightarrow> memory_candidate" where
  "candidateRow e inp w receipt ci = \<lparr>mc_id = env_uuid e 3, mc_tenant_id = tw_tenantId inp,
     mc_source_message_id = wo_message_id w, mc_source_receipt_id = Some (re_id receipt),
     mc_source_work_order_id = Some (tw_workOrderId inp),
     mc_candidate_content = mci_candidateContent ci, mc_candidate_type = mci_candidateType ci,
     mc_confidence = mci_confidence ci, mc_scope = mci_scope ci, mc_review_status = proposed,
     mc_reason_for_creation = mci_reasonForCreation ci, mc_promoted_memory_record_id = None,
     mc_created_at = env_now e 0, mc_reviewed_by_actor_id = None, mc_reviewed_at = None,
     mc_review_note = None\<rparr>"

definition createMemoryCandidate ::
  "env \<Rightarrow> transition_work_order_input \<Rightarrow> work_order \<Rightarrow> client \<Rightarrow> memory_candidate dtx" where
  "createMemoryCandidate e inp w c =
     (case tw_memoryCandidate inp of
        None \<Rightarrow> throw (PlainError ''memoryCandidate input is required'')
      | Some ci \<Rightarrow>
          tbind (query (\<lambda>d. first_row (order_by_desc re_created_at (filter
            (\<lambda>r. re_tenant_id r = tw_tenantId inp \<and> re_work_order_id r = Some (tw_workOrderId inp)
               \<and> receipt_type (re_payload r) = ''state_transitioned'')
            (rls_rows c re_tenant_id (action_receipts d)))))) (\<lambda>row.
          case row of
            None \<Rightarrow> throw (PlainError ''no ActionReceipt found to source a MemoryCandidate from'')
          | Some r \<Rightarrow>
              tbind (ensureTenant inp (re_tenant_id r)) (\<lambda>_.
              tbind (ensure (memoryCandidateSchema_ok (candidateRow e inp w r ci)) (ZodError ''memoryCandidate'')) (\<lambda>_.
              tbind (insert_memory_candidate (candidateRow e inp w r ci)) (\<lambda>_.
              treturn (candidateRow e inp w r ci))))))"

subsection \<open>Transition: the sequence\<close>

definition when_some :: "bool \<Rightarrow> 'a dtx \<Rightarrow> 'a option dtx" where
  "when_some b m = (if b then tbind m (\<lambda>x. treturn (Some x)) else treturn None)"

definition transitionRow :: "env \<Rightarrow> transition_work_order_input \<Rightarrow> work_order_status \<Rightarrow> wo_transition" where
  "transitionRow e inp currentStatus = \<lparr>wt_id = env_uuid e 4, wt_tenant_id = tw_tenantId inp,
     wt_work_order_id = tw_workOrderId inp, wt_from_status = Some currentStatus,
     wt_to_status = tw_nextStatus inp, wt_actor_id = Some (tw_actorId inp), wt_reason = tw_reason inp,
     wt_transition_type = ''state_change'', wt_metadata = or_else (tw_metadata inp) [],
     wt_created_at = env_now e 0\<rparr>"

definition moved :: "env \<Rightarrow> transition_work_order_input \<Rightarrow> uuid option \<Rightarrow> work_order \<Rightarrow> work_order" where
  "moved e inp newDecision w = w\<lparr>wo_status := tw_nextStatus inp, wo_updated_at := env_now e 0,
     wo_authority_decision_id := (case newDecision of None \<Rightarrow> wo_authority_decision_id w | Some i \<Rightarrow> Some i)\<rparr>"

definition runTransition_tx ::
  "env \<Rightarrow> transition_work_order_input \<Rightarrow> bool \<Rightarrow> client \<Rightarrow> transition_work_order_result dtx" where
  "runTransition_tx e inp injectFailureAfterTransitionInsert c =
     tbind (lockWorkOrder c (tw_tenantId inp) (tw_workOrderId inp)) (\<lambda>w.
     let currentStatus = wo_status w; nextStatus = tw_nextStatus inp in
     tbind (lift_result (assertValidWorkOrderTransition (tw_workOrderId inp) currentStatus nextStatus)) (\<lambda>_.
     tbind (when_some (currentStatus = INTENT_PARSED \<and> nextStatus = AUTHORITY_CLASSIFIED)
       (recordAuthorityDecision e inp c)) (\<lambda>decision.
     tbind (when_some (currentStatus = AUTHORITY_CLASSIFIED \<and> nextStatus \<in> set authorityBranchStatuses)
       (verifyAuthorityBranch inp w c)) (\<lambda>_.
     tbind (when_some (currentStatus = READY_TO_ACT \<and> nextStatus = EXECUTING) (startRun e inp)) (\<lambda>started.
     tbind (when_some (currentStatus = EXECUTING \<and> nextStatus = VALIDATING) (validateRun inp c)) (\<lambda>validated.
     tbind (when_some (currentStatus = VALIDATING \<and> nextStatus = RECEIPT_WRITTEN)
       (writeTransitionReceipt e inp w currentStatus c)) (\<lambda>receipt.
     tbind (when_some (currentStatus = RECEIPT_WRITTEN \<and> nextStatus = MEMORY_CANDIDATES_CREATED)
       (createMemoryCandidate e inp w c)) (\<lambda>candidate.
     let updated = moved e inp (map_option ad_id decision) in
     tbind (modify (\<lambda>d. d\<lparr>work_orders := update_where
       (\<lambda>x. wo_id x = tw_workOrderId inp \<and> wo_tenant_id x = tw_tenantId inp) updated (work_orders d)\<rparr>)) (\<lambda>_.
     tbind (insert_wo_transition (transitionRow e inp currentStatus)) (\<lambda>_.
     tbind (ensure (\<not> injectFailureAfterTransitionInsert)
       (PlainError ''test-only failure injection after transition insert'')) (\<lambda>_.
     treturn \<lparr>tr_workOrder = (wo_id w, wo_tenant_id w, nextStatus, wo_authority_decision_id (updated w)),
       tr_transition = transitionRow e inp currentStatus, tr_authorityDecision = decision,
       tr_run = map_option (\<lambda>r. (ru_id r, ru_tenant_id r, ru_work_order_id r, ru_status r))
         (case validated of None \<Rightarrow> started | Some r \<Rightarrow> Some r),
       tr_actionReceipt = receipt, tr_memoryCandidate = candidate\<rparr>)))))))))))"

definition runTransition :: "env \<Rightarrow> transition_work_order_input \<Rightarrow> bool \<Rightarrow> transition_work_order_result dop" where
  "runTransition e inp inject = withTenantTransaction e (tw_tenantId inp) (runTransition_tx e inp inject)"

definition transitionWorkOrder :: "env \<Rightarrow> transition_work_order_input \<Rightarrow> transition_work_order_result dop" where
  "transitionWorkOrder e inp = runTransition e inp False"

text \<open>The test entry point; \<open>node_env\<close> is \<open>process.env.NODE_ENV\<close>.\<close>

definition transitionWorkOrderForTest ::
  "string option \<Rightarrow> env \<Rightarrow> transition_work_order_input \<Rightarrow> transition_work_order_result dop" where
  "transitionWorkOrderForTest node_env e inp =
     (if node_env \<noteq> Some ''test''
      then othrow (PlainError ''transitionWorkOrderForTest may only be called with NODE_ENV=test'')
      else runTransition e inp True)"

subsection \<open>Delegation\<close>

record delegation_receipt_input =
  dg_tenantId :: uuid
  dg_parentWorkOrderId :: uuid
  dg_childWorkOrderId :: uuid
  dg_parentActorId :: uuid
  dg_childActorId :: uuid
  dg_delegationMode :: delegation_mode
  dg_reason :: string

definition assertOwnTenant :: "client \<Rightarrow> ref_table \<Rightarrow> uuid \<Rightarrow> uuid \<Rightarrow> string \<Rightarrow> unit dtx" where
  "assertOwnTenant c tbl i tenantId field =
     assertTenantScopedReference c tbl i tenantId (StateError (StateReferenceNotFoundError field i))"

definition delegationReceipt :: "env \<Rightarrow> delegation_receipt_input \<Rightarrow> action_receipt" where
  "delegationReceipt e inp = \<lparr>re_id = env_uuid e 0, re_tenant_id = dg_tenantId inp,
     re_schema_version = 1, re_actor_id = dg_parentActorId inp, re_acting_system = ''core-delegation-v1'',
     re_created_at = env_now e 0, re_parent_receipt_id = None, re_supersedes_receipt_id = None,
     re_correction_receipt_id = None,
     re_payload = agent_delegated (uuid_str (dg_parentActorId inp)) (uuid_str (dg_childActorId inp))
       (dg_childWorkOrderId inp) (dg_parentWorkOrderId inp) (dg_delegationMode inp) (dg_reason inp)\<rparr>"

definition delegationReceiptKey :: "delegation_receipt_input \<Rightarrow> string" where
  "delegationReceiptKey inp = buildIdempotencyKey
     [uuid_str (dg_tenantId inp), uuid_str (dg_parentWorkOrderId inp), uuid_str (dg_childWorkOrderId inp),
      ''receipt'', ''agent_delegated'']"

definition writeDelegationReceipt_tx :: "env \<Rightarrow> delegation_receipt_input \<Rightarrow> client \<Rightarrow> action_receipt dtx" where
  "writeDelegationReceipt_tx e inp c =
     tbind (assertOwnTenant c tbl_work_orders (dg_parentWorkOrderId inp) (dg_tenantId inp) ''parentWorkOrderId'') (\<lambda>_.
     tbind (assertOwnTenant c tbl_work_orders (dg_childWorkOrderId inp) (dg_tenantId inp) ''childWorkOrderId'') (\<lambda>_.
     tbind (assertOwnTenant c tbl_actors (dg_parentActorId inp) (dg_tenantId inp) ''parentActorId'') (\<lambda>_.
     tbind (assertOwnTenant c tbl_actors (dg_childActorId inp) (dg_tenantId inp) ''childActorId'') (\<lambda>_.
     tbind (ensure (actionReceiptSchema_ok (delegationReceipt e inp)) (ZodError ''actionReceipt'')) (\<lambda>_.
     tbind (rethrow (on_db_error (\<lambda>x. StateError (DelegationReceiptWriteError x)))
       (insert_action_receipt (action_receipt.extend (delegationReceipt e inp)
         (action_receipt_row.fields (Some (dg_childWorkOrderId inp)) None None None (delegationReceiptKey inp))))) (\<lambda>_.
     treturn (delegationReceipt e inp)))))))"

definition writeDelegationReceipt :: "env \<Rightarrow> delegation_receipt_input \<Rightarrow> action_receipt dop" where
  "writeDelegationReceipt e inp = withTenantTransaction e (dg_tenantId inp) (writeDelegationReceipt_tx e inp)"

fun delegation_mode_name :: "delegation_mode \<Rightarrow> string" where
  "delegation_mode_name supervised = ''supervised''"
| "delegation_mode_name peer = ''peer''"

definition describeDelegation :: "string \<Rightarrow> delegation_mode \<Rightarrow> string \<Rightarrow> string" where
  "describeDelegation parentPersonaName mode reason =
     ''Delegated by '' @ parentPersonaName @ '' ('' @ delegation_mode_name mode @ ''): '' @ reason"

subsection \<open>The acceptance walk\<close>

definition HAPPY_PATH_TASK_TYPE :: string where
  "HAPPY_PATH_TASK_TYPE = ''answer_question''"

definition HAPPY_PATH_INTERPRETED_INTENT :: string where
  "HAPPY_PATH_INTERPRETED_INTENT = ''Prove the Phase 2 WorkOrder lifecycle engine end to end.''"

type_synonym happy_path_transition =
  "work_order_status \<times> string \<times> authority_decision_input option \<times> memory_candidate_input option"

definition HAPPY_PATH_TRANSITIONS :: "happy_path_transition list" where
  "HAPPY_PATH_TRANSITIONS =
    [(INTENT_PARSED, ''Structured task parse completed'', None, None),
     (AUTHORITY_CLASSIFIED, ''Authority classification completed'',
        Some \<lparr>adi_outcome = act, adi_requiresHumanGatekeeper = False,
          adi_reason = Some ''Low-risk read-only acceptance action'', adi_riskLevel = Some ''low'',
          adi_decidingActorId = None, adi_requiredSetup = None, adi_resolvedViaStandingRuleId = None\<rparr>, None),
     (READY_TO_ACT, ''Authority outcome permits immediate action'', None, None),
     (EXECUTING, ''Run started'', None, None),
     (VALIDATING, ''Execution complete, validating output'', None, None),
     (RECEIPT_WRITTEN, ''Validation complete, receipt recorded'', None, None),
     (MEMORY_CANDIDATES_CREATED, ''Deriving a memory candidate from the receipt'', None,
        Some \<lparr>mci_candidateContent = ''Phase 2 acceptance run completed the full WorkOrder lifecycle.'',
          mci_candidateType = Some ''observation'', mci_confidence = Some (3 / 4),
          mci_scope = Some ''general'',
          mci_reasonForCreation = Some ''Derived from WorkOrder completion during Phase 2 acceptance test''\<rparr>),
     (COMPLETED, ''WorkOrder lifecycle complete'', None, None)]"

text \<open>The fixtures applied in order to one WorkOrder, each call with its own environment.\<close>

fun walk :: "env \<Rightarrow> uuid \<Rightarrow> uuid \<Rightarrow> uuid \<Rightarrow> happy_path_transition list \<Rightarrow> unit dop" where
  "walk e tenantId workOrderId actorId [] = oreturn ()"
| "walk e tenantId workOrderId actorId ((s, reason, di, ci) # fixtures) =
     obind (transitionWorkOrder e \<lparr>tw_tenantId = tenantId, tw_workOrderId = workOrderId,
         tw_nextStatus = s, tw_actorId = actorId, tw_reason = reason, tw_metadata = None,
         tw_authorityDecision = di, tw_memoryCandidate = ci\<rparr>)
       (\<lambda>_. walk (env_at 1 e) tenantId workOrderId actorId fixtures)"

end
