(* ===== verification/WorkOrderStep.thy ===== *)
theory WorkOrderStep
  imports WorkOrder
begin

text \<open>
  What a committed transition did. \<open>substantiates\<close> has one rule per kind of move and says which record
  was written for it; \<open>runTransition_refines\<close> shows that the composed transaction, with all its guards,
  does exactly one such step, one status update and one history row. The proofs about WorkOrders work
  with these rules and not with the composed code.
\<close>

subsection \<open>The blocks of the transaction\<close>

lemma lockWorkOrder_Inr [tx_simps]:
  "lockWorkOrder c t i d = Inr r \<longleftrightarrow>
     (\<exists>w. first_row (scoped_rows c wo_id wo_tenant_id i t (work_orders d)) = Some w \<and> r = (w, d))"
  by (auto simp: lockWorkOrder_def tx_simps split: option.splits)

lemma lockWorkOrder_Inl [tx_simps]:
  "lockWorkOrder c t i d = Inl err \<longleftrightarrow>
     scoped_rows c wo_id wo_tenant_id i t (work_orders d) = [] \<and> err = StateError (WorkOrderNotFoundError i)"
  by (auto simp: lockWorkOrder_def tx_simps split: option.splits)

lemma when_some_Inr [tx_simps]:
  "when_some b m d = Inr r \<longleftrightarrow>
     (b \<and> (\<exists>x d'. m d = Inr (x, d') \<and> r = (Some x, d'))) \<or> (\<not> b \<and> r = (None, d))"
  by (auto simp: when_some_def tx_simps)

lemma when_some_Inl [tx_simps]: "when_some b m d = Inl err \<longleftrightarrow> b \<and> m d = Inl err"
  by (auto simp: when_some_def tx_simps)

lemma mostRecentRunD:
  "mostRecentRun c t i d = Inr (Some r, d') \<Longrightarrow>
   d' = d \<and> r \<in> set (runs d) \<and> ru_tenant_id r = t \<and> ru_work_order_id r = i"
  by (auto simp: mostRecentRun_def tx_simps dest!: sym [of "Some r"] first_row_SomeD set_rls_rows)

lemma ensureTenant_Inr [tx_simps]: "ensureTenant inp t d = Inr r \<longleftrightarrow> t = tw_tenantId inp \<and> r = ((), d)"
  by (auto simp: ensureTenant_def tx_simps)

lemma decisionRow_simps [simp]:
  "ad_id (decisionRow e inp di) = env_uuid e 0" "ad_tenant_id (decisionRow e inp di) = tw_tenantId inp"
  "ad_outcome (decisionRow e inp di) = adi_outcome di"
  "ad_work_order_id (decisionRow e inp di) = Some (tw_workOrderId inp)"
  by (simp_all add: decisionRow_def)

lemma recordAuthorityDecisionD:
  assumes "recordAuthorityDecision e inp c d = Inr (a, d')"
  obtains di where "tw_authorityDecision inp = Some di" "a = decisionRow e inp di"
    "env_uuid e 0 \<notin> ad_id ` set (authority_decisions d)"
    "d' = d\<lparr>authority_decisions := authority_decisions d @ [a]\<rparr>"
  using assms
  by (auto simp: recordAuthorityDecision_def insert_authority_decision_def tx_simps
      split: option.splits)

lemma verifyAuthorityBranchD:
  assumes "verifyAuthorityBranch inp w c d = Inr (u, d')"
  obtains a where "a \<in> set (authority_decisions d)" "wo_authority_decision_id w = Some (ad_id a)"
    "ad_tenant_id a = tw_tenantId inp"
    "AUTHORITY_OUTCOME_TO_WORK_ORDER_STATUS (ad_outcome a) = tw_nextStatus inp" "d' = d"
  using assms
  by (auto simp: verifyAuthorityBranch_def Let_def tx_simps split: option.splits
      dest!: first_row_filterD set_rls_rows)

lemma startRunD:
  "startRun e inp d = Inr (r, d') \<Longrightarrow>
   r = runRow e inp \<and> env_uuid e 1 \<notin> ru_id ` set (runs d) \<and> d' = d\<lparr>runs := runs d @ [r]\<rparr>"
  by (auto simp: startRun_def insert_run_def tx_simps runRow_def)

lemma validateRunD:
  assumes "validateRun inp c d = Inr (r', d')"
  obtains r where "r \<in> set (runs d)" "ru_tenant_id r = tw_tenantId inp"
    "ru_work_order_id r = tw_workOrderId inp" "r' = r\<lparr>ru_status := RUN_VALIDATING\<rparr>"
    "d' = d\<lparr>runs := update_where (\<lambda>x. ru_id x = ru_id r \<and> (cl_rls c \<longrightarrow> ru_tenant_id x = cl_tenant c))
       (\<lambda>x. x\<lparr>ru_status := RUN_VALIDATING\<rparr>) (runs d)\<rparr>"
  using assms by (auto simp: validateRun_def tx_simps split: option.splits dest!: mostRecentRunD)

definition transitionReceiptRow ::
  "env \<Rightarrow> transition_work_order_input \<Rightarrow> work_order \<Rightarrow> uuid \<Rightarrow> action_receipt_row" where
  "transitionReceiptRow e inp w runId = action_receipt.extend (transitionReceipt e inp (wo_status w))
     (action_receipt_row.fields (Some (tw_workOrderId inp)) (Some runId) (wo_authority_decision_id w) None
       (transitionReceiptKey inp))"

lemma transitionReceiptRow_simps [simp]:
  "re_id (transitionReceiptRow e inp w i) = env_uuid e 2"
  "re_tenant_id (transitionReceiptRow e inp w i) = tw_tenantId inp"
  "re_work_order_id (transitionReceiptRow e inp w i) = Some (tw_workOrderId inp)"
  "re_run_id (transitionReceiptRow e inp w i) = Some i"
  "re_authority_decision_id (transitionReceiptRow e inp w i) = wo_authority_decision_id w"
  "re_idempotency_key (transitionReceiptRow e inp w i) = transitionReceiptKey inp"
  "re_payload (transitionReceiptRow e inp w i) = state_transitioned ''work_order'' (tw_workOrderId inp)
     (status_name (wo_status w)) (status_name (tw_nextStatus inp))"
  by (simp_all add: transitionReceiptRow_def transitionReceipt_def action_receipt.defs action_receipt_row.defs)

lemma writeTransitionReceiptD:
  assumes "writeTransitionReceipt e inp w s c d = Inr (x, d')" "wo_status w = s"
  obtains r where "r \<in> set (runs d)" "ru_tenant_id r = tw_tenantId inp"
    "ru_work_order_id r = tw_workOrderId inp" "env_uuid e 2 \<notin> re_id ` set (action_receipts d)"
    "d' = d\<lparr>action_receipts := action_receipts d @ [transitionReceiptRow e inp w (ru_id r)]\<rparr>"
proof -
  from assms obtain r d1 where r: "mostRecentRun c (tw_tenantId inp) (tw_workOrderId inp) d = Inr (Some r, d1)"
    and ins: "insert_action_receipt (transitionReceiptRow e inp w (ru_id r)) d1 = Inr ((), d')"
    by (auto simp: writeTransitionReceipt_def Let_def tx_simps transitionReceiptRow_def split: option.splits)
  from mostRecentRunD [OF r] ins show thesis
    by (intro that [of r]) (auto simp: insert_action_receipt_def tx_simps)
qed

lemma createMemoryCandidateD:
  assumes "createMemoryCandidate e inp w c d = Inr (x, d')"
  obtains r ci where "tw_memoryCandidate inp = Some ci" "r \<in> set (action_receipts d)"
    "re_tenant_id r = tw_tenantId inp" "re_work_order_id r = Some (tw_workOrderId inp)"
    "receipt_type (re_payload r) = ''state_transitioned''" "x = candidateRow e inp w r ci"
    "memoryCandidateSchema_ok x" "env_uuid e 3 \<notin> mc_id ` set (memory_candidates d)"
    "d' = d\<lparr>memory_candidates := memory_candidates d @ [x]\<rparr>"
  using assms
  by (auto simp: createMemoryCandidate_def tx_simps insert_memory_candidate_def
      split: option.splits dest!: first_row_SomeD set_rls_rows) (auto simp: candidateRow_def)

subsection \<open>The abstract step\<close>

inductive substantiates ::
  "env \<Rightarrow> transition_work_order_input \<Rightarrow> bool \<Rightarrow> work_order \<Rightarrow> db \<Rightarrow> uuid option \<Rightarrow> db \<Rightarrow> bool"
  for e inp rls w d where
  classify: "wo_status w = INTENT_PARSED \<Longrightarrow> tw_nextStatus inp = AUTHORITY_CLASSIFIED \<Longrightarrow>
    tw_authorityDecision inp = Some di \<Longrightarrow> env_uuid e 0 \<notin> ad_id ` set (authority_decisions d) \<Longrightarrow>
    substantiates e inp rls w d (Some (env_uuid e 0))
      (d\<lparr>authority_decisions := authority_decisions d @ [decisionRow e inp di]\<rparr>)"
| branch: "wo_status w = AUTHORITY_CLASSIFIED \<Longrightarrow> tw_nextStatus inp \<noteq> FAILED \<Longrightarrow>
    a \<in> set (authority_decisions d) \<Longrightarrow> wo_authority_decision_id w = Some (ad_id a) \<Longrightarrow>
    ad_tenant_id a = tw_tenantId inp \<Longrightarrow>
    AUTHORITY_OUTCOME_TO_WORK_ORDER_STATUS (ad_outcome a) = tw_nextStatus inp \<Longrightarrow>
    substantiates e inp rls w d None d"
| execute: "wo_status w = READY_TO_ACT \<Longrightarrow> tw_nextStatus inp = EXECUTING \<Longrightarrow>
    env_uuid e 1 \<notin> ru_id ` set (runs d) \<Longrightarrow>
    substantiates e inp rls w d None (d\<lparr>runs := runs d @ [runRow e inp]\<rparr>)"
| validate: "wo_status w = EXECUTING \<Longrightarrow> tw_nextStatus inp = VALIDATING \<Longrightarrow>
    r \<in> set (runs d) \<Longrightarrow> ru_tenant_id r = tw_tenantId inp \<Longrightarrow> ru_work_order_id r = tw_workOrderId inp \<Longrightarrow>
    substantiates e inp rls w d None
      (d\<lparr>runs := update_where (\<lambda>x. ru_id x = ru_id r \<and> (rls \<longrightarrow> ru_tenant_id x = tw_tenantId inp))
         (\<lambda>x. x\<lparr>ru_status := RUN_VALIDATING\<rparr>) (runs d)\<rparr>)"
| receipt: "wo_status w = VALIDATING \<Longrightarrow> tw_nextStatus inp = RECEIPT_WRITTEN \<Longrightarrow>
    r \<in> set (runs d) \<Longrightarrow> ru_tenant_id r = tw_tenantId inp \<Longrightarrow> ru_work_order_id r = tw_workOrderId inp \<Longrightarrow>
    env_uuid e 2 \<notin> re_id ` set (action_receipts d) \<Longrightarrow>
    substantiates e inp rls w d None
      (d\<lparr>action_receipts := action_receipts d @ [transitionReceiptRow e inp w (ru_id r)]\<rparr>)"
| remember: "wo_status w = RECEIPT_WRITTEN \<Longrightarrow> tw_nextStatus inp = MEMORY_CANDIDATES_CREATED \<Longrightarrow>
    tw_memoryCandidate inp = Some ci \<Longrightarrow> r \<in> set (action_receipts d) \<Longrightarrow>
    re_tenant_id r = tw_tenantId inp \<Longrightarrow> re_work_order_id r = Some (tw_workOrderId inp) \<Longrightarrow>
    receipt_type (re_payload r) = ''state_transitioned'' \<Longrightarrow>
    memoryCandidateSchema_ok (candidateRow e inp w r ci) \<Longrightarrow>
    env_uuid e 3 \<notin> mc_id ` set (memory_candidates d) \<Longrightarrow>
    substantiates e inp rls w d None
      (d\<lparr>memory_candidates := memory_candidates d @ [candidateRow e inp w r ci]\<rparr>)"
| plain: "(wo_status w, tw_nextStatus inp) \<notin>
      {(INTENT_PARSED, AUTHORITY_CLASSIFIED), (READY_TO_ACT, EXECUTING), (EXECUTING, VALIDATING),
       (VALIDATING, RECEIPT_WRITTEN), (RECEIPT_WRITTEN, MEMORY_CANDIDATES_CREATED)} \<Longrightarrow>
    (wo_status w = AUTHORITY_CLASSIFIED \<Longrightarrow> tw_nextStatus inp = FAILED) \<Longrightarrow>
    substantiates e inp rls w d None d"

definition after_move :: "env \<Rightarrow> transition_work_order_input \<Rightarrow> work_order_status \<Rightarrow> uuid option \<Rightarrow> db \<Rightarrow> db" where
  "after_move e inp current newDecision d = d\<lparr>
     work_orders := update_where (\<lambda>x. wo_id x = tw_workOrderId inp \<and> wo_tenant_id x = tw_tenantId inp)
       (moved e inp newDecision) (work_orders d),
     wo_transitions := wo_transitions d @ [transitionRow e inp current]\<rparr>"

inductive move_step :: "env \<Rightarrow> transition_work_order_input \<Rightarrow> bool \<Rightarrow> db \<Rightarrow> db \<Rightarrow> bool"
  for e inp rls d where
  "w \<in> set (work_orders d) \<Longrightarrow> wo_id w = tw_workOrderId inp \<Longrightarrow> wo_tenant_id w = tw_tenantId inp \<Longrightarrow>
   tw_nextStatus inp \<in> set (VALID_WORK_ORDER_TRANSITIONS (wo_status w)) \<Longrightarrow>
   substantiates e inp rls w d newDecision d1 \<Longrightarrow>
   env_uuid e 4 \<notin> wt_id ` set (wo_transitions d) \<Longrightarrow>
   move_step e inp rls d (after_move e inp (wo_status w) newDecision d1)"

lemma moved_simps [simp]:
  "wo_id (moved e inp nd w) = wo_id w" "wo_tenant_id (moved e inp nd w) = wo_tenant_id w"
  "wo_status (moved e inp nd w) = tw_nextStatus inp"
  "wo_idempotency_key (moved e inp nd w) = wo_idempotency_key w"
  by (simp_all add: moved_def)

lemma authorityBranch_iff:
  "s \<in> set authorityBranchStatuses \<longleftrightarrow> s \<noteq> FAILED"
  if "s \<in> set (VALID_WORK_ORDER_TRANSITIONS AUTHORITY_CLASSIFIED)"
  using that by (auto simp: authorityBranchStatuses_def)

text \<open>The six conditional blocks in sequence: at most one of them runs.\<close>

lemma blocks_substantiate:
  assumes lock: "tw_nextStatus inp \<in> set (VALID_WORK_ORDER_TRANSITIONS (wo_status w))"
    and c: "cl_tenant c = tw_tenantId inp"
    and b1: "when_some (wo_status w = INTENT_PARSED \<and> tw_nextStatus inp = AUTHORITY_CLASSIFIED)
       (recordAuthorityDecision e inp c) d = Inr (dec, d1)"
    and b2: "when_some (wo_status w = AUTHORITY_CLASSIFIED \<and> tw_nextStatus inp \<in> set authorityBranchStatuses)
       (verifyAuthorityBranch inp w c) d1 = Inr (u, d2)"
    and b3: "when_some (wo_status w = READY_TO_ACT \<and> tw_nextStatus inp = EXECUTING) (startRun e inp) d2
       = Inr (started, d3)"
    and b4: "when_some (wo_status w = EXECUTING \<and> tw_nextStatus inp = VALIDATING) (validateRun inp c) d3
       = Inr (validated, d4)"
    and b5: "when_some (wo_status w = VALIDATING \<and> tw_nextStatus inp = RECEIPT_WRITTEN)
       (writeTransitionReceipt e inp w (wo_status w) c) d4 = Inr (receipt, d5)"
    and b6: "when_some (wo_status w = RECEIPT_WRITTEN \<and> tw_nextStatus inp = MEMORY_CANDIDATES_CREATED)
       (createMemoryCandidate e inp w c) d5 = Inr (candidate, d6)"
  shows "substantiates e inp (cl_rls c) w d (map_option ad_id dec) d6"
proof (cases "wo_status w")
  case INTENT_PARSED
  with lock consider "tw_nextStatus inp = AUTHORITY_CLASSIFIED" | "tw_nextStatus inp = FAILED" by auto
  then show ?thesis
    using assms INTENT_PARSED
    by cases (auto simp: tx_simps intro: substantiates.plain substantiates.classify
        elim!: recordAuthorityDecisionD)
next
  case AUTHORITY_CLASSIFIED
  with lock authorityBranch_iff [of "tw_nextStatus inp"] show ?thesis
    using assms AUTHORITY_CLASSIFIED
    by (cases "tw_nextStatus inp = FAILED")
      (auto simp: tx_simps intro: substantiates.plain substantiates.branch elim!: verifyAuthorityBranchD)
next
  case READY_TO_ACT
  with lock consider "tw_nextStatus inp = EXECUTING" | "tw_nextStatus inp = FAILED" by auto
  then show ?thesis
    using assms READY_TO_ACT
    by cases (auto simp: tx_simps intro: substantiates.plain substantiates.execute dest!: startRunD)
next
  case EXECUTING
  with lock consider "tw_nextStatus inp = VALIDATING" | "tw_nextStatus inp = FAILED" by auto
  then show ?thesis
    using assms EXECUTING
    by cases (auto simp: tx_simps intro: substantiates.plain substantiates.validate elim!: validateRunD)
next
  case VALIDATING
  with lock consider "tw_nextStatus inp = RECEIPT_WRITTEN" | "tw_nextStatus inp = FAILED" by auto
  then show ?thesis
    using assms VALIDATING
    by cases (auto simp: tx_simps
        intro: substantiates.plain substantiates.receipt elim!: writeTransitionReceiptD)
next
  case RECEIPT_WRITTEN
  then show ?thesis
    using assms
    by (cases "tw_nextStatus inp = MEMORY_CANDIDATES_CREATED")
      (auto simp: tx_simps intro: substantiates.plain substantiates.remember elim!: createMemoryCandidateD)
qed (use assms in \<open>auto simp: tx_simps intro: substantiates.plain\<close>)

lemma substantiates_frame:
  assumes "substantiates e inp rls w d nd d1"
  shows "work_orders d1 = work_orders d" "wo_transitions d1 = wo_transitions d" "tenants d1 = tenants d"
  using assms by (cases; simp)+

text \<open>The committed transaction, with what its result tells of it\<close>

lemma runTransition_effect:
  assumes "runTransition_tx e inp inject c d = Inr (res, d')" "cl_tenant c = tw_tenantId inp"
  obtains w d1 where "w \<in> set (work_orders d)" "wo_id w = tw_workOrderId inp" "wo_tenant_id w = tw_tenantId inp"
    "tw_nextStatus inp \<in> set (VALID_WORK_ORDER_TRANSITIONS (wo_status w))"
    "substantiates e inp (cl_rls c) w d (map_option ad_id (tr_authorityDecision res)) d1"
    "env_uuid e 4 \<notin> wt_id ` set (wo_transitions d)"
    "d' = after_move e inp (wo_status w) (map_option ad_id (tr_authorityDecision res)) d1"
    "\<exists>a. tr_workOrder res = (wo_id w, wo_tenant_id w, tw_nextStatus inp, a)"
proof -
  from assms(1) obtain w dec d1 u d2 started d3 validated d4 receipt d5 candidate d6 where
    w: "first_row (scoped_rows c wo_id wo_tenant_id (tw_workOrderId inp) (tw_tenantId inp) (work_orders d)) = Some w"
    and v: "tw_nextStatus inp \<in> set (VALID_WORK_ORDER_TRANSITIONS (wo_status w))"
    and b: "when_some (wo_status w = INTENT_PARSED \<and> tw_nextStatus inp = AUTHORITY_CLASSIFIED)
         (recordAuthorityDecision e inp c) d = Inr (dec, d1)"
       "when_some (wo_status w = AUTHORITY_CLASSIFIED \<and> tw_nextStatus inp \<in> set authorityBranchStatuses)
         (verifyAuthorityBranch inp w c) d1 = Inr (u, d2)"
       "when_some (wo_status w = READY_TO_ACT \<and> tw_nextStatus inp = EXECUTING) (startRun e inp) d2
         = Inr (started, d3)"
       "when_some (wo_status w = EXECUTING \<and> tw_nextStatus inp = VALIDATING) (validateRun inp c) d3
         = Inr (validated, d4)"
       "when_some (wo_status w = VALIDATING \<and> tw_nextStatus inp = RECEIPT_WRITTEN)
         (writeTransitionReceipt e inp w (wo_status w) c) d4 = Inr (receipt, d5)"
       "when_some (wo_status w = RECEIPT_WRITTEN \<and> tw_nextStatus inp = MEMORY_CANDIDATES_CREATED)
         (createMemoryCandidate e inp w c) d5 = Inr (candidate, d6)"
    and t: "env_uuid e 4 \<notin> wt_id ` set (wo_transitions d6)"
    and d': "d' = after_move e inp (wo_status w) (map_option ad_id dec) d6"
    and r: "tr_authorityDecision res = dec" "\<exists>a. tr_workOrder res = (wo_id w, wo_tenant_id w, tw_nextStatus inp, a)"
    unfolding runTransition_tx_def Let_def tbind_Inr_iff lockWorkOrder_Inr modify_iff
      lift_result_iff wo_life.assert_Inr_iff insert_wo_transition_def insert_into_Inr ensure_iff treturn_iff
    by (auto simp: after_move_def transitionRow_def)
  from blocks_substantiate [OF v assms(2) b]
  have s: "substantiates e inp (cl_rls c) w d (map_option ad_id dec) d6" .
  from t substantiates_frame [OF s] have "env_uuid e 4 \<notin> wt_id ` set (wo_transitions d)" by simp
  with s v w r d' show thesis by (intro that [of w d6]) (auto dest: scoped_first_row)
qed

lemma runTransition_refines:
  assumes "runTransition_tx e inp inject c d = Inr (res, d')" "cl_tenant c = tw_tenantId inp"
  shows "move_step e inp (cl_rls c) d d'"
  using assms by (rule runTransition_effect) (simp add: move_step.intros)

end
