(* ===== verification/WorkOrderInv.thy ===== *)
theory WorkOrderInv
  imports WorkOrderStep
begin

text \<open>
  The invariant of the WorkOrder tables. For every WorkOrder: its transition rows form a permitted
  history that ends in its status; it links an authority decision of its own exactly when it has been
  classified, and the branch it took is the one that decision's outcome maps to; it has one run once
  it has executed and one transition receipt once the receipt status was reached, none before. The
  invariant is kept by creation, by every transition and by every operation that leaves these tables
  alone or only appends unrelated rows to them.
\<close>

subsection \<open>Definitions\<close>

definition wo_history :: "db \<Rightarrow> uuid \<Rightarrow> (work_order_status option \<times> work_order_status) list" where
  "wo_history d i = map (\<lambda>t. (wt_from_status t, wt_to_status t))
     (filter (\<lambda>t. wt_work_order_id t = i) (wo_transitions d))"

definition authority_linked ::
  "authority_decision list \<Rightarrow> work_order \<Rightarrow> (work_order_status option \<times> work_order_status) list \<Rightarrow> bool" where
  "authority_linked ads w h =
     (case wo_authority_decision_id w of
        None \<Rightarrow> AUTHORITY_CLASSIFIED \<notin> snd ` set h
      | Some i \<Rightarrow> AUTHORITY_CLASSIFIED \<in> snd ` set h \<and>
          (\<exists>a\<in>set ads. ad_id a = i \<and> ad_tenant_id a = wo_tenant_id w \<and> ad_work_order_id a = Some (wo_id w) \<and>
             (\<forall>t. (Some AUTHORITY_CLASSIFIED, t) \<in> set h \<longrightarrow>
                t = FAILED \<or> t = AUTHORITY_OUTCOME_TO_WORK_ORDER_STATUS (ad_outcome a))))"

definition wo_runs :: "db \<Rightarrow> uuid \<Rightarrow> run list" where
  "wo_runs d i = filter (\<lambda>r. ru_work_order_id r = i) (runs d)"

definition wo_receipts :: "db \<Rightarrow> uuid \<Rightarrow> action_receipt_row list" where
  "wo_receipts d i = filter (\<lambda>r. re_work_order_id r = Some i \<and> receipt_type (re_payload r) = ''state_transitioned'')
     (action_receipts d)"

definition wo_consistent :: "db \<Rightarrow> work_order \<Rightarrow> bool" where
  "wo_consistent d w \<longleftrightarrow>
     (let h = wo_history d (wo_id w) in
      trail VALID_WORK_ORDER_TRANSITIONS RECEIVED h (wo_status w) \<and>
      authority_linked (authority_decisions d) w h \<and>
      map ru_tenant_id (wo_runs d (wo_id w)) = (if EXECUTING \<in> snd ` set h then [wo_tenant_id w] else []) \<and>
      map re_payload (wo_receipts d (wo_id w)) =
        (if RECEIPT_WRITTEN \<in> snd ` set h
         then [state_transitioned ''work_order'' (wo_id w) (status_name VALIDATING) (status_name RECEIPT_WRITTEN)]
         else []))"

definition wo_refs_ok :: "db \<Rightarrow> bool" where
  "wo_refs_ok d \<longleftrightarrow>
     (\<forall>t\<in>set (wo_transitions d). (wt_tenant_id t, wt_work_order_id t) \<in> (\<lambda>w. (wo_tenant_id w, wo_id w)) ` set (work_orders d)) \<and>
     (\<forall>r\<in>set (runs d). ru_work_order_id r \<in> wo_id ` set (work_orders d)) \<and>
     (\<forall>r\<in>set (action_receipts d). \<forall>i. re_work_order_id r = Some i \<longrightarrow> i \<in> wo_id ` set (work_orders d))"

definition wo_inv :: "db \<Rightarrow> bool" where
  "wo_inv d \<longleftrightarrow>
     distinct (map wo_id (work_orders d)) \<and> distinct (map ad_id (authority_decisions d)) \<and>
     wo_refs_ok d \<and> (\<forall>w\<in>set (work_orders d). wo_consistent d w)"

subsection \<open>The history determines what may exist\<close>

lemma wo_historyD:
  assumes "wo_inv d" "w \<in> set (work_orders d)"
  shows "trail VALID_WORK_ORDER_TRANSITIONS RECEIVED (wo_history d (wo_id w)) (wo_status w)"
  using assms by (auto simp: wo_inv_def wo_consistent_def Let_def)

lemma wo_unique:
  "wo_inv d \<Longrightarrow> w \<in> set (work_orders d) \<Longrightarrow> w' \<in> set (work_orders d) \<Longrightarrow> wo_id w = wo_id w' \<Longrightarrow> w = w'"
  by (auto simp: wo_inv_def distinct_map dest: inj_onD)

lemma wo_history_fresh:
  "wo_refs_ok d \<Longrightarrow> i \<notin> wo_id ` set (work_orders d) \<Longrightarrow> wo_history d i = []"
  by (force simp: wo_refs_ok_def wo_history_def filter_empty_conv)

lemma wo_records_fresh:
  "wo_refs_ok d \<Longrightarrow> i \<notin> wo_id ` set (work_orders d) \<Longrightarrow> wo_runs d i = [] \<and> wo_receipts d i = []"
  by (auto simp: wo_refs_ok_def wo_runs_def wo_receipts_def filter_empty_conv)

lemma status_name_inject [simp]: "status_name s = status_name t \<longleftrightarrow> s = t"
  by (cases s; cases t) simp_all

lemma authority_linked_mono:
  "authority_linked ads w h \<Longrightarrow> set ads \<subseteq> set ads' \<Longrightarrow> authority_linked ads' w h"
  by (auto simp: authority_linked_def split: option.splits)

lemma wo_consistent_transfer:
  assumes "wo_consistent d w" "wo_history d' (wo_id w) = wo_history d (wo_id w)"
    "map ru_tenant_id (wo_runs d' (wo_id w)) = map ru_tenant_id (wo_runs d (wo_id w))"
    "wo_receipts d' (wo_id w) = wo_receipts d (wo_id w)"
    "set (authority_decisions d) \<subseteq> set (authority_decisions d')"
  shows "wo_consistent d' w"
  using assms authority_linked_mono [OF _ assms(5), of w "wo_history d (wo_id w)"]
  by (simp add: wo_consistent_def Let_def)

subsection \<open>One move of one WorkOrder\<close>

text \<open>Each conjunct of the invariant after appending one permitted move to the history.\<close>

lemma authority_linked_move:
  assumes tr: "trail VALID_WORK_ORDER_TRANSITIONS RECEIVED h (wo_status w)"
    and linked: "authority_linked (authority_decisions d) w h"
    and ids: "distinct (map ad_id (authority_decisions d))"
    and valid: "tw_nextStatus inp \<in> set (VALID_WORK_ORDER_TRANSITIONS (wo_status w))"
    and own: "wo_id w = tw_workOrderId inp" "wo_tenant_id w = tw_tenantId inp"
    and sub: "substantiates e inp rls w d nd d1"
  shows "authority_linked (authority_decisions d1) (moved e inp nd w) (h @ [(Some (wo_status w), tw_nextStatus inp)])"
  using sub
proof cases
  case (classify di)
  from wo_life.trail_fresh [OF tr valid] classify have "AUTHORITY_CLASSIFIED \<notin> snd ` set h" by simp
  with trail_moves [OF tr] have "(Some AUTHORITY_CLASSIFIED, t) \<notin> set h" for t by blast
  with classify own show ?thesis by (auto simp: authority_linked_def moved_def)
next
  case (branch a)
  from wo_life.trail_not_left [OF tr] branch have "(Some AUTHORITY_CLASSIFIED, t) \<notin> set h" for t by simp
  moreover from linked branch obtain a' where
    "a' \<in> set (authority_decisions d)" "ad_id a' = ad_id a" "ad_work_order_id a' = Some (wo_id w)"
    by (auto simp: authority_linked_def)
  with branch ids have "ad_work_order_id a = Some (wo_id w)"
    by (metis distinct_map inj_onD)
  moreover from branch trail_current [OF tr] have "AUTHORITY_CLASSIFIED \<in> snd ` set h" by simp
  ultimately show ?thesis
    using branch own by (auto simp: authority_linked_def moved_def intro!: bexI [of _ a])
next
  case execute
  with linked show ?thesis by (auto simp: authority_linked_def moved_def split: option.splits)
next
  case (validate r)
  with linked show ?thesis by (auto simp: authority_linked_def moved_def split: option.splits)
next
  case (receipt r)
  with linked show ?thesis by (auto simp: authority_linked_def moved_def split: option.splits)
next
  case (remember ci r)
  with linked show ?thesis by (auto simp: authority_linked_def moved_def split: option.splits)
next
  case plain
  with valid have "tw_nextStatus inp \<noteq> AUTHORITY_CLASSIFIED" by (auto simp: into_status)
  with linked plain show ?thesis by (auto simp: authority_linked_def moved_def split: option.splits)
qed

lemma runs_move:
  assumes tr: "trail VALID_WORK_ORDER_TRANSITIONS RECEIVED h (wo_status w)"
    and runs: "map ru_tenant_id (wo_runs d (wo_id w)) = (if EXECUTING \<in> snd ` set h then [wo_tenant_id w] else [])"
    and valid: "tw_nextStatus inp \<in> set (VALID_WORK_ORDER_TRANSITIONS (wo_status w))"
    and own: "wo_id w = tw_workOrderId inp" "wo_tenant_id w = tw_tenantId inp"
    and sub: "substantiates e inp rls w d nd d1"
  shows "map ru_tenant_id (wo_runs d1 (wo_id w)) =
    (if EXECUTING \<in> insert (tw_nextStatus inp) (snd ` set h) then [wo_tenant_id w] else [])"
  using sub
proof cases
  case execute
  from wo_life.trail_fresh [OF tr valid] execute have "EXECUTING \<notin> snd ` set h" by simp
  with execute runs own show ?thesis by (simp add: wo_runs_def runRow_def)
next
  case (validate r)
  have "map ru_tenant_id (wo_runs d1 i) = map ru_tenant_id (wo_runs d i)" for i
    by (simp add: validate wo_runs_def update_where_def filter_map comp_def if_distrib cong: if_cong)
  with runs show ?thesis by (simp add: validate)
qed (use valid runs in \<open>auto simp: wo_runs_def into_status\<close>)

lemma receipts_move:
  assumes tr: "trail VALID_WORK_ORDER_TRANSITIONS RECEIVED h (wo_status w)"
    and receipts: "map re_payload (wo_receipts d (wo_id w)) = (if RECEIPT_WRITTEN \<in> snd ` set h
       then [state_transitioned ''work_order'' (wo_id w) (status_name VALIDATING) (status_name RECEIPT_WRITTEN)] else [])"
    and valid: "tw_nextStatus inp \<in> set (VALID_WORK_ORDER_TRANSITIONS (wo_status w))"
    and own: "wo_id w = tw_workOrderId inp"
    and sub: "substantiates e inp rls w d nd d1"
  shows "map re_payload (wo_receipts d1 (wo_id w)) =
    (if RECEIPT_WRITTEN \<in> insert (tw_nextStatus inp) (snd ` set h)
     then [state_transitioned ''work_order'' (wo_id w) (status_name VALIDATING) (status_name RECEIPT_WRITTEN)] else [])"
  using sub
proof cases
  case (receipt r)
  from wo_life.trail_fresh [OF tr valid] receipt have "RECEIPT_WRITTEN \<notin> snd ` set h" by simp
  with receipt receipts own show ?thesis by (simp add: wo_receipts_def)
qed (use valid receipts in \<open>auto simp: wo_receipts_def into_status\<close>)

text \<open>The other WorkOrders do not notice the move.\<close>

lemma other_consistent:
  assumes "wo_consistent d w'" "wo_id w' \<noteq> tw_workOrderId inp"
    and sub: "substantiates e inp rls w d nd d1"
  shows "wo_consistent (after_move e inp s nd d1) w'"
proof -
  have h: "wo_history (after_move e inp s nd d1) (wo_id w') = wo_history d (wo_id w')"
    using assms(2) substantiates_frame(2) [OF sub]
    by (auto simp: wo_history_def after_move_def transitionRow_def)
  have r: "map ru_tenant_id (wo_runs (after_move e inp s nd d1) (wo_id w')) = map ru_tenant_id (wo_runs d (wo_id w'))"
    using sub assms(2)
    by cases (auto simp: wo_runs_def after_move_def runRow_def update_where_def filter_map comp_def
        if_distrib cong: if_cong)
  have p: "wo_receipts (after_move e inp s nd d1) (wo_id w') = wo_receipts d (wo_id w')"
    using sub assms(2) by cases (auto simp: wo_receipts_def after_move_def)
  have a: "set (authority_decisions d) \<subseteq> set (authority_decisions (after_move e inp s nd d1))"
    using sub by cases (auto simp: after_move_def)
  from wo_consistent_transfer [OF assms(1) h r p a] show ?thesis .
qed

lemma target_consistent:
  assumes "wo_inv d" "w \<in> set (work_orders d)"
    and own: "wo_id w = tw_workOrderId inp" "wo_tenant_id w = tw_tenantId inp"
    and valid: "tw_nextStatus inp \<in> set (VALID_WORK_ORDER_TRANSITIONS (wo_status w))"
    and sub: "substantiates e inp rls w d nd d1"
  shows "wo_consistent (after_move e inp (wo_status w) nd d1) (moved e inp nd w)"
proof -
  from assms(1,2) have c: "wo_consistent d w" and ids: "distinct (map ad_id (authority_decisions d))"
    by (auto simp: wo_inv_def)
  let ?h = "wo_history d (wo_id w)"
  have h: "wo_history (after_move e inp (wo_status w) nd d1) (wo_id w) = ?h @ [(Some (wo_status w), tw_nextStatus inp)]"
    using own(1) substantiates_frame(2) [OF sub]
    by (simp add: wo_history_def after_move_def transitionRow_def)
  have s: "wo_runs (after_move e inp (wo_status w) nd d1) = wo_runs d1"
    "wo_receipts (after_move e inp (wo_status w) nd d1) = wo_receipts d1"
    "authority_decisions (after_move e inp (wo_status w) nd d1) = authority_decisions d1"
    "wo_id (moved e inp nd w) = wo_id w" "wo_tenant_id (moved e inp nd w) = wo_tenant_id w"
    "wo_status (moved e inp nd w) = tw_nextStatus inp"
    by (simp_all add: fun_eq_iff wo_runs_def wo_receipts_def after_move_def moved_def)
  from c have tr: "trail VALID_WORK_ORDER_TRANSITIONS RECEIVED ?h (wo_status w)"
    by (simp add: wo_consistent_def Let_def)
  show ?thesis
    unfolding wo_consistent_def Let_def s h
    using c trail.move [OF tr valid] authority_linked_move [OF tr _ ids valid own sub]
      runs_move [OF tr _ valid own sub] receipts_move [OF tr _ valid own(1) sub]
    by (simp add: wo_consistent_def Let_def)
qed

lemma move_refs_ok:
  assumes "wo_refs_ok d" "w \<in> set (work_orders d)" "wo_id w = tw_workOrderId inp"
    "wo_tenant_id w = tw_tenantId inp" and sub: "substantiates e inp rls w d nd d1"
  shows "wo_refs_ok (after_move e inp s nd d1)"
proof -
  let ?d = "after_move e inp s nd d1"
  have key: "(\<lambda>x. (wo_tenant_id x, wo_id x)) ` set (work_orders ?d) = (\<lambda>x. (wo_tenant_id x, wo_id x)) ` set (work_orders d)"
    unfolding set_map [symmetric] using substantiates_frame(1) [OF sub]
    by (simp add: after_move_def moved_def del: set_map)
  then have ids: "wo_id ` set (work_orders ?d) = wo_id ` set (work_orders d)"
    by (metis (no_types, lifting) image_cong image_image snd_conv)
  have in_ids: "tw_workOrderId inp \<in> wo_id ` set (work_orders d)"
    "(tw_tenantId inp, tw_workOrderId inp) \<in> (\<lambda>x. (wo_tenant_id x, wo_id x)) ` set (work_orders d)"
    using assms(2-4) by force+
  show ?thesis
    unfolding wo_refs_ok_def key ids
    using sub assms(1) in_ids substantiates_frame(2) [OF sub]
    by cases (auto simp: wo_refs_ok_def after_move_def transitionRow_def runRow_def set_update_where)
qed

lemma wo_inv_move:
  assumes "wo_inv d" "move_step e inp rls d d'"
  shows "wo_inv d'"
  using assms(2)
proof cases
  case (1 w nd d1)
  note sub = 1(6)
  have ids: "map wo_id (work_orders d') = map wo_id (work_orders d)"
    using substantiates_frame(1) [OF sub] by (simp add: 1(1) after_move_def moved_def)
  have ads: "distinct (map ad_id (authority_decisions d'))"
    using sub assms(1) by cases (auto simp: 1(1) after_move_def wo_inv_def)
  have "wo_consistent d' w'" if "w' \<in> set (work_orders d')" for w'
  proof -
    from that obtain w0 where w0: "w0 \<in> set (work_orders d)"
      "w' = (if wo_id w0 = tw_workOrderId inp \<and> wo_tenant_id w0 = tw_tenantId inp then moved e inp nd w0 else w0)"
      using substantiates_frame(1) [OF sub] by (auto simp: 1(1) after_move_def set_update_where)
    show ?thesis
    proof (cases "wo_id w0 = tw_workOrderId inp")
      case True
      with w0 1 assms(1) have "w0 = w" by (auto dest: wo_unique)
      with w0 1 target_consistent [OF assms(1) 1(2-5) sub] show ?thesis by simp
    next
      case False
      with w0 assms(1) other_consistent [OF _ _ sub] show ?thesis by (auto simp: 1(1) wo_inv_def)
    qed
  qed
  with ids ads assms(1) move_refs_ok [OF _ 1(2-4) sub] show ?thesis
    by (auto simp: wo_inv_def 1(1))
qed

subsection \<open>Creation\<close>

definition after_create :: "env \<Rightarrow> create_work_order_input \<Rightarrow> db \<Rightarrow> db" where
  "after_create e inp d = d\<lparr>work_orders := work_orders d @ [newWorkOrderRow e inp],
     wo_transitions := wo_transitions d @ [initialTransitionRow e inp]\<rparr>"

definition has_key :: "env \<Rightarrow> create_work_order_input \<Rightarrow> db \<Rightarrow> bool" where
  "has_key e inp d \<longleftrightarrow>
     (cw_tenantId inp, workOrderKey e inp) \<in> set (map (\<lambda>w. (wo_tenant_id w, wo_idempotency_key w)) (work_orders d))"

lemma fetchExisting_Inr:
  "fetchExistingWorkOrder e inp c d = Inr (r, d') \<Longrightarrow>
   d' = d \<and> fst r \<in> set (work_orders d) \<and> wo_tenant_id (fst r) = cw_tenantId inp \<and>
   wo_idempotency_key (fst r) = workOrderKey e inp \<and> snd r \<in> set (wo_transitions d) \<and>
   wt_work_order_id (snd r) = wo_id (fst r) \<and> wt_from_status (snd r) = None"
  by (auto simp: fetchExistingWorkOrder_def rowToWorkOrder_def tx_simps split: option.splits if_splits
      dest!: first_row_SomeD set_rls_rows)

lemma createWorkOrder_tx_Inr:
  assumes "createWorkOrder_tx e inp c d = Inr (r, d')"
  shows "has_key e inp d \<and> fetchExistingWorkOrder e inp c d = Inr (r, d') \<or>
    \<not> has_key e inp d \<and> r = (newWorkOrderRow e inp, initialTransitionRow e inp) \<and>
    env_uuid e 0 \<notin> wo_id ` set (work_orders d) \<and> env_uuid e 1 \<notin> wt_id ` set (wo_transitions d) \<and>
    workOrderSchema_ok (newWorkOrderRow e inp) \<and> d' = after_create e inp d"
  using assms
  by (auto simp: createWorkOrder_tx_def has_key_def tx_simps insert_work_order_def insert_wo_transition_def
      rowToWorkOrder_def after_create_def newWorkOrderRow_def initialTransitionRow_def
      split: option.splits if_splits)

lemma newWorkOrderRow_simps [simp]:
  "wo_id (newWorkOrderRow e inp) = env_uuid e 0" "wo_tenant_id (newWorkOrderRow e inp) = cw_tenantId inp"
  "wo_status (newWorkOrderRow e inp) = RECEIVED" "wo_authority_decision_id (newWorkOrderRow e inp) = None"
  "wo_idempotency_key (newWorkOrderRow e inp) = workOrderKey e inp"
  by (simp_all add: newWorkOrderRow_def)

lemma wo_inv_create:
  assumes "wo_inv d" "env_uuid e 0 \<notin> wo_id ` set (work_orders d)"
  shows "wo_inv (after_create e inp d)"
proof -
  from assms have refs: "wo_refs_ok d" by (simp add: wo_inv_def)
  have h: "wo_history (after_create e inp d) i =
      wo_history d i @ (if i = env_uuid e 0 then [(None, RECEIVED)] else [])" for i
    by (simp add: wo_history_def after_create_def initialTransitionRow_def)
  have rest: "wo_runs (after_create e inp d) i = wo_runs d i" "wo_receipts (after_create e inp d) i = wo_receipts d i"
    "authority_decisions (after_create e inp d) = authority_decisions d" for i
    by (simp_all add: wo_runs_def wo_receipts_def after_create_def)
  have new: "wo_consistent (after_create e inp d) (newWorkOrderRow e inp)"
    using wo_history_fresh [OF refs assms(2)] wo_records_fresh [OF refs assms(2)]
    by (simp add: wo_consistent_def Let_def h rest authority_linked_def trail.start)
  have "wo_consistent (after_create e inp d) w" if "w \<in> set (work_orders d)" for w
    using assms that by - (rule wo_consistent_transfer [of d], auto simp: wo_inv_def h rest image_iff)
  with new assms refs show ?thesis
    by (auto simp: wo_inv_def wo_refs_ok_def after_create_def initialTransitionRow_def)
qed

subsection \<open>Operations that leave the WorkOrder tables alone\<close>

text \<open>
  \<open>wo_untouched\<close> is what every other component's operation guarantees: WorkOrders, their history and
  their runs are as before; new authority decisions and new receipts may appear, with fresh ids and,
  for receipts, of another type and about WorkOrders that exist.
\<close>

definition wo_untouched :: "db \<Rightarrow> db \<Rightarrow> bool" where
  "wo_untouched d d' \<longleftrightarrow>
     work_orders d' = work_orders d \<and> wo_transitions d' = wo_transitions d \<and> runs d' = runs d \<and>
     appended (authority_decisions d) (authority_decisions d') \<and>
     (distinct (map ad_id (authority_decisions d)) \<longrightarrow> distinct (map ad_id (authority_decisions d'))) \<and>
     (\<forall>i. wo_receipts d' i = wo_receipts d i) \<and> (wo_refs_ok d \<longrightarrow> wo_refs_ok d')"

interpretation wo_frame: db_preorder wo_untouched
  by unfold_locales (auto simp: wo_untouched_def intro: appended_trans)

lemma wo_inv_untouched:
  assumes "wo_inv d" "wo_untouched d d'"
  shows "wo_inv d'"
proof -
  from assms have "set (authority_decisions d) \<subseteq> set (authority_decisions d')"
    by (auto simp: wo_untouched_def dest: appended_subset)
  then have "wo_consistent d' w" if "w \<in> set (work_orders d)" for w
    using assms that
    by - (rule wo_consistent_transfer [of d], simp_all add: wo_inv_def wo_untouched_def wo_history_def wo_runs_def)
  with assms show ?thesis by (simp add: wo_inv_def wo_untouched_def)
qed

text \<open>The invariant as a relation, so that it lifts to composed operations.\<close>

definition keeps_wo_inv :: "db \<Rightarrow> db \<Rightarrow> bool" where
  "keeps_wo_inv d d' \<longleftrightarrow> (wo_inv d \<longrightarrow> wo_inv d')"

interpretation wo_keep: db_preorder keeps_wo_inv
  by unfold_locales (auto simp: keeps_wo_inv_def)

lemma untouched_keeps: "osteps wo_untouched m \<Longrightarrow> osteps keeps_wo_inv m"
  by (auto simp: osteps_def keeps_wo_inv_def intro: wo_inv_untouched)

lemma createWorkOrder_keeps: "osteps keeps_wo_inv (createWorkOrder e inp)"
  unfolding createWorkOrder_def
proof (rule wo_keep.osteps_tx)
  fix c
  show "steps keeps_wo_inv (createWorkOrder_tx e inp c)"
    by (auto simp: steps_def keeps_wo_inv_def dest!: createWorkOrder_tx_Inr fetchExisting_Inr
        intro: wo_inv_create)
qed

lemma runTransition_keeps: "osteps keeps_wo_inv (runTransition e inp inject)"
  unfolding runTransition_def
  by (rule wo_keep.osteps_tx) (auto simp: steps_def keeps_wo_inv_def dest: runTransition_refines intro: wo_inv_move)

lemma writeDelegationReceipt_untouched: "osteps wo_untouched (writeDelegationReceipt e inp)"
  unfolding writeDelegationReceipt_def
  by (rule wo_frame.osteps_tx)
    (auto simp: steps_def writeDelegationReceipt_tx_def assertOwnTenant_def insert_action_receipt_def tx_simps
      wo_untouched_def wo_receipts_def wo_refs_ok_def delegationReceipt_def action_receipt.defs action_receipt_row.defs)

end
