(* ===== verification/Demo.thy ===== *)
theory Demo
  imports WorkOrderInv
begin

text \<open>
  A small concrete installation on which operations are evaluated: two tenants, three actors, one
  thread and one message each, and an environment whose random UUIDs count upwards. Its digest is a
  constant; nothing evaluated here depends on the digest beyond its length.
\<close>

definition demo_env :: env where
  "demo_env = \<lparr>env_now = int, env_db_now = int, env_uuid = (\<lambda>i. of_nat (100 + i)),
     env_sha256 = (\<lambda>s. replicate 64 CHR ''0''), env_rls = True\<rparr>"

definition demo_db :: db where
  "demo_db = empty_db\<lparr>tenants := [1, 2],
     actors :=
       [\<lparr>ac_id = 10, ac_tenant_id = 1, ac_actor_name = ''ELORA'', ac_reports_to_actor_id = None\<rparr>,
        \<lparr>ac_id = 11, ac_tenant_id = 1, ac_actor_name = ''operator'', ac_reports_to_actor_id = None\<rparr>,
        \<lparr>ac_id = 12, ac_tenant_id = 2, ac_actor_name = ''operator'', ac_reports_to_actor_id = None\<rparr>],
     threads := [\<lparr>th_id = 20, th_tenant_id = 1, th_workspace_id = None, th_project_id = None,
       th_title = ''t'', th_originating_surface = None\<rparr>],
     messages := [\<lparr>ms_id = 30, ms_tenant_id = 1, ms_thread_id = 20, ms_actor_id = 11, ms_role = ''user'',
       ms_content = ''hi'', ms_source_surface = None, ms_source_correlation_id = None, ms_created_at = 0\<rparr>]\<rparr>"

definition demo_create :: create_work_order_input where
  "demo_create = \<lparr>cw_tenantId = 1, cw_workspaceId = None, cw_projectId = None, cw_threadId = 20,
     cw_messageId = 30, cw_actorId = 11, cw_ownerActorId = None, cw_taskType = HAPPY_PATH_TASK_TYPE,
     cw_interpretedIntent = Some HAPPY_PATH_INTERPRETED_INTENT, cw_parentWorkOrderId = None,
     cw_delegationMode = None\<rparr>"

definition demo_move :: "work_order_status \<Rightarrow> transition_work_order_input" where
  "demo_move s = \<lparr>tw_tenantId = 1, tw_workOrderId = 100, tw_nextStatus = s, tw_actorId = 11,
     tw_reason = ''r'', tw_metadata = None, tw_authorityDecision = None, tw_memoryCandidate = None\<rparr>"

text \<open>The database after the WorkOrder 100 was created.\<close>

definition demo_db1 :: db where
  "demo_db1 = after_create demo_env demo_create demo_db"

lemma key_not_Nil [simp]: "buildIdempotencyKey (x # y # ys) \<noteq> []"
  by (simp add: buildIdempotencyKey_def)

lemmas run_simps = withTenantTransaction_def tx_defs insert_into_def insert_or_nothing_def insert_defs require_def
  scoped_rows_def rls_rows_def assertTenantScopedReference_def order_by_asc_def order_by_desc_def
  obind_def oreturn_def othrow_def

lemmas create_run_simps = createWorkOrder_def createWorkOrder_tx_def newWorkOrderRow_def
  initialTransitionRow_def rowToWorkOrder_def workOrderSchema_ok_def workOrderKey_def

lemmas transition_run_simps = transitionWorkOrder_def runTransition_def runTransition_tx_def
  lockWorkOrder_def mostRecentRun_def ensureTenant_def decisionRow_def recordAuthorityDecision_def
  verifyAuthorityBranch_def runRow_def startRun_def validateRun_def transitionReceipt_def
  writeTransitionReceipt_def createMemoryCandidate_def candidateRow_def when_some_def transitionRow_def
  moved_def assertValidWorkOrderTransition_def isTerminalWorkOrderStatus_def
  TERMINAL_WORK_ORDER_STATUSES_def isValidWorkOrderTransition_def actionReceiptSchema_ok_def
  memoryCandidateSchema_ok_def action_receipt.defs action_receipt_row.defs

lemmas demo_defs = demo_env_def demo_db_def demo_create_def demo_move_def empty_db_def HAPPY_PATH_TASK_TYPE_def

lemma demo_created:
  "createWorkOrder demo_env demo_create demo_db =
     (Inr (newWorkOrderRow demo_env demo_create, initialTransitionRow demo_env demo_create), demo_db1)"
  by (simp add: demo_db1_def after_create_def run_simps create_run_simps demo_defs)

lemma demo_db1_simps:
  "work_orders demo_db1 = [newWorkOrderRow demo_env demo_create]"
  "wo_transitions demo_db1 = [initialTransitionRow demo_env demo_create]"
  "tenants demo_db1 = [1, 2]" "map ac_id (actors demo_db1) = [10, 11, 12]"
  by (simp_all add: demo_db1_def after_create_def demo_db_def empty_db_def)

lemma wo_inv_empty:
  "work_orders d = [] \<Longrightarrow> wo_transitions d = [] \<Longrightarrow> runs d = [] \<Longrightarrow> action_receipts d = [] \<Longrightarrow>
   authority_decisions d = [] \<Longrightarrow> wo_inv d"
  by (simp add: wo_inv_def wo_refs_ok_def)

lemma demo_wo_inv: "wo_inv demo_db" "wo_inv demo_db1"
proof -
  show *: "wo_inv demo_db" by (rule wo_inv_empty) (simp_all add: demo_db_def empty_db_def)
  show "wo_inv demo_db1"
    using ostepsD [OF createWorkOrder_keeps, of demo_db demo_env demo_create] *
    by (simp add: demo_created keeps_wo_inv_def)
qed

end
