(* ===== verification/WorkOrderProps.thy ===== *)
theory WorkOrderProps
  imports Demo
begin

text \<open>
  The contract of the WorkOrder engine as its callers rely on it: transactions are all-or-nothing,
  a committed transition is one step of the abstract machine, rejected moves leave no trace, creation
  is idempotent, its key identifies the request, and no call of one tenant touches another's rows.
\<close>

subsection \<open>Frames\<close>

lemma frame_move:
  assumes "move_step e inp rls d d'" "tw_tenantId inp = t"
  shows "tenant_frame t d d'"
  using assms(1)
proof cases
  case (1 w nd d1)
  from 1(6) have "tenant_frame t d d1"
  proof cases
    case (validate r)
    have "distinct (map ru_id (runs d)) \<Longrightarrow>
        filter (\<lambda>x. ru_tenant_id x \<noteq> t) (runs d1) = filter (\<lambda>x. ru_tenant_id x \<noteq> t) (runs d)"
      using validate assms(2) by (simp add: filter_update_by_id)
    with validate show ?thesis by (simp add: tenant_frame_defs)
  qed (use assms(2) in \<open>auto simp: tenant_frame_defs runRow_def candidateRow_def\<close>)
  moreover have "filter (\<lambda>x. wo_tenant_id x \<noteq> t) (update_where
      (\<lambda>x. wo_id x = tw_workOrderId inp \<and> wo_tenant_id x = t) (moved e inp nd) (work_orders d)) =
      filter (\<lambda>x. wo_tenant_id x \<noteq> t) (work_orders d)"
    by (rule filter_update_where_other) auto
  then have "tenant_frame t d1 d'"
    using 1 assms(2) substantiates_frame [OF 1(6)]
    by (simp add: tenant_frame_defs after_move_def transitionRow_def)
  ultimately show ?thesis by (rule frame.R_trans)
qed

lemma runTransition_frame: "osteps (tenant_frame (tw_tenantId inp)) (runTransition e inp inject)"
  unfolding runTransition_def
  by (rule frame.osteps_tx) (auto simp: steps_def dest!: runTransition_refines frame_move)

lemma fetchExisting_frame [rel_intros]: "steps (tenant_frame t) (fetchExistingWorkOrder e inp c)"
  by (auto simp: steps_def frame.R_refl dest!: fetchExisting_Inr)

lemma createWorkOrder_frame: "osteps (tenant_frame (cw_tenantId inp)) (createWorkOrder e inp)"
  unfolding createWorkOrder_def createWorkOrder_tx_def
  by (intro frame.osteps_tx frame.steps_rules rel_intros) (simp_all add: initialTransitionRow_def)

lemma writeDelegationReceipt_frame: "osteps (tenant_frame (dg_tenantId inp)) (writeDelegationReceipt e inp)"
  unfolding writeDelegationReceipt_def writeDelegationReceipt_tx_def assertOwnTenant_def
  by (intro frame.osteps_tx frame.steps_rules rel_intros)
    (simp add: delegationReceipt_def action_receipt.defs action_receipt_row.defs)

subsection \<open>Committed transitions\<close>

text \<open>
  C19. A transition that returns normally is exactly one step of the abstract machine: the WorkOrder
  exists under the acting tenant, the move is an edge of the status graph, the record the move
  requires was written (or, for a branch after classification, the recorded outcome maps to the
  requested status), one status update and one history row were made, and nothing else changed.
\<close>

theorem transitionWorkOrder_refines:
  assumes "transitionWorkOrder e inp d = (Inr res, d')"
  shows "move_step e inp (env_rls e) d d'"
  using assms runTransition_refines
  by (fastforce simp: transitionWorkOrder_def runTransition_def withTenantTransaction_Inr)

lemma demo_move_ok:
  "fst (transitionWorkOrder (env_at 1 demo_env) (demo_move INTENT_PARSED) demo_db1) =
     Inr \<lparr>tr_workOrder = (100, 1, INTENT_PARSED, None),
       tr_transition = transitionRow (env_at 1 demo_env) (demo_move INTENT_PARSED) RECEIVED,
       tr_authorityDecision = None, tr_run = None, tr_actionReceipt = None, tr_memoryCandidate = None\<rparr>"
  by (simp add: demo_db1_def after_create_def run_simps create_run_simps transition_run_simps demo_defs)

theorem transitionWorkOrder_refines_witness:
  "move_step (env_at 1 demo_env) (demo_move INTENT_PARSED) True demo_db1
     (snd (transitionWorkOrder (env_at 1 demo_env) (demo_move INTENT_PARSED) demo_db1))"
proof -
  have "env_rls (env_at 1 demo_env) = True" by (simp add: demo_env_def)
  with transitionWorkOrder_refines [OF prod_eqI [of _ "(_, _)", unfolded fst_conv snd_conv, OF demo_move_ok refl]]
  show ?thesis by simp
qed

subsection \<open>Failed transitions\<close>

text \<open>
  The failure-injection entry point never leaves a trace: whatever the input and the environment
  variable, it throws and the database is as before, although the injected failure comes after the
  status update and the history insert.
\<close>

theorem transitionWorkOrderForTest_no_trace:
  "(\<exists>err. fst (transitionWorkOrderForTest node_env e inp d) = Inl err) \<and>
   snd (transitionWorkOrderForTest node_env e inp d) = d"
proof -
  have "runTransition_tx e inp True c d \<noteq> Inr r" for c r
    by (auto simp: runTransition_tx_def Let_def tbind_Inr_iff ensure_iff)
  then show ?thesis
    by (auto simp: transitionWorkOrderForTest_def runTransition_def withTenantTransaction_def othrow_def
        split: sum.splits)
qed

text \<open>The lock finds the WorkOrder of the tenant, and only that.\<close>

lemma lock_own:
  assumes "distinct (map wo_id (work_orders d))" "w \<in> set (work_orders d)"
    "wo_id w = tw_workOrderId inp" "wo_tenant_id w = tw_tenantId inp" "cl_tenant c = tw_tenantId inp"
  shows "lockWorkOrder c (tw_tenantId inp) (tw_workOrderId inp) d = Inr (w, d)"
proof -
  have "filter (\<lambda>r. wo_id r = wo_id w \<and> wo_tenant_id r = wo_tenant_id w) (work_orders d) =
      filter (\<lambda>r. wo_id r = wo_id w) (work_orders d)"
    using assms(1,2) by (auto simp: distinct_map dest: inj_onD intro!: filter_cong)
  with assms first_row_filter_distinct [OF assms(1,2)] show ?thesis
    by (simp add: lockWorkOrder_Inr scoped_rows_def)
qed

text \<open>
  A terminal WorkOrder is final: every transition of it, to any status and with any input, throws
  \<open>TerminalWorkOrderStateError\<close> and leaves the database unchanged.
\<close>

theorem terminal_is_final:
  assumes "distinct (map wo_id (work_orders d))" "w \<in> set (work_orders d)" "wo_id w = tw_workOrderId inp"
    "wo_tenant_id w = tw_tenantId inp" "isTerminalWorkOrderStatus (wo_status w)"
  shows "transitionWorkOrder e inp d =
    (Inl (StateError (TerminalWorkOrderStateError (tw_workOrderId inp) (wo_status w))), d)"
  using assms wo_life.assert_terminal [OF assms(5)]
  by (auto simp: transitionWorkOrder_def runTransition_def withTenantTransaction_Inl runTransition_tx_def
      Let_def tbind_Inl_iff lock_own lift_result_iff)

definition demo_refused :: db where
  "demo_refused = demo_db1\<lparr>work_orders := map (\<lambda>w. w\<lparr>wo_status := REFUSED\<rparr>) (work_orders demo_db1)\<rparr>"

theorem terminal_is_final_witness:
  "transitionWorkOrder demo_env (demo_move EXECUTING) demo_refused =
     (Inl (StateError (TerminalWorkOrderStateError 100 REFUSED)), demo_refused)"
  using terminal_is_final [of demo_refused "(newWorkOrderRow demo_env demo_create)\<lparr>wo_status := REFUSED\<rparr>"
      "demo_move EXECUTING" demo_env]
  by (simp add: demo_refused_def demo_db1_simps demo_move_def isTerminalWorkOrderStatus_def
      TERMINAL_WORK_ORDER_STATUSES_def newWorkOrderRow_def demo_env_def demo_create_def)

text \<open>
  A WorkOrder of another tenant cannot be moved, whether or not row-level security is in force:
  the call throws \<open>WorkOrderNotFoundError\<close> and changes nothing.
\<close>

theorem foreign_work_order_not_found:
  assumes "\<forall>w\<in>set (work_orders d). wo_id w = tw_workOrderId inp \<longrightarrow> wo_tenant_id w \<noteq> tw_tenantId inp"
  shows "transitionWorkOrder e inp d = (Inl (StateError (WorkOrderNotFoundError (tw_workOrderId inp))), d)"
  using assms
  by (auto simp: transitionWorkOrder_def runTransition_def withTenantTransaction_Inl runTransition_tx_def
      Let_def tbind_Inl_iff lockWorkOrder_Inl lockWorkOrder_Inr scoped_rows_def filter_empty_conv
      dest: set_rls_rows)

theorem foreign_work_order_not_found_witness:
  "transitionWorkOrder (demo_env\<lparr>env_rls := False\<rparr>) ((demo_move INTENT_PARSED)\<lparr>tw_tenantId := 2\<rparr>) demo_db1 =
     (Inl (StateError (WorkOrderNotFoundError 100)), demo_db1)"
  using foreign_work_order_not_found [of demo_db1 "(demo_move INTENT_PARSED)\<lparr>tw_tenantId := 2\<rparr>"
      "demo_env\<lparr>env_rls := False\<rparr>"]
  by (simp add: demo_db1_simps demo_move_def demo_create_def)

text \<open>
  The recorded authority outcome decides the branch: after classification, a request for a status
  other than \<open>FAILED\<close> that is not the one the linked decision's outcome maps to is refused with
  \<open>AuthorityOutcomeMismatchError\<close>, and the database is unchanged.
\<close>

theorem authority_mismatch_refused:
  assumes "distinct (map wo_id (work_orders d))" "distinct (map ad_id (authority_decisions d))"
    "w \<in> set (work_orders d)" "wo_id w = tw_workOrderId inp" "wo_tenant_id w = tw_tenantId inp"
    "wo_status w = AUTHORITY_CLASSIFIED" "a \<in> set (authority_decisions d)"
    "wo_authority_decision_id w = Some (ad_id a)" "ad_tenant_id a = tw_tenantId inp"
    "tw_nextStatus inp \<in> set authorityBranchStatuses"
    "AUTHORITY_OUTCOME_TO_WORK_ORDER_STATUS (ad_outcome a) \<noteq> tw_nextStatus inp"
  shows "transitionWorkOrder e inp d =
    (Inl (StateError (AuthorityOutcomeMismatchError (tw_workOrderId inp) (ad_outcome a)
       (AUTHORITY_OUTCOME_TO_WORK_ORDER_STATUS (ad_outcome a)) (tw_nextStatus inp))), d)"
proof -
  let ?c = "\<lparr>cl_tenant = tw_tenantId inp, cl_rls = env_rls e\<rparr>"
  have valid: "tw_nextStatus inp \<in> set (VALID_WORK_ORDER_TRANSITIONS (wo_status w))"
    using assms(6,10) by (auto simp: authorityBranchStatuses_def)
  have "a \<in> set (rls_rows ?c ad_tenant_id (authority_decisions d))"
    "distinct (map ad_id (rls_rows ?c ad_tenant_id (authority_decisions d)))"
    using assms(2,7,9) by (auto simp: rls_rows_def distinct_map_filter)
  then have "verifyAuthorityBranch inp w ?c d = Inl (StateError (AuthorityOutcomeMismatchError
      (tw_workOrderId inp) (ad_outcome a) (AUTHORITY_OUTCOME_TO_WORK_ORDER_STATUS (ad_outcome a)) (tw_nextStatus inp)))"
    using assms(8,9,11) first_row_filter_distinct [of ad_id _ a]
    by (simp add: verifyAuthorityBranch_def ensureTenant_def tx_defs)
  with assms valid show ?thesis
    by (simp add: transitionWorkOrder_def runTransition_def withTenantTransaction_Inl runTransition_tx_def
      Let_def tbind_Inl_iff lock_own lift_result_iff wo_life.assert_ok when_some_Inr when_some_Inl)
qed

definition demo_escalated :: db where
  "demo_escalated = demo_db1\<lparr>
     work_orders := map (\<lambda>w. w\<lparr>wo_status := AUTHORITY_CLASSIFIED, wo_authority_decision_id := Some 200\<rparr>) (work_orders demo_db1),
     authority_decisions := [\<lparr>ad_id = 200, ad_tenant_id = 1, ad_schema_version = 1, ad_outcome = escalate,
       ad_requires_human_gatekeeper = True, ad_reason = None, ad_risk_level = None, ad_deciding_actor_id = None,
       ad_work_order_id = Some 100, ad_run_id = None, ad_tool_invocation_id = None, ad_required_setup = None,
       ad_resolved_via_standing_rule_id = None, ad_created_at = 0\<rparr>]\<rparr>"

theorem authority_mismatch_refused_witness:
  "transitionWorkOrder demo_env (demo_move READY_TO_ACT) demo_escalated =
     (Inl (StateError (AuthorityOutcomeMismatchError 100 escalate AWAITING_AUTHORIZATION READY_TO_ACT)), demo_escalated)"
  using authority_mismatch_refused [of demo_escalated "hd (work_orders demo_escalated)" "demo_move READY_TO_ACT"
      "hd (authority_decisions demo_escalated)" demo_env]
  by (simp add: demo_escalated_def demo_db1_simps demo_move_def authorityBranchStatuses_def newWorkOrderRow_def
      demo_env_def demo_create_def)

subsection \<open>Creation\<close>

text \<open>
  Creating a WorkOrder is idempotent: after a call has returned a WorkOrder and its initial
  transition, a second call with the same input (at any later time, with other random ids, and with
  or without row-level security) returns the same WorkOrder and transition and changes nothing.
\<close>

theorem createWorkOrder_idempotent:
  assumes "wo_refs_ok d" "createWorkOrder e inp d = (Inr r, d')" "env_sha256 e' = env_sha256 e"
  shows "createWorkOrder e' inp d' = (Inr r, d')"
proof -
  let ?c = "\<lambda>e. \<lparr>cl_tenant = cw_tenantId inp, cl_rls = env_rls e\<rparr>"
  have key: "workOrderKey e' inp = workOrderKey e inp"
    using assms(3) by (simp add: workOrderKey_def intentFingerprint_def)
  from assms(2) have tx: "createWorkOrder_tx e inp (?c e) d = Inr (r, d')"
    by (simp add: createWorkOrder_def withTenantTransaction_Inr)
  then have owner: "\<And>a. cw_ownerActorId inp = Some a \<Longrightarrow> ref_ids (?c e) tbl_actors a (cw_tenantId inp) d \<noteq> []"
    by (auto simp: createWorkOrder_tx_def tx_simps)
  have fetch: "fetchExistingWorkOrder e' inp (?c e') d' = Inr (r, d') \<and> has_key e inp d' \<and> actors d' = actors d"
    using createWorkOrder_tx_Inr [OF tx]
  proof (elim disjE conjE)
    assume "has_key e inp d" and f: "fetchExistingWorkOrder e inp (?c e) d = Inr (r, d')"
    with fetchExisting_Inr [OF f] show ?thesis
      by (simp add: fetchExistingWorkOrder_def key cong: option.case_cong)
  next
    assume new: "\<not> has_key e inp d" "r = (newWorkOrderRow e inp, initialTransitionRow e inp)"
      "env_uuid e 0 \<notin> wo_id ` set (work_orders d)" "workOrderSchema_ok (newWorkOrderRow e inp)"
      "d' = after_create e inp d"
    then have "filter (\<lambda>w. wo_tenant_id w = cw_tenantId inp \<and> wo_idempotency_key w = workOrderKey e inp) (work_orders d) = []"
      by (force simp: has_key_def filter_empty_conv)
    moreover have "filter (\<lambda>t. wt_tenant_id t = cw_tenantId inp \<and> wt_work_order_id t = env_uuid e 0 \<and>
        wt_from_status t = None) (wo_transitions d) = []"
      using new(3) assms(1) by (force simp: wo_refs_ok_def filter_empty_conv)
    ultimately show ?thesis using new
      by (simp add: fetchExistingWorkOrder_def after_create_def key rowToWorkOrder_def tx_defs has_key_def
          initialTransitionRow_def)
  qed
  have "(case cw_ownerActorId inp of None \<Rightarrow> treturn ()
       | Some a \<Rightarrow> assertTenantScopedReference (?c e') tbl_actors a (cw_tenantId inp)
           (StateError (StateReferenceNotFoundError ''ownerActorId'' a))) d' = Inr ((), d')"
    using owner fetch by (cases "cw_ownerActorId inp") (auto simp: tx_simps scoped_rows_own)
  with fetch show ?thesis
    by (simp add: createWorkOrder_def withTenantTransaction_Inr createWorkOrder_tx_def key has_key_def
        tbind_def insert_or_nothing_def)
qed

theorem createWorkOrder_idempotent_witness:
  "createWorkOrder (env_at 7 demo_env) demo_create demo_db1 =
     (Inr (newWorkOrderRow demo_env demo_create, initialTransitionRow demo_env demo_create), demo_db1)"
  using createWorkOrder_idempotent [OF _ demo_created, of "env_at 7 demo_env"] demo_wo_inv(1)
  by (simp add: wo_inv_def)

text \<open>
  The idempotency key identifies the request: two creations share a key only if tenant, thread,
  message and actor are the same and the task types and intent fingerprints agree, provided the
  digest always has at least sixteen characters.
\<close>

theorem workOrderKey_identifies:
  assumes "\<forall>s. 16 \<le> length (env_sha256 e s)"
  shows "workOrderKey e inp = workOrderKey e inp' \<longleftrightarrow>
    cw_tenantId inp = cw_tenantId inp' \<and> cw_threadId inp = cw_threadId inp' \<and>
    cw_messageId inp = cw_messageId inp' \<and> cw_actorId inp = cw_actorId inp' \<and>
    cw_taskType inp = cw_taskType inp' \<and>
    intentFingerprint e (cw_interpretedIntent inp) = intentFingerprint e (cw_interpretedIntent inp')"
proof -
  have "length (intentFingerprint e v) = 16" for v
    using assms by (simp add: intentFingerprint_def min_absorb2)
  then show ?thesis by (auto simp: workOrderKey_def key_last_fixed_length)
qed

theorem workOrderKey_identifies_witness:
  "workOrderKey demo_env demo_create \<noteq> workOrderKey demo_env (demo_create\<lparr>cw_taskType := ''answer''\<rparr>)"
  using workOrderKey_identifies [of demo_env demo_create "demo_create\<lparr>cw_taskType := ''answer''\<rparr>"]
  by (simp add: demo_env_def demo_create_def HAPPY_PATH_TASK_TYPE_def)

subsection \<open>The acceptance walk\<close>

definition demo_path :: "(error + unit) \<times> db" where
  "demo_path = obind (createWorkOrder demo_env demo_create)
     (\<lambda>_. walk (env_at 1 demo_env) 1 100 11 HAPPY_PATH_TRANSITIONS) demo_db"

lemma demo_path_run:
  "case demo_path of (r, d) \<Rightarrow>
     r = Inr () \<and> map wo_status (work_orders d) = [COMPLETED] \<and> map wo_id (work_orders d) = [100] \<and>
     map wt_to_status (wo_transitions d) = RECEIVED # map fst HAPPY_PATH_TRANSITIONS \<and>
     list_all (\<lambda>t. wt_work_order_id t = 100) (wo_transitions d) \<and>
     length (runs d) = 1 \<and> length (action_receipts d) = 1 \<and> length (memory_candidates d) = 1"
  by (simp add: demo_path_def run_simps create_run_simps demo_defs HAPPY_PATH_TRANSITIONS_def transition_run_simps env_at_def)

lemmas demo_path_facts = demo_path_run [unfolded case_prod_beta]

text \<open>
  The acceptance fixtures drive a new WorkOrder from \<open>RECEIVED\<close> to \<open>COMPLETED\<close>: every one of the
  eight transitions is accepted, and the recorded history is the walk itself.
\<close>

theorem happy_path_completes:
  "(let (r, d) = obind (createWorkOrder demo_env demo_create)
       (\<lambda>_. walk (env_at 1 demo_env) 1 100 11 HAPPY_PATH_TRANSITIONS) demo_db in
    r = Inr () \<and> map wo_status (work_orders d) = [COMPLETED] \<and>
    map wt_to_status (wo_transitions d) = RECEIVED # map fst HAPPY_PATH_TRANSITIONS \<and>
    length (runs d) = 1 \<and> length (action_receipts d) = 1 \<and> length (memory_candidates d) = 1)"
  using demo_path_facts unfolding demo_path_def case_prod_beta Let_def by blast

end
