(* ===== verification/DirectiveState.thy ===== *)
theory DirectiveState
  imports Errors Lifecycle
begin

text \<open>
  \<open>src/src/directives/directiveState.ts\<close>: the Directive state graph. Unlike a WorkOrder's it has
  cycles (closed Directives reopen); only \<open>SUPERSEDED\<close> is terminal.
\<close>

fun VALID_DIRECTIVE_TRANSITIONS :: "directive_state \<Rightarrow> directive_state list" where
  "VALID_DIRECTIVE_TRANSITIONS PROPOSED = [OPEN, DISMISSED, SUPERSEDED]"
| "VALID_DIRECTIVE_TRANSITIONS OPEN = [IN_PROGRESS, DEFERRED, D_COMPLETED, DISMISSED, EXPIRED, SUPERSEDED]"
| "VALID_DIRECTIVE_TRANSITIONS IN_PROGRESS = [DEFERRED, D_COMPLETED, DISMISSED, EXPIRED, SUPERSEDED]"
| "VALID_DIRECTIVE_TRANSITIONS DEFERRED = [OPEN, IN_PROGRESS, DISMISSED, EXPIRED, SUPERSEDED]"
| "VALID_DIRECTIVE_TRANSITIONS D_COMPLETED = [OPEN]"
| "VALID_DIRECTIVE_TRANSITIONS DISMISSED = [OPEN]"
| "VALID_DIRECTIVE_TRANSITIONS EXPIRED = [OPEN]"
| "VALID_DIRECTIVE_TRANSITIONS SUPERSEDED = []"

definition TERMINAL_DIRECTIVE_STATES :: "directive_state list" where
  "TERMINAL_DIRECTIVE_STATES = [SUPERSEDED]"

definition isTerminalDirectiveState :: "directive_state \<Rightarrow> bool" where
  "isTerminalDirectiveState s \<longleftrightarrow> s \<in> set TERMINAL_DIRECTIVE_STATES"

definition isValidDirectiveTransition :: "directive_state \<Rightarrow> directive_state \<Rightarrow> bool" where
  "isValidDirectiveTransition s t \<longleftrightarrow> t \<in> set (VALID_DIRECTIVE_TRANSITIONS s)"

definition assertValidDirectiveTransition :: "uuid \<Rightarrow> directive_state \<Rightarrow> directive_state \<Rightarrow> error + unit" where
  "assertValidDirectiveTransition i s t =
     (if isTerminalDirectiveState s then Inl (DirectiveError (TerminalDirectiveStateError i s))
      else if \<not> isValidDirectiveTransition s t
        then Inl (DirectiveError (InvalidDirectiveTransitionError i s t))
      else Inr ())"

text \<open>\<open>DIRECTIVE_STATE_TIMESTAMP_COLUMN\<close>: the column a transition into the state overwrites, if any.\<close>

fun stampDirectiveState :: "directive_state \<Rightarrow> timestamp \<Rightarrow> operator_directive \<Rightarrow> operator_directive" where
  "stampDirectiveState OPEN now x = x\<lparr>od_accepted_at := Some now\<rparr>"
| "stampDirectiveState IN_PROGRESS now x = x\<lparr>od_started_at := Some now\<rparr>"
| "stampDirectiveState D_COMPLETED now x = x\<lparr>od_completed_at := Some now\<rparr>"
| "stampDirectiveState DEFERRED now x = x\<lparr>od_deferred_at := Some now\<rparr>"
| "stampDirectiveState DISMISSED now x = x\<lparr>od_dismissed_at := Some now\<rparr>"
| "stampDirectiveState PROPOSED now x = x"
| "stampDirectiveState EXPIRED now x = x"
| "stampDirectiveState SUPERSEDED now x = x"

interpretation dir_life: lifecycle VALID_DIRECTIVE_TRANSITIONS isTerminalDirectiveState
  assertValidDirectiveTransition "\<lambda>i s. DirectiveError (TerminalDirectiveStateError i s)"
  "\<lambda>i s t. DirectiveError (InvalidDirectiveTransitionError i s t)"
proof
  fix s t :: directive_state and i :: uuid
  show "isTerminalDirectiveState s \<longleftrightarrow> VALID_DIRECTIVE_TRANSITIONS s = []"
    by (cases s) (simp_all add: isTerminalDirectiveState_def TERMINAL_DIRECTIVE_STATES_def)
  then show "t \<in> set (VALID_DIRECTIVE_TRANSITIONS s) \<Longrightarrow> assertValidDirectiveTransition i s t = Inr ()"
    by (auto simp: assertValidDirectiveTransition_def isValidDirectiveTransition_def)
qed (simp_all add: assertValidDirectiveTransition_def isValidDirectiveTransition_def)

lemma stampDirectiveState_simps [simp]:
  "od_id (stampDirectiveState s now x) = od_id x" "od_tenant_id (stampDirectiveState s now x) = od_tenant_id x"
  "od_state (stampDirectiveState s now x) = od_state x"
  "od_dedupe_key (stampDirectiveState s now x) = od_dedupe_key x"
  "od_due_at (stampDirectiveState s now x) = od_due_at x"
  "od_window_start_at (stampDirectiveState s now x) = od_window_start_at x"
  "od_window_end_at (stampDirectiveState s now x) = od_window_end_at x"
  "od_expires_at (stampDirectiveState s now x) = od_expires_at x"
  by (cases s; simp)+

end
