(* ===== verification/Directives.thy ===== *)
theory Directives
  imports Frames DirectiveState Text
begin

text \<open>
  \<open>src/src/directives/\<close>: the dedupe pipeline that creates, revises, carries or reopens a Directive, the
  transition core with its completion gate, revisions with their content hash, provenance, key
  suppression, the six named verbs and the read services.
\<close>

subsection \<open>Row mappers and errors\<close>

text \<open>\<open>rowMappers.ts\<close>: each is its schema's \<open>parse\<close>.\<close>

definition rowToDirective :: "operator_directive \<Rightarrow> error + operator_directive" where
  "rowToDirective r = (if operatorDirectiveSchema_ok r then Inr r else Inl (ZodError ''operatorDirective''))"

definition rowToRevision :: "directive_revision \<Rightarrow> error + directive_revision" where
  "rowToRevision r = (if operatorDirectiveRevisionSchema_ok r then Inr r else Inl (ZodError ''operatorDirectiveRevision''))"

definition rowToTransition :: "directive_transition \<Rightarrow> error + directive_transition" where
  "rowToTransition r = (if operatorDirectiveTransitionSchema_ok r then Inr r else Inl (ZodError ''operatorDirectiveTransition''))"

definition rowToProvenance :: "directive_provenance \<Rightarrow> error + directive_provenance" where
  "rowToProvenance r = (if provenance_one_source r then Inr r else Inl (ZodError ''operatorDirectiveProvenance''))"

definition rowToSuppression :: "directive_suppression \<Rightarrow> error + directive_suppression" where
  "rowToSuppression r = (if operatorDirectiveSuppressionSchema_ok r then Inr r else Inl (ZodError ''operatorDirectiveSuppression''))"

text \<open>
  The catch blocks around the writes: a failed query and a rejected row both become
  \<open>DirectivePersistenceError\<close>.
\<close>

fun persistenceError :: "error \<Rightarrow> error" where
  "persistenceError (DbError x) = DirectiveError (DirectivePersistenceError (QueryFailed x))"
| "persistenceError (ZodError s) = DirectiveError (DirectivePersistenceError (SchemaRejected s))"
| "persistenceError e = e"

definition assertDirectiveReference :: "client \<Rightarrow> ref_table \<Rightarrow> uuid \<Rightarrow> uuid \<Rightarrow> string \<Rightarrow> unit dtx" where
  "assertDirectiveReference c tbl i tenantId field =
     assertTenantScopedReference c tbl i tenantId (DirectiveError (DirectiveReferenceNotFoundError field i))"

definition requireDirective :: "client \<Rightarrow> uuid \<Rightarrow> uuid \<Rightarrow> operator_directive dtx" where
  "requireDirective c directiveId tenantId =
     tbind (query (\<lambda>d. first_row (scoped_rows c od_id od_tenant_id directiveId tenantId (operator_directives d)))) (\<lambda>row.
     case row of
       None \<Rightarrow> throw (DirectiveError (DirectiveNotFoundError directiveId))
     | Some x \<Rightarrow> treturn x)"

definition update_directive :: "uuid \<Rightarrow> uuid \<Rightarrow> (operator_directive \<Rightarrow> operator_directive) \<Rightarrow> unit dtx" where
  "update_directive i t f = modify (\<lambda>d. d\<lparr>operator_directives := update_where
     (\<lambda>x. od_id x = i \<and> od_tenant_id x = t) f (operator_directives d)\<rparr>)"

subsection \<open>Provenance\<close>

datatype provenance_source =
    src_message uuid
  | src_work_order uuid
  | src_run uuid
  | src_authority_decision uuid
  | src_tool_invocation uuid
  | src_action_receipt uuid
  | src_artifact uuid
  | src_memory_candidate uuid
  | src_memory_record uuid
  | src_external string string "string option" "string option" "timestamp option" "string option"

text \<open>\<open>SOURCE_KIND_TABLE\<close> and \<open>idByKind\<close>; the third component is the kind.\<close>

fun source_reference :: "provenance_source \<Rightarrow> (ref_table \<times> uuid \<times> string) option" where
  "source_reference (src_message i) = Some (tbl_messages, i, ''message'')"
| "source_reference (src_work_order i) = Some (tbl_work_orders, i, ''work_order'')"
| "source_reference (src_run i) = Some (tbl_runs, i, ''run'')"
| "source_reference (src_authority_decision i) = Some (tbl_authority_decisions, i, ''authority_decision'')"
| "source_reference (src_tool_invocation i) = Some (tbl_tool_invocations, i, ''tool_invocation'')"
| "source_reference (src_action_receipt i) = Some (tbl_action_receipts, i, ''action_receipt'')"
| "source_reference (src_artifact i) = Some (tbl_artifacts, i, ''artifact'')"
| "source_reference (src_memory_candidate i) = Some (tbl_memory_candidates, i, ''memory_candidate'')"
| "source_reference (src_memory_record i) = Some (tbl_memory_records, i, ''memory_record'')"
| "source_reference (src_external _ _ _ _ _ _) = None"

fun validateSource :: "provenance_source \<Rightarrow> error + unit" where
  "validateSource (src_external provider ident _ _ _ _) =
     (if js_trim provider = [] \<or> js_trim ident = []
      then Inl (DirectiveError (InvalidDirectiveInputError ''external provenance requires both provider and externalIdentifier''))
      else Inr ())"
| "validateSource _ = Inr ()"

record provenance_input =
  pv_tenantId :: uuid
  pv_directiveId :: uuid
  pv_source :: provenance_source
  pv_metadata :: "metadata option"

definition blank_provenance :: "env \<Rightarrow> provenance_input \<Rightarrow> directive_provenance" where
  "blank_provenance e inp = \<lparr>dp_id = env_uuid e 0, dp_tenant_id = pv_tenantId inp,
     dp_directive_id = pv_directiveId inp, dp_message_id = None, dp_work_order_id = None,
     dp_run_id = None, dp_authority_decision_id = None, dp_tool_invocation_id = None,
     dp_action_receipt_id = None, dp_artifact_id = None, dp_memory_candidate_id = None,
     dp_memory_record_id = None, dp_provider = None, dp_external_identifier = None,
     dp_external_locator = None, dp_label = None, dp_observed_at = None, dp_content_hash = None,
     dp_metadata = (case pv_metadata inp of None \<Rightarrow> [] | Some m \<Rightarrow> m), dp_created_at = env_now e 0\<rparr>"

fun set_source :: "provenance_source \<Rightarrow> directive_provenance \<Rightarrow> directive_provenance" where
  "set_source (src_message i) p = p\<lparr>dp_message_id := Some i\<rparr>"
| "set_source (src_work_order i) p = p\<lparr>dp_work_order_id := Some i\<rparr>"
| "set_source (src_run i) p = p\<lparr>dp_run_id := Some i\<rparr>"
| "set_source (src_authority_decision i) p = p\<lparr>dp_authority_decision_id := Some i\<rparr>"
| "set_source (src_tool_invocation i) p = p\<lparr>dp_tool_invocation_id := Some i\<rparr>"
| "set_source (src_action_receipt i) p = p\<lparr>dp_action_receipt_id := Some i\<rparr>"
| "set_source (src_artifact i) p = p\<lparr>dp_artifact_id := Some i\<rparr>"
| "set_source (src_memory_candidate i) p = p\<lparr>dp_memory_candidate_id := Some i\<rparr>"
| "set_source (src_memory_record i) p = p\<lparr>dp_memory_record_id := Some i\<rparr>"
| "set_source (src_external provider ident locator label observedAt hash) p =
     p\<lparr>dp_provider := Some provider, dp_external_identifier := Some ident, dp_external_locator := locator,
       dp_label := label, dp_observed_at := observedAt, dp_content_hash := hash\<rparr>"

definition provenanceRow :: "env \<Rightarrow> provenance_input \<Rightarrow> directive_provenance" where
  "provenanceRow e inp = set_source (pv_source inp) (blank_provenance e inp)"

definition insertDirectiveProvenanceRow :: "env \<Rightarrow> client \<Rightarrow> provenance_input \<Rightarrow> directive_provenance dtx" where
  "insertDirectiveProvenanceRow e c inp =
     tbind (lift_result (validateSource (pv_source inp))) (\<lambda>_.
     tbind (requireDirective c (pv_directiveId inp) (pv_tenantId inp)) (\<lambda>_.
     tbind (case source_reference (pv_source inp) of
         None \<Rightarrow> treturn ()
       | Some (tbl, i, kind) \<Rightarrow> assertDirectiveReference c tbl i (pv_tenantId inp) kind) (\<lambda>_.
     rethrow persistenceError
       (tbind (insert_directive_provenance (provenanceRow e inp)) (\<lambda>_.
        lift_result (rowToProvenance (provenanceRow e inp)))))))"

definition addDirectiveProvenance :: "env \<Rightarrow> provenance_input \<Rightarrow> directive_provenance dop" where
  "addDirectiveProvenance e inp =
     withTenantTransaction e (pv_tenantId inp) (\<lambda>c. insertDirectiveProvenanceRow e c inp)"

subsection \<open>Revisions\<close>

text \<open>A date is given as a text; the database reads it as an instant. A text it cannot read is not modelled.\<close>

type_synonym written_date = "string \<times> timestamp"

record directive_content =
  dc_title :: string
  dc_body :: "string option"
  dc_whyNow :: "string option"
  dc_priority :: "string option"
  dc_proposedOwnerActorId :: "uuid option"
  dc_dueAt :: "written_date option"
  dc_windowStartAt :: "written_date option"
  dc_windowEndAt :: "written_date option"
  dc_expiresAt :: "written_date option"

definition canonicalDirectiveContent :: "directive_content \<Rightarrow> string" where
  "canonicalDirectiveContent f = json_object
     [(''title'', json_string (dc_title f)),
      (''body'', json_nullable (dc_body f)),
      (''whyNow'', json_nullable (dc_whyNow f)),
      (''priority'', json_nullable (dc_priority f)),
      (''proposedOwnerActorId'', json_nullable (map_option uuid_str (dc_proposedOwnerActorId f))),
      (''dueAt'', json_nullable (map_option fst (dc_dueAt f))),
      (''windowStartAt'', json_nullable (map_option fst (dc_windowStartAt f))),
      (''windowEndAt'', json_nullable (map_option fst (dc_windowEndAt f))),
      (''expiresAt'', json_nullable (map_option fst (dc_expiresAt f)))]"

definition computeDirectiveContentHash :: "env \<Rightarrow> directive_content \<Rightarrow> string" where
  "computeDirectiveContentHash e f = env_sha256 e (canonicalDirectiveContent f)"

record revision_input =
  rv_tenantId :: uuid
  rv_directiveId :: uuid
  rv_content :: directive_content
  rv_changeReason :: "string option"
  rv_createdByActorId :: uuid

definition validateTitle :: "string \<Rightarrow> error + unit" where
  "validateTitle title =
     (if js_trim title = [] then Inl (DirectiveError (InvalidDirectiveInputError ''title must not be empty'')) else Inr ())"

definition mirrorTemporalFields :: "timestamp \<Rightarrow> directive_content \<Rightarrow> operator_directive \<Rightarrow> operator_directive" where
  "mirrorTemporalFields now f x = x\<lparr>od_due_at := map_option snd (dc_dueAt f),
     od_window_start_at := map_option snd (dc_windowStartAt f), od_window_end_at := map_option snd (dc_windowEndAt f),
     od_expires_at := map_option snd (dc_expiresAt f), od_updated_at := now\<rparr>"

definition mirrorTemporalFieldsOntoDirective :: "env \<Rightarrow> uuid \<Rightarrow> uuid \<Rightarrow> directive_content \<Rightarrow> unit dtx" where
  "mirrorTemporalFieldsOntoDirective e tenantId directiveId f =
     update_directive directiveId tenantId (mirrorTemporalFields (env_now e 1) f)"

text \<open>The revisions of one Directive, and \<open>COALESCE(MAX(revision_number), 0)\<close> over them.\<close>

definition revisions_of :: "client \<Rightarrow> uuid \<Rightarrow> uuid \<Rightarrow> db \<Rightarrow> directive_revision list" where
  "revisions_of c tenantId directiveId d =
     filter (\<lambda>r. dr_tenant_id r = tenantId \<and> dr_directive_id r = directiveId)
       (rls_rows c dr_tenant_id (directive_revisions d))"

definition max_revision :: "directive_revision list \<Rightarrow> nat" where
  "max_revision rs = fold max (map dr_revision_number rs) 0"

definition revisionRow :: "env \<Rightarrow> revision_input \<Rightarrow> nat \<Rightarrow> directive_revision" where
  "revisionRow e inp n = (let f = rv_content inp in
     \<lparr>dr_id = env_uuid e 0, dr_tenant_id = rv_tenantId inp, dr_directive_id = rv_directiveId inp,
      dr_revision_number = n, dr_title = dc_title f, dr_body = dc_body f, dr_why_now = dc_whyNow f,
      dr_priority = dc_priority f, dr_proposed_owner_actor_id = dc_proposedOwnerActorId f,
      dr_due_at = map_option snd (dc_dueAt f), dr_window_start_at = map_option snd (dc_windowStartAt f),
      dr_window_end_at = map_option snd (dc_windowEndAt f),
      dr_expires_at = map_option snd (dc_expiresAt f), dr_content_hash = computeDirectiveContentHash e f,
      dr_change_reason = rv_changeReason inp, dr_created_by_actor_id = rv_createdByActorId inp,
      dr_created_at = env_now e 0\<rparr>)"

definition insertDirectiveRevisionRow :: "env \<Rightarrow> client \<Rightarrow> revision_input \<Rightarrow> directive_revision dtx" where
  "insertDirectiveRevisionRow e c inp =
     tbind (lift_result (validateTitle (dc_title (rv_content inp)))) (\<lambda>_.
     tbind (requireDirective c (rv_directiveId inp) (rv_tenantId inp)) (\<lambda>_.
     tbind (assertDirectiveReference c tbl_actors (rv_createdByActorId inp) (rv_tenantId inp) ''createdByActorId'') (\<lambda>_.
     tbind (case dc_proposedOwnerActorId (rv_content inp) of
         None \<Rightarrow> treturn ()
       | Some a \<Rightarrow> assertDirectiveReference c tbl_actors a (rv_tenantId inp) ''proposedOwnerActorId'') (\<lambda>_.
     tbind (query (\<lambda>d. max_revision (revisions_of c (rv_tenantId inp) (rv_directiveId inp) d) + 1)) (\<lambda>n.
     rethrow persistenceError
       (tbind (insert_directive_revision (revisionRow e inp n)) (\<lambda>_.
        tbind (mirrorTemporalFieldsOntoDirective e (rv_tenantId inp) (rv_directiveId inp) (rv_content inp)) (\<lambda>_.
        lift_result (rowToRevision (revisionRow e inp n))))))))))"

definition appendDirectiveRevision :: "env \<Rightarrow> revision_input \<Rightarrow> directive_revision dop" where
  "appendDirectiveRevision e inp =
     withTenantTransaction e (rv_tenantId inp) (\<lambda>c. insertDirectiveRevisionRow e c inp)"

subsection \<open>Transitions\<close>

record transition_directive_input =
  td_tenantId :: uuid
  td_directiveId :: uuid
  td_toState :: directive_state
  td_actorId :: uuid
  td_reason :: string
  td_metadata :: "metadata option"
  td_completionMode :: "directive_completion_mode option"

text \<open>The join of provenance and WorkOrders that counts as evidence of execution.\<close>

definition completion_evidence :: "client \<Rightarrow> uuid \<Rightarrow> uuid \<Rightarrow> db \<Rightarrow> (directive_provenance \<times> work_order) list" where
  "completion_evidence c tenantId directiveId d =
     [(p, w). p \<leftarrow> rls_rows c dp_tenant_id (directive_provenance_rows d),
       w \<leftarrow> rls_rows c wo_tenant_id (work_orders d),
       dp_work_order_id p = Some (wo_id w) \<and> wo_tenant_id w = dp_tenant_id p \<and>
       dp_tenant_id p = tenantId \<and> dp_directive_id p = directiveId \<and> wo_status w = COMPLETED]"

definition assertSystemValidatedCompletionSubstantiated :: "client \<Rightarrow> uuid \<Rightarrow> uuid \<Rightarrow> unit dtx" where
  "assertSystemValidatedCompletionSubstantiated c tenantId directiveId =
     tbind (query (completion_evidence c tenantId directiveId)) (\<lambda>rows.
     ensure (rows \<noteq> []) (DirectiveError (UnsubstantiatedCompletionError directiveId)))"

fun completion_mode_name :: "directive_completion_mode \<Rightarrow> string" where
  "completion_mode_name operator_attested = ''operator_attested''"
| "completion_mode_name system_validated = ''system_validated''"

definition completionMetadata :: "client \<Rightarrow> transition_directive_input \<Rightarrow> metadata dtx" where
  "completionMetadata c inp =
     (let m = (case td_metadata inp of None \<Rightarrow> [] | Some m \<Rightarrow> m) in
      if td_toState inp = D_COMPLETED then
        (case td_completionMode inp of
           None \<Rightarrow> throw (DirectiveError (InvalidDirectiveInputError ''completionMode is required''))
         | Some mode \<Rightarrow>
             tbind (if mode = system_validated
               then assertSystemValidatedCompletionSubstantiated c (td_tenantId inp) (td_directiveId inp)
               else treturn ()) (\<lambda>_.
             treturn (obj_put m ''completionMode'' (JStr (completion_mode_name mode)))))
      else treturn m)"

definition directiveTransitionRow ::
  "env \<Rightarrow> transition_directive_input \<Rightarrow> directive_state \<Rightarrow> metadata \<Rightarrow> directive_transition" where
  "directiveTransitionRow e inp fromState m = \<lparr>dt_id = env_uuid e 0, dt_tenant_id = td_tenantId inp,
     dt_directive_id = td_directiveId inp, dt_from_state = Some fromState, dt_to_state = td_toState inp,
     dt_actor_id = Some (td_actorId inp), dt_transition_type = ''state_change'', dt_reason = td_reason inp,
     dt_metadata = m, dt_created_at = env_now e 0\<rparr>"

definition moveDirective :: "timestamp \<Rightarrow> directive_state \<Rightarrow> operator_directive \<Rightarrow> operator_directive" where
  "moveDirective now s x = stampDirectiveState s now (x\<lparr>od_state := s, od_last_seen_at := now, od_updated_at := now\<rparr>)"

definition applyDirectiveTransition ::
  "env \<Rightarrow> client \<Rightarrow> transition_directive_input \<Rightarrow> (operator_directive \<times> directive_transition) dtx" where
  "applyDirectiveTransition e c inp =
     tbind (requireDirective c (td_directiveId inp) (td_tenantId inp)) (\<lambda>x.
     tbind (assertDirectiveReference c tbl_actors (td_actorId inp) (td_tenantId inp) ''actorId'') (\<lambda>_.
     tbind (lift_result (assertValidDirectiveTransition (td_directiveId inp) (od_state x) (td_toState inp))) (\<lambda>_.
     tbind (completionMetadata c inp) (\<lambda>m.
     rethrow persistenceError
       (tbind (update_directive (td_directiveId inp) (td_tenantId inp) (moveDirective (env_now e 0) (td_toState inp))) (\<lambda>_.
        tbind (insert_directive_transition (directiveTransitionRow e inp (od_state x) m)) (\<lambda>_.
        tbind (lift_result (rowToDirective (moveDirective (env_now e 0) (td_toState inp) x))) (\<lambda>dir.
        tbind (lift_result (rowToTransition (directiveTransitionRow e inp (od_state x) m))) (\<lambda>tr.
        treturn (dir, tr))))))))))"

definition transitionDirective :: "env \<Rightarrow> transition_directive_input \<Rightarrow> (operator_directive \<times> directive_transition) dop" where
  "transitionDirective e inp = withTenantTransaction e (td_tenantId inp) (\<lambda>c. applyDirectiveTransition e c inp)"

subsection \<open>The named verbs\<close>

record directive_verb_input =
  vb_tenantId :: uuid
  vb_directiveId :: uuid
  vb_actorId :: uuid
  vb_reason :: string
  vb_metadata :: "metadata option"

definition verbTransition ::
  "string \<Rightarrow> directive_state \<Rightarrow> directive_completion_mode option \<Rightarrow> directive_verb_input \<Rightarrow> transition_directive_input" where
  "verbTransition verb s mode inp = \<lparr>td_tenantId = vb_tenantId inp, td_directiveId = vb_directiveId inp,
     td_toState = s, td_actorId = vb_actorId inp, td_reason = vb_reason inp,
     td_metadata = Some (obj_put (case vb_metadata inp of None \<Rightarrow> [] | Some m \<Rightarrow> m) ''verb'' (JStr verb)),
     td_completionMode = mode\<rparr>"

definition acceptDirective :: "env \<Rightarrow> directive_verb_input \<Rightarrow> (operator_directive \<times> directive_transition) dop" where
  "acceptDirective e inp = transitionDirective e (verbTransition ''accept'' OPEN None inp)"

definition completeDirective ::
  "env \<Rightarrow> directive_verb_input \<Rightarrow> directive_completion_mode \<Rightarrow> (operator_directive \<times> directive_transition) dop" where
  "completeDirective e inp mode = transitionDirective e (verbTransition ''complete'' D_COMPLETED (Some mode) inp)"

definition deferDirective :: "env \<Rightarrow> directive_verb_input \<Rightarrow> (operator_directive \<times> directive_transition) dop" where
  "deferDirective e inp = transitionDirective e (verbTransition ''defer'' DEFERRED None inp)"

definition dismissDirective :: "env \<Rightarrow> directive_verb_input \<Rightarrow> (operator_directive \<times> directive_transition) dop" where
  "dismissDirective e inp = transitionDirective e (verbTransition ''dismiss'' DISMISSED None inp)"

definition expireDirective :: "env \<Rightarrow> directive_verb_input \<Rightarrow> (operator_directive \<times> directive_transition) dop" where
  "expireDirective e inp = transitionDirective e (verbTransition ''expire'' EXPIRED None inp)"

definition reopenDirective :: "env \<Rightarrow> directive_verb_input \<Rightarrow> (operator_directive \<times> directive_transition) dop" where
  "reopenDirective e inp = transitionDirective e (verbTransition ''reopen'' OPEN None inp)"

subsection \<open>Create or merge\<close>

record create_or_merge_input =
  cm_tenantId :: uuid
  cm_directiveType :: directive_type
  cm_dedupeKey :: string
  cm_issuingActorId :: uuid
  cm_owningActorId :: uuid
  cm_content :: directive_content
  cm_changeReason :: "string option"
  cm_cycleNumber :: "int option"
  cm_provenanceSource :: "provenance_source option"
  cm_provenanceMetadata :: "metadata option"

datatype merge_outcome = mo_created | mo_revised | mo_carried | mo_reopened | mo_suppressed

record create_or_merge_result =
  cmr_outcome :: merge_outcome
  cmr_dedupeKey :: string
  cmr_directive :: "operator_directive option"
  cmr_revision :: "directive_revision option"
  cmr_transition :: "directive_transition option"
  cmr_provenance :: "directive_provenance option"

definition CLOSED_BUT_REOPENABLE_STATES :: "directive_state list" where
  "CLOSED_BUT_REOPENABLE_STATES = [D_COMPLETED, DISMISSED, EXPIRED]"

definition validateMergeInput :: "create_or_merge_input \<Rightarrow> error + unit" where
  "validateMergeInput inp =
     (if js_trim (cm_dedupeKey inp) = []
      then Inl (DirectiveError (InvalidDirectiveInputError ''dedupeKey must not be empty''))
      else validateTitle (dc_title (cm_content inp)))"

definition assertActorExists :: "client \<Rightarrow> uuid \<Rightarrow> uuid \<Rightarrow> string \<Rightarrow> unit dtx" where
  "assertActorExists c tenantId actorId field =
     assertTenantScopedReference c tbl_actors actorId tenantId (DirectiveError (DirectiveActorNotFoundError field actorId))"

definition recordProvenance :: "env \<Rightarrow> client \<Rightarrow> create_or_merge_input \<Rightarrow> uuid \<Rightarrow> directive_provenance option dtx" where
  "recordProvenance e c inp directiveId =
     (case cm_provenanceSource inp of
        None \<Rightarrow> treturn None
      | Some source \<Rightarrow> tbind (insertDirectiveProvenanceRow e c \<lparr>pv_tenantId = cm_tenantId inp,
            pv_directiveId = directiveId, pv_source = source, pv_metadata = cm_provenanceMetadata inp\<rparr>)
          (\<lambda>p. treturn (Some p)))"

definition mergeRevision :: "create_or_merge_input \<Rightarrow> uuid \<Rightarrow> string \<Rightarrow> revision_input" where
  "mergeRevision inp directiveId defaultReason = \<lparr>rv_tenantId = cm_tenantId inp, rv_directiveId = directiveId,
     rv_content = cm_content inp,
     rv_changeReason = Some (case cm_changeReason inp of None \<Rightarrow> defaultReason | Some r \<Rightarrow> r),
     rv_createdByActorId = cm_issuingActorId inp\<rparr>"

definition latestHash :: "client \<Rightarrow> uuid \<Rightarrow> uuid \<Rightarrow> db \<Rightarrow> string option" where
  "latestHash c tenantId directiveId d = map_option dr_content_hash
     (first_row (order_by_desc (\<lambda>r. int (dr_revision_number r)) (revisions_of c tenantId directiveId d)))"

definition refreshedDirective :: "client \<Rightarrow> uuid \<Rightarrow> uuid \<Rightarrow> operator_directive dtx" where
  "refreshedDirective c tenantId directiveId =
     tbind (query (\<lambda>d. first_row (scoped_rows c od_id od_tenant_id directiveId tenantId (operator_directives d)))) (\<lambda>row.
     case row of None \<Rightarrow> throw JsTypeError | Some x \<Rightarrow> lift_result (rowToDirective x))"

definition autoReopen :: "create_or_merge_input \<Rightarrow> uuid \<Rightarrow> transition_directive_input" where
  "autoReopen inp directiveId = \<lparr>td_tenantId = cm_tenantId inp, td_directiveId = directiveId, td_toState = OPEN,
     td_actorId = cm_issuingActorId inp, td_reason = ''Re-detected after closure -- reopened automatically'',
     td_metadata = Some [(''reopenedAutomatically'', JBool True)], td_completionMode = None\<rparr>"

definition touchDirective :: "timestamp \<Rightarrow> operator_directive \<Rightarrow> operator_directive" where
  "touchDirective now x = x\<lparr>od_last_seen_at := now, od_updated_at := now\<rparr>"

definition mergeIntoExistingDirective ::
  "env \<Rightarrow> client \<Rightarrow> create_or_merge_input \<Rightarrow> string \<Rightarrow> operator_directive \<Rightarrow> create_or_merge_result dtx" where
  "mergeIntoExistingDirective e c inp dedupeKey existing =
     tbind (update_directive (od_id existing) (cm_tenantId inp) (touchDirective (env_now e 0))) (\<lambda>_.
     tbind (recordProvenance (env_at 2 e) c inp (od_id existing)) (\<lambda>prov.
     if od_state existing = SUPERSEDED then
       tbind (refreshedDirective c (cm_tenantId inp) (od_id existing)) (\<lambda>x.
       treturn \<lparr>cmr_outcome = mo_carried, cmr_dedupeKey = dedupeKey, cmr_directive = Some x,
         cmr_revision = None, cmr_transition = None, cmr_provenance = prov\<rparr>)
     else
       tbind (query (\<lambda>d. latestHash c (cm_tenantId inp) (od_id existing) d
           \<noteq> Some (computeDirectiveContentHash e (cm_content inp)))) (\<lambda>materialChange.
       tbind (if materialChange
         then tbind (insertDirectiveRevisionRow (env_at 1 e) c
             (mergeRevision inp (od_id existing) ''Re-detected with updated content'')) (\<lambda>r. treturn (Some r))
         else treturn None) (\<lambda>rev.
       if od_state existing \<in> set CLOSED_BUT_REOPENABLE_STATES then
         tbind (applyDirectiveTransition (env_at 3 e) c (autoReopen inp (od_id existing))) (\<lambda>(x, tr).
         treturn \<lparr>cmr_outcome = mo_reopened, cmr_dedupeKey = dedupeKey, cmr_directive = Some x,
           cmr_revision = rev, cmr_transition = Some tr, cmr_provenance = prov\<rparr>)
       else
         tbind (refreshedDirective c (cm_tenantId inp) (od_id existing)) (\<lambda>x.
         treturn \<lparr>cmr_outcome = (if materialChange then mo_revised else mo_carried), cmr_dedupeKey = dedupeKey,
           cmr_directive = Some x, cmr_revision = rev, cmr_transition = None, cmr_provenance = prov\<rparr>)))))"

definition newDirectiveRow :: "env \<Rightarrow> create_or_merge_input \<Rightarrow> string \<Rightarrow> operator_directive" where
  "newDirectiveRow e inp dedupeKey = (let now = env_now e 0; f = cm_content inp in
     \<lparr>od_id = env_uuid e 0, od_tenant_id = cm_tenantId inp, od_directive_type = cm_directiveType inp,
      od_state = PROPOSED, od_dedupe_key = dedupeKey, od_cycle_number = cm_cycleNumber inp,
      od_issuing_actor_id = cm_issuingActorId inp, od_owning_actor_id = cm_owningActorId inp,
      od_first_seen_at = now, od_last_seen_at = now, od_accepted_at = None, od_started_at = None,
      od_completed_at = None, od_deferred_at = None, od_dismissed_at = None,
      od_expires_at = map_option snd (dc_expiresAt f), od_due_at = map_option snd (dc_dueAt f),
      od_window_start_at = map_option snd (dc_windowStartAt f), od_window_end_at = map_option snd (dc_windowEndAt f),
      od_created_at = now, od_updated_at = now\<rparr>)"

definition initialDirectiveTransition :: "env \<Rightarrow> create_or_merge_input \<Rightarrow> directive_transition" where
  "initialDirectiveTransition e inp = \<lparr>dt_id = env_uuid e 1, dt_tenant_id = cm_tenantId inp,
     dt_directive_id = env_uuid e 0, dt_from_state = None, dt_to_state = PROPOSED,
     dt_actor_id = Some (cm_issuingActorId inp), dt_transition_type = ''state_change'',
     dt_reason = ''Directive created'', dt_metadata = [], dt_created_at = env_now e 0\<rparr>"

text \<open>\<open>SELECT * FROM operator_directives WHERE tenant_id = $1 AND dedupe_key = $2\<close>\<close>

definition directive_by_key :: "client \<Rightarrow> uuid \<Rightarrow> string \<Rightarrow> db \<Rightarrow> operator_directive option" where
  "directive_by_key c tenantId dedupeKey d = first_row (filter
     (\<lambda>x. od_tenant_id x = tenantId \<and> od_dedupe_key x = dedupeKey)
     (rls_rows c od_tenant_id (operator_directives d)))"

definition key_suppressed :: "env \<Rightarrow> client \<Rightarrow> uuid \<Rightarrow> string \<Rightarrow> db \<Rightarrow> bool" where
  "key_suppressed e c tenantId dedupeKey d \<longleftrightarrow> filter
     (\<lambda>x. ds_tenant_id x = tenantId \<and> ds_dedupe_key x = dedupeKey \<and> env_db_now e 0 < ds_suppressed_until x)
     (rls_rows c ds_tenant_id (directive_suppressions d)) \<noteq> []"

definition createDirective :: "env \<Rightarrow> client \<Rightarrow> create_or_merge_input \<Rightarrow> string \<Rightarrow> create_or_merge_result dtx" where
  "createDirective e c inp dedupeKey =
     tbind (rethrow persistenceError (insert_or_nothing
         (\<lambda>d. (cm_tenantId inp, dedupeKey) \<in> set (map (\<lambda>x. (od_tenant_id x, od_dedupe_key x)) (operator_directives d)))
         (insert_operator_directive (newDirectiveRow e inp dedupeKey)))) (\<lambda>inserted.
     if \<not> inserted then
       tbind (query (directive_by_key c (cm_tenantId inp) dedupeKey)) (\<lambda>raceRow.
       case raceRow of
         None \<Rightarrow> throw (DirectiveError (DirectivePersistenceError (RaceRowMissing dedupeKey)))
       | Some x \<Rightarrow> mergeIntoExistingDirective e c inp dedupeKey x)
     else
       tbind (insertDirectiveRevisionRow (env_at 1 e) c (mergeRevision inp (env_uuid e 0) ''Initial detection'')) (\<lambda>rev.
       tbind (insert_directive_transition (initialDirectiveTransition e inp)) (\<lambda>_.
       tbind (recordProvenance (env_at 2 e) c inp (env_uuid e 0)) (\<lambda>prov.
       tbind (lift_result (rowToDirective (newDirectiveRow e inp dedupeKey))) (\<lambda>x.
       tbind (lift_result (rowToTransition (initialDirectiveTransition e inp))) (\<lambda>tr.
       treturn \<lparr>cmr_outcome = mo_created, cmr_dedupeKey = dedupeKey, cmr_directive = Some x,
         cmr_revision = Some rev, cmr_transition = Some tr, cmr_provenance = prov\<rparr>))))))"

definition createOrMergeDirective_tx :: "env \<Rightarrow> create_or_merge_input \<Rightarrow> client \<Rightarrow> create_or_merge_result dtx" where
  "createOrMergeDirective_tx e inp c = (let dedupeKey = js_trim (cm_dedupeKey inp) in
     tbind (assertActorExists c (cm_tenantId inp) (cm_issuingActorId inp) ''issuingActorId'') (\<lambda>_.
     tbind (assertActorExists c (cm_tenantId inp) (cm_owningActorId inp) ''owningActorId'') (\<lambda>_.
     tbind (query (directive_by_key c (cm_tenantId inp) dedupeKey)) (\<lambda>existingRow.
     tbind (query (key_suppressed e c (cm_tenantId inp) dedupeKey)) (\<lambda>suppressed.
     if suppressed then
       treturn \<lparr>cmr_outcome = mo_suppressed, cmr_dedupeKey = dedupeKey, cmr_directive = None,
         cmr_revision = None, cmr_transition = None, cmr_provenance = None\<rparr>
     else case existingRow of
       None \<Rightarrow> createDirective e c inp dedupeKey
     | Some x \<Rightarrow> mergeIntoExistingDirective e c inp dedupeKey x)))))"

definition createOrMergeDirective :: "env \<Rightarrow> create_or_merge_input \<Rightarrow> create_or_merge_result dop" where
  "createOrMergeDirective e inp =
     (case validateMergeInput inp of
        Inl err \<Rightarrow> othrow err
      | Inr _ \<Rightarrow> withTenantTransaction e (cm_tenantId inp) (createOrMergeDirective_tx e inp))"

subsection \<open>Suppression\<close>

text \<open>\<open>suppressedUntil\<close> is \<open>None\<close> when the string given is not a date (\<open>NaN\<close>).\<close>

record suppress_input =
  sp_tenantId :: uuid
  sp_dedupeKey :: string
  sp_reason :: string
  sp_suppressedByActorId :: uuid
  sp_suppressedUntil :: "timestamp option"

definition suppressionRow :: "env \<Rightarrow> suppress_input \<Rightarrow> timestamp \<Rightarrow> directive_suppression" where
  "suppressionRow e inp until = \<lparr>ds_id = env_uuid e 0, ds_tenant_id = sp_tenantId inp,
     ds_dedupe_key = js_trim (sp_dedupeKey inp), ds_reason = sp_reason inp,
     ds_suppressed_by_actor_id = sp_suppressedByActorId inp, ds_suppressed_until = until,
     ds_created_at = env_now e 0\<rparr>"

definition suppressDirectiveKey :: "env \<Rightarrow> suppress_input \<Rightarrow> directive_suppression dop" where
  "suppressDirectiveKey e inp =
     (if js_trim (sp_dedupeKey inp) = []
        then othrow (DirectiveError (InvalidDirectiveInputError ''dedupeKey must not be empty''))
      else if js_trim (sp_reason inp) = []
        then othrow (DirectiveError (InvalidDirectiveInputError ''reason must not be empty''))
      else case sp_suppressedUntil inp of
        None \<Rightarrow> othrow (DirectiveError (InvalidDirectiveInputError ''suppressedUntil must be a valid datetime''))
      | Some until \<Rightarrow> withTenantTransaction e (sp_tenantId inp) (\<lambda>c.
          tbind (assertDirectiveReference c tbl_actors (sp_suppressedByActorId inp) (sp_tenantId inp) ''suppressedByActorId'') (\<lambda>_.
          rethrow persistenceError
            (tbind (insert_directive_suppression (suppressionRow e inp until)) (\<lambda>_.
             lift_result (rowToSuppression (suppressionRow e inp until)))))))"

subsection \<open>Reads\<close>

definition collect_rows :: "('r \<Rightarrow> error + 'r) \<Rightarrow> 'r list \<Rightarrow> 'r list dtx" where
  "collect_rows f rows = fold (\<lambda>r m. tbind m (\<lambda>acc. tbind (lift_result (f r)) (\<lambda>x. treturn (acc @ [x])))) rows (treturn [])"

record directive_detail =
  dd_directive :: operator_directive
  dd_latestRevision :: "directive_revision option"
  dd_carryCount :: nat
  dd_deferCount :: nat
  dd_escalationLevel :: nat

definition latestRevision :: "client \<Rightarrow> uuid \<Rightarrow> uuid \<Rightarrow> db \<Rightarrow> directive_revision option" where
  "latestRevision c tenantId directiveId d =
     first_row (order_by_desc (\<lambda>r. int (dr_revision_number r)) (revisions_of c tenantId directiveId d))"

definition provenance_of :: "client \<Rightarrow> uuid \<Rightarrow> uuid \<Rightarrow> db \<Rightarrow> directive_provenance list" where
  "provenance_of c tenantId directiveId d =
     filter (\<lambda>p. dp_tenant_id p = tenantId \<and> dp_directive_id p = directiveId)
       (rls_rows c dp_tenant_id (directive_provenance_rows d))"

definition transitions_of :: "client \<Rightarrow> uuid \<Rightarrow> uuid \<Rightarrow> db \<Rightarrow> directive_transition list" where
  "transitions_of c tenantId directiveId d =
     filter (\<lambda>t. dt_tenant_id t = tenantId \<and> dt_directive_id t = directiveId)
       (rls_rows c dt_tenant_id (directive_transitions d))"

definition defer_count :: "directive_transition list \<Rightarrow> nat" where
  "defer_count ts = length (filter (\<lambda>t. dt_to_state t = DEFERRED) ts)"

definition getDirectiveDetail :: "env \<Rightarrow> uuid \<Rightarrow> uuid \<Rightarrow> directive_detail dop" where
  "getDirectiveDetail e tenantId directiveId = withTenantTransaction e tenantId (\<lambda>c.
     tbind (requireDirective c directiveId tenantId) (\<lambda>row.
     tbind (lift_result (rowToDirective row)) (\<lambda>x.
     tbind (query (latestRevision c tenantId directiveId)) (\<lambda>latest.
     tbind (case latest of None \<Rightarrow> treturn None
       | Some r \<Rightarrow> tbind (lift_result (rowToRevision r)) (\<lambda>y. treturn (Some y))) (\<lambda>rev.
     tbind (query (\<lambda>d. length (provenance_of c tenantId directiveId d))) (\<lambda>carryCount.
     tbind (query (\<lambda>d. defer_count (transitions_of c tenantId directiveId d))) (\<lambda>deferCount.
     treturn \<lparr>dd_directive = x, dd_latestRevision = rev, dd_carryCount = carryCount,
       dd_deferCount = deferCount, dd_escalationLevel = deferCount\<rparr>)))))))"

record directive_history =
  dh_directive :: operator_directive
  dh_revisions :: "directive_revision list"
  dh_transitions :: "directive_transition list"
  dh_provenance :: "directive_provenance list"

definition getDirectiveHistory :: "env \<Rightarrow> uuid \<Rightarrow> uuid \<Rightarrow> directive_history dop" where
  "getDirectiveHistory e tenantId directiveId = withTenantTransaction e tenantId (\<lambda>c.
     tbind (requireDirective c directiveId tenantId) (\<lambda>row.
     tbind (lift_result (rowToDirective row)) (\<lambda>x.
     tbind (query (\<lambda>d. order_by_asc (\<lambda>r. int (dr_revision_number r)) (revisions_of c tenantId directiveId d))) (\<lambda>rs.
     tbind (query (\<lambda>d. order_by_asc dt_created_at (transitions_of c tenantId directiveId d))) (\<lambda>ts.
     tbind (query (\<lambda>d. order_by_asc dp_created_at (provenance_of c tenantId directiveId d))) (\<lambda>ps.
     tbind (collect_rows rowToRevision rs) (\<lambda>rs'.
     tbind (collect_rows rowToTransition ts) (\<lambda>ts'.
     tbind (collect_rows rowToProvenance ps) (\<lambda>ps'.
     treturn \<lparr>dh_directive = x, dh_revisions = rs', dh_transitions = ts', dh_provenance = ps'\<rparr>)))))))))"

record unresolved_candidate = directive_detail +
  uc_dependentWorkOrderCount :: nat

definition isUnresolved :: "timestamp \<Rightarrow> operator_directive \<Rightarrow> bool" where
  "isUnresolved asOf x \<longleftrightarrow>
     od_state x \<notin> {D_COMPLETED, DISMISSED, EXPIRED, SUPERSEDED} \<and>
     (od_directive_type x \<noteq> focus \<or>
      (case od_window_start_at x of
         None \<Rightarrow> False
       | Some s \<Rightarrow> s \<le> asOf \<and> (case od_window_end_at x of None \<Rightarrow> True | Some t \<Rightarrow> asOf \<le> t)))"

definition unresolvedCandidate :: "client \<Rightarrow> uuid \<Rightarrow> db \<Rightarrow> operator_directive \<Rightarrow> error + unresolved_candidate" where
  "unresolvedCandidate c tenantId d row =
     (case rowToDirective row of
        Inl err \<Rightarrow> Inl err
      | Inr x \<Rightarrow> (let n = defer_count (transitions_of c tenantId (od_id x) d); ps = provenance_of c tenantId (od_id x) d in
          Inr \<lparr>dd_directive = x, dd_latestRevision = latestRevision c tenantId (od_id x) d,
            dd_carryCount = length ps, dd_deferCount = n, dd_escalationLevel = n,
            uc_dependentWorkOrderCount = length (remdups (filter (\<lambda>v. v \<noteq> None) (map dp_work_order_id ps)))\<rparr>))"

definition listUnresolvedDirectivesWithClient ::
  "client \<Rightarrow> uuid \<Rightarrow> timestamp \<Rightarrow> unresolved_candidate list dtx" where
  "listUnresolvedDirectivesWithClient c tenantId asOf =
     tbind (query (\<lambda>d. order_by_asc od_first_seen_at
       (filter (\<lambda>x. od_tenant_id x = tenantId \<and> isUnresolved asOf x) (rls_rows c od_tenant_id (operator_directives d))))) (\<lambda>rows.
     tbind (query (\<lambda>d. d)) (\<lambda>d.
     tbind (collect_rows rowToRevision (concat (map (\<lambda>r. case latestRevision c tenantId (od_id r) d of
         None \<Rightarrow> [] | Some v \<Rightarrow> [v]) rows))) (\<lambda>_.
     fold (\<lambda>r m. tbind m (\<lambda>acc. tbind (lift_result (unresolvedCandidate c tenantId d r)) (\<lambda>x. treturn (acc @ [x]))))
       rows (treturn []))))"

definition listUnresolvedDirectives :: "env \<Rightarrow> uuid \<Rightarrow> timestamp \<Rightarrow> unresolved_candidate list dop" where
  "listUnresolvedDirectives e tenantId asOf =
     withTenantTransaction e tenantId (\<lambda>c. listUnresolvedDirectivesWithClient c tenantId asOf)"

end
