(* ===== verification/DirectiveInv.thy ===== *)
theory DirectiveInv
  imports Directives
begin

text \<open>
  The invariant of the Directive tables: one Directive per tenant and dedupe key; the transition rows
  of each form a permitted history ending in its state; its revisions are numbered 1, 2, 3, and so on
  without gaps, there is at least one, and the temporal columns of the Directive mirror the latest.
  First the effect of each transaction-level operation is characterised, then the invariant is shown
  for creation, merge, revision, transition, provenance and suppression.
\<close>

subsection \<open>Effects\<close>

lemma requireDirective_Inr [tx_simps]:
  "requireDirective c i t d = Inr r \<longleftrightarrow>
     (\<exists>x. first_row (scoped_rows c od_id od_tenant_id i t (operator_directives d)) = Some x \<and> r = (x, d))"
  by (auto simp: requireDirective_def tx_simps)

lemma requireDirective_Inl [tx_simps]:
  "requireDirective c i t d = Inl err \<longleftrightarrow>
     scoped_rows c od_id od_tenant_id i t (operator_directives d) = [] \<and> err = DirectiveError (DirectiveNotFoundError i)"
  by (auto simp: requireDirective_def tx_simps)

lemma assertDirectiveReference_Inr [tx_simps]:
  "assertDirectiveReference c tbl i t f d = Inr r \<longleftrightarrow> ref_ids c tbl i t d \<noteq> [] \<and> r = ((), d)"
  by (simp add: assertDirectiveReference_def tx_simps)

lemma update_directive_Inr [tx_simps]:
  "update_directive i t f d = Inr r \<longleftrightarrow> r = ((), d\<lparr>operator_directives :=
     update_where (\<lambda>x. od_id x = i \<and> od_tenant_id x = t) f (operator_directives d)\<rparr>)"
  by (simp add: update_directive_def tx_simps)

lemma refreshedDirective_Inr:
  "refreshedDirective c t i d = Inr (x, d') \<Longrightarrow> d' = d"
  by (auto simp: refreshedDirective_def tx_simps)

lemma set_source_simps [simp]:
  "dp_id (set_source s p) = dp_id p" "dp_tenant_id (set_source s p) = dp_tenant_id p"
  "dp_directive_id (set_source s p) = dp_directive_id p"
  by (cases s; simp)+

lemma provenanceRow_simps [simp]:
  "dp_id (provenanceRow e inp) = env_uuid e 0" "dp_tenant_id (provenanceRow e inp) = pv_tenantId inp"
  "dp_directive_id (provenanceRow e inp) = pv_directiveId inp"
  by (simp_all add: provenanceRow_def blank_provenance_def)

lemma insertProvenance_Inr:
  "insertDirectiveProvenanceRow e c inp d = Inr (p, d') \<Longrightarrow>
   p = provenanceRow e inp \<and> env_uuid e 0 \<notin> dp_id ` set (directive_provenance_rows d) \<and>
   d' = d\<lparr>directive_provenance_rows := directive_provenance_rows d @ [p]\<rparr>"
  by (auto simp: insertDirectiveProvenanceRow_def tx_simps insert_directive_provenance_def rowToProvenance_def
      split: if_splits)

lemma recordProvenance_Inr:
  "recordProvenance e c inp i d = Inr (v, d') \<Longrightarrow>
   (v = None \<and> d' = d) \<or> (\<exists>p. v = Some p \<and> dp_id p = env_uuid e 0 \<and> dp_tenant_id p = cm_tenantId inp \<and>
     dp_directive_id p = i \<and> env_uuid e 0 \<notin> dp_id ` set (directive_provenance_rows d) \<and>
     d' = d\<lparr>directive_provenance_rows := directive_provenance_rows d @ [p]\<rparr>)"
  by (auto simp: recordProvenance_def tx_simps dest!: insertProvenance_Inr)

definition next_revision :: "client \<Rightarrow> revision_input \<Rightarrow> db \<Rightarrow> nat" where
  "next_revision c inp d = max_revision (revisions_of c (rv_tenantId inp) (rv_directiveId inp) d) + 1"

definition after_revision :: "env \<Rightarrow> revision_input \<Rightarrow> nat \<Rightarrow> db \<Rightarrow> db" where
  "after_revision e inp n d = d\<lparr>
     operator_directives := update_where (\<lambda>x. od_id x = rv_directiveId inp \<and> od_tenant_id x = rv_tenantId inp)
       (mirrorTemporalFields (env_now e 1) (rv_content inp)) (operator_directives d),
     directive_revisions := directive_revisions d @ [revisionRow e inp n]\<rparr>"

lemma insertRevision_Inr:
  "insertDirectiveRevisionRow e c inp d = Inr (r, d') \<Longrightarrow>
   r = revisionRow e inp (next_revision c inp d) \<and> d' = after_revision e inp (next_revision c inp d) d \<and>
   env_uuid e 0 \<notin> dr_id ` set (directive_revisions d) \<and>
   (\<exists>x\<in>set (operator_directives d). od_id x = rv_directiveId inp \<and> od_tenant_id x = rv_tenantId inp)"
  by (auto simp: insertDirectiveRevisionRow_def tx_simps insert_directive_revision_def rowToRevision_def
      mirrorTemporalFieldsOntoDirective_def after_revision_def next_revision_def revisionRow_def Let_def
      split: if_splits dest!: scoped_first_row)

definition after_directive_move :: "env \<Rightarrow> transition_directive_input \<Rightarrow> directive_state \<Rightarrow> metadata \<Rightarrow> db \<Rightarrow> db" where
  "after_directive_move e inp s m d = d\<lparr>
     operator_directives := update_where (\<lambda>x. od_id x = td_directiveId inp \<and> od_tenant_id x = td_tenantId inp)
       (moveDirective (env_now e 0) (td_toState inp)) (operator_directives d),
     directive_transitions := directive_transitions d @ [directiveTransitionRow e inp s m]\<rparr>"

lemma completionMetadata_Inr:
  "completionMetadata c inp d = Inr (m, d') \<Longrightarrow>
   d' = d \<and> (td_toState inp = D_COMPLETED \<longrightarrow>
     (\<exists>mode. td_completionMode inp = Some mode \<and> map_of m ''completionMode'' = Some (JStr (completion_mode_name mode)) \<and>
        (mode = system_validated \<longrightarrow> completion_evidence c (td_tenantId inp) (td_directiveId inp) d \<noteq> [])))"
  by (auto simp: completionMetadata_def Let_def tx_simps assertSystemValidatedCompletionSubstantiated_def
      split: if_splits)

lemma applyTransition_Inr:
  assumes "applyDirectiveTransition e c inp d = Inr ((y, tr), d')"
  obtains x m where "x \<in> set (operator_directives d)" "od_id x = td_directiveId inp"
    "od_tenant_id x = td_tenantId inp" "td_toState inp \<in> set (VALID_DIRECTIVE_TRANSITIONS (od_state x))"
    "completionMetadata c inp d = Inr (m, d)" "env_uuid e 0 \<notin> dt_id ` set (directive_transitions d)"
    "y = moveDirective (env_now e 0) (td_toState inp) x" "tr = directiveTransitionRow e inp (od_state x) m"
    "d' = after_directive_move e inp (od_state x) m d"
proof -
  from assms obtain x m d1 where
    x: "first_row (scoped_rows c od_id od_tenant_id (td_directiveId inp) (td_tenantId inp) (operator_directives d)) = Some x"
    and v: "td_toState inp \<in> set (VALID_DIRECTIVE_TRANSITIONS (od_state x))"
    and m: "completionMetadata c inp d = Inr (m, d1)"
    and rest: "env_uuid e 0 \<notin> dt_id ` set (directive_transitions d1)"
      "y = moveDirective (env_now e 0) (td_toState inp) x" "tr = directiveTransitionRow e inp (od_state x) m"
      "d' = after_directive_move e inp (od_state x) m d1"
    by (auto simp: applyDirectiveTransition_def tx_simps dir_life.assert_Inr_iff insert_directive_transition_def
        rowToDirective_def rowToTransition_def after_directive_move_def directiveTransitionRow_def split: if_splits)
  from completionMetadata_Inr [OF m] m have "d1 = d" "completionMetadata c inp d = Inr (m, d)" by auto
  with scoped_first_row [OF x] v rest show thesis by (intro that [of x m]) auto
qed

subsection \<open>The invariant\<close>

definition dir_history :: "db \<Rightarrow> uuid \<Rightarrow> (directive_state option \<times> directive_state) list" where
  "dir_history d i = map (\<lambda>t. (dt_from_state t, dt_to_state t))
     (filter (\<lambda>t. dt_directive_id t = i) (directive_transitions d))"

definition dir_revs :: "db \<Rightarrow> uuid \<Rightarrow> directive_revision list" where
  "dir_revs d i = filter (\<lambda>r. dr_directive_id r = i) (directive_revisions d)"

definition temporal_columns :: "operator_directive \<Rightarrow> timestamp option list" where
  "temporal_columns x = [od_due_at x, od_window_start_at x, od_window_end_at x, od_expires_at x]"

definition revision_temporals :: "directive_revision \<Rightarrow> timestamp option list" where
  "revision_temporals r = [dr_due_at r, dr_window_start_at r, dr_window_end_at r, dr_expires_at r]"

definition dir_consistent :: "db \<Rightarrow> operator_directive \<Rightarrow> bool" where
  "dir_consistent d x \<longleftrightarrow>
     trail VALID_DIRECTIVE_TRANSITIONS PROPOSED (dir_history d (od_id x)) (od_state x) \<and>
     (let rs = dir_revs d (od_id x) in
      rs \<noteq> [] \<and> map dr_revision_number rs = [1..<Suc (length rs)] \<and>
      temporal_columns x = revision_temporals (last rs))"

definition dir_refs_ok :: "db \<Rightarrow> bool" where
  "dir_refs_ok d \<longleftrightarrow>
     (\<forall>t\<in>set (directive_transitions d). (dt_tenant_id t, dt_directive_id t) \<in> (\<lambda>x. (od_tenant_id x, od_id x)) ` set (operator_directives d)) \<and>
     (\<forall>r\<in>set (directive_revisions d). (dr_tenant_id r, dr_directive_id r) \<in> (\<lambda>x. (od_tenant_id x, od_id x)) ` set (operator_directives d))"

definition dir_inv :: "db \<Rightarrow> bool" where
  "dir_inv d \<longleftrightarrow>
     distinct (map od_id (operator_directives d)) \<and>
     distinct (map (\<lambda>x. (od_tenant_id x, od_dedupe_key x)) (operator_directives d)) \<and>
     dir_refs_ok d \<and> (\<forall>x\<in>set (operator_directives d). dir_consistent d x)"

lemma max_revision_numbered:
  "map dr_revision_number rs = [1..<Suc (length rs)] \<Longrightarrow> max_revision rs = length rs"
proof -
  have "fold max [1..<Suc n] (0::nat) = n" for n
    by (induction n) auto
  then show "map dr_revision_number rs = [1..<Suc (length rs)] \<Longrightarrow> max_revision rs = length rs"
    by (simp add: max_revision_def)
qed

lemma revisions_of_own:
  assumes "dir_refs_ok d" "distinct (map od_id (operator_directives d))" "x \<in> set (operator_directives d)"
    "cl_tenant c = od_tenant_id x"
  shows "revisions_of c (od_tenant_id x) (od_id x) d = dir_revs d (od_id x)"
proof -
  have "dr_tenant_id r = od_tenant_id x" if "r \<in> set (directive_revisions d)" "dr_directive_id r = od_id x" for r
    using assms that by (force simp: dir_refs_ok_def distinct_map dest: inj_onD)
  then show ?thesis
    using assms(4) by (auto simp: revisions_of_def dir_revs_def intro!: filter_cong)
qed

lemma dir_unique:
  "dir_inv d \<Longrightarrow> x \<in> set (operator_directives d) \<Longrightarrow> y \<in> set (operator_directives d) \<Longrightarrow>
   od_id x = od_id y \<Longrightarrow> x = y"
  by (auto simp: dir_inv_def distinct_map dest: inj_onD)

lemma dir_consistent_transfer:
  assumes "dir_consistent d x" "od_id x' = od_id x" "od_state x' = od_state x"
    "temporal_columns x' = temporal_columns x"
    "dir_history d' (od_id x) = dir_history d (od_id x)" "dir_revs d' (od_id x) = dir_revs d (od_id x)"
  shows "dir_consistent d' x'"
  using assms by (simp add: dir_consistent_def)

text \<open>
  An update by id and tenant that keeps id, tenant and key keeps the shape of the table; what remains
  is to show each updated row consistent.
\<close>

lemma dir_inv_update:
  assumes "dir_inv d"
    and ods: "operator_directives d' = update_where (\<lambda>x. od_id x = i \<and> od_tenant_id x = t) f (operator_directives d)"
    and keep: "\<And>x. od_id (f x) = od_id x \<and> od_tenant_id (f x) = od_tenant_id x \<and> od_dedupe_key (f x) = od_dedupe_key x"
    and refs: "dir_refs_ok d \<Longrightarrow> (\<lambda>x. (od_tenant_id x, od_id x)) ` set (operator_directives d') =
      (\<lambda>x. (od_tenant_id x, od_id x)) ` set (operator_directives d) \<Longrightarrow> dir_refs_ok d'"
    and target: "\<And>x. x \<in> set (operator_directives d) \<Longrightarrow> od_id x = i \<Longrightarrow> od_tenant_id x = t \<Longrightarrow>
      dir_consistent d x \<Longrightarrow> dir_consistent d' (f x)"
    and other: "\<And>x. x \<in> set (operator_directives d) \<Longrightarrow> \<not> (od_id x = i \<and> od_tenant_id x = t) \<Longrightarrow>
      dir_consistent d x \<Longrightarrow> dir_consistent d' x"
  shows "dir_inv d'"
proof -
  have m: "map od_id (operator_directives d') = map od_id (operator_directives d)"
    "map (\<lambda>x. (od_tenant_id x, od_dedupe_key x)) (operator_directives d') =
       map (\<lambda>x. (od_tenant_id x, od_dedupe_key x)) (operator_directives d)"
    "map (\<lambda>x. (od_tenant_id x, od_id x)) (operator_directives d') =
       map (\<lambda>x. (od_tenant_id x, od_id x)) (operator_directives d)"
    unfolding ods using keep by simp_all
  have "(\<lambda>x. (od_tenant_id x, od_id x)) ` set (operator_directives d') =
      (\<lambda>x. (od_tenant_id x, od_id x)) ` set (operator_directives d)"
    using arg_cong [OF m(3), of set] by simp
  moreover have "dir_consistent d' y" if "y \<in> set (operator_directives d')" for y
    using that assms(1) target other by (auto simp: ods set_update_where dir_inv_def)
  ultimately show ?thesis
    using assms(1) m refs by (simp add: dir_inv_def)
qed

lemma touch_keeps:
  assumes "dir_inv d"
  shows "dir_inv (d\<lparr>operator_directives := update_where (\<lambda>x. od_id x = i \<and> od_tenant_id x = t)
    (touchDirective now) (operator_directives d)\<rparr>)"
  (is "dir_inv ?d")
proof -
  have h: "dir_history ?d j = dir_history d j" "dir_revs ?d j = dir_revs d j" for j
    by (simp_all add: dir_history_def dir_revs_def)
  have k: "temporal_columns (touchDirective now x) = temporal_columns x"
    "od_id (touchDirective now x) = od_id x" "od_state (touchDirective now x) = od_state x" for x
    by (simp_all add: temporal_columns_def touchDirective_def)
  from assms show ?thesis
    by (rule dir_inv_update [where f = "touchDirective now"])
      (simp_all add: h k dir_consistent_def dir_refs_ok_def, simp_all add: touchDirective_def)
qed

lemma moveDirective_simps [simp]:
  "od_id (moveDirective now s x) = od_id x" "od_tenant_id (moveDirective now s x) = od_tenant_id x"
  "od_dedupe_key (moveDirective now s x) = od_dedupe_key x" "od_state (moveDirective now s x) = s"
  "temporal_columns (moveDirective now s x) = temporal_columns x"
  by (simp_all add: moveDirective_def temporal_columns_def)

lemma mirror_simps [simp]:
  "od_id (mirrorTemporalFields now f x) = od_id x" "od_tenant_id (mirrorTemporalFields now f x) = od_tenant_id x"
  "od_dedupe_key (mirrorTemporalFields now f x) = od_dedupe_key x"
  "od_state (mirrorTemporalFields now f x) = od_state x"
  "temporal_columns (mirrorTemporalFields now f x) =
     [map_option snd (dc_dueAt f), map_option snd (dc_windowStartAt f), map_option snd (dc_windowEndAt f), map_option snd (dc_expiresAt f)]"
  by (simp_all add: mirrorTemporalFields_def temporal_columns_def)

lemma revisionRow_simps [simp]:
  "dr_id (revisionRow e inp n) = env_uuid e 0" "dr_tenant_id (revisionRow e inp n) = rv_tenantId inp"
  "dr_directive_id (revisionRow e inp n) = rv_directiveId inp" "dr_revision_number (revisionRow e inp n) = n"
  "dr_content_hash (revisionRow e inp n) = computeDirectiveContentHash e (rv_content inp)"
  "revision_temporals (revisionRow e inp n) = (let f = rv_content inp in
     [map_option snd (dc_dueAt f), map_option snd (dc_windowStartAt f), map_option snd (dc_windowEndAt f), map_option snd (dc_expiresAt f)])"
  by (simp_all add: revisionRow_def revision_temporals_def Let_def)

lemma move_keeps:
  assumes "dir_inv d" "x \<in> set (operator_directives d)" "od_id x = td_directiveId inp"
    "od_tenant_id x = td_tenantId inp" "td_toState inp \<in> set (VALID_DIRECTIVE_TRANSITIONS (od_state x))"
  shows "dir_inv (after_directive_move e inp (od_state x) m d)"
  using assms(1)
proof (rule dir_inv_update)
  let ?d = "after_directive_move e inp (od_state x) m d"
  show "operator_directives ?d = update_where (\<lambda>x. od_id x = td_directiveId inp \<and> od_tenant_id x = td_tenantId inp)
      (moveDirective (env_now e 0) (td_toState inp)) (operator_directives d)"
    by (simp add: after_directive_move_def)
  have h: "dir_history ?d i = dir_history d i @ (if i = td_directiveId inp then [(Some (od_state x), td_toState inp)] else [])" for i
    by (simp add: dir_history_def after_directive_move_def directiveTransitionRow_def)
  have r: "dir_revs ?d i = dir_revs d i" for i
    by (simp add: dir_revs_def after_directive_move_def)
  have same: "y = x" if "y \<in> set (operator_directives d)" "od_id y = td_directiveId inp" for y
    using dir_unique [OF assms(1) that(1) assms(2)] that assms(3) by simp
  show "dir_refs_ok ?d" if "dir_refs_ok d" and k: "(\<lambda>x. (od_tenant_id x, od_id x)) ` set (operator_directives ?d) =
      (\<lambda>x. (od_tenant_id x, od_id x)) ` set (operator_directives d)"
    using that(1) assms(2-4) unfolding dir_refs_ok_def k
    by (force simp: after_directive_move_def directiveTransitionRow_def)
  show "dir_consistent ?d (moveDirective (env_now e 0) (td_toState inp) y)"
    if "y \<in> set (operator_directives d)" "od_id y = td_directiveId inp" "dir_consistent d y" for y
    using same [OF that(1,2)] that assms(5) by (simp add: dir_consistent_def h r trail.move)
  show "dir_consistent ?d y" if "y \<in> set (operator_directives d)"
    "\<not> (od_id y = td_directiveId inp \<and> od_tenant_id y = td_tenantId inp)" "dir_consistent d y" for y
    using that same assms(4) by (auto simp: dir_consistent_def h r)
qed simp

lemma revision_keeps:
  assumes "dir_inv d" "x \<in> set (operator_directives d)" "od_id x = rv_directiveId inp"
    "od_tenant_id x = rv_tenantId inp" "n = Suc (length (dir_revs d (od_id x)))"
  shows "dir_inv (after_revision e inp n d)"
  using assms(1)
proof (rule dir_inv_update)
  let ?d = "after_revision e inp n d"
  show "operator_directives ?d = update_where (\<lambda>x. od_id x = rv_directiveId inp \<and> od_tenant_id x = rv_tenantId inp)
      (mirrorTemporalFields (env_now e 1) (rv_content inp)) (operator_directives d)"
    by (simp add: after_revision_def)
  have h: "dir_history ?d i = dir_history d i" for i
    by (simp add: dir_history_def after_revision_def)
  have r: "dir_revs ?d i = dir_revs d i @ (if i = rv_directiveId inp then [revisionRow e inp n] else [])" for i
    by (simp add: dir_revs_def after_revision_def)
  have same: "y = x" if "y \<in> set (operator_directives d)" "od_id y = rv_directiveId inp" for y
    using dir_unique [OF assms(1) that(1) assms(2)] that assms(3) by simp
  show "dir_refs_ok ?d" if "dir_refs_ok d" and k: "(\<lambda>x. (od_tenant_id x, od_id x)) ` set (operator_directives ?d) =
      (\<lambda>x. (od_tenant_id x, od_id x)) ` set (operator_directives d)"
    using that(1) assms(2-4) unfolding dir_refs_ok_def k by (force simp: after_revision_def)
  show "dir_consistent ?d (mirrorTemporalFields (env_now e 1) (rv_content inp) y)"
    if "y \<in> set (operator_directives d)" "od_id y = rv_directiveId inp" "dir_consistent d y" for y
    using same [OF that(1,2)] that assms(5) unfolding dir_consistent_def Let_def mirror_simps h r
    by (auto simp: Let_def)
  show "dir_consistent ?d y" if "y \<in> set (operator_directives d)"
    "\<not> (od_id y = rv_directiveId inp \<and> od_tenant_id y = rv_tenantId inp)" "dir_consistent d y" for y
    using that same assms(4) by (auto simp: dir_consistent_def h r)
qed simp

subsection \<open>The operations keep it\<close>

definition keeps_dir_inv :: "db \<Rightarrow> db \<Rightarrow> bool" where
  "keeps_dir_inv d d' \<longleftrightarrow> (dir_inv d \<longrightarrow> dir_inv d')"

interpretation dir_keep: db_preorder keeps_dir_inv
  by unfold_locales (auto simp: keeps_dir_inv_def)

definition dir_untouched :: "db \<Rightarrow> db \<Rightarrow> bool" where
  "dir_untouched d d' \<longleftrightarrow> operator_directives d' = operator_directives d \<and>
     directive_transitions d' = directive_transitions d \<and> directive_revisions d' = directive_revisions d"

interpretation dir_frame: db_preorder dir_untouched
  by unfold_locales (auto simp: dir_untouched_def)

lemma dir_inv_untouched: "dir_inv d \<Longrightarrow> dir_untouched d d' \<Longrightarrow> dir_inv d'"
  by (simp add: dir_inv_def dir_untouched_def dir_refs_ok_def dir_consistent_def dir_history_def dir_revs_def)

lemma dir_untouched_keeps: "osteps dir_untouched m \<Longrightarrow> osteps keeps_dir_inv m"
  by (auto simp: osteps_def keeps_dir_inv_def intro: dir_inv_untouched)

lemma provenance_untouched: "steps dir_untouched (insertDirectiveProvenanceRow e c inp)"
  by (auto simp: steps_def dir_untouched_def dest!: insertProvenance_Inr)

lemma recordProvenance_untouched: "steps dir_untouched (recordProvenance e c inp i)"
  by (auto simp: steps_def dir_untouched_def dest!: recordProvenance_Inr)

lemma steps_untouched_keeps: "steps dir_untouched m \<Longrightarrow> steps keeps_dir_inv m"
  unfolding steps_def keeps_dir_inv_def using dir_inv_untouched by blast

lemmas recordProvenance_keeps = steps_untouched_keeps [OF recordProvenance_untouched]

lemma dir_numbered:
  "dir_inv d \<Longrightarrow> x \<in> set (operator_directives d) \<Longrightarrow> max_revision (dir_revs d (od_id x)) = length (dir_revs d (od_id x))"
  unfolding dir_inv_def dir_consistent_def Let_def using max_revision_numbered by blast

lemma insertRevision_keeps:
  assumes "cl_tenant c = rv_tenantId inp"
  shows "steps keeps_dir_inv (insertDirectiveRevisionRow e c inp)"
proof -
  have "dir_inv d'" if "dir_inv d" "insertDirectiveRevisionRow e c inp d = Inr (r, d')" for d r d'
  proof -
    from insertRevision_Inr [OF that(2)] obtain x where
      x: "x \<in> set (operator_directives d)" "od_id x = rv_directiveId inp" "od_tenant_id x = rv_tenantId inp"
      and d': "d' = after_revision e inp (next_revision c inp d) d" by blast
    have "next_revision c inp d = Suc (length (dir_revs d (od_id x)))"
      using dir_numbered [OF that(1) x(1)] that(1) x assms revisions_of_own [of d x c]
      by (simp add: next_revision_def dir_inv_def)
    then show ?thesis unfolding d' by (rule revision_keeps [OF that(1) x])
  qed
  then show ?thesis by (simp add: steps_def keeps_dir_inv_def)
qed

lemma applyTransition_keeps: "steps keeps_dir_inv (applyDirectiveTransition e c inp)"
  by (auto simp: steps_def keeps_dir_inv_def elim!: applyTransition_Inr intro: move_keeps)

lemma update_touch_keeps: "steps keeps_dir_inv (update_directive i t (touchDirective now))"
  by (auto simp: steps_def tx_simps keeps_dir_inv_def intro: touch_keeps)

lemma refreshed_keeps: "steps keeps_dir_inv (refreshedDirective c t i)"
  by (auto simp: steps_def keeps_dir_inv_def dest!: refreshedDirective_Inr)

lemma merge_keeps:
  assumes "cl_tenant c = cm_tenantId inp"
  shows "steps keeps_dir_inv (mergeIntoExistingDirective e c inp k x)"
  unfolding mergeIntoExistingDirective_def split_def
  by (intro dir_keep.steps_rules update_touch_keeps recordProvenance_keeps refreshed_keeps applyTransition_keeps
      insertRevision_keeps) (simp add: assms mergeRevision_def)

text \<open>Creation inserts the row, its first revision and its initial transition before the invariant holds again.\<close>

definition after_directive_create :: "env \<Rightarrow> create_or_merge_input \<Rightarrow> string \<Rightarrow> db \<Rightarrow> db" where
  "after_directive_create e inp k d = d\<lparr>
     operator_directives := operator_directives d @
       [mirrorTemporalFields (env_now e 17) (cm_content inp) (newDirectiveRow e inp k)],
     directive_revisions := directive_revisions d @
       [revisionRow (env_at 1 e) (mergeRevision inp (env_uuid e 0) ''Initial detection'') 1],
     directive_transitions := directive_transitions d @ [initialDirectiveTransition e inp]\<rparr>"

lemma newDirectiveRow_simps [simp]:
  "od_id (newDirectiveRow e inp k) = env_uuid e 0" "od_tenant_id (newDirectiveRow e inp k) = cm_tenantId inp"
  "od_dedupe_key (newDirectiveRow e inp k) = k" "od_state (newDirectiveRow e inp k) = PROPOSED"
  by (simp_all add: newDirectiveRow_def Let_def)

lemma dir_fresh:
  "dir_refs_ok d \<Longrightarrow> i \<notin> od_id ` set (operator_directives d) \<Longrightarrow> dir_history d i = [] \<and> dir_revs d i = []"
  by (force simp: dir_refs_ok_def dir_history_def dir_revs_def filter_empty_conv)

lemma create_keeps_inv:
  assumes "dir_inv d" "env_uuid e 0 \<notin> od_id ` set (operator_directives d)"
    "(cm_tenantId inp, k) \<notin> (\<lambda>x. (od_tenant_id x, od_dedupe_key x)) ` set (operator_directives d)"
  shows "dir_inv (after_directive_create e inp k d)"
proof -
  let ?d = "after_directive_create e inp k d"
  from assms(1) have refs: "dir_refs_ok d" by (simp add: dir_inv_def)
  have h: "dir_history ?d i = dir_history d i @ (if i = env_uuid e 0 then [(None, PROPOSED)] else [])" for i
    by (simp add: dir_history_def after_directive_create_def initialDirectiveTransition_def)
  have r: "dir_revs ?d i = dir_revs d i @ (if i = env_uuid e 0 then
      [revisionRow (env_at 1 e) (mergeRevision inp (env_uuid e 0) ''Initial detection'') 1] else [])" for i
    by (simp add: dir_revs_def after_directive_create_def mergeRevision_def)
  have "dir_consistent ?d (mirrorTemporalFields (env_now e 17) (cm_content inp) (newDirectiveRow e inp k))"
    using dir_fresh [OF refs assms(2)]
    by (simp add: dir_consistent_def h r trail.start Let_def mergeRevision_def)
  moreover have "dir_consistent ?d x" if "x \<in> set (operator_directives d)" for x
    using that assms(1,2) by (force simp: dir_inv_def dir_consistent_def h r)
  ultimately show ?thesis
    using assms by (auto simp: dir_inv_def dir_refs_ok_def after_directive_create_def initialDirectiveTransition_def
        mergeRevision_def)
qed

lemma createDirective_Inr:
  assumes "dir_refs_ok d" "createDirective e c inp k d = Inr (r, d')"
  shows "(\<exists>x. directive_by_key c (cm_tenantId inp) k d = Some x \<and> mergeIntoExistingDirective e c inp k x d = Inr (r, d')) \<or>
    (env_uuid e 0 \<notin> od_id ` set (operator_directives d) \<and>
     (cm_tenantId inp, k) \<notin> (\<lambda>x. (od_tenant_id x, od_dedupe_key x)) ` set (operator_directives d) \<and>
     cmr_outcome r = mo_created \<and>
     (\<exists>prov. recordProvenance (env_at 2 e) c inp (env_uuid e 0) (after_directive_create e inp k d) = Inr (prov, d')))"
proof -
  let ?ins = "d\<lparr>operator_directives := operator_directives d @ [newDirectiveRow e inp k]\<rparr>"
  let ?rv = "mergeRevision inp (env_uuid e 0) ''Initial detection''"
  show ?thesis
  proof (cases "(cm_tenantId inp, k) \<in> (\<lambda>x. (od_tenant_id x, od_dedupe_key x)) ` set (operator_directives d)")
    case True
    with assms(2) show ?thesis by (auto simp: createDirective_def tx_simps)
  next
    case False
    with assms(2) obtain rev d1 d2 prov where fresh: "env_uuid e 0 \<notin> od_id ` set (operator_directives d)"
      and rev: "insertDirectiveRevisionRow (env_at 1 e) c ?rv ?ins = Inr (rev, d1)"
      and tr: "d2 = d1\<lparr>directive_transitions := directive_transitions d1 @ [initialDirectiveTransition e inp]\<rparr>"
      and prov: "recordProvenance (env_at 2 e) c inp (env_uuid e 0) d2 = Inr (prov, d')"
      and r: "cmr_outcome r = mo_created"
      by (auto simp: createDirective_def tx_simps insert_operator_directive_def insert_directive_transition_def)
    have old: "update_where (\<lambda>x. od_id x = env_uuid e 0 \<and> od_tenant_id x = cm_tenantId inp) f (operator_directives d) =
        operator_directives d" for f
      using fresh by (intro update_where_id) (auto simp: image_iff)
    have "revisions_of c (cm_tenantId inp) (env_uuid e 0) ?ins = []"
      using dir_fresh [OF assms(1) fresh]
      by (auto simp: revisions_of_def dir_revs_def filter_empty_conv dest: set_rls_rows)
    then have "next_revision c ?rv ?ins = 1"
      by (simp add: next_revision_def max_revision_def mergeRevision_def)
    with insertRevision_Inr [OF rev] tr old have "d2 = after_directive_create e inp k d"
      by (simp add: after_revision_def after_directive_create_def mergeRevision_def)
    with prov fresh False r show ?thesis by blast
  qed
qed

lemma directive_by_key_SomeD:
  "directive_by_key c t k d = Some x \<Longrightarrow> x \<in> set (operator_directives d) \<and> od_tenant_id x = t \<and> od_dedupe_key x = k"
  by (auto simp: directive_by_key_def dest!: first_row_SomeD set_rls_rows)

lemma createDirective_keeps:
  assumes "cl_tenant c = cm_tenantId inp"
  shows "steps keeps_dir_inv (createDirective e c inp k)"
proof -
  have "dir_inv d'" if inv: "dir_inv d" and cr: "createDirective e c inp k d = Inr (r, d')" for d r d'
  proof -
    from inv have "dir_refs_ok d" by (simp add: dir_inv_def)
    from createDirective_Inr [OF this cr] show ?thesis
    proof (elim disjE exE conjE)
      fix x assume "mergeIntoExistingDirective e c inp k x d = Inr (r, d')"
      with inv stepsD [OF merge_keeps [OF assms]] show ?thesis by (auto simp: keeps_dir_inv_def)
    next
      fix prov
      assume "recordProvenance (env_at 2 e) c inp (env_uuid e 0) (after_directive_create e inp k d) = Inr (prov, d')"
        and "env_uuid e 0 \<notin> od_id ` set (operator_directives d)"
          "(cm_tenantId inp, k) \<notin> (\<lambda>x. (od_tenant_id x, od_dedupe_key x)) ` set (operator_directives d)"
      with inv create_keeps_inv stepsD [OF recordProvenance_keeps] show ?thesis
        by (fastforce simp: keeps_dir_inv_def)
    qed
  qed
  then show ?thesis by (simp add: steps_def keeps_dir_inv_def)
qed

lemma createOrMerge_tx_keeps:
  assumes "cl_tenant c = cm_tenantId inp"
  shows "steps keeps_dir_inv (createOrMergeDirective_tx e inp c)"
  unfolding createOrMergeDirective_tx_def Let_def assertActorExists_def assertTenantScopedReference_def
  using assms by (intro dir_keep.steps_rules createDirective_keeps merge_keeps)

lemma createOrMerge_keeps: "osteps keeps_dir_inv (createOrMergeDirective e inp)"
  unfolding createOrMergeDirective_def
  by (auto split: sum.split intro: dir_keep.osteps_rules dir_keep.osteps_tx createOrMerge_tx_keeps)

lemma transitionDirective_keeps: "osteps keeps_dir_inv (transitionDirective e inp)"
  unfolding transitionDirective_def by (intro dir_keep.osteps_tx applyTransition_keeps)

lemma appendRevision_keeps: "osteps keeps_dir_inv (appendDirectiveRevision e inp)"
  unfolding appendDirectiveRevision_def by (intro dir_keep.osteps_tx insertRevision_keeps)

lemma addProvenance_keeps: "osteps keeps_dir_inv (addDirectiveProvenance e inp)"
  unfolding addDirectiveProvenance_def by (intro dir_keep.osteps_tx steps_untouched_keeps provenance_untouched)

lemma suppress_untouched: "osteps dir_untouched (suppressDirectiveKey e inp)"
  unfolding suppressDirectiveKey_def
  by (intro dir_frame.osteps_rules dir_frame.osteps_tx)
    (auto simp: steps_def tx_simps insert_directive_suppression_def dir_untouched_def)

subsection \<open>Frames\<close>

text \<open>A Directive operation changes only the five Directive tables.\<close>

definition dir_rest :: "db \<Rightarrow> db" where
  "dir_rest d = d\<lparr>operator_directives := [], directive_revisions := [], directive_transitions := [],
     directive_provenance_rows := [], directive_suppressions := []\<rparr>"

definition dir_rel :: "uuid \<Rightarrow> db \<Rightarrow> db \<Rightarrow> bool" where
  "dir_rel t d d' \<longleftrightarrow> dir_rest d' = dir_rest d \<and> tenant_frame t d d'"

interpretation dir_rel: db_preorder "dir_rel t" for t
  by unfold_locales (auto simp: dir_rel_def frame.R_refl intro: frame.R_trans)

lemma dir_rel_insert:
  assumes "steps (tenant_frame t) m" "\<And>d x d'. m d = Inr (x, d') \<Longrightarrow> dir_rest d' = dir_rest d"
  shows "steps (dir_rel t) m"
  using assms by (auto simp: steps_def dir_rel_def)

lemma dir_rel_statements [rel_intros]:
  "od_tenant_id x = t \<Longrightarrow> steps (dir_rel t) (insert_operator_directive x)"
  "dr_tenant_id r = t \<Longrightarrow> steps (dir_rel t) (insert_directive_revision r)"
  "dt_tenant_id m = t \<Longrightarrow> steps (dir_rel t) (insert_directive_transition m)"
  "dp_tenant_id p = t \<Longrightarrow> steps (dir_rel t) (insert_directive_provenance p)"
  "ds_tenant_id y = t \<Longrightarrow> steps (dir_rel t) (insert_directive_suppression y)"
  by (rule dir_rel_insert; (rule rel_intros; assumption)?; auto simp: insert_defs tx_simps dir_rest_def)+

lemma dir_rel_or_nothing [rel_intros]:
  "steps (dir_rel t) ins \<Longrightarrow> steps (dir_rel t) (insert_or_nothing cf ins)"
  by (auto simp: steps_def tx_simps dir_rel.R_refl)

lemma dir_rel_reference [rel_intros]:
  "steps (dir_rel t) (assertTenantScopedReference c tbl i t' e)"
  "steps (dir_rel t) (assertDirectiveReference c tbl i t' f)"
  "steps (dir_rel t) (requireDirective c i t')"
  "steps (dir_rel t) (refreshedDirective c t' i)"
  by (auto simp: steps_def tx_simps dir_rel.R_refl dest!: refreshedDirective_Inr)

lemma dir_rel_update [rel_intros]:
  assumes "\<And>x. od_id (f x) = od_id x \<and> od_tenant_id (f x) = od_tenant_id x"
  shows "steps (dir_rel t) (update_directive i t f)"
proof -
  have "filter (\<lambda>x. od_tenant_id x \<noteq> t) (update_where (\<lambda>x. od_id x = i \<and> od_tenant_id x = t) f xs) =
      filter (\<lambda>x. od_tenant_id x \<noteq> t) xs" for xs
    using assms by (intro filter_update_where_other) auto
  then show ?thesis
    using assms by (auto simp: steps_def tx_simps dir_rel_def dir_rest_def tenant_frame_defs)
qed

lemma dir_rel_case_prod [rel_intros]:
  "(\<And>x y. steps (dir_rel t) (f x y)) \<Longrightarrow> steps (dir_rel t) (case p of (x, y) \<Rightarrow> f x y)"
  by (cases p) auto

lemma touch_tenant: "od_id (touchDirective now x) = od_id x \<and> od_tenant_id (touchDirective now x) = od_tenant_id x"
  by (simp add: touchDirective_def)

lemma insertProvenance_rel [rel_intros]:
  "pv_tenantId inp = t \<Longrightarrow> steps (dir_rel t) (insertDirectiveProvenanceRow e c inp)"
  unfolding insertDirectiveProvenanceRow_def by (intro dir_rel.steps_rules rel_intros) simp_all

lemma insertRevision_rel [rel_intros]:
  "rv_tenantId inp = t \<Longrightarrow> steps (dir_rel t) (insertDirectiveRevisionRow e c inp)"
  unfolding insertDirectiveRevisionRow_def mirrorTemporalFieldsOntoDirective_def
  by (auto intro!: dir_rel.steps_rules rel_intros)

lemma completionMetadata_rel [rel_intros]: "steps (dir_rel t) (completionMetadata c inp)"
  by (auto simp: steps_def dir_rel.R_refl dest!: completionMetadata_Inr)

lemma applyTransition_rel [rel_intros]:
  "td_tenantId inp = t \<Longrightarrow> steps (dir_rel t) (applyDirectiveTransition e c inp)"
  unfolding applyDirectiveTransition_def
  by (auto intro!: dir_rel.steps_rules rel_intros simp: directiveTransitionRow_def)

lemma recordProvenance_rel [rel_intros]:
  "cm_tenantId inp = t \<Longrightarrow> steps (dir_rel t) (recordProvenance e c inp i)"
  unfolding recordProvenance_def by (auto intro!: dir_rel.steps_rules rel_intros)

lemma merge_rel [rel_intros]:
  "cm_tenantId inp = t \<Longrightarrow> steps (dir_rel t) (mergeIntoExistingDirective e c inp k x)"
  unfolding mergeIntoExistingDirective_def
  by (auto intro!: dir_rel.steps_rules rel_intros simp: mergeRevision_def autoReopen_def touch_tenant)

lemma createDirective_rel [rel_intros]:
  "cm_tenantId inp = t \<Longrightarrow> steps (dir_rel t) (createDirective e c inp k)"
  unfolding createDirective_def
  by (auto intro!: dir_rel.steps_rules rel_intros simp: mergeRevision_def initialDirectiveTransition_def)

lemma directive_ops_rel:
  "osteps (dir_rel (cm_tenantId ci)) (createOrMergeDirective e ci)"
  "osteps (dir_rel (td_tenantId ti)) (transitionDirective e ti)"
  "osteps (dir_rel (rv_tenantId ri)) (appendDirectiveRevision e ri)"
  "osteps (dir_rel (pv_tenantId pvi)) (addDirectiveProvenance e pvi)"
  "osteps (dir_rel (sp_tenantId si)) (suppressDirectiveKey e si)"
proof -
  show "osteps (dir_rel (cm_tenantId ci)) (createOrMergeDirective e ci)"
    unfolding createOrMergeDirective_def createOrMergeDirective_tx_def Let_def assertActorExists_def
    by (auto split: sum.split intro!: dir_rel.osteps_rules dir_rel.osteps_tx dir_rel.steps_rules rel_intros)
  show "osteps (dir_rel (td_tenantId ti)) (transitionDirective e ti)"
    "osteps (dir_rel (rv_tenantId ri)) (appendDirectiveRevision e ri)"
    "osteps (dir_rel (pv_tenantId pvi)) (addDirectiveProvenance e pvi)"
    unfolding transitionDirective_def appendDirectiveRevision_def addDirectiveProvenance_def
    by (auto intro!: dir_rel.osteps_tx rel_intros)
  show "osteps (dir_rel (sp_tenantId si)) (suppressDirectiveKey e si)"
    unfolding suppressDirectiveKey_def
    by (auto intro!: dir_rel.osteps_rules dir_rel.osteps_tx dir_rel.steps_rules rel_intros simp: suppressionRow_def)
qed

end
