(* ===== verification/Cognition.thy ===== *)
theory Cognition
  imports Frames Lifecycle
begin

text \<open>
  \<open>src/src/cognition/\<close>: the status graph of a CognitiveRun, its insert-or-fetch creation and its
  transition with the completion gate (a run completes only with a finished model invocation behind
  it). The invariant ties the status to the recorded history and to the evidence, and fixes when the
  two lifecycle timestamps are set.
\<close>

subsection \<open>Status graph\<close>

fun VALID_COGNITIVE_RUN_TRANSITIONS :: "cognitive_run_status \<Rightarrow> cognitive_run_status list" where
  "VALID_COGNITIVE_RUN_TRANSITIONS CR_PENDING = [CR_RUNNING, CR_CANCELLED]"
| "VALID_COGNITIVE_RUN_TRANSITIONS CR_RUNNING = [CR_COMPLETED, CR_FAILED, CR_CANCELLED]"
| "VALID_COGNITIVE_RUN_TRANSITIONS CR_COMPLETED = []"
| "VALID_COGNITIVE_RUN_TRANSITIONS CR_FAILED = []"
| "VALID_COGNITIVE_RUN_TRANSITIONS CR_CANCELLED = []"

definition TERMINAL_COGNITIVE_RUN_STATUSES :: "cognitive_run_status list" where
  "TERMINAL_COGNITIVE_RUN_STATUSES = [CR_COMPLETED, CR_FAILED, CR_CANCELLED]"

definition isTerminalCognitiveRunStatus :: "cognitive_run_status \<Rightarrow> bool" where
  "isTerminalCognitiveRunStatus s \<longleftrightarrow> s \<in> set TERMINAL_COGNITIVE_RUN_STATUSES"

definition isValidCognitiveRunTransition :: "cognitive_run_status \<Rightarrow> cognitive_run_status \<Rightarrow> bool" where
  "isValidCognitiveRunTransition s t \<longleftrightarrow> t \<in> set (VALID_COGNITIVE_RUN_TRANSITIONS s)"

definition assertValidCognitiveRunTransition ::
  "uuid \<Rightarrow> cognitive_run_status \<Rightarrow> cognitive_run_status \<Rightarrow> error + unit" where
  "assertValidCognitiveRunTransition i s t =
     (if isTerminalCognitiveRunStatus s then Inl (CognitionError (TerminalCognitiveRunStateError i s))
      else if \<not> isValidCognitiveRunTransition s t
        then Inl (CognitionError (InvalidCognitiveRunTransitionError i s t))
      else Inr ())"

fun cr_rank :: "cognitive_run_status \<Rightarrow> nat" where
  "cr_rank CR_PENDING = 0"
| "cr_rank CR_RUNNING = 1"
| "cr_rank CR_COMPLETED = 2"
| "cr_rank CR_FAILED = 2"
| "cr_rank CR_CANCELLED = 2"

interpretation cr_life: acyclic_lifecycle VALID_COGNITIVE_RUN_TRANSITIONS isTerminalCognitiveRunStatus
  assertValidCognitiveRunTransition "\<lambda>i s. CognitionError (TerminalCognitiveRunStateError i s)"
  "\<lambda>i s t. CognitionError (InvalidCognitiveRunTransitionError i s t)" cr_rank
proof
  fix s t :: cognitive_run_status and i :: uuid
  show "isTerminalCognitiveRunStatus s \<longleftrightarrow> VALID_COGNITIVE_RUN_TRANSITIONS s = []"
    by (cases s) (simp_all add: isTerminalCognitiveRunStatus_def TERMINAL_COGNITIVE_RUN_STATUSES_def)
  then show "t \<in> set (VALID_COGNITIVE_RUN_TRANSITIONS s) \<Longrightarrow> assertValidCognitiveRunTransition i s t = Inr ()"
    by (auto simp: assertValidCognitiveRunTransition_def isValidCognitiveRunTransition_def)
  show "t \<in> set (VALID_COGNITIVE_RUN_TRANSITIONS s) \<Longrightarrow> cr_rank s < cr_rank t"
    by (cases s) auto
qed (simp_all add: assertValidCognitiveRunTransition_def isValidCognitiveRunTransition_def)

subsection \<open>Creation\<close>

record create_cognitive_run_input =
  cc_tenantId :: uuid
  cc_threadId :: "uuid option"
  cc_messageId :: "uuid option"
  cc_initiatedByActorId :: "uuid option"
  cc_objectiveKind :: string

definition id_or_empty :: "uuid option \<Rightarrow> string" where
  "id_or_empty v = (case v of None \<Rightarrow> '''' | Some i \<Rightarrow> uuid_str i)"

definition cognitiveRunKey :: "create_cognitive_run_input \<Rightarrow> string" where
  "cognitiveRunKey inp = buildIdempotencyKey [uuid_str (cc_tenantId inp), id_or_empty (cc_threadId inp),
     id_or_empty (cc_messageId inp), id_or_empty (cc_initiatedByActorId inp), cc_objectiveKind inp]"

definition rowToCognitiveRun :: "cognitive_run \<Rightarrow> error + cognitive_run" where
  "rowToCognitiveRun r = (if cognitiveRunSchema_ok r then Inr r else Inl (ZodError ''cognitiveRun''))"

definition newCognitiveRunRow :: "env \<Rightarrow> create_cognitive_run_input \<Rightarrow> cognitive_run" where
  "newCognitiveRunRow e inp = \<lparr>cr_id = env_uuid e 0, cr_tenant_id = cc_tenantId inp,
     cr_thread_id = cc_threadId inp, cr_message_id = cc_messageId inp,
     cr_initiated_by_actor_id = cc_initiatedByActorId inp, cr_objective_kind = cc_objectiveKind inp,
     cr_status = CR_PENDING, cr_idempotency_key = cognitiveRunKey inp, cr_started_at = None,
     cr_ended_at = None, cr_created_at = env_now e 0, cr_updated_at = env_now e 0\<rparr>"

definition initialCognitiveRunTransition :: "env \<Rightarrow> create_cognitive_run_input \<Rightarrow> cognitive_run_transition" where
  "initialCognitiveRunTransition e inp = \<lparr>ct_id = env_uuid e 1, ct_tenant_id = cc_tenantId inp,
     ct_cognitive_run_id = env_uuid e 0, ct_from_state = None, ct_to_state = CR_PENDING,
     ct_actor_id = cc_initiatedByActorId inp, ct_reason = ''CognitiveRun created'',
     ct_transition_type = ''state_change'', ct_metadata = [], ct_created_at = env_now e 0\<rparr>"

definition fetchExistingCognitiveRun ::
  "create_cognitive_run_input \<Rightarrow> client \<Rightarrow> (cognitive_run \<times> cognitive_run_transition) dtx" where
  "fetchExistingCognitiveRun inp c =
     tbind (query (\<lambda>d. first_row (filter
       (\<lambda>r. cr_tenant_id r = cc_tenantId inp \<and> cr_idempotency_key r = cognitiveRunKey inp)
       (rls_rows c cr_tenant_id (cognitive_runs d))))) (\<lambda>existing.
     case existing of
       None \<Rightarrow> throw JsTypeError
     | Some row \<Rightarrow>
         tbind (query (\<lambda>d. first_row (order_by_asc ct_created_at (filter
           (\<lambda>t. ct_tenant_id t = cc_tenantId inp \<and> ct_cognitive_run_id t = cr_id row \<and> ct_from_state t = None)
           (rls_rows c ct_tenant_id (cognitive_run_transitions d)))))) (\<lambda>transition.
         tbind (lift_result (rowToCognitiveRun row)) (\<lambda>r.
         case transition of
           None \<Rightarrow> throw JsTypeError
         | Some t \<Rightarrow> treturn (r, t))))"

definition createCognitiveRun_tx ::
  "env \<Rightarrow> create_cognitive_run_input \<Rightarrow> client \<Rightarrow> (cognitive_run \<times> cognitive_run_transition) dtx" where
  "createCognitiveRun_tx e inp c =
     tbind (insert_or_nothing
         (\<lambda>d. (cc_tenantId inp, cognitiveRunKey inp) \<in> set (map (\<lambda>r. (cr_tenant_id r, cr_idempotency_key r)) (cognitive_runs d)))
         (insert_cognitive_run (newCognitiveRunRow e inp))) (\<lambda>inserted.
     if inserted then
       tbind (insert_cognitive_run_transition (initialCognitiveRunTransition e inp)) (\<lambda>_.
       tbind (lift_result (rowToCognitiveRun (newCognitiveRunRow e inp))) (\<lambda>r.
       treturn (r, initialCognitiveRunTransition e inp)))
     else fetchExistingCognitiveRun inp c)"

definition createCognitiveRun :: "env \<Rightarrow> create_cognitive_run_input \<Rightarrow> (cognitive_run \<times> cognitive_run_transition) dop" where
  "createCognitiveRun e inp = withTenantTransaction e (cc_tenantId inp) (createCognitiveRun_tx e inp)"

subsection \<open>Transition\<close>

record transition_cognitive_run_input =
  tc_tenantId :: uuid
  tc_cognitiveRunId :: uuid
  tc_nextStatus :: cognitive_run_status
  tc_actorId :: uuid
  tc_reason :: string
  tc_metadata :: "metadata option"

definition lockCognitiveRun :: "client \<Rightarrow> uuid \<Rightarrow> uuid \<Rightarrow> cognitive_run dtx" where
  "lockCognitiveRun c tenantId cognitiveRunId =
     tbind (query (\<lambda>d. first_row (scoped_rows c cr_id cr_tenant_id cognitiveRunId tenantId (cognitive_runs d)))) (\<lambda>row.
     case row of
       None \<Rightarrow> throw (CognitionError (CognitiveRunNotFoundError cognitiveRunId))
     | Some r \<Rightarrow> treturn r)"

text \<open>The invocations that count as evidence: finished, for this run, of this tenant.\<close>

definition terminal_invocations :: "client \<Rightarrow> uuid \<Rightarrow> uuid \<Rightarrow> db \<Rightarrow> model_invocation list" where
  "terminal_invocations c tenantId cognitiveRunId d = order_by_desc mi_created_at (filter
     (\<lambda>m. mi_tenant_id m = tenantId \<and> mi_cognitive_run_id m = Some cognitiveRunId
        \<and> mi_status m \<in> {SUCCEEDED, INV_FAILED, TIMED_OUT})
     (rls_rows c mi_tenant_id (model_invocations d)))"

definition movedRun :: "env \<Rightarrow> cognitive_run_status \<Rightarrow> cognitive_run \<Rightarrow> cognitive_run" where
  "movedRun e s r = r\<lparr>cr_status := s, cr_updated_at := env_now e 0,
     cr_started_at := (if s = CR_RUNNING then Some (env_now e 0) else cr_started_at r),
     cr_ended_at := (if isTerminalCognitiveRunStatus s then Some (env_now e 0) else cr_ended_at r)\<rparr>"

definition cognitiveRunTransitionRow ::
  "env \<Rightarrow> transition_cognitive_run_input \<Rightarrow> cognitive_run_status \<Rightarrow> cognitive_run_transition" where
  "cognitiveRunTransitionRow e inp currentStatus = \<lparr>ct_id = env_uuid e 0, ct_tenant_id = tc_tenantId inp,
     ct_cognitive_run_id = tc_cognitiveRunId inp, ct_from_state = Some currentStatus,
     ct_to_state = tc_nextStatus inp, ct_actor_id = Some (tc_actorId inp), ct_reason = tc_reason inp,
     ct_transition_type = ''state_change'', ct_metadata = (case tc_metadata inp of None \<Rightarrow> [] | Some m \<Rightarrow> m),
     ct_created_at = env_now e 0\<rparr>"

definition runCognitiveTransition_tx ::
  "env \<Rightarrow> transition_cognitive_run_input \<Rightarrow> bool \<Rightarrow> client \<Rightarrow> (cognitive_run \<times> cognitive_run_transition) dtx" where
  "runCognitiveTransition_tx e inp injectFailureAfterTransitionInsert c =
     tbind (lockCognitiveRun c (tc_tenantId inp) (tc_cognitiveRunId inp)) (\<lambda>r.
     tbind (lift_result (assertValidCognitiveRunTransition (tc_cognitiveRunId inp) (cr_status r) (tc_nextStatus inp))) (\<lambda>_.
     tbind (if tc_nextStatus inp = CR_COMPLETED then
         tbind (query (terminal_invocations c (tc_tenantId inp) (tc_cognitiveRunId inp))) (\<lambda>evidence.
         ensure (evidence \<noteq> []) (CognitionError (CognitiveRunCompletionUnsubstantiatedError (tc_cognitiveRunId inp))))
       else treturn ()) (\<lambda>_.
     tbind (modify (\<lambda>d. d\<lparr>cognitive_runs := update_where
       (\<lambda>x. cr_id x = tc_cognitiveRunId inp \<and> cr_tenant_id x = tc_tenantId inp)
       (movedRun e (tc_nextStatus inp)) (cognitive_runs d)\<rparr>)) (\<lambda>_.
     tbind (insert_cognitive_run_transition (cognitiveRunTransitionRow e inp (cr_status r))) (\<lambda>_.
     tbind (ensure (\<not> injectFailureAfterTransitionInsert)
       (PlainError ''test-only failure injection after transition insert'')) (\<lambda>_.
     treturn (movedRun e (tc_nextStatus inp) r, cognitiveRunTransitionRow e inp (cr_status r))))))))"

definition runCognitiveTransition ::
  "env \<Rightarrow> transition_cognitive_run_input \<Rightarrow> bool \<Rightarrow> (cognitive_run \<times> cognitive_run_transition) dop" where
  "runCognitiveTransition e inp inject =
     withTenantTransaction e (tc_tenantId inp) (runCognitiveTransition_tx e inp inject)"

definition transitionCognitiveRun ::
  "env \<Rightarrow> transition_cognitive_run_input \<Rightarrow> (cognitive_run \<times> cognitive_run_transition) dop" where
  "transitionCognitiveRun e inp = runCognitiveTransition e inp False"

definition transitionCognitiveRunForTest ::
  "string option \<Rightarrow> env \<Rightarrow> transition_cognitive_run_input \<Rightarrow> (cognitive_run \<times> cognitive_run_transition) dop" where
  "transitionCognitiveRunForTest node_env e inp =
     (if node_env \<noteq> Some ''test''
      then othrow (PlainError ''transitionCognitiveRunForTest may only be called with NODE_ENV=test'')
      else runCognitiveTransition e inp True)"

subsection \<open>Effects\<close>

lemma lockCognitiveRun_Inr [tx_simps]:
  "lockCognitiveRun c t i d = Inr r \<longleftrightarrow>
     (\<exists>x. first_row (scoped_rows c cr_id cr_tenant_id i t (cognitive_runs d)) = Some x \<and> r = (x, d))"
  by (auto simp: lockCognitiveRun_def tx_simps)

lemma movedRun_simps [simp]:
  "cr_id (movedRun e s r) = cr_id r" "cr_tenant_id (movedRun e s r) = cr_tenant_id r"
  "cr_status (movedRun e s r) = s"
  by (simp_all add: movedRun_def)

definition after_run_move :: "env \<Rightarrow> transition_cognitive_run_input \<Rightarrow> cognitive_run_status \<Rightarrow> db \<Rightarrow> db" where
  "after_run_move e inp s d = d\<lparr>
     cognitive_runs := update_where (\<lambda>x. cr_id x = tc_cognitiveRunId inp \<and> cr_tenant_id x = tc_tenantId inp)
       (movedRun e (tc_nextStatus inp)) (cognitive_runs d),
     cognitive_run_transitions := cognitive_run_transitions d @ [cognitiveRunTransitionRow e inp s]\<rparr>"

lemma runCognitiveTransition_Inr:
  assumes "runCognitiveTransition_tx e inp inject c d = Inr (res, d')"
  obtains r where "r \<in> set (cognitive_runs d)" "cr_id r = tc_cognitiveRunId inp" "cr_tenant_id r = tc_tenantId inp"
    "tc_nextStatus inp \<in> set (VALID_COGNITIVE_RUN_TRANSITIONS (cr_status r))"
    "tc_nextStatus inp = CR_COMPLETED \<longrightarrow> terminal_invocations c (tc_tenantId inp) (tc_cognitiveRunId inp) d \<noteq> []"
    "env_uuid e 0 \<notin> ct_id ` set (cognitive_run_transitions d)"
    "res = (movedRun e (tc_nextStatus inp) r, cognitiveRunTransitionRow e inp (cr_status r))"
    "d' = after_run_move e inp (cr_status r) d"
  using assms
  by (auto simp: runCognitiveTransition_tx_def tx_simps cr_life.assert_Inr_iff insert_cognitive_run_transition_def
      after_run_move_def cognitiveRunTransitionRow_def split: if_splits dest!: scoped_first_row)

definition after_run_create :: "env \<Rightarrow> create_cognitive_run_input \<Rightarrow> db \<Rightarrow> db" where
  "after_run_create e inp d = d\<lparr>cognitive_runs := cognitive_runs d @ [newCognitiveRunRow e inp],
     cognitive_run_transitions := cognitive_run_transitions d @ [initialCognitiveRunTransition e inp]\<rparr>"

lemma fetchExistingRun_Inr: "fetchExistingCognitiveRun inp c d = Inr (r, d') \<Longrightarrow> d' = d"
  by (auto simp: fetchExistingCognitiveRun_def tx_simps)

lemma createCognitiveRun_Inr:
  "createCognitiveRun_tx e inp c d = Inr (r, d') \<Longrightarrow>
   d' = d \<or> (r = (newCognitiveRunRow e inp, initialCognitiveRunTransition e inp) \<and>
     env_uuid e 0 \<notin> cr_id ` set (cognitive_runs d) \<and> env_uuid e 1 \<notin> ct_id ` set (cognitive_run_transitions d) \<and>
     d' = after_run_create e inp d)"
  by (auto simp: createCognitiveRun_tx_def tx_simps insert_cognitive_run_def insert_cognitive_run_transition_def
      rowToCognitiveRun_def after_run_create_def newCognitiveRunRow_def initialCognitiveRunTransition_def
      split: if_splits dest!: fetchExistingRun_Inr)

end
