(* ===== verification/CognitionInv.thy ===== *)
theory CognitionInv
  imports Cognition
begin

text \<open>
  The invariant of the CognitiveRun tables and the facts its operations satisfy: the recorded history
  of a run is a permitted one ending in its status, a completed run has a finished model invocation,
  \<open>started_at\<close> is set exactly if the run was ever running and \<open>ended_at\<close> exactly if it is terminal.
\<close>

definition cr_history :: "db \<Rightarrow> uuid \<Rightarrow> (cognitive_run_status option \<times> cognitive_run_status) list" where
  "cr_history d i = map (\<lambda>t. (ct_from_state t, ct_to_state t))
     (filter (\<lambda>t. ct_cognitive_run_id t = i) (cognitive_run_transitions d))"

definition has_evidence :: "db \<Rightarrow> cognitive_run \<Rightarrow> bool" where
  "has_evidence d r \<longleftrightarrow> (\<exists>m\<in>set (model_invocations d). mi_tenant_id m = cr_tenant_id r \<and>
     mi_cognitive_run_id m = Some (cr_id r) \<and> mi_status m \<noteq> STARTED)"

definition cr_consistent :: "db \<Rightarrow> cognitive_run \<Rightarrow> bool" where
  "cr_consistent d r \<longleftrightarrow>
     (let h = cr_history d (cr_id r) in
      trail VALID_COGNITIVE_RUN_TRANSITIONS CR_PENDING h (cr_status r) \<and>
      (cr_status r = CR_COMPLETED \<longrightarrow> has_evidence d r) \<and>
      (cr_started_at r \<noteq> None \<longleftrightarrow> CR_RUNNING \<in> snd ` set h) \<and>
      (cr_ended_at r \<noteq> None \<longleftrightarrow> isTerminalCognitiveRunStatus (cr_status r)))"

definition cr_refs_ok :: "db \<Rightarrow> bool" where
  "cr_refs_ok d \<longleftrightarrow> (\<forall>t\<in>set (cognitive_run_transitions d).
     (ct_tenant_id t, ct_cognitive_run_id t) \<in> (\<lambda>r. (cr_tenant_id r, cr_id r)) ` set (cognitive_runs d))"

definition cr_inv :: "db \<Rightarrow> bool" where
  "cr_inv d \<longleftrightarrow> distinct (map cr_id (cognitive_runs d)) \<and> cr_refs_ok d \<and>
     (\<forall>r\<in>set (cognitive_runs d). cr_consistent d r)"

lemma cr_unique:
  "cr_inv d \<Longrightarrow> r \<in> set (cognitive_runs d) \<Longrightarrow> r' \<in> set (cognitive_runs d) \<Longrightarrow> cr_id r = cr_id r' \<Longrightarrow> r = r'"
  by (auto simp: cr_inv_def distinct_map dest: inj_onD)

lemma evidence_from_query:
  "terminal_invocations c t i d \<noteq> [] \<Longrightarrow> cr_id r = i \<Longrightarrow> cr_tenant_id r = t \<Longrightarrow> has_evidence d r"
  by (fastforce simp: terminal_invocations_def has_evidence_def filter_empty_conv dest: set_rls_rows)

lemma cr_move_consistent:
  assumes "cr_consistent d r" "cr_id r = tc_cognitiveRunId inp" "cr_tenant_id r = tc_tenantId inp"
    "tc_nextStatus inp \<in> set (VALID_COGNITIVE_RUN_TRANSITIONS (cr_status r))"
    "tc_nextStatus inp = CR_COMPLETED \<longrightarrow> has_evidence d r"
  shows "cr_consistent (after_run_move e inp (cr_status r) d) (movedRun e (tc_nextStatus inp) r)"
proof -
  let ?d = "after_run_move e inp (cr_status r) d" and ?s = "tc_nextStatus inp"
  have h: "cr_history ?d (cr_id r) = cr_history d (cr_id r) @ [(Some (cr_status r), ?s)]"
    using assms(2) by (simp add: cr_history_def after_run_move_def cognitiveRunTransitionRow_def)
  have ev: "has_evidence ?d (movedRun e ?s r) \<longleftrightarrow> has_evidence d r"
    by (simp add: has_evidence_def after_run_move_def)
  have nt: "\<not> isTerminalCognitiveRunStatus (cr_status r)"
    using assms(4) by (auto simp: cr_life.terminal_iff)
  have times: "cr_started_at (movedRun e ?s r) \<noteq> None \<longleftrightarrow> cr_started_at r \<noteq> None \<or> ?s = CR_RUNNING"
    "cr_ended_at (movedRun e ?s r) \<noteq> None \<longleftrightarrow> cr_ended_at r \<noteq> None \<or> isTerminalCognitiveRunStatus ?s"
    by (auto simp: movedRun_def)
  have "trail VALID_COGNITIVE_RUN_TRANSITIONS CR_PENDING (cr_history d (cr_id r) @ [(Some (cr_status r), ?s)]) ?s"
    using assms(1,4) by (auto simp: cr_consistent_def Let_def intro: trail.move)
  then show ?thesis
    using assms(1,5) nt unfolding cr_consistent_def Let_def movedRun_simps h ev times by auto
qed

lemma cr_other_consistent:
  assumes "cr_consistent d r" "cr_id r \<noteq> tc_cognitiveRunId inp"
  shows "cr_consistent (after_run_move e inp s d) r"
  using assms
  by (simp add: cr_consistent_def Let_def cr_history_def has_evidence_def after_run_move_def cognitiveRunTransitionRow_def)

lemma cr_inv_move:
  assumes inv: "cr_inv d" and r: "r \<in> set (cognitive_runs d)" "cr_id r = tc_cognitiveRunId inp"
    "cr_tenant_id r = tc_tenantId inp" "tc_nextStatus inp \<in> set (VALID_COGNITIVE_RUN_TRANSITIONS (cr_status r))"
    "tc_nextStatus inp = CR_COMPLETED \<longrightarrow> has_evidence d r"
  shows "cr_inv (after_run_move e inp (cr_status r) d)"
proof -
  let ?d = "after_run_move e inp (cr_status r) d"
  have m: "map cr_id (cognitive_runs ?d) = map cr_id (cognitive_runs d)"
    "map (\<lambda>r. (cr_tenant_id r, cr_id r)) (cognitive_runs ?d) = map (\<lambda>r. (cr_tenant_id r, cr_id r)) (cognitive_runs d)"
    by (simp_all add: after_run_move_def)
  have k: "(\<lambda>r. (cr_tenant_id r, cr_id r)) ` set (cognitive_runs ?d) = (\<lambda>r. (cr_tenant_id r, cr_id r)) ` set (cognitive_runs d)"
    using arg_cong [OF m(2), of set] by simp
  have refs: "cr_refs_ok ?d"
    using inv r(1-3) unfolding cr_inv_def cr_refs_ok_def k
    by (force simp: after_run_move_def cognitiveRunTransitionRow_def)
  have "cr_consistent ?d x" if x: "x \<in> set (cognitive_runs ?d)" for x
  proof -
    from x obtain y where y: "y \<in> set (cognitive_runs d)" "x = (if cr_id y = tc_cognitiveRunId inp \<and>
        cr_tenant_id y = tc_tenantId inp then movedRun e (tc_nextStatus inp) y else y)"
      by (auto simp: after_run_move_def set_update_where)
    show ?thesis
    proof (cases "cr_id y = tc_cognitiveRunId inp")
      case True
      with y r inv cr_unique [OF inv y(1) r(1)] show ?thesis
        by (auto simp: cr_inv_def intro: cr_move_consistent)
    next
      case False
      with y inv show ?thesis by (auto simp: cr_inv_def intro: cr_other_consistent)
    qed
  qed
  with m refs inv show ?thesis by (simp add: cr_inv_def)
qed

lemma cr_inv_create:
  assumes "cr_inv d" "env_uuid e 0 \<notin> cr_id ` set (cognitive_runs d)"
  shows "cr_inv (after_run_create e inp d)"
proof -
  let ?d = "after_run_create e inp d"
  have h: "cr_history ?d i = cr_history d i @ (if i = env_uuid e 0 then [(None, CR_PENDING)] else [])" for i
    by (simp add: cr_history_def after_run_create_def initialCognitiveRunTransition_def)
  have ev: "has_evidence ?d x \<longleftrightarrow> has_evidence d x" for x by (simp add: has_evidence_def after_run_create_def)
  have "cr_history d (env_uuid e 0) = []"
    using assms by (force simp: cr_inv_def cr_refs_ok_def cr_history_def filter_empty_conv)
  then have "cr_consistent ?d (newCognitiveRunRow e inp)"
    by (simp add: cr_consistent_def h ev newCognitiveRunRow_def trail.start isTerminalCognitiveRunStatus_def
        TERMINAL_COGNITIVE_RUN_STATUSES_def)
  moreover have "cr_consistent ?d x" if "x \<in> set (cognitive_runs d)" for x
  proof -
    from that assms have "cr_id x \<noteq> env_uuid e 0" by (metis imageI)
    moreover from that assms have "cr_consistent d x" by (simp add: cr_inv_def)
    ultimately show ?thesis by (simp add: cr_consistent_def h ev)
  qed
  ultimately show ?thesis
    using assms
    by (auto simp: cr_inv_def cr_refs_ok_def after_run_create_def initialCognitiveRunTransition_def newCognitiveRunRow_def)
qed

subsection \<open>Preservation and frames\<close>

definition keeps_cr_inv :: "db \<Rightarrow> db \<Rightarrow> bool" where
  "keeps_cr_inv d d' \<longleftrightarrow> (cr_inv d \<longrightarrow> cr_inv d')"

interpretation cr_keep: db_preorder keeps_cr_inv
  by unfold_locales (auto simp: keeps_cr_inv_def)

definition cr_untouched :: "db \<Rightarrow> db \<Rightarrow> bool" where
  "cr_untouched d d' \<longleftrightarrow> cognitive_runs d' = cognitive_runs d \<and>
     cognitive_run_transitions d' = cognitive_run_transitions d \<and>
     (\<forall>m\<in>set (model_invocations d). mi_status m \<noteq> STARTED \<longrightarrow> m \<in> set (model_invocations d'))"

lemma has_evidence_untouched: "cr_untouched d d' \<Longrightarrow> has_evidence d r \<Longrightarrow> has_evidence d' r"
  by (fastforce simp: cr_untouched_def has_evidence_def)

lemma cr_inv_untouched: "cr_inv d \<Longrightarrow> cr_untouched d d' \<Longrightarrow> cr_inv d'"
  using has_evidence_untouched
  by (auto simp: cr_inv_def cr_refs_ok_def cr_consistent_def cr_history_def Let_def cr_untouched_def)

lemma createCognitiveRun_keeps: "osteps keeps_cr_inv (createCognitiveRun e inp)"
  unfolding createCognitiveRun_def
  by (rule cr_keep.osteps_tx)
    (auto simp: steps_def keeps_cr_inv_def dest!: createCognitiveRun_Inr intro: cr_inv_create)

lemma runCognitiveTransition_keeps: "osteps keeps_cr_inv (runCognitiveTransition e inp inject)"
  unfolding runCognitiveTransition_def
  by (rule cr_keep.osteps_tx)
    (auto simp: steps_def keeps_cr_inv_def elim!: runCognitiveTransition_Inr
      intro!: cr_inv_move dest: evidence_from_query)

text \<open>A CognitiveRun operation changes only the two CognitiveRun tables.\<close>

definition cr_rest :: "db \<Rightarrow> db" where
  "cr_rest d = d\<lparr>cognitive_runs := [], cognitive_run_transitions := []\<rparr>"

definition cr_rel :: "uuid \<Rightarrow> db \<Rightarrow> db \<Rightarrow> bool" where
  "cr_rel t d d' \<longleftrightarrow> cr_rest d' = cr_rest d \<and> tenant_frame t d d'"

interpretation cr_rel: db_preorder "cr_rel t" for t
  by unfold_locales (auto simp: cr_rel_def frame.R_refl intro: frame.R_trans)

lemma cr_rel_move:
  assumes "env_uuid e 0 \<notin> ct_id ` set (cognitive_run_transitions d)"
  shows "cr_rel (tc_tenantId inp) d (after_run_move e inp s d)"
proof -
  have "filter (\<lambda>x. cr_tenant_id x \<noteq> tc_tenantId inp) (update_where
      (\<lambda>x. cr_id x = tc_cognitiveRunId inp \<and> cr_tenant_id x = tc_tenantId inp) (movedRun e st) xs) =
      filter (\<lambda>x. cr_tenant_id x \<noteq> tc_tenantId inp) xs" for st xs
    by (intro filter_update_where_other) auto
  with assms show ?thesis
    by (auto simp: cr_rel_def cr_rest_def tenant_frame_defs after_run_move_def cognitiveRunTransitionRow_def)
qed

lemma cognition_ops_rel:
  "osteps (cr_rel (cc_tenantId ci)) (createCognitiveRun e ci)"
  "osteps (cr_rel (tc_tenantId ti)) (runCognitiveTransition e ti inject)"
proof -
  have "cr_rel (cc_tenantId ci) d (after_run_create e ci d)"
    if "env_uuid e 0 \<notin> cr_id ` set (cognitive_runs d)" "env_uuid e 1 \<notin> ct_id ` set (cognitive_run_transitions d)" for d
    using that by (auto simp: cr_rel_def cr_rest_def tenant_frame_defs after_run_create_def newCognitiveRunRow_def
        initialCognitiveRunTransition_def)
  then show "osteps (cr_rel (cc_tenantId ci)) (createCognitiveRun e ci)"
    unfolding createCognitiveRun_def
    by (intro cr_rel.osteps_tx) (auto simp: steps_def cr_rel.R_refl dest!: createCognitiveRun_Inr)
  show "osteps (cr_rel (tc_tenantId ti)) (runCognitiveTransition e ti inject)"
    unfolding runCognitiveTransition_def
    by (intro cr_rel.osteps_tx) (auto simp: steps_def cr_rel_move elim!: runCognitiveTransition_Inr)
qed

subsection \<open>Keys\<close>

lemma key_colon_free_inject:
  assumes "CHR '':'' \<notin> set x" "CHR '':'' \<notin> set y" "xs \<noteq> []" "ys \<noteq> []"
  shows "buildIdempotencyKey (x # xs) = buildIdempotencyKey (y # ys) \<longleftrightarrow>
    x = y \<and> buildIdempotencyKey xs = buildIdempotencyKey ys"
proof
  let ?P = "\<lambda>c. c \<noteq> CHR '':''"
  assume eq: "buildIdempotencyKey (x # xs) = buildIdempotencyKey (y # ys)"
  have "takeWhile ?P (buildIdempotencyKey (u # us)) = u" if "CHR '':'' \<notin> set u" "us \<noteq> []" for u us
    using that by (auto simp: buildIdempotencyKey_def join_Cons takeWhile_append takeWhile_eq_all_conv)
  with eq assms have "x = y" by metis
  with eq assms show "x = y \<and> buildIdempotencyKey xs = buildIdempotencyKey ys" by simp
qed (use assms in \<open>simp add: buildIdempotencyKey_def join_Cons\<close>)

lemma id_or_empty_simps [simp]:
  "CHR '':'' \<notin> set (id_or_empty v)" "id_or_empty v = id_or_empty w \<longleftrightarrow> v = w"
proof -
  show "CHR '':'' \<notin> set (id_or_empty v)"
    using uuid_str_colon_free by (cases v) (auto simp: id_or_empty_def)
  have "uuid_str i \<noteq> []" "[] \<noteq> uuid_str i" for i by (metis length_uuid_str list.size(3) zero_neq_numeral)+
  then show "id_or_empty v = id_or_empty w \<longleftrightarrow> v = w"
    by (cases v; cases w) (auto simp: id_or_empty_def)
qed

text \<open>
  The idempotency key of a cognitive run identifies the request exactly: two requests share a key
  if and only if tenant, thread, message, initiating actor (each possibly absent) and objective kind
  are the same.
\<close>

theorem cognitiveRunKey_identifies:
  "cognitiveRunKey inp = cognitiveRunKey inp' \<longleftrightarrow>
     cc_tenantId inp = cc_tenantId inp' \<and> cc_threadId inp = cc_threadId inp' \<and>
     cc_messageId inp = cc_messageId inp' \<and> cc_initiatedByActorId inp = cc_initiatedByActorId inp' \<and>
     cc_objectiveKind inp = cc_objectiveKind inp'"
  by (simp add: cognitiveRunKey_def key_colon_free_inject)

end
