(* ===== verification/Vectors.thy ===== *)
theory Vectors
  imports Errors Text
begin

text \<open>
  \<open>src/src/elora/memory/vectorSerialization.ts\<close>: the text form of a pgvector column. A JavaScript number
  is finite or not. A finite one is taken by the rational it denotes: \<open>is_double\<close> says which rationals
  those are (the binary64 values; \<open>-0\<close> and \<open>0\<close> are the same here), and the code modelled does no
  arithmetic on them that would round. How a number is printed (\<open>String(x)\<close>) and what a text denotes
  (\<open>Number(s)\<close>) is the ECMAScript number format, passed in as \<open>nf\<close>. \<open>number_format_ok\<close> is what the
  language specification guarantees of every finite number: the printed form is not empty, has neither comma nor
  white space, and reads back as the number.
\<close>

datatype js_number = Finite rat | NotFinite

record number_format =
  nf_string :: "rat \<Rightarrow> string"
  nf_number :: "string \<Rightarrow> js_number"

text \<open>\<open>m * 2^(k - 1074)\<close> with \<open>\<bar>m\<bar> < 2^53\<close> and an exponent from \<open>-1074\<close> to \<open>971\<close>\<close>

definition is_double :: "rat \<Rightarrow> bool" where
  "is_double x \<longleftrightarrow> (\<exists>k<2046. let m = x * 2 ^ 1074 / 2 ^ k in of_int \<lfloor>m\<rfloor> = m \<and> \<bar>m\<bar> < 2 ^ 53)"

definition number_format_ok :: "number_format \<Rightarrow> bool" where
  "number_format_ok nf \<longleftrightarrow> (\<forall>x. is_double x \<longrightarrow> nf_number nf (nf_string nf x) = Finite x \<and> nf_string nf x \<noteq> [] \<and>
     CHR '','' \<notin> set (nf_string nf x) \<and> list_all (\<lambda>c. \<not> is_ws c) (nf_string nf x))"

text \<open>\<open>s.split(c)\<close> for a one-character separator\<close>

fun split_char :: "char \<Rightarrow> string \<Rightarrow> string list" where
  "split_char c [] = [[]]"
| "split_char c (x # xs) =
     (if x = c then [] # split_char c xs
      else case split_char c xs of [] \<Rightarrow> [[x]] | p # ps \<Rightarrow> (x # p) # ps)"

definition serializeVector :: "number_format \<Rightarrow> js_number list \<Rightarrow> error + string" where
  "serializeVector nf vector =
     (if vector = [] then Inl (PlainError ''serializeVector: vector must not be empty'')
      else if NotFinite \<in> set vector then Inl (PlainError ''serializeVector: vector contains a non-finite value'')
      else Inr (''['' @ join '','' (map (\<lambda>v. case v of Finite x \<Rightarrow> nf_string nf x | NotFinite \<Rightarrow> []) vector) @ '']''))"

fun parseComponents :: "number_format \<Rightarrow> string list \<Rightarrow> error + js_number list" where
  "parseComponents nf [] = Inr []"
| "parseComponents nf (rawPart # rest) =
     (let part = js_trim rawPart in
      if part = [] then Inl (PlainError ''parseVector: malformed vector text (empty component)'')
      else case nf_number nf part of
        NotFinite \<Rightarrow> Inl (PlainError ''parseVector: malformed or non-finite value in vector text'')
      | Finite x \<Rightarrow> (case parseComponents nf rest of Inl e \<Rightarrow> Inl e | Inr xs \<Rightarrow> Inr (Finite x # xs)))"

definition parseVector :: "number_format \<Rightarrow> string \<Rightarrow> error + js_number list" where
  "parseVector nf value =
     (let trimmed = js_trim value in
      if \<not> (take 1 trimmed = ''['' \<and> drop (length trimmed - 1) trimmed = '']'')
        then Inl (PlainError ''parseVector: malformed vector text (missing brackets)'')
      else let inner = butlast (drop 1 trimmed) in
        if inner = [] then Inl (PlainError ''parseVector: vector must not be empty'')
        else parseComponents nf (split_char CHR '','' inner))"

subsection \<open>Round trip\<close>

lemma split_char_not_Nil [simp]: "split_char c s \<noteq> []"
  by (induction s) (auto split: list.splits)

lemma split_char_free: "c \<notin> set s \<Longrightarrow> split_char c s = [s]"
  by (induction s) auto

lemma split_char_append: "c \<notin> set p \<Longrightarrow> split_char c (p @ c # s) = p # split_char c s"
  by (induction p) auto

lemma split_char_join:
  "ps \<noteq> [] \<Longrightarrow> list_all (\<lambda>p. c \<notin> set p) ps \<Longrightarrow> split_char c (join [c] ps) = ps"
proof (induction ps)
  case (Cons p ps)
  then show ?case by (cases "ps = []") (simp_all add: split_char_free join_Cons split_char_append)
qed simp

lemma js_trim_id:
  assumes "s \<noteq> []" "\<not> is_ws (hd s)" "\<not> is_ws (last s)"
  shows "js_trim s = s"
proof -
  have "dropWhile is_ws s = s" using assms(1,2) by (cases s) auto
  moreover have "dropWhile is_ws (rev s) = rev s" using assms(1,3) by (cases s rule: rev_cases) auto
  ultimately show ?thesis by (simp add: js_trim_def)
qed

lemma parseComponents_printed:
  assumes "number_format_ok nf" "list_all is_double xs"
  shows "parseComponents nf (map (nf_string nf) xs) = Inr (map Finite xs)"
  using assms(2)
proof (induction xs)
  case (Cons x xs)
  then have x: "nf_number nf (nf_string nf x) = Finite x" "nf_string nf x \<noteq> []" "list_all (\<lambda>c. \<not> is_ws c) (nf_string nf x)"
    using assms(1) by (simp_all add: number_format_ok_def)
  then have "js_trim (nf_string nf x) = nf_string nf x"
    by (intro js_trim_id) (auto simp: list_all_iff dest: hd_in_set last_in_set)
  with x Cons show ?case by simp
qed simp

lemma finite_values: "NotFinite \<notin> set v \<Longrightarrow> \<exists>xs. v = map Finite xs"
proof (induction v)
  case (Cons y v)
  then obtain xs where "v = map Finite xs" by auto
  with Cons.prems show ?case by (cases y) (auto intro: exI [of _ "_ # xs"])
qed simp

lemma brackets_not_ws: "\<not> is_ws CHR ''[''" "\<not> is_ws CHR '']''"
  by (simp_all add: is_ws_def)

lemma js_trim_pad:
  assumes "s \<noteq> []" "\<not> is_ws (hd s)" "\<not> is_ws (last s)" "list_all is_ws p" "list_all is_ws q"
  shows "js_trim (p @ s @ q) = s"
proof -
  have drop: "dropWhile is_ws (us @ vs) = dropWhile is_ws vs" if "list_all is_ws us" for us vs
    using that by (induction us) auto
  have "list_all is_ws (rev q)" using assms(5) by (simp add: list_all_iff)
  moreover have "dropWhile is_ws (s @ q) = s @ q" using assms(1,2) by (cases s) auto
  ultimately have "js_trim (p @ s @ q) = rev (dropWhile is_ws (rev s))"
    using assms(4) by (simp add: js_trim_def drop)
  also have "\<dots> = s" using assms(1,3) by (cases s rule: rev_cases) auto
  finally show ?thesis .
qed

text \<open>
  C28. Round trip of embeddings. Of any numbers of the language, what \<open>serializeVector\<close> writes, \<open>parseVector\<close>
  reads back as the same numbers, also with white space around it; and \<open>serializeVector\<close> refuses exactly the empty
  vectors and those with a non-finite component. The first hypothesis is the guarantee of the ECMAScript number
  format, the second says that the components are numbers of the language, that is binary64 values.
\<close>

theorem vector_roundtrip:
  assumes "number_format_ok nf" "\<forall>x. Finite x \<in> set v \<longrightarrow> is_double x" "list_all is_ws p" "list_all is_ws q"
  shows "((\<exists>text. serializeVector nf v = Inr text) \<longleftrightarrow> v \<noteq> [] \<and> NotFinite \<notin> set v) \<and>
    (\<forall>text. serializeVector nf v = Inr text \<longrightarrow> parseVector nf (p @ text @ q) = Inr v)"
proof (cases "v = [] \<or> NotFinite \<in> set v")
  case True
  then show ?thesis by (auto simp: serializeVector_def)
next
  case False
  then obtain xs where v: "v = map Finite xs" "xs \<noteq> []" using finite_values by fastforce
  with assms(2) have doubles: "list_all is_double xs" by (auto simp: list_all_iff)
  let ?text = "''['' @ join '','' (map (nf_string nf) xs) @ '']''"
  have ser: "serializeVector nf v = Inr ?text"
    using v by (auto simp: serializeVector_def o_def)
  have "js_trim (p @ ?text @ q) = ?text"
    using assms(3,4) by (intro js_trim_pad) (simp_all add: brackets_not_ws)
  moreover have "join '','' (map (nf_string nf) xs) \<noteq> []"
    using v(2) assms(1) doubles by (cases xs; cases "tl xs") (auto simp: number_format_ok_def join_Cons)
  moreover have "split_char CHR '','' (join '','' (map (nf_string nf) xs)) = map (nf_string nf) xs"
    using v(2) assms(1) doubles by (intro split_char_join) (auto simp: number_format_ok_def list_all_iff)
  ultimately have "parseVector nf (p @ ?text @ q) = Inr (map Finite xs)"
    by (simp add: parseVector_def Let_def parseComponents_printed [OF assms(1) doubles])
  with ser v False show ?thesis by simp
qed

text \<open>
  A format that fulfils the guarantee: it prints the decimal expansion of a double, which is finite, as the literal
  \<open>[-]<digits>e-1074\<close>, where the language prints the shortest literal; and it reads a literal of a sign, digits and
  a negative exponent as the rational it denotes, where the language would round to the nearest double.
\<close>

definition digits_value :: "string \<Rightarrow> nat" where
  "digits_value s = foldl (\<lambda>a c. 10 * a + (of_char c - 48)) 0 s"

lemma digits_value_nat_digits: "digits_value (nat_digits n) = n"
proof (induction n rule: nat_digits.induct)
  case (1 n)
  show ?case
  proof (cases "n < 10")
    case True
    then show ?thesis by (simp add: digits_value_def nat_digits_eval)
  next
    case False
    with 1 have "digits_value (nat_digits (n div 10)) = n div 10" by simp
    with False show ?thesis by (simp add: nat_digits_eval digits_value_def)
  qed
qed

lemma nat_digits_chars: "c \<in> set (nat_digits n) \<Longrightarrow> 48 \<le> (of_char c :: nat) \<and> (of_char c :: nat) \<le> 57"
proof (induction n rule: nat_digits.induct)
  case (1 n)
  then show ?case by (cases "n < 10") (auto simp: nat_digits_eval)
qed

definition decimal_string :: "rat \<Rightarrow> string" where
  "decimal_string x = (if x < 0 then ''-'' else []) @ nat_digits (nat \<lfloor>\<bar>x\<bar> * 10 ^ 1074\<rfloor>) @ ''e-'' @ ''1074''"

definition decimal_number :: "string \<Rightarrow> js_number" where
  "decimal_number s =
     (let sign = (if take 1 s = ''-'' then - 1 else 1); literal = (if take 1 s = ''-'' then drop 1 s else s)
      in case split_char CHR ''e'' literal of
           [m, e] \<Rightarrow> if take 1 e = ''-'' then Finite (sign * of_nat (digits_value m) / 10 ^ digits_value (drop 1 e)) else NotFinite
         | [m] \<Rightarrow> Finite (sign * of_nat (digits_value m))
         | _ \<Rightarrow> NotFinite)"

definition decimal_format :: number_format where
  "decimal_format = \<lparr>nf_string = decimal_string, nf_number = decimal_number\<rparr>"

lemma double_is_decimal:
  assumes "is_double x"
  shows "of_int \<lfloor>\<bar>x\<bar> * 10 ^ 1074\<rfloor> = \<bar>x\<bar> * 10 ^ 1074"
proof -
  from assms obtain k m where "x * 2 ^ 1074 / 2 ^ k = of_int m" unfolding is_double_def Let_def by metis
  then have "x * 2 ^ 1074 = of_int (m * 2 ^ k)" by (simp add: field_simps)
  then have "\<bar>x\<bar> * 2 ^ 1074 = of_int \<bar>m * 2 ^ k\<bar>" by (metis abs_mult abs_of_nonneg of_int_abs zero_le_numeral zero_le_power)
  moreover have "(10::rat) ^ 1074 = 2 ^ 1074 * 5 ^ 1074"
    unfolding power_mult_distrib [symmetric] by (rule arg_cong [of _ _ "\<lambda>b. b ^ 1074"]) simp
  ultimately have "\<bar>x\<bar> * 10 ^ 1074 = of_int (\<bar>m * 2 ^ k\<bar> * 5 ^ 1074)" by (simp add: mult.assoc [symmetric] del: power_numeral)
  then show ?thesis by (simp only: floor_of_int)
qed

lemma nat_digits_char: "c \<in> set (nat_digits n) \<Longrightarrow> \<not> is_ws c \<and> c \<noteq> CHR '','' \<and> c \<noteq> CHR ''e'' \<and> c \<noteq> CHR ''-''"
  using nat_digits_chars [of c n] by (auto simp: is_ws_def)

lemma decimal_literal:
  assumes "take 1 (m @ ''e-'') \<noteq> ''-''" "CHR ''e'' \<notin> set m" "CHR ''e'' \<notin> set e"
  shows "decimal_number ((if neg then ''-'' else []) @ m @ ''e-'' @ e) =
    Finite ((if neg then - 1 else 1) * (of_nat (digits_value m) / 10 ^ digits_value e))"
proof -
  have "split_char CHR ''e'' (m @ ''e-'' @ e) = [m, CHR ''-'' # e]"
    using assms(2,3) by (simp add: split_char_append split_char_free)
  moreover have "take 1 (m @ ''e-'' @ e) \<noteq> ''-''" using assms(1) by (cases m) simp_all
  ultimately show ?thesis by (simp add: decimal_number_def)
qed

lemma nat_digits_plain: "take 1 (nat_digits n @ ''e-'') \<noteq> ''-''" "CHR ''e'' \<notin> set (nat_digits n)"
  using nat_digits_char [of "hd (nat_digits n)" n] nat_digits_char [of "CHR ''e''" n] by (cases "nat_digits n"; auto)+

lemma decimal_string_reads_back:
  assumes "is_double x"
  shows "decimal_number (decimal_string x) = Finite x"
proof -
  have free: "CHR ''e'' \<notin> set ''1074''" and e: "digits_value ''1074'' = 1074" by (simp_all add: digits_value_def)
  have nonneg: "0 \<le> \<lfloor>\<bar>x\<bar> * 10 ^ 1074\<rfloor>" unfolding zero_le_floor by (intro mult_nonneg_nonneg zero_le_power) simp_all
  have v: "of_nat (digits_value (nat_digits (nat \<lfloor>\<bar>x\<bar> * 10 ^ 1074\<rfloor>))) / 10 ^ 1074 = \<bar>x\<bar>"
    unfolding digits_value_nat_digits of_nat_nat [OF nonneg] double_is_decimal [OF assms]
    by (rule nonzero_mult_div_cancel_right, rule power_not_zero) simp
  show ?thesis unfolding decimal_string_def decimal_literal [OF nat_digits_plain free] e v by simp
qed

lemma decimal_string_form: "\<exists>m. decimal_string x = (if x < 0 then ''-'' else []) @ nat_digits m @ ''e-1074''"
  unfolding decimal_string_def by (rule exI) (simp only: append.simps)

lemma decimal_format_ok: "number_format_ok decimal_format"
proof -
  have "decimal_string x \<noteq> [] \<and> (\<forall>c\<in>set (decimal_string x). \<not> is_ws c \<and> c \<noteq> CHR '','')" for x
  proof -
    obtain m where m: "decimal_string x = (if x < 0 then ''-'' else []) @ nat_digits m @ ''e-1074''"
      using decimal_string_form by blast
    then show ?thesis using nat_digits_char [of _ m] by (auto simp: is_ws_def)
  qed
  then show ?thesis
    unfolding number_format_ok_def list_all_iff decimal_format_def by (simp add: decimal_string_reads_back) blast
qed

lemma is_double_examples: "is_double (1 / 2)" "is_double (- 3)"
  unfolding is_double_def Let_def by (rule exI [of _ 1073], simp) (rule exI [of _ 1074], simp)

theorem vector_roundtrip_witness:
  "\<exists>text. serializeVector decimal_format [Finite (1/2), Finite (- 3)] = Inr text \<and>
     parseVector decimal_format ('' '' @ text @ '' '') = Inr [Finite (1/2), Finite (- 3)]"
proof -
  let ?v = "[Finite (1/2), Finite (- 3)]"
  have "is_double x" if "Finite x \<in> set ?v" for x
    using that is_double_examples by (auto simp del: eq_divide_eq_numeral1 eq_divide_eq divide_eq_eq)
  then have "\<forall>x. Finite x \<in> set ?v \<longrightarrow> is_double x" by blast
  from vector_roundtrip [OF decimal_format_ok this, of "'' ''" "'' ''"] show ?thesis
    by (auto simp: is_ws_def)
qed

end
