(* ===== verification/Memory.thy ===== *)
theory Memory
  imports Frames Vectors
begin

text \<open>
  \<open>src/src/elora/memory/\<close>: the life of a remembered fact. A candidate is reviewed once, an approved one
  is promoted to a record with its first version, a record is corrected by appending versions and
  deleted by scrubbing them, and a version's content may be embedded. Each operation is one tenant
  transaction over the tables \<open>memory_candidates\<close>, \<open>memory_records\<close>, \<open>memory_record_versions\<close> and
  \<open>memory_embeddings\<close>.
\<close>

subsection \<open>Review\<close>

datatype review_decision = review_approved | review_rejected

fun review_outcome :: "review_decision \<Rightarrow> memory_candidate_review_status" where
  "review_outcome review_approved = approved"
| "review_outcome review_rejected = rejected"

record review_candidate_input =
  vc_tenantId :: uuid
  vc_candidateId :: uuid
  vc_actorId :: uuid
  vc_decision :: review_decision
  vc_note :: "string option"

definition lockCandidate :: "client \<Rightarrow> uuid \<Rightarrow> uuid \<Rightarrow> memory_candidate dtx" where
  "lockCandidate c tenantId candidateId =
     tbind (query (\<lambda>d. first_row (scoped_rows c mc_id mc_tenant_id candidateId tenantId (memory_candidates d)))) (\<lambda>row.
     case row of
       None \<Rightarrow> throw (MemoryError (MemoryCandidateNotFoundError candidateId))
     | Some r \<Rightarrow> treturn r)"

definition reviewedCandidate :: "env \<Rightarrow> review_candidate_input \<Rightarrow> memory_candidate \<Rightarrow> memory_candidate" where
  "reviewedCandidate e inp r = r\<lparr>mc_review_status := review_outcome (vc_decision inp),
     mc_reviewed_by_actor_id := Some (vc_actorId inp), mc_reviewed_at := Some (env_now e 0),
     mc_review_note := vc_note inp\<rparr>"

definition reviewMemoryCandidate_tx :: "env \<Rightarrow> review_candidate_input \<Rightarrow> client \<Rightarrow> memory_candidate dtx" where
  "reviewMemoryCandidate_tx e inp c =
     tbind (lockCandidate c (vc_tenantId inp) (vc_candidateId inp)) (\<lambda>row.
     tbind (ensure (mc_review_status row = proposed)
       (MemoryError (InvalidCandidateReviewStateError (vc_candidateId inp) (mc_review_status row)))) (\<lambda>_.
     tbind (require (\<lambda>d. tenant_fk_ok ac_id ac_tenant_id (actors d) (vc_tenantId inp) (Some (vc_actorId inp)))
       (ForeignKeyViolation ''memory_candidates'')) (\<lambda>_.
     tbind (modify (\<lambda>d. d\<lparr>memory_candidates := update_where
       (\<lambda>x. mc_id x = vc_candidateId inp \<and> mc_tenant_id x = vc_tenantId inp)
       (reviewedCandidate e inp) (memory_candidates d)\<rparr>)) (\<lambda>_.
     tbind (ensure (memoryCandidateSchema_ok (reviewedCandidate e inp row)) (ZodError ''memoryCandidate'')) (\<lambda>_.
     treturn (reviewedCandidate e inp row))))))"

definition reviewMemoryCandidate :: "env \<Rightarrow> review_candidate_input \<Rightarrow> memory_candidate dop" where
  "reviewMemoryCandidate e inp = withTenantTransaction e (vc_tenantId inp) (reviewMemoryCandidate_tx e inp)"

subsection \<open>Records and their first version\<close>

record create_record_input =
  kr_tenantId :: uuid
  kr_content :: string
  kr_recordType :: "string option"
  kr_scope :: "string option"
  kr_sourceCandidateId :: "uuid option"
  kr_changeReason :: string

definition firstVersion :: "env \<Rightarrow> create_record_input \<Rightarrow> memory_record_version" where
  "firstVersion e inp = \<lparr>mv_id = env_uuid e 1, mv_tenant_id = kr_tenantId inp, mv_memory_record_id = env_uuid e 0,
     mv_version_number = 1, mv_content = kr_content inp, mv_change_reason = kr_changeReason inp,
     mv_is_deletion_marker = False, mv_created_at = env_now e 0\<rparr>"

definition newRecord :: "env \<Rightarrow> create_record_input \<Rightarrow> memory_record" where
  "newRecord e inp = \<lparr>mr_id = env_uuid e 0, mr_tenant_id = kr_tenantId inp,
     mr_source_candidate_id = kr_sourceCandidateId inp, mr_content = kr_content inp,
     mr_record_type = kr_recordType inp, mr_scope = kr_scope inp, mr_current_version_id = Some (env_uuid e 1),
     mr_deleted_at = None, mr_created_at = env_now e 0\<rparr>"

text \<open>
  The record goes in without a current version, then the version, then the record is pointed at it:
  neither foreign key is deferrable.
\<close>

definition createMemoryRecordWithVersion :: "env \<Rightarrow> create_record_input \<Rightarrow> memory_record dtx" where
  "createMemoryRecordWithVersion e inp =
     tbind (ensure (memoryRecordVersionSchema_ok (firstVersion e inp)) (ZodError ''memoryRecordVersion'')) (\<lambda>_.
     tbind (ensure (memoryRecordSchema_ok (newRecord e inp)) (ZodError ''memoryRecord'')) (\<lambda>_.
     tbind (insert_memory_record ((newRecord e inp)\<lparr>mr_current_version_id := None\<rparr>)) (\<lambda>_.
     tbind (insert_memory_record_version (firstVersion e inp)) (\<lambda>_.
     tbind (modify (\<lambda>d. d\<lparr>memory_records := update_where
       (\<lambda>x. mr_id x = mr_id (newRecord e inp) \<and> mr_tenant_id x = kr_tenantId inp)
       (\<lambda>x. x\<lparr>mr_current_version_id := Some (env_uuid e 1)\<rparr>) (memory_records d)\<rparr>)) (\<lambda>_.
     treturn (newRecord e inp))))))"

subsection \<open>Promotion\<close>

record promote_candidate_input =
  pc_tenantId :: uuid
  pc_candidateId :: uuid
  pc_actorId :: uuid

definition PROMOTION_CHANGE_REASON :: string where
  "PROMOTION_CHANGE_REASON = ''Promoted from an approved memory candidate.''"

definition promotionInput :: "promote_candidate_input \<Rightarrow> memory_candidate \<Rightarrow> create_record_input" where
  "promotionInput inp row = \<lparr>kr_tenantId = pc_tenantId inp, kr_content = mc_candidate_content row,
     kr_recordType = mc_candidate_type row, kr_scope = mc_scope row,
     kr_sourceCandidateId = Some (pc_candidateId inp), kr_changeReason = PROMOTION_CHANGE_REASON\<rparr>"

definition promotedCandidate :: "uuid \<Rightarrow> memory_candidate \<Rightarrow> memory_candidate" where
  "promotedCandidate i r = r\<lparr>mc_promoted_memory_record_id := Some i, mc_review_status := promoted\<rparr>"

definition promoteMemoryCandidate_tx :: "env \<Rightarrow> promote_candidate_input \<Rightarrow> client \<Rightarrow> memory_record dtx" where
  "promoteMemoryCandidate_tx e inp c =
     tbind (lockCandidate c (pc_tenantId inp) (pc_candidateId inp)) (\<lambda>row.
     tbind (ensure (mc_review_status row = approved)
       (MemoryError (CandidateNotApprovedError (pc_candidateId inp) (mc_review_status row)))) (\<lambda>_.
     tbind (createMemoryRecordWithVersion (env_at 1 e) (promotionInput inp row)) (\<lambda>parsedRecord.
     tbind (modify (\<lambda>d. d\<lparr>memory_candidates := update_where
       (\<lambda>x. mc_id x = pc_candidateId inp \<and> mc_tenant_id x = pc_tenantId inp)
       (promotedCandidate (mr_id parsedRecord)) (memory_candidates d)\<rparr>)) (\<lambda>_.
     treturn parsedRecord))))"

definition promoteMemoryCandidate :: "env \<Rightarrow> promote_candidate_input \<Rightarrow> memory_record dop" where
  "promoteMemoryCandidate e inp = withTenantTransaction e (pc_tenantId inp) (promoteMemoryCandidate_tx e inp)"

subsection \<open>Correction\<close>

record supersede_record_input =
  su_tenantId :: uuid
  su_memoryRecordId :: uuid
  su_actorId :: uuid
  su_newContent :: string
  su_changeReason :: string

definition lockRecord :: "client \<Rightarrow> uuid \<Rightarrow> uuid \<Rightarrow> memory_record dtx" where
  "lockRecord c tenantId recordId =
     tbind (query (\<lambda>d. first_row (scoped_rows c mr_id mr_tenant_id recordId tenantId (memory_records d)))) (\<lambda>row.
     case row of
       None \<Rightarrow> throw (MemoryError (MemoryRecordNotFoundError recordId))
     | Some r \<Rightarrow> if mr_deleted_at r \<noteq> None then throw (MemoryError (MemoryRecordAlreadyDeletedError recordId))
         else treturn r)"

text \<open>\<open>COALESCE(MAX(version_number), 0)\<close>\<close>

definition maxVersion :: "client \<Rightarrow> uuid \<Rightarrow> uuid \<Rightarrow> db \<Rightarrow> nat" where
  "maxVersion c tenantId recordId d = foldr max (map mv_version_number (filter
     (\<lambda>v. mv_tenant_id v = tenantId \<and> mv_memory_record_id v = recordId)
     (rls_rows c mv_tenant_id (memory_record_versions d)))) 0"

definition versionRow :: "env \<Rightarrow> uuid \<Rightarrow> uuid \<Rightarrow> nat \<Rightarrow> string \<Rightarrow> string \<Rightarrow> bool \<Rightarrow> memory_record_version" where
  "versionRow e tenantId recordId n content reason marker = \<lparr>mv_id = env_uuid e 0, mv_tenant_id = tenantId,
     mv_memory_record_id = recordId, mv_version_number = n, mv_content = content, mv_change_reason = reason,
     mv_is_deletion_marker = marker, mv_created_at = env_now e 0\<rparr>"

definition supersededRecord :: "env \<Rightarrow> string \<Rightarrow> memory_record \<Rightarrow> memory_record" where
  "supersededRecord e content r = r\<lparr>mr_content := content, mr_current_version_id := Some (env_uuid e 0)\<rparr>"

definition supersedeMemoryRecord_tx ::
  "env \<Rightarrow> supersede_record_input \<Rightarrow> client \<Rightarrow> (memory_record \<times> memory_record_version) dtx" where
  "supersedeMemoryRecord_tx e inp c =
     tbind (lockRecord c (su_tenantId inp) (su_memoryRecordId inp)) (\<lambda>row.
     tbind (query (\<lambda>d. versionRow e (su_tenantId inp) (su_memoryRecordId inp)
       (maxVersion c (su_tenantId inp) (su_memoryRecordId inp) d + 1) (su_newContent inp) (su_changeReason inp) False)) (\<lambda>v.
     tbind (ensure (memoryRecordVersionSchema_ok v) (ZodError ''memoryRecordVersion'')) (\<lambda>_.
     tbind (insert_memory_record_version v) (\<lambda>_.
     tbind (modify (\<lambda>d. d\<lparr>memory_records := update_where
       (\<lambda>x. mr_id x = su_memoryRecordId inp \<and> mr_tenant_id x = su_tenantId inp)
       (supersededRecord e (su_newContent inp)) (memory_records d)\<rparr>)) (\<lambda>_.
     tbind (ensure (memoryRecordSchema_ok (supersededRecord e (su_newContent inp) row)) (ZodError ''memoryRecord'')) (\<lambda>_.
     treturn (supersededRecord e (su_newContent inp) row, v)))))))"

definition supersedeMemoryRecord ::
  "env \<Rightarrow> supersede_record_input \<Rightarrow> (memory_record \<times> memory_record_version) dop" where
  "supersedeMemoryRecord e inp = withTenantTransaction e (su_tenantId inp) (supersedeMemoryRecord_tx e inp)"

subsection \<open>Deletion\<close>

record delete_record_input =
  dl_tenantId :: uuid
  dl_memoryRecordId :: uuid
  dl_actorId :: uuid
  dl_reason :: string

definition DELETION_TOMBSTONE_CONTENT :: string where
  "DELETION_TOMBSTONE_CONTENT = ''[content removed by deletion]''"

text \<open>\<open>memory_record_version_id IN (SELECT id FROM memory_record_versions WHERE \<dots>)\<close>\<close>

definition version_ids :: "client \<Rightarrow> uuid \<Rightarrow> uuid \<Rightarrow> db \<Rightarrow> uuid list" where
  "version_ids c tenantId recordId d = map mv_id (filter
     (\<lambda>v. mv_tenant_id v = tenantId \<and> mv_memory_record_id v = recordId)
     (rls_rows c mv_tenant_id (memory_record_versions d)))"

definition tombstoned :: "env \<Rightarrow> memory_record \<Rightarrow> memory_record" where
  "tombstoned e r = r\<lparr>mr_content := DELETION_TOMBSTONE_CONTENT, mr_deleted_at := Some (env_now e 0),
     mr_current_version_id := Some (env_uuid e 0)\<rparr>"

definition runDeleteMemoryRecord_tx ::
  "env \<Rightarrow> delete_record_input \<Rightarrow> bool \<Rightarrow> client \<Rightarrow> (memory_record \<times> memory_record_version) dtx" where
  "runDeleteMemoryRecord_tx e inp injectFailureAfterEmbeddingDeletion c =
     tbind (lockRecord c (dl_tenantId inp) (dl_memoryRecordId inp)) (\<lambda>row.
     tbind (modify (\<lambda>d. d\<lparr>memory_embeddings := filter
       (\<lambda>m. \<not> (me_tenant_id m = dl_tenantId inp \<and>
          me_memory_record_version_id m \<in> set (version_ids c (dl_tenantId inp) (dl_memoryRecordId inp) d)))
       (memory_embeddings d)\<rparr>)) (\<lambda>_.
     tbind (ensure (\<not> injectFailureAfterEmbeddingDeletion)
       (PlainError ''deleteMemoryRecord: test-only failure injection after embedding deletion'')) (\<lambda>_.
     tbind (query (\<lambda>d. versionRow e (dl_tenantId inp) (dl_memoryRecordId inp)
       (maxVersion c (dl_tenantId inp) (dl_memoryRecordId inp) d + 1)
       DELETION_TOMBSTONE_CONTENT (dl_reason inp) True)) (\<lambda>v.
     tbind (modify (\<lambda>d. d\<lparr>memory_record_versions := update_where
       (\<lambda>x. mv_tenant_id x = dl_tenantId inp \<and> mv_memory_record_id x = dl_memoryRecordId inp)
       (\<lambda>x. x\<lparr>mv_content := DELETION_TOMBSTONE_CONTENT\<rparr>) (memory_record_versions d)\<rparr>)) (\<lambda>_.
     tbind (ensure (memoryRecordVersionSchema_ok v) (ZodError ''memoryRecordVersion'')) (\<lambda>_.
     tbind (insert_memory_record_version v) (\<lambda>_.
     tbind (modify (\<lambda>d. d\<lparr>memory_records := update_where
       (\<lambda>x. mr_id x = dl_memoryRecordId inp \<and> mr_tenant_id x = dl_tenantId inp)
       (tombstoned e) (memory_records d)\<rparr>)) (\<lambda>_.
     tbind (ensure (memoryRecordSchema_ok (tombstoned e row)) (ZodError ''memoryRecord'')) (\<lambda>_.
     treturn (tombstoned e row, v))))))))))"

definition runDeleteMemoryRecord ::
  "env \<Rightarrow> delete_record_input \<Rightarrow> bool \<Rightarrow> (memory_record \<times> memory_record_version) dop" where
  "runDeleteMemoryRecord e inp inject = withTenantTransaction e (dl_tenantId inp) (runDeleteMemoryRecord_tx e inp inject)"

definition deleteMemoryRecord :: "env \<Rightarrow> delete_record_input \<Rightarrow> (memory_record \<times> memory_record_version) dop" where
  "deleteMemoryRecord e inp = runDeleteMemoryRecord e inp False"

definition deleteMemoryRecordForTest ::
  "string option \<Rightarrow> env \<Rightarrow> delete_record_input \<Rightarrow> (memory_record \<times> memory_record_version) dop" where
  "deleteMemoryRecordForTest node_env e inp =
     (if node_env \<noteq> Some ''test''
      then othrow (PlainError ''deleteMemoryRecordForTest may only be called with NODE_ENV=test'')
      else runDeleteMemoryRecord e inp True)"

definition countUnversionedActiveMemoryRecords :: "env \<Rightarrow> uuid \<Rightarrow> nat dop" where
  "countUnversionedActiveMemoryRecords e tenantId = withTenantTransaction e tenantId (\<lambda>c. query (\<lambda>d.
     length (filter (\<lambda>r. mr_tenant_id r = tenantId \<and> mr_deleted_at r = None \<and> mr_current_version_id r = None)
       (rls_rows c mr_tenant_id (memory_records d)))))"

subsection \<open>Embeddings\<close>

record write_embedding_input =
  wb_tenantId :: uuid
  wb_memoryRecordVersionId :: uuid
  wb_embedding :: "js_number list"
  wb_modelProvider :: string
  wb_modelName :: string
  wb_modelVersion :: string

text \<open>\<open>memory_record_versions mrv JOIN memory_records mr ON mr.id = mrv.memory_record_id AND mr.tenant_id = mrv.tenant_id\<close>\<close>

definition versionsWithRecord :: "client \<Rightarrow> uuid \<Rightarrow> uuid \<Rightarrow> db \<Rightarrow> (memory_record_version \<times> memory_record) list" where
  "versionsWithRecord c tenantId versionId d =
     concat (map (\<lambda>v. map (Pair v) (filter
         (\<lambda>r. mr_id r = mv_memory_record_id v \<and> mr_tenant_id r = mv_tenant_id v)
         (rls_rows c mr_tenant_id (memory_records d))))
       (scoped_rows c mv_id mv_tenant_id versionId tenantId (memory_record_versions d)))"

definition eligibleVersion :: "client \<Rightarrow> uuid \<Rightarrow> uuid \<Rightarrow> memory_record_version dtx" where
  "eligibleVersion c tenantId versionId =
     tbind (query (\<lambda>d. first_row (versionsWithRecord c tenantId versionId d))) (\<lambda>row.
     case row of
       None \<Rightarrow> throw (MemoryError (MemoryRecordVersionNotFoundError versionId))
     | Some vr \<Rightarrow>
         if mv_is_deletion_marker (fst vr) then throw (MemoryError (MemoryRecordVersionIsDeletionMarkerError versionId))
         else if mr_deleted_at (snd vr) \<noteq> None then throw (MemoryError (MemoryRecordAlreadyDeletedError versionId))
         else treturn (fst vr))"

definition loadEligibleVersionContent :: "env \<Rightarrow> uuid \<Rightarrow> uuid \<Rightarrow> string dop" where
  "loadEligibleVersionContent e tenantId versionId = withTenantTransaction e tenantId (\<lambda>c.
     tbind (eligibleVersion c tenantId versionId) (\<lambda>v. treturn (mv_content v)))"

definition embeddingRow ::
  "env \<Rightarrow> write_embedding_input \<Rightarrow> memory_record_version \<Rightarrow> string \<Rightarrow> memory_embedding" where
  "embeddingRow e inp v stored = \<lparr>me_id = env_uuid e 0, me_tenant_id = wb_tenantId inp,
     me_memory_record_version_id = wb_memoryRecordVersionId inp, me_embedding = stored,
     me_model_provider = wb_modelProvider inp, me_model_name = wb_modelName inp,
     me_model_version = wb_modelVersion inp, me_dimensions = length (wb_embedding inp),
     me_source_content_hash = env_sha256 e (mv_content v), me_status = ACTIVE,
     me_superseded_by_embedding_id = None, me_created_at = env_now e 0\<rparr>"

text \<open>
  \<open>cast\<close> is pgvector: the text form of the value it stores for \<open>$4::vector\<close>, or no value when it
  rejects the text.
\<close>

definition runWriteMemoryEmbedding_tx ::
  "number_format \<Rightarrow> (string \<Rightarrow> string option) \<Rightarrow> env \<Rightarrow> write_embedding_input \<Rightarrow> string \<Rightarrow> bool \<Rightarrow> client \<Rightarrow>
   (memory_embedding \<times> js_number list) dtx" where
  "runWriteMemoryEmbedding_tx nf cast e inp serialized injectFailureAfterInsertBeforeSupersede c =
     tbind (eligibleVersion c (wb_tenantId inp) (wb_memoryRecordVersionId inp)) (\<lambda>v.
     case cast serialized of
       None \<Rightarrow> throw (DbError (InvalidTextRepresentation ''vector''))
     | Some stored \<Rightarrow>
         tbind (insert_memory_embedding (embeddingRow e inp v stored)) (\<lambda>_.
         tbind (ensure (\<not> injectFailureAfterInsertBeforeSupersede)
           (PlainError ''writeMemoryEmbedding: test-only failure injection after insert, before supersede'')) (\<lambda>_.
         tbind (modify (\<lambda>d. d\<lparr>memory_embeddings := update_where
           (\<lambda>m. me_tenant_id m = wb_tenantId inp \<and> me_memory_record_version_id m = wb_memoryRecordVersionId inp
              \<and> me_status m = ACTIVE \<and> me_id m \<noteq> env_uuid e 0)
           (\<lambda>m. m\<lparr>me_status := EMB_SUPERSEDED, me_superseded_by_embedding_id := Some (env_uuid e 0)\<rparr>)
           (memory_embeddings d)\<rparr>)) (\<lambda>_.
         tbind (query (\<lambda>d. first_row (scoped_rows c me_id me_tenant_id (env_uuid e 0) (wb_tenantId inp) (memory_embeddings d)))) (\<lambda>row.
         case row of
           None \<Rightarrow> throw JsTypeError
         | Some m \<Rightarrow>
             tbind (lift_result (parseVector nf (me_embedding m))) (\<lambda>numbers.
             tbind (ensure (memoryEmbeddingSchema_ok m \<and> NotFinite \<notin> set numbers) (ZodError ''memoryEmbedding'')) (\<lambda>_.
             treturn (m, numbers))))))))"

definition runWriteMemoryEmbedding ::
  "number_format \<Rightarrow> (string \<Rightarrow> string option) \<Rightarrow> env \<Rightarrow> write_embedding_input \<Rightarrow> bool \<Rightarrow>
   (memory_embedding \<times> js_number list) dop" where
  "runWriteMemoryEmbedding nf cast e inp inject =
     (case serializeVector nf (wb_embedding inp) of
        Inl err \<Rightarrow> othrow err
      | Inr serialized \<Rightarrow>
          withTenantTransaction e (wb_tenantId inp) (runWriteMemoryEmbedding_tx nf cast e inp serialized inject))"

definition writeMemoryEmbedding ::
  "number_format \<Rightarrow> (string \<Rightarrow> string option) \<Rightarrow> env \<Rightarrow> write_embedding_input \<Rightarrow> (memory_embedding \<times> js_number list) dop" where
  "writeMemoryEmbedding nf cast e inp = runWriteMemoryEmbedding nf cast e inp False"

definition writeMemoryEmbeddingForTest ::
  "string option \<Rightarrow> number_format \<Rightarrow> (string \<Rightarrow> string option) \<Rightarrow> env \<Rightarrow> write_embedding_input \<Rightarrow>
   (memory_embedding \<times> js_number list) dop" where
  "writeMemoryEmbeddingForTest node_env nf cast e inp =
     (if node_env \<noteq> Some ''test''
      then othrow (PlainError ''writeMemoryEmbeddingForTest may only be called with NODE_ENV=test'')
      else runWriteMemoryEmbedding nf cast e inp True)"

subsection \<open>Effects\<close>

lemma lockCandidate_Inr [tx_simps]:
  "lockCandidate c t i d = Inr r \<longleftrightarrow>
     (\<exists>x. first_row (scoped_rows c mc_id mc_tenant_id i t (memory_candidates d)) = Some x \<and> r = (x, d))"
  by (auto simp: lockCandidate_def tx_simps)

lemma lockRecord_Inr [tx_simps]:
  "lockRecord c t i d = Inr r \<longleftrightarrow>
     (\<exists>x. first_row (scoped_rows c mr_id mr_tenant_id i t (memory_records d)) = Some x \<and> mr_deleted_at x = None \<and> r = (x, d))"
  by (auto simp: lockRecord_def tx_simps split: if_splits)

definition after_review :: "env \<Rightarrow> review_candidate_input \<Rightarrow> db \<Rightarrow> db" where
  "after_review e inp d = d\<lparr>memory_candidates := update_where
     (\<lambda>x. mc_id x = vc_candidateId inp \<and> mc_tenant_id x = vc_tenantId inp) (reviewedCandidate e inp) (memory_candidates d)\<rparr>"

lemma review_Inr:
  assumes "reviewMemoryCandidate_tx e inp c d = Inr (res, d')"
  obtains r where "r \<in> set (memory_candidates d)" "mc_id r = vc_candidateId inp" "mc_tenant_id r = vc_tenantId inp"
    "mc_review_status r = proposed" "res = reviewedCandidate e inp r" "d' = after_review e inp d"
  using assms
  by (auto simp: reviewMemoryCandidate_tx_def tx_simps after_review_def dest!: scoped_first_row)

definition after_record_create :: "env \<Rightarrow> create_record_input \<Rightarrow> db \<Rightarrow> db" where
  "after_record_create e inp d = d\<lparr>memory_records := memory_records d @ [newRecord e inp],
     memory_record_versions := memory_record_versions d @ [firstVersion e inp]\<rparr>"

lemma createRecord_Inr:
  assumes "createMemoryRecordWithVersion e inp d = Inr (res, d')"
  shows "res = newRecord e inp" "d' = after_record_create e inp d" "env_uuid e 0 \<notin> mr_id ` set (memory_records d)"
    "env_uuid e 1 \<notin> mv_id ` set (memory_record_versions d)" "kr_tenantId inp \<in> set (tenants d)"
    "fk_ok mc_id (memory_candidates d) (kr_sourceCandidateId inp)"
proof -
  have upd: "update_where (\<lambda>x. mr_id x = i \<and> mr_tenant_id x = t) f (memory_records d) = memory_records d"
    if "i \<notin> mr_id ` set (memory_records d)" for i t f
    using that by (intro update_where_id) auto
  show "res = newRecord e inp" "d' = after_record_create e inp d" "env_uuid e 0 \<notin> mr_id ` set (memory_records d)"
    "env_uuid e 1 \<notin> mv_id ` set (memory_record_versions d)" "kr_tenantId inp \<in> set (tenants d)"
    "fk_ok mc_id (memory_candidates d) (kr_sourceCandidateId inp)"
    using assms
    by (auto simp: createMemoryRecordWithVersion_def tx_simps insert_memory_record_def insert_memory_record_version_def
        after_record_create_def newRecord_def firstVersion_def upd)
qed

definition after_promote :: "env \<Rightarrow> promote_candidate_input \<Rightarrow> memory_candidate \<Rightarrow> db \<Rightarrow> db" where
  "after_promote e inp r d = (after_record_create (env_at 1 e) (promotionInput inp r) d)\<lparr>memory_candidates := update_where
     (\<lambda>x. mc_id x = pc_candidateId inp \<and> mc_tenant_id x = pc_tenantId inp)
     (promotedCandidate (env_uuid (env_at 1 e) 0)) (memory_candidates d)\<rparr>"

lemma promote_Inr:
  assumes "promoteMemoryCandidate_tx e inp c d = Inr (res, d')"
  obtains r where "r \<in> set (memory_candidates d)" "mc_id r = pc_candidateId inp" "mc_tenant_id r = pc_tenantId inp"
    "mc_review_status r = approved" "res = newRecord (env_at 1 e) (promotionInput inp r)" "d' = after_promote e inp r d"
    "env_uuid (env_at 1 e) 0 \<notin> mr_id ` set (memory_records d)"
    "env_uuid (env_at 1 e) 1 \<notin> mv_id ` set (memory_record_versions d)"
proof -
  from assms obtain r d1 where r: "first_row (scoped_rows c mc_id mc_tenant_id (pc_candidateId inp) (pc_tenantId inp)
      (memory_candidates d)) = Some r" "mc_review_status r = approved"
    and cr: "createMemoryRecordWithVersion (env_at 1 e) (promotionInput inp r) d = Inr (res, d1)"
    and d': "d' = d1\<lparr>memory_candidates := update_where (\<lambda>x. mc_id x = pc_candidateId inp \<and> mc_tenant_id x = pc_tenantId inp)
       (promotedCandidate (mr_id res)) (memory_candidates d1)\<rparr>"
    by (auto simp: promoteMemoryCandidate_tx_def tx_simps)
  show thesis
    using that [of r] scoped_first_row [OF r(1)] r(2) d' createRecord_Inr [OF cr]
    by (simp add: after_promote_def after_record_create_def newRecord_def)
qed

definition after_supersede :: "env \<Rightarrow> supersede_record_input \<Rightarrow> nat \<Rightarrow> db \<Rightarrow> db" where
  "after_supersede e inp n d = d\<lparr>
     memory_record_versions := memory_record_versions d @
       [versionRow e (su_tenantId inp) (su_memoryRecordId inp) (n + 1) (su_newContent inp) (su_changeReason inp) False],
     memory_records := update_where (\<lambda>x. mr_id x = su_memoryRecordId inp \<and> mr_tenant_id x = su_tenantId inp)
       (supersededRecord e (su_newContent inp)) (memory_records d)\<rparr>"

lemma supersede_Inr:
  assumes "supersedeMemoryRecord_tx e inp c d = Inr (res, d')"
  obtains r n where "r \<in> set (memory_records d)" "mr_id r = su_memoryRecordId inp" "mr_tenant_id r = su_tenantId inp"
    "mr_deleted_at r = None" "n = maxVersion c (su_tenantId inp) (su_memoryRecordId inp) d"
    "env_uuid e 0 \<notin> mv_id ` set (memory_record_versions d)" "su_newContent inp \<noteq> []"
    "res = (supersededRecord e (su_newContent inp) r,
       versionRow e (su_tenantId inp) (su_memoryRecordId inp) (n + 1) (su_newContent inp) (su_changeReason inp) False)"
    "d' = after_supersede e inp n d"
  using assms
  by (auto simp: supersedeMemoryRecord_tx_def tx_simps insert_memory_record_version_def after_supersede_def
      supersededRecord_def memoryRecordSchema_ok_def versionRow_def dest!: scoped_first_row)

definition after_delete :: "env \<Rightarrow> delete_record_input \<Rightarrow> uuid list \<Rightarrow> nat \<Rightarrow> db \<Rightarrow> db" where
  "after_delete e inp vids n d = d\<lparr>
     memory_embeddings := filter
       (\<lambda>m. \<not> (me_tenant_id m = dl_tenantId inp \<and> me_memory_record_version_id m \<in> set vids)) (memory_embeddings d),
     memory_record_versions := update_where
       (\<lambda>x. mv_tenant_id x = dl_tenantId inp \<and> mv_memory_record_id x = dl_memoryRecordId inp)
       (\<lambda>x. x\<lparr>mv_content := DELETION_TOMBSTONE_CONTENT\<rparr>) (memory_record_versions d) @
       [versionRow e (dl_tenantId inp) (dl_memoryRecordId inp) (n + 1) DELETION_TOMBSTONE_CONTENT (dl_reason inp) True],
     memory_records := update_where (\<lambda>x. mr_id x = dl_memoryRecordId inp \<and> mr_tenant_id x = dl_tenantId inp)
       (tombstoned e) (memory_records d)\<rparr>"

lemma delete_Inr:
  assumes "runDeleteMemoryRecord_tx e inp inject c d = Inr (res, d')"
  obtains r n vids where "r \<in> set (memory_records d)" "mr_id r = dl_memoryRecordId inp" "mr_tenant_id r = dl_tenantId inp"
    "mr_deleted_at r = None" "n = maxVersion c (dl_tenantId inp) (dl_memoryRecordId inp) d"
    "vids = version_ids c (dl_tenantId inp) (dl_memoryRecordId inp) d"
    "env_uuid e 0 \<notin> mv_id ` set (memory_record_versions d)" "\<not> inject"
    "res = (tombstoned e r, versionRow e (dl_tenantId inp) (dl_memoryRecordId inp) (n + 1) DELETION_TOMBSTONE_CONTENT (dl_reason inp) True)"
    "d' = after_delete e inp vids n d"
proof -
  have k: "mv_id ` set (update_where P (\<lambda>x. x\<lparr>mv_content := s\<rparr>) (memory_record_versions d)) = mv_id ` set (memory_record_versions d)" for P s
    by (metis (no_types, lifting) map_update_where set_map memory_record_version.select_convs(1) memory_record_version.update_convs(5) memory_record_version.surjective)
  have m: "maxVersion c t i (d\<lparr>memory_embeddings := xs\<rparr>) = maxVersion c t i d" for t i xs
    by (simp add: maxVersion_def)
  show thesis
    using assms that
    by (auto simp: runDeleteMemoryRecord_tx_def tx_simps insert_memory_record_version_def after_delete_def
        versionRow_def k m dest!: scoped_first_row)
qed

definition after_embed :: "env \<Rightarrow> write_embedding_input \<Rightarrow> memory_record_version \<Rightarrow> string \<Rightarrow> db \<Rightarrow> db" where
  "after_embed e inp v stored d = d\<lparr>memory_embeddings := update_where
     (\<lambda>m. me_tenant_id m = wb_tenantId inp \<and> me_memory_record_version_id m = wb_memoryRecordVersionId inp \<and> me_status m = ACTIVE)
     (\<lambda>m. m\<lparr>me_status := EMB_SUPERSEDED, me_superseded_by_embedding_id := Some (env_uuid e 0)\<rparr>)
     (memory_embeddings d) @ [embeddingRow e inp v stored]\<rparr>"

lemma eligibleVersion_Inr [tx_simps]:
  "eligibleVersion c t i d = Inr r \<longleftrightarrow> (\<exists>v x. first_row (versionsWithRecord c t i d) = Some (v, x) \<and>
     \<not> mv_is_deletion_marker v \<and> mr_deleted_at x = None \<and> r = (v, d))"
  by (auto simp: eligibleVersion_def tx_simps split: if_splits)

lemma versionsWithRecord_first:
  assumes "first_row (versionsWithRecord c t i d) = Some (v, r)"
  shows "v \<in> set (memory_record_versions d)" "mv_id v = i" "mv_tenant_id v = t"
    "r \<in> set (memory_records d)" "mr_id r = mv_memory_record_id v" "mr_tenant_id r = t"
  using first_row_SomeD [OF assms]
  by (auto simp: versionsWithRecord_def scoped_rows_def dest: set_rls_rows)

lemma embed_Inr:
  assumes "runWriteMemoryEmbedding_tx nf cast e inp serialized inject c d = Inr (res, d')"
  obtains v r stored where "v \<in> set (memory_record_versions d)" "mv_id v = wb_memoryRecordVersionId inp"
    "mv_tenant_id v = wb_tenantId inp" "r \<in> set (memory_records d)" "mr_id r = mv_memory_record_id v"
    "mr_tenant_id r = wb_tenantId inp" "mr_deleted_at r = None" "\<not> mv_is_deletion_marker v"
    "cast serialized = Some stored" "env_uuid e 0 \<notin> me_id ` set (memory_embeddings d)"
    "d' = after_embed e inp v stored d"
proof -
  have upd: "update_where (\<lambda>m. P m \<and> Q m \<and> S m \<and> me_id m \<noteq> i) f (memory_embeddings d) =
      update_where (\<lambda>m. P m \<and> Q m \<and> S m) f (memory_embeddings d)"
    if "i \<notin> me_id ` set (memory_embeddings d)" for P Q S i f
    using that by (auto simp: update_where_def)
  from assms obtain v r stored where v: "first_row (versionsWithRecord c (wb_tenantId inp) (wb_memoryRecordVersionId inp) d) = Some (v, r)"
      "\<not> mv_is_deletion_marker v" "mr_deleted_at r = None" and st: "cast serialized = Some stored"
    and fresh: "env_uuid e 0 \<notin> me_id ` set (memory_embeddings d)"
    and d': "d' = d\<lparr>memory_embeddings := update_where
       (\<lambda>m. me_tenant_id m = wb_tenantId inp \<and> me_memory_record_version_id m = wb_memoryRecordVersionId inp
          \<and> me_status m = ACTIVE \<and> me_id m \<noteq> env_uuid e 0)
       (\<lambda>m. m\<lparr>me_status := EMB_SUPERSEDED, me_superseded_by_embedding_id := Some (env_uuid e 0)\<rparr>)
       (memory_embeddings d @ [embeddingRow e inp v stored])\<rparr>"
    unfolding runWriteMemoryEmbedding_tx_def tx_simps
    by (auto simp: tx_simps insert_memory_embedding_def embeddingRow_def simp del: update_where_simps)
  have "d' = after_embed e inp v stored d"
    using fresh by (simp add: d' after_embed_def upd) (simp add: embeddingRow_def)
  with versionsWithRecord_first [OF v(1)] v(2,3) st fresh show thesis by (intro that)
qed

end
