(* ===== verification/MemoryInv.thy ===== *)
theory MemoryInv
  imports Memory
begin

text \<open>
  The invariant of the memory tables and its preservation. The versions of a record are numbered
  1, 2, \<dots> without gaps, the record mirrors the last one, a deleted record ends in its only deletion
  marker and neither its versions nor any embedding carry content, a candidate is promoted exactly if
  one record came from it, and a version has at most one active embedding.
\<close>

definition versions_of :: "db \<Rightarrow> uuid \<Rightarrow> memory_record_version list" where
  "versions_of d i = filter (\<lambda>v. mv_memory_record_id v = i) (memory_record_versions d)"

definition embeddings_of :: "db \<Rightarrow> uuid \<Rightarrow> memory_embedding list" where
  "embeddings_of d vid = filter (\<lambda>m. me_memory_record_version_id m = vid) (memory_embeddings d)"

definition rec_ok :: "db \<Rightarrow> memory_record \<Rightarrow> bool" where
  "rec_ok d r \<longleftrightarrow> (let vs = versions_of d (mr_id r) in
     vs \<noteq> [] \<and> map mv_version_number vs = [1..<Suc (length vs)] \<and>
     mr_current_version_id r = Some (mv_id (last vs)) \<and> mr_content r = mv_content (last vs) \<and>
     (\<forall>v\<in>set (butlast vs). \<not> mv_is_deletion_marker v) \<and>
     (mr_deleted_at r \<noteq> None \<longleftrightarrow> mv_is_deletion_marker (last vs)) \<and>
     (mr_deleted_at r \<noteq> None \<longrightarrow>
        (\<forall>v\<in>set vs. mv_content v = DELETION_TOMBSTONE_CONTENT \<and> embeddings_of d (mv_id v) = [])))"

definition record_origins :: "db \<Rightarrow> (uuid \<times> uuid \<times> uuid option) set" where
  "record_origins d = (\<lambda>r. (mr_id r, mr_tenant_id r, mr_source_candidate_id r)) ` set (memory_records d)"

definition promotions :: "db \<Rightarrow> (uuid \<times> uuid option) set" where
  "promotions d = (\<lambda>x. (mc_id x, mc_promoted_memory_record_id x)) ` set (memory_candidates d)"

definition cand_ok :: "db \<Rightarrow> memory_candidate \<Rightarrow> bool" where
  "cand_ok d x \<longleftrightarrow> (mc_review_status x = promoted \<longleftrightarrow> mc_promoted_memory_record_id x \<noteq> None) \<and>
     (\<forall>i. mc_promoted_memory_record_id x = Some i \<longrightarrow>
        (i, mc_tenant_id x, Some (mc_id x)) \<in> record_origins d)"

definition mem_refs_ok :: "db \<Rightarrow> bool" where
  "mem_refs_ok d \<longleftrightarrow>
     (\<forall>v\<in>set (memory_record_versions d).
        (mv_tenant_id v, mv_memory_record_id v) \<in> (\<lambda>r. (mr_tenant_id r, mr_id r)) ` set (memory_records d)) \<and>
     (\<forall>m\<in>set (memory_embeddings d).
        (me_tenant_id m, me_memory_record_version_id m) \<in> (\<lambda>v. (mv_tenant_id v, mv_id v)) ` set (memory_record_versions d)) \<and>
     (\<forall>r\<in>set (memory_records d). \<forall>c. mr_source_candidate_id r = Some c \<longrightarrow> (c, Some (mr_id r)) \<in> promotions d)"

definition one_active :: "db \<Rightarrow> bool" where
  "one_active d \<longleftrightarrow> (\<forall>v\<in>set (memory_record_versions d).
     length (filter (\<lambda>m. me_status m = ACTIVE) (embeddings_of d (mv_id v))) \<le> 1)"

definition mem_keys :: "db \<Rightarrow> bool" where
  "mem_keys d \<longleftrightarrow> distinct (map mc_id (memory_candidates d)) \<and> distinct (map mr_id (memory_records d)) \<and>
     distinct (map mv_id (memory_record_versions d)) \<and> distinct (map me_id (memory_embeddings d))"

definition mem_inv :: "db \<Rightarrow> bool" where
  "mem_inv d \<longleftrightarrow> mem_keys d \<and> mem_refs_ok d \<and> one_active d \<and>
     (\<forall>r\<in>set (memory_records d). rec_ok d r) \<and> (\<forall>x\<in>set (memory_candidates d). cand_ok d x)"

subsection \<open>Consequences\<close>

lemma mr_unique:
  "mem_keys d \<Longrightarrow> r \<in> set (memory_records d) \<Longrightarrow> r' \<in> set (memory_records d) \<Longrightarrow> mr_id r = mr_id r' \<Longrightarrow> r = r'"
  by (auto simp: mem_keys_def distinct_map dest: inj_onD)

lemma mc_unique:
  "mem_keys d \<Longrightarrow> r \<in> set (memory_candidates d) \<Longrightarrow> r' \<in> set (memory_candidates d) \<Longrightarrow> mc_id r = mc_id r' \<Longrightarrow> r = r'"
  by (auto simp: mem_keys_def distinct_map dest: inj_onD)

lemma mv_unique:
  "mem_keys d \<Longrightarrow> v \<in> set (memory_record_versions d) \<Longrightarrow> v' \<in> set (memory_record_versions d) \<Longrightarrow> mv_id v = mv_id v' \<Longrightarrow> v = v'"
  by (auto simp: mem_keys_def distinct_map dest: inj_onD)

lemma version_tenant:
  assumes "mem_keys d" "mem_refs_ok d" "r \<in> set (memory_records d)" "v \<in> set (memory_record_versions d)"
    "mv_memory_record_id v = mr_id r"
  shows "mv_tenant_id v = mr_tenant_id r"
  using assms mr_unique [OF assms(1,3)] unfolding mem_refs_ok_def by force

lemma versions_scoped:
  assumes "mem_keys d" "mem_refs_ok d" "r \<in> set (memory_records d)" "cl_tenant c = mr_tenant_id r"
  shows "filter (\<lambda>v. mv_tenant_id v = mr_tenant_id r \<and> mv_memory_record_id v = mr_id r)
    (rls_rows c mv_tenant_id (memory_record_versions d)) = versions_of d (mr_id r)"
  using assms version_tenant [OF assms(1-3)]
  by (auto simp: versions_of_def rls_rows_def intro!: filter_cong)

lemma foldr_max_upt: "foldr max [1..<Suc n] (m :: nat) = max m n"
  by (induction n arbitrary: m) (auto simp: max_def)

lemma maxVersion_length:
  assumes "mem_inv d" "r \<in> set (memory_records d)" "cl_tenant c = mr_tenant_id r"
  shows "maxVersion c (mr_tenant_id r) (mr_id r) d = length (versions_of d (mr_id r))"
  using assms versions_scoped [of d r c] foldr_max_upt
  by (simp add: mem_inv_def maxVersion_def rec_ok_def Let_def del: upt_Suc)

lemma version_ids_of:
  assumes "mem_inv d" "r \<in> set (memory_records d)" "cl_tenant c = mr_tenant_id r"
  shows "version_ids c (mr_tenant_id r) (mr_id r) d = map mv_id (versions_of d (mr_id r))"
  using assms versions_scoped [of d r c] by (simp add: mem_inv_def version_ids_def)

subsection \<open>Preservation\<close>

lemma image_update_where:
  "(\<And>x. P x \<Longrightarrow> g (f x) = g x) \<Longrightarrow> g ` set (update_where P f xs) = g ` set xs"
  by (metis map_update_where set_map)

lemma mem_inv_review:
  assumes "mem_inv d" "r \<in> set (memory_candidates d)" "mc_id r = vc_candidateId inp" "mc_tenant_id r = vc_tenantId inp"
    "mc_review_status r = proposed"
  shows "mem_inv (after_review e inp d)"
proof -
  let ?d = "after_review e inp d" and ?P = "\<lambda>x. mc_id x = vc_candidateId inp \<and> mc_tenant_id x = vc_tenantId inp"
  have same: "memory_records ?d = memory_records d" "memory_record_versions ?d = memory_record_versions d"
    "memory_embeddings ?d = memory_embeddings d" "map mc_id (memory_candidates ?d) = map mc_id (memory_candidates d)"
    "promotions ?d = promotions d" "record_origins ?d = record_origins d"
    by (simp_all add: after_review_def reviewedCandidate_def promotions_def record_origins_def image_update_where)
  have hit: "x = r" if "x \<in> set (memory_candidates d)" "?P x" for x
    using that assms(1-3) mc_unique [of d x r] by (simp add: mem_inv_def)
  have none: "mc_promoted_memory_record_id r = None"
    using assms(1,2,5) by (auto simp: mem_inv_def cand_ok_def)
  have cand: "cand_ok d y" if "y \<in> set (memory_candidates ?d)" for y
  proof -
    from that obtain x where x: "x \<in> set (memory_candidates d)" "y = (if ?P x then reviewedCandidate e inp x else x)"
      by (auto simp: after_review_def set_update_where)
    show ?thesis
      using x assms(1) hit [OF x(1)] none
      by (cases "vc_decision inp") (auto simp: mem_inv_def cand_ok_def reviewedCandidate_def)
  qed
  show ?thesis
    using assms(1) cand unfolding mem_inv_def mem_keys_def mem_refs_ok_def one_active_def rec_ok_def cand_ok_def
      embeddings_of_def versions_of_def same
    by simp
qed

text \<open>A version appended to one record leaves the others as they are.\<close>

lemma versions_of_append:
  "memory_record_versions d' = memory_record_versions d @ [v] \<Longrightarrow>
   versions_of d' i = versions_of d i @ (if mv_memory_record_id v = i then [v] else [])"
  by (simp add: versions_of_def)

lemma fresh_record_no_versions:
  "mem_refs_ok d \<Longrightarrow> i \<notin> mr_id ` set (memory_records d) \<Longrightarrow> versions_of d i = []"
  by (force simp: mem_refs_ok_def versions_of_def filter_empty_conv)

lemma fresh_version_no_embeddings:
  "mem_refs_ok d \<Longrightarrow> i \<notin> mv_id ` set (memory_record_versions d) \<Longrightarrow> embeddings_of d i = []"
  by (force simp: mem_refs_ok_def embeddings_of_def filter_empty_conv)

lemma mem_inv_promote:
  assumes inv: "mem_inv d" and r: "r \<in> set (memory_candidates d)" "mc_id r = pc_candidateId inp"
      "mc_tenant_id r = pc_tenantId inp" "mc_review_status r = approved"
    and fresh: "env_uuid (env_at 1 e) 0 \<notin> mr_id ` set (memory_records d)"
      "env_uuid (env_at 1 e) 1 \<notin> mv_id ` set (memory_record_versions d)"
  shows "mem_inv (after_promote e inp r d)"
proof -
  let ?d = "after_promote e inp r d" and ?e = "env_at 1 e" and ?in = "promotionInput inp r"
  let ?P = "\<lambda>x. mc_id x = pc_candidateId inp \<and> mc_tenant_id x = pc_tenantId inp"
  let ?i = "env_uuid ?e 0"
  note keys = inv [unfolded mem_inv_def, THEN conjunct1] and refs = inv [unfolded mem_inv_def, THEN conjunct2, THEN conjunct1]
  have tabs: "memory_records ?d = memory_records d @ [newRecord ?e ?in]"
    "memory_record_versions ?d = memory_record_versions d @ [firstVersion ?e ?in]"
    "memory_embeddings ?d = memory_embeddings d" "map mc_id (memory_candidates ?d) = map mc_id (memory_candidates d)"
    by (simp_all add: after_promote_def after_record_create_def promotedCandidate_def)
  have emb: "embeddings_of ?d i = embeddings_of d i" for i by (simp add: embeddings_of_def tabs)
  have hit: "x = r" if "x \<in> set (memory_candidates d)" "?P x" for x
    using that r(1,2) mc_unique [OF keys, of x r] by simp
  have none: "mc_promoted_memory_record_id r = None"
    using inv r(1,4) by (auto simp: mem_inv_def cand_ok_def)
  have orig: "record_origins ?d = insert (?i, mc_tenant_id r, Some (mc_id r)) (record_origins d)"
    using r(2,3) by (auto simp: record_origins_def tabs newRecord_def promotionInput_def)
  have kept: "(c, Some i) \<in> promotions d \<Longrightarrow> (c, Some i) \<in> promotions ?d" for c i
    using hit none by (force simp: promotions_def after_promote_def set_update_where)
  have new: "(mc_id r, Some ?i) \<in> promotions ?d"
  proof -
    from r(1-3) have "promotedCandidate ?i r \<in> set (memory_candidates ?d)"
      by (auto simp: after_promote_def set_update_where image_iff intro!: bexI [of _ r])
    then have "(mc_id (promotedCandidate ?i r), mc_promoted_memory_record_id (promotedCandidate ?i r)) \<in> promotions ?d"
      unfolding promotions_def by (rule imageI)
    then show ?thesis by (simp add: promotedCandidate_def)
  qed
  have cand: "cand_ok ?d y" if "y \<in> set (memory_candidates ?d)" for y
  proof -
    from that obtain x where x: "x \<in> set (memory_candidates d)" "y = (if ?P x then promotedCandidate ?i x else x)"
      by (auto simp: after_promote_def set_update_where)
    then show ?thesis
      using inv hit [OF x(1)] r(2,3) by (auto simp: mem_inv_def cand_ok_def orig promotedCandidate_def)
  qed
  have vers: "versions_of ?d i = (if i = ?i then [firstVersion ?e ?in] else versions_of d i)" for i
    using fresh_record_no_versions [OF refs fresh(1)] versions_of_append [OF tabs(2), of i] by (auto simp: firstVersion_def)
  have "rec_ok ?d (newRecord ?e ?in)"
    using vers [of ?i] by (simp add: rec_ok_def newRecord_def firstVersion_def)
  moreover have "rec_ok ?d x" if "x \<in> set (memory_records d)" for x
  proof -
    from that fresh(1) have "mr_id x \<noteq> ?i" by (metis imageI)
    with inv that show ?thesis by (simp add: mem_inv_def rec_ok_def vers emb)
  qed
  ultimately have recs: "\<forall>x\<in>set (memory_records ?d). rec_ok ?d x" by (simp add: tabs)
  have "embeddings_of d (env_uuid ?e 1) = []"
    using fresh_version_no_embeddings [OF refs fresh(2)] .
  then have act: "one_active ?d"
    using inv by (simp add: mem_inv_def one_active_def emb tabs firstVersion_def)
  have "mem_refs_ok ?d"
    using refs kept new r(2) unfolding mem_refs_ok_def tabs
    by (auto simp: newRecord_def firstVersion_def promotionInput_def)
  moreover have "mem_keys ?d"
    using keys fresh unfolding mem_keys_def tabs by (simp add: newRecord_def firstVersion_def)
  ultimately show ?thesis using cand recs act by (simp add: mem_inv_def)
qed

text \<open>
  Superseding and deleting share their shape: the versions of one record are mapped by \<open>g\<close> (which
  may only change their content), a version \<open>v\<close> is appended to them, and the record is replaced.
\<close>

lemma mem_inv_new_version:
  assumes inv: "mem_inv d" and r: "r \<in> set (memory_records d)"
    and recs: "memory_records d' = update_where (\<lambda>x. mr_id x = mr_id r \<and> mr_tenant_id x = mr_tenant_id r) f (memory_records d)"
    and vers: "memory_record_versions d' = update_where (\<lambda>x. mv_tenant_id x = mr_tenant_id r \<and> mv_memory_record_id x = mr_id r) g
        (memory_record_versions d) @ [v]"
    and cands: "memory_candidates d' = memory_candidates d"
    and embs: "memory_embeddings d' = filter Q (memory_embeddings d)"
    and f: "mr_id (f r) = mr_id r" "mr_tenant_id (f r) = mr_tenant_id r" "mr_source_candidate_id (f r) = mr_source_candidate_id r"
    and g: "\<And>x. mv_id (g x) = mv_id x" "\<And>x. mv_tenant_id (g x) = mv_tenant_id x"
        "\<And>x. mv_memory_record_id (g x) = mv_memory_record_id x"
    and v: "mv_tenant_id v = mr_tenant_id r" "mv_memory_record_id v = mr_id r" "mv_id v \<notin> mv_id ` set (memory_record_versions d)"
    and ok: "rec_ok d' (f r)"
  shows "mem_inv d'"
proof -
  note keys = inv [unfolded mem_inv_def, THEN conjunct1] and refs = inv [unfolded mem_inv_def, THEN conjunct2, THEN conjunct1]
  let ?U = "update_where (\<lambda>x. mv_tenant_id x = mr_tenant_id r \<and> mv_memory_record_id x = mr_id r) g (memory_record_versions d)"
  have hit: "x = r" if "x \<in> set (memory_records d)" "mr_id x = mr_id r" for x
    using that r mr_unique [OF keys] by blast
  have rec_map: "map h (memory_records d') = map h (memory_records d)" if "h (f r) = h r" for h :: "memory_record \<Rightarrow> 'b"
    unfolding recs update_where_def using hit that by auto
  have rec_keys: "map mr_id (memory_records d') = map mr_id (memory_records d)"
    "(\<lambda>r. (mr_tenant_id r, mr_id r)) ` set (memory_records d') = (\<lambda>r. (mr_tenant_id r, mr_id r)) ` set (memory_records d)"
    "record_origins d' = record_origins d"
    using rec_map [of mr_id] arg_cong [OF rec_map [of "\<lambda>r. (mr_tenant_id r, mr_id r)"], of set]
      arg_cong [OF rec_map [of "\<lambda>r. (mr_id r, mr_tenant_id r, mr_source_candidate_id r)"], of set] f
    by (simp_all add: record_origins_def)
  have src: "(mr_id x, mr_tenant_id x, mr_source_candidate_id x) \<in> record_origins d" if "x \<in> set (memory_records d')" for x
    using that rec_keys(3) by (auto simp: record_origins_def)
  have ver_keys: "map mv_id ?U = map mv_id (memory_record_versions d)"
    "(\<lambda>v. (mv_tenant_id v, mv_id v)) ` set ?U = (\<lambda>v. (mv_tenant_id v, mv_id v)) ` set (memory_record_versions d)"
    "(\<lambda>v. (mv_tenant_id v, mv_memory_record_id v)) ` set ?U = (\<lambda>v. (mv_tenant_id v, mv_memory_record_id v)) ` set (memory_record_versions d)"
    using g by (simp_all add: image_update_where)
  have other: "versions_of d' i = versions_of d i" if "i \<noteq> mr_id r" for i
    using that v(2) by (auto simp: versions_of_def vers g(3) intro!: filter_update_where_other)
  have emb: "embeddings_of d' i = filter Q (embeddings_of d i)" for i
    by (simp add: embeddings_of_def embs conj_commute)
  have "rec_ok d' x" if "x \<in> set (memory_records d')" for x
  proof (cases "mr_id x = mr_id r")
    case True
    then show ?thesis using that hit ok by (auto simp: recs set_update_where split: if_splits)
  next
    case False
    then have "x \<in> set (memory_records d)" using that f(1) hit by (auto simp: recs set_update_where split: if_splits)
    with False inv show ?thesis by (auto simp: mem_inv_def rec_ok_def other emb Let_def)
  qed
  moreover have "cand_ok d' x" if "x \<in> set (memory_candidates d')" for x
    using inv that by (simp add: mem_inv_def cands cand_ok_def rec_keys)
  moreover have "mem_keys d'"
  proof -
    have "distinct (map mv_id ?U)" "mv_id v \<notin> set (map mv_id ?U)"
      unfolding ver_keys(1) using keys v(3) by (simp_all add: mem_keys_def)
    then have "distinct (map mv_id (memory_record_versions d'))" by (simp add: vers)
    with keys rec_keys(1) show ?thesis by (simp add: mem_keys_def cands embs distinct_map_filter)
  qed
  moreover have "mem_refs_ok d'"
  proof -
    let ?k = "\<lambda>v. (mv_tenant_id v, mv_memory_record_id v)" and ?K = "(\<lambda>r. (mr_tenant_id r, mr_id r)) ` set (memory_records d)"
    have "?k ` set ?U \<subseteq> ?K" unfolding ver_keys(3) using refs by (auto simp: mem_refs_ok_def)
    moreover have "?k v \<in> ?K" using v(1,2) r by auto
    ultimately have "?k ` set (memory_record_versions d') \<subseteq> ?K" by (simp add: vers)
    then have "\<forall>x\<in>set (memory_record_versions d'). ?k x \<in> (\<lambda>r. (mr_tenant_id r, mr_id r)) ` set (memory_records d')"
      unfolding rec_keys by blast
    moreover have "\<forall>m\<in>set (memory_embeddings d'). (me_tenant_id m, me_memory_record_version_id m) \<in>
        (\<lambda>v. (mv_tenant_id v, mv_id v)) ` set (memory_record_versions d')"
      using refs ver_keys(2) unfolding mem_refs_ok_def vers embs by auto
    moreover have "(c, Some (mr_id x)) \<in> promotions d'" if "x \<in> set (memory_records d')" "mr_source_candidate_id x = Some c" for x c
      using src [OF that(1)] that(2) refs by (auto simp: mem_refs_ok_def record_origins_def promotions_def cands)
    ultimately show ?thesis by (simp add: mem_refs_ok_def)
  qed
  moreover have "one_active d'"
  proof -
    have len: "length (filter (\<lambda>m. me_status m = ACTIVE) (filter Q xs)) \<le> length (filter (\<lambda>m. me_status m = ACTIVE) xs)" for xs
      by (induction xs) auto
    have "embeddings_of d (mv_id v) = []" using fresh_version_no_embeddings [OF refs v(3)] .
    moreover have "length (filter (\<lambda>m. me_status m = ACTIVE) (filter Q (embeddings_of d (mv_id y)))) \<le> 1"
      if "y \<in> set ?U" for y
    proof -
      from that have "mv_id y \<in> mv_id ` set (memory_record_versions d)"
        using arg_cong [OF ver_keys(1), of set] by auto
      with inv have "length (filter (\<lambda>m. me_status m = ACTIVE) (embeddings_of d (mv_id y))) \<le> 1"
        by (auto simp: mem_inv_def one_active_def)
      with len show ?thesis by (rule order_trans)
    qed
    ultimately show ?thesis unfolding one_active_def vers emb by simp
  qed
  ultimately show ?thesis by (simp add: mem_inv_def)
qed

lemma rec_ok_versions:
  assumes "rec_ok d r"
  shows "map mv_version_number (versions_of d (mr_id r)) = [1..<Suc (length (versions_of d (mr_id r)))]"
    "mr_deleted_at r = None \<Longrightarrow> v \<in> set (versions_of d (mr_id r)) \<Longrightarrow> \<not> mv_is_deletion_marker v"
proof -
  let ?vs = "versions_of d (mr_id r)"
  show "map mv_version_number ?vs = [1..<Suc (length ?vs)]" using assms by (simp add: rec_ok_def Let_def)
  have "?vs = butlast ?vs @ [last ?vs]" using assms by (simp add: rec_ok_def Let_def)
  then have "set ?vs = set (butlast ?vs) \<union> {last ?vs}" by (metis set_append list.simps(15) empty_set)
  then show "mr_deleted_at r = None \<Longrightarrow> v \<in> set ?vs \<Longrightarrow> \<not> mv_is_deletion_marker v"
    using assms by (auto simp: rec_ok_def Let_def)
qed

lemma rec_ok_append:
  assumes vs: "versions_of d r_id = us @ [v]" "mr_id r = r_id" "map mv_version_number us = [1..<Suc (length us)]"
      "mv_version_number v = Suc (length us)"
    and cur: "mr_current_version_id r = Some (mv_id v)" "mr_content r = mv_content v"
    and mark: "\<And>u. u \<in> set us \<Longrightarrow> \<not> mv_is_deletion_marker u" "mr_deleted_at r \<noteq> None \<longleftrightarrow> mv_is_deletion_marker v"
    and gone: "\<And>u. mr_deleted_at r \<noteq> None \<Longrightarrow> u \<in> set (us @ [v]) \<Longrightarrow> mv_content u = DELETION_TOMBSTONE_CONTENT \<and> embeddings_of d (mv_id u) = []"
  shows "rec_ok d r"
proof -
  have "map mv_version_number (us @ [v]) = [1..<Suc (length (us @ [v]))]"
    using vs(3,4) by simp
  moreover have "\<forall>u\<in>set (us @ [v]). mv_content u = DELETION_TOMBSTONE_CONTENT \<and> embeddings_of d (mv_id u) = []"
    if "mr_deleted_at r \<noteq> None"
    using gone that by blast
  ultimately show ?thesis
    unfolding rec_ok_def Let_def vs(1,2) using cur mark by (simp only: butlast_snoc last_snoc snoc_eq_iff_butlast) simp
qed

lemma mem_inv_supersede:
  assumes inv: "mem_inv d" and r: "r \<in> set (memory_records d)" "mr_id r = su_memoryRecordId inp"
      "mr_tenant_id r = su_tenantId inp" "mr_deleted_at r = None"
    and n: "n = length (versions_of d (mr_id r))" and fresh: "env_uuid e 0 \<notin> mv_id ` set (memory_record_versions d)"
  shows "mem_inv (after_supersede e inp n d)"
proof (rule mem_inv_new_version [OF inv r(1)])
  let ?d = "after_supersede e inp n d"
  let ?v = "versionRow e (su_tenantId inp) (su_memoryRecordId inp) (n + 1) (su_newContent inp) (su_changeReason inp) False"
  show "memory_records ?d = update_where (\<lambda>x. mr_id x = mr_id r \<and> mr_tenant_id x = mr_tenant_id r)
      (supersededRecord e (su_newContent inp)) (memory_records d)"
    "memory_record_versions ?d = update_where (\<lambda>x. mv_tenant_id x = mr_tenant_id r \<and> mv_memory_record_id x = mr_id r)
      (\<lambda>x. x) (memory_record_versions d) @ [?v]"
    "memory_candidates ?d = memory_candidates d" "memory_embeddings ?d = filter (\<lambda>m. True) (memory_embeddings d)"
    using r(2,3) by (simp_all add: after_supersede_def) (simp add: update_where_def)
  have "versions_of ?d (mr_id r) = versions_of d (mr_id r) @ [?v]"
    using r(2) by (subst versions_of_append [of ?d d ?v]) (simp_all add: after_supersede_def versionRow_def)
  moreover from inv r(1) have "rec_ok d r" by (simp add: mem_inv_def)
  ultimately show "rec_ok ?d (supersededRecord e (su_newContent inp) r)"
    using rec_ok_versions [of d r] r(4) n
    by (intro rec_ok_append [of ?d "mr_id r" "versions_of d (mr_id r)" ?v]) (simp_all add: supersededRecord_def versionRow_def)
qed (use r fresh in \<open>simp_all add: supersededRecord_def versionRow_def\<close>)

lemma mem_inv_delete:
  assumes inv: "mem_inv d" and r: "r \<in> set (memory_records d)" "mr_id r = dl_memoryRecordId inp"
      "mr_tenant_id r = dl_tenantId inp" "mr_deleted_at r = None"
    and n: "n = length (versions_of d (mr_id r))" and vids: "vids = map mv_id (versions_of d (mr_id r))"
    and fresh: "env_uuid e 0 \<notin> mv_id ` set (memory_record_versions d)"
  shows "mem_inv (after_delete e inp vids n d)"
proof (rule mem_inv_new_version [OF inv r(1)])
  let ?d = "after_delete e inp vids n d" and ?g = "\<lambda>x. x\<lparr>mv_content := DELETION_TOMBSTONE_CONTENT\<rparr>"
  let ?v = "versionRow e (dl_tenantId inp) (dl_memoryRecordId inp) (n + 1) DELETION_TOMBSTONE_CONTENT (dl_reason inp) True"
  note keys = inv [unfolded mem_inv_def, THEN conjunct1] and refs = inv [unfolded mem_inv_def, THEN conjunct2, THEN conjunct1]
  show "memory_records ?d = update_where (\<lambda>x. mr_id x = mr_id r \<and> mr_tenant_id x = mr_tenant_id r) (tombstoned e) (memory_records d)"
    "memory_record_versions ?d = update_where (\<lambda>x. mv_tenant_id x = mr_tenant_id r \<and> mv_memory_record_id x = mr_id r) ?g
      (memory_record_versions d) @ [?v]"
    "memory_candidates ?d = memory_candidates d"
    "memory_embeddings ?d = filter (\<lambda>m. \<not> (me_tenant_id m = dl_tenantId inp \<and> me_memory_record_version_id m \<in> set vids)) (memory_embeddings d)"
    using r(2,3) by (simp_all add: after_delete_def)
  have ten: "v \<in> set (memory_record_versions d) \<Longrightarrow> mv_memory_record_id v = mr_id r \<Longrightarrow> mv_tenant_id v = dl_tenantId inp" for v
    using version_tenant [OF keys refs r(1)] r(3) by simp
  have "filter (\<lambda>v. mv_memory_record_id v = mr_id r) (update_where
      (\<lambda>x. mv_tenant_id x = dl_tenantId inp \<and> mv_memory_record_id x = dl_memoryRecordId inp) ?g xs) =
      map ?g (filter (\<lambda>v. mv_memory_record_id v = mr_id r) xs)" if "set xs \<subseteq> set (memory_record_versions d)" for xs
    using that ten r(2) by (induction xs) auto
  then have vs: "versions_of ?d (mr_id r) = map ?g (versions_of d (mr_id r)) @ [?v]"
    using r(2) by (simp add: versions_of_def after_delete_def versionRow_def)
  have none: "embeddings_of ?d (mv_id v) = []" if "v \<in> set (versions_of d (mr_id r))" for v
  proof -
    from that have v: "v \<in> set (memory_record_versions d)" "mv_memory_record_id v = mr_id r" by (auto simp: versions_of_def)
    have "me_tenant_id m = dl_tenantId inp" if m: "m \<in> set (memory_embeddings d)" "me_memory_record_version_id m = mv_id v" for m
    proof -
      from m(1) refs obtain w where w: "w \<in> set (memory_record_versions d)" "mv_id w = me_memory_record_version_id m"
          "mv_tenant_id w = me_tenant_id m"
        by (auto simp: mem_refs_ok_def)
      with m(2) v(1) have "w = v" by (auto intro: mv_unique [OF keys])
      with w ten [OF v] show ?thesis by simp
    qed
    with \<open>v \<in> set (versions_of d (mr_id r))\<close> show ?thesis
      by (auto simp: embeddings_of_def after_delete_def vids filter_empty_conv)
  qed
  have "embeddings_of ?d (env_uuid e 0) = []"
    using fresh_version_no_embeddings [OF refs fresh] by (auto simp: embeddings_of_def after_delete_def filter_empty_conv)
  moreover from inv r(1) have "rec_ok d r" by (simp add: mem_inv_def)
  ultimately show "rec_ok ?d (tombstoned e r)"
    using rec_ok_versions [of d r] r(4) n none vs
    by (intro rec_ok_append [of ?d "mr_id r" "map ?g (versions_of d (mr_id r))" ?v])
      (auto simp: tombstoned_def versionRow_def o_def simp del: upt_Suc)
qed (use r fresh in \<open>simp_all add: tombstoned_def versionRow_def\<close>)

lemma embedding_tenant:
  assumes "mem_inv d" "v \<in> set (memory_record_versions d)" "m \<in> set (memory_embeddings d)"
    "me_memory_record_version_id m = mv_id v"
  shows "me_tenant_id m = mv_tenant_id v"
proof -
  from assms obtain w where "w \<in> set (memory_record_versions d)" "mv_id w = mv_id v" "mv_tenant_id w = me_tenant_id m"
    by (auto simp: mem_inv_def mem_refs_ok_def)
  with assms(1,2) mv_unique [of d w v] show ?thesis by (simp add: mem_inv_def)
qed

lemma after_embed_embeddings:
  assumes "mem_inv d" "v \<in> set (memory_record_versions d)" "mv_id v = wb_memoryRecordVersionId inp"
    "mv_tenant_id v = wb_tenantId inp"
  shows "embeddings_of (after_embed e inp v stored d) i =
    (if i = mv_id v then map (\<lambda>m. if me_status m = ACTIVE then m\<lparr>me_status := EMB_SUPERSEDED,
       me_superseded_by_embedding_id := Some (env_uuid e 0)\<rparr> else m) (embeddings_of d i) @ [embeddingRow e inp v stored]
     else embeddings_of d i)"
proof -
  let ?P = "\<lambda>m. me_tenant_id m = wb_tenantId inp \<and> me_memory_record_version_id m = wb_memoryRecordVersionId inp \<and> me_status m = ACTIVE"
  let ?f = "\<lambda>m. m\<lparr>me_status := EMB_SUPERSEDED, me_superseded_by_embedding_id := Some (env_uuid e 0)\<rparr>"
  have "filter (\<lambda>m. me_memory_record_version_id m = i) (update_where ?P ?f ms) =
      map (\<lambda>m. if i = mv_id v \<and> me_status m = ACTIVE then ?f m else m) (filter (\<lambda>m. me_memory_record_version_id m = i) ms)"
    if "set ms \<subseteq> set (memory_embeddings d)" for ms
    using that embedding_tenant [OF assms(1,2)] assms(3,4) by (induction ms) auto
  then show ?thesis
    using assms(3) by (simp add: embeddings_of_def after_embed_def embeddingRow_def)
qed

lemma mem_inv_embed:
  assumes inv: "mem_inv d" and v: "v \<in> set (memory_record_versions d)" "mv_id v = wb_memoryRecordVersionId inp"
      "mv_tenant_id v = wb_tenantId inp"
    and r: "r \<in> set (memory_records d)" "mr_id r = mv_memory_record_id v" "mr_deleted_at r = None"
    and fresh: "env_uuid e 0 \<notin> me_id ` set (memory_embeddings d)"
  shows "mem_inv (after_embed e inp v stored d)"
proof -
  let ?d = "after_embed e inp v stored d"
  note keys = inv [unfolded mem_inv_def, THEN conjunct1] and refs = inv [unfolded mem_inv_def, THEN conjunct2, THEN conjunct1]
  note emb = after_embed_embeddings [OF inv v]
  have tabs: "memory_records ?d = memory_records d" "memory_record_versions ?d = memory_record_versions d"
    "memory_candidates ?d = memory_candidates d" by (simp_all add: after_embed_def)
  have derived: "versions_of ?d = versions_of d" "promotions ?d = promotions d" "record_origins ?d = record_origins d"
    by (simp_all add: fun_eq_iff versions_of_def promotions_def record_origins_def tabs)
  have "rec_ok ?d x" if x: "x \<in> set (memory_records d)" for x
  proof -
    have "embeddings_of ?d (mv_id u) = embeddings_of d (mv_id u)"
      if "mr_deleted_at x \<noteq> None" "u \<in> set (versions_of d (mr_id x))" for u
    proof -
      have "mv_id u \<noteq> mv_id v"
        using that mv_unique [OF keys _ v(1), of u] mr_unique [OF keys r(1) x] r(2,3) by (auto simp: versions_of_def)
      then show ?thesis by (simp add: emb)
    qed
    with inv x show ?thesis by (simp add: mem_inv_def rec_ok_def derived Let_def)
  qed
  moreover have "one_active ?d"
  proof -
    have "filter (\<lambda>m. me_status m = ACTIVE) (map (\<lambda>m. if me_status m = ACTIVE then m\<lparr>me_status := EMB_SUPERSEDED,
        me_superseded_by_embedding_id := s\<rparr> else m) ms) = []" for s ms
      by (induction ms) auto
    then show ?thesis
      using inv by (auto simp: one_active_def mem_inv_def emb tabs embeddingRow_def)
  qed
  moreover have "mem_refs_ok ?d"
  proof -
    have "\<forall>m\<in>set (memory_embeddings ?d). (me_tenant_id m, me_memory_record_version_id m) \<in>
        (\<lambda>v. (mv_tenant_id v, mv_id v)) ` set (memory_record_versions d)"
      using refs imageI [OF v(1), of "\<lambda>v. (mv_tenant_id v, mv_id v)"] v(2,3)
      by (auto simp: mem_refs_ok_def after_embed_def set_update_where embeddingRow_def split: if_splits)
    with refs show ?thesis by (simp add: mem_refs_ok_def tabs derived)
  qed
  moreover have "mem_keys ?d"
    using keys fresh by (simp add: mem_keys_def tabs) (simp add: after_embed_def embeddingRow_def image_update_where)
  ultimately show ?thesis using inv by (simp add: mem_inv_def tabs cand_ok_def derived)
qed

subsection \<open>Every operation keeps the invariant\<close>

definition keeps_mem_inv :: "db \<Rightarrow> db \<Rightarrow> bool" where
  "keeps_mem_inv d d' \<longleftrightarrow> (mem_inv d \<longrightarrow> mem_inv d')"

interpretation mem_keep: db_preorder keeps_mem_inv
  by unfold_locales (auto simp: keeps_mem_inv_def)

lemma memory_ops_keep:
  "osteps keeps_mem_inv (reviewMemoryCandidate e vi)"
  "osteps keeps_mem_inv (promoteMemoryCandidate e pi')"
  "osteps keeps_mem_inv (supersedeMemoryRecord e si)"
  "osteps keeps_mem_inv (runDeleteMemoryRecord e di inject)"
  "osteps keeps_mem_inv (runWriteMemoryEmbedding nf cast e wi inject)"
proof -
  show "osteps keeps_mem_inv (reviewMemoryCandidate e vi)"
    unfolding reviewMemoryCandidate_def
    by (rule mem_keep.osteps_tx) (auto simp: steps_def keeps_mem_inv_def elim!: review_Inr intro: mem_inv_review)
  show "osteps keeps_mem_inv (promoteMemoryCandidate e pi')"
    unfolding promoteMemoryCandidate_def
    by (rule mem_keep.osteps_tx) (auto simp: steps_def keeps_mem_inv_def elim!: promote_Inr intro!: mem_inv_promote)
  show "osteps keeps_mem_inv (supersedeMemoryRecord e si)"
    unfolding supersedeMemoryRecord_def
  proof (rule mem_keep.osteps_tx)
    fix c :: client assume c: "cl_tenant c = su_tenantId si"
    show "steps keeps_mem_inv (supersedeMemoryRecord_tx e si c)"
      unfolding steps_def keeps_mem_inv_def
    proof (intro allI impI)
      fix d res d' assume tx: "supersedeMemoryRecord_tx e si c d = Inr (res, d')" and inv: "mem_inv d"
      from tx obtain r n where r: "r \<in> set (memory_records d)" "mr_id r = su_memoryRecordId si" "mr_tenant_id r = su_tenantId si"
          "mr_deleted_at r = None" "n = maxVersion c (su_tenantId si) (su_memoryRecordId si) d"
          "env_uuid e 0 \<notin> mv_id ` set (memory_record_versions d)" "d' = after_supersede e si n d"
        by (rule supersede_Inr)
      with maxVersion_length [OF inv r(1), of c] c show "mem_inv d'" by (auto intro: mem_inv_supersede [OF inv])
    qed
  qed
  show "osteps keeps_mem_inv (runDeleteMemoryRecord e di inject)"
    unfolding runDeleteMemoryRecord_def
  proof (rule mem_keep.osteps_tx)
    fix c :: client assume c: "cl_tenant c = dl_tenantId di"
    show "steps keeps_mem_inv (runDeleteMemoryRecord_tx e di inject c)"
      unfolding steps_def keeps_mem_inv_def
    proof (intro allI impI)
      fix d res d' assume tx: "runDeleteMemoryRecord_tx e di inject c d = Inr (res, d')" and inv: "mem_inv d"
      from tx obtain r n vids where r: "r \<in> set (memory_records d)" "mr_id r = dl_memoryRecordId di"
          "mr_tenant_id r = dl_tenantId di" "mr_deleted_at r = None"
          "n = maxVersion c (dl_tenantId di) (dl_memoryRecordId di) d"
          "vids = version_ids c (dl_tenantId di) (dl_memoryRecordId di) d"
          "env_uuid e 0 \<notin> mv_id ` set (memory_record_versions d)" "d' = after_delete e di vids n d"
        by (rule delete_Inr)
      with maxVersion_length [OF inv r(1), of c] version_ids_of [OF inv r(1), of c] c show "mem_inv d'"
        by (auto intro: mem_inv_delete [OF inv])
    qed
  qed
  show "osteps keeps_mem_inv (runWriteMemoryEmbedding nf cast e wi inject)"
    unfolding runWriteMemoryEmbedding_def
    by (auto simp: othrow_def osteps_def keeps_mem_inv_def split: sum.split
        intro!: mem_keep.osteps_tx [THEN ostepsD, unfolded keeps_mem_inv_def, rule_format])
      (auto simp: steps_def keeps_mem_inv_def elim!: embed_Inr intro: mem_inv_embed)
qed

subsection \<open>Frames\<close>

text \<open>A memory operation changes only the four memory tables, and there only rows of its tenant.\<close>

definition mem_rest :: "db \<Rightarrow> db" where
  "mem_rest d = d\<lparr>memory_candidates := [], memory_records := [], memory_record_versions := [], memory_embeddings := []\<rparr>"

definition mem_rel :: "uuid \<Rightarrow> db \<Rightarrow> db \<Rightarrow> bool" where
  "mem_rel t d d' \<longleftrightarrow> mem_rest d' = mem_rest d \<and> tenant_frame t d d'"

interpretation mem_rel: db_preorder "mem_rel t" for t
  by unfold_locales (auto simp: mem_rel_def frame.R_refl intro: frame.R_trans)

lemma mem_rel_effects:
  "mem_rel (vc_tenantId vi) d (after_review e vi d)"
  "env_uuid (env_at 1 e) 0 \<notin> mr_id ` set (memory_records d) \<Longrightarrow>
    env_uuid (env_at 1 e) 1 \<notin> mv_id ` set (memory_record_versions d) \<Longrightarrow> mem_rel (pc_tenantId qi) d (after_promote e qi r d)"
  "env_uuid e 0 \<notin> mv_id ` set (memory_record_versions d) \<Longrightarrow> mem_rel (su_tenantId si) d (after_supersede e si n d)"
  "env_uuid e 0 \<notin> mv_id ` set (memory_record_versions d) \<Longrightarrow> mem_rel (dl_tenantId di) d (after_delete e di vids n d)"
  "env_uuid e 0 \<notin> me_id ` set (memory_embeddings d) \<Longrightarrow> mem_rel (wb_tenantId wi) d (after_embed e wi v stored d)"
proof -
  have f1: "filter (\<lambda>x. mc_tenant_id x \<noteq> t) (update_where (\<lambda>x. mc_id x = i \<and> mc_tenant_id x = t) f xs) =
      filter (\<lambda>x. mc_tenant_id x \<noteq> t) xs" if "\<And>x. mc_tenant_id (f x) = mc_tenant_id x" for t i f xs
    using that by (intro filter_update_where_other) auto
  have f2: "filter (\<lambda>x. mr_tenant_id x \<noteq> t) (update_where (\<lambda>x. mr_id x = i \<and> mr_tenant_id x = t) f xs) =
      filter (\<lambda>x. mr_tenant_id x \<noteq> t) xs" if "\<And>x. mr_tenant_id (f x) = mr_tenant_id x" for t i f xs
    using that by (intro filter_update_where_other) auto
  have f3: "filter (\<lambda>x. mv_tenant_id x \<noteq> t) (update_where (\<lambda>x. mv_tenant_id x = t \<and> mv_memory_record_id x = i) f xs) =
      filter (\<lambda>x. mv_tenant_id x \<noteq> t) xs" if "\<And>x. mv_tenant_id (f x) = mv_tenant_id x" for t i f xs
    using that by (intro filter_update_where_other) auto
  have f4: "filter (\<lambda>x. me_tenant_id x \<noteq> t) (update_where (\<lambda>x. me_tenant_id x = t \<and> me_memory_record_version_id x = i \<and> me_status x = ACTIVE) f xs) =
      filter (\<lambda>x. me_tenant_id x \<noteq> t) xs" if "\<And>x. me_tenant_id (f x) = me_tenant_id x" for t i f xs
    using that by (intro filter_update_where_other) auto
  have f5: "filter (\<lambda>x. (me_tenant_id x = t \<longrightarrow> P x) \<and> me_tenant_id x \<noteq> t) xs = filter (\<lambda>x. me_tenant_id x \<noteq> t) xs" for t P xs
    by (intro filter_cong) auto
  show "mem_rel (vc_tenantId vi) d (after_review e vi d)"
    by (simp add: mem_rel_def mem_rest_def tenant_frame_defs after_review_def reviewedCandidate_def f1)
  show "env_uuid (env_at 1 e) 0 \<notin> mr_id ` set (memory_records d) \<Longrightarrow>
    env_uuid (env_at 1 e) 1 \<notin> mv_id ` set (memory_record_versions d) \<Longrightarrow> mem_rel (pc_tenantId qi) d (after_promote e qi r d)"
    by (simp add: mem_rel_def mem_rest_def tenant_frame_defs after_promote_def after_record_create_def newRecord_def
        firstVersion_def promotionInput_def promotedCandidate_def f1)
  show "env_uuid e 0 \<notin> mv_id ` set (memory_record_versions d) \<Longrightarrow> mem_rel (su_tenantId si) d (after_supersede e si n d)"
    by (simp add: mem_rel_def mem_rest_def tenant_frame_defs after_supersede_def supersededRecord_def versionRow_def f2)
  show "env_uuid e 0 \<notin> mv_id ` set (memory_record_versions d) \<Longrightarrow> mem_rel (dl_tenantId di) d (after_delete e di vids n d)"
    by (simp add: mem_rel_def mem_rest_def tenant_frame_defs after_delete_def tombstoned_def versionRow_def
        f2 f3 f5 distinct_map_filter image_update_where)
  show "env_uuid e 0 \<notin> me_id ` set (memory_embeddings d) \<Longrightarrow> mem_rel (wb_tenantId wi) d (after_embed e wi v stored d)"
    by (simp add: mem_rel_def mem_rest_def tenant_frame_defs after_embed_def embeddingRow_def f4 image_update_where)
qed

lemma memory_ops_rel:
  "osteps (mem_rel (vc_tenantId vi)) (reviewMemoryCandidate e vi)"
  "osteps (mem_rel (pc_tenantId qi)) (promoteMemoryCandidate e qi)"
  "osteps (mem_rel (su_tenantId si)) (supersedeMemoryRecord e si)"
  "osteps (mem_rel (dl_tenantId di)) (runDeleteMemoryRecord e di inject)"
  "osteps (mem_rel (wb_tenantId wi)) (runWriteMemoryEmbedding nf cast e wi inject)"
proof -
  show "osteps (mem_rel (vc_tenantId vi)) (reviewMemoryCandidate e vi)"
    unfolding reviewMemoryCandidate_def
    by (rule mem_rel.osteps_tx) (auto simp: steps_def elim!: review_Inr intro: mem_rel_effects)
  show "osteps (mem_rel (pc_tenantId qi)) (promoteMemoryCandidate e qi)"
    unfolding promoteMemoryCandidate_def
    by (rule mem_rel.osteps_tx) (auto simp: steps_def elim!: promote_Inr intro!: mem_rel_effects)
  show "osteps (mem_rel (su_tenantId si)) (supersedeMemoryRecord e si)"
    unfolding supersedeMemoryRecord_def
    by (rule mem_rel.osteps_tx) (auto simp: steps_def elim!: supersede_Inr intro: mem_rel_effects)
  show "osteps (mem_rel (dl_tenantId di)) (runDeleteMemoryRecord e di inject)"
    unfolding runDeleteMemoryRecord_def
    by (rule mem_rel.osteps_tx) (auto simp: steps_def elim!: delete_Inr intro: mem_rel_effects)
  show "osteps (mem_rel (wb_tenantId wi)) (runWriteMemoryEmbedding nf cast e wi inject)"
  proof (cases "serializeVector nf (wb_embedding wi)")
    case (Inl err)
    then show ?thesis by (simp add: runWriteMemoryEmbedding_def mem_rel.osteps_pure)
  next
    case (Inr s)
    have "osteps (mem_rel (wb_tenantId wi)) (withTenantTransaction e (wb_tenantId wi) (runWriteMemoryEmbedding_tx nf cast e wi s inject))"
      by (rule mem_rel.osteps_tx) (auto simp: steps_def elim!: embed_Inr intro: mem_rel_effects)
    with Inr show ?thesis by (simp add: runWriteMemoryEmbedding_def)
  qed
qed

text \<open>Other components only add candidates that nobody has reviewed.\<close>

definition mem_untouched :: "db \<Rightarrow> db \<Rightarrow> bool" where
  "mem_untouched d d' \<longleftrightarrow> memory_records d' = memory_records d \<and> memory_record_versions d' = memory_record_versions d \<and>
     memory_embeddings d' = memory_embeddings d \<and>
     (\<exists>cs. memory_candidates d' = memory_candidates d @ cs \<and> distinct (map mc_id cs) \<and>
        (\<forall>x\<in>set cs. mc_id x \<notin> mc_id ` set (memory_candidates d) \<and> mc_review_status x = proposed \<and>
           mc_promoted_memory_record_id x = None))"

lemma mem_untouched_same:
  "memory_candidates d' = memory_candidates d \<Longrightarrow> memory_records d' = memory_records d \<Longrightarrow>
   memory_record_versions d' = memory_record_versions d \<Longrightarrow> memory_embeddings d' = memory_embeddings d \<Longrightarrow> mem_untouched d d'"
  by (simp add: mem_untouched_def)

lemma mem_inv_untouched:
  assumes "mem_inv d" "mem_untouched d d'"
  shows "mem_inv d'"
proof -
  from assms(2) obtain cs where cs: "memory_candidates d' = memory_candidates d @ cs" "distinct (map mc_id cs)"
      "\<forall>x\<in>set cs. mc_id x \<notin> mc_id ` set (memory_candidates d) \<and> mc_review_status x = proposed \<and> mc_promoted_memory_record_id x = None"
    and tabs: "memory_records d' = memory_records d" "memory_record_versions d' = memory_record_versions d"
      "memory_embeddings d' = memory_embeddings d"
    by (auto simp: mem_untouched_def)
  have derived: "versions_of d' = versions_of d" "embeddings_of d' = embeddings_of d" "record_origins d' = record_origins d"
    "promotions d \<subseteq> promotions d'"
    by (auto simp: fun_eq_iff versions_of_def embeddings_of_def promotions_def record_origins_def tabs cs(1))
  have "i \<notin> mc_id ` set (memory_candidates d)" if "i \<in> mc_id ` set cs" for i
    using that cs(3) by (auto simp del: image_iff)
  then have "mc_id ` set (memory_candidates d) \<inter> mc_id ` set cs = {}" by blast
  then have "mem_keys d'" using assms(1) cs(1,2) by (simp add: mem_inv_def mem_keys_def tabs)
  moreover have "mem_refs_ok d'" using assms(1) derived(4) by (auto simp: mem_inv_def mem_refs_ok_def tabs)
  moreover have "\<forall>x\<in>set (memory_candidates d'). cand_ok d' x"
    using assms(1) cs(3) by (auto simp: mem_inv_def cand_ok_def derived cs(1))
  ultimately show ?thesis
    using assms(1) by (simp add: mem_inv_def one_active_def rec_ok_def derived tabs)
qed

end
