(* ===== verification/World.thy ===== *)
theory World
  imports Frames Vectors
begin

text \<open>
  \<open>src/src/elora/world-state/\<close>: explicitly created entities with their aliases, and claims about the
  world with typed evidence. A claim is never changed: a correction is a new claim that points to the
  one it supersedes. \<open>world_pg\<close> is what the code relies on outside its text: \<open>Date.parse\<close>, and how
  PostgreSQL reads a \<open>timestamptz\<close> and rounds a \<open>real\<close>. Ids are UUIDs and JSON values are finite
  trees by typing, so the tests of \<open>validateBaseInput\<close> that reject other values cannot fail here.
\<close>

record world_pg =
  wp_dateParse :: "string \<Rightarrow> int option"
  wp_timestamptz :: "string \<Rightarrow> timestamp option"
  wp_real :: "rat \<Rightarrow> rat"

subsection \<open>Entities\<close>

record create_entity_input =
  ne_tenantId :: uuid
  ne_entityType :: string
  ne_canonicalName :: string
  ne_aliases :: "string list option"

definition rowToEntity :: "entity \<Rightarrow> error + entity" where
  "rowToEntity r = (if entitySchema_ok r then Inr r else Inl (ZodError ''entity''))"

definition rowToAlias :: "entity_alias \<Rightarrow> error + entity_alias" where
  "rowToAlias r = (if entityAliasSchema_ok r then Inr r else Inl (ZodError ''entityAlias''))"

definition entity_input_error :: "string \<Rightarrow> error" where
  "entity_input_error reason = WorldStateError (InvalidEntityInputError reason)"

fun checkAliases :: "string list \<Rightarrow> string list \<Rightarrow> error + unit" where
  "checkAliases seen [] = Inr ()"
| "checkAliases seen (a # as) =
     (if js_trim a = [] then Inl (entity_input_error ''alias must not be empty'')
      else if a \<in> set seen then Inl (entity_input_error (''duplicate alias in request: '' @ a))
      else checkAliases (a # seen) as)"

definition or_empty :: "'a list option \<Rightarrow> 'a list" where
  "or_empty v = (case v of None \<Rightarrow> [] | Some xs \<Rightarrow> xs)"

definition validateEntityInput :: "create_entity_input \<Rightarrow> error + string list" where
  "validateEntityInput inp =
     (if js_trim (ne_entityType inp) = [] then Inl (entity_input_error ''entityType must not be empty'')
      else if js_trim (ne_canonicalName inp) = [] then Inl (entity_input_error ''canonicalName must not be empty'')
      else case checkAliases [] (or_empty (ne_aliases inp)) of
          Inl err \<Rightarrow> Inl err
        | Inr _ \<Rightarrow> Inr (or_empty (ne_aliases inp)))"

definition entityRow :: "env \<Rightarrow> create_entity_input \<Rightarrow> entity" where
  "entityRow e inp = \<lparr>en_id = env_uuid e 0, en_tenant_id = ne_tenantId inp, en_entity_type = ne_entityType inp,
     en_canonical_name = ne_canonicalName inp, en_created_at = env_now e 0\<rparr>"

text \<open>The row of the \<open>i\<close>-th alias\<close>

definition aliasRow :: "env \<Rightarrow> create_entity_input \<Rightarrow> nat \<Rightarrow> string \<Rightarrow> entity_alias" where
  "aliasRow e inp i a = \<lparr>ea_id = env_uuid e (Suc i), ea_tenant_id = ne_tenantId inp, ea_entity_id = env_uuid e 0,
     ea_alias = a, ea_created_at = env_now e 0\<rparr>"

definition createEntity_tx :: "env \<Rightarrow> create_entity_input \<Rightarrow> string list \<Rightarrow> client \<Rightarrow> (entity \<times> entity_alias list) dtx" where
  "createEntity_tx e inp aliases c =
     tbind (insert_entity (entityRow e inp)) (\<lambda>_.
     tbind (lift_result (rowToEntity (entityRow e inp))) (\<lambda>entity.
     tbind (insert_each insert_entity_alias rowToAlias (numbered (aliasRow e inp) aliases)) (\<lambda>rows.
     treturn (entity, rows))))"

definition createEntity :: "env \<Rightarrow> create_entity_input \<Rightarrow> (entity \<times> entity_alias list) dop" where
  "createEntity e inp =
     (case validateEntityInput inp of
        Inl err \<Rightarrow> othrow err
      | Inr aliases \<Rightarrow> withTenantTransaction e (ne_tenantId inp) (createEntity_tx e inp aliases))"

subsection \<open>Claims\<close>

datatype evidence_source = Evidence (ev_kind: evidence_kind) (ev_id: uuid)

record record_claim_input =
  rc_tenantId :: uuid
  rc_subjectEntityId :: "uuid option"
  rc_predicate :: string
  rc_claimKind :: claim_kind
  rc_confidence :: "js_number option"
  rc_sensitivity :: "string option"
  rc_refreshAfter :: "string option"
  rc_validFrom :: string
  rc_validTo :: "string option"
  rc_status :: "claim_status option"
  rc_supersedesClaimId :: "uuid option"
  rc_evidence :: "evidence_source list option"
  rc_objectEntityId :: "uuid option"
  rc_objectValue :: "json option"

text \<open>A JSON \<open>null\<close> object comes back from the driver as \<open>null\<close>, like a missing one.\<close>

definition rowToClaim :: "claim \<Rightarrow> error + claim" where
  "rowToClaim r =
     (if claimSchema_ok r
      then Inr (r\<lparr>clm_object_value := (if clm_object_value r = Some JNull then None else clm_object_value r)\<rparr>)
      else Inl (ZodError ''claim''))"

definition rowToClaimEvidence :: "claim_evidence \<Rightarrow> error + claim_evidence" where
  "rowToClaimEvidence r = Inr r"

fun evidence_table :: "evidence_kind \<Rightarrow> ref_table" where
  "evidence_table ev_message = tbl_messages"
| "evidence_table ev_work_order = tbl_work_orders"
| "evidence_table ev_authority_decision = tbl_authority_decisions"
| "evidence_table ev_action_receipt = tbl_action_receipts"
| "evidence_table ev_directive = tbl_operator_directives"
| "evidence_table ev_briefing_issue = tbl_briefing_issues"
| "evidence_table ev_trigger = tbl_scheduled_triggers"
| "evidence_table ev_memory_record = tbl_memory_records"

definition claim_input_error :: "string \<Rightarrow> error" where
  "claim_input_error reason = WorldStateError (InvalidClaimInputError reason)"

definition require_input :: "bool \<Rightarrow> string \<Rightarrow> error + unit \<Rightarrow> error + unit" where
  "require_input b reason rest = (if b then rest else Inl (claim_input_error reason))"

definition unit_interval :: "js_number option \<Rightarrow> bool" where
  "unit_interval v = (case v of None \<Rightarrow> True | Some NotFinite \<Rightarrow> False | Some (Finite p) \<Rightarrow> 0 \<le> p \<and> p \<le> 1)"

definition validateWindow :: "world_pg \<Rightarrow> record_claim_input \<Rightarrow> error + unit \<Rightarrow> error + unit" where
  "validateWindow pg inp rest =
     (case wp_dateParse pg (rc_validFrom inp) of
        None \<Rightarrow> Inl (claim_input_error ''validFrom must be a valid timestamp'')
      | Some validFromMs \<Rightarrow> (case rc_validTo inp of
            None \<Rightarrow> rest
          | Some v \<Rightarrow> (case wp_dateParse pg v of
                None \<Rightarrow> Inl (claim_input_error ''validTo must be a valid timestamp'')
              | Some validToMs \<Rightarrow> require_input (validFromMs < validToMs) ''validTo must be strictly after validFrom'' rest)))"

definition validateBaseInput :: "world_pg \<Rightarrow> record_claim_input \<Rightarrow> error + unit" where
  "validateBaseInput pg inp =
     require_input (js_trim (rc_predicate inp) \<noteq> []) ''predicate must not be empty''
    (require_input (unit_interval (rc_confidence inp)) ''confidence must be between 0 and 1''
    (require_input (case rc_sensitivity inp of None \<Rightarrow> True | Some s \<Rightarrow> js_trim s \<noteq> []) ''sensitivity must not be blank when provided''
    (validateWindow pg inp
    (require_input ((rc_objectEntityId inp \<noteq> None) \<noteq> (rc_objectValue inp \<noteq> None))
       ''exactly one of objectEntityId or objectValue must be provided (both present or both absent is invalid)''
       (Inr ())))))"

definition check_reference :: "client \<Rightarrow> ref_table \<Rightarrow> uuid \<Rightarrow> (uuid \<Rightarrow> world_state_error) \<Rightarrow> uuid option \<Rightarrow> unit dtx" where
  "check_reference c tbl tenantId notFound v =
     (case v of None \<Rightarrow> treturn () | Some i \<Rightarrow> assertTenantScopedReference c tbl i tenantId (WorldStateError (notFound i)))"

fun check_evidence :: "client \<Rightarrow> uuid \<Rightarrow> evidence_source list \<Rightarrow> unit dtx" where
  "check_evidence c tenantId [] = treturn ()"
| "check_evidence c tenantId (s # ss) =
     tbind (assertTenantScopedReference c (evidence_table (ev_kind s)) (ev_id s) tenantId
       (WorldStateError (ClaimEvidenceSourceNotFoundError (ev_kind s) (ev_id s)))) (\<lambda>_.
     check_evidence c tenantId ss)"

definition validateTenantReferences :: "client \<Rightarrow> record_claim_input \<Rightarrow> unit dtx" where
  "validateTenantReferences c inp =
     tbind (check_reference c tbl_entities (rc_tenantId inp) (EntityNotFoundError ''subjectEntityId'') (rc_subjectEntityId inp)) (\<lambda>_.
     tbind (check_reference c tbl_entities (rc_tenantId inp) (EntityNotFoundError ''objectEntityId'') (rc_objectEntityId inp)) (\<lambda>_.
     tbind (check_reference c tbl_claims (rc_tenantId inp) ClaimNotFoundError (rc_supersedesClaimId inp)) (\<lambda>_.
     check_evidence c (rc_tenantId inp) (or_empty (rc_evidence inp)))))"

text \<open>The parameters of the insert, as PostgreSQL reads them; \<open>None\<close> when it rejects a timestamp.\<close>

definition pg_instant :: "world_pg \<Rightarrow> string option \<Rightarrow> timestamp option option" where
  "pg_instant pg v = (case v of None \<Rightarrow> Some None | Some s \<Rightarrow> map_option Some (wp_timestamptz pg s))"

definition claimRow :: "world_pg \<Rightarrow> env \<Rightarrow> record_claim_input \<Rightarrow> claim option" where
  "claimRow pg e inp =
     Option.bind (pg_instant pg (rc_refreshAfter inp)) (\<lambda>refreshAfter.
     Option.bind (wp_timestamptz pg (rc_validFrom inp)) (\<lambda>validFrom.
     Option.bind (pg_instant pg (rc_validTo inp)) (\<lambda>validTo.
     Some \<lparr>clm_id = env_uuid e 0, clm_tenant_id = rc_tenantId inp, clm_subject_entity_id = rc_subjectEntityId inp,
       clm_predicate = rc_predicate inp, clm_object_entity_id = rc_objectEntityId inp,
       clm_object_value = rc_objectValue inp, clm_claim_kind = rc_claimKind inp,
       clm_confidence = (case rc_confidence inp of Some (Finite p) \<Rightarrow> Some (wp_real pg p) | _ \<Rightarrow> None),
       clm_sensitivity = rc_sensitivity inp, clm_refresh_after = refreshAfter, clm_valid_from = validFrom,
       clm_valid_to = validTo, clm_recorded_at = env_now e 0,
       clm_status = (case rc_status inp of None \<Rightarrow> cs_active | Some s \<Rightarrow> s),
       clm_supersedes_claim_id = rc_supersedesClaimId inp\<rparr>)))"

definition evidenceRow :: "env \<Rightarrow> record_claim_input \<Rightarrow> nat \<Rightarrow> evidence_source \<Rightarrow> claim_evidence" where
  "evidenceRow e inp i s =
     (let col = (\<lambda>k. if ev_kind s = k then Some (ev_id s) else None) in
      \<lparr>ce_id = env_uuid e (Suc i), ce_tenant_id = rc_tenantId inp, ce_claim_id = env_uuid e 0, ce_source_kind = ev_kind s,
       ce_message_id = col ev_message, ce_work_order_id = col ev_work_order,
       ce_authority_decision_id = col ev_authority_decision, ce_action_receipt_id = col ev_action_receipt,
       ce_directive_id = col ev_directive, ce_briefing_issue_id = col ev_briefing_issue,
       ce_trigger_id = col ev_trigger, ce_memory_record_id = col ev_memory_record, ce_created_at = env_now e 0\<rparr>)"

definition recordClaim_tx :: "world_pg \<Rightarrow> env \<Rightarrow> record_claim_input \<Rightarrow> client \<Rightarrow> (claim \<times> claim_evidence list) dtx" where
  "recordClaim_tx pg e inp c =
     tbind (validateTenantReferences c inp) (\<lambda>_.
     case claimRow pg e inp of
       None \<Rightarrow> throw (DbError (InvalidTextRepresentation ''timestamptz''))
     | Some row \<Rightarrow>
         tbind (insert_claim row) (\<lambda>_.
         tbind (lift_result (rowToClaim row)) (\<lambda>claim.
         tbind (insert_each insert_claim_evidence rowToClaimEvidence (numbered (evidenceRow e inp) (or_empty (rc_evidence inp))))
           (\<lambda>evidence. treturn (claim, evidence)))))"

definition recordClaim :: "world_pg \<Rightarrow> env \<Rightarrow> record_claim_input \<Rightarrow> (claim \<times> claim_evidence list) dop" where
  "recordClaim pg e inp =
     (case validateBaseInput pg inp of
        Inl err \<Rightarrow> othrow err
      | Inr _ \<Rightarrow> withTenantTransaction e (rc_tenantId inp) (recordClaim_tx pg e inp))"

end
