(* ===== verification/WorldProps.thy ===== *)
theory WorldProps
  imports World Demo
begin

text \<open>
  The invariant of the world-state tables and what recording a claim guarantees: references stay within
  the tenant, a claim has exactly one object and a sound validity window, every evidence row names one
  source of its kind, and the supersession links never form a cycle.
\<close>

subsection \<open>What a committed operation did\<close>

definition after_entity :: "entity \<Rightarrow> entity_alias list \<Rightarrow> db \<Rightarrow> db" where
  "after_entity x as d = d\<lparr>entities := entities d @ [x], entity_aliases := entity_aliases d @ as\<rparr>"

definition after_claim :: "claim \<Rightarrow> claim_evidence list \<Rightarrow> db \<Rightarrow> db" where
  "after_claim x vs d = d\<lparr>claims := claims d @ [x], claim_evidence_rows := claim_evidence_rows d @ vs\<rparr>"

lemma createEntity_Inr:
  assumes "createEntity_tx e inp aliases c d = Inr ((x, as), d')"
  shows "x = entityRow e inp" "as = numbered (aliasRow e inp) aliases" "d' = after_entity x as d"
proof -
  from assms have x: "x = entityRow e inp"
    and rest: "insert_each insert_entity_alias rowToAlias (numbered (aliasRow e inp) aliases) (d\<lparr>entities := entities d @ [x]\<rparr>) = Inr (as, d')"
    by (auto simp: createEntity_tx_def tx_simps insert_entity_def rowToEntity_def split: if_splits)
  have "d' = (d\<lparr>entities := entities d @ [x]\<rparr>)\<lparr>entity_aliases := entity_aliases d @ numbered (aliasRow e inp) aliases\<rparr> \<and>
      map rowToAlias (numbered (aliasRow e inp) aliases) = map Inr as"
    using insert_each_Inr [OF rest, of "\<lambda>rs d. d\<lparr>entity_aliases := entity_aliases d @ rs\<rparr>"]
    by (simp add: insert_entity_alias_def tx_simps)
  moreover from this have "as = numbered (aliasRow e inp) aliases"
    by (auto simp: list_eq_iff_nth_eq map_equality_iff rowToAlias_def split: if_splits)
  ultimately show "x = entityRow e inp" "as = numbered (aliasRow e inp) aliases" "d' = after_entity x as d"
    using x by (simp_all add: after_entity_def)
qed

lemma check_evidence_Inr:
  "check_evidence c t ss d = Inr r \<longleftrightarrow> (\<forall>s\<in>set ss. ref_ids c (evidence_table (ev_kind s)) (ev_id s) t d \<noteq> []) \<and> r = ((), d)"
  by (induction ss) (auto simp: tx_simps)

lemma check_reference_Inr [tx_simps]:
  "check_reference c tbl t notFound v d = Inr r \<longleftrightarrow> (\<forall>i. v = Some i \<longrightarrow> ref_ids c tbl i t d \<noteq> []) \<and> r = ((), d)"
  by (auto simp: check_reference_def tx_simps split: option.split)

lemma recordClaim_Inr:
  assumes "recordClaim_tx pg e inp c d = Inr ((x, vs), d')"
  obtains row where "claimRow pg e inp = Some row" "rowToClaim row = Inr x" "claim_checks row"
    "vs = numbered (evidenceRow e inp) (or_empty (rc_evidence inp))" "d' = after_claim row vs d"
    "clm_id row \<notin> clm_id ` set (claims d)"
    "\<forall>i. rc_subjectEntityId inp = Some i \<longrightarrow> ref_ids c tbl_entities i (rc_tenantId inp) d \<noteq> []"
    "\<forall>i. rc_objectEntityId inp = Some i \<longrightarrow> ref_ids c tbl_entities i (rc_tenantId inp) d \<noteq> []"
    "\<forall>i. rc_supersedesClaimId inp = Some i \<longrightarrow> ref_ids c tbl_claims i (rc_tenantId inp) d \<noteq> []"
    "\<forall>s\<in>set (or_empty (rc_evidence inp)). ref_ids c (evidence_table (ev_kind s)) (ev_id s) (rc_tenantId inp) d \<noteq> []"
proof -
  let ?rs = "numbered (evidenceRow e inp) (or_empty (rc_evidence inp))"
  from assms obtain row where row: "claimRow pg e inp = Some row" "rowToClaim row = Inr x" "claim_checks row"
      "clm_id row \<notin> clm_id ` set (claims d)"
    and rest: "insert_each insert_claim_evidence rowToClaimEvidence ?rs (d\<lparr>claims := claims d @ [row]\<rparr>) = Inr (vs, d')"
    and refs: "validateTenantReferences c inp d = Inr ((), d)"
    by (auto simp: recordClaim_tx_def tx_simps insert_claim_def validateTenantReferences_def check_evidence_Inr)
  have "d' = (d\<lparr>claims := claims d @ [row]\<rparr>)\<lparr>claim_evidence_rows := claim_evidence_rows d @ ?rs\<rparr> \<and>
      map rowToClaimEvidence ?rs = map Inr vs"
    using insert_each_Inr [OF rest, of "\<lambda>rs d. d\<lparr>claim_evidence_rows := claim_evidence_rows d @ rs\<rparr>"]
    by (simp add: insert_claim_evidence_def tx_simps)
  moreover from this have "vs = ?rs"
    by (auto simp: list_eq_iff_nth_eq map_equality_iff rowToClaimEvidence_def)
  ultimately show thesis
    using row refs by (intro that [of row]) (simp_all add: after_claim_def validateTenantReferences_def tx_simps check_evidence_Inr)
qed

subsection \<open>The invariant\<close>

definition ent_keys :: "db \<Rightarrow> (uuid \<times> uuid) set" where
  "ent_keys d = (\<lambda>x. (en_tenant_id x, en_id x)) ` set (entities d)"

definition claim_keys :: "db \<Rightarrow> (uuid \<times> uuid) set" where
  "claim_keys d = (\<lambda>x. (clm_tenant_id x, clm_id x)) ` set (claims d)"

definition names_in :: "(uuid \<times> uuid) set \<Rightarrow> uuid \<Rightarrow> uuid option \<Rightarrow> bool" where
  "names_in keys t v \<longleftrightarrow> (case v of None \<Rightarrow> True | Some i \<Rightarrow> (t, i) \<in> keys)"

text \<open>Which claim corrects which\<close>

definition supersedes :: "db \<Rightarrow> (uuid \<times> uuid) set" where
  "supersedes d = {(clm_id x, i) | x i. x \<in> set (claims d) \<and> clm_supersedes_claim_id x = Some i}"

definition claim_ok :: "db \<Rightarrow> claim \<Rightarrow> bool" where
  "claim_ok d x \<longleftrightarrow> claim_checks x \<and> names_in (ent_keys d) (clm_tenant_id x) (clm_subject_entity_id x) \<and>
     names_in (ent_keys d) (clm_tenant_id x) (clm_object_entity_id x) \<and>
     names_in (claim_keys d) (clm_tenant_id x) (clm_supersedes_claim_id x)"

definition world_inv :: "db \<Rightarrow> bool" where
  "world_inv d \<longleftrightarrow> distinct (map clm_id (claims d)) \<and> (\<forall>x\<in>set (claims d). claim_ok d x) \<and> acyclic (supersedes d) \<and>
     (\<forall>a\<in>set (entity_aliases d). (ea_tenant_id a, ea_entity_id a) \<in> ent_keys d) \<and>
     (\<forall>v\<in>set (claim_evidence_rows d). evidence_checks v \<and> (ce_tenant_id v, ce_claim_id v) \<in> claim_keys d)"

lemma names_in_mono: "names_in ks t v \<Longrightarrow> ks \<subseteq> ks' \<Longrightarrow> names_in ks' t v"
  by (auto simp: names_in_def split: option.splits)

lemma names_in_ref:
  "(\<forall>i. v = Some i \<longrightarrow> ref_ids c tbl_entities i t d \<noteq> []) \<Longrightarrow> names_in (ent_keys d) t v"
  "(\<forall>i. v = Some i \<longrightarrow> ref_ids c tbl_claims i t d \<noteq> []) \<Longrightarrow> names_in (claim_keys d) t v"
  by (force simp: names_in_def ent_keys_def claim_keys_def scoped_rows_def filter_empty_conv split: option.split dest: set_rls_rows)+

lemma evidenceRow_checks: "evidence_checks (evidenceRow e inp i s)"
  by (cases "ev_kind s") (simp_all add: evidence_checks_def evidence_refs_def evidenceRow_def Let_def)

lemma world_inv_entity:
  assumes "world_inv d" "x = entityRow e inp" "as = numbered (aliasRow e inp) aliases"
  shows "world_inv (after_entity x as d)"
proof -
  have keys: "ent_keys (after_entity x as d) = insert (ne_tenantId inp, env_uuid e 0) (ent_keys d)"
    "claim_keys (after_entity x as d) = claim_keys d" "supersedes (after_entity x as d) = supersedes d"
    by (auto simp: ent_keys_def claim_keys_def supersedes_def after_entity_def assms(2) entityRow_def)
  have rows: "claims (after_entity x as d) = claims d" "claim_evidence_rows (after_entity x as d) = claim_evidence_rows d"
    "entity_aliases (after_entity x as d) = entity_aliases d @ as" by (simp_all add: after_entity_def)
  have old: "claim_ok d y \<Longrightarrow> claim_ok (after_entity x as d) y" for y
    by (auto simp: claim_ok_def keys intro: names_in_mono)
  have "\<forall>a\<in>set as. ea_tenant_id a = ne_tenantId inp \<and> ea_entity_id a = env_uuid e 0"
    by (auto simp: assms(3) set_numbered aliasRow_def)
  with assms(1) old show ?thesis by (simp add: world_inv_def keys rows ball_Un)
qed

lemma claimRow_Some:
  assumes "claimRow pg e inp = Some row"
  shows "clm_id row = env_uuid e 0" "clm_tenant_id row = rc_tenantId inp" "clm_subject_entity_id row = rc_subjectEntityId inp"
    "clm_object_entity_id row = rc_objectEntityId inp" "clm_supersedes_claim_id row = rc_supersedesClaimId inp"
    "clm_object_value row = rc_objectValue inp"
  using assms by (auto simp: claimRow_def bind_eq_Some_conv)

text \<open>The new claim is nobody's correction yet, so its link closes no cycle.\<close>

lemma acyclic_new_link:
  assumes "acyclic r" "x \<notin> Range r" "x \<noteq> y"
  shows "acyclic (insert (x, y) r)"
proof -
  have "(y, x) \<notin> r\<^sup>*"
    using assms(2,3) by (metis RangeI rtranclE)
  with assms(1) show ?thesis by (simp add: acyclic_insert)
qed

lemma world_inv_claim:
  assumes "world_inv d" "claimRow pg e inp = Some row" "claim_checks row" "clm_id row \<notin> clm_id ` set (claims d)"
    and "vs = numbered (evidenceRow e inp) (or_empty (rc_evidence inp))"
    and "names_in (ent_keys d) (clm_tenant_id row) (clm_subject_entity_id row)"
    and "names_in (ent_keys d) (clm_tenant_id row) (clm_object_entity_id row)"
    and "names_in (claim_keys d) (clm_tenant_id row) (clm_supersedes_claim_id row)"
  shows "world_inv (after_claim row vs d)"
proof -
  let ?d = "after_claim row vs d"
  have keys: "ent_keys ?d = ent_keys d" "claim_keys ?d = insert (clm_tenant_id row, clm_id row) (claim_keys d)"
    by (auto simp: ent_keys_def claim_keys_def after_claim_def)
  have old: "claim_ok d y \<Longrightarrow> claim_ok ?d y" for y
    by (auto simp: claim_ok_def keys intro: names_in_mono)
  have new: "claim_ok ?d row"
    using assms(3,6-8) by (auto simp: claim_ok_def keys intro: names_in_mono)
  have "clm_id row \<notin> Range (supersedes d)"
    using assms(1,4) by (fastforce simp: supersedes_def world_inv_def claim_ok_def names_in_def claim_keys_def)
  moreover have "\<And>i. clm_supersedes_claim_id row = Some i \<Longrightarrow> clm_id row \<noteq> i"
    using assms(3) by (auto simp: claim_checks_def)
  moreover have "supersedes ?d = {(clm_id row, i) | i. clm_supersedes_claim_id row = Some i} \<union> supersedes d"
    by (auto simp: supersedes_def after_claim_def)
  ultimately have "acyclic (supersedes ?d)"
    using assms(1) acyclic_new_link [of "supersedes d" "clm_id row"]
    by (cases "clm_supersedes_claim_id row") (simp_all add: world_inv_def)
  moreover have "\<forall>v\<in>set vs. evidence_checks v \<and> ce_tenant_id v = clm_tenant_id row \<and> ce_claim_id v = clm_id row"
    by (auto simp: assms(5) set_numbered evidenceRow_checks claimRow_Some [OF assms(2)])
      (simp_all add: evidenceRow_def Let_def)
  moreover have "claims ?d = claims d @ [row]" "claim_evidence_rows ?d = claim_evidence_rows d @ vs"
    "entity_aliases ?d = entity_aliases d" by (simp_all add: after_claim_def)
  ultimately show ?thesis
    using assms(1,4) old new by (simp add: world_inv_def keys ball_Un)
qed

definition keeps_world_inv :: "db \<Rightarrow> db \<Rightarrow> bool" where
  "keeps_world_inv d d' \<longleftrightarrow> (world_inv d \<longrightarrow> world_inv d')"

interpretation world_keep: db_preorder keeps_world_inv
  by unfold_locales (auto simp: keeps_world_inv_def)

lemma world_ops_keep:
  "osteps keeps_world_inv (createEntity e ni)" "osteps keeps_world_inv (recordClaim pg e ci)"
proof -
  have "steps keeps_world_inv (createEntity_tx e ni aliases c)" for aliases c
    by (auto simp: steps_def keeps_world_inv_def intro: world_inv_entity [OF _ createEntity_Inr(1,2)] dest: createEntity_Inr(3))
  then show "osteps keeps_world_inv (createEntity e ni)"
    unfolding createEntity_def by (auto split: sum.split intro: world_keep.osteps_tx world_keep.osteps_pure)
  have "steps keeps_world_inv (recordClaim_tx pg e ci c)" for c
    unfolding steps_def keeps_world_inv_def
    by (auto elim!: recordClaim_Inr intro!: world_inv_claim simp: claimRow_Some intro: names_in_ref)
  then show "osteps keeps_world_inv (recordClaim pg e ci)"
    unfolding recordClaim_def by (auto split: sum.split intro: world_keep.osteps_tx world_keep.osteps_pure)
qed

subsection \<open>Frames\<close>

definition world_rest :: "db \<Rightarrow> db" where
  "world_rest d = d\<lparr>entities := [], entity_aliases := [], claims := [], claim_evidence_rows := []\<rparr>"

definition world_rel :: "uuid \<Rightarrow> db \<Rightarrow> db \<Rightarrow> bool" where
  "world_rel t d d' \<longleftrightarrow> world_rest d' = world_rest d \<and> tenant_frame t d d'"

interpretation world_rel: db_preorder "world_rel t" for t
  by unfold_locales (auto simp: world_rel_def frame.R_refl intro: frame.R_trans)

lemma world_insert_rel [rel_intros]:
  "en_tenant_id x = t \<Longrightarrow> steps (world_rel t) (insert_entity x)"
  "ea_tenant_id a = t \<Longrightarrow> steps (world_rel t) (insert_entity_alias a)"
  "clm_tenant_id y = t \<Longrightarrow> steps (world_rel t) (insert_claim y)"
  "ce_tenant_id v = t \<Longrightarrow> steps (world_rel t) (insert_claim_evidence v)"
  using frame_insert_entity [of x t] frame_insert_entity_alias [of a t] frame_insert_claim [of y t] frame_insert_claim_evidence [of v t]
  by (auto simp: steps_def world_rel_def world_rest_def insert_defs tx_simps)

lemma steps_reads: "steps (world_rel t) (check_reference c tbl t' f v)" "steps (world_rel t) (check_evidence c t' ss)"
  by (auto simp: steps_def tx_simps check_evidence_Inr world_rel.R_refl)

lemma world_ops_rel:
  "osteps (world_rel (ne_tenantId ni)) (createEntity e ni)" "osteps (world_rel (rc_tenantId ci)) (recordClaim pg e ci)"
proof -
  have "steps (world_rel (ne_tenantId ni)) (createEntity_tx e ni aliases c)" for aliases c
    unfolding createEntity_tx_def
    by (auto intro!: world_rel.steps_rules world_rel.steps_insert_each rel_intros simp: entityRow_def set_numbered aliasRow_def)
  then show "osteps (world_rel (ne_tenantId ni)) (createEntity e ni)"
    unfolding createEntity_def by (auto split: sum.split intro: world_rel.osteps_tx world_rel.osteps_pure)
  have "steps (world_rel (rc_tenantId ci)) (recordClaim_tx pg e ci c)" for c
    unfolding recordClaim_tx_def validateTenantReferences_def
    by (auto intro!: world_rel.steps_rules world_rel.steps_insert_each rel_intros steps_reads
        simp: set_numbered evidenceRow_def Let_def claimRow_Some split: option.split)
  then show "osteps (world_rel (rc_tenantId ci)) (recordClaim pg e ci)"
    unfolding recordClaim_def by (auto split: sum.split intro: world_rel.osteps_tx world_rel.osteps_pure)
qed

subsection \<open>What a recorded claim rests on\<close>

fun evidence_keys :: "db \<Rightarrow> evidence_kind \<Rightarrow> (uuid \<times> uuid) set" where
  "evidence_keys d ev_message = (\<lambda>x. (ms_tenant_id x, ms_id x)) ` set (messages d)"
| "evidence_keys d ev_work_order = (\<lambda>x. (wo_tenant_id x, wo_id x)) ` set (work_orders d)"
| "evidence_keys d ev_authority_decision = (\<lambda>x. (ad_tenant_id x, ad_id x)) ` set (authority_decisions d)"
| "evidence_keys d ev_action_receipt = (\<lambda>x. (re_tenant_id x, re_id x)) ` set (action_receipts d)"
| "evidence_keys d ev_directive = (\<lambda>x. (od_tenant_id x, od_id x)) ` set (operator_directives d)"
| "evidence_keys d ev_briefing_issue = (\<lambda>x. (bi_tenant_id x, bi_id x)) ` set (briefing_issues d)"
| "evidence_keys d ev_trigger = (\<lambda>x. (tg_tenant_id x, tg_id x)) ` set (scheduled_triggers d)"
| "evidence_keys d ev_memory_record = (\<lambda>x. (mr_tenant_id x, mr_id x)) ` set (memory_records d)"

lemma evidence_keys_ref: "ref_ids c (evidence_table k) i t d \<noteq> [] \<Longrightarrow> (t, i) \<in> evidence_keys d k"
  by (cases k) (force simp: scoped_rows_def filter_empty_conv dest: set_rls_rows)+

text \<open>
  Claims cite records of their own tenant. A call of recordClaim either throws and changes nothing, or
  appends one claim and changes no earlier one. The claim has exactly one object and a window that ends
  after it starts; its subject, its object entity and the claim it corrects belong to the acting tenant;
  and it comes with one evidence row per cited source, in order, each naming a record of that tenant of
  the cited kind.
\<close>

theorem claim_cites_own_records:
  "case recordClaim pg e inp d of
     (Inl err, d') \<Rightarrow> d' = d
   | (Inr (claim, evidence), d') \<Rightarrow>
       (\<exists>row. claims d' = claims d @ [row] \<and> claim_evidence_rows d' = claim_evidence_rows d @ evidence \<and>
          world_rest d' = world_rest d \<and> clm_tenant_id row = rc_tenantId inp \<and> claim_checks row \<and>
          names_in (ent_keys d) (rc_tenantId inp) (clm_subject_entity_id row) \<and>
          names_in (ent_keys d) (rc_tenantId inp) (clm_object_entity_id row) \<and>
          names_in (claim_keys d) (rc_tenantId inp) (clm_supersedes_claim_id row) \<and>
          list_all2 (\<lambda>source v. ce_claim_id v = clm_id row \<and> ce_source_kind v = ev_kind source \<and> evidence_checks v \<and>
             (rc_tenantId inp, ev_id source) \<in> evidence_keys d (ev_kind source)) (or_empty (rc_evidence inp)) evidence)"
proof (cases "recordClaim pg e inp d")
  case (Pair r d')
  show ?thesis
  proof (cases r)
    case (Inl err)
    then show ?thesis
      using Pair by (auto simp: recordClaim_def othrow_def withTenantTransaction_Inl split: sum.splits)
  next
    case (Inr res)
    then obtain claim evidence where res: "res = (claim, evidence)" by (cases res)
    from Pair Inr have "recordClaim_tx pg e inp \<lparr>cl_tenant = rc_tenantId inp, cl_rls = env_rls e\<rparr> d = Inr ((claim, evidence), d')"
      by (auto simp: recordClaim_def othrow_def withTenantTransaction_Inr res split: sum.splits)
    then show ?thesis
      unfolding Pair Inr res
      by (elim recordClaim_Inr)
        (auto simp: claimRow_Some after_claim_def world_rest_def evidenceRow_checks list_all2_conv_all_nth
          intro!: names_in_ref evidence_keys_ref exI, simp_all add: evidenceRow_def Let_def)
  qed
qed

definition demo_pg :: world_pg where
  "demo_pg = \<lparr>wp_dateParse = (\<lambda>s. Some (int (length s))), wp_timestamptz = (\<lambda>s. Some (int (length s))), wp_real = id\<rparr>"

definition demo_entity :: create_entity_input where
  "demo_entity = \<lparr>ne_tenantId = 1, ne_entityType = ''org'', ne_canonicalName = ''Vireon'', ne_aliases = Some [''V'']\<rparr>"

definition demo_claim :: record_claim_input where
  "demo_claim = \<lparr>rc_tenantId = 1, rc_subjectEntityId = Some 100, rc_predicate = ''p'', rc_claimKind = observed,
     rc_confidence = Some (Finite (1 / 2)), rc_sensitivity = None, rc_refreshAfter = None, rc_validFrom = ''a'',
     rc_validTo = Some ''ab'', rc_status = None, rc_supersedesClaimId = None,
     rc_evidence = Some [Evidence ev_message 30], rc_objectEntityId = None, rc_objectValue = Some JNull\<rparr>"

lemmas world_run_simps = createEntity_def validateEntityInput_def createEntity_tx_def entityRow_def aliasRow_def
  rowToEntity_def rowToAlias_def entitySchema_ok_def entityAliasSchema_ok_def or_empty_def numbered_def
  recordClaim_def validateBaseInput_def require_input_def unit_interval_def validateWindow_def recordClaim_tx_def
  validateTenantReferences_def check_reference_def claimRow_def pg_instant_def rowToClaim_def claimSchema_ok_def
  claim_checks_def evidenceRow_def evidence_checks_def evidence_refs_def rowToClaimEvidence_def btrim_nonempty_def
  js_trim_def is_ws_def demo_pg_def demo_entity_def demo_claim_def Let_def

definition demo_world1 :: db where
  "demo_world1 = snd (createEntity demo_env demo_entity demo_db)"

definition demo_world2 :: db where
  "demo_world2 = snd (recordClaim demo_pg demo_env demo_claim demo_world1)"

lemma demo_entities:
  "demo_world1 = after_entity (entityRow demo_env demo_entity) (numbered (aliasRow demo_env demo_entity) [''V'']) demo_db"
  by (simp add: demo_world1_def after_entity_def run_simps world_run_simps demo_defs)

lemma demo_claims: "map clm_id (claims demo_world2) = [100]" "map ce_message_id (claim_evidence_rows demo_world2) = [Some 30]"
  by (simp_all add: demo_world2_def demo_entities after_entity_def run_simps world_run_simps demo_defs)

theorem claim_cites_own_records_witness:
  "\<exists>claim evidence. recordClaim demo_pg demo_env demo_claim demo_world1 = (Inr (claim, evidence), demo_world2) \<and>
     length evidence = 1"
proof -
  have "claims demo_world1 = []" by (simp add: demo_entities after_entity_def demo_db_def empty_db_def)
  moreover have "claims demo_world2 \<noteq> []" using demo_claims(1) by auto
  ultimately show ?thesis
    using claim_cites_own_records [where pg = demo_pg and e = demo_env and inp = demo_claim and d = demo_world1]
    by (cases "recordClaim demo_pg demo_env demo_claim demo_world1")
      (auto simp: demo_world2_def or_empty_def demo_claim_def dest!: list_all2_lengthD split: sum.splits)
qed

end
