(* ===== verification/Runtime.thy ===== *)
theory Runtime
  imports WorkOrderProps DirectiveInv CognitionInv MemoryInv WorldProps
begin

text \<open>
  The runtime as a transition system over the shared database. A step of tenant \<open>t\<close> is one call of an
  engine operation with any input of that tenant and any environment (clock, ids, row-level security
  on or off), whether the call succeeds or throws. Between such steps the rest of the installation may
  act in any way that stays aside: tenants, actors, threads and messages appear, model invocations are
  recorded and finished, decisions and receipts are appended, memory candidates are proposed.
  Each component keeps its own invariant and leaves the tables of the others alone, so every reachable
  database satisfies the invariants of all five.
\<close>

subsection \<open>What each component leaves alone\<close>

text \<open>
  A step that stays aside changes no row an invariant is about: it may append decisions, receipts that
  are not transition receipts, and candidates that nobody has reviewed, and it keeps finished model
  invocations.
\<close>

definition world_untouched :: "db \<Rightarrow> db \<Rightarrow> bool" where
  "world_untouched d d' \<longleftrightarrow> entities d' = entities d \<and> entity_aliases d' = entity_aliases d \<and> claims d' = claims d \<and>
     claim_evidence_rows d' = claim_evidence_rows d"

lemma world_untouched_inv: "world_untouched d d' \<Longrightarrow> keeps_world_inv d d'"
  by (simp add: world_untouched_def keeps_world_inv_def world_inv_def claim_ok_def ent_keys_def claim_keys_def supersedes_def)

definition aside :: "db \<Rightarrow> db \<Rightarrow> bool" where
  "aside d d' \<longleftrightarrow> wo_untouched d d' \<and> dir_untouched d d' \<and> cr_untouched d d' \<and> mem_untouched d d' \<and> world_untouched d d'"

lemma mem_untouched_trans:
  assumes "mem_untouched d d'" "mem_untouched d' d''"
  shows "mem_untouched d d''"
proof -
  from assms obtain cs cs' where cs: "memory_candidates d' = memory_candidates d @ cs" "distinct (map mc_id cs)"
      "\<forall>x\<in>set cs. mc_id x \<notin> mc_id ` set (memory_candidates d) \<and> mc_review_status x = proposed \<and> mc_promoted_memory_record_id x = None"
    and cs': "memory_candidates d'' = memory_candidates d' @ cs'" "distinct (map mc_id cs')"
      "\<forall>x\<in>set cs'. mc_id x \<notin> mc_id ` set (memory_candidates d') \<and> mc_review_status x = proposed \<and> mc_promoted_memory_record_id x = None"
    by (auto simp: mem_untouched_def)
  have "mc_id y \<notin> mc_id ` set cs" if "y \<in> set cs'" for y
    using that cs(1) cs'(3) by (simp add: image_Un)
  then have "mc_id ` set cs \<inter> mc_id ` set cs' = {}"
    by (intro Int_emptyI) (elim imageE, metis imageI)
  then have "distinct (map mc_id (cs @ cs'))" using cs(2) cs'(2) by simp
  moreover have "\<forall>x\<in>set (cs @ cs'). mc_id x \<notin> mc_id ` set (memory_candidates d) \<and> mc_review_status x = proposed \<and>
      mc_promoted_memory_record_id x = None"
    using cs(1,3) cs'(3) by (simp add: image_Un ball_Un)
  ultimately show ?thesis
    using assms cs(1) cs'(1) unfolding mem_untouched_def by (metis append.assoc)
qed

lemma cr_untouched_trans: "cr_untouched d d' \<Longrightarrow> cr_untouched d' d'' \<Longrightarrow> cr_untouched d d''"
  unfolding cr_untouched_def by metis

lemma dir_rel_others: "dir_rel t d d' \<Longrightarrow> wo_untouched d d' \<and> cr_untouched d d' \<and> mem_untouched d d' \<and> world_untouched d d'"
  by (cases d; cases d')
    (simp add: world_untouched_def dir_rel_def dir_rest_def wo_untouched_def cr_untouched_def mem_untouched_def wo_receipts_def wo_refs_ok_def)

lemma cr_rel_others: "cr_rel t d d' \<Longrightarrow> wo_untouched d d' \<and> dir_untouched d d' \<and> mem_untouched d d' \<and> world_untouched d d'"
  by (cases d; cases d')
    (simp add: world_untouched_def cr_rel_def cr_rest_def wo_untouched_def dir_untouched_def mem_untouched_def wo_receipts_def wo_refs_ok_def)

lemma mem_rel_others: "mem_rel t d d' \<Longrightarrow> wo_untouched d d' \<and> dir_untouched d d' \<and> cr_untouched d d' \<and> world_untouched d d'"
  by (cases d; cases d')
    (simp add: world_untouched_def mem_rel_def mem_rest_def wo_untouched_def dir_untouched_def cr_untouched_def wo_receipts_def wo_refs_ok_def)

lemma world_rel_others: "world_rel t d d' \<Longrightarrow> wo_untouched d d' \<and> dir_untouched d d' \<and> cr_untouched d d' \<and> mem_untouched d d'"
  by (cases d; cases d')
    (simp add: world_rel_def world_rest_def wo_untouched_def dir_untouched_def cr_untouched_def mem_untouched_def wo_receipts_def
      wo_refs_ok_def)

definition wo_rel :: "uuid \<Rightarrow> db \<Rightarrow> db \<Rightarrow> bool" where
  "wo_rel t d d' \<longleftrightarrow> (dir_untouched d d' \<and> cr_untouched d d' \<and> mem_untouched d d' \<and> world_untouched d d') \<and> tenant_frame t d d'"

interpretation wo_rel: db_preorder "wo_rel t" for t
proof unfold_locales
  show "wo_rel t d d" for d
    by (simp add: wo_rel_def dir_untouched_def cr_untouched_def frame.R_refl mem_untouched_same world_untouched_def)
  fix a b c assume "wo_rel t a b" "wo_rel t b c"
  then show "wo_rel t a c"
    unfolding wo_rel_def
    by (elim conjE, intro conjI)
      (erule (1) dir_frame.R_trans cr_untouched_trans mem_untouched_trans frame.R_trans | simp add: world_untouched_def)+
qed

lemma substantiates_mem: "substantiates e inp rls w d nd d1 \<Longrightarrow> mem_untouched d d1"
proof (induction rule: substantiates.induct)
  case (remember ci r)
  then show ?case
    unfolding mem_untouched_def by (intro conjI exI [of _ "[candidateRow e inp w r ci]"]) (simp_all add: candidateRow_def)
qed (simp_all add: mem_untouched_same)

lemma move_others: "move_step e inp rls d d' \<Longrightarrow> dir_untouched d d' \<and> cr_untouched d d' \<and> mem_untouched d d' \<and> world_untouched d d'"
proof (elim move_step.cases, intro conjI)
  fix w nd d1 assume s: "substantiates e inp rls w d nd d1" and d': "d' = after_move e inp (wo_status w) nd d1"
  show "dir_untouched d d'" "cr_untouched d d'" "world_untouched d d'"
    using s by (auto simp: d' dir_untouched_def cr_untouched_def world_untouched_def after_move_def elim!: substantiates.cases)
  have "mem_untouched d1 d'" by (simp add: d' after_move_def mem_untouched_same)
  with substantiates_mem [OF s] show "mem_untouched d d'" by (rule mem_untouched_trans)
qed

lemma work_order_ops_rel:
  "osteps (wo_rel (cw_tenantId ci)) (createWorkOrder e ci)"
  "osteps (wo_rel (tw_tenantId ti)) (runTransition e ti inject)"
  "osteps (wo_rel (dg_tenantId gi)) (writeDelegationReceipt e gi)"
proof -
  have others: "osteps (wo_rel t) m"
    if "osteps (tenant_frame t) m" "osteps (\<lambda>d d'. dir_untouched d d' \<and> cr_untouched d d' \<and> mem_untouched d d' \<and> world_untouched d d') m"
    for t and m :: "'a dop"
    using that by (simp add: osteps_def wo_rel_def)
  show "osteps (wo_rel (cw_tenantId ci)) (createWorkOrder e ci)"
    by (rule others [OF createWorkOrder_frame])
      (auto simp: osteps_def createWorkOrder_def withTenantTransaction_def dir_untouched_def cr_untouched_def world_untouched_def
        after_create_def split: sum.split dest!: createWorkOrder_tx_Inr fetchExisting_Inr intro!: mem_untouched_same)
  show "osteps (wo_rel (tw_tenantId ti)) (runTransition e ti inject)"
    unfolding runTransition_def
    by (rule wo_rel.osteps_tx) (auto simp: steps_def wo_rel_def dest!: runTransition_refines intro: frame_move dest: move_others)
  show "osteps (wo_rel (dg_tenantId gi)) (writeDelegationReceipt e gi)"
    by (rule others [OF writeDelegationReceipt_frame])
      (auto simp: osteps_def writeDelegationReceipt_def withTenantTransaction_def writeDelegationReceipt_tx_def
        assertOwnTenant_def insert_action_receipt_def tx_simps dir_untouched_def cr_untouched_def world_untouched_def
        split: sum.split intro!: mem_untouched_same)
qed

subsection \<open>Steps\<close>

inductive runtime_step :: "uuid \<Rightarrow> db \<Rightarrow> db \<Rightarrow> bool" for t where
  createWorkOrder: "cw_tenantId inp = t \<Longrightarrow> runtime_step t d (snd (createWorkOrder e inp d))"
| transitionWorkOrder: "tw_tenantId inp = t \<Longrightarrow> runtime_step t d (snd (transitionWorkOrder e inp d))"
| writeDelegationReceipt: "dg_tenantId inp = t \<Longrightarrow> runtime_step t d (snd (writeDelegationReceipt e inp d))"
| createOrMergeDirective: "cm_tenantId inp = t \<Longrightarrow> runtime_step t d (snd (createOrMergeDirective e inp d))"
| transitionDirective: "td_tenantId inp = t \<Longrightarrow> runtime_step t d (snd (transitionDirective e inp d))"
| appendDirectiveRevision: "rv_tenantId inp = t \<Longrightarrow> runtime_step t d (snd (appendDirectiveRevision e inp d))"
| addDirectiveProvenance: "pv_tenantId inp = t \<Longrightarrow> runtime_step t d (snd (addDirectiveProvenance e inp d))"
| suppressDirectiveKey: "sp_tenantId inp = t \<Longrightarrow> runtime_step t d (snd (suppressDirectiveKey e inp d))"
| createCognitiveRun: "cc_tenantId inp = t \<Longrightarrow> runtime_step t d (snd (createCognitiveRun e inp d))"
| transitionCognitiveRun: "tc_tenantId inp = t \<Longrightarrow> runtime_step t d (snd (transitionCognitiveRun e inp d))"
| reviewMemoryCandidate: "vc_tenantId inp = t \<Longrightarrow> runtime_step t d (snd (reviewMemoryCandidate e inp d))"
| promoteMemoryCandidate: "pc_tenantId inp = t \<Longrightarrow> runtime_step t d (snd (promoteMemoryCandidate e inp d))"
| supersedeMemoryRecord: "su_tenantId inp = t \<Longrightarrow> runtime_step t d (snd (supersedeMemoryRecord e inp d))"
| deleteMemoryRecord: "dl_tenantId inp = t \<Longrightarrow> runtime_step t d (snd (deleteMemoryRecord e inp d))"
| writeMemoryEmbedding: "wb_tenantId inp = t \<Longrightarrow> runtime_step t d (snd (writeMemoryEmbedding nf cast e inp d))"
| createEntity: "ne_tenantId inp = t \<Longrightarrow> runtime_step t d (snd (createEntity e inp d))"
| recordClaim: "rc_tenantId inp = t \<Longrightarrow> runtime_step t d (snd (recordClaim pg e inp d))"

definition keeps_all :: "db \<Rightarrow> db \<Rightarrow> bool" where
  "keeps_all d d' \<longleftrightarrow> keeps_wo_inv d d' \<and> keeps_dir_inv d d' \<and> keeps_cr_inv d d' \<and> keeps_mem_inv d d' \<and> keeps_world_inv d d'"

lemma untouched_keeps_inv:
  "wo_untouched d d' \<Longrightarrow> keeps_wo_inv d d'" "dir_untouched d d' \<Longrightarrow> keeps_dir_inv d d'"
  "cr_untouched d d' \<Longrightarrow> keeps_cr_inv d d'" "mem_untouched d d' \<Longrightarrow> keeps_mem_inv d d'"
  "world_untouched d d' \<Longrightarrow> keeps_world_inv d d'"
  by (auto simp: world_untouched_inv keeps_wo_inv_def keeps_dir_inv_def keeps_cr_inv_def keeps_mem_inv_def
      intro: wo_inv_untouched dir_inv_untouched cr_inv_untouched mem_inv_untouched)

lemma aside_keeps: "aside d d' \<Longrightarrow> keeps_all d d'"
  by (simp add: aside_def keeps_all_def untouched_keeps_inv)

definition engine_rel :: "uuid \<Rightarrow> db \<Rightarrow> db \<Rightarrow> bool" where
  "engine_rel t d d' \<longleftrightarrow> tenant_frame t d d' \<and> keeps_all d d'"

lemma engine_rel_intros:
  "keeps_wo_inv d d' \<Longrightarrow> wo_rel t d d' \<Longrightarrow> engine_rel t d d'"
  "keeps_dir_inv d d' \<Longrightarrow> dir_rel t d d' \<Longrightarrow> engine_rel t d d'"
  "keeps_cr_inv d d' \<Longrightarrow> cr_rel t d d' \<Longrightarrow> engine_rel t d d'"
  "keeps_mem_inv d d' \<Longrightarrow> mem_rel t d d' \<Longrightarrow> engine_rel t d d'"
  "keeps_world_inv d d' \<Longrightarrow> world_rel t d d' \<Longrightarrow> engine_rel t d d'"
  using world_rel_others [of t d d'] dir_rel_others [of t d d'] cr_rel_others [of t d d'] mem_rel_others [of t d d'] untouched_keeps_inv [of d d']
  by (simp_all add: engine_rel_def keeps_all_def wo_rel_def dir_rel_def cr_rel_def mem_rel_def world_rel_def)

interpretation engine: db_preorder "engine_rel t" for t
  by unfold_locales
    (auto simp: engine_rel_def keeps_all_def frame.R_refl keeps_wo_inv_def keeps_dir_inv_def keeps_cr_inv_def keeps_mem_inv_def
      keeps_world_inv_def intro: frame.R_trans)

text \<open>Every operation of an engine is a step of its tenant; the facts also serve the operations composed of them.\<close>

lemma engine_opI:
  "osteps keeps_wo_inv m \<Longrightarrow> osteps (wo_rel t) m \<Longrightarrow> osteps (engine_rel t) m"
  "osteps keeps_dir_inv m \<Longrightarrow> osteps (dir_rel t) m \<Longrightarrow> osteps (engine_rel t) m"
  "osteps keeps_cr_inv m \<Longrightarrow> osteps (cr_rel t) m \<Longrightarrow> osteps (engine_rel t) m"
  "osteps keeps_mem_inv m \<Longrightarrow> osteps (mem_rel t) m \<Longrightarrow> osteps (engine_rel t) m"
  "osteps keeps_world_inv m \<Longrightarrow> osteps (world_rel t) m \<Longrightarrow> osteps (engine_rel t) m"
  by (auto simp: osteps_def intro: engine_rel_intros)

lemmas runtime_ops =
  engine_opI(1) [OF createWorkOrder_keeps work_order_ops_rel(1)]
  engine_opI(1) [OF runTransition_keeps work_order_ops_rel(2)]
  engine_opI(1) [OF untouched_keeps [OF writeDelegationReceipt_untouched] work_order_ops_rel(3)]
  engine_opI(2) [OF createOrMerge_keeps directive_ops_rel(1)]
  engine_opI(2) [OF transitionDirective_keeps directive_ops_rel(2)]
  engine_opI(2) [OF appendRevision_keeps directive_ops_rel(3)]
  engine_opI(2) [OF addProvenance_keeps directive_ops_rel(4)]
  engine_opI(2) [OF dir_untouched_keeps [OF suppress_untouched] directive_ops_rel(5)]
  engine_opI(3) [OF createCognitiveRun_keeps cognition_ops_rel(1)]
  engine_opI(3) [OF runCognitiveTransition_keeps cognition_ops_rel(2)]
  engine_opI(4) [OF memory_ops_keep(1) memory_ops_rel(1)]
  engine_opI(4) [OF memory_ops_keep(2) memory_ops_rel(2)]
  engine_opI(4) [OF memory_ops_keep(3) memory_ops_rel(3)]
  engine_opI(4) [OF memory_ops_keep(4) memory_ops_rel(4)]
  engine_opI(4) [OF memory_ops_keep(5) memory_ops_rel(5)]
  engine_opI(5) [OF world_ops_keep(1) world_ops_rel(1)]
  engine_opI(5) [OF world_ops_keep(2) world_ops_rel(2)]

lemma runtime_step_sound: "runtime_step t d d' \<Longrightarrow> engine_rel t d d'"
  by (induction rule: runtime_step.induct)
    (auto simp: transitionWorkOrder_def transitionCognitiveRun_def deleteMemoryRecord_def writeMemoryEmbedding_def
      intro: runtime_ops [THEN ostepsD])

subsection \<open>Reachable databases\<close>

text \<open>After the migrations and the seed script the tables of the engines are empty.\<close>

definition seeded :: "db \<Rightarrow> bool" where
  "seeded d \<longleftrightarrow> work_orders d = [] \<and> wo_transitions d = [] \<and> runs d = [] \<and> authority_decisions d = [] \<and>
     action_receipts d = [] \<and> operator_directives d = [] \<and> directive_revisions d = [] \<and>
     directive_transitions d = [] \<and> cognitive_runs d = [] \<and> cognitive_run_transitions d = [] \<and>
     memory_candidates d = [] \<and> memory_records d = [] \<and> memory_record_versions d = [] \<and> memory_embeddings d = [] \<and>
     entities d = [] \<and> entity_aliases d = [] \<and> claims d = [] \<and> claim_evidence_rows d = []"

inductive reachable :: "db \<Rightarrow> bool" where
  seed: "seeded d \<Longrightarrow> reachable d"
| engine: "reachable d \<Longrightarrow> runtime_step t d d' \<Longrightarrow> reachable d'"
| host: "reachable d \<Longrightarrow> aside d d' \<Longrightarrow> reachable d'"

lemma reachable_inv: "reachable d \<Longrightarrow> wo_inv d \<and> dir_inv d \<and> cr_inv d \<and> mem_inv d \<and> world_inv d"
proof (induction rule: reachable.induct)
  case (seed d)
  then show ?case
    by (simp add: seeded_def wo_inv_def wo_refs_ok_def dir_inv_def dir_refs_ok_def cr_inv_def cr_refs_ok_def
        mem_inv_def mem_keys_def mem_refs_ok_def one_active_def world_inv_def supersedes_def acyclic_def)
next
  case (engine d t d')
  then show ?case
    using runtime_step_sound [OF engine.hyps(2)]
    by (simp add: engine_rel_def keeps_all_def keeps_wo_inv_def keeps_dir_inv_def keeps_cr_inv_def keeps_mem_inv_def
        keeps_world_inv_def)
next
  case (host d d')
  then show ?case
    using aside_keeps [OF host.hyps(2)]
    by (simp add: keeps_all_def keeps_wo_inv_def keeps_dir_inv_def keeps_cr_inv_def keeps_mem_inv_def keeps_world_inv_def)
qed

subsection \<open>Terminal entities\<close>

lemma terminal_wo_kept:
  assumes "runtime_step t d d'" "wo_inv d" "w \<in> set (work_orders d)" "isTerminalWorkOrderStatus (wo_status w)"
  shows "w \<in> set (work_orders d')"
proof -
  have move: "w \<in> set (work_orders x)" if "move_step e inp rls d x" for e inp rls x
    using that
  proof cases
    case (1 v nd d1)
    have "wo_id w \<noteq> wo_id v"
      using 1(2,5) assms(2-4) wo_unique [OF assms(2,3) 1(2)] by (auto simp: wo_life.terminal_iff)
    with 1 assms(3) substantiates_frame(1) [OF 1(6)] show ?thesis
      by (force simp: after_move_def set_update_where)
  qed
  show ?thesis
    using assms(1)
  proof cases
    case (createWorkOrder inp e)
    then show ?thesis
      using assms(3)
      by (auto simp: createWorkOrder_def withTenantTransaction_def after_create_def split: sum.split
          dest!: createWorkOrder_tx_Inr fetchExisting_Inr)
  next
    case (transitionWorkOrder inp e)
    then show ?thesis
      using assms(3) move
      by (auto simp: transitionWorkOrder_def runTransition_def withTenantTransaction_def split: sum.split
          dest!: runTransition_refines)
  qed (use assms(3) ostepsD [OF writeDelegationReceipt_untouched] directive_ops_rel [THEN ostepsD, THEN dir_rel_others]
      cognition_ops_rel [THEN ostepsD, THEN cr_rel_others] memory_ops_rel [THEN ostepsD, THEN mem_rel_others]
      world_ops_rel [THEN ostepsD, THEN world_rel_others]
      in \<open>auto simp: wo_untouched_def transitionCognitiveRun_def deleteMemoryRecord_def writeMemoryEmbedding_def\<close>)
qed

text \<open>The installation of theory \<open>Demo\<close> is reachable.\<close>

lemma demo_seed_reachable: "reachable demo_db"
  by (rule reachable.seed) (simp add: seeded_def demo_db_def empty_db_def)

end
