(* ===== verification/DirectiveProps.thy ===== *)
theory DirectiveProps
  imports DirectiveInv Demo "HOL-Library.Multiset"
begin

text \<open>
  The contract of the Directive services: suppression blocks the pipeline, re-detection never counts
  as an operator's decision, repeating a detection is a carry, a completion claimed as validated has
  a completed WorkOrder behind it, every provenance row has one source, and the unresolved list is
  exactly the unresolved Directives.
\<close>

subsection \<open>Suppression\<close>

lemma createOrMerge_suppressed:
  assumes "key_suppressed e \<lparr>cl_tenant = cm_tenantId inp, cl_rls = env_rls e\<rparr> (cm_tenantId inp) (js_trim (cm_dedupeKey inp)) d"
  shows "snd (createOrMergeDirective e inp d) = d \<and>
    (\<forall>r. fst (createOrMergeDirective e inp d) = Inr r \<longrightarrow> cmr_outcome r = mo_suppressed)"
  using assms
  by (auto simp: createOrMergeDirective_def createOrMergeDirective_tx_def Let_def assertActorExists_def othrow_def
      withTenantTransaction_def tx_simps split: sum.splits)

text \<open>
  A suppressed key stays silent: once an operator has suppressed a dedupe key until some time,
  every later detection with that key (compared after trimming) made before that time creates,
  revises and reopens nothing, and if it returns, it reports the suppression.
\<close>

theorem suppression_blocks_detection:
  assumes "suppressDirectiveKey e sp d = (Inr s, d1)" "sp_suppressedUntil sp = Some until"
    "env_db_now e' 0 < until" "cm_tenantId ci = sp_tenantId sp"
    "js_trim (cm_dedupeKey ci) = js_trim (sp_dedupeKey sp)"
  shows "snd (createOrMergeDirective e' ci d1) = d1 \<and>
    (\<forall>r. fst (createOrMergeDirective e' ci d1) = Inr r \<longrightarrow> cmr_outcome r = mo_suppressed)"
proof (rule createOrMerge_suppressed)
  from assms(1,2) have "suppressionRow e sp until \<in> set (directive_suppressions d1)"
    by (auto simp: suppressDirectiveKey_def withTenantTransaction_Inr othrow_def tx_simps
        insert_directive_suppression_def split: if_splits)
  with assms(3-5) show "key_suppressed e' \<lparr>cl_tenant = cm_tenantId ci, cl_rls = env_rls e'\<rparr> (cm_tenantId ci)
      (js_trim (cm_dedupeKey ci)) d1"
    by (auto simp: key_suppressed_def filter_empty_conv suppressionRow_def rls_rows_def intro!: bexI [of _ "suppressionRow e sp until"])
qed

definition demo_content :: directive_content where
  "demo_content = \<lparr>dc_title = ''Review budget'', dc_body = None, dc_whyNow = None, dc_priority = None,
     dc_proposedOwnerActorId = None, dc_dueAt = Some (''1970-01-01T00:00:00.005Z'', 5), dc_windowStartAt = None, dc_windowEndAt = None,
     dc_expiresAt = None\<rparr>"

definition demo_detect :: create_or_merge_input where
  "demo_detect = \<lparr>cm_tenantId = 1, cm_directiveType = action, cm_dedupeKey = '' budget'', cm_issuingActorId = 10,
     cm_owningActorId = 11, cm_content = demo_content, cm_changeReason = None, cm_cycleNumber = None,
     cm_provenanceSource = Some (src_message 30), cm_provenanceMetadata = None\<rparr>"

definition demo_suppress :: suppress_input where
  "demo_suppress = \<lparr>sp_tenantId = 1, sp_dedupeKey = ''budget '', sp_reason = ''later'',
     sp_suppressedByActorId = 11, sp_suppressedUntil = Some 1000\<rparr>"

lemmas directive_run_simps = suppressDirectiveKey_def suppressionRow_def createOrMergeDirective_def
  createOrMergeDirective_tx_def createDirective_def validateMergeInput_def validateTitle_def assertActorExists_def
  assertDirectiveReference_def directive_by_key_def key_suppressed_def newDirectiveRow_def
  insertDirectiveRevisionRow_def requireDirective_def revisions_of_def max_revision_def revisionRow_def
  mirrorTemporalFieldsOntoDirective_def mirrorTemporalFields_def update_directive_def rowToRevision_def
  rowToTransition_def rowToDirective_def rowToSuppression_def rowToProvenance_def recordProvenance_def
  insertDirectiveProvenanceRow_def provenanceRow_def blank_provenance_def mergeRevision_def
  initialDirectiveTransition_def computeDirectiveContentHash_def provenance_one_source_def
  provenance_internal_refs_def operatorDirectiveSuppressionSchema_ok_def operatorDirectiveSchema_ok_def
  operatorDirectiveRevisionSchema_ok_def operatorDirectiveTransitionSchema_ok_def js_trim_def is_ws_def

lemma demo_suppressed:
  "fst (suppressDirectiveKey demo_env demo_suppress demo_db) = Inr (suppressionRow demo_env demo_suppress 1000)"
  by (simp add: directive_run_simps run_simps demo_defs demo_suppress_def)

theorem suppression_blocks_detection_witness:
  "snd (createOrMergeDirective demo_env demo_detect (snd (suppressDirectiveKey demo_env demo_suppress demo_db))) =
     snd (suppressDirectiveKey demo_env demo_suppress demo_db)"
proof -
  have "suppressDirectiveKey demo_env demo_suppress demo_db =
      (Inr (suppressionRow demo_env demo_suppress 1000), snd (suppressDirectiveKey demo_env demo_suppress demo_db))"
    by (rule prod_eqI) (simp_all add: demo_suppressed)
  from suppression_blocks_detection [OF this, of 1000 demo_env demo_detect] show ?thesis
    by (simp add: demo_suppress_def demo_detect_def demo_env_def js_trim_def is_ws_def)
qed

subsection \<open>Re-detection\<close>

text \<open>The branches of a merge: touch, provenance, then carry, revise or reopen.\<close>

definition touched :: "env \<Rightarrow> create_or_merge_input \<Rightarrow> operator_directive \<Rightarrow> db \<Rightarrow> db" where
  "touched e inp x d = d\<lparr>operator_directives := update_where
     (\<lambda>y. od_id y = od_id x \<and> od_tenant_id y = cm_tenantId inp) (touchDirective (env_now e 0)) (operator_directives d)\<rparr>"

definition material :: "env \<Rightarrow> client \<Rightarrow> create_or_merge_input \<Rightarrow> operator_directive \<Rightarrow> db \<Rightarrow> bool" where
  "material e c inp x d \<longleftrightarrow>
     latestHash c (cm_tenantId inp) (od_id x) d \<noteq> Some (computeDirectiveContentHash e (cm_content inp))"

lemma merge_Inr:
  assumes "mergeIntoExistingDirective e c inp k x d = Inr (r, d')"
  obtains
    (superseded) prov where "recordProvenance (env_at 2 e) c inp (od_id x) (touched e inp x d) = Inr (prov, d')"
      "od_state x = SUPERSEDED" "cmr_outcome r = mo_carried"
  | (live) prov d1 where "recordProvenance (env_at 2 e) c inp (od_id x) (touched e inp x d) = Inr (prov, d1)"
      "od_state x \<noteq> SUPERSEDED" "od_state x \<notin> set CLOSED_BUT_REOPENABLE_STATES"
      "cmr_outcome r = (if material e c inp x d1 then mo_revised else mo_carried)"
      "d' = d1 \<and> \<not> material e c inp x d1 \<or> material e c inp x d1 \<and> (\<exists>rev. insertDirectiveRevisionRow (env_at 1 e) c
         (mergeRevision inp (od_id x) ''Re-detected with updated content'') d1 = Inr (rev, d'))"
  | (closed) prov d1 d2 y tr where "recordProvenance (env_at 2 e) c inp (od_id x) (touched e inp x d) = Inr (prov, d1)"
      "od_state x \<in> set CLOSED_BUT_REOPENABLE_STATES" "cmr_outcome r = mo_reopened"
      "d2 = d1 \<and> \<not> material e c inp x d1 \<or> material e c inp x d1 \<and> (\<exists>rev. insertDirectiveRevisionRow (env_at 1 e) c
         (mergeRevision inp (od_id x) ''Re-detected with updated content'') d1 = Inr (rev, d2))"
      "applyDirectiveTransition (env_at 3 e) c (autoReopen inp (od_id x)) d2 = Inr ((y, tr), d')"
proof -
  from assms obtain prov d1 where prov:
    "recordProvenance (env_at 2 e) c inp (od_id x) (touched e inp x d) = Inr (prov, d1)"
    by (auto simp: mergeIntoExistingDirective_def tx_simps touched_def)
  show thesis
  proof (cases "od_state x = SUPERSEDED")
    case True
    with assms prov show thesis
      by (intro superseded) (auto simp: mergeIntoExistingDirective_def tx_simps touched_def dest!: refreshedDirective_Inr)
  next
    case not_super: False
    show thesis
    proof (cases "od_state x \<in> set CLOSED_BUT_REOPENABLE_STATES")
      case True
      with assms prov not_super obtain d2 v where o: "cmr_outcome r = mo_reopened"
        and d2: "(if material e c inp x d1 then tbind (insertDirectiveRevisionRow (env_at 1 e) c
            (mergeRevision inp (od_id x) ''Re-detected with updated content'')) (\<lambda>r. treturn (Some r))
          else treturn None) d1 = Inr (v, d2)"
        and tr: "\<exists>y tr. applyDirectiveTransition (env_at 3 e) c (autoReopen inp (od_id x)) d2 = Inr ((y, tr), d')"
        by (auto simp: mergeIntoExistingDirective_def tbind_Inr_iff query_iff touched_def material_def split_def
            update_directive_Inr treturn_iff)
      from d2 have "d2 = d1 \<and> \<not> material e c inp x d1 \<or> material e c inp x d1 \<and> (\<exists>rev.
          insertDirectiveRevisionRow (env_at 1 e) c (mergeRevision inp (od_id x) ''Re-detected with updated content'') d1 = Inr (rev, d2))"
        by (auto simp: tx_simps split: if_splits)
      with tr o True prov closed show thesis by blast
    next
      case False
      with assms prov not_super show thesis
        by (intro live [of prov d1]) (auto simp: mergeIntoExistingDirective_def tx_simps touched_def material_def
            split: if_splits dest!: refreshedDirective_Inr)
    qed
  qed
qed

lemma touched_simps [simp]:
  "directive_transitions (touched e inp x d) = directive_transitions d"
  "directive_revisions (touched e inp x d) = directive_revisions d"
  "map od_state (operator_directives (touched e inp x d)) = map od_state (operator_directives d)"
  by (simp_all add: touched_def touchDirective_def)

lemma merge_live_Inr:
  assumes "mergeIntoExistingDirective e c inp k x d = Inr (r, d')" "cmr_outcome r \<in> {mo_carried, mo_revised}"
  shows "directive_transitions d' = directive_transitions d \<and>
    map od_state (operator_directives d') = map od_state (operator_directives d) \<and>
    (cmr_outcome r = mo_carried \<longrightarrow> directive_revisions d' = directive_revisions d)"
  using assms(1)
proof (cases rule: merge_Inr)
  case (superseded prov)
  then show ?thesis by (auto dest!: recordProvenance_Inr)
next
  case (live prov d1)
  from live(1) have "directive_transitions d1 = directive_transitions d" "directive_revisions d1 = directive_revisions d"
    "map od_state (operator_directives d1) = map od_state (operator_directives d)"
    by (auto dest!: recordProvenance_Inr)
  with live(4,5) show ?thesis
    by (auto dest!: insertRevision_Inr simp: after_revision_def split: if_splits)
next
  case (closed prov d1 d2 y tr)
  with assms(2) show ?thesis by simp
qed

lemma redetection_frame:
  assumes "createOrMergeDirective e inp d = (Inr r, d')" "cmr_outcome r \<in> {mo_carried, mo_revised}"
  shows "directive_transitions d' = directive_transitions d \<and>
    map od_state (operator_directives d') = map od_state (operator_directives d) \<and>
    (cmr_outcome r = mo_carried \<longrightarrow> directive_revisions d' = directive_revisions d)"
proof -
  let ?c = "\<lparr>cl_tenant = cm_tenantId inp, cl_rls = env_rls e\<rparr>"
  from assms obtain x where "mergeIntoExistingDirective e ?c inp (js_trim (cm_dedupeKey inp)) x d = Inr (r, d')"
    by (auto simp: createOrMergeDirective_def createOrMergeDirective_tx_def Let_def assertActorExists_def othrow_def
        withTenantTransaction_Inr createDirective_def tx_simps split: sum.splits if_splits)
  from merge_live_Inr [OF this assms(2)] show ?thesis .
qed

definition demo_dir_db :: db where
  "demo_dir_db = (after_directive_create demo_env demo_detect ''budget'' demo_db)\<lparr>directive_provenance_rows :=
     [provenanceRow (env_at 2 demo_env) \<lparr>pv_tenantId = 1, pv_directiveId = 100, pv_source = src_message 30,
        pv_metadata = None\<rparr>]\<rparr>"

lemma demo_detected:
  "createOrMergeDirective demo_env demo_detect demo_db =
     (Inr \<lparr>cmr_outcome = mo_created, cmr_dedupeKey = ''budget'',
        cmr_directive = Some (newDirectiveRow demo_env demo_detect ''budget''),
        cmr_revision = Some (revisionRow (env_at 1 demo_env) (mergeRevision demo_detect 100 ''Initial detection'') 1),
        cmr_transition = Some (initialDirectiveTransition demo_env demo_detect),
        cmr_provenance = Some (provenanceRow (env_at 2 demo_env) \<lparr>pv_tenantId = 1, pv_directiveId = 100,
          pv_source = src_message 30, pv_metadata = None\<rparr>)\<rparr>,
      demo_dir_db)"
  by (simp add: demo_dir_db_def after_directive_create_def directive_run_simps run_simps demo_defs
      demo_detect_def demo_content_def env_at_def Let_def)

lemma demo_redetected:
  "fst (createOrMergeDirective (env_at 8 demo_env) demo_detect demo_dir_db) =
     Inr \<lparr>cmr_outcome = mo_carried, cmr_dedupeKey = ''budget'',
       cmr_directive = Some (touchDirective 128 (mirrorTemporalFields 17 demo_content
         (newDirectiveRow demo_env demo_detect ''budget''))),
       cmr_revision = None, cmr_transition = None,
       cmr_provenance = Some (provenanceRow (env_at 10 demo_env) \<lparr>pv_tenantId = 1, pv_directiveId = 100,
         pv_source = src_message 30, pv_metadata = None\<rparr>)\<rparr>"
  by (simp add: demo_dir_db_def after_directive_create_def directive_run_simps run_simps demo_defs
      demo_detect_def demo_content_def env_at_def mergeIntoExistingDirective_def touchDirective_def latestHash_def
      refreshedDirective_def CLOSED_BUT_REOPENABLE_STATES_def Let_def)

lemma demo_redetected_eq:
  "createOrMergeDirective (env_at 8 demo_env) demo_detect demo_dir_db =
     (Inr (projr (fst (createOrMergeDirective (env_at 8 demo_env) demo_detect demo_dir_db))),
      snd (createOrMergeDirective (env_at 8 demo_env) demo_detect demo_dir_db))"
  by (rule prod_eqI) (simp_all add: demo_redetected)

lemma directive_by_key_unique:
  assumes "distinct (map (\<lambda>y. (od_tenant_id y, od_dedupe_key y)) (operator_directives d))" "x \<in> set (operator_directives d)"
    "cl_tenant c = od_tenant_id x"
  shows "directive_by_key c (od_tenant_id x) (od_dedupe_key x) d = Some x"
proof -
  from first_row_filter_distinct [OF assms(1,2)]
  have "first_row (filter (\<lambda>y. od_tenant_id y = od_tenant_id x \<and> od_dedupe_key y = od_dedupe_key x) (operator_directives d)) = Some x"
    by simp
  moreover have "filter (\<lambda>y. od_tenant_id y = od_tenant_id x \<and> od_dedupe_key y = od_dedupe_key x)
      (rls_rows c od_tenant_id (operator_directives d)) =
    filter (\<lambda>y. od_tenant_id y = od_tenant_id x \<and> od_dedupe_key y = od_dedupe_key x) (operator_directives d)"
    unfolding rls_rows_def assms(3) by (auto intro: filter_cong)
  ultimately show ?thesis unfolding directive_by_key_def by (simp only:)
qed

text \<open>What a detection may do to a Directive that nobody has closed\<close>

definition redetected :: "env \<Rightarrow> create_or_merge_input \<Rightarrow> operator_directive \<Rightarrow> merge_outcome \<Rightarrow> db \<Rightarrow> db \<Rightarrow> bool" where
  "redetected e inp x outcome d d' \<longleftrightarrow>
     directive_transitions d' = directive_transitions d \<and>
     map od_state (operator_directives d') = map od_state (operator_directives d) \<and>
     (outcome = mo_suppressed \<and> d' = d \<or>
      outcome = mo_carried \<and> directive_revisions d' = directive_revisions d \<or>
      outcome = mo_revised \<and> od_state x \<noteq> SUPERSEDED \<and>
        (\<exists>rv. directive_revisions d' = directive_revisions d @ [rv] \<and> dr_directive_id rv = od_id x \<and>
           dr_content_hash rv = computeDirectiveContentHash e (cm_content inp)))"

lemma merge_open:
  assumes "mergeIntoExistingDirective e c inp k x d = Inr (r, d')" "od_state x \<notin> {D_COMPLETED, DISMISSED, EXPIRED}"
  shows "redetected e inp x (cmr_outcome r) d d'"
  using assms(1)
proof (cases rule: merge_Inr)
  case (superseded prov)
  then show ?thesis by (auto simp: redetected_def dest!: recordProvenance_Inr)
next
  case (live prov d1)
  from live(1) have d1: "directive_transitions d1 = directive_transitions d" "directive_revisions d1 = directive_revisions d"
    "map od_state (operator_directives d1) = map od_state (operator_directives d)"
    by (auto dest!: recordProvenance_Inr)
  show ?thesis
  proof (cases "material e c inp x d1")
    case True
    with live(5) obtain rev where "insertDirectiveRevisionRow (env_at 1 e) c
        (mergeRevision inp (od_id x) ''Re-detected with updated content'') d1 = Inr (rev, d')" by blast
    from insertRevision_Inr [OF this] True live(2,4) d1 show ?thesis
      by (simp add: redetected_def after_revision_def revisionRow_def mergeRevision_def computeDirectiveContentHash_def Let_def)
  qed (use live d1 in \<open>simp add: redetected_def\<close>)
next
  case (closed prov d1 d2 y tr)
  with assms(2) show ?thesis by (simp add: CLOSED_BUT_REOPENABLE_STATES_def)
qed



text \<open>With gap-free numbers, the newest revision is the last one inserted.\<close>

lemma newest_is_last:
  assumes "map dr_revision_number rs = [1..<Suc (length rs)]" "rs \<noteq> []"
  shows "first_row (order_by_desc (\<lambda>r. int (dr_revision_number r)) rs) = Some (last rs)"
proof -
  let ?f = "\<lambda>r. - int (dr_revision_number r)"
  have nums: "sorted_wrt (<) (map dr_revision_number rs)"
    unfolding assms(1) by (rule sorted_wrt_upt)
  have "sorted_wrt (\<le>) (map ?f (rev rs))"
    using nums unfolding rev_map [symmetric] sorted_wrt_rev sorted_wrt_map
    by (rule sorted_wrt_mono_rel [rotated]) auto
  moreover have "inj_on ?f (set rs)"
    using distinct_upt [of 1 "Suc (length rs)"] unfolding assms(1) [symmetric] distinct_map
    by (auto simp: inj_on_def)
  ultimately have "sort_key ?f rs = rev rs"
    by (intro sort_key_inj_key_eq) auto
  with assms(2) show ?thesis
    by (cases rs rule: rev_cases) (auto simp: order_by_desc_def)
qed

lemma latestHash_own:
  assumes "dir_inv d" "x \<in> set (operator_directives d)" "cl_tenant c = od_tenant_id x"
  shows "latestHash c (od_tenant_id x) (od_id x) d = Some (dr_content_hash (last (dir_revs d (od_id x))))"
proof -
  from assms have "map dr_revision_number (dir_revs d (od_id x)) = [1..<Suc (length (dir_revs d (od_id x)))]"
    "dir_revs d (od_id x) \<noteq> []"
    unfolding dir_inv_def dir_consistent_def Let_def by blast+
  from newest_is_last [OF this] assms show ?thesis
    by (simp add: latestHash_def revisions_of_own dir_inv_def)
qed

lemma in_update_where: "y \<in> set rows \<Longrightarrow> (if P y then f y else y) \<in> set (update_where P f rows)"
  by (auto simp: set_update_where)

lemma touched_recorded:
  assumes "recordProvenance e' c inp i (touched e inp x d) = Inr (prov, d1)" "dir_inv d"
    "x \<in> set (operator_directives d)" "od_tenant_id x = cm_tenantId inp"
  shows "dir_inv d1 \<and> directive_revisions d1 = directive_revisions d \<and>
    (\<exists>y\<in>set (operator_directives d1). od_id y = od_id x \<and> od_tenant_id y = od_tenant_id x \<and>
       od_state y = od_state x \<and> od_dedupe_key y = od_dedupe_key x)"
proof -
  from assms(2) have "dir_inv (touched e inp x d)" unfolding touched_def by (rule touch_keeps)
  with stepsD [OF recordProvenance_keeps assms(1)] have "dir_inv d1" by (simp add: keeps_dir_inv_def)
  moreover from recordProvenance_Inr [OF assms(1)] have "directive_revisions d1 = directive_revisions d"
    "operator_directives d1 = operator_directives (touched e inp x d)" by auto
  moreover have "touchDirective (env_now e 0) x \<in> set (operator_directives (touched e inp x d))"
    using assms(3,4) by (force simp: touched_def set_update_where)
  ultimately show ?thesis by (auto intro!: bexI [of _ "touchDirective (env_now e 0) x"] simp: touchDirective_def)
qed

text \<open>The state a successful detection leaves: superseded, or live with the detected content as latest.\<close>

definition settled :: "env \<Rightarrow> create_or_merge_input \<Rightarrow> operator_directive \<Rightarrow> db \<Rightarrow> bool" where
  "settled e inp x d \<longleftrightarrow> x \<in> set (operator_directives d) \<and> od_tenant_id x = cm_tenantId inp \<and>
     od_dedupe_key x = js_trim (cm_dedupeKey inp) \<and>
     (od_state x = SUPERSEDED \<or> od_state x \<notin> set CLOSED_BUT_REOPENABLE_STATES \<and>
        dr_content_hash (last (dir_revs d (od_id x))) = computeDirectiveContentHash e (cm_content inp))"

lemma revised_hash:
  assumes "insertDirectiveRevisionRow e c (mergeRevision inp i reason) d = Inr (rv, d')"
  shows "dr_content_hash (last (dir_revs d' i)) = computeDirectiveContentHash e (cm_content inp)"
  using insertRevision_Inr [OF assms] by (simp add: after_revision_def dir_revs_def mergeRevision_def)

lemma revised_row:
  assumes "insertDirectiveRevisionRow e c (mergeRevision inp i reason) d = Inr (rv, d')" "y \<in> set (operator_directives d)"
  shows "\<exists>z\<in>set (operator_directives d'). od_id z = od_id y \<and> od_tenant_id z = od_tenant_id y \<and>
    od_state z = od_state y \<and> od_dedupe_key z = od_dedupe_key y"
proof -
  let ?rv = "mergeRevision inp i reason"
  let ?P = "\<lambda>x. od_id x = rv_directiveId ?rv \<and> od_tenant_id x = rv_tenantId ?rv"
  let ?f = "mirrorTemporalFields (env_now e 1) (rv_content ?rv)"
  from insertRevision_Inr [OF assms(1)] have "operator_directives d' = update_where ?P ?f (operator_directives d)"
    by (simp add: after_revision_def)
  with in_update_where [OF assms(2), of ?P ?f] show ?thesis
    by (intro bexI [of _ "if ?P y then ?f y else y"]) auto
qed

text \<open>After the revision step, whether or not it was needed, the latest content is the detected one.\<close>

lemma revision_step:
  assumes "dir_inv d1" "y \<in> set (operator_directives d1)" "od_id y = od_id x" "od_tenant_id y = cm_tenantId inp"
    "cl_tenant c = cm_tenantId inp"
    "d2 = d1 \<and> \<not> material e c inp x d1 \<or> material e c inp x d1 \<and> (\<exists>rev. insertDirectiveRevisionRow (env_at 1 e) c
       (mergeRevision inp (od_id x) ''Re-detected with updated content'') d1 = Inr (rev, d2))"
  shows "dr_content_hash (last (dir_revs d2 (od_id x))) = computeDirectiveContentHash e (cm_content inp) \<and>
    (\<exists>z\<in>set (operator_directives d2). od_id z = od_id y \<and> od_tenant_id z = od_tenant_id y \<and>
       od_state z = od_state y \<and> od_dedupe_key z = od_dedupe_key y)"
  using assms(6)
proof (elim disjE conjE exE)
  assume "d2 = d1" "\<not> material e c inp x d1"
  with latestHash_own [OF assms(1,2), of c] assms(2-5) show ?thesis by (auto simp: material_def)
next
  fix rv
  assume r: "insertDirectiveRevisionRow (env_at 1 e) c
    (mergeRevision inp (od_id x) ''Re-detected with updated content'') d1 = Inr (rv, d2)"
  from revised_hash [OF r] revised_row [OF r assms(2)] show ?thesis
    by (simp add: computeDirectiveContentHash_def)
qed

lemma merge_settles:
  assumes inv: "dir_inv d" and x: "x \<in> set (operator_directives d)" "od_tenant_id x = cm_tenantId inp"
    "od_dedupe_key x = js_trim (cm_dedupeKey inp)" and c: "cl_tenant c = cm_tenantId inp"
    and m: "mergeIntoExistingDirective e c inp k x d = Inr (r, d')"
  shows "\<exists>y. settled e inp y d'"
  using m
proof (cases rule: merge_Inr)
  case (superseded prov)
  with touched_recorded [OF superseded(1) inv x(1,2)] x show ?thesis by (auto simp: settled_def)
next
  case (live prov d1)
  from touched_recorded [OF live(1) inv x(1,2)] obtain y where "dir_inv d1" "y \<in> set (operator_directives d1)"
    "od_id y = od_id x" "od_tenant_id y = cm_tenantId inp" "od_state y = od_state x"
    "od_dedupe_key y = js_trim (cm_dedupeKey inp)" using x by auto
  with revision_step [OF this(1-4) c, of d' e] live show ?thesis by (fastforce simp: settled_def)
next
  case (closed prov d1 d2 z tr)
  from touched_recorded [OF closed(1) inv x(1,2)] obtain y where "dir_inv d1" "y \<in> set (operator_directives d1)"
    "od_id y = od_id x" "od_tenant_id y = cm_tenantId inp" "od_dedupe_key y = js_trim (cm_dedupeKey inp)" using x by auto
  with revision_step [OF this(1-4) c closed(4)] obtain y2 where
    y2: "y2 \<in> set (operator_directives d2)" "od_id y2 = od_id x" "od_tenant_id y2 = cm_tenantId inp"
      "od_dedupe_key y2 = js_trim (cm_dedupeKey inp)"
    and h: "dr_content_hash (last (dir_revs d2 (od_id x))) = computeDirectiveContentHash e (cm_content inp)" by auto
  from closed(5) obtain w mm where d': "d' = after_directive_move (env_at 3 e) (autoReopen inp (od_id x)) w mm d2"
    by (rule applyTransition_Inr) blast
  have "moveDirective (env_now (env_at 3 e) 0) OPEN y2 \<in> set (operator_directives d')"
    using y2 by (force simp: d' after_directive_move_def autoReopen_def set_update_where)
  moreover have "dir_revs d' i = dir_revs d2 i" for i by (simp add: d' after_directive_move_def dir_revs_def)
  ultimately show ?thesis
    using y2 h by (intro exI [of _ "moveDirective (env_now (env_at 3 e) 0) OPEN y2"])
      (auto simp: settled_def CLOSED_BUT_REOPENABLE_STATES_def)
qed

lemma create_settles:
  assumes "recordProvenance e' c inp i (after_directive_create e inp (js_trim (cm_dedupeKey inp)) d) = Inr (prov, d')"
  shows "\<exists>y. settled e inp y d'"
proof -
  let ?x = "mirrorTemporalFields (env_now e 17) (cm_content inp) (newDirectiveRow e inp (js_trim (cm_dedupeKey inp)))"
  from recordProvenance_Inr [OF assms] have "operator_directives d' = operator_directives d @ [?x]"
    "directive_revisions d' = directive_revisions d @
       [revisionRow (env_at 1 e) (mergeRevision inp (env_uuid e 0) ''Initial detection'') 1]"
    by (auto simp: after_directive_create_def)
  then show ?thesis
    by (intro exI [of _ ?x])
      (simp add: settled_def dir_revs_def CLOSED_BUT_REOPENABLE_STATES_def mergeRevision_def computeDirectiveContentHash_def)
qed

lemma detect_settles:
  assumes inv: "dir_inv d" and c: "cl_tenant c = cm_tenantId inp"
    and m: "createOrMergeDirective_tx e inp c d = Inr (r, d')" and o: "cmr_outcome r \<noteq> mo_suppressed"
  shows "\<exists>y. settled e inp y d'"
proof -
  let ?k = "js_trim (cm_dedupeKey inp)"
  from m o consider (new) "createDirective e c inp ?k d = Inr (r, d')"
    | (old) x where "directive_by_key c (cm_tenantId inp) ?k d = Some x" "mergeIntoExistingDirective e c inp ?k x d = Inr (r, d')"
    by (auto simp: createOrMergeDirective_tx_def Let_def assertActorExists_def tx_simps split: if_splits)
  then show ?thesis
  proof cases
    case new
    from inv have "dir_refs_ok d" by (simp add: dir_inv_def)
    from createDirective_Inr [OF this new] show ?thesis
      using merge_settles [OF inv _ _ _ c] by (auto dest!: directive_by_key_SomeD intro: create_settles)
  next
    case (old x)
    with merge_settles [OF inv _ _ _ c] show ?thesis by (auto dest!: directive_by_key_SomeD)
  qed
qed

lemma settled_redetected:
  assumes inv: "dir_inv d" and s: "settled e inp y d" and c: "cl_tenant c = cm_tenantId inp"
    and sha: "env_sha256 e' = env_sha256 e"
    and ns: "\<not> key_suppressed e' c (cm_tenantId inp) (js_trim (cm_dedupeKey inp)) d"
    and m: "createOrMergeDirective_tx e' inp c d = Inr (r, d')"
  shows "cmr_outcome r = mo_carried"
proof -
  let ?k = "js_trim (cm_dedupeKey inp)"
  from directive_by_key_unique [of d y c] s inv c have "directive_by_key c (cm_tenantId inp) ?k d = Some y"
    by (simp add: settled_def dir_inv_def)
  with m ns have m': "mergeIntoExistingDirective e' c inp ?k y d = Inr (r, d')"
    by (auto simp: createOrMergeDirective_tx_def Let_def assertActorExists_def tx_simps split: if_splits)
  from s have y: "y \<in> set (operator_directives d)" "od_tenant_id y = cm_tenantId inp" by (auto simp: settled_def)
  from m' show ?thesis
  proof (cases rule: merge_Inr)
    case (live prov d1)
    from touched_recorded [OF live(1) inv y] obtain z where z: "dir_inv d1" "directive_revisions d1 = directive_revisions d"
      "z \<in> set (operator_directives d1)" "od_id z = od_id y" "od_tenant_id z = cm_tenantId inp" using y by auto
    from latestHash_own [OF z(1,3), of c] z c have "latestHash c (cm_tenantId inp) (od_id y) d1 =
        Some (dr_content_hash (last (dir_revs d (od_id y))))" by (simp add: dir_revs_def)
    with s live(2) sha have "\<not> material e' c inp y d1"
      by (auto simp: material_def settled_def computeDirectiveContentHash_def)
    with live(4) show ?thesis by simp
  next
    case (closed prov d1 d2 z tr)
    with s show ?thesis by (auto simp: settled_def CLOSED_BUT_REOPENABLE_STATES_def)
  qed
qed

text \<open>
  Repeating a detection is a carry: after a detection that was not suppressed, a second detection
  with the same input, if it succeeds and the key has not been suppressed meanwhile, reports a carry
  and writes no revision, whatever the first one did (created, revised, reopened or carried).
\<close>

theorem repeated_detection_carries:
  assumes "dir_inv d" "createOrMergeDirective e inp d = (Inr r, d')" "cmr_outcome r \<noteq> mo_suppressed"
    "createOrMergeDirective e' inp d' = (Inr r', d'')" "cmr_outcome r' \<noteq> mo_suppressed"
    "env_sha256 e' = env_sha256 e"
  shows "cmr_outcome r' = mo_carried \<and> directive_revisions d'' = directive_revisions d'"
proof -
  let ?c = "\<lambda>e. \<lparr>cl_tenant = cm_tenantId inp, cl_rls = env_rls e\<rparr>"
  from assms(2,4) have tx: "createOrMergeDirective_tx e inp (?c e) d = Inr (r, d')"
    "createOrMergeDirective_tx e' inp (?c e') d' = Inr (r', d'')"
    by (auto simp: createOrMergeDirective_def othrow_def withTenantTransaction_Inr split: sum.splits)
  from detect_settles [OF assms(1) _ tx(1) assms(3)] obtain y where "settled e inp y d'" by auto
  moreover from ostepsD [OF createOrMerge_keeps, of d e inp] assms(1,2) have "dir_inv d'"
    by (simp add: keeps_dir_inv_def)
  moreover from tx(2) assms(5) have "\<not> key_suppressed e' (?c e') (cm_tenantId inp) (js_trim (cm_dedupeKey inp)) d'"
    by (auto simp: createOrMergeDirective_tx_def Let_def assertActorExists_def tx_simps split: if_splits)
  ultimately have carried: "cmr_outcome r' = mo_carried"
    using settled_redetected [OF _ _ _ assms(6) _ tx(2)] by simp
  with redetection_frame [OF assms(4)] show ?thesis by simp
qed

theorem repeated_detection_carries_witness:
  "directive_revisions (snd (createOrMergeDirective (env_at 8 demo_env) demo_detect demo_dir_db)) =
     [revisionRow (env_at 1 demo_env) (mergeRevision demo_detect 100 ''Initial detection'') 1]"
proof -
  have "dir_inv demo_db" by (simp add: dir_inv_def dir_refs_ok_def demo_db_def empty_db_def)
  from repeated_detection_carries [OF this demo_detected _ demo_redetected_eq] show ?thesis
    by (simp add: demo_redetected) (simp add: demo_dir_db_def after_directive_create_def demo_db_def empty_db_def demo_env_def)
qed

subsection \<open>Completion\<close>

text \<open>
  C25. A completion claimed as validated has evidence: when \<open>completeDirective\<close> in mode
  \<open>system_validated\<close> succeeds, the Directive has a provenance row of the tenant that points at a
  WorkOrder of the same tenant whose status is \<open>COMPLETED\<close>, and the recorded transition names both
  the mode and the verb.
\<close>

theorem validated_completion_has_evidence:
  assumes "completeDirective e inp system_validated d = (Inr (x, tr), d')"
  shows "(\<exists>p\<in>set (directive_provenance_rows d). \<exists>w\<in>set (work_orders d).
      dp_directive_id p = vb_directiveId inp \<and> dp_tenant_id p = vb_tenantId inp \<and>
      dp_work_order_id p = Some (wo_id w) \<and> wo_tenant_id w = vb_tenantId inp \<and> wo_status w = COMPLETED) \<and>
    map_of (dt_metadata tr) ''completionMode'' = Some (JStr ''system_validated'') \<and>
    map_of (dt_metadata tr) ''verb'' = Some (JStr ''complete'') \<and> od_state x = D_COMPLETED"
proof -
  let ?c = "\<lparr>cl_tenant = vb_tenantId inp, cl_rls = env_rls e\<rparr>"
  let ?t = "verbTransition ''complete'' D_COMPLETED (Some system_validated) inp"
  from assms have "applyDirectiveTransition e ?c ?t d = Inr ((x, tr), d')"
    by (simp add: completeDirective_def transitionDirective_def withTenantTransaction_Inr verbTransition_def)
  then obtain y m where m: "completionMetadata ?c ?t d = Inr (m, d)"
    and x: "x = moveDirective (env_now e 0) (td_toState ?t) y" and tr: "tr = directiveTransitionRow e ?t (od_state y) m"
    by (rule applyTransition_Inr) blast
  from m have "completion_evidence ?c (vb_tenantId inp) (vb_directiveId inp) d \<noteq> []"
    "map_of m ''completionMode'' = Some (JStr ''system_validated'')" "map_of m ''verb'' = Some (JStr ''complete'')"
    by (auto simp: completionMetadata_def tx_simps verbTransition_def assertSystemValidatedCompletionSubstantiated_def)
  then show ?thesis
    using x tr by (auto simp: directiveTransitionRow_def verbTransition_def completion_evidence_def dest!: set_rls_rows)
      blast
qed

text \<open>A Directive in progress whose evidence is a completed WorkOrder.\<close>

definition demo_evidence_db :: db where
  "demo_evidence_db = demo_dir_db\<lparr>
     operator_directives := map (\<lambda>x. x\<lparr>od_state := OPEN\<rparr>) (operator_directives demo_dir_db),
     work_orders := [(newWorkOrderRow demo_env demo_create)\<lparr>wo_id := 300, wo_status := COMPLETED\<rparr>],
     directive_provenance_rows := [provenanceRow demo_env \<lparr>pv_tenantId = 1, pv_directiveId = 100,
        pv_source = src_work_order 300, pv_metadata = None\<rparr>]\<rparr>"

definition demo_verb :: directive_verb_input where
  "demo_verb = \<lparr>vb_tenantId = 1, vb_directiveId = 100, vb_actorId = 11, vb_reason = ''done'', vb_metadata = None\<rparr>"

lemma demo_completed:
  "\<exists>x tr. fst (completeDirective (env_at 9 demo_env) demo_verb system_validated demo_evidence_db) = Inr (x, tr) \<and>
     od_state x = D_COMPLETED"
  by (simp add: completeDirective_def transitionDirective_def verbTransition_def demo_verb_def demo_evidence_db_def
      demo_dir_db_def after_directive_create_def applyDirectiveTransition_def completionMetadata_def
      assertSystemValidatedCompletionSubstantiated_def completion_evidence_def moveDirective_def
      directiveTransitionRow_def assertValidDirectiveTransition_def isTerminalDirectiveState_def
      TERMINAL_DIRECTIVE_STATES_def isValidDirectiveTransition_def directive_run_simps run_simps demo_defs
      demo_detect_def demo_content_def env_at_def Let_def newWorkOrderRow_def)

theorem validated_completion_has_evidence_witness:
  "\<exists>p\<in>set (directive_provenance_rows demo_evidence_db). \<exists>w\<in>set (work_orders demo_evidence_db).
     dp_directive_id p = 100 \<and> dp_work_order_id p = Some (wo_id w) \<and> wo_status w = COMPLETED"
proof -
  from demo_completed obtain x tr where
    "completeDirective (env_at 9 demo_env) demo_verb system_validated demo_evidence_db =
       (Inr (x, tr), snd (completeDirective (env_at 9 demo_env) demo_verb system_validated demo_evidence_db))"
    by (metis prod.collapse)
  from validated_completion_has_evidence [OF this] show ?thesis by (auto simp: demo_verb_def)
qed

subsection \<open>Provenance and reads\<close>

text \<open>
  Every provenance row the code builds has exactly one source form, whatever the kind of source,
  so neither the schema's refinement nor the table's CHECK can reject it.
\<close>

theorem provenanceRow_has_one_source: "provenance_one_source (provenanceRow e inp)"
  by (cases "pv_source inp")
    (simp_all add: provenance_one_source_def provenance_internal_refs_def provenanceRow_def blank_provenance_def)

lemma fold_collect:
  "fold (\<lambda>r m. tbind m (\<lambda>acc. tbind (lift_result (f r)) (\<lambda>x. treturn (acc @ [x])))) rows m d = Inr (xs, d') \<longleftrightarrow>
   (\<exists>acc ys. m d = Inr (acc, d') \<and> xs = acc @ ys \<and> list_all2 (\<lambda>r y. f r = Inr y) rows ys)"
proof (induction rows arbitrary: m)
  case Nil
  then show ?case by auto
next
  case (Cons r rows)
  show ?case
    unfolding fold_simps Cons.IH by (auto simp: tx_simps list_all2_Cons1)
qed

lemma first_row_order_by_desc:
  "case first_row (order_by_desc key rows) of None \<Rightarrow> rows = [] | Some x \<Rightarrow> x \<in> set rows \<and> (\<forall>y\<in>set rows. key y \<le> key x)"
proof (cases "order_by_desc key rows")
  case (Cons x xs)
  have "sorted (map (\<lambda>r. - key r) (order_by_desc key rows))" "set (order_by_desc key rows) = set rows"
    by (simp_all add: order_by_desc_def)
  with Cons show ?thesis by auto
next
  case Nil
  then have "rows = []" by simp
  then show ?thesis by (simp add: order_by_desc_def)
qed

text \<open>
  What waits for the operator: a Directive in a state that is still to be answered; a focus only from the start of
  its window, which it must have, to the end of it, if it has one.
\<close>

definition awaiting :: "timestamp \<Rightarrow> operator_directive \<Rightarrow> bool" where
  "awaiting asOf x \<longleftrightarrow> od_state x \<in> {PROPOSED, OPEN, IN_PROGRESS, DEFERRED} \<and>
     (od_directive_type x = focus \<longrightarrow>
        od_window_start_at x \<noteq> None \<and> the (od_window_start_at x) \<le> asOf \<and>
        (od_window_end_at x \<noteq> None \<longrightarrow> asOf \<le> the (od_window_end_at x)))"

lemma isUnresolved_iff: "isUnresolved asOf x \<longleftrightarrow> awaiting asOf x"
  by (cases "od_state x") (auto simp: isUnresolved_def awaiting_def split: option.splits)

text \<open>The newest of the revisions of a Directive, if it has any\<close>

definition newest_revision :: "directive_revision option \<Rightarrow> directive_revision list \<Rightarrow> bool" where
  "newest_revision r revs \<longleftrightarrow> (case r of None \<Rightarrow> revs = []
     | Some x \<Rightarrow> x \<in> set revs \<and> (\<forall>y\<in>set revs. dr_revision_number y \<le> dr_revision_number x))"

definition counted :: "uuid \<Rightarrow> db \<Rightarrow> unresolved_candidate \<Rightarrow> bool" where
  "counted t d c \<longleftrightarrow>
     (let i = od_id (dd_directive c);
        provenance = filter (\<lambda>p. dp_tenant_id p = t \<and> dp_directive_id p = i) (directive_provenance_rows d);
        deferrals = filter (\<lambda>m. dt_tenant_id m = t \<and> dt_directive_id m = i \<and> dt_to_state m = DEFERRED) (directive_transitions d)
      in newest_revision (dd_latestRevision c) (filter (\<lambda>r. dr_tenant_id r = t \<and> dr_directive_id r = i) (directive_revisions d)) \<and>
        dd_carryCount c = length provenance \<and> dd_deferCount c = length deferrals \<and> dd_escalationLevel c = length deferrals \<and>
        uc_dependentWorkOrderCount c = card {w. Some w \<in> dp_work_order_id ` set provenance})"

lemma length_distinct_Some: "length (remdups (filter (\<lambda>v. v \<noteq> None) xs)) = card {w. Some w \<in> set xs}"
proof -
  have "set (filter (\<lambda>v. v \<noteq> None) xs) = Some ` {w. Some w \<in> set xs}" by auto
  then show ?thesis by (simp add: length_remdups_card_conv card_image)
qed

lemma unresolvedCandidate_Inr:
  assumes "unresolvedCandidate \<lparr>cl_tenant = t, cl_rls = b\<rparr> t d r = Inr y"
  shows "dd_directive y = r \<and> counted t d y"
proof -
  let ?c = "\<lparr>cl_tenant = t, cl_rls = b\<rparr>"
  from assms have y: "dd_directive y = r" "dd_latestRevision y = latestRevision ?c t (od_id r) d"
      "dd_carryCount y = length (provenance_of ?c t (od_id r) d)"
      "dd_deferCount y = defer_count (transitions_of ?c t (od_id r) d)"
      "dd_escalationLevel y = defer_count (transitions_of ?c t (od_id r) d)"
      "uc_dependentWorkOrderCount y = length (remdups (filter (\<lambda>v. v \<noteq> None) (map dp_work_order_id (provenance_of ?c t (od_id r) d))))"
    by (auto simp: unresolvedCandidate_def rowToDirective_def Let_def split: if_splits)
  have revs: "revisions_of ?c t (od_id r) d =
      filter (\<lambda>v. dr_tenant_id v = t \<and> dr_directive_id v = od_id r) (directive_revisions d)"
    by (auto simp: revisions_of_def rls_rows_def intro!: filter_cong)
  have "newest_revision (latestRevision ?c t (od_id r) d)
      (filter (\<lambda>v. dr_tenant_id v = t \<and> dr_directive_id v = od_id r) (directive_revisions d))"
    using first_row_order_by_desc [where key = "\<lambda>v. int (dr_revision_number v)" and rows = "revisions_of ?c t (od_id r) d"]
    unfolding newest_revision_def latestRevision_def revs by (simp del: first_row_None split: option.splits)
  moreover have "provenance_of ?c t (od_id r) d =
      filter (\<lambda>p. dp_tenant_id p = t \<and> dp_directive_id p = od_id r) (directive_provenance_rows d)"
    by (auto simp: provenance_of_def rls_rows_def intro!: filter_cong)
  moreover have "defer_count (transitions_of ?c t (od_id r) d) = length (filter (\<lambda>m. dt_tenant_id m = t \<and>
      dt_directive_id m = od_id r \<and> dt_to_state m = DEFERRED) (directive_transitions d))"
    by (auto simp: defer_count_def transitions_of_def rls_rows_def intro!: arg_cong [of _ _ length] filter_cong)
  ultimately show ?thesis using y(1)
    unfolding counted_def Let_def y(2-6) length_distinct_Some by simp
qed

text \<open>
  C26. The unresolved list is exact. When it is returned, it holds precisely the tenant's Directives that are
  proposed, open, in progress or deferred (a focus only within its window, both ends included), oldest first. Each
  comes with its newest revision, the number of its provenance rows, the number of its deferrals, which is also its
  escalation level, and the number of different WorkOrders in its provenance. Reading changes nothing.
\<close>

theorem listUnresolved_exact:
  assumes "listUnresolvedDirectives e t asOf d = (Inr cs, d')"
  shows "map dd_directive cs = order_by_asc od_first_seen_at
      (filter (\<lambda>x. od_tenant_id x = t \<and> awaiting asOf x) (operator_directives d)) \<and>
    (\<forall>c\<in>set cs. counted t d c) \<and> d' = d"
proof -
  let ?c = "\<lparr>cl_tenant = t, cl_rls = env_rls e\<rparr>"
  let ?rows = "order_by_asc od_first_seen_at
      (filter (\<lambda>x. od_tenant_id x = t \<and> awaiting asOf x) (operator_directives d))"
  from assms have d': "d' = d" and all: "list_all2 (\<lambda>r y. unresolvedCandidate ?c t d r = Inr y) ?rows cs"
    by (auto simp: listUnresolvedDirectives_def withTenantTransaction_Inr listUnresolvedDirectivesWithClient_def
        tx_simps fold_collect collect_rows_def isUnresolved_iff)
  from all have "map dd_directive cs = ?rows"
    by (induction rule: list_all2_induct) (auto dest: unresolvedCandidate_Inr)
  moreover from all have "\<forall>c\<in>set cs. counted t d c"
    by (induction rule: list_all2_induct) (auto dest: unresolvedCandidate_Inr)
  ultimately show ?thesis using d' by blast
qed

lemma demo_unresolved:
  "\<exists>cs. fst (listUnresolvedDirectives demo_env 1 50 demo_dir_db) = Inr cs \<and> length cs = 1"
  by (simp add: listUnresolvedDirectives_def listUnresolvedDirectivesWithClient_def collect_rows_def isUnresolved_def
      unresolvedCandidate_def latestRevision_def demo_dir_db_def after_directive_create_def directive_run_simps run_simps
      demo_defs demo_detect_def demo_content_def env_at_def Let_def provenance_of_def transitions_of_def defer_count_def)

theorem listUnresolved_exact_witness:
  "\<exists>cs. listUnresolvedDirectives demo_env 1 50 demo_dir_db = (Inr cs, demo_dir_db) \<and>
     map od_id (map dd_directive cs) = [100]"
proof -
  from demo_unresolved obtain cs where "listUnresolvedDirectives demo_env 1 50 demo_dir_db =
      (Inr cs, snd (listUnresolvedDirectives demo_env 1 50 demo_dir_db))" by (metis prod.collapse)
  with listUnresolved_exact [OF this] show ?thesis
    by (auto simp: awaiting_def demo_dir_db_def after_directive_create_def demo_db_def empty_db_def
        demo_detect_def demo_env_def mirrorTemporalFields_def newDirectiveRow_def Let_def)
qed

end
