(* ===== verification/CognitionProps.thy ===== *)
theory CognitionProps
  imports CognitionInv Demo
begin

text \<open>
  The contract of the CognitiveRun engine: what a completion needs, what a repeated creation returns,
  and that terminal runs stay as they are.
\<close>

lemma lock_run:
  assumes "cr_inv d" "r \<in> set (cognitive_runs d)" "cr_id r = i" "cr_tenant_id r = t" "cl_tenant c = t"
  shows "lockCognitiveRun c t i d = Inr (r, d)"
proof -
  from assms(1) have dist: "distinct (map cr_id (cognitive_runs d))" by (simp add: cr_inv_def)
  have "filter (\<lambda>x. cr_id x = cr_id r \<and> cr_tenant_id x = cr_tenant_id r) (cognitive_runs d) =
      filter (\<lambda>x. cr_id x = cr_id r) (cognitive_runs d)"
    using assms(1,2) by (auto dest: cr_unique intro!: filter_cong)
  with assms first_row_filter_distinct [OF dist assms(2)] show ?thesis
    by (simp add: lockCognitiveRun_Inr scoped_rows_def)
qed

lemma terminal_invocations_evidence:
  assumes "cl_tenant c = cr_tenant_id r"
  shows "terminal_invocations c (cr_tenant_id r) (cr_id r) d \<noteq> [] \<longleftrightarrow> has_evidence d r"
proof -
  have "m \<in> {SUCCEEDED, INV_FAILED, TIMED_OUT} \<longleftrightarrow> m \<noteq> STARTED" for m by (cases m) auto
  with assms show ?thesis
    by (auto simp: terminal_invocations_def has_evidence_def filter_empty_conv)
qed

text \<open>
  The completion gate is exact. For a running CognitiveRun, a request to complete it by an actor
  that exists is accepted if and only if a model invocation of the same tenant and run has finished
  (succeeded, failed or timed out); then the run is moved and one history row written. Otherwise the
  call throws \<open>CognitiveRunCompletionUnsubstantiatedError\<close> and the database is unchanged.
\<close>

theorem completion_gate:
  assumes "cr_inv d" "r \<in> set (cognitive_runs d)" "cr_status r = CR_RUNNING"
    "tc_cognitiveRunId inp = cr_id r" "tc_tenantId inp = cr_tenant_id r" "tc_nextStatus inp = CR_COMPLETED"
    "cr_tenant_id r \<in> set (tenants d)" "tc_actorId inp \<in> ac_id ` set (actors d)"
    "env_uuid e 0 \<notin> ct_id ` set (cognitive_run_transitions d)"
  shows "transitionCognitiveRun e inp d =
    (if has_evidence d r
     then (Inr (movedRun e CR_COMPLETED r, cognitiveRunTransitionRow e inp CR_RUNNING), after_run_move e inp CR_RUNNING d)
     else (Inl (CognitionError (CognitiveRunCompletionUnsubstantiatedError (cr_id r))), d))"
proof -
  let ?c = "\<lparr>cl_tenant = cr_tenant_id r, cl_rls = env_rls e\<rparr>"
  have lock: "lockCognitiveRun ?c (cr_tenant_id r) (cr_id r) d = Inr (r, d)"
    using assms(1,2) by (rule lock_run) simp_all
  have valid: "assertValidCognitiveRunTransition i CR_RUNNING CR_COMPLETED = Inr ()" for i
    by (rule cr_life.assert_ok) simp
  have ins: "insert_cognitive_run_transition (cognitiveRunTransitionRow e inp CR_RUNNING)
      (d\<lparr>cognitive_runs := update_where P f (cognitive_runs d)\<rparr>) =
      Inr ((), d\<lparr>cognitive_runs := update_where P f (cognitive_runs d),
        cognitive_run_transitions := cognitive_run_transitions d @ [cognitiveRunTransitionRow e inp CR_RUNNING]\<rparr>)"
    if "\<And>x. cr_id (f x) = cr_id x" for P f
  proof -
    have "cr_id ` set (update_where P f (cognitive_runs d)) = cr_id ` set (cognitive_runs d)"
      using that by (metis map_update_where set_map)
    with assms(2,4,5,7,8,9) show ?thesis
      by (simp add: insert_cognitive_run_transition_def insert_into_def cognitiveRunTransitionRow_def)
  qed
  show ?thesis
    using assms(3-6) lock valid terminal_invocations_evidence [of ?c r d]
    by (auto simp: transitionCognitiveRun_def runCognitiveTransition_def withTenantTransaction_def
        runCognitiveTransition_tx_def tbind_def lift_result_def query_def ensure_def treturn_def modify_def ins after_run_move_def)
qed

definition demo_run :: cognitive_run where
  "demo_run = \<lparr>cr_id = 300, cr_tenant_id = 1, cr_thread_id = Some 20, cr_message_id = Some 30,
     cr_initiated_by_actor_id = Some 11, cr_objective_kind = ''conversational_response'', cr_status = CR_RUNNING,
     cr_idempotency_key = ''k'', cr_started_at = Some 1, cr_ended_at = None, cr_created_at = 0, cr_updated_at = 1\<rparr>"

definition demo_run_db :: db where
  "demo_run_db = demo_db\<lparr>cognitive_runs := [demo_run], cognitive_run_transitions :=
     [\<lparr>ct_id = 301, ct_tenant_id = 1, ct_cognitive_run_id = 300, ct_from_state = None, ct_to_state = CR_PENDING,
        ct_actor_id = Some 11, ct_reason = ''CognitiveRun created'', ct_transition_type = ''state_change'',
        ct_metadata = [], ct_created_at = 0\<rparr>,
      \<lparr>ct_id = 302, ct_tenant_id = 1, ct_cognitive_run_id = 300, ct_from_state = Some CR_PENDING,
        ct_to_state = CR_RUNNING, ct_actor_id = Some 11, ct_reason = ''start'', ct_transition_type = ''state_change'',
        ct_metadata = [], ct_created_at = 1\<rparr>]\<rparr>"

definition demo_complete :: transition_cognitive_run_input where
  "demo_complete = \<lparr>tc_tenantId = 1, tc_cognitiveRunId = 300, tc_nextStatus = CR_COMPLETED, tc_actorId = 11,
     tc_reason = ''done'', tc_metadata = None\<rparr>"

lemma demo_run_inv: "cr_inv demo_run_db"
proof -
  have "cr_history demo_run_db 300 = [(None, CR_PENDING), (Some CR_PENDING, CR_RUNNING)]"
    by (simp add: cr_history_def demo_run_db_def)
  then show ?thesis
    by (simp add: cr_inv_def cr_refs_ok_def cr_consistent_def trail_iff_replay demo_run_def demo_run_db_def
        isTerminalCognitiveRunStatus_def TERMINAL_COGNITIVE_RUN_STATUSES_def)
qed

theorem completion_gate_witness:
  "transitionCognitiveRun demo_env demo_complete demo_run_db =
     (Inl (CognitionError (CognitiveRunCompletionUnsubstantiatedError 300)), demo_run_db)"
proof -
  have "\<not> has_evidence demo_run_db demo_run"
    by (simp add: has_evidence_def demo_run_db_def demo_db_def empty_db_def)
  then show ?thesis
    using completion_gate [OF demo_run_inv, of demo_run demo_complete demo_env]
    by (simp add: demo_run_def demo_run_db_def demo_complete_def demo_db_def empty_db_def demo_env_def)
qed

subsection \<open>Repeated creation\<close>

lemma createCognitiveRun_new:
  assumes "createCognitiveRun_tx e inp c d = Inr (r, d')"
    "(cc_tenantId inp, cognitiveRunKey inp) \<notin> (\<lambda>r. (cr_tenant_id r, cr_idempotency_key r)) ` set (cognitive_runs d)"
  shows "r = (newCognitiveRunRow e inp, initialCognitiveRunTransition e inp)" "d' = after_run_create e inp d"
    "env_uuid e 0 \<notin> cr_id ` set (cognitive_runs d)" "cognitiveRunSchema_ok (newCognitiveRunRow e inp)"
  using assms
  by (auto simp: createCognitiveRun_tx_def tx_simps insert_cognitive_run_def insert_cognitive_run_transition_def
      rowToCognitiveRun_def after_run_create_def newCognitiveRunRow_def initialCognitiveRunTransition_def
      split: if_splits)

text \<open>
  Creating a CognitiveRun is idempotent: once a call has returned a run and its first
  transition, a second call with the same input returns the same pair and changes nothing, whatever
  the clock, the random ids and the state of row-level security.
\<close>

theorem createCognitiveRun_idempotent:
  assumes "cr_refs_ok d" "createCognitiveRun e inp d = (Inr r, d')"
  shows "createCognitiveRun e' inp d' = (Inr r, d')"
proof -
  let ?c = "\<lambda>e. \<lparr>cl_tenant = cc_tenantId inp, cl_rls = env_rls e\<rparr>"
  let ?key = "\<lambda>d. (cc_tenantId inp, cognitiveRunKey inp) \<in> (\<lambda>r. (cr_tenant_id r, cr_idempotency_key r)) ` set (cognitive_runs d)"
  from assms(2) have tx: "createCognitiveRun_tx e inp (?c e) d = Inr (r, d')"
    by (simp add: createCognitiveRun_def withTenantTransaction_Inr)
  have "fetchExistingCognitiveRun inp (?c e') d' = Inr (r, d') \<and> ?key d'"
  proof (cases "?key d")
    case True
    with tx have f: "fetchExistingCognitiveRun inp (?c e) d = Inr (r, d')"
      by (simp add: createCognitiveRun_tx_def tbind_def insert_or_nothing_def)
    with fetchExistingRun_Inr [OF f] True show ?thesis
      by (simp add: fetchExistingCognitiveRun_def cong: option.case_cong)
  next
    case False
    note new = createCognitiveRun_new [OF tx False]
    from False have "filter (\<lambda>x. cr_tenant_id x = cc_tenantId inp \<and> cr_idempotency_key x = cognitiveRunKey inp)
        (cognitive_runs d) = []"
      by (force simp: filter_empty_conv)
    moreover have "filter (\<lambda>t. ct_tenant_id t = cc_tenantId inp \<and> ct_cognitive_run_id t = env_uuid e 0 \<and>
        ct_from_state t = None) (cognitive_run_transitions d) = []"
      using new(3) assms(1) by (force simp: cr_refs_ok_def filter_empty_conv)
    ultimately show ?thesis using new
      by (simp add: fetchExistingCognitiveRun_def after_run_create_def rowToCognitiveRun_def tx_defs
          initialCognitiveRunTransition_def newCognitiveRunRow_def)
  qed
  then show ?thesis
    by (simp add: createCognitiveRun_def withTenantTransaction_Inr createCognitiveRun_tx_def tbind_def insert_or_nothing_def)
qed

definition demo_run_input :: create_cognitive_run_input where
  "demo_run_input = \<lparr>cc_tenantId = 1, cc_threadId = Some 20, cc_messageId = Some 30,
     cc_initiatedByActorId = Some 11, cc_objectiveKind = ''conversational_response''\<rparr>"

lemma demo_kind_ok: "objective_kind_ok ''conversational_response''"
  by (simp add: objective_kind_ok_def is_alpha_char_def lower_char_def is_digit_char_def)

lemma demo_run_created:
  "createCognitiveRun demo_env demo_run_input demo_db =
     (Inr (newCognitiveRunRow demo_env demo_run_input, initialCognitiveRunTransition demo_env demo_run_input),
      after_run_create demo_env demo_run_input demo_db)"
  by (simp add: run_simps createCognitiveRun_def createCognitiveRun_tx_def newCognitiveRunRow_def
      initialCognitiveRunTransition_def rowToCognitiveRun_def cognitiveRunSchema_ok_def demo_kind_ok
      cognitiveRunKey_def after_run_create_def demo_run_input_def demo_defs)

theorem createCognitiveRun_idempotent_witness:
  "createCognitiveRun (env_at 3 demo_env) demo_run_input (after_run_create demo_env demo_run_input demo_db) =
     (Inr (newCognitiveRunRow demo_env demo_run_input, initialCognitiveRunTransition demo_env demo_run_input),
      after_run_create demo_env demo_run_input demo_db)"
  by (rule createCognitiveRun_idempotent [OF _ demo_run_created])
    (simp add: cr_refs_ok_def demo_db_def empty_db_def)

end
