(* ===== verification/MemoryProps.thy ===== *)
theory MemoryProps
  imports MemoryInv Demo
begin

text \<open>
  What the memory operations promise: a deletion removes the content everywhere and for good, and a
  candidate gives rise to at most one record, only after it was approved.
\<close>

lemma scoped_unique:
  assumes "distinct (map id_of rows)" "x \<in> set rows" "cl_tenant c = tenant_of x"
  shows "first_row (scoped_rows c id_of tenant_of (id_of x) (tenant_of x) rows) = Some x"
proof -
  have "filter (\<lambda>r. id_of r = id_of x \<and> tenant_of r = tenant_of x) rows = filter (\<lambda>r. id_of r = id_of x) rows"
    using assms(1,2) by (intro filter_cong) (auto simp: distinct_map dest: inj_onD)
  with first_row_filter_distinct [OF assms(1,2)] assms(3) show ?thesis by (simp add: scoped_rows_def)
qed

lemma delete_commits:
  assumes "mem_inv d" "deleteMemoryRecord e inp d = (Inr (r, v), d')"
  obtains x where "x \<in> set (memory_records d)" "mr_id x = dl_memoryRecordId inp" "mr_tenant_id x = dl_tenantId inp"
    "mr_deleted_at x = None" "r = tombstoned e x" "env_uuid e 0 \<notin> mv_id ` set (memory_record_versions d)"
    "d' = after_delete e inp (map mv_id (versions_of d (mr_id x))) (length (versions_of d (mr_id x))) d"
    "v = versionRow e (dl_tenantId inp) (dl_memoryRecordId inp) (length (versions_of d (mr_id x)) + 1)
       DELETION_TOMBSTONE_CONTENT (dl_reason inp) True"
proof -
  let ?c = "\<lparr>cl_tenant = dl_tenantId inp, cl_rls = env_rls e\<rparr>"
  from assms(2) have "runDeleteMemoryRecord_tx e inp False ?c d = Inr ((r, v), d')"
    by (simp add: deleteMemoryRecord_def runDeleteMemoryRecord_def withTenantTransaction_Inr)
  then show thesis
  proof (rule delete_Inr)
    fix x n vids
    assume x: "x \<in> set (memory_records d)" "mr_id x = dl_memoryRecordId inp" "mr_tenant_id x = dl_tenantId inp"
      "mr_deleted_at x = None" "n = maxVersion ?c (dl_tenantId inp) (dl_memoryRecordId inp) d"
      "vids = version_ids ?c (dl_tenantId inp) (dl_memoryRecordId inp) d"
      "env_uuid e 0 \<notin> mv_id ` set (memory_record_versions d)" "d' = after_delete e inp vids n d"
      "(r, v) = (tombstoned e x, versionRow e (dl_tenantId inp) (dl_memoryRecordId inp) (n + 1) DELETION_TOMBSTONE_CONTENT (dl_reason inp) True)"
    with that [of x] maxVersion_length [OF assms(1) x(1), of ?c] version_ids_of [OF assms(1) x(1), of ?c]
    show thesis by simp
  qed
qed

text \<open>
  C27. Deletion is real. When \<open>deleteMemoryRecord\<close> succeeds, the record and every one of its versions hold the fixed
  tombstone text, no embedding of any of its versions is left, the last version is the deletion marker that the call
  returns, the record is marked as deleted and points to that version as its current one, and of the earlier versions
  only the content has changed; every other record and its versions are the same.
\<close>

theorem deletion_scrubs_content:
  assumes "mem_inv d" "deleteMemoryRecord e inp d = (Inr (r, v), d')"
  shows "r \<in> set (memory_records d') \<and> mr_id r = dl_memoryRecordId inp \<and> mr_deleted_at r \<noteq> None \<and>
    mr_content r = DELETION_TOMBSTONE_CONTENT \<and>
    (\<forall>u\<in>set (versions_of d' (mr_id r)). mv_content u = DELETION_TOMBSTONE_CONTENT \<and> embeddings_of d' (mv_id u) = []) \<and>
    mr_current_version_id r = Some (mv_id v) \<and> v = last (versions_of d' (mr_id r)) \<and> mv_is_deletion_marker v \<and>
    map (\<lambda>u. u\<lparr>mv_content := []\<rparr>) (butlast (versions_of d' (mr_id r))) =
      map (\<lambda>u. u\<lparr>mv_content := []\<rparr>) (versions_of d (mr_id r)) \<and>
    (\<forall>i. i \<noteq> mr_id r \<longrightarrow> versions_of d' i = versions_of d i) \<and>
    filter (\<lambda>x. mr_id x \<noteq> mr_id r) (memory_records d') = filter (\<lambda>x. mr_id x \<noteq> mr_id r) (memory_records d)"
proof -
  from assms obtain x where x: "x \<in> set (memory_records d)" "mr_id x = dl_memoryRecordId inp" "mr_tenant_id x = dl_tenantId inp"
      "mr_deleted_at x = None" "r = tombstoned e x" "env_uuid e 0 \<notin> mv_id ` set (memory_record_versions d)"
      "d' = after_delete e inp (map mv_id (versions_of d (mr_id x))) (length (versions_of d (mr_id x))) d"
      "v = versionRow e (dl_tenantId inp) (dl_memoryRecordId inp) (length (versions_of d (mr_id x)) + 1)
         DELETION_TOMBSTONE_CONTENT (dl_reason inp) True"
    by (rule delete_commits)
  have id: "mr_id r = dl_memoryRecordId inp" using x by (simp add: tombstoned_def)
  have "r \<in> set (memory_records d')"
    using x(1-3,5) by (auto simp: x(7) after_delete_def set_update_where image_iff intro!: bexI [of _ x])
  moreover have "mem_inv d'"
    unfolding x(7) by (rule mem_inv_delete [OF assms(1) x(1-4) refl refl x(6)])
  ultimately have ok: "rec_ok d' r" "r \<in> set (memory_records d')" by (simp_all add: mem_inv_def)
  have del: "mr_deleted_at r \<noteq> None" by (simp add: x(5) tombstoned_def)
  have keys: "mem_keys d" "mem_refs_ok d" using assms(1) by (simp_all add: mem_inv_def)
  have other: "versions_of d' i = versions_of d i" if "i \<noteq> mr_id r" for i
    using that id by (auto simp: versions_of_def x(7) after_delete_def versionRow_def intro!: filter_update_where_other)
  have scrub: "filter (\<lambda>v. mv_memory_record_id v = mr_id r) (update_where
      (\<lambda>x. mv_tenant_id x = dl_tenantId inp \<and> mv_memory_record_id x = dl_memoryRecordId inp)
      (\<lambda>x. x\<lparr>mv_content := DELETION_TOMBSTONE_CONTENT\<rparr>) us) =
      map (\<lambda>x. x\<lparr>mv_content := DELETION_TOMBSTONE_CONTENT\<rparr>) (filter (\<lambda>v. mv_memory_record_id v = mr_id r) us)"
    if "set us \<subseteq> set (memory_record_versions d)" for us
    using that version_tenant [OF keys x(1)] x(2,3) id by (induction us) auto
  have "butlast (versions_of d' (mr_id r)) = map (\<lambda>x. x\<lparr>mv_content := DELETION_TOMBSTONE_CONTENT\<rparr>) (versions_of d (mr_id r))"
    by (simp add: versions_of_def x(7) after_delete_def versionRow_def id) (simp add: scrub [unfolded id])
  moreover have "last (versions_of d' (mr_id r)) = v"
    by (simp add: versions_of_def x(7,8) after_delete_def id) (simp add: versionRow_def)
  moreover have "filter (\<lambda>x. mr_id x \<noteq> mr_id r) (memory_records d') = filter (\<lambda>x. mr_id x \<noteq> mr_id r) (memory_records d)"
    by (auto simp: x(7) after_delete_def id tombstoned_def intro!: filter_update_where_other)
  moreover have "mv_is_deletion_marker v" "mv_content v = DELETION_TOMBSTONE_CONTENT" by (simp_all add: x(8) versionRow_def)
  ultimately show ?thesis using ok del id other by (simp add: rec_ok_def Let_def o_def)
qed

subsection \<open>Deleted records stay deleted\<close>

text \<open>
  Deletion is final. On a deleted record every further correction or deletion throws, no version of
  it can be embedded again, and the database stays as it was.
\<close>

theorem deletion_is_final:
  assumes "mem_inv d" "x \<in> set (memory_records d)" "mr_deleted_at x \<noteq> None"
    "su_memoryRecordId si = mr_id x" "su_tenantId si = mr_tenant_id x"
    "dl_memoryRecordId di = mr_id x" "dl_tenantId di = mr_tenant_id x"
    "u \<in> set (versions_of d (mr_id x))" "wb_memoryRecordVersionId wi = mv_id u" "wb_tenantId wi = mr_tenant_id x"
  shows "supersedeMemoryRecord e si d = (Inl (MemoryError (MemoryRecordAlreadyDeletedError (mr_id x))), d) \<and>
    deleteMemoryRecord e di d = (Inl (MemoryError (MemoryRecordAlreadyDeletedError (mr_id x))), d) \<and>
    (\<exists>err. writeMemoryEmbedding nf cast e wi d = (Inl err, d))"
proof -
  have keys: "mem_keys d" using assms(1) by (simp add: mem_inv_def)
  let ?c = "\<lparr>cl_tenant = mr_tenant_id x, cl_rls = env_rls e\<rparr>"
  have row: "first_row (scoped_rows ?c mr_id mr_tenant_id (mr_id x) (mr_tenant_id x) (memory_records d)) = Some x"
    using keys assms(2) by (intro scoped_unique) (simp_all add: mem_keys_def)
  have lock: "lockRecord ?c (mr_tenant_id x) (mr_id x) d = Inl (MemoryError (MemoryRecordAlreadyDeletedError (mr_id x)))"
    using assms(3) by (auto simp: lockRecord_def tbind_def query_def row throw_def)
  have "eligibleVersion ?c (mr_tenant_id x) (mv_id u) d \<noteq> Inr r" for r
  proof
    assume "eligibleVersion ?c (mr_tenant_id x) (mv_id u) d = Inr r"
    then obtain v y where v: "first_row (versionsWithRecord ?c (mr_tenant_id x) (mv_id u) d) = Some (v, y)" "mr_deleted_at y = None"
      by (auto simp: eligibleVersion_Inr)
    note vr = versionsWithRecord_first [OF v(1)]
    have "v = u" using vr(1,2) assms(8) by (intro mv_unique [OF keys]) (auto simp: versions_of_def)
    then have "y = x" using vr assms(2,8) by (intro mr_unique [OF keys]) (auto simp: versions_of_def)
    with v(2) assms(3) show False by simp
  qed
  then obtain err where el: "eligibleVersion ?c (mr_tenant_id x) (mv_id u) d = Inl err"
    by (cases "eligibleVersion ?c (mr_tenant_id x) (mv_id u) d") auto
  have "\<exists>err. writeMemoryEmbedding nf cast e wi d = (Inl err, d)"
    using assms(9,10) el
    by (cases "serializeVector nf (wb_embedding wi)")
      (simp_all add: writeMemoryEmbedding_def runWriteMemoryEmbedding_def othrow_def withTenantTransaction_def
        runWriteMemoryEmbedding_tx_def tbind_def)
  then show ?thesis
    using assms(4-7) lock
    by (simp add: supersedeMemoryRecord_def deleteMemoryRecord_def runDeleteMemoryRecord_def withTenantTransaction_def
        supersedeMemoryRecord_tx_def runDeleteMemoryRecord_tx_def tbind_def)
qed

subsection \<open>Promotion\<close>

text \<open>
  A candidate is promoted once, and only when approved. If \<open>promoteMemoryCandidate\<close> succeeds, the candidate
  was approved, the new record carries its content as version 1 and is the only record that came from
  it, and from then on both a review and a promotion of this candidate throw and change nothing.
\<close>

theorem promotion_happens_once:
  assumes "mem_inv d" "promoteMemoryCandidate e inp d = (Inr r, d')"
    "vc_candidateId vi = pc_candidateId inp" "vc_tenantId vi = pc_tenantId inp"
    "pc_candidateId inp' = pc_candidateId inp" "pc_tenantId inp' = pc_tenantId inp"
  shows "\<exists>x\<in>set (memory_candidates d). mc_id x = pc_candidateId inp \<and> mc_review_status x = approved \<and>
    mr_content r = mc_candidate_content x \<and> map mv_content (versions_of d' (mr_id r)) = [mc_candidate_content x] \<and>
    {y \<in> set (memory_records d'). mr_source_candidate_id y = Some (mc_id x)} = {r} \<and>
    reviewMemoryCandidate e' vi d' = (Inl (MemoryError (InvalidCandidateReviewStateError (mc_id x) promoted)), d') \<and>
    promoteMemoryCandidate e' inp' d' = (Inl (MemoryError (CandidateNotApprovedError (mc_id x) promoted)), d')"
proof -
  let ?c = "\<lambda>e. \<lparr>cl_tenant = pc_tenantId inp, cl_rls = env_rls e\<rparr>"
  from assms(2) have "promoteMemoryCandidate_tx e inp (?c e) d = Inr (r, d')"
    by (simp add: promoteMemoryCandidate_def withTenantTransaction_Inr)
  then obtain x where x: "x \<in> set (memory_candidates d)" "mc_id x = pc_candidateId inp" "mc_tenant_id x = pc_tenantId inp"
    "mc_review_status x = approved" "r = newRecord (env_at 1 e) (promotionInput inp x)" "d' = after_promote e inp x d"
    "env_uuid (env_at 1 e) 0 \<notin> mr_id ` set (memory_records d)"
    "env_uuid (env_at 1 e) 1 \<notin> mv_id ` set (memory_record_versions d)"
    by (rule promote_Inr)
  let ?y = "promotedCandidate (mr_id r) x"
  have inv: "mem_inv d'" unfolding x(6) by (rule mem_inv_promote [OF assms(1) x(1-4,7,8)])
  then have keys: "mem_keys d'" and refs: "mem_refs_ok d'" by (simp_all add: mem_inv_def)
  have r: "r \<in> set (memory_records d')" by (simp add: x(5,6) after_promote_def after_record_create_def)
  have y: "?y \<in> set (memory_candidates d')" "mc_id ?y = pc_candidateId inp" "mc_tenant_id ?y = pc_tenantId inp"
    using x(1-3) by (auto simp: x(5,6) after_promote_def set_update_where newRecord_def promotedCandidate_def
        image_iff intro!: bexI [of _ x])
  have row: "first_row (scoped_rows (?c e') mc_id mc_tenant_id (pc_candidateId inp) (pc_tenantId inp) (memory_candidates d')) = Some ?y"
    using scoped_unique [of mc_id "memory_candidates d'" ?y "?c e'" mc_tenant_id] keys y by (simp add: mem_keys_def)
  have lock: "lockCandidate (?c e') (pc_tenantId inp) (pc_candidateId inp) d' = Inr (?y, d')"
    by (simp add: lockCandidate_Inr row)
  have src: "mr_source_candidate_id r = Some (pc_candidateId inp)" by (simp add: x(5) newRecord_def promotionInput_def)
  have "z = r" if z: "z \<in> set (memory_records d')" "mr_source_candidate_id z = Some (pc_candidateId inp)" for z
  proof -
    from refs z obtain w where w: "w \<in> set (memory_candidates d')" "mc_id w = pc_candidateId inp"
        "mc_promoted_memory_record_id w = Some (mr_id z)"
      by (force simp: mem_refs_ok_def promotions_def)
    then have "w = ?y" using y by (intro mc_unique [OF keys]) simp_all
    with w(3) have "mr_id z = mr_id r" by (simp add: promotedCandidate_def)
    with z(1) r show ?thesis by (intro mr_unique [OF keys])
  qed
  with r src have only: "{y \<in> set (memory_records d'). mr_source_candidate_id y = Some (mc_id x)} = {r}"
    unfolding x(2) by blast
  have old: "versions_of d (mr_id r) = []"
    using x(7) assms(1) by (simp add: x(5) newRecord_def fresh_record_no_versions mem_inv_def)
  have "versions_of d' (mr_id r) = [firstVersion (env_at 1 e) (promotionInput inp x)]"
    using versions_of_append [of d' d "firstVersion (env_at 1 e) (promotionInput inp x)" "mr_id r"] old
    by (simp add: x(5,6) after_promote_def after_record_create_def firstVersion_def newRecord_def)
  then have vers: "map mv_content (versions_of d' (mr_id r)) = [mc_candidate_content x]"
    by (simp add: firstVersion_def promotionInput_def)
  show ?thesis
    using x(1,2,4) only vers lock assms(3-6)
    by (intro bexI [of _ x])
      (simp_all add: x(5) newRecord_def promotionInput_def reviewMemoryCandidate_def reviewMemoryCandidate_tx_def
        promoteMemoryCandidate_def promoteMemoryCandidate_tx_def withTenantTransaction_def tbind_def ensure_def promotedCandidate_def)
qed

subsection \<open>Evaluation\<close>

definition demo_candidate :: memory_candidate where
  "demo_candidate = \<lparr>mc_id = 400, mc_tenant_id = 1, mc_source_message_id = Some 30, mc_source_receipt_id = None,
     mc_source_work_order_id = None, mc_candidate_content = ''the site is in Oslo'', mc_candidate_type = Some ''fact'',
     mc_confidence = None, mc_scope = None, mc_review_status = approved, mc_reason_for_creation = None,
     mc_promoted_memory_record_id = None, mc_created_at = 0, mc_reviewed_by_actor_id = Some 11,
     mc_reviewed_at = Some 1, mc_review_note = None\<rparr>"

definition demo_mem_db :: db where
  "demo_mem_db = demo_db\<lparr>memory_candidates := [demo_candidate]\<rparr>"

definition demo_promote :: promote_candidate_input where
  "demo_promote = \<lparr>pc_tenantId = 1, pc_candidateId = 400, pc_actorId = 11\<rparr>"

definition demo_review :: review_candidate_input where
  "demo_review = \<lparr>vc_tenantId = 1, vc_candidateId = 400, vc_actorId = 11, vc_decision = review_rejected, vc_note = None\<rparr>"

definition demo_delete :: delete_record_input where
  "demo_delete = \<lparr>dl_tenantId = 1, dl_memoryRecordId = 116, dl_actorId = 11, dl_reason = ''asked to''\<rparr>"

definition demo_supersede :: supersede_record_input where
  "demo_supersede = \<lparr>su_tenantId = 1, su_memoryRecordId = 116, su_actorId = 11, su_newContent = ''it is in Bergen'', su_changeReason = ''moved''\<rparr>"

definition demo_mem_db1 :: db where
  "demo_mem_db1 = after_promote demo_env demo_promote demo_candidate demo_mem_db"

definition demo_mem_db2 :: db where
  "demo_mem_db2 = after_delete demo_env demo_delete [117] 1 demo_mem_db1"

lemmas memory_run_simps = reviewMemoryCandidate_tx_def promoteMemoryCandidate_tx_def createMemoryRecordWithVersion_def
  runDeleteMemoryRecord_tx_def supersedeMemoryRecord_tx_def lockCandidate_def lockRecord_def maxVersion_def version_ids_def
  memoryRecordVersionSchema_ok_def memoryRecordSchema_ok_def memoryCandidateSchema_ok_def

lemmas memory_demo_defs = demo_mem_db_def demo_candidate_def demo_promote_def demo_delete_def demo_supersede_def demo_review_def
  promotionInput_def PROMOTION_CHANGE_REASON_def DELETION_TOMBSTONE_CONTENT_def newRecord_def firstVersion_def versionRow_def
  tombstoned_def promotedCandidate_def

lemma demo_mem_inv: "mem_inv demo_mem_db"
  by (simp add: mem_inv_def mem_keys_def mem_refs_ok_def one_active_def cand_ok_def memory_demo_defs demo_db_def empty_db_def)

lemma demo_promoted:
  "promoteMemoryCandidate demo_env demo_promote demo_mem_db =
     (Inr (newRecord (env_at 1 demo_env) (promotionInput demo_promote demo_candidate)), demo_mem_db1)"
  by (simp add: promoteMemoryCandidate_def run_simps memory_run_simps after_promote_def after_record_create_def demo_mem_db1_def
      memory_demo_defs demo_defs)

lemma demo_mem_inv1: "mem_inv demo_mem_db1"
  using ostepsD [OF memory_ops_keep(2), of demo_mem_db demo_env demo_promote] demo_mem_inv
  by (simp add: demo_promoted keeps_mem_inv_def)

lemma demo_deleted:
  "deleteMemoryRecord demo_env demo_delete demo_mem_db1 =
     (Inr (tombstoned demo_env (newRecord (env_at 1 demo_env) (promotionInput demo_promote demo_candidate)),
       versionRow demo_env 1 116 2 DELETION_TOMBSTONE_CONTENT ''asked to'' True), demo_mem_db2)"
  by (simp add: deleteMemoryRecord_def runDeleteMemoryRecord_def run_simps memory_run_simps demo_mem_db1_def demo_mem_db2_def
      after_promote_def after_record_create_def after_delete_def memory_demo_defs demo_defs)

theorem deletion_scrubs_content_witness:
  "map (\<lambda>u. (mv_content u, embeddings_of demo_mem_db2 (mv_id u))) (versions_of demo_mem_db2 116) =
     [(DELETION_TOMBSTONE_CONTENT, []), (DELETION_TOMBSTONE_CONTENT, [])] \<and>
   (\<exists>r\<in>set (memory_records demo_mem_db2). mr_id r = 116 \<and>
      mr_current_version_id r = Some (mv_id (last (versions_of demo_mem_db2 116))))"
proof -
  have "length (versions_of demo_mem_db2 116) = 2"
    by (simp add: versions_of_def demo_mem_db2_def demo_mem_db1_def after_delete_def after_promote_def after_record_create_def
        memory_demo_defs demo_defs)
  then obtain a b where "versions_of demo_mem_db2 116 = [a, b]" by (auto simp: length_Suc_conv numeral_2_eq_2)
  moreover have "mr_id (tombstoned demo_env (newRecord (env_at 1 demo_env) (promotionInput demo_promote demo_candidate))) = 116"
    by (simp add: tombstoned_def newRecord_def) (simp add: demo_env_def)
  ultimately show ?thesis using deletion_scrubs_content [OF demo_mem_inv1 demo_deleted] by auto
qed

theorem promotion_happens_once_witness:
  "promoteMemoryCandidate demo_env demo_promote demo_mem_db1 =
     (Inl (MemoryError (CandidateNotApprovedError 400 promoted)), demo_mem_db1)"
proof -
  have "vc_candidateId demo_review = pc_candidateId demo_promote" "vc_tenantId demo_review = pc_tenantId demo_promote"
    by (simp_all add: demo_review_def demo_promote_def)
  from promotion_happens_once [OF demo_mem_inv demo_promoted this refl refl, of demo_env]
  obtain x :: memory_candidate where "mc_id x = pc_candidateId demo_promote" "promoteMemoryCandidate demo_env demo_promote demo_mem_db1 =
      (Inl (MemoryError (CandidateNotApprovedError (mc_id x) promoted)), demo_mem_db1)"
    by blast
  then show ?thesis by (simp add: demo_promote_def)
qed

definition demo_embed :: write_embedding_input where
  "demo_embed = \<lparr>wb_tenantId = 1, wb_memoryRecordVersionId = 117, wb_embedding = [Finite 1], wb_modelProvider = ''p'',
     wb_modelName = ''m'', wb_modelVersion = ''1''\<rparr>"

theorem deletion_is_final_witness:
  "supersedeMemoryRecord demo_env demo_supersede demo_mem_db2 = (Inl (MemoryError (MemoryRecordAlreadyDeletedError 116)), demo_mem_db2) \<and>
   deleteMemoryRecord demo_env demo_delete demo_mem_db2 = (Inl (MemoryError (MemoryRecordAlreadyDeletedError 116)), demo_mem_db2) \<and>
   (\<exists>err. writeMemoryEmbedding decimal_format Some demo_env demo_embed demo_mem_db2 = (Inl err, demo_mem_db2))"
proof -
  let ?x = "tombstoned demo_env (newRecord (env_at 1 demo_env) (promotionInput demo_promote demo_candidate))"
  let ?u = "(firstVersion (env_at 1 demo_env) (promotionInput demo_promote demo_candidate))\<lparr>mv_content := DELETION_TOMBSTONE_CONTENT\<rparr>"
  have inv: "mem_inv demo_mem_db2"
    using ostepsD [OF memory_ops_keep(4), of demo_mem_db1 demo_env demo_delete False] demo_mem_inv1 demo_deleted
    by (simp add: keeps_mem_inv_def deleteMemoryRecord_def)
  have x: "?x \<in> set (memory_records demo_mem_db2)"
    by (simp add: demo_mem_db2_def demo_mem_db1_def after_delete_def after_promote_def after_record_create_def memory_demo_defs demo_defs)
  have ids: "mr_id ?x = 116" "mr_tenant_id ?x = 1" "mv_id ?u = 117"
    by (simp_all add: tombstoned_def newRecord_def firstVersion_def promotionInput_def demo_promote_def demo_env_def)
  have u: "?u \<in> set (versions_of demo_mem_db2 116)"
    by (simp add: versions_of_def demo_mem_db2_def demo_mem_db1_def after_delete_def after_promote_def after_record_create_def memory_demo_defs demo_defs)
  from deletion_is_final [OF inv x, of demo_supersede demo_delete ?u demo_embed demo_env decimal_format Some] u
  show ?thesis
    unfolding ids by (simp add: tombstoned_def demo_supersede_def demo_delete_def demo_embed_def)
qed

end
