(* ===== verification/Paths.thy ===== *)
theory Paths
  imports Vectors "HOL-Library.Sublist"
begin

text \<open>
  The POSIX half of Node's \<open>path\<close> module, as far as \<open>src/src/tools/workspace.ts\<close> uses it, over plain
  strings: \<open>normalize\<close>, \<open>join\<close>, \<open>resolve\<close>, \<open>dirname\<close> and the two \<open>isAbsolute\<close>. \<open>segments\<close> is the
  reference view of a path, the list of its directory names; the lemmas relate every string
  operation to it.
\<close>

definition SEP :: char where
  "SEP = CHR ''/''"

abbreviation split_sep :: "string \<Rightarrow> string list" where
  "split_sep \<equiv> split_char SEP"

subsection \<open>Operations\<close>

text \<open>\<open>normalizeString\<close>: the stack of kept segments is the accumulator.\<close>

fun norm_segs :: "bool \<Rightarrow> string list \<Rightarrow> string list \<Rightarrow> string list" where
  "norm_segs allowAboveRoot acc [] = rev acc"
| "norm_segs allowAboveRoot acc (s # ss) =
     (if s = [] \<or> s = ''.'' then norm_segs allowAboveRoot acc ss
      else if s = ''..'' then
        (if acc \<noteq> [] \<and> hd acc \<noteq> ''..'' then norm_segs allowAboveRoot (tl acc) ss
         else if allowAboveRoot then norm_segs allowAboveRoot (s # acc) ss
         else norm_segs allowAboveRoot acc ss)
      else norm_segs allowAboveRoot (s # acc) ss)"

definition normalizeString :: "bool \<Rightarrow> string \<Rightarrow> string" where
  "normalizeString allowAboveRoot p = join [SEP] (norm_segs allowAboveRoot [] (split_sep p))"

definition posix_isAbsolute :: "string \<Rightarrow> bool" where
  "posix_isAbsolute p \<longleftrightarrow> take 1 p = [SEP]"

definition win32_isAbsolute :: "string \<Rightarrow> bool" where
  "win32_isAbsolute p \<longleftrightarrow> p \<noteq> [] \<and> (p ! 0 = SEP \<or> p ! 0 = CHR 0x5C \<or>
     (2 < length p \<and> is_alpha_char (p ! 0) \<and> p ! 1 = CHR '':'' \<and> (p ! 2 = SEP \<or> p ! 2 = CHR 0x5C)))"

definition path_normalize :: "string \<Rightarrow> string" where
  "path_normalize p =
     (if p = [] then ''.''
      else let isAbs = posix_isAbsolute p; trailing = (last p = SEP); q = normalizeString (\<not> isAbs) p in
        if q = [] then (if isAbs then [SEP] else if trailing then ''./'' else ''.'')
        else (if isAbs then [SEP] else []) @ q @ (if trailing then [SEP] else []))"

definition path_join :: "string list \<Rightarrow> string" where
  "path_join parts = (let ps = filter (\<lambda>p. p \<noteq> []) parts in if ps = [] then ''.'' else path_normalize (join [SEP] ps))"

text \<open>\<open>path.resolve\<close>: arguments from the right until one is absolute, else the working directory \<open>cwd\<close>.\<close>

fun resolve_from :: "string list \<Rightarrow> string \<Rightarrow> string" where
  "resolve_from [] resolved = resolved"
| "resolve_from (p # ps) resolved =
     (if posix_isAbsolute resolved then resolved
      else if p = [] then resolve_from ps resolved else resolve_from ps (p @ SEP # resolved))"

definition path_resolve :: "string \<Rightarrow> string list \<Rightarrow> string" where
  "path_resolve cwd parts =
     (let r = resolve_from (rev parts @ [cwd]) []; isAbs = posix_isAbsolute r; q = normalizeString (\<not> isAbs) r in
      if isAbs then SEP # q else if q = [] then ''.'' else q)"

text \<open>
  \<open>path.dirname\<close>: trailing separators go, then the last name; a result that would be empty is the root
  or the working directory.
\<close>

definition path_dirname :: "string \<Rightarrow> string" where
  "path_dirname p =
     (let r = dropWhile (\<lambda>c. c \<noteq> SEP) (dropWhile (\<lambda>c. c = SEP) (rev p)); hasRoot = posix_isAbsolute p in
      if length r \<le> 1 then (if hasRoot then [SEP] else ''.'')
      else if hasRoot \<and> length r = 2 then [SEP, SEP] else rev (tl r))"

subsection \<open>Segments\<close>

definition segments :: "string \<Rightarrow> string list" where
  "segments p = filter (\<lambda>s. s \<noteq> []) (split_sep p)"

definition is_segment :: "string \<Rightarrow> bool" where
  "is_segment s \<longleftrightarrow> s \<noteq> [] \<and> SEP \<notin> set s"

definition abs_path :: "string list \<Rightarrow> string" where
  "abs_path ss = SEP # join [SEP] ss"

lemma split_char_segments: "s \<in> set (split_char c p) \<Longrightarrow> c \<notin> set s"
  by (induction p arbitrary: s) (auto split: if_splits list.splits)

lemma norm_segs_segment:
  "s \<in> set (norm_segs up acc ss) \<Longrightarrow> s \<in> set acc \<or> s \<in> set ss \<and> s \<noteq> [] \<and> s \<noteq> ''.''"
proof (induction up acc ss rule: norm_segs.induct)
  case (2 up acc t ss)
  have tl: "s \<in> set (tl acc) \<Longrightarrow> s \<in> set acc" by (cases acc) auto
  consider "t = [] \<or> t = ''.''" | "t = ''..''" "acc \<noteq> [] \<and> hd acc \<noteq> ''..''"
    | "t = ''..''" "\<not> (acc \<noteq> [] \<and> hd acc \<noteq> ''..'')" | "t \<noteq> []" "t \<noteq> ''.''" "t \<noteq> ''..''"
    by blast
  then show ?case
  proof cases
    case 1
    with 2 show ?thesis by auto
  next
    case 2
    with "2.IH"(2) "2.prems" tl show ?thesis by auto
  next
    case 3
    with "2.IH"(3,4) "2.prems" show ?thesis by (cases up) auto
  next
    case 4
    with "2.IH"(5) "2.prems" show ?thesis by auto
  qed
qed simp

lemma segments_ok: "list_all is_segment (segments p)" "list_all is_segment (norm_segs up [] (split_sep p))"
  using split_char_segments [of _ SEP p] norm_segs_segment [of _ up "[]" "split_sep p"]
  by (auto simp: segments_def is_segment_def list_all_iff)

lemma split_join_segments: "list_all is_segment ss \<Longrightarrow> filter (\<lambda>s. s \<noteq> []) (split_sep (join [SEP] ss)) = ss"
proof (cases "ss = []")
  case False
  moreover assume "list_all is_segment ss"
  ultimately show ?thesis
    by (subst split_char_join) (auto simp: list_all_iff is_segment_def intro: filter_True)
qed simp

lemma segments_abs_path: "list_all is_segment ss \<Longrightarrow> segments (abs_path ss) = ss"
  by (simp add: segments_def abs_path_def split_join_segments)

lemma abs_path_inject: "list_all is_segment ss \<Longrightarrow> list_all is_segment ts \<Longrightarrow> abs_path ss = abs_path ts \<longleftrightarrow> ss = ts"
  by (metis segments_abs_path)

text \<open>A path whose segments hold no \<open>.\<close> and no \<open>..\<close> normalises to those segments.\<close>

lemma norm_segs_plain:
  "''..'' \<notin> set ss \<Longrightarrow> norm_segs up acc ss = rev acc @ filter (\<lambda>s. s \<noteq> [] \<and> s \<noteq> ''.'') ss"
  by (induction ss arbitrary: acc) auto

lemma norm_segs_append: "norm_segs False acc (ss @ ts) = norm_segs False (rev (norm_segs False acc ss)) ts"
  by (induction "False" acc ss rule: norm_segs.induct) auto

lemma norm_segs_plain_acc:
  "''..'' \<notin> set acc \<Longrightarrow> ''..'' \<notin> set (norm_segs False acc ss)"
proof (induction "False" acc ss rule: norm_segs.induct)
  case (2 acc s ss)
  then show ?case by (auto dest: list.set_sel(2))
qed simp

lemma split_char_append_sep: "split_char c (p @ c # q) = split_char c p @ split_char c q"
proof (induction p)
  case (Cons x p)
  then show ?case by (cases "split_char c p") (auto dest: split_char_not_Nil [THEN notE])
qed simp

subsection \<open>Resolved paths\<close>

lemma resolve_absolute:
  "posix_isAbsolute p \<Longrightarrow> path_resolve cwd [p] = abs_path (norm_segs False [] (split_sep p))"
proof -
  assume p: "posix_isAbsolute p"
  then obtain q where q: "p = SEP # q" by (cases p) (auto simp: posix_isAbsolute_def)
  have "posix_isAbsolute (p @ [SEP])" using q by (simp add: posix_isAbsolute_def)
  moreover have "norm_segs False [] (split_sep (p @ [SEP])) = norm_segs False [] (split_sep p)"
    by (simp add: split_char_append_sep [of SEP p "[]", simplified] norm_segs_append)
  moreover have "p \<noteq> []" using q by simp
  ultimately show ?thesis
    by (simp add: path_resolve_def Let_def normalizeString_def abs_path_def posix_isAbsolute_def)
qed

lemma resolve_is_abs_path:
  assumes "posix_isAbsolute cwd"
  shows "\<exists>ss. path_resolve cwd [p] = abs_path ss \<and> list_all is_segment ss \<and> ''..'' \<notin> set ss \<and> ''.'' \<notin> set ss"
proof -
  have abs: "\<exists>ss. path_resolve cwd [p] = abs_path ss \<and> list_all is_segment ss \<and> ''..'' \<notin> set ss \<and> ''.'' \<notin> set ss"
    if r: "resolve_from [p, cwd] [] = r" "posix_isAbsolute r" for r
  proof -
    let ?ss = "norm_segs False [] (split_sep r)"
    have "path_resolve cwd [p] = abs_path ?ss"
      using r by (simp add: path_resolve_def Let_def normalizeString_def abs_path_def)
    moreover have "''.'' \<notin> set ?ss" using norm_segs_segment [of "''.''" False "[]"] by auto
    ultimately show ?thesis using segments_ok(2) norm_segs_plain_acc [of "[]"] by auto
  qed
  obtain q where q: "cwd = SEP # q" using assms by (cases cwd) (auto simp: posix_isAbsolute_def)
  have "posix_isAbsolute (resolve_from [p, cwd] [])"
    by (cases p) (auto simp: posix_isAbsolute_def q)
  then show ?thesis using abs by blast
qed

lemma norm_abs_path:
  assumes "list_all is_segment ss" "''..'' \<notin> set ss" "''.'' \<notin> set ss"
  shows "norm_segs False [] (split_sep (abs_path ss)) = ss"
proof -
  have "[] # split_sep (join [SEP] ss) = split_sep (abs_path ss)" by (simp add: abs_path_def)
  then have "norm_segs False [] (split_sep (abs_path ss)) = norm_segs False [] (split_sep (join [SEP] ss))"
    by (metis norm_segs.simps(2))
  also have "\<dots> = ss"
  proof (cases "ss = []")
    case False
    then have "split_sep (join [SEP] ss) = ss"
      using assms(1) by (intro split_char_join) (auto simp: list_all_iff is_segment_def)
    moreover have "filter (\<lambda>s. s \<noteq> [] \<and> s \<noteq> ''.'') ss = ss"
      using assms(1,3) by (intro filter_True) (auto simp: list_all_iff is_segment_def)
    ultimately show ?thesis using assms(2) by (simp add: norm_segs_plain)
  qed simp
  finally show ?thesis .
qed

lemma resolve_in:
  assumes "\<not> posix_isAbsolute rel" "list_all is_segment ss" "''..'' \<notin> set ss" "''.'' \<notin> set ss"
  shows "path_resolve cwd [abs_path ss, rel] = abs_path (norm_segs False (rev ss) (split_sep rel))"
proof -
  note base = norm_abs_path [OF assms(2-4)]
  have a: "posix_isAbsolute (abs_path ss @ xs)" for xs by (simp add: abs_path_def posix_isAbsolute_def)
  show ?thesis
  proof (cases "rel = []")
    case True
    have r: "resolve_from [rel, abs_path ss, cwd] [] = abs_path ss @ [SEP]"
      using True a [of "[SEP]"] by (simp add: posix_isAbsolute_def abs_path_def)
    have "norm_segs False [] (split_sep (abs_path ss @ [SEP])) = ss"
      using split_char_append_sep [of SEP "abs_path ss" "[]"] by (simp add: norm_segs_append base)
    with r True a show ?thesis by (simp add: path_resolve_def Let_def normalizeString_def abs_path_def [symmetric])
  next
    case False
    have n: "\<not> posix_isAbsolute (rel @ xs)" for xs using assms(1) False by (cases rel) (auto simp: posix_isAbsolute_def)
    have r: "resolve_from [rel, abs_path ss, cwd] [] = abs_path ss @ SEP # rel @ [SEP]"
      using False n [of "[SEP]"] a [of "SEP # rel @ [SEP]"] by (simp add: posix_isAbsolute_def abs_path_def)
    have "norm_segs False [] (split_sep (abs_path ss @ SEP # rel @ [SEP])) = norm_segs False (rev ss) (split_sep rel)"
      using split_char_append_sep [of SEP "abs_path ss" "rel @ [SEP]"] split_char_append_sep [of SEP rel "[]"]
      by (simp add: norm_segs_append base)
    with r a show ?thesis by (simp add: path_resolve_def Let_def normalizeString_def) (simp add: abs_path_def)
  qed
qed

end
