(* ===== verification/Workspace.thy ===== *)
theory Workspace
  imports Paths Ids
begin

text \<open>
  \<open>src/src/tools/workspace.ts\<close>: the bounded workspace of the local tools. Paths are validated lexically,
  resolved below the tenant's root, checked again after following symbolic links, and only then read
  or written. The file system is a parameter, \<open>fs_api\<close>: one function per call of \<open>node:fs\<close> the code
  makes, over an abstract file-system state, with every failure the code distinguishes as a value.
\<close>

subsection \<open>Configuration\<close>

record workspace_config =
  wc_baseRoot :: string
  wc_maxBytes :: js_number

definition DEFAULT_MAX_BYTES :: nat where
  "DEFAULT_MAX_BYTES = 1000000"

text \<open>The empty string counts as unset; \<open>NotFinite\<close> is the \<open>NaN\<close> of a text that is no number.\<close>

definition loadWorkspaceConfig ::
  "number_format \<Rightarrow> string \<Rightarrow> string option \<Rightarrow> string option \<Rightarrow> workspace_config" where
  "loadWorkspaceConfig nf cwd ELORA_WORKSPACE_ROOT ELORA_WORKSPACE_MAX_BYTES = \<lparr>
     wc_baseRoot = (case ELORA_WORKSPACE_ROOT of
         Some r \<Rightarrow> if r \<noteq> [] then path_resolve cwd [r] else path_resolve cwd [cwd, ''data'', ''elora-workspace'']
       | None \<Rightarrow> path_resolve cwd [cwd, ''data'', ''elora-workspace'']),
     wc_maxBytes = (case ELORA_WORKSPACE_MAX_BYTES of
         Some b \<Rightarrow> if b \<noteq> [] then nf_number nf b else Finite (of_nat DEFAULT_MAX_BYTES)
       | None \<Rightarrow> Finite (of_nat DEFAULT_MAX_BYTES))\<rparr>"

definition resolveWorkspaceRoot :: "workspace_config \<Rightarrow> uuid \<Rightarrow> uuid option \<Rightarrow> string" where
  "resolveWorkspaceRoot config tenantId workspaceId =
     path_join [wc_baseRoot config, uuid_str tenantId,
       (case workspaceId of None \<Rightarrow> ''_no_workspace'' | Some w \<Rightarrow> uuid_str w)]"

subsection \<open>Lexical checks\<close>

definition boundary :: "string \<Rightarrow> error" where
  "boundary code = ToolError (WorkspaceBoundaryViolationError code)"

text \<open>\<open>relativePath.split(/[\\/]/)\<close>\<close>

fun split_by :: "(char \<Rightarrow> bool) \<Rightarrow> string \<Rightarrow> string list" where
  "split_by P [] = [[]]"
| "split_by P (x # xs) =
     (if P x then [] # split_by P xs
      else case split_by P xs of [] \<Rightarrow> [[x]] | p # ps \<Rightarrow> (x # p) # ps)"

definition split_both :: "string \<Rightarrow> string list" where
  "split_both = split_by (\<lambda>c. c = CHR 0x5C \<or> c = SEP)"

definition validateRelativePath :: "string \<Rightarrow> error + unit" where
  "validateRelativePath p =
     (if length p = 0 then Inl (boundary ''EMPTY_PATH'')
      else if CHR 0x00 \<in> set p then Inl (boundary ''NULL_BYTE'')
      else if 1 < length p \<and> is_alpha_char (p ! 0) \<and> p ! 1 = CHR '':'' then Inl (boundary ''DRIVE_LETTER_PATH'')
      else if take 2 p = [CHR 0x5C, CHR 0x5C] \<or> take 2 p = [SEP, SEP] then Inl (boundary ''UNC_PATH'')
      else if win32_isAbsolute p \<or> posix_isAbsolute p then Inl (boundary ''ABSOLUTE_PATH'')
      else if ''..'' \<in> set (split_both p) then Inl (boundary ''PATH_TRAVERSAL'')
      else Inr ())"

definition with_sep :: "string \<Rightarrow> string" where
  "with_sep p = (if p \<noteq> [] \<and> last p = SEP then p else p @ [SEP])"

definition startsWith :: "string \<Rightarrow> string \<Rightarrow> bool" where
  "startsWith p s \<longleftrightarrow> take (length s) p = s"

definition resolveContainedPath :: "string \<Rightarrow> string \<Rightarrow> string \<Rightarrow> error + string" where
  "resolveContainedPath cwd wroot relativePath =
     (let resolvedRoot = path_resolve cwd [wroot]; resolvedTarget = path_resolve cwd [resolvedRoot, relativePath] in
      if resolvedTarget \<noteq> resolvedRoot \<and> \<not> startsWith resolvedTarget (with_sep resolvedRoot)
      then Inl (boundary ''PATH_ESCAPE'') else Inr resolvedTarget)"

subsection \<open>The file system\<close>

datatype realpath_result = RealPath string | ENOENT | OtherErrno string

record file_stat =
  st_isFile :: bool
  st_size :: nat

record 'f fs_api =
  fs_realpath :: "'f \<Rightarrow> string \<Rightarrow> realpath_result"
  fs_stat :: "'f \<Rightarrow> string \<Rightarrow> file_stat option"
  fs_readFile :: "'f \<Rightarrow> string \<Rightarrow> error + string"
  fs_mkdir :: "'f \<Rightarrow> string \<Rightarrow> error + 'f"
  fs_writeFile :: "'f \<Rightarrow> string \<Rightarrow> string \<Rightarrow> error + 'f"
  fs_rename :: "'f \<Rightarrow> string \<Rightarrow> string \<Rightarrow> error + 'f"
  fs_unlink :: "'f \<Rightarrow> string \<Rightarrow> 'f"
  fs_toUtf8 :: "string \<Rightarrow> string"

text \<open>\<open>Buffer.from(content, "utf8")\<close> for code units below 256\<close>

definition utf8_char :: "char \<Rightarrow> string" where
  "utf8_char c = (let n = (of_char c :: nat) in
     if n < 128 then [c] else [char_of (192 + n div 64), char_of (128 + n mod 64)])"

definition utf8_bytes :: "string \<Rightarrow> string" where
  "utf8_bytes s = concat (map utf8_char s)"

text \<open>\<open>size > config.maxBytes\<close>; a comparison with \<open>NaN\<close> is false.\<close>

definition exceeds :: "nat \<Rightarrow> js_number \<Rightarrow> bool" where
  "exceeds n maxBytes = (case maxBytes of Finite x \<Rightarrow> x < of_nat n | NotFinite \<Rightarrow> False)"

text \<open>The symbolic-link check walks up to the deepest ancestor that exists.\<close>

definition dirname_measure :: "string \<Rightarrow> nat" where
  "dirname_measure p = (if p = [SEP] \<or> p = ''.'' then 0 else Suc (length p))"

lemma dirname_decreases: "path_dirname p \<noteq> p \<Longrightarrow> dirname_measure (path_dirname p) < dirname_measure p"
proof -
  assume ne: "path_dirname p \<noteq> p"
  let ?r = "dropWhile (\<lambda>c. c \<noteq> SEP) (dropWhile (\<lambda>c. c = SEP) (rev p))"
  have len: "length ?r \<le> length p"
    by (metis length_dropWhile_le length_rev order_trans)
  have top: "p \<noteq> [SEP] \<and> p \<noteq> ''.''"
    using ne by (auto simp: path_dirname_def posix_isAbsolute_def SEP_def Let_def)
  show ?thesis
  proof (cases "length ?r \<le> 1")
    case True
    then show ?thesis using top by (auto simp: path_dirname_def dirname_measure_def Let_def)
  next
    case False
    have "length (path_dirname p) < length p"
    proof (cases "posix_isAbsolute p \<and> length ?r = 2")
      case True
      then have "length p \<noteq> 2"
      proof -
        have "length ?r < length p" if "length p = 2"
        proof -
          from that obtain a b where "p = [a, b]" by (auto simp: length_Suc_conv numeral_2_eq_2)
          then show ?thesis by (auto simp: SEP_def)
        qed
        with True show ?thesis by auto
      qed
      with True len show ?thesis by (auto simp: path_dirname_def Let_def)
    next
      case nroot: False
      with False len show ?thesis by (auto simp: path_dirname_def Let_def)
    qed
    with top show ?thesis by (auto simp: dirname_measure_def)
  qed
qed

function realpath_loop :: "(string \<Rightarrow> realpath_result) \<Rightarrow> string \<Rightarrow> string \<Rightarrow> error + unit" where
  "realpath_loop realpath realRoot current =
     (case realpath current of
        RealPath rp \<Rightarrow>
          if rp \<noteq> realRoot \<and> \<not> startsWith (with_sep rp) (with_sep realRoot)
          then Inl (boundary ''SYMLINK_ESCAPE'') else Inr ()
      | ENOENT \<Rightarrow>
          (let parent = path_dirname current in
           if parent = current then Inr () else realpath_loop realpath realRoot parent)
      | OtherErrno code \<Rightarrow> Inl (PlainError code))"
  by pat_completeness auto
termination
  by (relation "measure (\<lambda>(realpath, realRoot, current). dirname_measure current)") (auto intro: dirname_decreases)

declare realpath_loop.simps [simp del]

definition assertRealpathContained :: "(string \<Rightarrow> realpath_result) \<Rightarrow> string \<Rightarrow> string \<Rightarrow> string \<Rightarrow> error + unit" where
  "assertRealpathContained realpath cwd wroot targetPath =
     (case realpath (path_resolve cwd [wroot]) of
        RealPath realRoot \<Rightarrow> realpath_loop realpath realRoot targetPath
      | ENOENT \<Rightarrow> Inl (PlainError ''ENOENT'')
      | OtherErrno code \<Rightarrow> Inl (PlainError code))"

subsection \<open>Reading and writing\<close>

record read_result =
  rr_relativePath :: string
  rr_content :: string
  rr_byteCount :: nat
  rr_contentHash :: string

definition ebind :: "'e + 'a \<Rightarrow> ('a \<Rightarrow> 'e + 'b) \<Rightarrow> 'e + 'b" where
  "ebind r f = (case r of Inl e \<Rightarrow> Inl e | Inr x \<Rightarrow> f x)"

lemma ebind_simps [simp]: "ebind (Inl e) f = Inl e" "ebind (Inr x) f = f x"
  by (simp_all add: ebind_def)

lemma ebind_Inr_iff: "ebind r f = Inr y \<longleftrightarrow> (\<exists>x. r = Inr x \<and> f x = Inr y)"
  by (cases r) auto

definition readWorkspaceFile ::
  "'f fs_api \<Rightarrow> (string \<Rightarrow> string) \<Rightarrow> string \<Rightarrow> workspace_config \<Rightarrow> string \<Rightarrow> string \<Rightarrow> 'f \<Rightarrow> error + read_result" where
  "readWorkspaceFile api sha cwd config wroot relativePath fs =
     ebind (validateRelativePath relativePath) (\<lambda>_.
     ebind (resolveContainedPath cwd wroot relativePath) (\<lambda>targetPath.
     ebind (assertRealpathContained (fs_realpath api fs) cwd wroot targetPath) (\<lambda>_.
     case fs_stat api fs targetPath of
       None \<Rightarrow> Inl (boundary ''NOT_FOUND'')
     | Some st \<Rightarrow>
         if \<not> st_isFile st then Inl (boundary ''NOT_A_REGULAR_FILE'')
         else if exceeds (st_size st) (wc_maxBytes config) then Inl (boundary ''CONTENT_TOO_LARGE'')
         else ebind (fs_readFile api fs targetPath) (\<lambda>buffer.
           Inr \<lparr>rr_relativePath = relativePath, rr_content = fs_toUtf8 api buffer, rr_byteCount = length buffer,
             rr_contentHash = sha buffer\<rparr>))))"

record write_result =
  wr_relativePath :: string
  wr_byteCount :: nat
  wr_contentHash :: string
  wr_created :: bool
  wr_overwritten :: bool

text \<open>\<open>tmpSuffix\<close> is \<open>.tmp-${process.pid}-${Date.now()}\<close>. An error leaves the effects of the calls before it.\<close>

definition writeWorkspaceFile ::
  "'f fs_api \<Rightarrow> (string \<Rightarrow> string) \<Rightarrow> string \<Rightarrow> string \<Rightarrow> workspace_config \<Rightarrow> string \<Rightarrow> string \<Rightarrow> string \<Rightarrow> bool \<Rightarrow>
   'f \<Rightarrow> (error + write_result) \<times> 'f" where
  "writeWorkspaceFile api sha cwd tmpSuffix config wroot relativePath content allowOverwrite fs =
     (let buffer = utf8_bytes content in
      case ebind (validateRelativePath relativePath) (\<lambda>_.
          if exceeds (length buffer) (wc_maxBytes config) then Inl (boundary ''CONTENT_TOO_LARGE'')
          else ebind (resolveContainedPath cwd wroot relativePath) (\<lambda>targetPath.
            ebind (assertRealpathContained (fs_realpath api fs) cwd wroot targetPath) (\<lambda>_.
            case fs_stat api fs targetPath of
              None \<Rightarrow> Inr (targetPath, False)
            | Some st \<Rightarrow> if \<not> st_isFile st then Inl (boundary ''NOT_A_REGULAR_FILE'')
                else if \<not> allowOverwrite then Inl (boundary ''ALREADY_EXISTS'') else Inr (targetPath, True)))) of
        Inl err \<Rightarrow> (Inl err, fs)
      | Inr (targetPath, existed) \<Rightarrow>
          (case fs_mkdir api fs (path_dirname targetPath) of
             Inl err \<Rightarrow> (Inl err, fs)
           | Inr fs1 \<Rightarrow>
               (case fs_writeFile api fs1 (targetPath @ tmpSuffix) buffer of
                  Inl err \<Rightarrow> (Inl err, fs1)
                | Inr fs2 \<Rightarrow>
                    (case fs_rename api fs2 (targetPath @ tmpSuffix) targetPath of
                       Inl err \<Rightarrow> (Inl err, fs2)
                     | Inr fs3 \<Rightarrow>
                         (Inr \<lparr>wr_relativePath = relativePath, wr_byteCount = length buffer, wr_contentHash = sha buffer,
                            wr_created = \<not> existed, wr_overwritten = existed\<rparr>, fs3)))))"

definition removeWorkspaceFileQuietly :: "'f fs_api \<Rightarrow> string \<Rightarrow> 'f \<Rightarrow> 'f" where
  "removeWorkspaceFileQuietly api p fs = fs_unlink api fs p"

definition ensureWorkspaceRoot :: "'f fs_api \<Rightarrow> string \<Rightarrow> 'f \<Rightarrow> error + 'f" where
  "ensureWorkspaceRoot api wroot fs = fs_mkdir api fs wroot"

end
