(* ===== verification/WorkspaceProps.thy ===== *)
theory WorkspaceProps
  imports Workspace
begin

text \<open>
  Containment in the workspace. The string tests of \<open>resolveContainedPath\<close> are equivalent to comparing
  lists of directory names, a validated path never leaves the root and the roots of different tenants
  are disjoint. The symbolic-link walk ends and decides by the deepest ancestor that exists.
\<close>

definition inside :: "string \<Rightarrow> string \<Rightarrow> bool" where
  "inside wroot p \<longleftrightarrow> prefix (segments wroot) (segments p)"

lemma join_append: "ss \<noteq> [] \<Longrightarrow> ts \<noteq> [] \<Longrightarrow> join sep (ss @ ts) = join sep ss @ sep @ join sep ts"
proof (induction ss)
  case (Cons a ss)
  then show ?case by (cases "ss = []") (simp_all add: join_Cons)
qed simp

lemma join_not_Nil: "list_all is_segment ss \<Longrightarrow> ss \<noteq> [] \<Longrightarrow> join [SEP] ss \<noteq> []"
  by (cases ss; cases "tl ss") (auto simp: is_segment_def join_Cons)

lemma last_join: "list_all is_segment ss \<Longrightarrow> ss \<noteq> [] \<Longrightarrow> last (join [SEP] ss) \<noteq> SEP"
proof (induction ss)
  case (Cons s ss)
  then show ?case
  proof (cases "ss = []")
    case True
    with Cons show ?thesis by (auto simp: is_segment_def dest: last_in_set)
  next
    case False
    with Cons join_not_Nil [of ss] show ?thesis by (simp add: join_Cons)
  qed
qed simp

lemma with_sep_abs_path:
  assumes "list_all is_segment ss"
  shows "with_sep (abs_path ss) = (if ss = [] then [SEP] else SEP # join [SEP] ss @ [SEP])"
  using last_join [OF assms] join_not_Nil [OF assms] by (auto simp: with_sep_def abs_path_def)

lemma segments_of_prefix:
  assumes "list_all is_segment ss" "list_all is_segment ts" "ss \<noteq> []"
    "join [SEP] ts = join [SEP] ss @ SEP # q"
  shows "prefix ss ts"
proof -
  have "ts = filter (\<lambda>s. s \<noteq> []) (split_sep (join [SEP] ss @ SEP # q))"
    using split_join_segments [OF assms(2)] assms(4) by simp
  also have "\<dots> = ss @ segments q"
    using split_join_segments [OF assms(1)] by (simp add: split_char_append_sep segments_def)
  finally show ?thesis by simp
qed

text \<open>The separator-terminated string prefix is the prefix of directory names.\<close>

lemma startsWith_with_sep:
  assumes "list_all is_segment ss" "list_all is_segment ts"
  shows "abs_path ts = abs_path ss \<or> startsWith (abs_path ts) (with_sep (abs_path ss)) \<longleftrightarrow> prefix ss ts"
proof (cases "ss = []")
  case True
  then show ?thesis by (simp add: startsWith_def abs_path_def with_sep_def)
next
  case False
  have "startsWith (abs_path ts) (with_sep (abs_path ss)) \<longleftrightarrow> (\<exists>q. join [SEP] ts = join [SEP] ss @ SEP # q)"
  proof -
    have "startsWith x y \<longleftrightarrow> (\<exists>q. x = y @ q)" for x y
      unfolding startsWith_def by (metis append_eq_conv_conj append_take_drop_id)
    with False assms(1) show ?thesis by (simp add: with_sep_abs_path) (simp add: abs_path_def)
  qed
  moreover have "\<exists>q. join [SEP] ts = join [SEP] ss @ SEP # q" if "prefix ss ts" "ts \<noteq> ss"
    using that False by (auto simp: prefix_def join_append)
  ultimately show ?thesis
    using segments_of_prefix [OF assms False] assms by (auto simp: abs_path_inject)
qed

lemma resolved_target:
  assumes "posix_isAbsolute cwd"
  obtains ss ts where "path_resolve cwd [wroot] = abs_path ss" "path_resolve cwd [abs_path ss, rel] = abs_path ts"
    "list_all is_segment ss" "list_all is_segment ts" "''..'' \<notin> set ss" "''.'' \<notin> set ss"
    "\<not> posix_isAbsolute rel \<Longrightarrow> ts = norm_segs False (rev ss) (split_sep rel)"
proof -
  from resolve_is_abs_path [OF assms] obtain ss where ss: "path_resolve cwd [wroot] = abs_path ss" "list_all is_segment ss"
      "''..'' \<notin> set ss" "''.'' \<notin> set ss" by blast
  show thesis
  proof (cases "posix_isAbsolute rel")
    case True
    have "rel @ [SEP] \<noteq> []" and a: "posix_isAbsolute (rel @ [SEP])" and "rel \<noteq> []"
      using True by (cases rel; simp add: posix_isAbsolute_def)+
    then have "path_resolve cwd [abs_path ss, rel] = abs_path (norm_segs False [] (split_sep (rel @ [SEP])))"
      by (simp add: path_resolve_def Let_def normalizeString_def abs_path_def) (simp add: posix_isAbsolute_def)
    with that [OF ss(1) _ ss(2) _ ss(3,4)] segments_ok(2) True show thesis by blast
  next
    case False
    have "list_all is_segment (norm_segs False (rev ss) (split_sep rel))"
      using norm_segs_segment [of _ False "rev ss" "split_sep rel"] ss(2) split_char_segments [of _ SEP rel]
      by (auto simp: list_all_iff is_segment_def)
    with that [OF ss(1) resolve_in [OF False ss(2-4)] ss(2) _ ss(3,4)] show thesis by blast
  qed
qed

lemma containment_exact:
  assumes "posix_isAbsolute cwd"
  shows "resolveContainedPath cwd wroot rel =
    (let t = path_resolve cwd [path_resolve cwd [wroot], rel] in
     if inside (path_resolve cwd [wroot]) t then Inr t else Inl (boundary ''PATH_ESCAPE''))"
proof -
  from resolved_target [OF assms, of wroot rel] obtain ss ts where
    st: "path_resolve cwd [wroot] = abs_path ss" "path_resolve cwd [abs_path ss, rel] = abs_path ts"
      "list_all is_segment ss" "list_all is_segment ts" by blast
  with startsWith_with_sep [OF st(3,4)] show ?thesis
    by (auto simp: resolveContainedPath_def Let_def inside_def segments_abs_path)
qed

text \<open>
  C29. The containment test is exact. Whatever root and path it is given, \<open>resolveContainedPath\<close> returns the
  resolved path exactly if the directory names of the resolved root are a prefix of its directory names,
  and throws \<open>PATH_ESCAPE\<close> otherwise: a sibling whose name merely begins like the root's is never accepted.
\<close>

theorem resolveContainedPath_exact:
  assumes "posix_isAbsolute cwd"
  shows "resolveContainedPath cwd wroot rel =
    (let t = path_resolve cwd [path_resolve cwd [wroot], rel] in
     if inside (path_resolve cwd [wroot]) t then Inr t else Inl (boundary ''PATH_ESCAPE''))"
  using assms by (rule containment_exact)

theorem resolveContainedPath_exact_witness:
  "resolveContainedPath ''/'' ''/work/a'' ''../ab/x'' = Inl (boundary ''PATH_ESCAPE'')"
proof -
  have "path_resolve ''/'' [''/work/a''] = ''/work/a''" "path_resolve ''/'' [''/work/a'', ''../ab/x''] = ''/work/ab/x''"
    by code_simp+
  moreover have "\<not> inside ''/work/a'' ''/work/ab/x''" unfolding inside_def by code_simp
  ultimately show ?thesis
    using resolveContainedPath_exact [of "''/''" "''/work/a''" "''../ab/x''"]
    by (simp add: posix_isAbsolute_def SEP_def)
qed

subsection \<open>Validated paths\<close>

lemma split_char_unfold:
  "split_char c p = takeWhile (\<lambda>x. x \<noteq> c) p # (case dropWhile (\<lambda>x. x \<noteq> c) p of [] \<Rightarrow> [] | _ # q \<Rightarrow> split_char c q)"
proof (induction p)
  case (Cons x p)
  show ?case
  proof (cases "x = c")
    case False
    then have "split_char c (x # p) = (case split_char c p of [] \<Rightarrow> [[x]] | q # qs \<Rightarrow> (x # q) # qs)" by simp
    also have "\<dots> = (x # takeWhile (\<lambda>x. x \<noteq> c) p) # (case dropWhile (\<lambda>x. x \<noteq> c) p of [] \<Rightarrow> [] | _ # q \<Rightarrow> split_char c q)"
      by (subst Cons.IH) simp
    finally show ?thesis
      unfolding takeWhile.simps dropWhile.simps using False by (simp only: if_True not_False_eq_True)
  qed simp
qed simp

lemma split_char_between:
  "s \<in> set (split_char c p) \<Longrightarrow> \<exists>a b. p = a @ s @ b \<and> (a = [] \<or> last a = c) \<and> (b = [] \<or> hd b = c)"
proof (induction "length p" arbitrary: p rule: less_induct)
  case less
  let ?w = "takeWhile (\<lambda>x. x \<noteq> c) p" and ?r = "dropWhile (\<lambda>x. x \<noteq> c) p"
  have p: "p = ?w @ ?r" by simp
  show ?case
  proof (cases ?r)
    case Nil
    have "split_char c p = [?w]" by (subst split_char_unfold) (simp only: Nil list.case)
    with less.prems Nil p show ?thesis by (metis append_Nil append_Nil2 list.set_intros(1) set_ConsD empty_iff empty_set)
  next
    case (Cons x q)
    then have x: "x = c" using hd_dropWhile [of "\<lambda>x. x \<noteq> c" p] by auto
    have sp: "split_char c p = ?w # split_char c q" by (subst split_char_unfold) (simp add: Cons)
    have len: "length q < length p" using Cons length_dropWhile_le [of "\<lambda>x. x \<noteq> c" p] by simp
    from less.prems sp consider "s = ?w" | "s \<in> set (split_char c q)" by auto
    then show ?thesis
    proof cases
      case 1
      then show ?thesis using p Cons x by (intro exI [of _ "[]"] exI [of _ ?r]) simp
    next
      case 2
      with less.hyps [OF len] obtain a b where ab: "q = a @ s @ b" "a = [] \<or> last a = c" "b = [] \<or> hd b = c" by blast
      then have "p = (?w @ [c] @ a) @ s @ b" using p Cons x by simp
      with ab show ?thesis by (intro exI [of _ "?w @ [c] @ a"] exI [of _ b]) auto
    qed
  qed
qed

lemma split_by_not_Nil [simp]: "split_by P s \<noteq> []"
  by (induction s) (auto split: list.splits)

lemma split_by_sep: "P c \<Longrightarrow> split_by P (p @ c # q) = split_by P p @ split_by P q"
proof (induction p)
  case (Cons x p)
  then show ?case by (cases "split_by P p") (auto dest: split_by_not_Nil [THEN notE])
qed simp

lemma split_by_free: "list_all (\<lambda>x. \<not> P x) s \<Longrightarrow> split_by P s = [s]"
  by (induction s) auto

lemma split_by_between:
  assumes "list_all (\<lambda>x. \<not> P x) s" "a = [] \<or> P (last a)" "b = [] \<or> P (hd b)"
  shows "s \<in> set (split_by P (a @ s @ b))"
proof -
  have sb: "s \<in> set (split_by P (s @ b))"
    using assms(3) split_by_free [OF assms(1)] by (cases b) (auto simp: split_by_sep)
  show ?thesis
  proof (cases a rule: rev_cases)
    case (snoc a' c)
    with assms(2) sb show ?thesis using split_by_sep [of P c a' "s @ b"] by simp
  qed (use sb in simp)
qed

lemma split_both_dotdot: "''..'' \<notin> set (split_both p) \<Longrightarrow> ''..'' \<notin> set (split_sep p)"
proof (rule notI)
  assume ne: "''..'' \<notin> set (split_both p)" and "''..'' \<in> set (split_sep p)"
  then obtain a b where "p = a @ ''..'' @ b" "a = [] \<or> last a = SEP" "b = [] \<or> hd b = SEP"
    using split_char_between by blast
  with split_by_between [of "\<lambda>c. c = CHR 0x5C \<or> c = SEP" "''..''" a b] ne show False
    by (auto simp: split_both_def SEP_def)
qed

lemma validated_target:
  assumes "posix_isAbsolute cwd" "validateRelativePath rel = Inr ()"
  shows "\<exists>t. resolveContainedPath cwd wroot rel = Inr t \<and>
    segments t = segments (path_resolve cwd [wroot]) @ filter (\<lambda>s. s \<noteq> [] \<and> s \<noteq> ''.'') (split_sep rel)"
proof -
  have rel: "\<not> posix_isAbsolute rel" "''..'' \<notin> set (split_sep rel)"
    using assms(2) split_both_dotdot [of rel] by (auto simp: validateRelativePath_def split: if_splits)
  from resolved_target [OF assms(1), of wroot rel] obtain ss ts where
    st: "path_resolve cwd [wroot] = abs_path ss" "path_resolve cwd [abs_path ss, rel] = abs_path ts"
      "list_all is_segment ss" "list_all is_segment ts" "ts = norm_segs False (rev ss) (split_sep rel)"
    using rel(1) by metis
  have "ts = ss @ filter (\<lambda>s. s \<noteq> [] \<and> s \<noteq> ''.'') (split_sep rel)"
    using rel(2) by (simp add: st(5) norm_segs_plain)
  then have pre: "prefix ss ts" and seg: "segments (abs_path ts) = ss @ filter (\<lambda>s. s \<noteq> [] \<and> s \<noteq> ''.'') (split_sep rel)"
    using segments_abs_path [OF st(4)] by simp_all
  have "resolveContainedPath cwd wroot rel = Inr (abs_path ts)"
    using containment_exact [OF assms(1), of wroot rel] pre
    unfolding st(1) st(2) Let_def inside_def segments_abs_path [OF st(3)] segments_abs_path [OF st(4)] by (simp only: if_True)
  moreover have "segments (path_resolve cwd [wroot]) = ss" unfolding st(1) by (rule segments_abs_path [OF st(3)])
  ultimately show ?thesis using seg by blast
qed

lemma uuid_segment: "is_segment (uuid_str w)" "uuid_str w \<noteq> ''.''" "uuid_str w \<noteq> ''..''"
proof -
  have "hex_value CHR ''/'' = None" by (simp add: hex_value_def lower_char_def)
  then have "n < 16 \<Longrightarrow> hex_digit n \<noteq> CHR ''/''" for n by (metis hex_value_digit option.distinct(1))
  then have "CHR ''/'' \<notin> set (uuid_hex w)" using nibbles_lt by (fastforce simp: uuid_hex_def)
  then have "SEP \<notin> set (uuid_str w)"
    by (auto simp: uuid_str_def Let_def SEP_def dest!: in_set_takeD in_set_dropD)
  moreover have "length (uuid_str w) = 36" by simp
  ultimately show "is_segment (uuid_str w)" "uuid_str w \<noteq> ''.''" "uuid_str w \<noteq> ''..''"
    by (auto simp: is_segment_def simp del: length_uuid_str)
qed

lemma workspace_root_segments:
  assumes "posix_isAbsolute (wc_baseRoot config)"
  shows "segments (path_resolve cwd [resolveWorkspaceRoot config t w]) =
    norm_segs False [] (split_sep (wc_baseRoot config)) @
    [uuid_str t, (case w of None \<Rightarrow> ''_no_workspace'' | Some i \<Rightarrow> uuid_str i)]"
proof -
  let ?b = "wc_baseRoot config" and ?w = "case w of None \<Rightarrow> ''_no_workspace'' | Some i \<Rightarrow> uuid_str i"
  let ?B = "norm_segs False [] (split_sep ?b)"
  let ?p = "?b @ SEP # uuid_str t @ SEP # ?w"
  have w: "is_segment ?w" "?w \<noteq> ''.''" "?w \<noteq> ''..''"
    using uuid_segment by (auto simp: is_segment_def SEP_def split: option.split)
  have free: "split_sep (uuid_str t) = [uuid_str t]" "split_sep ?w = [?w]"
    using uuid_segment(1) w(1) by (auto simp: is_segment_def intro!: split_char_free)
  have B: "''..'' \<notin> set ?B" "''.'' \<notin> set ?B" "list_all is_segment ?B"
    using norm_segs_plain_acc [of "[]"] norm_segs_segment [of "''.''" False "[]"] segments_ok(2) by auto
  have norm: "norm_segs False [] (split_sep ?p) = ?B @ [uuid_str t, ?w]"
    using uuid_segment w
    by (simp add: split_char_append_sep free norm_segs_append is_segment_def)
  have b: "?b \<noteq> []" "uuid_str t \<noteq> []" "?w \<noteq> []" "last ?p \<noteq> SEP"
    using assms uuid_segment(1) w(1) by (auto simp: posix_isAbsolute_def is_segment_def dest: last_in_set)
  have abs: "posix_isAbsolute ?p" using assms b(1) by (cases ?b) (auto simp: posix_isAbsolute_def)
  let ?S = "?B @ [uuid_str t, ?w]"
  have S: "list_all is_segment ?S" "''..'' \<notin> set ?S" "''.'' \<notin> set ?S"
    using B w uuid_segment [of t] by (simp_all add: neq_commute)
  have "resolveWorkspaceRoot config t w = abs_path ?S"
    using b abs norm join_not_Nil [OF S(1)]
    by (simp add: resolveWorkspaceRoot_def path_join_def path_normalize_def Let_def normalizeString_def abs_path_def)
  moreover have "path_resolve cwd [abs_path ?S] = abs_path ?S"
    using resolve_absolute [of "abs_path ?S" cwd] norm_abs_path [OF S]
    by (simp only: abs_path_def posix_isAbsolute_def take_Suc_Cons One_nat_def take_0) 
  ultimately show ?thesis using segments_abs_path [OF S(1)] by simp
qed

text \<open>
  C30. A path that passes \<open>validateRelativePath\<close> never leaves the root, and the directory names of the
  result are those of the root followed by those of the path: \<open>PATH_ESCAPE\<close> cannot occur after validation.
  In particular the files of two different tenants of one installation never coincide.
\<close>

theorem validated_paths_stay_inside:
  assumes "posix_isAbsolute cwd" "posix_isAbsolute (wc_baseRoot config)"
    "validateRelativePath rel = Inr ()" "validateRelativePath rel' = Inr ()"
  shows "\<exists>p p'. resolveContainedPath cwd (resolveWorkspaceRoot config t w) rel = Inr p \<and>
    resolveContainedPath cwd (resolveWorkspaceRoot config t' w') rel' = Inr p' \<and>
    segments p = segments (path_resolve cwd [resolveWorkspaceRoot config t w]) @
      filter (\<lambda>s. s \<noteq> [] \<and> s \<noteq> ''.'') (split_sep rel) \<and>
    (t \<noteq> t' \<longrightarrow> p \<noteq> p')"
proof -
  from validated_target [OF assms(1,3), of "resolveWorkspaceRoot config t w"] obtain p where
    p: "resolveContainedPath cwd (resolveWorkspaceRoot config t w) rel = Inr p"
      "segments p = segments (path_resolve cwd [resolveWorkspaceRoot config t w]) @ filter (\<lambda>s. s \<noteq> [] \<and> s \<noteq> ''.'') (split_sep rel)"
    by blast
  from validated_target [OF assms(1,4), of "resolveWorkspaceRoot config t' w'"] obtain p' where
    p': "resolveContainedPath cwd (resolveWorkspaceRoot config t' w') rel' = Inr p'"
      "segments p' = segments (path_resolve cwd [resolveWorkspaceRoot config t' w']) @ filter (\<lambda>s. s \<noteq> [] \<and> s \<noteq> ''.'') (split_sep rel')"
    by blast
  have "t = t'" if "p = p'"
    using that p(2) p'(2) by (simp add: workspace_root_segments [OF assms(2)])
  with p p' show ?thesis by blast
qed

theorem validated_paths_stay_inside_witness:
  "validateRelativePath ''notes/a.md'' = Inr () \<and> validateRelativePath ''./notes/a.md'' = Inr () \<and>
   (\<exists>p p'. resolveContainedPath ''/'' (resolveWorkspaceRoot \<lparr>wc_baseRoot = ''/ws'', wc_maxBytes = Finite 10\<rparr> 1 None) ''notes/a.md'' = Inr p \<and>
     resolveContainedPath ''/'' (resolveWorkspaceRoot \<lparr>wc_baseRoot = ''/ws'', wc_maxBytes = Finite 10\<rparr> 2 None) ''./notes/a.md'' = Inr p' \<and> p \<noteq> p')"
proof -
  let ?c = "\<lparr>wc_baseRoot = ''/ws'', wc_maxBytes = Finite 10\<rparr>"
  have v: "validateRelativePath ''notes/a.md'' = Inr ()" "validateRelativePath ''./notes/a.md'' = Inr ()" by code_simp+
  have ne: "(1 :: uuid) \<noteq> 2" by simp
  have "posix_isAbsolute ''/''" "posix_isAbsolute (wc_baseRoot ?c)" by code_simp+
  from validated_paths_stay_inside [OF this v, of 1 None 2 None] ne v show ?thesis by blast
qed

subsection \<open>Symbolic links\<close>

lemma startsWith_iff: "startsWith x y \<longleftrightarrow> (\<exists>q. x = y @ q)"
  unfolding startsWith_def by (metis append_eq_conv_conj append_take_drop_id)

lemma startsWith_both_sep:
  assumes "list_all is_segment ss" "list_all is_segment ts"
  shows "abs_path ts = abs_path ss \<or> startsWith (with_sep (abs_path ts)) (with_sep (abs_path ss)) \<longleftrightarrow> prefix ss ts"
proof
  assume l: "abs_path ts = abs_path ss \<or> startsWith (with_sep (abs_path ts)) (with_sep (abs_path ss))"
  show "prefix ss ts"
  proof (cases "ss = [] \<or> ts = ss")
    case False
    with l assms have "startsWith (with_sep (abs_path ts)) (with_sep (abs_path ss))" by (simp add: abs_path_inject)
    then obtain q where q: "with_sep (abs_path ts) = with_sep (abs_path ss) @ q" by (auto simp: startsWith_iff)
    from False assms have ts: "ts \<noteq> []" using q join_not_Nil [OF assms(1)] by (auto simp: with_sep_abs_path)
    with q assms False have jq: "join [SEP] ts @ [SEP] = join [SEP] ss @ SEP # q" by (simp add: with_sep_abs_path)
    have "q \<noteq> []" using jq False assms by (auto simp: abs_path_inject [symmetric] abs_path_def)
    then obtain q' where "q = q' @ [SEP]" using jq by (cases q rule: rev_cases) auto
    with jq have "join [SEP] ts = join [SEP] ss @ SEP # q'" by simp
    with segments_of_prefix [OF assms] False show ?thesis by blast
  qed auto
next
  assume "prefix ss ts"
  with startsWith_with_sep [OF assms] consider "abs_path ts = abs_path ss" | "startsWith (abs_path ts) (with_sep (abs_path ss))" by blast
  then show "abs_path ts = abs_path ss \<or> startsWith (with_sep (abs_path ts)) (with_sep (abs_path ss))"
  proof cases
    case 2
    then show ?thesis by (auto simp: startsWith_iff with_sep_def)
  qed simp
qed

lemma dirname_abs_path:
  assumes "list_all is_segment (ss @ [s])"
  shows "path_dirname (abs_path (ss @ [s])) = abs_path ss"
proof -
  have s: "s \<noteq> []" "SEP \<notin> set s" and ss: "list_all is_segment ss" using assms by (auto simp: is_segment_def)
  have drop1: "dropWhile (\<lambda>c. c = SEP) (rev s @ r) = rev s @ r" for r
    using s by (cases "rev s") auto
  have drop2: "dropWhile (\<lambda>c. c \<noteq> SEP) (rev s @ SEP # r) = SEP # r" for r
    using s(2) by (subst dropWhile_append2) auto
  show ?thesis
  proof (cases "ss = []")
    case True
    then show ?thesis by (simp add: path_dirname_def abs_path_def drop1 drop2 posix_isAbsolute_def)
  next
    case False
    have "rev (abs_path (ss @ [s])) = rev s @ SEP # rev (abs_path ss)"
      using False by (simp add: abs_path_def join_append)
    with join_not_Nil [OF ss False] show ?thesis
      by (simp add: path_dirname_def drop1 drop2 Let_def) (auto simp: abs_path_def)
  qed
qed

text \<open>The ancestors of a path, itself first.\<close>

definition ancestors :: "string \<Rightarrow> string list" where
  "ancestors p = map abs_path (rev (prefixes (segments p)))"

definition deepest_existing :: "(string \<Rightarrow> realpath_result) \<Rightarrow> string \<Rightarrow> string option" where
  "deepest_existing realpath p = List.find (\<lambda>q. realpath q \<noteq> ENOENT) (ancestors p)"

definition real_inside :: "(string \<Rightarrow> realpath_result) \<Rightarrow> string \<Rightarrow> string option \<Rightarrow> error + unit" where
  "real_inside realpath realRoot q = (case q of None \<Rightarrow> Inr () | Some q \<Rightarrow>
     (case realpath q of RealPath rp \<Rightarrow> if inside realRoot rp then Inr () else Inl (boundary ''SYMLINK_ESCAPE'')
      | ENOENT \<Rightarrow> Inr () | OtherErrno code \<Rightarrow> Inl (PlainError code)))"

lemma real_test:
  assumes "\<exists>ss. list_all is_segment ss \<and> rp = abs_path ss" "list_all is_segment rs"
  shows "rp \<noteq> abs_path rs \<and> \<not> startsWith (with_sep rp) (with_sep (abs_path rs)) \<longleftrightarrow> \<not> inside (abs_path rs) rp"
proof -
  from assms(1) obtain ss where ss: "list_all is_segment ss" "rp = abs_path ss" by blast
  show ?thesis
    unfolding ss(2) inside_def segments_abs_path [OF ss(1)] segments_abs_path [OF assms(2)]
    using startsWith_both_sep [OF assms(2) ss(1)] by blast
qed

lemma realpath_loop_exact:
  assumes abs: "\<And>q rp. realpath q = RealPath rp \<Longrightarrow> \<exists>ss. list_all is_segment ss \<and> rp = abs_path ss"
    and r: "list_all is_segment rs"
  shows "list_all is_segment ts \<Longrightarrow>
    realpath_loop realpath (abs_path rs) (abs_path ts) = real_inside realpath (abs_path rs) (deepest_existing realpath (abs_path ts))"
proof (induction ts rule: rev_induct)
  case Nil
  have "path_dirname (abs_path []) = abs_path []" by (simp add: path_dirname_def abs_path_def posix_isAbsolute_def SEP_def)
  then show ?case
    using real_test [OF abs r]
    by (simp add: realpath_loop.simps [of _ _ "abs_path []"] real_inside_def deepest_existing_def ancestors_def segments_abs_path
        split: realpath_result.split)
next
  case (snoc t ts)
  have seg: "segments (abs_path (ts @ [t])) = ts @ [t]" "segments (abs_path ts) = ts"
    using snoc.prems by (simp_all add: segments_abs_path)
  have ne: "abs_path ts \<noteq> abs_path (ts @ [t])" using snoc.prems by (simp add: abs_path_inject)
  have anc: "ancestors (abs_path (ts @ [t])) = abs_path (ts @ [t]) # ancestors (abs_path ts)"
    by (simp add: ancestors_def seg)
  have dn: "path_dirname (abs_path (ts @ [t])) = abs_path ts" using snoc.prems by (rule dirname_abs_path)
  show ?case
    using real_test [OF abs r] snoc ne
    by (simp add: realpath_loop.simps [of _ _ "abs_path (ts @ [t])"] real_inside_def deepest_existing_def anc dn Let_def
        split: realpath_result.split)
qed

text \<open>
  C31. The symbolic-link check ends on every target and its answer is the one of the deepest ancestor that
  exists: with the root and every real path absolute and normalised, as \<open>fs.realpath\<close> documents, the walk of
  \<open>assertRealpathContained\<close> succeeds exactly if the real path of that ancestor lies in the real
  root, throws \<open>SYMLINK_ESCAPE\<close> if it lies outside and passes on any error other than \<open>ENOENT\<close>.
\<close>

theorem symlink_walk_decides:
  assumes "\<And>q rp. realpath q = RealPath rp \<Longrightarrow> \<exists>ss. list_all is_segment ss \<and> rp = abs_path ss"
    and "posix_isAbsolute cwd" "realpath (path_resolve cwd [wroot]) = RealPath realRoot"
    and "resolveContainedPath cwd wroot rel = Inr target"
  shows "assertRealpathContained realpath cwd wroot target = real_inside realpath realRoot (deepest_existing realpath target)"
proof -
  from assms(1) [OF assms(3)] obtain rs where rs: "list_all is_segment rs" "realRoot = abs_path rs" by blast
  from resolved_target [OF assms(2), of wroot rel] obtain ss ts where
    t: "path_resolve cwd [wroot] = abs_path ss" "path_resolve cwd [abs_path ss, rel] = abs_path ts" "list_all is_segment ts"
    by blast
  have "target = abs_path ts"
    using assms(4) unfolding resolveContainedPath_def Let_def t(1) t(2) by (simp split: if_splits)
  note ts = t(3) this
  show ?thesis
    using realpath_loop_exact [OF assms(1) rs(1) ts(1)] assms(3)
    by (simp add: assertRealpathContained_def ts(2) rs(2))
qed

text \<open>A directory link \<open>/ws/t/link\<close> to \<open>/etc\<close>; nothing else below the root exists.\<close>

definition link_fs :: "string \<Rightarrow> realpath_result" where
  "link_fs p = (if p = ''/ws/t'' then RealPath (abs_path [''ws'', ''t''])
     else if p = ''/ws/t/link'' then RealPath (abs_path [''etc'']) else ENOENT)"

theorem symlink_walk_decides_witness:
  "resolveContainedPath ''/'' ''/ws/t'' ''link/a/passwd'' = Inr ''/ws/t/link/a/passwd'' \<and>
   assertRealpathContained link_fs ''/'' ''/ws/t'' ''/ws/t/link/a/passwd'' = Inl (boundary ''SYMLINK_ESCAPE'')"
proof -
  have abs: "link_fs q = RealPath rp \<Longrightarrow> \<exists>ss. list_all is_segment ss \<and> rp = abs_path ss" for q rp
  proof -
    assume "link_fs q = RealPath rp"
    then consider "rp = abs_path [''ws'', ''t'']" | "rp = abs_path [''etc'']" by (auto simp: link_fs_def split: if_splits)
    moreover have "list_all is_segment [''ws'', ''t'']" "list_all is_segment [''etc'']" by code_simp+
    ultimately show ?thesis by cases blast+
  qed
  have c: "posix_isAbsolute ''/''" "link_fs (path_resolve ''/'' [''/ws/t'']) = RealPath ''/ws/t''"
    "resolveContainedPath ''/'' ''/ws/t'' ''link/a/passwd'' = Inr ''/ws/t/link/a/passwd''"
    by code_simp+
  have "deepest_existing link_fs ''/ws/t/link/a/passwd'' = Some ''/ws/t/link''" by code_simp
  moreover have "real_inside link_fs ''/ws/t'' (Some ''/ws/t/link'') = Inl (boundary ''SYMLINK_ESCAPE'')"
    unfolding real_inside_def inside_def by code_simp
  ultimately show ?thesis using symlink_walk_decides [of link_fs, OF abs c] c(3) by simp
qed

end
