(* ===== verification/Regex.thy ===== *)
theory Regex
  imports Prelude
begin

text \<open>
  Regular expressions as the code uses them: character classes, word boundaries, sequence, ordered
  choice, greedy repetition and capture groups, with the backtracking order of the language. A match
  state is the text before the position (reversed), the text after it and the captures so far; \<open>mt\<close>
  gives the possible end states in the order the matcher tries them, so the first one is the match.
\<close>

subsection \<open>Characters by their bits, for evaluation\<close>

lemma lower_char_bits [code]:
  "lower_char (Char b0 b1 b2 b3 b4 b5 b6 b7) =
     (if \<not> b7 \<and> b6 \<and> \<not> b5 \<and> (b0 \<or> b1 \<or> b2 \<or> b3 \<or> b4) \<and> \<not> (b4 \<and> b3 \<and> (b2 \<or> (b1 \<and> b0)))
      then Char b0 b1 b2 b3 b4 True b6 b7 else Char b0 b1 b2 b3 b4 b5 b6 b7)"
  by (cases b0; cases b1; cases b2; cases b3; cases b4; cases b5; cases b6; cases b7;
      simp add: lower_char_def Let_def of_char_Char horner_sum_simps; simp add: char_of_def bit_0)

lemma is_digit_bits [code]:
  "is_digit_char (Char b0 b1 b2 b3 b4 b5 b6 b7) \<longleftrightarrow> \<not> b7 \<and> \<not> b6 \<and> b5 \<and> b4 \<and> \<not> (b3 \<and> (b2 \<or> b1))"
  by (cases b0; cases b1; cases b2; cases b3; cases b4; cases b5; cases b6; cases b7; simp add: is_digit_char_def of_char_Char horner_sum_simps)

lemma is_alpha_bits [code]:
  "is_alpha_char (Char b0 b1 b2 b3 b4 b5 b6 b7) \<longleftrightarrow>
     \<not> b7 \<and> b6 \<and> (b0 \<or> b1 \<or> b2 \<or> b3 \<or> b4) \<and> \<not> (b4 \<and> b3 \<and> (b2 \<or> (b1 \<and> b0)))"
  by (cases b0; cases b1; cases b2; cases b3; cases b4; cases b5; cases b6; cases b7;
      simp add: is_alpha_char_def lower_char_bits of_char_Char horner_sum_simps)

lemma is_ws_bits [code]:
  "is_ws (Char b0 b1 b2 b3 b4 b5 b6 b7) \<longleftrightarrow>
     \<not> b6 \<and> (if b5 then \<not> b4 \<and> \<not> b3 \<and> \<not> b2 \<and> \<not> b1 \<and> \<not> b0 else \<not> b7 \<and> \<not> b4 \<and> b3 \<and> (b0 \<or> b1 \<or> b2) \<and> \<not> (b2 \<and> b1))"
  by (cases b0; cases b1; cases b2; cases b3; cases b4; cases b5; cases b6; cases b7;
      simp add: is_ws_def of_char_Char horner_sum_simps)

subsection \<open>Patterns and matching\<close>

datatype regex =
    Eps
  | Cls "char \<Rightarrow> bool"
  | Bnd
  | Seq regex regex
  | Alt regex regex
  | Opt regex
  | Star regex
  | Cap nat regex

type_synonym match_state = "string \<times> string \<times> (nat \<times> string) list"

definition word_char :: "char \<Rightarrow> bool" where
  "word_char c \<longleftrightarrow> is_alpha_char c \<or> is_digit_char c \<or> c = CHR ''_''"

definition at_boundary :: "string \<Rightarrow> string \<Rightarrow> bool" where
  "at_boundary b r \<longleftrightarrow> (b \<noteq> [] \<and> word_char (hd b)) \<noteq> (r \<noteq> [] \<and> word_char (hd r))"

definition rest_of :: "match_state \<Rightarrow> string" where
  "rest_of s = fst (snd s)"

text \<open>At most \<open>n\<close> further iterations, each consuming something, longest first.\<close>

fun greedy :: "nat \<Rightarrow> (match_state \<Rightarrow> match_state list) \<Rightarrow> match_state \<Rightarrow> match_state list" where
  "greedy 0 f s = [s]"
| "greedy (Suc n) f s =
     concat (map (greedy n f) (filter (\<lambda>s'. length (rest_of s') < length (rest_of s)) (f s))) @ [s]"

primrec mt :: "regex \<Rightarrow> match_state \<Rightarrow> match_state list" where
  "mt Eps s = [s]"
| "mt (Cls P) s = (case s of (b, r, c) \<Rightarrow> (case r of [] \<Rightarrow> [] | x # r' \<Rightarrow> if P x then [(x # b, r', c)] else []))"
| "mt Bnd s = (case s of (b, r, c) \<Rightarrow> if at_boundary b r then [s] else [])"
| "mt (Seq r1 r2) s = concat (map (mt r2) (mt r1 s))"
| "mt (Alt r1 r2) s = mt r1 s @ mt r2 s"
| "mt (Opt r) s = greedy 1 (mt r) s"
| "mt (Star r) s = greedy (length (rest_of s)) (mt r) s"
| "mt (Cap i r) s = map (\<lambda>(b, q, c). (b, q, (i, take (length (rest_of s) - length q) (rest_of s)) # c)) (mt r s)"

text \<open>\<open>exec\<close>: the first match at the leftmost position that has one.\<close>

fun exec_from :: "regex \<Rightarrow> string \<Rightarrow> string \<Rightarrow> match_state option" where
  "exec_from r b [] = (case mt r (b, [], []) of [] \<Rightarrow> None | m # _ \<Rightarrow> Some m)"
| "exec_from r b (x # s) = (case mt r (b, x # s, []) of [] \<Rightarrow> exec_from r (x # b) s | m # _ \<Rightarrow> Some m)"

definition regex_exec :: "regex \<Rightarrow> string \<Rightarrow> match_state option" where
  "regex_exec r s = exec_from r [] s"

definition regex_test :: "regex \<Rightarrow> string \<Rightarrow> bool" where
  "regex_test r s \<longleftrightarrow> regex_exec r s \<noteq> None"

text \<open>
  \<open>s.replace(/\<dots>/g, t)\<close>: matches are replaced from left to right; after an empty match the next
  character is copied. The match looks at the original text on both sides.
\<close>

function replace_from :: "regex \<Rightarrow> string \<Rightarrow> string \<Rightarrow> string \<Rightarrow> string" where
  "replace_from r t b s =
     (case mt r (b, s, []) of
        m # _ \<Rightarrow>
          if length (rest_of m) < length s then t @ replace_from r t (fst m) (rest_of m)
          else (case s of [] \<Rightarrow> t | x # s' \<Rightarrow> t @ x # replace_from r t (x # b) s')
      | [] \<Rightarrow> (case s of [] \<Rightarrow> [] | x # s' \<Rightarrow> x # replace_from r t (x # b) s'))"
  by pat_completeness auto
termination
  by (relation "measure (\<lambda>(r, t, b, s). length s)") auto

declare replace_from.simps [simp del]

definition replace_all :: "regex \<Rightarrow> string \<Rightarrow> string \<Rightarrow> string" where
  "replace_all r t s = replace_from r t [] s"

subsection \<open>Writing patterns\<close>

definition chr_ci :: "char \<Rightarrow> regex" where
  "chr_ci c = Cls (\<lambda>x. lower_char x = lower_char c)"

definition chr :: "char \<Rightarrow> regex" where
  "chr c = Cls (\<lambda>x. x = c)"

text \<open>Literal text, with and without the flag \<open>i\<close>\<close>

definition lit_ci :: "string \<Rightarrow> regex" where
  "lit_ci s = foldr (\<lambda>c r. Seq (chr_ci c) r) s Eps"

definition lit :: "string \<Rightarrow> regex" where
  "lit s = foldr (\<lambda>c r. Seq (chr c) r) s Eps"

fun alts :: "regex list \<Rightarrow> regex" where
  "alts [] = Cls (\<lambda>_. False)"
| "alts [r] = r"
| "alts (r # rs) = Alt r (alts rs)"

definition seqs :: "regex list \<Rightarrow> regex" where
  "seqs rs = foldr Seq rs Eps"

definition Plus :: "regex \<Rightarrow> regex" where
  "Plus r = Seq r (Star r)"

definition at_least :: "nat \<Rightarrow> regex \<Rightarrow> regex" where
  "at_least n r = seqs (replicate n r @ [Star r])"

definition cue :: "regex list \<Rightarrow> regex" where
  "cue rs = seqs [Bnd, alts rs, Bnd]"

subsection \<open>What a match is\<close>

lemma greedy_cases:
  assumes "\<And>s s'. s' \<in> set (f s) \<Longrightarrow> R s s'" "\<And>s. R s s" "\<And>a b c. R a b \<Longrightarrow> R b c \<Longrightarrow> R a c"
  shows "s' \<in> set (greedy n f s) \<Longrightarrow> R s s'"
proof (induction n arbitrary: s s')
  case (Suc n)
  then consider "s' = s" | u where "u \<in> set (f s)" "s' \<in> set (greedy n f u)" by (auto simp del: split_paired_Ex)
  then show ?case
  proof cases
    case 2
    from assms(1) [OF 2(1)] Suc.IH [OF 2(2)] show ?thesis by (rule assms(3))
  qed (simp add: assms(2))
qed (simp add: assms)

text \<open>A match moves a piece of the text from the right of the position to its left.\<close>

definition consumes :: "match_state \<Rightarrow> match_state \<Rightarrow> bool" where
  "consumes s s' \<longleftrightarrow> (\<exists>w. rest_of s = w @ rest_of s' \<and> fst s' = rev w @ fst s)"

lemma consumes_refl [simp]: "consumes s s"
  by (simp add: consumes_def)

lemma consumes_trans: "consumes a b \<Longrightarrow> consumes b c \<Longrightarrow> consumes a c"
  by (force simp: consumes_def)

lemma greedy_consumes:
  assumes "\<And>s s'. s' \<in> set (f s) \<Longrightarrow> consumes s s'" "s' \<in> set (greedy n f s)"
  shows "consumes s s'"
  by (rule greedy_cases [of f consumes, OF _ consumes_refl consumes_trans assms(2)]) (rule assms(1))

lemma mt_consumes: "s' \<in> set (mt r s) \<Longrightarrow> consumes s s'"
proof (induction r arbitrary: s s')
  case (Seq r1 r2)
  from Seq.prems obtain u where u: "u \<in> set (mt r1 s)" "s' \<in> set (mt r2 u)" by (auto simp del: split_paired_Ex)
  from Seq.IH(1) [OF u(1)] Seq.IH(2) [OF u(2)] show ?case by (rule consumes_trans)
next
  case (Opt r)
  show ?case
    using Opt.prems by (intro greedy_consumes [of "mt r", OF Opt.IH]) (simp_all del: greedy.simps One_nat_def)
next
  case (Star r)
  show ?case
    using Star.prems by (intro greedy_consumes [of "mt r", OF Star.IH]) simp_all
next
  case (Cap i r)
  then obtain b q c where u: "(b, q, c) \<in> set (mt r s)" "fst s' = b" "rest_of s' = q"
    by (auto simp: rest_of_def)
  from Cap.IH [OF u(1)] u(2,3) show ?case by (simp add: consumes_def rest_of_def)
qed (auto simp: consumes_def rest_of_def split: list.splits if_splits)

lemma exec_from_iff:
  "exec_from r b s \<noteq> None \<longleftrightarrow> (\<exists>p q. s = p @ q \<and> mt r (rev p @ b, q, []) \<noteq> [])"
proof (induction s arbitrary: b)
  case Nil
  then show ?case by (auto split: list.split)
next
  case (Cons x s)
  have "(\<exists>p q. x # s = p @ q \<and> mt r (rev p @ b, q, []) \<noteq> []) \<longleftrightarrow>
    mt r (b, x # s, []) \<noteq> [] \<or> (\<exists>p q. s = p @ q \<and> mt r (rev p @ x # b, q, []) \<noteq> [])" (is "?l \<longleftrightarrow> ?r")
  proof
    assume ?l
    then obtain p q where pq: "x # s = p @ q" "mt r (rev p @ b, q, []) \<noteq> []" by blast
    then show ?r by (cases p) auto
  next
    assume ?r
    then show ?l
    proof
      assume "mt r (b, x # s, []) \<noteq> []"
      then show ?l by (intro exI [of _ "[]"] exI [of _ "x # s"]) simp
    next
      assume "\<exists>p q. s = p @ q \<and> mt r (rev p @ x # b, q, []) \<noteq> []"
      then obtain p q where "s = p @ q" "mt r (rev p @ x # b, q, []) \<noteq> []" by blast
      then show ?l by (intro exI [of _ "x # p"] exI [of _ q]) simp
    qed
  qed
  with Cons show ?case by (simp split: list.split)
qed

lemma regex_test_iff: "regex_test r s \<longleftrightarrow> (\<exists>p q. s = p @ q \<and> mt r (rev p, q, []) \<noteq> [])"
  using exec_from_iff [of r "[]" s] by (simp add: regex_test_def regex_exec_def)

text \<open>A literal matches in exactly one way.\<close>

definition same_ci :: "string \<Rightarrow> string \<Rightarrow> bool" where
  "same_ci u w \<longleftrightarrow> map lower_char u = map lower_char w"

lemma mt_lit_ci:
  "mt (lit_ci w) (b, q, c) =
     (if same_ci (take (length w) q) w then [(rev (take (length w) q) @ b, drop (length w) q, c)] else [])"
proof (induction w arbitrary: b q)
  case (Cons x w)
  show ?case
  proof (cases q)
    case (Cons y q')
    have "mt (lit_ci (x # w)) (b, q, c) = (if lower_char y = lower_char x then mt (lit_ci w) (y # b, q', c) else [])"
      by (simp add: lit_ci_def chr_ci_def Cons)
    then show ?thesis by (simp add: Cons.IH Cons same_ci_def)
  qed (simp add: lit_ci_def chr_ci_def same_ci_def)
qed (simp add: lit_ci_def same_ci_def)

lemma mt_alts: "mt (alts rs) s = concat (map (\<lambda>r. mt r s) rs)"
  by (induction rs rule: alts.induct) (auto split: prod.split list.split)

text \<open>A cue of plain words fires exactly on a text that has one of them as a whole word.\<close>

definition has_word :: "string \<Rightarrow> string \<Rightarrow> bool" where
  "has_word w s \<longleftrightarrow> (\<exists>a m z. s = a @ m @ z \<and> same_ci m w \<and> at_boundary (rev a) (m @ z) \<and> at_boundary (rev (a @ m)) z)"

lemma has_word_iff:
  "has_word w s \<longleftrightarrow> (\<exists>p q. s = p @ q \<and> at_boundary (rev p) q \<and> same_ci (take (length w) q) w \<and>
     at_boundary (rev (take (length w) q) @ rev p) (drop (length w) q))"
proof
  assume "has_word w s"
  then obtain a m z where amz: "s = a @ m @ z" "same_ci m w" "at_boundary (rev a) (m @ z)" "at_boundary (rev (a @ m)) z"
    unfolding has_word_def by blast
  moreover from amz(2) have "length m = length w" unfolding same_ci_def by (metis length_map)
  ultimately show "\<exists>p q. s = p @ q \<and> at_boundary (rev p) q \<and> same_ci (take (length w) q) w \<and>
     at_boundary (rev (take (length w) q) @ rev p) (drop (length w) q)"
    by (intro exI [of _ a] exI [of _ "m @ z"]) simp
next
  assume "\<exists>p q. s = p @ q \<and> at_boundary (rev p) q \<and> same_ci (take (length w) q) w \<and>
     at_boundary (rev (take (length w) q) @ rev p) (drop (length w) q)"
  then obtain p q where "s = p @ take (length w) q @ drop (length w) q" "at_boundary (rev p) (take (length w) q @ drop (length w) q)"
    "same_ci (take (length w) q) w" "at_boundary (rev (p @ take (length w) q)) (drop (length w) q)"
    by (metis append_take_drop_id rev_append)
  then show "has_word w s" unfolding has_word_def by (intro exI conjI)
qed

lemma cue_words: "regex_test (cue (map lit_ci ws)) s \<longleftrightarrow> (\<exists>w\<in>set ws. has_word w s)"
proof -
  have "mt (cue (map lit_ci ws)) (rev p, q, []) \<noteq> [] \<longleftrightarrow>
    (\<exists>w\<in>set ws. at_boundary (rev p) q \<and> same_ci (take (length w) q) w \<and>
       at_boundary (rev (take (length w) q) @ rev p) (drop (length w) q))" for p q
    by (auto simp: cue_def seqs_def mt_alts mt_lit_ci)
  then show ?thesis unfolding regex_test_iff has_word_iff by (simp only: bex_simps(6) [symmetric]) blast
qed

end
