(* ===== verification/Authority.thy ===== *)
theory Authority
  imports Regex Ids Frames
begin

text \<open>
  Authority and routing: \<open>src/src/elora/classifyAuthority.ts\<close>, \<open>parseIntent.ts\<close>, \<open>resolveEloraRoute.ts\<close>,
  \<open>dispatchTool.ts\<close>, \<open>resolveAuthorityWithHierarchy.ts\<close> and \<open>triggers/isOwnershipAssignmentAuthorized.ts\<close>.
  The cues are regular expressions over the message text. A pattern that is stored in a standing rule
  is compiled at run time, so the compiler is a parameter: \<open>compile p\<close> is \<open>new RegExp(p, "i").test\<close>, and
  \<^const>\<open>None\<close> where the constructor throws.
\<close>

subsection \<open>Types\<close>

datatype elora_route =
    rt_converse | rt_direct_answer | rt_tool_assisted | rt_delegate | rt_durable_work
  | rt_consequential_action | rt_clarify | rt_setup_required | rt_capability_missing | rt_refuse

datatype elora_task_type =
    tt_planning | tt_documentation | tt_analysis | tt_memory | tt_implementation | tt_artifact_creation | tt_unknown

fun task_type_str :: "elora_task_type \<Rightarrow> string" where
  "task_type_str tt_planning = ''planning''"
| "task_type_str tt_documentation = ''documentation''"
| "task_type_str tt_analysis = ''analysis''"
| "task_type_str tt_memory = ''memory''"
| "task_type_str tt_implementation = ''implementation''"
| "task_type_str tt_artifact_creation = ''artifact_creation''"
| "task_type_str tt_unknown = ''unknown''"

record artifact_request =
  ar_filename :: string
  ar_content :: string

record elora_structured_intent =
  si_route :: elora_route
  si_interpretedIntent :: string
  si_confidence :: rat
  si_taskDomain :: "string option"
  si_requestedCapabilities :: "string list"
  si_proposedDelegationTarget :: "string option"
  si_requiresDurableWork :: bool
  si_proposedToolNeeds :: "string list"
  si_externalSideEffect :: bool
  si_requires_clarification :: bool
  si_clarifyingQuestion :: "string option"
  si_task_type :: elora_task_type
  si_summary :: string
  si_artifactRequest :: "artifact_request option"

datatype authority_reason_code =
    WITHIN_CURRENT_AUTHORITY | REPORT_REQUIRED | AUTHORIZATION_REQUIRED | CONFIGURATION_REQUIRED
  | CAPABILITY_UNAVAILABLE | GOVERNING_BOUNDARY

fun AUTHORITY_OUTCOME_TO_REASON_CODE :: "authority_outcome \<Rightarrow> authority_reason_code" where
  "AUTHORITY_OUTCOME_TO_REASON_CODE act = WITHIN_CURRENT_AUTHORITY"
| "AUTHORITY_OUTCOME_TO_REASON_CODE act_and_report = REPORT_REQUIRED"
| "AUTHORITY_OUTCOME_TO_REASON_CODE escalate = AUTHORIZATION_REQUIRED"
| "AUTHORITY_OUTCOME_TO_REASON_CODE setup_required = CONFIGURATION_REQUIRED"
| "AUTHORITY_OUTCOME_TO_REASON_CODE capability_missing = CAPABILITY_UNAVAILABLE"
| "AUTHORITY_OUTCOME_TO_REASON_CODE refuse = GOVERNING_BOUNDARY"

datatype risk_level = risk_low | risk_medium | risk_high

record authority_classification =
  cls_outcome :: authority_outcome
  cls_requires_human_gatekeeper :: bool
  cls_reason :: string
  cls_reasonCode :: authority_reason_code
  cls_risk_level :: risk_level
  cls_required_setup :: "string option"
  cls_floorProtected :: bool

subsection \<open>Cue classification\<close>

definition REFUSE_CUE :: regex where
  "REFUSE_CUE = cue (map lit_ci [''steal'', ''exfiltrat''])"

definition CAPABILITY_MISSING_CUE :: regex where
  "CAPABILITY_MISSING_CUE = cue [lit_ci ''3d'', lit_ci ''cad'', lit_ci ''manufactur'',
     seqs [lit_ci ''physical '', alts [lit_ci ''prototype'', lit_ci ''part'']],
     seqs [lit_ci ''3d'', Opt (Cls (\<lambda>c. c = CHR ''-'' \<or> c = CHR '' '')), lit_ci ''print'']]"

definition FLOOR_PROTECTED_ESCALATE_CUE :: regex where
  "FLOOR_PROTECTED_ESCALATE_CUE = cue [lit_ci ''deploy'', lit_ci ''to production'', lit_ci ''spend'', lit_ci ''payment'',
     seqs [lit_ci ''credential'', Opt (lit_ci ''s'')],
     seqs [lit_ci ''delete '', Opt (lit_ci ''the ''), alts [lit_ci ''prod'', lit_ci ''database'']]]"

definition ORDINARY_ESCALATE_CUE :: regex where
  "ORDINARY_ESCALATE_CUE = cue [seqs [lit_ci ''send '', Opt (lit_ci ''an ''), lit_ci ''email''], lit_ci ''calendar event'']"

record classify_authority_input =
  ca_content :: string
  ca_taskType :: elora_task_type
  ca_resolvedProjectId :: "uuid option"

definition classification ::
  "authority_outcome \<Rightarrow> bool \<Rightarrow> string \<Rightarrow> risk_level \<Rightarrow> string option \<Rightarrow> bool \<Rightarrow> authority_classification" where
  "classification outcome gatekeeper reason risk setup floorProtected = \<lparr>cls_outcome = outcome,
     cls_requires_human_gatekeeper = gatekeeper, cls_reason = reason,
     cls_reasonCode = AUTHORITY_OUTCOME_TO_REASON_CODE outcome, cls_risk_level = risk,
     cls_required_setup = setup, cls_floorProtected = floorProtected\<rparr>"

definition classifyAuthority :: "classify_authority_input \<Rightarrow> authority_classification" where
  "classifyAuthority inp =
     (if regex_test REFUSE_CUE (ca_content inp) then
        classification refuse True
          ''Request pattern matches a refused action (credential theft / exfiltration).'' risk_high None False
      else if regex_test CAPABILITY_MISSING_CUE (ca_content inp) then
        classification capability_missing False
          ''Request requires physical-world capability (manufacturing/CAD/3D) the runtime does not have.'' risk_low None False
      else if regex_test FLOOR_PROTECTED_ESCALATE_CUE (ca_content inp) then
        classification escalate True
          ''Request matches an RMT / sensitive-data / irreversible-action pattern that is permanently ineligible for standing pre-authorization.''
          risk_high None True
      else if regex_test ORDINARY_ESCALATE_CUE (ca_content inp) then
        classification escalate True
          ''Request involves an external side effect requiring authorization before proceeding.'' risk_high None False
      else if ca_taskType inp = tt_implementation \<and> ca_resolvedProjectId inp = None then
        classification setup_required False
          ''Implementation task requires a project scope, and none was resolved for this request.''
          risk_medium (Some ''project_id'') False
      else
        classification act_and_report False
          ''Safe internal action (planning/drafting/analysis) with no external side effects.'' risk_low None False)"

subsection \<open>Intent\<close>

definition TASK_TYPE_CUES :: "(elora_task_type \<times> regex) list" where
  "TASK_TYPE_CUES =
     [(tt_planning, cue [lit_ci ''project plan'', seqs [lit_ci ''road'', Opt (lit_ci '' ''), lit_ci ''map''],
         lit_ci ''plan out'', lit_ci ''planning'']),
      (tt_implementation, cue (map lit_ci [''implement'', ''build the'', ''write code'', ''deploy'', ''in the repo''])),
      (tt_documentation, cue (map lit_ci [''document'', ''write docs'', ''documentation''])),
      (tt_analysis, cue (map lit_ci [''analyz'', ''analys'', ''review the data''])),
      (tt_memory, cue (map lit_ci [''remember'', ''recall'', ''memory'']))]"

definition classifyTaskType :: "string \<Rightarrow> elora_task_type" where
  "classifyTaskType content =
     (case List.find (\<lambda>c. regex_test (snd c) content) TASK_TYPE_CUES of None \<Rightarrow> tt_unknown | Some c \<Rightarrow> fst c)"

definition ARTIFACT_CREATION_PATTERN :: regex where
  "ARTIFACT_CREATION_PATTERN = seqs [lit_ci ''create a local markdown artifact named '',
     Cap 1 (seqs [Plus (Cls (\<lambda>c. \<not> is_ws c)), lit_ci ''.md'']),
     lit_ci '' containing'', Opt (chr CHR '':''), Star (Cls is_ws), Cap 2 (Plus (Cls (\<lambda>_. True)))]"

definition detectArtifactCreationRequest :: "string \<Rightarrow> artifact_request option" where
  "detectArtifactCreationRequest content =
     (case regex_exec ARTIFACT_CREATION_PATTERN content of
        None \<Rightarrow> None
      | Some (_, _, groups) \<Rightarrow> (case (map_of groups 1, map_of groups 2) of
            (Some filename, Some artifactContent) \<Rightarrow>
              Some \<lparr>ar_filename = js_trim filename, ar_content = js_trim artifactContent\<rparr>
          | _ \<Rightarrow> None))"

definition EXPLICIT_DELEGATION_PATTERN :: regex where
  "EXPLICIT_DELEGATION_PATTERN = seqs [Bnd, lit_ci ''have'', Plus (Cls is_ws), lit_ci ''nexora'', Bnd]"

text \<open>The fields \<open>route\<close>, \<open>interpretedIntent\<close> and \<open>confidence\<close> are given at each use.\<close>

definition baseIntent :: "string \<Rightarrow> elora_route \<Rightarrow> string \<Rightarrow> rat \<Rightarrow> elora_structured_intent" where
  "baseIntent content route interpreted confidence = \<lparr>si_route = route, si_interpretedIntent = interpreted,
     si_confidence = confidence, si_taskDomain = None, si_requestedCapabilities = [],
     si_proposedDelegationTarget = None, si_requiresDurableWork = False, si_proposedToolNeeds = [],
     si_externalSideEffect = False, si_requires_clarification = False, si_clarifyingQuestion = None,
     si_task_type = classifyTaskType content, si_summary = take 200 content, si_artifactRequest = None\<rparr>"

definition parseIntentDegraded :: "string \<Rightarrow> bool \<Rightarrow> elora_structured_intent" where
  "parseIntentDegraded content isSystemInitiated =
     (case detectArtifactCreationRequest content of
        Some artifactMatch \<Rightarrow>
          (baseIntent content rt_tool_assisted
             (''Create a local Markdown artifact named '' @ ar_filename artifactMatch @ ''.'') (95/100))
            \<lparr>si_task_type := tt_artifact_creation, si_artifactRequest := Some artifactMatch\<rparr>
      | None \<Rightarrow>
          if regex_test REFUSE_CUE content then
            baseIntent content rt_refuse
              ''Request pattern matches a refused action (credential theft / exfiltration).'' (9/10)
          else if regex_test EXPLICIT_DELEGATION_PATTERN content then
            (baseIntent content rt_delegate (take 200 content) (9/10))
              \<lparr>si_taskDomain := Some ''engineering'', si_proposedDelegationTarget := Some ''nexora'',
               si_requiresDurableWork := True\<rparr>
          else if isSystemInitiated then
            (baseIntent content rt_durable_work (take 200 content) (7/10))\<lparr>si_requiresDurableWork := True\<rparr>
          else baseIntent content rt_converse (take 200 content) (1/2))"

record dispatched_tool_call =
  dt_toolName :: string
  dt_filename :: string
  dt_content :: string
  dt_mimeType :: string

definition dispatchTool :: "elora_structured_intent \<Rightarrow> dispatched_tool_call option" where
  "dispatchTool intent =
     (case (si_task_type intent, si_artifactRequest intent) of
        (tt_artifact_creation, Some r) \<Rightarrow> Some \<lparr>dt_toolName = ''core.artifact.write'',
          dt_filename = ar_filename r, dt_content = ar_content r, dt_mimeType = ''text/markdown''\<rparr>
      | _ \<Rightarrow> None)"

subsection \<open>Routing\<close>

record intent_interpretation_output =
  io_route :: elora_route
  io_interpretedIntent :: string
  io_confidence :: rat
  io_taskDomain :: "string option"
  io_requestedCapabilities :: "string list"
  io_proposedDelegationTarget :: "string option"
  io_requiresDurableWork :: bool
  io_proposedToolNeeds :: "string list"
  io_externalSideEffect :: bool
  io_requiresClarification :: bool
  io_clarifyingQuestion :: "string option"

definition toStructuredIntent :: "string \<Rightarrow> intent_interpretation_output \<Rightarrow> elora_structured_intent" where
  "toStructuredIntent content out = \<lparr>si_route = io_route out, si_interpretedIntent = io_interpretedIntent out,
     si_confidence = io_confidence out, si_taskDomain = io_taskDomain out,
     si_requestedCapabilities = io_requestedCapabilities out,
     si_proposedDelegationTarget = io_proposedDelegationTarget out,
     si_requiresDurableWork = io_requiresDurableWork out, si_proposedToolNeeds = io_proposedToolNeeds out,
     si_externalSideEffect = io_externalSideEffect out, si_requires_clarification = io_requiresClarification out,
     si_clarifyingQuestion = io_clarifyingQuestion out, si_task_type = tt_unknown,
     si_summary = take 200 content, si_artifactRequest = None\<rparr>"

definition applyDeterministicRouteOverrides :: "string \<Rightarrow> elora_structured_intent \<Rightarrow> elora_structured_intent" where
  "applyDeterministicRouteOverrides content intent =
     (if regex_test REFUSE_CUE content \<and> si_route intent \<noteq> rt_refuse then intent\<lparr>si_route := rt_refuse\<rparr> else intent)"

datatype classification_source = MODEL | DETERMINISTIC_FALLBACK

record resolve_route_result =
  rr_intent :: elora_structured_intent
  rr_classificationSource :: classification_source
  rr_modelInvocationId :: "uuid option"

text \<open>
  \<open>interpretation\<close> is \<^const>\<open>None\<close> where no provider is configured, otherwise the call of
  \<open>runIntentInterpretation\<close>: a failure with the invocation it recorded, or the model's proposal. It runs
  only if the artifact pattern does not match.
\<close>

definition resolveEloraRoute ::
  "string \<Rightarrow> bool \<Rightarrow> (error, 'd, uuid option + uuid \<times> intent_interpretation_output) op option \<Rightarrow>
   (error, 'd, resolve_route_result) op" where
  "resolveEloraRoute content isSystemInitiated interpretation =
     (let degraded = (\<lambda>i. \<lparr>rr_intent = parseIntentDegraded content isSystemInitiated,
            rr_classificationSource = DETERMINISTIC_FALLBACK, rr_modelInvocationId = i\<rparr>) in
      if detectArtifactCreationRequest content \<noteq> None then oreturn (degraded None)
      else case interpretation of
        None \<Rightarrow> oreturn (degraded None)
      | Some call \<Rightarrow> obind call (\<lambda>result. case result of
            Inl invocationId \<Rightarrow> oreturn (degraded invocationId)
          | Inr (invocationId, value) \<Rightarrow> oreturn \<lparr>rr_intent =
                applyDeterministicRouteOverrides content (toStructuredIntent content value),
              rr_classificationSource = MODEL, rr_modelInvocationId = Some invocationId\<rparr>))"

subsection \<open>The reporting hierarchy\<close>

definition superior_of :: "client \<Rightarrow> uuid \<Rightarrow> db \<Rightarrow> uuid \<Rightarrow> uuid option" where
  "superior_of c t d a =
     (case first_row (scoped_rows c ac_id ac_tenant_id a t (actors d)) of None \<Rightarrow> None | Some x \<Rightarrow> ac_reports_to_actor_id x)"

text \<open>\<open>match_criteria\<close> is what the table's \<open>jsonb\<close> holds; the code tests the type of each field.\<close>

definition matchesCriteria :: "(string \<Rightarrow> (string \<Rightarrow> bool) option) \<Rightarrow> metadata \<Rightarrow> string \<Rightarrow> string \<Rightarrow> bool" where
  "matchesCriteria compile criteria content taskType \<longleftrightarrow>
     (case map_of criteria ''taskType'' of
        Some (JStr s) \<Rightarrow> s = taskType
      | _ \<Rightarrow> True) \<and>
     (case map_of criteria ''contentPattern'' of
        Some (JStr p) \<Rightarrow> p \<noteq> [] \<and> (case compile p of Some test \<Rightarrow> test content | None \<Rightarrow> False)
      | _ \<Rightarrow> False)"

definition activeApprovals :: "client \<Rightarrow> uuid \<Rightarrow> uuid \<Rightarrow> db \<Rightarrow> standing_rule list" where
  "activeApprovals c t superior d = order_by_asc sr_created_at
     (filter (\<lambda>r. sr_tenant_id r = t \<and> sr_scope_actor_id r = superior \<and> sr_polarity r = pol_approve \<and> sr_status r = rule_active)
       (rls_rows c sr_tenant_id (standing_rules d)))"

text \<open>
  The walk up the chain: \<open>found\<close> is what a superior holds. There are finitely many ids, so the visited
  ids run out even on a cyclic hierarchy.
\<close>

lemma visited_decreases: "(x :: uuid) \<notin> set visited \<Longrightarrow> card (- set (x # visited)) < card (- set visited)"
  by (intro psubset_card_mono) auto

function chain_walk :: "(uuid \<Rightarrow> uuid option) \<Rightarrow> (uuid \<Rightarrow> 'r option) \<Rightarrow> uuid \<Rightarrow> uuid list \<Rightarrow> (uuid \<times> 'r) option" where
  "chain_walk boss found current visited =
     (case boss current of
        None \<Rightarrow> None
      | Some superior \<Rightarrow>
          if superior \<in> set visited then None
          else (case found superior of
              Some r \<Rightarrow> Some (superior, r)
            | None \<Rightarrow> chain_walk boss found superior (superior # visited)))"
  by pat_completeness auto
termination
  by (relation "measure (\<lambda>(boss, found, current, visited). card (- set visited))") (auto simp del: set_simps intro: visited_decreases)

declare chain_walk.simps [simp del]

record resolved_authority = authority_classification +
  cls_resolvedViaStandingRuleId :: "uuid option"

definition with_rule :: "authority_classification \<Rightarrow> uuid option \<Rightarrow> resolved_authority" where
  "with_rule a i = authority_classification.extend a \<lparr>cls_resolvedViaStandingRuleId = i\<rparr>"

definition unresolved :: "authority_classification \<Rightarrow> resolved_authority" where
  "unresolved baseline = with_rule baseline None"

definition resolveHierarchy_tx ::
  "(string \<Rightarrow> (string \<Rightarrow> bool) option) \<Rightarrow> uuid \<Rightarrow> classify_authority_input \<Rightarrow> authority_classification \<Rightarrow> uuid \<Rightarrow>
   client \<Rightarrow> resolved_authority dtx" where
  "resolveHierarchy_tx compile tenantId inp baseline startingActorId c =
     tbind (query (\<lambda>d. chain_walk (superior_of c tenantId d)
         (\<lambda>superior. List.find (\<lambda>rule. matchesCriteria compile (sr_match_criteria rule) (ca_content inp)
            (task_type_str (ca_taskType inp))) (activeApprovals c tenantId superior d))
         startingActorId [startingActorId])) (\<lambda>hit.
     treturn (case hit of
         None \<Rightarrow> unresolved baseline
       | Some (superior, matched) \<Rightarrow>
           with_rule (classification act_and_report False
             (''Resolved via standing authorization held by '' @ uuid_str superior @ '' (rule '' @ uuid_str (sr_id matched) @ '')'')
             (cls_risk_level baseline) None False) (Some (sr_id matched))))"

definition resolveAuthorityWithHierarchy ::
  "(string \<Rightarrow> (string \<Rightarrow> bool) option) \<Rightarrow> env \<Rightarrow> uuid \<Rightarrow> classify_authority_input \<Rightarrow> uuid dop \<Rightarrow> resolved_authority dop" where
  "resolveAuthorityWithHierarchy compile e tenantId inp resolveStartingActorId =
     (let baseline = classifyAuthority inp in
      if cls_outcome baseline \<noteq> escalate \<or> cls_floorProtected baseline then oreturn (unresolved baseline)
      else obind resolveStartingActorId (\<lambda>startingActorId.
        withTenantTransaction e tenantId (resolveHierarchy_tx compile tenantId inp baseline startingActorId)))"

text \<open>\<open>isOwnershipAssignmentAuthorized\<close> looks for the creator before it looks for a cycle.\<close>

function ownership_walk :: "(uuid \<Rightarrow> uuid option) \<Rightarrow> uuid \<Rightarrow> uuid \<Rightarrow> uuid list \<Rightarrow> bool" where
  "ownership_walk boss creator current visited =
     (case boss current of
        None \<Rightarrow> False
      | Some superior \<Rightarrow>
          if superior = creator then True
          else if superior \<in> set visited then False
          else ownership_walk boss creator superior (superior # visited))"
  by pat_completeness auto
termination
  by (relation "measure (\<lambda>(boss, creator, current, visited). card (- set visited))") (auto simp del: set_simps intro: visited_decreases)

declare ownership_walk.simps [simp del]

definition isOwnershipAssignmentAuthorized :: "client \<Rightarrow> uuid \<Rightarrow> uuid \<Rightarrow> uuid \<Rightarrow> bool dtx" where
  "isOwnershipAssignmentAuthorized c tenantId createdByActorId owningActorId =
     (if createdByActorId = owningActorId then treturn True
      else query (\<lambda>d. ownership_walk (superior_of c tenantId d) createdByActorId owningActorId [owningActorId]))"

subsection \<open>The walks are exact\<close>

definition reports :: "(uuid \<Rightarrow> uuid option) \<Rightarrow> (uuid \<times> uuid) set" where
  "reports boss = {(a, b). boss a = Some b}"

lemma chain_walk_Some:
  "chain_walk boss found current visited = Some (s, r) \<Longrightarrow>
   (current, s) \<in> (reports boss)\<^sup>+ \<and> s \<notin> set visited \<and> found s = Some r"
proof (induction boss found current visited rule: chain_walk.induct)
  case (1 boss found current visited)
  from 1(2) obtain u where u: "boss current = Some u" "u \<notin> set visited"
    by (subst (asm) chain_walk.simps) (auto split: option.splits if_splits)
  then have cu: "(current, u) \<in> (reports boss)\<^sup>+" by (auto simp: reports_def)
  show ?case
  proof (cases "found u")
    case None
    with 1(2) u have "chain_walk boss found u (u # visited) = Some (s, r)" by (subst (asm) chain_walk.simps) simp
    from 1(1) [OF u(1,2) None this] cu show ?thesis by (auto intro: trancl_trans)
  next
    case (Some r')
    with 1(2) u have "s = u" "r = r'" by (subst (asm) chain_walk.simps, simp)+
    with cu u Some show ?thesis by simp
  qed
qed

lemma trancl_closed:
  assumes "(a, b) \<in> R\<^sup>+" "a \<in> S" "\<And>x y. x \<in> S \<Longrightarrow> (x, y) \<in> R \<Longrightarrow> y \<in> S"
  shows "b \<in> S"
  using assms(1,2) by (induction rule: trancl_induct) (auto intro: assms(3))

text \<open>What the walk has passed is closed under the relation, except at its current end.\<close>

definition passed :: "(uuid \<Rightarrow> uuid option) \<Rightarrow> uuid \<Rightarrow> uuid list \<Rightarrow> bool" where
  "passed boss current visited \<longleftrightarrow> current \<in> set visited \<and>
     (\<forall>x\<in>set visited. x \<noteq> current \<longrightarrow> (\<forall>y. boss x = Some y \<longrightarrow> y \<in> set visited))"

lemma passed_start: "passed boss a [a]"
  by (simp add: passed_def)

lemma passed_step: "passed boss current visited \<Longrightarrow> boss current = Some u \<Longrightarrow> passed boss u (u # visited)"
  by (auto simp: passed_def)

lemma passed_end:
  assumes "passed boss current visited" "\<And>u. boss current = Some u \<Longrightarrow> u \<in> set visited" "a \<in> set visited"
    "(a, b) \<in> (reports boss)\<^sup>+"
  shows "b \<in> set visited"
proof (rule trancl_closed [OF assms(4,3)])
  fix x y assume x: "x \<in> set visited" "(x, y) \<in> reports boss"
  then have y: "boss x = Some y" by (simp add: reports_def)
  show "y \<in> set visited"
  proof (cases "x = current")
    case True
    with y assms(2) show ?thesis by simp
  next
    case False
    with assms(1) x(1) y show ?thesis unfolding passed_def by metis
  qed
qed

lemma chain_walk_None:
  assumes "chain_walk boss found current visited = None" "passed boss current visited" "a \<in> set visited"
    "\<forall>x\<in>set visited. x \<noteq> a \<longrightarrow> found x = None"
  shows "(a, b) \<in> (reports boss)\<^sup>+ \<Longrightarrow> b \<noteq> a \<Longrightarrow> found b = None"
  using assms
proof (induction boss found current visited rule: chain_walk.induct)
  case (1 boss found current visited)
  show ?case
  proof (cases "\<exists>u. boss current = Some u \<and> u \<notin> set visited")
    case True
    then obtain u where u: "boss current = Some u" "u \<notin> set visited" by blast
    then have f: "found u = None" "chain_walk boss found u (u # visited) = None"
      using 1(4) by (subst (asm) chain_walk.simps, simp split: option.splits)+
    show ?thesis
      using 1(1) [OF u f(1) 1(2,3) f(2) passed_step [OF 1(5) u(1)]] 1(6,7) f(1) by simp
  next
    case False
    then have "b \<in> set visited" using passed_end [OF 1(5) _ 1(6) 1(2)] by blast
    with 1(3,7) show ?thesis by blast
  qed
qed

lemma ownership_walk_iff:
  assumes "passed boss current visited" "a \<in> set visited" "creator \<notin> set visited" "(a, current) \<in> (reports boss)\<^sup>*"
  shows "ownership_walk boss creator current visited \<longleftrightarrow> (a, creator) \<in> (reports boss)\<^sup>+"
  using assms
proof (induction boss creator current visited rule: ownership_walk.induct)
  case (1 boss creator current visited)
  show ?case
  proof (cases "\<exists>u. boss current = Some u \<and> u \<noteq> creator \<and> u \<notin> set visited")
    case True
    then obtain u where u: "boss current = Some u" "u \<noteq> creator" "u \<notin> set visited" by blast
    have "(a, u) \<in> (reports boss)\<^sup>*" using 1(5) u(1) by (auto simp: reports_def intro: rtrancl_into_rtrancl)
    with 1(1) [OF u passed_step [OF 1(2) u(1)]] 1(3,4) u
    show ?thesis by (subst ownership_walk.simps) simp
  next
    case False
    show ?thesis
    proof (cases "boss current = Some creator")
      case True
      then have "(a, creator) \<in> (reports boss)\<^sup>+" using 1(5) by (auto simp: reports_def intro: rtrancl_into_trancl1)
      then show ?thesis using True by (subst ownership_walk.simps) simp
    next
      case nc: False
      with False have "\<And>u. boss current = Some u \<Longrightarrow> u \<in> set visited" by auto
      then have "(a, creator) \<notin> (reports boss)\<^sup>+" using passed_end [OF 1(2) _ 1(3)] 1(4) by blast
      moreover have "\<not> ownership_walk boss creator current visited"
        using False nc by (subst ownership_walk.simps) (auto split: option.split)
      ultimately show ?thesis by blast
    qed
  qed
qed

end
