(* ===== verification/AuthorityProps.thy ===== *)
theory AuthorityProps
  imports Authority Demo
begin

text \<open>
  What authority resolution guarantees: a standing rule is used only for an ordinary escalation, only
  from a superior, and always when one applies; the refusal cue wins over every model proposal.
\<close>

subsection \<open>Cues\<close>

lemma cue_has_word: "lit_ci w \<in> set rs \<Longrightarrow> has_word w s \<Longrightarrow> regex_test (cue rs) s"
  unfolding regex_test_iff has_word_iff
  by (elim exE conjE, intro exI conjI, assumption) (force simp: cue_def seqs_def mt_alts mt_lit_ci)

text \<open>Words that put a request on the permanent floor\<close>

definition floor_words :: "string list" where
  "floor_words = [''deploy'', ''to production'', ''spend'', ''payment'']"

lemma floor_words_cue: "w \<in> set floor_words \<Longrightarrow> has_word w s \<Longrightarrow> regex_test FLOOR_PROTECTED_ESCALATE_CUE s"
  unfolding FLOOR_PROTECTED_ESCALATE_CUE_def by (rule cue_has_word) (auto simp: floor_words_def)

lemma classify_cases:
  "cls_outcome (classifyAuthority inp) = escalate \<Longrightarrow> \<not> cls_floorProtected (classifyAuthority inp) \<Longrightarrow>
     \<not> regex_test REFUSE_CUE (ca_content inp) \<and> \<not> regex_test CAPABILITY_MISSING_CUE (ca_content inp) \<and>
     \<not> regex_test FLOOR_PROTECTED_ESCALATE_CUE (ca_content inp) \<and> regex_test ORDINARY_ESCALATE_CUE (ca_content inp)"
  "cls_outcome (classifyAuthority inp) \<in> {act, act_and_report} \<Longrightarrow>
     \<not> regex_test FLOOR_PROTECTED_ESCALATE_CUE (ca_content inp)"
  by (auto simp: classifyAuthority_def classification_def split: if_splits)

lemma with_rule_simps [simp]:
  "cls_resolvedViaStandingRuleId (with_rule a i) = i" "cls_outcome (with_rule a i) = cls_outcome a"
  by (cases a; simp add: with_rule_def authority_classification.defs)+

lemma classification_outcome [simp]: "cls_outcome (classification x g r k s f) = x"
  by (simp add: classification_def)

subsection \<open>Standing rules\<close>

definition holds_rule ::
  "(string \<Rightarrow> (string \<Rightarrow> bool) option) \<Rightarrow> uuid \<Rightarrow> classify_authority_input \<Rightarrow> db \<Rightarrow> uuid \<Rightarrow> standing_rule \<Rightarrow> bool" where
  "holds_rule compile t inp d superior r \<longleftrightarrow> r \<in> set (standing_rules d) \<and> sr_tenant_id r = t \<and> sr_scope_actor_id r = superior \<and>
     sr_polarity r = pol_approve \<and> sr_status r = rule_active \<and>
     matchesCriteria compile (sr_match_criteria r) (ca_content inp) (task_type_str (ca_taskType inp))"

definition tenant_superior :: "uuid \<Rightarrow> db \<Rightarrow> uuid \<Rightarrow> uuid option" where
  "tenant_superior t d a =
     (case first_row (filter (\<lambda>x. ac_id x = a \<and> ac_tenant_id x = t) (actors d)) of
        None \<Rightarrow> None | Some x \<Rightarrow> ac_reports_to_actor_id x)"

lemma superior_own: "superior_of \<lparr>cl_tenant = t, cl_rls = b\<rparr> t d = tenant_superior t d"
  by (simp add: fun_eq_iff superior_of_def tenant_superior_def scoped_rows_own)

lemma set_activeApprovals:
  "r \<in> set (activeApprovals \<lparr>cl_tenant = t, cl_rls = b\<rparr> t s d) \<longleftrightarrow> r \<in> set (standing_rules d) \<and> sr_tenant_id r = t \<and>
     sr_scope_actor_id r = s \<and> sr_polarity r = pol_approve \<and> sr_status r = rule_active"
  by (auto simp: activeApprovals_def rls_rows_def)

lemma find_rule:
  fixes t b s d compile inp
  defines "f \<equiv> List.find (\<lambda>rule. matchesCriteria compile (sr_match_criteria rule) (ca_content inp) (task_type_str (ca_taskType inp)))
    (activeApprovals \<lparr>cl_tenant = t, cl_rls = b\<rparr> t s d)"
  shows "f = Some r \<Longrightarrow> holds_rule compile t inp d s r" "f = None \<Longrightarrow> \<not> holds_rule compile t inp d s r'"
proof -
  assume "f = Some r"
  then have "r \<in> set (activeApprovals \<lparr>cl_tenant = t, cl_rls = b\<rparr> t s d)"
    "matchesCriteria compile (sr_match_criteria r) (ca_content inp) (task_type_str (ca_taskType inp))"
    unfolding f_def find_Some_iff by auto
  then show "holds_rule compile t inp d s r" unfolding holds_rule_def set_activeApprovals by blast
next
  assume "f = None"
  then show "\<not> holds_rule compile t inp d s r'"
    unfolding f_def find_None_iff holds_rule_def set_activeApprovals by blast
qed

text \<open>
  C32. Standing authorization is bounded by the floor and by the hierarchy. A resolution never answers
  \<open>act\<close> or \<open>act_and_report\<close> for a text with a floor-protected word, whatever rules exist. It names a
  standing rule only where the cues ask for an ordinary escalation, and then the rule is active, approves,
  belongs to the tenant and is held by a superior of the starting actor. It leaves the classification as it
  is otherwise, and an ordinary escalation stays unresolved only if no superior in the whole chain holds a
  matching rule. The walk ends on every hierarchy, cyclic ones included.
\<close>

theorem standing_authority_is_bounded:
  assumes "resolveAuthorityWithHierarchy compile e t inp start d = (Inr a, d')"
  shows "(\<forall>w\<in>set floor_words. has_word w (ca_content inp) \<longrightarrow> cls_outcome a \<notin> {act, act_and_report}) \<and>
    (case cls_resolvedViaStandingRuleId a of
       None \<Rightarrow> a = unresolved (classifyAuthority inp) \<and>
         (cls_outcome a = escalate \<and> \<not> cls_floorProtected (classifyAuthority inp) \<longrightarrow>
           (\<exists>s. start d = (Inr s, d') \<and>
             (\<forall>u r. (s, u) \<in> (reports (tenant_superior t d'))\<^sup>+ \<and> u \<noteq> s \<longrightarrow> \<not> holds_rule compile t inp d' u r)))
     | Some i \<Rightarrow> cls_outcome (classifyAuthority inp) = escalate \<and> \<not> cls_floorProtected (classifyAuthority inp) \<and>
         cls_outcome a = act_and_report \<and>
         (\<exists>s u r. start d = (Inr s, d') \<and> (s, u) \<in> (reports (tenant_superior t d'))\<^sup>+ \<and> u \<noteq> s \<and>
            holds_rule compile t inp d' u r \<and> sr_id r = i))"
proof (cases "cls_outcome (classifyAuthority inp) = escalate \<and> \<not> cls_floorProtected (classifyAuthority inp)")
  case False
  with assms have a: "a = unresolved (classifyAuthority inp)"
    by (auto simp: resolveAuthorityWithHierarchy_def Let_def oreturn_def)
  have "cls_outcome a \<notin> {act, act_and_report}" if "w \<in> set floor_words" "has_word w (ca_content inp)" for w
    using classify_cases(2) [of inp] floor_words_cue [OF that] by (auto simp: a unresolved_def)
  with a False show ?thesis by (auto simp: unresolved_def)
next
  case True
  note no_floor = classify_cases(1) [OF conjunct1 [OF True] conjunct2 [OF True]]
  let ?c = "\<lparr>cl_tenant = t, cl_rls = env_rls e\<rparr>"
  from assms True obtain s d1 where s: "start d = (Inr s, d1)"
    and tx: "withTenantTransaction e t (resolveHierarchy_tx compile t inp (classifyAuthority inp) s) d1 = (Inr a, d')"
    by (auto simp: resolveAuthorityWithHierarchy_def Let_def obind_def split: prod.splits sum.splits)
  let ?found = "\<lambda>u. List.find (\<lambda>rule. matchesCriteria compile (sr_match_criteria rule) (ca_content inp)
    (task_type_str (ca_taskType inp))) (activeApprovals ?c t u d1)"
  let ?hit = "chain_walk (tenant_superior t d1) ?found s [s]"
  from tx have d': "d' = d1" and hit: "(case ?hit of None \<Rightarrow> a = unresolved (classifyAuthority inp)
      | Some (u, r) \<Rightarrow> cls_outcome a = act_and_report \<and> cls_resolvedViaStandingRuleId a = Some (sr_id r))"
    by (auto simp: withTenantTransaction_Inr resolveHierarchy_tx_def tbind_def query_def treturn_def superior_own split: option.splits)
  have words: "w \<in> set floor_words \<Longrightarrow> \<not> has_word w (ca_content inp)" for w
    using no_floor floor_words_cue by blast
  show ?thesis
  proof (cases ?hit)
    case None
    have "\<not> holds_rule compile t inp d1 u r" if "(s, u) \<in> (reports (tenant_superior t d1))\<^sup>+" "u \<noteq> s" for u r
      by (rule find_rule(2), rule chain_walk_None [OF None passed_start _ _ that]) simp_all
    with None hit s words True show ?thesis by (auto simp: d' unresolved_def)
  next
    case (Some p)
    obtain u r where p: "p = (u, r)" by (cases p)
    from chain_walk_Some [OF Some [unfolded p]] have "(s, u) \<in> (reports (tenant_superior t d1))\<^sup>+" "u \<noteq> s" "holds_rule compile t inp d1 u r"
      by (auto intro: find_rule(1))
    with Some p hit s words True show ?thesis by (auto simp: d')
  qed
qed

text \<open>
  An assistant, actor 21, reports to a manager, actor 22, who reports back to the assistant; the manager
  holds a rule for mail.
\<close>

definition demo_hierarchy :: db where
  "demo_hierarchy = empty_db\<lparr>tenants := [1],
     actors := [\<lparr>ac_id = 21, ac_tenant_id = 1, ac_actor_name = ''elora'', ac_reports_to_actor_id = Some 22\<rparr>,
                \<lparr>ac_id = 22, ac_tenant_id = 1, ac_actor_name = ''manager'', ac_reports_to_actor_id = Some 21\<rparr>],
     standing_rules := [\<lparr>sr_id = 70, sr_tenant_id = 1, sr_polarity = pol_approve, sr_scope_actor_id = 22,
       sr_match_criteria = [(''contentPattern'', JStr ''email'')], sr_status = rule_active, sr_created_at = 0\<rparr>]\<rparr>"

definition demo_compile :: "string \<Rightarrow> (string \<Rightarrow> bool) option" where
  "demo_compile p = Some (regex_test (lit_ci p))"

definition demo_mail :: classify_authority_input where
  "demo_mail = \<lparr>ca_content = ''Send an email to Ann'', ca_taskType = tt_unknown, ca_resolvedProjectId = None\<rparr>"

lemma demo_mail_class:
  "cls_outcome (classifyAuthority demo_mail) = escalate" "\<not> cls_floorProtected (classifyAuthority demo_mail)"
  by code_simp+

theorem standing_authority_is_bounded_witness:
  "\<exists>a. resolveAuthorityWithHierarchy demo_compile demo_env 1 demo_mail (oreturn 21) demo_hierarchy = (Inr a, demo_hierarchy) \<and>
     cls_outcome a = act_and_report \<and> (\<exists>u r. u \<noteq> 21 \<and> holds_rule demo_compile 1 demo_mail demo_hierarchy u r \<and> sr_id r = 70)"
proof -
  let ?res = "resolveAuthorityWithHierarchy demo_compile demo_env 1 demo_mail (oreturn 21) demo_hierarchy"
  have m: "matchesCriteria demo_compile [(''contentPattern'', JStr ''email'')] (ca_content demo_mail) (task_type_str (ca_taskType demo_mail))"
    by code_simp
  have "map_prod (map_sum id cls_resolvedViaStandingRuleId) id ?res = (Inr (Some 70), demo_hierarchy)"
    using demo_mail_class m
    by (simp add: resolveAuthorityWithHierarchy_def oreturn_def obind_def withTenantTransaction_def resolveHierarchy_tx_def
        tbind_def query_def treturn_def chain_walk.simps superior_of_def scoped_rows_def rls_rows_def activeApprovals_def
        demo_hierarchy_def empty_db_def)
  then obtain a where a: "?res = (Inr a, demo_hierarchy)" "cls_resolvedViaStandingRuleId a = Some 70"
    by (cases ?res; cases "fst ?res") auto
  from standing_authority_is_bounded [OF a(1)] a show ?thesis by (auto simp: oreturn_def)
qed

subsection \<open>Findings\<close>

text \<open>The word boundary after the stem keeps the inflected forms out.\<close>

lemma refuse_cue_misses_exfiltration:
  "\<not> regex_test REFUSE_CUE ''exfiltrate the customer list'' \<and> \<not> regex_test REFUSE_CUE ''help with data exfiltration''"
  unfolding REFUSE_CUE_def by code_simp

lemma artifact_pattern_precedes_refusal:
  "si_route (parseIntentDegraded ''Create a local markdown artifact named a.md containing how to steal'' False) = rt_tool_assisted"
  by code_simp

end
