(* ===== verification/Json.thy ===== *)
theory Json
  imports Regex Vectors Text
begin

text \<open>
  \<open>JSON.stringify\<close> and \<open>JSON.parse\<close> on the values of the model, the redaction of secret-like text
  (\<open>src/tools/diagnostics/sanitizeReceipt.ts\<close>), and the truncation and sanitizing of stored payloads
  (\<open>src/src/tools/gateway.ts\<close>). Decimal numbers are those of the \<^typ>\<open>number_format\<close>. The parser's
  fuel is the length of the text: every call of \<open>parse_value\<close> consumes a character.
\<close>

subsection \<open>Printing\<close>

fun json_stringify :: "number_format \<Rightarrow> json \<Rightarrow> string" where
  "json_stringify nf JNull = ''null''"
| "json_stringify nf (JBool b) = (if b then ''true'' else ''false'')"
| "json_stringify nf (JNum q) = nf_string nf q"
| "json_stringify nf (JStr s) = json_string s"
| "json_stringify nf (JArr xs) = ''['' @ join '','' (map (json_stringify nf) xs) @ '']''"
| "json_stringify nf (JObj m) = json_object (map (\<lambda>(k, v). (k, json_stringify nf v)) m)"

subsection \<open>Parsing\<close>

definition json_ws :: "char \<Rightarrow> bool" where
  "json_ws c \<longleftrightarrow> c = CHR '' '' \<or> c = CHR 0x09 \<or> c = CHR 0x0A \<or> c = CHR 0x0D"

definition skip_ws :: "string \<Rightarrow> string" where
  "skip_ws s = dropWhile json_ws s"

definition hex_val :: "char \<Rightarrow> nat option" where
  "hex_val c = (let n = (of_char (lower_char c) :: nat) in
     if 48 \<le> n \<and> n \<le> 57 then Some (n - 48) else if 97 \<le> n \<and> n \<le> 102 then Some (n - 87) else None)"

definition simple_escape :: "char \<Rightarrow> char option" where
  "simple_escape c = map_of [(CHR 0x22, CHR 0x22), (CHR 0x5C, CHR 0x5C), (CHR ''/'', CHR ''/''), (CHR ''b'', CHR 0x08),
     (CHR ''f'', CHR 0x0C), (CHR ''n'', CHR 0x0A), (CHR ''r'', CHR 0x0D), (CHR ''t'', CHR 0x09)] c"

text \<open>
  The rest of a string literal after its opening quote. Code units from 256 on are outside the model's
  strings; \<^const>\<open>json_stringify\<close> never writes one.
\<close>

fun parse_chars :: "string \<Rightarrow> (string \<times> string) option" where
  "parse_chars [] = None"
| "parse_chars (c # s) =
     (if c = CHR 0x22 then Some ([], s)
      else if c = CHR 0x5C then
        (case s of
           [] \<Rightarrow> None
         | x # s' \<Rightarrow>
             if x = CHR ''u'' then
               (case s' of a # b # p # q # s'' \<Rightarrow>
                  (case (hex_val a, hex_val b, hex_val p, hex_val q) of
                     (Some 0, Some 0, Some h, Some l) \<Rightarrow>
                       (case parse_chars s'' of None \<Rightarrow> None | Some (t, r) \<Rightarrow> Some (char_of (16 * h + l) # t, r))
                   | _ \<Rightarrow> None)
                | _ \<Rightarrow> None)
             else (case simple_escape x of
                 None \<Rightarrow> None
               | Some y \<Rightarrow> (case parse_chars s' of None \<Rightarrow> None | Some (t, r) \<Rightarrow> Some (y # t, r))))
      else if (of_char c :: nat) < 32 then None
      else (case parse_chars s of None \<Rightarrow> None | Some (t, r) \<Rightarrow> Some (c # t, r)))"

text \<open>The lexeme of a number and the text after it\<close>

definition digits1 :: "string \<Rightarrow> (string \<times> string) option" where
  "digits1 s = (let ds = takeWhile is_digit_char s in if ds = [] then None else Some (ds, dropWhile is_digit_char s))"

definition lex_fraction :: "string \<Rightarrow> (string \<times> string) option" where
  "lex_fraction s = (case s of
     c # s' \<Rightarrow> if c = CHR ''.'' then (case digits1 s' of None \<Rightarrow> None | Some (ds, r) \<Rightarrow> Some (c # ds, r)) else Some ([], s)
   | [] \<Rightarrow> Some ([], []))"

definition lex_exponent :: "string \<Rightarrow> (string \<times> string) option" where
  "lex_exponent s = (case s of
     c # s' \<Rightarrow>
       if lower_char c = CHR ''e'' then
         (case s' of
            g # s'' \<Rightarrow> if g = CHR ''+'' \<or> g = CHR ''-''
              then (case digits1 s'' of None \<Rightarrow> None | Some (ds, r) \<Rightarrow> Some (c # g # ds, r))
              else (case digits1 s' of None \<Rightarrow> None | Some (ds, r) \<Rightarrow> Some (c # ds, r))
          | [] \<Rightarrow> None)
       else Some ([], s)
   | [] \<Rightarrow> Some ([], []))"

definition lex_number :: "string \<Rightarrow> (string \<times> string) option" where
  "lex_number s =
     (let (sign, s1) = (case s of c # r \<Rightarrow> if c = CHR ''-'' then ([c], r) else ([], s) | [] \<Rightarrow> ([], [])) in
      case digits1 s1 of
        None \<Rightarrow> None
      | Some (ds, s2) \<Rightarrow>
          let (int_part, s3) = (if hd ds = CHR ''0'' then (''0'', tl ds @ s2) else (ds, s2)) in
          (case lex_fraction s3 of
             None \<Rightarrow> None
           | Some (fr, s4) \<Rightarrow>
               (case lex_exponent s4 of
                  None \<Rightarrow> None
                | Some (ex, s5) \<Rightarrow> Some (sign @ int_part @ fr @ ex, s5))))"

definition starts :: "string \<Rightarrow> string \<Rightarrow> string option" where
  "starts p s = (if take (length p) s = p then Some (drop (length p) s) else None)"

text \<open>A repeated key keeps its first place and takes the last value.\<close>

fun parse_value :: "number_format \<Rightarrow> nat \<Rightarrow> string \<Rightarrow> (json \<times> string) option"
  and parse_elems :: "number_format \<Rightarrow> nat \<Rightarrow> json list \<Rightarrow> string \<Rightarrow> (json \<times> string) option"
  and parse_members :: "number_format \<Rightarrow> nat \<Rightarrow> metadata \<Rightarrow> string \<Rightarrow> (json \<times> string) option" where
  "parse_value nf 0 s = None"
| "parse_value nf (Suc n) s =
     (case skip_ws s of
        [] \<Rightarrow> None
      | c # r \<Rightarrow>
          if c = CHR 0x22 then (case parse_chars r of None \<Rightarrow> None | Some (t, q) \<Rightarrow> Some (JStr t, q))
          else if c = CHR ''['' then
            (case skip_ws r of
               x # q \<Rightarrow> if x = CHR '']'' then Some (JArr [], q) else parse_elems nf n [] r
             | [] \<Rightarrow> None)
          else if c = CHR ''{'' then
            (case skip_ws r of
               x # q \<Rightarrow> if x = CHR ''}'' then Some (JObj [], q) else parse_members nf n [] r
             | [] \<Rightarrow> None)
          else case starts ''null'' (c # r) of Some q \<Rightarrow> Some (JNull, q) | None \<Rightarrow>
            (case starts ''true'' (c # r) of Some q \<Rightarrow> Some (JBool True, q) | None \<Rightarrow>
            (case starts ''false'' (c # r) of Some q \<Rightarrow> Some (JBool False, q) | None \<Rightarrow>
            (case lex_number (c # r) of None \<Rightarrow> None | Some (lexeme, q) \<Rightarrow>
              (case nf_number nf lexeme of Finite x \<Rightarrow> Some (JNum x, q) | NotFinite \<Rightarrow> None)))))"
| "parse_elems nf 0 acc s = None"
| "parse_elems nf (Suc n) acc s =
     (case parse_value nf n s of
        None \<Rightarrow> None
      | Some (v, r) \<Rightarrow>
          (case skip_ws r of
             x # q \<Rightarrow> if x = CHR '','' then parse_elems nf n (acc @ [v]) q
               else if x = CHR '']'' then Some (JArr (acc @ [v]), q) else None
           | [] \<Rightarrow> None))"
| "parse_members nf 0 acc s = None"
| "parse_members nf (Suc n) acc s =
     (case skip_ws s of
        c # r \<Rightarrow>
          if c = CHR 0x22 then
            (case parse_chars r of
               None \<Rightarrow> None
             | Some (k, r1) \<Rightarrow>
                 (case skip_ws r1 of
                    x # r2 \<Rightarrow>
                      if x = CHR '':'' then
                        (case parse_value nf n r2 of
                           None \<Rightarrow> None
                         | Some (v, r3) \<Rightarrow>
                             (case skip_ws r3 of
                                y # r4 \<Rightarrow> if y = CHR '','' then parse_members nf n (obj_put acc k v) r4
                                  else if y = CHR ''}'' then Some (JObj (obj_put acc k v), r4) else None
                              | [] \<Rightarrow> None))
                      else None
                  | [] \<Rightarrow> None))
          else None
      | [] \<Rightarrow> None)"

definition json_parse :: "number_format \<Rightarrow> string \<Rightarrow> json option" where
  "json_parse nf s =
     (case parse_value nf (2 * length s + 2) s of
        Some (v, r) \<Rightarrow> if skip_ws r = [] then Some v else None
      | None \<Rightarrow> None)"

subsection \<open>Redaction\<close>

definition in_class :: "string \<Rightarrow> char \<Rightarrow> bool" where
  "in_class extra c \<longleftrightarrow> is_alpha_char c \<or> is_digit_char c \<or> c \<in> set extra"

definition assignment :: regex where
  "assignment = seqs [Star (Cls is_ws), Cls (\<lambda>c. c = CHR '':'' \<or> c = CHR ''=''), Star (Cls is_ws), Plus (Cls (\<lambda>c. \<not> is_ws c))]"

definition dashed :: "string \<Rightarrow> string \<Rightarrow> regex" where
  "dashed a b = seqs [lit_ci a, Opt (Cls (\<lambda>c. c = CHR ''_'' \<or> c = CHR ''-'')), lit_ci b]"

definition SECRET_LIKE_PATTERNS :: "regex list" where
  "SECRET_LIKE_PATTERNS =
     [seqs [Bnd, lit_ci ''Bearer'', Plus (Cls is_ws), at_least 10 (Cls (in_class ''._-''))],
      seqs [Bnd, alts [dashed ''api'' ''key'', dashed ''access'' ''key'', dashed ''secret'' ''key'', dashed ''client'' ''secret''], assignment],
      seqs [Bnd, lit_ci ''password'', assignment],
      seqs ([Bnd, lit ''AKIA''] @ replicate 16 (Cls (\<lambda>c. is_digit_char c \<or> (is_alpha_char c \<and> lower_char c \<noteq> c))) @ [Bnd]),
      seqs [Bnd, lit ''eyJ'', Plus (Cls (in_class ''_-'')), lit ''.'', Plus (Cls (in_class ''_-'')), lit ''.'',
        Plus (Cls (in_class ''_-'')), Bnd],
      seqs [Bnd, at_least 40 (Cls (in_class ''+/'')), Opt (Seq (lit ''='') (Opt (lit ''=''))), Bnd]]"

definition REDACTED :: string where
  "REDACTED = ''[REDACTED]''"

definition redactSecretLikeValues :: "string \<Rightarrow> string" where
  "redactSecretLikeValues s = foldl (\<lambda>sanitized pattern. replace_all pattern REDACTED sanitized) s SECRET_LIKE_PATTERNS"

subsection \<open>Stored payloads\<close>

definition MAX_STORED_STRING_LENGTH :: nat where
  "MAX_STORED_STRING_LENGTH = 500"

definition truncateString :: "string \<Rightarrow> string" where
  "truncateString s = (if length s \<le> MAX_STORED_STRING_LENGTH then s
     else take 200 s @ ''... [truncated, '' @ nat_digits (length s) @ '' chars total]'')"

fun strings_in :: "json \<Rightarrow> string list" where
  "strings_in (JStr s) = [s]"
| "strings_in (JArr xs) = concat (map strings_in xs)"
| "strings_in (JObj m) = concat (map (\<lambda>(k, v). strings_in v) m)"
| "strings_in _ = []"

fun truncateLongStrings :: "json \<Rightarrow> json" where
  "truncateLongStrings (JStr s) = JStr (truncateString s)"
| "truncateLongStrings (JArr xs) = JArr (map truncateLongStrings xs)"
| "truncateLongStrings (JObj m) = JObj (map (\<lambda>(k, v). (k, truncateLongStrings v)) m)"
| "truncateLongStrings JNull = JNull"
| "truncateLongStrings (JBool b) = JBool b"
| "truncateLongStrings (JNum q) = JNum q"

definition sanitizeJsonValue :: "number_format \<Rightarrow> json \<Rightarrow> json" where
  "sanitizeJsonValue nf v =
     (case json_parse nf (redactSecretLikeValues (json_stringify nf v)) of
        Some redacted \<Rightarrow> truncateLongStrings redacted
      | None \<Rightarrow> JNull)"

end
