(* ===== verification/Gateway.thy ===== *)
theory Gateway
  imports Json Workspace Frames
begin

text \<open>
  The tool registry, the gateway every tool call passes through, and the three registered tools
  (\<open>src/src/tools/registry.ts\<close>, \<open>gateway.ts\<close>, \<open>definitions/*.ts\<close>, \<open>index.ts\<close>). Tools act on the database
  and on the file system, so the state is a pair; \<open>on_db\<close> runs a database operation in it. Inputs and
  outputs are JSON values. The texts of schema errors are those of the schema library, and the text of a
  caught error is \<open>error.message\<close>: both are fields of \<open>gateway_texts\<close>.
\<close>

subsection \<open>Types\<close>

type_synonym ('f, 'a) wop = "(error, db \<times> 'f, 'a) op"

definition on_db :: "'a dop \<Rightarrow> ('f, 'a) wop" where
  "on_db m s = (case m (fst s) of (r, d') \<Rightarrow> (r, (d', snd s)))"

datatype tool_operation = tool_read | tool_write

datatype tool_authority = need_act | need_act_and_report

record tool_execution_context =
  tx_tenantId :: uuid
  tx_actorId :: uuid
  tx_workspaceId :: "uuid option"
  tx_projectId :: "uuid option"
  tx_workOrderId :: uuid
  tx_threadId :: "uuid option"
  tx_sourceMessageId :: "uuid option"
  tx_authorityOutcome :: tool_authority
  tx_actingSystem :: string
  tx_correlationId :: string

record 'f tool_definition =
  tl_name :: string
  tl_version :: string
  tl_description :: string
  tl_operation :: tool_operation
  tl_authorityRequirement :: tool_authority
  tl_inputSchema :: "json \<Rightarrow> string + json"
  tl_outputSchema :: "json \<Rightarrow> string + json"
  tl_execute :: "env \<Rightarrow> json \<Rightarrow> tool_execution_context \<Rightarrow> ('f, json) wop"

record tool_invocation_result =
  tr_invocationId :: uuid
  tr_toolName :: string
  tr_toolVersion :: string
  tr_status :: tool_invocation_status
  tr_output :: "json option"
  tr_error :: "(string \<times> string) option"

record gateway_texts =
  gt_numbers :: number_format
  gt_errorMessage :: "error \<Rightarrow> string"

subsection \<open>Registry\<close>

type_synonym 'f registry = "'f tool_definition list"

definition isToolRegistered :: "string \<Rightarrow> 'f registry \<Rightarrow> bool" where
  "isToolRegistered name reg \<longleftrightarrow> name \<in> set (map tl_name reg)"

definition registerTool :: "'f tool_definition \<Rightarrow> 'f registry \<Rightarrow> error + 'f registry" where
  "registerTool definition reg =
     (if isToolRegistered (tl_name definition) reg then Inl (ToolError (DuplicateToolNameError (tl_name definition)))
      else Inr (reg @ [definition]))"

definition resolveTool :: "string \<Rightarrow> 'f registry \<Rightarrow> error + 'f tool_definition" where
  "resolveTool name reg =
     (case List.find (\<lambda>tool. tl_name tool = name) reg of
        None \<Rightarrow> Inl (ToolError (ToolNotFoundError name))
      | Some tool \<Rightarrow> Inr tool)"

record tool_listing =
  ls_name :: string
  ls_version :: string
  ls_description :: string
  ls_operation :: tool_operation
  ls_authorityRequirement :: tool_authority

text \<open>\<open>rank\<close> orders names as \<open>localeCompare\<close> does.\<close>

definition listRegisteredTools :: "(string \<Rightarrow> int) \<Rightarrow> 'f registry \<Rightarrow> tool_listing list" where
  "listRegisteredTools rank reg = sort_key (\<lambda>l. rank (ls_name l))
     (map (\<lambda>tool. \<lparr>ls_name = tl_name tool, ls_version = tl_version tool, ls_description = tl_description tool,
        ls_operation = tl_operation tool, ls_authorityRequirement = tl_authorityRequirement tool\<rparr>) reg)"

subsection \<open>Authority\<close>

fun AUTHORITY_TIER :: "tool_authority \<Rightarrow> nat" where
  "AUTHORITY_TIER need_act = 2"
| "AUTHORITY_TIER need_act_and_report = 1"

definition authoritySatisfiesRequirement :: "tool_authority \<Rightarrow> tool_authority \<Rightarrow> bool" where
  "authoritySatisfiesRequirement outcome requirement \<longleftrightarrow> AUTHORITY_TIER requirement \<le> AUTHORITY_TIER outcome"

fun outcome_str :: "authority_outcome \<Rightarrow> string" where
  "outcome_str act = ''act''"
| "outcome_str act_and_report = ''act_and_report''"
| "outcome_str escalate = ''escalate''"
| "outcome_str setup_required = ''setup_required''"
| "outcome_str capability_missing = ''capability_missing''"
| "outcome_str refuse = ''refuse''"

fun permitting :: "authority_outcome \<Rightarrow> tool_authority option" where
  "permitting act = Some need_act"
| "permitting act_and_report = Some need_act_and_report"
| "permitting _ = None"

text \<open>The \<open>LEFT JOIN\<close> of the WorkOrder with the decision it links\<close>

definition linkedOutcome :: "client \<Rightarrow> uuid \<Rightarrow> uuid \<Rightarrow> db \<Rightarrow> authority_outcome option" where
  "linkedOutcome c tenantId workOrderId d =
     (case first_row (scoped_rows c wo_id wo_tenant_id workOrderId tenantId (work_orders d)) of
        None \<Rightarrow> None
      | Some w \<Rightarrow> (case wo_authority_decision_id w of
            None \<Rightarrow> None
          | Some i \<Rightarrow> map_option ad_outcome
              (first_row (filter (\<lambda>a. ad_id a = i) (rls_rows c ad_tenant_id (authority_decisions d))))))"

definition checkAuthority :: "'f tool_definition \<Rightarrow> authority_outcome option \<Rightarrow> error + unit" where
  "checkAuthority tool verifiedOutcome =
     (case verifiedOutcome of
        None \<Rightarrow> Inl (ToolError (ToolAuthorityDeniedError (tl_name tool) ''none''))
      | Some verified \<Rightarrow> (case permitting verified of
            None \<Rightarrow> Inl (ToolError (ToolAuthorityDeniedError (tl_name tool) (outcome_str verified)))
          | Some a \<Rightarrow>
              if authoritySatisfiesRequirement a (tl_authorityRequirement tool) then Inr ()
              else Inl (ToolError (ToolAuthorityDeniedError (tl_name tool) (outcome_str verified)))))"

subsection \<open>Invocation\<close>

definition invocationKey :: "'f tool_definition \<Rightarrow> tool_execution_context \<Rightarrow> string" where
  "invocationKey tool ctx = buildIdempotencyKey
     [uuid_str (tx_tenantId ctx), uuid_str (tx_workOrderId ctx), tl_name tool, tl_version tool]"

definition pendingRow ::
  "gateway_texts \<Rightarrow> env \<Rightarrow> 'f tool_definition \<Rightarrow> json \<Rightarrow> tool_execution_context \<Rightarrow> tool_invocation" where
  "pendingRow g e tool input ctx = \<lparr>ti_id = env_uuid e 0, ti_tenant_id = tx_tenantId ctx,
     ti_work_order_id = Some (tx_workOrderId ctx), ti_tool_identifier = tl_name tool,
     ti_tool_version = Some (tl_version tool), ti_input_payload = sanitizeJsonValue (gt_numbers g) input,
     ti_output_payload = Some (JObj []), ti_status = ti_pending, ti_error_payload = None,
     ti_idempotency_key = invocationKey tool ctx, ti_created_at = env_now e 0, ti_completed_at = None\<rparr>"

definition has_invocation :: "uuid \<Rightarrow> string \<Rightarrow> db \<Rightarrow> bool" where
  "has_invocation t key d \<longleftrightarrow> (t, key) \<in> set (map (\<lambda>x. (ti_tenant_id x, ti_idempotency_key x)) (tool_invocations d))"

definition insertInvocation ::
  "gateway_texts \<Rightarrow> env \<Rightarrow> 'f tool_definition \<Rightarrow> json \<Rightarrow> tool_execution_context \<Rightarrow> bool dop" where
  "insertInvocation g e tool input ctx = withTenantTransaction e (tx_tenantId ctx) (\<lambda>_.
     insert_or_nothing (has_invocation (tx_tenantId ctx) (invocationKey tool ctx))
       (insert_tool_invocation (pendingRow g e tool input ctx)))"

definition existingResult :: "'f tool_definition \<Rightarrow> tool_invocation \<Rightarrow> tool_invocation_result" where
  "existingResult tool row = \<lparr>tr_invocationId = ti_id row, tr_toolName = tl_name tool, tr_toolVersion = tl_version tool,
     tr_status = ti_status row, tr_output = ti_output_payload row, tr_error = ti_error_payload row\<rparr>"

definition replayInvocation ::
  "env \<Rightarrow> 'f tool_definition \<Rightarrow> tool_execution_context \<Rightarrow> tool_invocation_result dop" where
  "replayInvocation e tool ctx = withTenantTransaction e (tx_tenantId ctx) (\<lambda>c.
     tbind (query (\<lambda>d. first_row (filter (\<lambda>r. ti_tenant_id r = tx_tenantId ctx \<and> ti_idempotency_key r = invocationKey tool ctx)
       (rls_rows c ti_tenant_id (tool_invocations d))))) (\<lambda>row.
     case row of None \<Rightarrow> throw JsTypeError | Some existingRow \<Rightarrow> treturn (existingResult tool existingRow)))"

text \<open>\<open>UPDATE tool_invocations SET \<dots> WHERE id = $3\<close>\<close>

definition finishInvocation :: "env \<Rightarrow> uuid \<Rightarrow> uuid \<Rightarrow> (tool_invocation \<Rightarrow> tool_invocation) \<Rightarrow> unit dop" where
  "finishInvocation e tenantId invocationId set_columns = withTenantTransaction e tenantId (\<lambda>c.
     modify (\<lambda>d. d\<lparr>tool_invocations := update_where
       (\<lambda>x. ti_id x = invocationId \<and> (cl_rls c \<longrightarrow> ti_tenant_id x = cl_tenant c)) set_columns (tool_invocations d)\<rparr>))"

definition failedColumns :: "env \<Rightarrow> string \<Rightarrow> string \<Rightarrow> tool_invocation \<Rightarrow> tool_invocation" where
  "failedColumns e code message x = x\<lparr>ti_status := ti_failed, ti_error_payload := Some (code, message),
     ti_completed_at := Some (env_now e 1)\<rparr>"

definition succeededColumns :: "gateway_texts \<Rightarrow> env \<Rightarrow> json \<Rightarrow> tool_invocation \<Rightarrow> tool_invocation" where
  "succeededColumns g e output x = x\<lparr>ti_status := ti_succeeded,
     ti_output_payload := Some (sanitizeJsonValue (gt_numbers g) output), ti_completed_at := Some (env_now e 2)\<rparr>"

definition markFailed ::
  "env \<Rightarrow> 'f tool_definition \<Rightarrow> tool_execution_context \<Rightarrow> string \<Rightarrow> string \<Rightarrow> tool_invocation_result dop" where
  "markFailed e tool ctx code message =
     (let sanitizedMessage = redactSecretLikeValues message in
      obind (finishInvocation e (tx_tenantId ctx) (env_uuid e 0) (failedColumns e code sanitizedMessage)) (\<lambda>_.
      oreturn \<lparr>tr_invocationId = env_uuid e 0, tr_toolName = tl_name tool, tr_toolVersion = tl_version tool,
        tr_status = ti_failed, tr_output = None, tr_error = Some (code, sanitizedMessage)\<rparr>))"

text \<open>\<open>await tool.execute(\<dots>)\<close> inside \<open>try\<close>: what the tool did before it threw stays.\<close>

definition attempt :: "('f, 'a) wop \<Rightarrow> ('f, error + 'a) wop" where
  "attempt m s = (case m s of (r, s') \<Rightarrow> (Inr r, s'))"

definition executeInvocation ::
  "gateway_texts \<Rightarrow> env \<Rightarrow> 'f tool_definition \<Rightarrow> json \<Rightarrow> tool_execution_context \<Rightarrow> ('f, tool_invocation_result) wop" where
  "executeInvocation g e tool input ctx =
     (case tl_inputSchema tool input of
        Inl message \<Rightarrow> on_db (markFailed e tool ctx ''INVALID_INPUT'' message)
      | Inr parsedInput \<Rightarrow>
          obind (attempt (tl_execute tool (env_at 1 e) parsedInput ctx)) (\<lambda>outcome. case outcome of
            Inl err \<Rightarrow> on_db (markFailed e tool ctx ''EXECUTION_FAILED'' (gt_errorMessage g err))
          | Inr rawOutput \<Rightarrow>
              (case tl_outputSchema tool rawOutput of
                 Inl message \<Rightarrow> on_db (markFailed e tool ctx ''INVALID_OUTPUT'' message)
               | Inr parsedOutput \<Rightarrow>
                   obind (on_db (finishInvocation e (tx_tenantId ctx) (env_uuid e 0) (succeededColumns g e parsedOutput))) (\<lambda>_.
                   oreturn \<lparr>tr_invocationId = env_uuid e 0, tr_toolName = tl_name tool, tr_toolVersion = tl_version tool,
                     tr_status = ti_succeeded, tr_output = Some parsedOutput, tr_error = None\<rparr>))))"

definition invokeRegisteredTool ::
  "gateway_texts \<Rightarrow> env \<Rightarrow> 'f registry \<Rightarrow> string \<Rightarrow> json \<Rightarrow> tool_execution_context \<Rightarrow> ('f, tool_invocation_result) wop" where
  "invokeRegisteredTool g e reg toolName input ctx =
     (case resolveTool toolName reg of
        Inl err \<Rightarrow> othrow err
      | Inr tool \<Rightarrow>
          obind (on_db (withTenantTransaction e (tx_tenantId ctx) (\<lambda>c.
            query (linkedOutcome c (tx_tenantId ctx) (tx_workOrderId ctx))))) (\<lambda>verifiedOutcome.
          case checkAuthority tool verifiedOutcome of
            Inl err \<Rightarrow> othrow err
          | Inr _ \<Rightarrow>
              obind (on_db (insertInvocation g e tool input ctx)) (\<lambda>inserted.
              if \<not> inserted then on_db (replayInvocation e tool ctx)
              else executeInvocation g e tool input ctx)))"

end
