(* ===== verification/Tools.thy ===== *)
theory Tools
  imports Gateway
begin

text \<open>
  The registered tools: \<open>core.local_file.read\<close>, \<open>core.local_file.write\<close> and \<open>core.artifact.write\<close>
  (\<open>src/src/tools/definitions/*.ts\<close>) and their registration (\<open>src/src/tools/index.ts\<close>). \<open>tool_host\<close> gathers
  what they read of the process: the file system, the working directory, the workspace configuration
  and the suffix of temporary names.
\<close>

record 'f tool_host =
  hs_fs :: "'f fs_api"
  hs_cwd :: string
  hs_config :: workspace_config
  hs_tmpSuffix :: string
  hs_zodMessage :: "json \<Rightarrow> string"

subsection \<open>Schemas\<close>

definition jstr :: "metadata \<Rightarrow> string \<Rightarrow> string option" where
  "jstr m k = (case map_of m k of Some (JStr s) \<Rightarrow> Some s | _ \<Rightarrow> None)"

definition optional_key :: "metadata \<Rightarrow> string \<Rightarrow> (json \<Rightarrow> bool) \<Rightarrow> bool" where
  "optional_key m k P \<longleftrightarrow> (case map_of m k of None \<Rightarrow> True | Some v \<Rightarrow> P v)"

definition keep_key :: "metadata \<Rightarrow> string \<Rightarrow> metadata" where
  "keep_key m k = (case map_of m k of None \<Rightarrow> [] | Some v \<Rightarrow> [(k, v)])"

definition is_JStr :: "json \<Rightarrow> bool" where
  "is_JStr v \<longleftrightarrow> (case v of JStr _ \<Rightarrow> True | _ \<Rightarrow> False)"

definition is_JBool :: "json \<Rightarrow> bool" where
  "is_JBool v \<longleftrightarrow> (case v of JBool _ \<Rightarrow> True | _ \<Rightarrow> False)"

definition nonneg_int :: "json option \<Rightarrow> bool" where
  "nonneg_int v \<longleftrightarrow> (case v of Some (JNum q) \<Rightarrow> 0 \<le> q \<and> rat_of_int \<lfloor>q\<rfloor> = q | _ \<Rightarrow> False)"

definition nonempty_str :: "string option \<Rightarrow> bool" where
  "nonempty_str v \<longleftrightarrow> (case v of Some s \<Rightarrow> s \<noteq> [] | None \<Rightarrow> False)"

text \<open>\<open>z.object\<close>: checks the known keys, drops the others.\<close>

definition object_schema ::
  "(json \<Rightarrow> string) \<Rightarrow> (metadata \<Rightarrow> bool) \<Rightarrow> string list \<Rightarrow> json \<Rightarrow> string + json" where
  "object_schema zmsg ok keys v =
     (case v of
        JObj m \<Rightarrow> if ok m then Inr (JObj (concat (map (keep_key m) keys))) else Inl (zmsg v)
      | _ \<Rightarrow> Inl (zmsg v))"

definition localFileReadInputSchema :: "(json \<Rightarrow> string) \<Rightarrow> json \<Rightarrow> string + json" where
  "localFileReadInputSchema zmsg = object_schema zmsg (\<lambda>m. nonempty_str (jstr m ''relativePath'')) [''relativePath'']"

definition localFileReadOutputSchema :: "(json \<Rightarrow> string) \<Rightarrow> json \<Rightarrow> string + json" where
  "localFileReadOutputSchema zmsg = object_schema zmsg
     (\<lambda>m. nonempty_str (jstr m ''relativePath'') \<and> jstr m ''content'' \<noteq> None \<and> nonneg_int (map_of m ''byteCount'') \<and>
        nonempty_str (jstr m ''contentHash''))
     [''relativePath'', ''content'', ''byteCount'', ''contentHash'']"

definition localFileWriteInputSchema :: "(json \<Rightarrow> string) \<Rightarrow> json \<Rightarrow> string + json" where
  "localFileWriteInputSchema zmsg = object_schema zmsg
     (\<lambda>m. nonempty_str (jstr m ''relativePath'') \<and> jstr m ''content'' \<noteq> None \<and> optional_key m ''allowOverwrite'' is_JBool)
     [''relativePath'', ''content'', ''allowOverwrite'']"

definition localFileWriteOutputSchema :: "(json \<Rightarrow> string) \<Rightarrow> json \<Rightarrow> string + json" where
  "localFileWriteOutputSchema zmsg = object_schema zmsg
     (\<lambda>m. nonempty_str (jstr m ''relativePath'') \<and> nonneg_int (map_of m ''byteCount'') \<and> nonempty_str (jstr m ''contentHash'') \<and>
        (case map_of m ''created'' of Some v \<Rightarrow> is_JBool v | None \<Rightarrow> False) \<and>
        (case map_of m ''overwritten'' of Some v \<Rightarrow> is_JBool v | None \<Rightarrow> False))
     [''relativePath'', ''byteCount'', ''contentHash'', ''created'', ''overwritten'']"

definition artifactWriteInputSchema :: "(json \<Rightarrow> string) \<Rightarrow> json \<Rightarrow> string + json" where
  "artifactWriteInputSchema zmsg = object_schema zmsg
     (\<lambda>m. nonempty_str (jstr m ''filename'') \<and> nonempty_str (jstr m ''content'') \<and>
        jstr m ''mimeType'' = Some ''text/markdown'' \<and> optional_key m ''title'' is_JStr)
     [''filename'', ''content'', ''mimeType'', ''title'']"

definition artifactWriteOutputSchema :: "(json \<Rightarrow> string) \<Rightarrow> json \<Rightarrow> string + json" where
  "artifactWriteOutputSchema zmsg = object_schema zmsg
     (\<lambda>m. (case jstr m ''artifactId'' of Some i \<Rightarrow> UUID_PATTERN_test i | None \<Rightarrow> False) \<and>
        nonempty_str (jstr m ''relativePath'') \<and> jstr m ''mimeType'' = Some ''text/markdown'' \<and>
        nonneg_int (map_of m ''byteCount'') \<and> nonempty_str (jstr m ''contentHash''))
     [''artifactId'', ''relativePath'', ''mimeType'', ''byteCount'', ''contentHash'']"

text \<open>A field of an input that has passed its schema\<close>

definition field :: "json \<Rightarrow> string \<Rightarrow> string" where
  "field v k = (case v of JObj m \<Rightarrow> (case jstr m k of Some s \<Rightarrow> s | None \<Rightarrow> []) | _ \<Rightarrow> [])"

definition flag :: "json \<Rightarrow> string \<Rightarrow> bool" where
  "flag v k \<longleftrightarrow> (case v of JObj m \<Rightarrow> map_of m k = Some (JBool True) | _ \<Rightarrow> False)"

subsection \<open>Files\<close>

definition tool_root :: "'f tool_host \<Rightarrow> tool_execution_context \<Rightarrow> string" where
  "tool_root h ctx = resolveWorkspaceRoot (hs_config h) (tx_tenantId ctx) (tx_workspaceId ctx)"

definition localFileRead_execute ::
  "'f tool_host \<Rightarrow> env \<Rightarrow> json \<Rightarrow> tool_execution_context \<Rightarrow> ('f, json) wop" where
  "localFileRead_execute h e input ctx s =
     (case readWorkspaceFile (hs_fs h) (env_sha256 e) (hs_cwd h) (hs_config h) (tool_root h ctx)
         (field input ''relativePath'') (snd s) of
        Inl err \<Rightarrow> (Inl err, s)
      | Inr result \<Rightarrow> (Inr (JObj [(''relativePath'', JStr (rr_relativePath result)), (''content'', JStr (rr_content result)),
          (''byteCount'', JNum (of_nat (rr_byteCount result))), (''contentHash'', JStr (rr_contentHash result))]), s))"

definition ensureRoot :: "'f tool_host \<Rightarrow> tool_execution_context \<Rightarrow> ('f, unit) wop" where
  "ensureRoot h ctx s =
     (case ensureWorkspaceRoot (hs_fs h) (tool_root h ctx) (snd s) of
        Inl err \<Rightarrow> (Inl err, s)
      | Inr fs \<Rightarrow> (Inr (), (fst s, fs)))"

definition writeFile ::
  "'f tool_host \<Rightarrow> env \<Rightarrow> tool_execution_context \<Rightarrow> string \<Rightarrow> string \<Rightarrow> bool \<Rightarrow> ('f, write_result) wop" where
  "writeFile h e ctx relativePath content allowOverwrite s =
     (case writeWorkspaceFile (hs_fs h) (env_sha256 e) (hs_cwd h) (hs_tmpSuffix h) (hs_config h) (tool_root h ctx)
         relativePath content allowOverwrite (snd s) of
        (r, fs) \<Rightarrow> (r, (fst s, fs)))"

definition localFileWrite_execute ::
  "'f tool_host \<Rightarrow> env \<Rightarrow> json \<Rightarrow> tool_execution_context \<Rightarrow> ('f, json) wop" where
  "localFileWrite_execute h e input ctx =
     obind (ensureRoot h ctx) (\<lambda>_.
     obind (writeFile h e ctx (field input ''relativePath'') (field input ''content'') (flag input ''allowOverwrite'')) (\<lambda>result.
     oreturn (JObj [(''relativePath'', JStr (wr_relativePath result)), (''byteCount'', JNum (of_nat (wr_byteCount result))),
       (''contentHash'', JStr (wr_contentHash result)), (''created'', JBool (wr_created result)),
       (''overwritten'', JBool (wr_overwritten result))])))"

subsection \<open>Artifacts\<close>

definition artifactKey :: "tool_execution_context \<Rightarrow> string" where
  "artifactKey ctx = buildIdempotencyKey
     [uuid_str (tx_tenantId ctx), uuid_str (tx_workOrderId ctx), ''artifact'', ''core.artifact.write'']"

definition artifactRow :: "env \<Rightarrow> tool_execution_context \<Rightarrow> json \<Rightarrow> write_result \<Rightarrow> artifact" where
  "artifactRow e ctx input result = \<lparr>af_id = env_uuid e 0, af_tenant_id = tx_tenantId ctx,
     af_workspace_id = tx_workspaceId ctx, af_project_id = tx_projectId ctx, af_work_order_id = Some (tx_workOrderId ctx),
     af_actor_id = Some (tx_actorId ctx), af_artifact_type = ''markdown_document'',
     af_storage_reference = Some (wr_relativePath result), af_mime_type = Some (field input ''mimeType''),
     af_byte_count = Some (wr_byteCount result), af_content_hash = Some (wr_contentHash result),
     af_idempotency_key = artifactKey ctx, af_created_at = env_now e 0\<rparr>"

definition json_or_null :: "('a \<Rightarrow> json) \<Rightarrow> 'a option \<Rightarrow> json" where
  "json_or_null f v = (case v of None \<Rightarrow> JNull | Some x \<Rightarrow> f x)"

definition existingArtifact :: "artifact \<Rightarrow> json" where
  "existingArtifact x = JObj [(''artifactId'', JStr (uuid_str (af_id x))),
     (''relativePath'', json_or_null JStr (af_storage_reference x)), (''mimeType'', json_or_null JStr (af_mime_type x)),
     (''byteCount'', json_or_null (\<lambda>n. JNum (of_nat n)) (af_byte_count x)),
     (''contentHash'', json_or_null JStr (af_content_hash x))]"

text \<open>The row, or the artifact that has its key already\<close>

definition persistArtifact ::
  "env \<Rightarrow> tool_execution_context \<Rightarrow> json \<Rightarrow> write_result \<Rightarrow> artifact option dop" where
  "persistArtifact e ctx input result =
     obind (withTenantTransaction e (tx_tenantId ctx) (\<lambda>_.
       insert_or_nothing (\<lambda>d. (tx_tenantId ctx, artifactKey ctx) \<in> set (map (\<lambda>x. (af_tenant_id x, af_idempotency_key x)) (artifacts d)))
         (insert_artifact (artifactRow e ctx input result)))) (\<lambda>inserted.
     if inserted then oreturn None
     else withTenantTransaction e (tx_tenantId ctx) (\<lambda>c.
       tbind (query (\<lambda>d. first_row (filter (\<lambda>x. af_tenant_id x = tx_tenantId ctx \<and> af_idempotency_key x = artifactKey ctx)
         (rls_rows c af_tenant_id (artifacts d))))) (\<lambda>row.
       case row of None \<Rightarrow> throw JsTypeError | Some x \<Rightarrow> treturn (Some x))))"

definition cleanup :: "'f tool_host \<Rightarrow> tool_execution_context \<Rightarrow> string \<Rightarrow> error \<Rightarrow> ('f, json) wop" where
  "cleanup h ctx relativePath err s =
     (case resolveContainedPath (hs_cwd h) (tool_root h ctx) relativePath of
        Inl err' \<Rightarrow> (Inl err', s)
      | Inr p \<Rightarrow> (Inl err, (fst s, removeWorkspaceFileQuietly (hs_fs h) p (snd s))))"

definition artifactWrite_execute ::
  "'f tool_host \<Rightarrow> env \<Rightarrow> json \<Rightarrow> tool_execution_context \<Rightarrow> ('f, json) wop" where
  "artifactWrite_execute h e input ctx =
     obind (ensureRoot h ctx) (\<lambda>_.
     let relativePath = ''artifacts/'' @ field input ''filename'' in
     obind (writeFile h e ctx relativePath (field input ''content'') False) (\<lambda>writeResult.
     obind (attempt (on_db (persistArtifact e ctx input writeResult))) (\<lambda>outcome.
     case outcome of
       Inl err \<Rightarrow> cleanup h ctx relativePath err
     | Inr (Some existing) \<Rightarrow> oreturn (existingArtifact existing)
     | Inr None \<Rightarrow> oreturn (JObj [(''artifactId'', JStr (uuid_str (env_uuid e 0))),
         (''relativePath'', JStr (wr_relativePath writeResult)), (''mimeType'', JStr (field input ''mimeType'')),
         (''byteCount'', JNum (of_nat (wr_byteCount writeResult))), (''contentHash'', JStr (wr_contentHash writeResult))]))))"

subsection \<open>Registration\<close>

definition artifactWriteTool :: "'f tool_host \<Rightarrow> 'f tool_definition" where
  "artifactWriteTool h = \<lparr>tl_name = ''core.artifact.write'', tl_version = ''1.0'',
     tl_description = ''Writes a local Markdown artifact into the tenant/workspace-scoped bounded workspace and persists a durable artifacts row.'',
     tl_operation = tool_write, tl_authorityRequirement = need_act_and_report,
     tl_inputSchema = artifactWriteInputSchema (hs_zodMessage h), tl_outputSchema = artifactWriteOutputSchema (hs_zodMessage h),
     tl_execute = artifactWrite_execute h\<rparr>"

definition localFileReadTool :: "'f tool_host \<Rightarrow> 'f tool_definition" where
  "localFileReadTool h = \<lparr>tl_name = ''core.local_file.read'', tl_version = ''1.0'',
     tl_description = ''Reads a UTF-8 text file from the tenant/workspace-scoped bounded workspace.'',
     tl_operation = tool_read, tl_authorityRequirement = need_act_and_report,
     tl_inputSchema = localFileReadInputSchema (hs_zodMessage h), tl_outputSchema = localFileReadOutputSchema (hs_zodMessage h),
     tl_execute = localFileRead_execute h\<rparr>"

definition localFileWriteTool :: "'f tool_host \<Rightarrow> 'f tool_definition" where
  "localFileWriteTool h = \<lparr>tl_name = ''core.local_file.write'', tl_version = ''1.0'',
     tl_description = ''Writes UTF-8 content to a file in the tenant/workspace-scoped bounded workspace.'',
     tl_operation = tool_write, tl_authorityRequirement = need_act_and_report,
     tl_inputSchema = localFileWriteInputSchema (hs_zodMessage h), tl_outputSchema = localFileWriteOutputSchema (hs_zodMessage h),
     tl_execute = localFileWrite_execute h\<rparr>"

text \<open>The module's flag \<open>registered\<close> and its registry\<close>

definition registerCoreTools :: "'f tool_host \<Rightarrow> bool \<times> 'f registry \<Rightarrow> error + bool \<times> 'f registry" where
  "registerCoreTools h st =
     (if fst st then Inr st
      else ebind (registerTool (artifactWriteTool h) (snd st)) (\<lambda>r1.
        ebind (registerTool (localFileReadTool h) r1) (\<lambda>r2.
        ebind (registerTool (localFileWriteTool h) r2) (\<lambda>r3. Inr (True, r3)))))"

definition core_registry :: "'f tool_host \<Rightarrow> 'f registry" where
  "core_registry h = [artifactWriteTool h, localFileReadTool h, localFileWriteTool h]"

lemma registerCoreTools_fresh: "registerCoreTools h (False, []) = Inr (True, core_registry h)"
  by (simp add: registerCoreTools_def registerTool_def isToolRegistered_def core_registry_def artifactWriteTool_def
      localFileReadTool_def localFileWriteTool_def)

lemma registerCoreTools_again: "registerCoreTools h (True, reg) = Inr (True, reg)"
  by (simp add: registerCoreTools_def)

end
