(* ===== verification/GatewayProps.thy ===== *)
theory GatewayProps
  imports Tools Demo
begin

text \<open>
  The gateway: no effect without a permitting decision of the WorkOrder, at most one execution per
  WorkOrder and tool, and a bound on what a stored payload may hold.
\<close>

subsection \<open>What a tool call changes\<close>

definition art_rel :: "uuid \<Rightarrow> db \<Rightarrow> db \<Rightarrow> bool" where
  "art_rel t d d' \<longleftrightarrow> d' = d\<lparr>artifacts := artifacts d'\<rparr> \<and> tenant_frame t d d'"

interpretation art_rel: db_preorder "art_rel t" for t
proof unfold_locales
  show "art_rel t d d" for d by (simp add: art_rel_def frame.R_refl)
  fix a b c assume ab: "art_rel t a b" and bc: "art_rel t b c"
  from ab bc have "tenant_frame t a c" unfolding art_rel_def by (blast intro: frame.R_trans)
  moreover from ab bc have "c = a\<lparr>artifacts := artifacts c\<rparr>"
    by (cases a; cases b; cases c) (simp add: art_rel_def)
  ultimately show "art_rel t a c" by (simp add: art_rel_def)
qed

definition wsteps :: "(db \<Rightarrow> db \<Rightarrow> bool) \<Rightarrow> ('f, 'a) wop \<Rightarrow> bool" where
  "wsteps R m \<longleftrightarrow> (\<forall>s. R (fst s) (fst (snd (m s))))"

lemma wsteps_on_db: "osteps R m \<Longrightarrow> wsteps R (on_db m)"
  by (auto simp: wsteps_def osteps_def on_db_def split: prod.split) (metis snd_conv)

lemma wsteps_attempt: "wsteps R m \<Longrightarrow> wsteps R (attempt m)"
  by (auto simp: wsteps_def attempt_def split: prod.split) (metis fst_conv snd_conv)

context db_preorder
begin

lemma wsteps_obind:
  assumes "wsteps R m" "\<And>x. wsteps R (f x)"
  shows "wsteps R (obind m f)"
  unfolding wsteps_def
proof
  fix s
  obtain r s1 where m: "m s = (r, s1)" by (cases "m s")
  with assms(1) have r1: "R (fst s) (fst s1)" by (metis snd_conv wsteps_def)
  show "R (fst s) (fst (snd (obind m f s)))"
  proof (cases r)
    case (Inr x)
    have "R (fst s1) (fst (snd (f x s1)))" using assms(2) [of x] unfolding wsteps_def by blast
    with Inr m r1 show ?thesis by (auto intro: R_trans)
  qed (use m r1 in simp)
qed

lemma wsteps_pure: "wsteps R (oreturn x)" "wsteps R (othrow e)"
  by (simp_all add: wsteps_def oreturn_def othrow_def R_refl)

end

lemma ensureRoot_db: "wsteps (art_rel t) (ensureRoot h ctx)"
  by (auto simp: wsteps_def ensureRoot_def art_rel.R_refl split: sum.split)

lemma writeFile_db: "wsteps (art_rel t) (writeFile h e ctx p c b)"
  by (auto simp: wsteps_def writeFile_def art_rel.R_refl split: prod.split)

lemma cleanup_db: "wsteps (art_rel t) (cleanup h ctx p err)"
  by (auto simp: wsteps_def cleanup_def art_rel.R_refl split: sum.split)

lemma insert_artifact_rel: "af_tenant_id r = t \<Longrightarrow> steps (art_rel t) (insert_artifact r)"
  using frame_insert_artifact [of r t] by (auto simp: steps_def insert_artifact_def tx_simps art_rel_def)

lemma persistArtifact_rel: "osteps (art_rel (tx_tenantId ctx)) (persistArtifact e ctx input w)"
  unfolding persistArtifact_def
proof (intro art_rel.osteps_obind)
  show "osteps (art_rel (tx_tenantId ctx)) (withTenantTransaction e (tx_tenantId ctx) (\<lambda>_. insert_or_nothing
      (\<lambda>d. (tx_tenantId ctx, artifactKey ctx) \<in> set (map (\<lambda>x. (af_tenant_id x, af_idempotency_key x)) (artifacts d)))
      (insert_artifact (artifactRow e ctx input w))))"
    using insert_artifact_rel [of "artifactRow e ctx input w" "tx_tenantId ctx"]
    by (intro art_rel.osteps_tx) (auto simp: steps_def tx_simps artifactRow_def art_rel.R_refl)
qed (auto intro!: art_rel.osteps_pure art_rel.osteps_tx art_rel.steps_rules split: option.split)

lemma core_execute_rel:
  assumes "tool \<in> set (core_registry h)"
  shows "wsteps (art_rel (tx_tenantId ctx)) (tl_execute tool e input ctx)"
proof -
  have "wsteps (art_rel (tx_tenantId ctx)) (localFileRead_execute h e input ctx)"
    by (auto simp: wsteps_def localFileRead_execute_def art_rel.R_refl split: sum.split)
  moreover have "wsteps (art_rel (tx_tenantId ctx)) (localFileWrite_execute h e input ctx)"
    unfolding localFileWrite_execute_def
    by (intro art_rel.wsteps_obind art_rel.wsteps_pure ensureRoot_db writeFile_db)
  moreover have "wsteps (art_rel (tx_tenantId ctx)) (artifactWrite_execute h e input ctx)"
    unfolding artifactWrite_execute_def Let_def
    by (intro art_rel.wsteps_obind ensureRoot_db writeFile_db wsteps_attempt wsteps_on_db persistArtifact_rel)
      (auto intro: art_rel.wsteps_pure cleanup_db split: sum.split option.split)
  ultimately show ?thesis
    using assms by (auto simp: core_registry_def artifactWriteTool_def localFileReadTool_def localFileWriteTool_def)
qed

subsection \<open>No effect without authority\<close>

text \<open>A decision to act permits every tool, a decision to act and report those that ask for no more.\<close>

definition permitted :: "'f tool_definition \<Rightarrow> uuid \<Rightarrow> uuid \<Rightarrow> db \<Rightarrow> bool" where
  "permitted tool t i d \<longleftrightarrow> (\<exists>w\<in>set (work_orders d). \<exists>a\<in>set (authority_decisions d). wo_id w = i \<and> wo_tenant_id w = t \<and>
     wo_authority_decision_id w = Some (ad_id a) \<and>
     (ad_outcome a = act \<or> ad_outcome a = act_and_report \<and> tl_authorityRequirement tool = need_act_and_report))"

lemma checkAuthority_Inr:
  "checkAuthority tool v = Inr u \<Longrightarrow>
   \<exists>x. v = Some x \<and> (x = act \<or> x = act_and_report \<and> tl_authorityRequirement tool = need_act_and_report)"
proof -
  assume ok: "checkAuthority tool v = Inr u"
  then obtain x a where "v = Some x" "permitting x = Some a" "AUTHORITY_TIER (tl_authorityRequirement tool) \<le> AUTHORITY_TIER a"
    by (auto simp: checkAuthority_def authoritySatisfiesRequirement_def split: option.splits if_splits)
  then show ?thesis by (cases x; cases "tl_authorityRequirement tool") auto
qed

lemma linkedOutcome_Some:
  assumes "linkedOutcome c t i d = Some x"
  shows "\<exists>w\<in>set (work_orders d). \<exists>a\<in>set (authority_decisions d). wo_id w = i \<and> wo_tenant_id w = t \<and>
    wo_authority_decision_id w = Some (ad_id a) \<and> ad_outcome a = x"
proof -
  from assms obtain w a where w: "first_row (scoped_rows c wo_id wo_tenant_id i t (work_orders d)) = Some w"
    and a: "wo_authority_decision_id w = Some (ad_id a)" "a \<in> set (authority_decisions d)" "x = ad_outcome a"
    by (auto simp: linkedOutcome_def split: option.splits dest!: first_row_filterD set_rls_rows)
  from scoped_first_row [OF w] a show ?thesis by auto
qed

lemma authority_permits:
  assumes "checkAuthority tool (linkedOutcome c t i d) = Inr u"
  shows "permitted tool t i d"
  using checkAuthority_Inr [OF assms] linkedOutcome_Some unfolding permitted_def by metis

text \<open>The part of a call before anything is written\<close>

lemma invoke_cases:
  obtains (refused) err where "invokeRegisteredTool g e reg name input ctx s = (Inl err, s)"
  | (accepted) tool where "tool \<in> set reg" "tl_name tool = name" "resolveTool name reg = Inr tool"
      "permitted tool (tx_tenantId ctx) (tx_workOrderId ctx) (fst s)"
      "invokeRegisteredTool g e reg name input ctx s =
        obind (on_db (insertInvocation g e tool input ctx)) (\<lambda>inserted.
          if \<not> inserted then on_db (replayInvocation e tool ctx) else executeInvocation g e tool input ctx) s"
proof (cases "resolveTool name reg")
  case (Inl err)
  then show thesis using refused by (simp add: invokeRegisteredTool_def othrow_def)
next
  case (Inr tool)
  let ?v = "linkedOutcome \<lparr>cl_tenant = tx_tenantId ctx, cl_rls = env_rls e\<rparr> (tx_tenantId ctx) (tx_workOrderId ctx) (fst s)"
  have v: "on_db (withTenantTransaction e (tx_tenantId ctx) (\<lambda>c. query (linkedOutcome c (tx_tenantId ctx) (tx_workOrderId ctx)))) s =
      (Inr ?v, s)"
    by (simp add: on_db_def withTenantTransaction_def query_def)
  from Inr have t: "tool \<in> set reg" "tl_name tool = name"
    by (auto simp: resolveTool_def find_Some_iff split: option.splits)
  show thesis
  proof (cases "checkAuthority tool ?v")
    case (Inl err)
    then show thesis using refused Inr v by (simp add: invokeRegisteredTool_def othrow_def)
  next
    case ok: (Inr u)
    from accepted [OF t Inr authority_permits [OF ok]] show thesis using Inr ok v by (simp add: invokeRegisteredTool_def)
  qed
qed

text \<open>
  C33. No tool without authority. Whatever tools are registered and whatever the caller claims in its
  context, a gateway call that returns a result, or that changes the database or the file system in any
  way, is of a registered tool of that name and for a WorkOrder of the caller's tenant that links a recorded
  decision. The outcome of the decision is \<open>act\<close>, which permits every tool, or \<open>act_and_report\<close>, and then the
  tool is one that requires no more than that.
\<close>

theorem tool_needs_authority:
  assumes "invokeRegisteredTool g e reg name input ctx s = (res, s')" "s' \<noteq> s \<or> (\<exists>r. res = Inr r)"
  shows "\<exists>tool\<in>set reg. \<exists>w\<in>set (work_orders (fst s)). \<exists>a\<in>set (authority_decisions (fst s)).
    tl_name tool = name \<and> wo_id w = tx_workOrderId ctx \<and> wo_tenant_id w = tx_tenantId ctx \<and>
    wo_authority_decision_id w = Some (ad_id a) \<and>
    (ad_outcome a = act \<or> ad_outcome a = act_and_report \<and> tl_authorityRequirement tool = need_act_and_report)"
proof (cases rule: invoke_cases [of g e reg name input ctx s])
  case refused
  with assms show ?thesis by auto
next
  case accepted
  then show ?thesis unfolding permitted_def by blast
qed

subsection \<open>At most one execution\<close>

definition own_rows :: "uuid \<Rightarrow> string \<Rightarrow> db \<Rightarrow> tool_invocation list" where
  "own_rows t key d = filter (\<lambda>r. ti_tenant_id r = t \<and> ti_idempotency_key r = key) (tool_invocations d)"

lemma has_invocation_iff: "has_invocation t key d \<longleftrightarrow> own_rows t key d \<noteq> []"
  by (auto simp: has_invocation_def own_rows_def filter_empty_conv)

lemma insertInvocation_cases:
  obtains (known) "insertInvocation g e tool input ctx d = (Inr False, d)" "own_rows (tx_tenantId ctx) (invocationKey tool ctx) d \<noteq> []"
  | (new) "insertInvocation g e tool input ctx d =
        (Inr True, d\<lparr>tool_invocations := tool_invocations d @ [pendingRow g e tool input ctx]\<rparr>)"
      "own_rows (tx_tenantId ctx) (invocationKey tool ctx) d = []" "env_uuid e 0 \<notin> ti_id ` set (tool_invocations d)"
  | (failed) err where "insertInvocation g e tool input ctx d = (Inl err, d)"
proof -
  have id: "ti_id (pendingRow g e tool input ctx) = env_uuid e 0" by (simp add: pendingRow_def)
  show thesis
  proof (cases "has_invocation (tx_tenantId ctx) (invocationKey tool ctx) d")
    case True
    then show thesis
      using known by (simp add: insertInvocation_def withTenantTransaction_def insert_or_nothing_def has_invocation_iff)
  next
    case False
    show thesis
    proof (cases "insert_tool_invocation (pendingRow g e tool input ctx) d")
      case (Inl err)
      with False show thesis
        using failed by (simp add: insertInvocation_def withTenantTransaction_def insert_or_nothing_def tbind_def)
    next
      case (Inr p)
      then have "p = ((), d\<lparr>tool_invocations := tool_invocations d @ [pendingRow g e tool input ctx]\<rparr>)"
        "env_uuid e 0 \<notin> ti_id ` set (tool_invocations d)"
        by (auto simp: insert_tool_invocation_def tx_simps id)
      with Inr False show thesis
        using new by (simp add: insertInvocation_def withTenantTransaction_def insert_or_nothing_def tbind_def treturn_def has_invocation_iff)
    qed
  qed
qed

lemma replay_eq:
  "own_rows (tx_tenantId ctx) (invocationKey tool ctx) d = row # rows \<Longrightarrow>
   on_db (replayInvocation e tool ctx) (d, f) = (Inr (existingResult tool row), (d, f))"
  by (simp add: on_db_def replayInvocation_def withTenantTransaction_def tbind_def query_def treturn_def own_rows_def)

lemma update_where_last:
  "ti_id p \<notin> ti_id ` set xs \<Longrightarrow> ti_id p = i \<Longrightarrow> ti_tenant_id p = t \<Longrightarrow>
   update_where (\<lambda>x. ti_id x = i \<and> (b \<longrightarrow> ti_tenant_id x = t)) h (xs @ [p]) = xs @ [h p]"
  by (induction xs) auto

text \<open>What a completed call leaves behind: one row, which tells its result.\<close>

definition finishing :: "gateway_texts \<Rightarrow> env \<Rightarrow> tool_invocation_result \<Rightarrow> (tool_invocation \<Rightarrow> tool_invocation) \<Rightarrow> bool" where
  "finishing g e r h \<longleftrightarrow>
     (\<exists>code message. h = failedColumns e code message \<and> tr_output r = None \<and> tr_error r = Some (code, message)) \<or>
     (\<exists>out. h = succeededColumns g e out \<and> tr_output r = Some out \<and> tr_error r = None)"

definition recorded ::
  "gateway_texts \<Rightarrow> env \<Rightarrow> json \<Rightarrow> 'f tool_definition \<Rightarrow> tool_execution_context \<Rightarrow> db \<Rightarrow> tool_invocation_result \<Rightarrow> db \<Rightarrow> bool" where
  "recorded g e input tool ctx d r d' \<longleftrightarrow> d' = d\<lparr>tool_invocations := tool_invocations d', artifacts := artifacts d'\<rparr> \<and>
     (\<exists>row. own_rows (tx_tenantId ctx) (invocationKey tool ctx) d' = [row] \<and> ti_id row = tr_invocationId r \<and>
        ti_status row = tr_status r \<and> ti_status row \<noteq> ti_pending) \<and>
     (\<exists>h. finishing g e r h \<and> tool_invocations d' = tool_invocations d @ [h (pendingRow g e tool input ctx)])"

lemma finish_recorded:
  assumes "tool_invocations d1 = xs @ [pendingRow g e tool input ctx]" "own_rows (tx_tenantId ctx) (invocationKey tool ctx) d = []"
    "xs = tool_invocations d" "env_uuid e 0 \<notin> ti_id ` set xs" "d1 = d\<lparr>tool_invocations := tool_invocations d1, artifacts := artifacts d1\<rparr>"
    "\<And>x. ti_id (h x) = ti_id x" "\<And>x. ti_tenant_id (h x) = ti_tenant_id x" "\<And>x. ti_idempotency_key (h x) = ti_idempotency_key x"
    "\<And>x. ti_status (h x) = tr_status r" "finishing g e r h" "tr_invocationId r = env_uuid e 0" "tr_status r \<noteq> ti_pending"
  shows "\<exists>d'. finishInvocation e (tx_tenantId ctx) (env_uuid e 0) h d1 = (Inr (), d') \<and> recorded g e input tool ctx d r d'"
proof -
  let ?p = "pendingRow g e tool input ctx"
  let ?d' = "d1\<lparr>tool_invocations := xs @ [h ?p]\<rparr>"
  have "finishInvocation e (tx_tenantId ctx) (env_uuid e 0) h d1 = (Inr (), ?d')"
    using update_where_last [of ?p xs "env_uuid e 0" "tx_tenantId ctx" "env_rls e" h] assms(1,4)
    by (simp add: finishInvocation_def withTenantTransaction_def modify_def pendingRow_def)
  moreover have "own_rows (tx_tenantId ctx) (invocationKey tool ctx) ?d' = [h ?p]"
    using assms(2,3,7,8) by (simp add: own_rows_def pendingRow_def)
  moreover have "?d' = d\<lparr>tool_invocations := tool_invocations ?d', artifacts := artifacts ?d'\<rparr>"
    using assms(5) by (cases d; cases d1) simp
  ultimately show ?thesis
    using assms(3,6,9-12) by (intro exI [of _ ?d']) (auto simp: recorded_def pendingRow_def intro!: exI [of _ h])
qed

lemma failed_recorded:
  assumes "tool_invocations d1 = tool_invocations d @ [pendingRow g e tool input ctx]"
    "own_rows (tx_tenantId ctx) (invocationKey tool ctx) d = []" "env_uuid e 0 \<notin> ti_id ` set (tool_invocations d)"
    "d1 = d\<lparr>tool_invocations := tool_invocations d1, artifacts := artifacts d1\<rparr>"
  shows "\<exists>r d'. on_db (markFailed e tool ctx code msg) (d1, f) = (Inr r, (d', f)) \<and> recorded g e input tool ctx d r d'"
proof -
  let ?r = "\<lparr>tr_invocationId = env_uuid e 0, tr_toolName = tl_name tool, tr_toolVersion = tl_version tool,
        tr_status = ti_failed, tr_output = None, tr_error = Some (code, redactSecretLikeValues msg)\<rparr>"
  have "\<exists>d'. finishInvocation e (tx_tenantId ctx) (env_uuid e 0) (failedColumns e code (redactSecretLikeValues msg)) d1 = (Inr (), d') \<and>
      recorded g e input tool ctx d ?r d'"
    by (rule finish_recorded [OF assms(1,2) refl assms(3,4)]) (auto simp: failedColumns_def finishing_def)
  then show ?thesis by (auto simp: markFailed_def Let_def on_db_def oreturn_def)
qed

lemma execute_recorded:
  assumes tool: "tool \<in> set (core_registry h)" and own: "own_rows (tx_tenantId ctx) (invocationKey tool ctx) d = []"
    and fresh: "env_uuid e 0 \<notin> ti_id ` set (tool_invocations d)"
  shows "\<exists>r d' f'. executeInvocation g e tool input ctx (d\<lparr>tool_invocations := tool_invocations d @ [pendingRow g e tool input ctx]\<rparr>, f) =
    (Inr r, (d', f')) \<and> recorded g e input tool ctx d r d'"
proof -
  let ?d1 = "d\<lparr>tool_invocations := tool_invocations d @ [pendingRow g e tool input ctx]\<rparr>"
  show ?thesis
  proof (cases "tl_inputSchema tool input")
    case (Inl m)
    then show ?thesis
      using failed_recorded [OF _ own fresh, of ?d1 g input "''INVALID_INPUT''" m f] by (auto simp: executeInvocation_def)
  next
    case (Inr v)
    obtain out d2 f2 where out: "tl_execute tool (env_at 1 e) v ctx (?d1, f) = (out, (d2, f2))"
      by (cases "tl_execute tool (env_at 1 e) v ctx (?d1, f)") auto
    with core_execute_rel [OF tool, of ctx "env_at 1 e" v] have "d2 = ?d1\<lparr>artifacts := artifacts d2\<rparr>"
      by (metis art_rel_def fst_conv snd_conv wsteps_def)
    then have d2: "tool_invocations d2 = tool_invocations d @ [pendingRow g e tool input ctx]"
      "d2 = d\<lparr>tool_invocations := tool_invocations d2, artifacts := artifacts d2\<rparr>"
      by (cases d; cases d2; simp)+
    note fail = failed_recorded [OF d2(1) own fresh d2(2)]
    show ?thesis
    proof (cases out)
      case (Inl err)
      then show ?thesis
        using fail [of "''EXECUTION_FAILED''" "gt_errorMessage g err" f2] out Inr
        by (auto simp: executeInvocation_def attempt_def obind_def)
    next
      case raw: (Inr rawOutput)
      show ?thesis
      proof (cases "tl_outputSchema tool rawOutput")
        case (Inl m)
        then show ?thesis
          using fail [of "''INVALID_OUTPUT''" m f2] out Inr raw by (auto simp: executeInvocation_def attempt_def obind_def)
      next
        case po: (Inr parsed)
        let ?r = "\<lparr>tr_invocationId = env_uuid e 0, tr_toolName = tl_name tool, tr_toolVersion = tl_version tool,
                     tr_status = ti_succeeded, tr_output = Some parsed, tr_error = None\<rparr>"
        have "\<exists>d'. finishInvocation e (tx_tenantId ctx) (env_uuid e 0) (succeededColumns g e parsed) d2 = (Inr (), d') \<and> recorded g e input tool ctx d ?r d'"
          by (rule finish_recorded [OF d2(1) own refl fresh d2(2)]) (auto simp: succeededColumns_def finishing_def)
        then show ?thesis
          using out Inr raw po by (auto simp: executeInvocation_def attempt_def obind_def on_db_def oreturn_def)
      qed
    qed
  qed
qed

lemma linkedOutcome_cong:
  "work_orders d' = work_orders d \<Longrightarrow> authority_decisions d' = authority_decisions d \<Longrightarrow> linkedOutcome c t i d' = linkedOutcome c t i d"
  by (simp only: linkedOutcome_def)

lemma invoke_accepted:
  assumes "resolveTool name reg = Inr tool"
    "checkAuthority tool (linkedOutcome \<lparr>cl_tenant = tx_tenantId ctx, cl_rls = env_rls e\<rparr> (tx_tenantId ctx) (tx_workOrderId ctx) (fst s)) = Inr u"
  shows "invokeRegisteredTool g e reg name input ctx s =
    obind (on_db (insertInvocation g e tool input ctx)) (\<lambda>inserted.
      if \<not> inserted then on_db (replayInvocation e tool ctx) else executeInvocation g e tool input ctx) s"
  using assms by (simp add: invokeRegisteredTool_def obind_def on_db_def withTenantTransaction_def query_def)

lemma invoke_Inr:
  assumes "invokeRegisteredTool g e reg name input ctx s = (Inr r, s')"
  obtains tool u where "resolveTool name reg = Inr tool" "tool \<in> set reg"
    "checkAuthority tool (linkedOutcome \<lparr>cl_tenant = tx_tenantId ctx, cl_rls = env_rls e\<rparr> (tx_tenantId ctx) (tx_workOrderId ctx) (fst s)) = Inr u"
  using assms
  by (auto simp: invokeRegisteredTool_def obind_def on_db_def withTenantTransaction_def query_def othrow_def resolveTool_def
      find_Some_iff split: sum.splits option.splits)

text \<open>
  C34. A tool runs at most once per WorkOrder. After a call of a registered tool has returned, its result is
  recorded in exactly the row it names, and every later call of the same tool for the same WorkOrder, with
  any input and from any caller of the tenant, returns that row and changes neither the database nor the
  file system.
\<close>

theorem tool_runs_at_most_once:
  assumes "invokeRegisteredTool g e (core_registry h) name input ctx (d, f) = (Inr r, (d', f'))"
    "tx_tenantId ctx' = tx_tenantId ctx" "tx_workOrderId ctx' = tx_workOrderId ctx" "env_rls e' = env_rls e"
  shows "\<exists>tool\<in>set (core_registry h). \<exists>row\<in>set (tool_invocations d').
    tl_name tool = name \<and> ti_id row = tr_invocationId r \<and> ti_status row = tr_status r \<and>
    invokeRegisteredTool g e' (core_registry h) name input' ctx' (d', f') = (Inr (existingResult tool row), (d', f'))"
proof -
  from assms(1) obtain tool u where tool: "resolveTool name (core_registry h) = Inr tool" "tool \<in> set (core_registry h)"
    and auth: "checkAuthority tool (linkedOutcome \<lparr>cl_tenant = tx_tenantId ctx, cl_rls = env_rls e\<rparr> (tx_tenantId ctx) (tx_workOrderId ctx) d) = Inr u"
    by (rule invoke_Inr) simp
  have name: "tl_name tool = name" using tool(1) by (auto simp: resolveTool_def find_Some_iff split: option.splits)
  have key: "invocationKey tool ctx' = invocationKey tool ctx" using assms(2,3) by (simp add: invocationKey_def)
  have run: "invokeRegisteredTool g e (core_registry h) name input ctx (d, f) =
    obind (on_db (insertInvocation g e tool input ctx)) (\<lambda>inserted.
      if \<not> inserted then on_db (replayInvocation e tool ctx) else executeInvocation g e tool input ctx) (d, f)"
    using invoke_accepted [OF tool(1), of ctx e "(d, f)"] auth by simp
  have again: "invokeRegisteredTool g e' (core_registry h) name input' ctx' (x, f') = (Inr (existingResult tool row), (x, f'))"
    if "work_orders x = work_orders d" "authority_decisions x = authority_decisions d"
      "own_rows (tx_tenantId ctx) (invocationKey tool ctx) x = row # rows" for x row rows
  proof -
    have "linkedOutcome \<lparr>cl_tenant = tx_tenantId ctx', cl_rls = env_rls e'\<rparr> (tx_tenantId ctx') (tx_workOrderId ctx') x =
      linkedOutcome \<lparr>cl_tenant = tx_tenantId ctx, cl_rls = env_rls e\<rparr> (tx_tenantId ctx) (tx_workOrderId ctx) d"
      using linkedOutcome_cong [OF that(1,2)] assms(2-4) by simp
    with auth have step: "invokeRegisteredTool g e' (core_registry h) name input' ctx' (x, f') =
      obind (on_db (insertInvocation g e' tool input' ctx')) (\<lambda>inserted.
        if \<not> inserted then on_db (replayInvocation e' tool ctx') else executeInvocation g e' tool input' ctx') (x, f')"
      by (intro invoke_accepted [OF tool(1)]) simp
    have own: "own_rows (tx_tenantId ctx') (invocationKey tool ctx') x = row # rows" using that(3) key assms(2) by simp
    then have "insertInvocation g e' tool input' ctx' x = (Inr False, x)"
      by (simp add: insertInvocation_def withTenantTransaction_def insert_or_nothing_def has_invocation_iff)
    then show ?thesis unfolding step by (simp add: obind_def on_db_def [of "insertInvocation g e' tool input' ctx'"] replay_eq [OF own])
  qed
  show ?thesis
  proof (cases rule: insertInvocation_cases [of g e tool input ctx d])
    case known
    then obtain row rows where own: "own_rows (tx_tenantId ctx) (invocationKey tool ctx) d = row # rows"
      by (cases "own_rows (tx_tenantId ctx) (invocationKey tool ctx) d") auto
    with known(1) run assms(1) have r: "r = existingResult tool row" "d' = d"
      by (simp_all add: obind_def on_db_def [of "insertInvocation g e tool input ctx"] replay_eq)
    have "row \<in> set (tool_invocations d)" using own unfolding own_rows_def by (metis filter_is_subset list.set_intros(1) subsetD)
    with again [OF refl refl own] r tool(2) name show ?thesis
      by (intro bexI [of _ tool] bexI [of _ row]) (simp_all add: existingResult_def)
  next
    case new
    from execute_recorded [OF tool(2) new(2,3), of g input f] new(1) run assms(1)
    have rec: "recorded g e input tool ctx d r d'"
      by (auto simp: obind_def on_db_def [of "insertInvocation g e tool input ctx"])
    then obtain row where row: "own_rows (tx_tenantId ctx) (invocationKey tool ctx) d' = [row]" "ti_id row = tr_invocationId r"
        "ti_status row = tr_status r"
      and same: "work_orders d' = work_orders d" "authority_decisions d' = authority_decisions d"
      unfolding recorded_def by (cases d; cases d') auto
    have "row \<in> set (tool_invocations d')" using row(1) unfolding own_rows_def by (metis filter_is_subset list.set_intros(1) subsetD)
    with again [OF same row(1)] row(2,3) tool(2) name show ?thesis by blast
  next
    case failed
    with run assms(1) show ?thesis by (simp add: obind_def on_db_def)
  qed
qed

subsection \<open>Stored payloads\<close>

lemma nat_digits_length: "n < 10 ^ k \<Longrightarrow> 0 < k \<Longrightarrow> length (nat_digits n) \<le> k"
proof (induction k arbitrary: n)
  case (Suc k)
  show ?case
  proof (cases "n < 10")
    case False
    then have "n div 10 < 10 ^ k" "0 < k" using Suc.prems by (auto simp: less_mult_imp_div_less mult.commute intro: gr0I)
    with Suc.IH False show ?thesis by (simp add: nat_digits_eval)
  qed (simp add: nat_digits_eval)
qed simp

lemma truncateString_length:
  assumes "length s < 2 ^ 53"
  shows "length (truncateString s) \<le> 500"
proof -
  have "length s < 10 ^ 16" using assms by simp
  from nat_digits_length [OF this] show ?thesis by (simp add: truncateString_def MAX_STORED_STRING_LENGTH_def)
qed

lemma truncateString_short: "length s \<le> 500 \<Longrightarrow> truncateString s = s"
  by (simp add: truncateString_def MAX_STORED_STRING_LENGTH_def)

lemma truncate_strings: "strings_in (truncateLongStrings v) = map truncateString (strings_in v)"
proof (induction v rule: truncateLongStrings.induct)
  case (2 xs)
  then show ?case by (auto simp: map_concat o_def cong: map_cong)
next
  case (3 m)
  have "map (\<lambda>p. strings_in (truncateLongStrings (snd p))) m = map (\<lambda>p. map truncateString (strings_in (snd p))) m"
    by (rule map_cong) (auto intro: 3)
  from arg_cong [OF this, of concat] show ?case by (simp add: map_concat o_def case_prod_unfold)
qed simp_all

lemma truncate_short: "\<forall>s\<in>set (strings_in v). length s \<le> 500 \<Longrightarrow> truncateLongStrings v = v"
proof (induction v rule: truncateLongStrings.induct)
  case (2 xs)
  then show ?case by (auto intro!: map_idI)
next
  case (3 m)
  have "(k, truncateLongStrings v) = (k, v)" if "(k, v) \<in> set m" for k v
    using 3(1) [OF that refl] 3(2) that by fastforce
  then show ?case by (auto intro!: map_idI)
qed (simp_all add: truncateString_short)

text \<open>
  What is kept of a payload: the redacted payload, or \<open>null\<close> if the redacted text no longer parses; and no string in
  it is longer than 500 characters, save the preview of a string of at least \<open>2^53\<close>, which the language does not
  have. The keys of objects are kept as they are.
\<close>

definition kept_payload :: "number_format \<Rightarrow> json \<Rightarrow> json \<Rightarrow> bool" where
  "kept_payload nf v p \<longleftrightarrow>
     (\<forall>s\<in>set (strings_in p). length s \<le> 500 \<or> (\<exists>orig. 2 ^ 53 \<le> length orig \<and> s = truncateString orig)) \<and>
     (case json_parse nf (redactSecretLikeValues (json_stringify nf v)) of
        None \<Rightarrow> p = JNull
      | Some q \<Rightarrow> (\<forall>s\<in>set (strings_in q). length s \<le> 500) \<longrightarrow> p = q)"

lemma sanitized_is_kept: "kept_payload nf v (sanitizeJsonValue nf v)"
proof (cases "json_parse nf (redactSecretLikeValues (json_stringify nf v))")
  case (Some q)
  then have s: "sanitizeJsonValue nf v = truncateLongStrings q" by (simp add: sanitizeJsonValue_def)
  have "length x \<le> 500 \<or> (\<exists>orig. 2 ^ 53 \<le> length orig \<and> x = truncateString orig)"
    if "x \<in> set (strings_in (truncateLongStrings q))" for x
    using that truncateString_length unfolding truncate_strings set_map by (metis imageE not_less)
  with Some show ?thesis unfolding kept_payload_def s by (simp add: truncate_short)
qed (simp add: kept_payload_def sanitizeJsonValue_def)


text \<open>Redaction works on the serialized text and may take the closing quote with the secret.\<close>

lemma redaction_can_lose_the_payload:
  "sanitizeJsonValue decimal_format (JObj [(''content'', JStr ''password=x'')]) = JNull"
  unfolding sanitizeJsonValue_def by code_simp

subsection \<open>Evaluation\<close>

text \<open>A file system that is a list of files, without links, in which every directory exists\<close>

definition list_fs :: "(string \<times> string) list fs_api" where
  "list_fs = \<lparr>fs_realpath = (\<lambda>f p. RealPath p),
     fs_stat = (\<lambda>f p. map_option (\<lambda>c. \<lparr>st_isFile = True, st_size = length c\<rparr>) (map_of f p)),
     fs_readFile = (\<lambda>f p. case map_of f p of None \<Rightarrow> Inl (PlainError ''ENOENT'') | Some c \<Rightarrow> Inr c),
     fs_mkdir = (\<lambda>f p. Inr f), fs_writeFile = (\<lambda>f p c. Inr ((p, c) # f)),
     fs_rename = (\<lambda>f p q. case map_of f p of None \<Rightarrow> Inl (PlainError ''ENOENT'')
       | Some c \<Rightarrow> Inr ((q, c) # filter (\<lambda>x. fst x \<noteq> p) f)),
     fs_unlink = (\<lambda>f p. filter (\<lambda>x. fst x \<noteq> p) f), fs_toUtf8 = (\<lambda>b. b)\<rparr>"

definition demo_host :: "(string \<times> string) list tool_host" where
  "demo_host = \<lparr>hs_fs = list_fs, hs_cwd = ''/'', hs_config = \<lparr>wc_baseRoot = ''/ws'', wc_maxBytes = Finite 1000\<rparr>,
     hs_tmpSuffix = ''.tmp'', hs_zodMessage = (\<lambda>_. ''invalid'')\<rparr>"

definition demo_texts :: gateway_texts where
  "demo_texts = \<lparr>gt_numbers = decimal_format, gt_errorMessage = (\<lambda>_. ''failed'')\<rparr>"

definition demo_decision :: authority_decision where
  "demo_decision = \<lparr>ad_id = 50, ad_tenant_id = 1, ad_schema_version = 1, ad_outcome = act_and_report,
     ad_requires_human_gatekeeper = False, ad_reason = None, ad_risk_level = None, ad_deciding_actor_id = None,
     ad_work_order_id = Some 100, ad_run_id = None, ad_tool_invocation_id = None, ad_required_setup = None,
     ad_resolved_via_standing_rule_id = None, ad_created_at = 0\<rparr>"

definition demo_tool_db :: db where
  "demo_tool_db = demo_db\<lparr>work_orders := [(newWorkOrderRow demo_env demo_create)\<lparr>wo_authority_decision_id := Some 50\<rparr>],
     authority_decisions := [demo_decision]\<rparr>"

definition demo_ctx :: tool_execution_context where
  "demo_ctx = \<lparr>tx_tenantId = 1, tx_actorId = 11, tx_workspaceId = None, tx_projectId = None, tx_workOrderId = 100,
     tx_threadId = None, tx_sourceMessageId = None, tx_authorityOutcome = need_act_and_report, tx_actingSystem = ''elora-v1'',
     tx_correlationId = ''c''\<rparr>"

lemma demo_recorded:
  "\<exists>r s'. invokeRegisteredTool demo_texts demo_env (core_registry demo_host) ''core.artifact.write'' JNull demo_ctx (demo_tool_db, []) = (Inr r, s') \<and>
     tool_invocations (fst s') \<noteq> []"
proof -
  let ?t = "artifactWriteTool demo_host"
  have res: "resolveTool ''core.artifact.write'' (core_registry demo_host) = Inr ?t"
    by (simp add: resolveTool_def core_registry_def artifactWriteTool_def)
  have auth: "checkAuthority ?t (linkedOutcome \<lparr>cl_tenant = tx_tenantId demo_ctx, cl_rls = env_rls demo_env\<rparr>
      (tx_tenantId demo_ctx) (tx_workOrderId demo_ctx) demo_tool_db) = Inr ()"
    by (simp add: checkAuthority_def linkedOutcome_def scoped_rows_def rls_rows_def demo_ctx_def demo_tool_db_def demo_decision_def
        artifactWriteTool_def authoritySatisfiesRequirement_def newWorkOrderRow_def demo_create_def demo_env_def)
  have own: "own_rows (tx_tenantId demo_ctx) (invocationKey ?t demo_ctx) demo_tool_db = []"
    and fresh: "env_uuid demo_env 0 \<notin> ti_id ` set (tool_invocations demo_tool_db)"
    by (simp_all add: own_rows_def demo_tool_db_def demo_db_def empty_db_def)
  have "insertInvocation demo_texts demo_env ?t JNull demo_ctx demo_tool_db =
      (Inr True, demo_tool_db\<lparr>tool_invocations := tool_invocations demo_tool_db @ [pendingRow demo_texts demo_env ?t JNull demo_ctx]\<rparr>)"
    by (simp add: insertInvocation_def withTenantTransaction_def insert_or_nothing_def has_invocation_def tbind_def treturn_def
        insert_tool_invocation_def insert_into_def demo_tool_db_def demo_db_def empty_db_def pendingRow_def demo_ctx_def)
      (simp add: newWorkOrderRow_def demo_env_def)
  with execute_recorded [of ?t demo_host, OF _ own fresh, of demo_texts JNull "[]"] show ?thesis
    using invoke_accepted [OF res, of demo_ctx demo_env "(demo_tool_db, [])"] auth
    by (auto simp: core_registry_def obind_def recorded_def on_db_def [of "insertInvocation demo_texts demo_env ?t JNull demo_ctx"])
qed

lemma demo_invocation:
  "\<exists>r s'. invokeRegisteredTool demo_texts demo_env (core_registry demo_host) ''core.artifact.write'' JNull demo_ctx (demo_tool_db, []) = (Inr r, s')"
  using demo_recorded by blast

theorem tool_needs_authority_witness:
  "\<exists>w\<in>set (work_orders demo_tool_db). wo_id w = 100 \<and> wo_authority_decision_id w = Some 50"
proof -
  from demo_invocation obtain r s' where
    "invokeRegisteredTool demo_texts demo_env (core_registry demo_host) ''core.artifact.write'' JNull demo_ctx (demo_tool_db, []) = (Inr r, s')"
    by blast
  from tool_needs_authority [OF this] show ?thesis
    by (auto simp: demo_tool_db_def demo_decision_def demo_ctx_def)
qed

theorem tool_runs_at_most_once_witness:
  "\<exists>r d' f'. \<exists>row :: tool_invocation. invokeRegisteredTool demo_texts demo_env (core_registry demo_host) ''core.artifact.write'' JNull demo_ctx (demo_tool_db, []) =
       (Inr r, (d', f')) \<and> ti_id row = tr_invocationId r \<and>
     (\<exists>tool :: (string \<times> string) list tool_definition. invokeRegisteredTool demo_texts demo_env (core_registry demo_host) ''core.artifact.write'' (JBool True) demo_ctx (d', f') =
       (Inr (existingResult tool row), (d', f')))"
proof -
  from demo_invocation obtain r d' f' where
    run: "invokeRegisteredTool demo_texts demo_env (core_registry demo_host) ''core.artifact.write'' JNull demo_ctx (demo_tool_db, []) = (Inr r, (d', f'))"
    by force
  from tool_runs_at_most_once [OF this refl refl refl, of "JBool True"]
  obtain tool :: "(string \<times> string) list tool_definition" and row where "ti_id (row :: tool_invocation) = tr_invocationId r"
    "invokeRegisteredTool demo_texts demo_env (core_registry demo_host) ''core.artifact.write'' (JBool True) demo_ctx (d', f') =
       (Inr (existingResult tool row), (d', f'))"
    by blast
  with run show ?thesis by blast
qed


end
