(* ===== verification/Policy.thy ===== *)
theory Policy
  imports Schemas Regex
begin

text \<open>
  \<open>src/src/elora/llm/contentPolicy/\<close>: what may be sent to a model provider. A request is classified by the
  fields its caller declares, by three patterns and by the process's own provider secrets; the class
  decides whether it is sent, refused, or sent with the declared values replaced.
\<close>

subsection \<open>Classification\<close>

fun CLASSIFICATION_RANK :: "data_classification \<Rightarrow> nat" where
  "CLASSIFICATION_RANK PUBLIC = 0"
| "CLASSIFICATION_RANK INTERNAL = 1"
| "CLASSIFICATION_RANK CONFIDENTIAL = 2"
| "CLASSIFICATION_RANK RESTRICTED = 3"
| "CLASSIFICATION_RANK SECRET = 4"

definition maxClassification :: "data_classification \<Rightarrow> data_classification \<Rightarrow> data_classification" where
  "maxClassification a b = (if CLASSIFICATION_RANK b \<le> CLASSIFICATION_RANK a then a else b)"

record sensitive_field =
  sf_name :: string
  sf_classification :: data_classification
  sf_value :: string

record detection =
  dn_kind :: string
  dn_fieldName :: "string option"

record classified_input =
  ci_classification :: data_classification
  ci_detections :: "detection list"

definition upper_or_digit :: "char \<Rightarrow> bool" where
  "upper_or_digit c \<longleftrightarrow> is_digit_char c \<or> (is_alpha_char c \<and> lower_char c \<noteq> c)"

definition DETECTION_PATTERNS :: "(string \<times> data_classification \<times> regex) list" where
  "DETECTION_PATTERNS =
     [(''private_key_block'', SECRET,
         seqs [lit ''-----BEGIN'', Star (Cls (\<lambda>c. c = CHR '' '' \<or> (is_alpha_char c \<and> lower_char c \<noteq> c))), lit ''PRIVATE KEY-----'']),
      (''bearer_token'', RESTRICTED,
         seqs [Bnd, lit_ci ''Bearer'', Plus (Cls is_ws),
           at_least 20 (Cls (\<lambda>c. is_alpha_char c \<or> is_digit_char c \<or> c \<in> set ''-._~+/'')), Star (Cls (\<lambda>c. c = CHR ''=''))]),
      (''aws_access_key_id'', RESTRICTED,
         seqs ([Bnd, lit ''AKIA''] @ replicate 16 (Cls upper_or_digit) @ [Bnd]))]"

text \<open>\<open>s.includes(t)\<close>\<close>

definition starts_with :: "string \<Rightarrow> string \<Rightarrow> bool" where
  "starts_with t s \<longleftrightarrow> take (length t) s = t"

fun js_includes :: "string \<Rightarrow> string \<Rightarrow> bool" where
  "js_includes t [] \<longleftrightarrow> t = []"
| "js_includes t (c # s) \<longleftrightarrow> starts_with t (c # s) \<or> js_includes t s"

definition evaluateModelInput :: "string \<Rightarrow> sensitive_field list \<Rightarrow> string list \<Rightarrow> classified_input" where
  "evaluateModelInput serializedContent declaredFields configuredSecrets =
     (let fields = map (\<lambda>f. (sf_classification f, \<lparr>dn_kind = ''declared_field'', dn_fieldName = Some (sf_name f)\<rparr>)) declaredFields;
          patterns = map (\<lambda>(kind, c, _). (c, \<lparr>dn_kind = kind, dn_fieldName = None\<rparr>))
            (filter (\<lambda>(_, _, pattern). regex_test pattern serializedContent) DETECTION_PATTERNS);
          secrets = map (\<lambda>_. (SECRET, \<lparr>dn_kind = ''configured_secret_value'', dn_fieldName = None\<rparr>))
            (filter (\<lambda>secret. 0 < length secret \<and> js_includes secret serializedContent) configuredSecrets);
          signals = fields @ patterns @ secrets
      in \<lparr>ci_classification = foldl maxClassification INTERNAL (map fst signals), ci_detections = map snd signals\<rparr>)"

subsection \<open>Decision\<close>

datatype policy_decision =
    Allowed data_classification bool
  | Denied data_classification string

definition decideContentPolicy :: "classified_input \<Rightarrow> string \<Rightarrow> string list \<Rightarrow> bool \<Rightarrow> policy_decision" where
  "decideContentPolicy classifiedInput targetProvider approvedProvidersForConfidential restrictedAllowed =
     (let c = ci_classification classifiedInput in
      if c = SECRET then Denied c ''SECRET-classified content may never be transmitted to an external provider.''
      else if c = RESTRICTED then
        (if \<not> restrictedAllowed
         then Denied c ''RESTRICTED-classified content requires an explicit policy allow, which was not supplied.''
         else Allowed c True)
      else if c = CONFIDENTIAL then
        (if targetProvider \<notin> set approvedProvidersForConfidential
         then Denied c (''CONFIDENTIAL-classified content is not approved for provider \"'' @ targetProvider @ ''\".'')
         else Allowed c True)
      else Allowed c False)"

subsection \<open>Redaction\<close>

text \<open>\<open>s.split(v)\<close> for a non-empty \<open>v\<close>\<close>

function split_on :: "string \<Rightarrow> string \<Rightarrow> string list" where
  "split_on v [] = [[]]"
| "split_on v (c # s) =
     (if v \<noteq> [] \<and> starts_with v (c # s) then [] # split_on v (drop (length v) (c # s))
      else case split_on v s of [] \<Rightarrow> [[c]] | p # ps \<Rightarrow> (c # p) # ps)"
  by pat_completeness auto
termination
  by (relation "measure (\<lambda>(v, s). length s)") auto

definition redaction_mark :: "sensitive_field \<Rightarrow> string" where
  "redaction_mark f = ''[REDACTED:'' @ sf_name f @ '']''"

definition redactField :: "sensitive_field \<Rightarrow> string \<times> nat \<Rightarrow> string \<times> nat" where
  "redactField f = (\<lambda>(result, count).
     if length (sf_value f) = 0 \<or> \<not> js_includes (sf_value f) result then (result, count)
     else (join (redaction_mark f) (split_on (sf_value f) result), count + (length (split_on (sf_value f) result) - 1)))"

definition redactStringValue :: "sensitive_field list \<Rightarrow> string \<Rightarrow> string \<times> nat" where
  "redactStringValue declaredFields value = foldl (\<lambda>r f. redactField f r) (value, 0) declaredFields"

fun redactValue :: "sensitive_field list \<Rightarrow> json \<Rightarrow> json \<times> nat" where
  "redactValue fs (JStr s) = (case redactStringValue fs s of (r, n) \<Rightarrow> (JStr r, n))"
| "redactValue fs (JArr xs) = (let rs = map (redactValue fs) xs in (JArr (map fst rs), sum_list (map snd rs)))"
| "redactValue fs (JObj m) =
     (let rs = map (\<lambda>(k, v). (k, redactValue fs v)) m in
      (JObj (map (\<lambda>(k, r). (k, fst r)) rs), sum_list (map (\<lambda>(k, r). snd r) rs)))"
| "redactValue fs v = (v, 0)"

definition redactModelInput :: "json \<Rightarrow> sensitive_field list \<Rightarrow> json \<times> nat" where
  "redactModelInput input declaredFields = redactValue declaredFields input"

end
