(* ===== verification/Zod.thy ===== *)
theory Zod
  imports Authority
begin

text \<open>
  Schemas of JSON values as the code composes them with the schema library: a schema either accepts a
  value and returns what \<open>parse\<close> returns, or rejects it. Objects keep their declared keys in declared
  order and drop the others. The schemas of the model operations follow (\<open>src/src/elora/llm/types.ts\<close>).
\<close>

type_synonym schema = "json \<Rightarrow> json option"

definition z_string :: "(string \<Rightarrow> bool) \<Rightarrow> schema" where
  "z_string P v = (case v of JStr s \<Rightarrow> if P s then Some v else None | _ \<Rightarrow> None)"

definition z_number :: "(rat \<Rightarrow> bool) \<Rightarrow> schema" where
  "z_number P v = (case v of JNum q \<Rightarrow> if P q then Some v else None | _ \<Rightarrow> None)"

definition z_boolean :: schema where
  "z_boolean v = (case v of JBool _ \<Rightarrow> Some v | _ \<Rightarrow> None)"

definition z_nullable :: "schema \<Rightarrow> schema" where
  "z_nullable sc v = (if v = JNull then Some JNull else sc v)"

definition z_or :: "schema \<Rightarrow> schema \<Rightarrow> schema" where
  "z_or a b v = (case a v of Some x \<Rightarrow> Some x | None \<Rightarrow> b v)"

fun all_some :: "'a option list \<Rightarrow> 'a list option" where
  "all_some [] = Some []"
| "all_some (x # xs) = (case (x, all_some xs) of (Some y, Some ys) \<Rightarrow> Some (y # ys) | _ \<Rightarrow> None)"

definition z_array :: "nat \<Rightarrow> schema \<Rightarrow> schema" where
  "z_array least sc v = (case v of
     JArr xs \<Rightarrow> if least \<le> length xs then map_option JArr (all_some (map sc xs)) else None | _ \<Rightarrow> None)"

datatype field_need = Req | Maybe

text \<open>The declared key, \<open>Some []\<close> when it is optional and absent\<close>

definition z_key :: "metadata \<Rightarrow> string \<times> field_need \<times> schema \<Rightarrow> metadata option" where
  "z_key m f = (case f of (k, need, sc) \<Rightarrow> (case map_of m k of
       None \<Rightarrow> if need = Maybe then Some [] else None
     | Some v \<Rightarrow> map_option (\<lambda>x. [(k, x)]) (sc v)))"

definition z_object :: "(string \<times> field_need \<times> schema) list \<Rightarrow> schema" where
  "z_object fs v = (case v of JObj m \<Rightarrow> map_option (\<lambda>ms. JObj (concat ms)) (all_some (map (z_key m) fs)) | _ \<Rightarrow> None)"

definition z_record :: "schema \<Rightarrow> schema" where
  "z_record sc v = (case v of
     JObj m \<Rightarrow> map_option JObj (all_some (map (\<lambda>(k, x). map_option (Pair k) (sc x)) m)) | _ \<Rightarrow> None)"

definition z_refine :: "schema \<Rightarrow> (json \<Rightarrow> bool) \<Rightarrow> schema" where
  "z_refine sc P v = (case sc v of Some x \<Rightarrow> if P x then Some x else None | None \<Rightarrow> None)"

definition any_text :: schema where
  "any_text = z_string (\<lambda>_. True)"

definition some_text :: schema where
  "some_text = z_string (\<lambda>s. s \<noteq> [])"

definition z_enum :: "string list \<Rightarrow> schema" where
  "z_enum values = z_string (\<lambda>s. s \<in> set values)"

definition positive_int :: "rat \<Rightarrow> bool" where
  "positive_int q \<longleftrightarrow> 0 < q \<and> rat_of_int \<lfloor>q\<rfloor> = q"

text \<open>The values of an accepted object\<close>

definition obj_field :: "json \<Rightarrow> string \<Rightarrow> json" where
  "obj_field v k = (case v of JObj m \<Rightarrow> (case map_of m k of Some x \<Rightarrow> x | None \<Rightarrow> JNull) | _ \<Rightarrow> JNull)"

definition text_of :: "json \<Rightarrow> string" where
  "text_of v = (case v of JStr s \<Rightarrow> s | _ \<Rightarrow> [])"

definition text_or_null :: "json \<Rightarrow> string option" where
  "text_or_null v = (case v of JStr s \<Rightarrow> Some s | _ \<Rightarrow> None)"

definition number_of :: "json \<Rightarrow> rat" where
  "number_of v = (case v of JNum q \<Rightarrow> q | _ \<Rightarrow> 0)"

definition bool_of :: "json \<Rightarrow> bool" where
  "bool_of v = (case v of JBool b \<Rightarrow> b | _ \<Rightarrow> False)"

definition items_of :: "json \<Rightarrow> json list" where
  "items_of v = (case v of JArr xs \<Rightarrow> xs | _ \<Rightarrow> [])"

subsection \<open>Schemas of the model operations\<close>

definition elora_route_table :: "(string \<times> elora_route) list" where
  "elora_route_table = [(''converse'', rt_converse), (''direct_answer'', rt_direct_answer), (''tool_assisted'', rt_tool_assisted),
     (''delegate'', rt_delegate), (''durable_work'', rt_durable_work), (''consequential_action'', rt_consequential_action),
     (''clarify'', rt_clarify), (''setup_required'', rt_setup_required), (''capability_missing'', rt_capability_missing),
     (''refuse'', rt_refuse)]"

definition IntentInterpretationInputSchema :: schema where
  "IntentInterpretationInputSchema = z_object [(''content'', Req, some_text), (''threadContext'', Maybe, any_text)]"

definition IntentInterpretationOutputSchema :: schema where
  "IntentInterpretationOutputSchema = z_object
     [(''route'', Req, z_enum (map fst elora_route_table)), (''interpretedIntent'', Req, some_text),
      (''confidence'', Req, z_number (\<lambda>q. 0 \<le> q \<and> q \<le> 1)), (''taskDomain'', Req, z_nullable any_text),
      (''requestedCapabilities'', Req, z_array 0 any_text), (''proposedDelegationTarget'', Req, z_nullable any_text),
      (''requiresDurableWork'', Req, z_boolean), (''proposedToolNeeds'', Req, z_array 0 any_text),
      (''externalSideEffect'', Req, z_boolean), (''requiresClarification'', Req, z_boolean),
      (''clarifyingQuestion'', Req, z_nullable any_text)]"

definition intentInterpretationOutput :: "json \<Rightarrow> intent_interpretation_output" where
  "intentInterpretationOutput v =
     \<lparr>io_route = (case map_of elora_route_table (text_of (obj_field v ''route'')) of Some r \<Rightarrow> r | None \<Rightarrow> rt_converse),
      io_interpretedIntent = text_of (obj_field v ''interpretedIntent''),
      io_confidence = number_of (obj_field v ''confidence''), io_taskDomain = text_or_null (obj_field v ''taskDomain''),
      io_requestedCapabilities = map text_of (items_of (obj_field v ''requestedCapabilities'')),
      io_proposedDelegationTarget = text_or_null (obj_field v ''proposedDelegationTarget''),
      io_requiresDurableWork = bool_of (obj_field v ''requiresDurableWork''),
      io_proposedToolNeeds = map text_of (items_of (obj_field v ''proposedToolNeeds'')),
      io_externalSideEffect = bool_of (obj_field v ''externalSideEffect''),
      io_requiresClarification = bool_of (obj_field v ''requiresClarification''),
      io_clarifyingQuestion = text_or_null (obj_field v ''clarifyingQuestion'')\<rparr>"

definition PlanningInputSchema :: schema where
  "PlanningInputSchema = z_object [(''objective'', Req, some_text), (''context'', Maybe, any_text)]"

definition PlanningOutputSchema :: schema where
  "PlanningOutputSchema = z_object [(''steps'', Req,
     z_array 1 (z_object [(''description'', Req, some_text), (''rationale'', Maybe, any_text)]))]"

definition CritiqueInputSchema :: schema where
  "CritiqueInputSchema = z_object [(''subject'', Req, some_text), (''criteria'', Maybe, z_array 0 some_text)]"

definition CritiqueOutputSchema :: schema where
  "CritiqueOutputSchema = z_object [(''verdict'', Req, z_enum [''approve'', ''revise'', ''reject'']),
     (''issues'', Req, z_array 0 (z_object [(''description'', Req, some_text), (''severity'', Req, z_enum [''low'', ''medium'', ''high''])])),
     (''summary'', Req, some_text)]"

definition ExtractionInputSchema :: schema where
  "ExtractionInputSchema = z_object [(''content'', Req, some_text), (''fields'', Req, z_array 1 some_text)]"

definition ExtractionOutputSchema :: schema where
  "ExtractionOutputSchema = z_object [(''values'', Req,
     z_record (z_or any_text (z_or (z_number (\<lambda>_. True)) (z_nullable z_boolean))))]"

definition RerankingInputSchema :: schema where
  "RerankingInputSchema = z_object [(''query'', Req, some_text),
     (''candidates'', Req, z_array 1 (z_object [(''id'', Req, some_text), (''content'', Req, any_text)])),
     (''maximumResults'', Maybe, z_number positive_int)]"

definition RerankingOutputSchema :: schema where
  "RerankingOutputSchema = z_object [(''rankedCandidates'', Req,
     z_array 0 (z_object [(''candidateId'', Req, some_text), (''rank'', Req, z_number positive_int)]))]"

definition ranked_ids :: "json \<Rightarrow> string list" where
  "ranked_ids v = map (\<lambda>r. text_of (obj_field r ''candidateId'')) (items_of (obj_field v ''rankedCandidates''))"

definition buildRerankingOutputSchema :: "json \<Rightarrow> schema" where
  "buildRerankingOutputSchema input = z_refine RerankingOutputSchema (\<lambda>v.
     list_all (\<lambda>i. i \<in> set (map (\<lambda>c. text_of (obj_field c ''id'')) (items_of (obj_field input ''candidates'')))) (ranked_ids v) \<and>
     distinct (ranked_ids v))"

definition ResponseSynthesisOutputSchema :: schema where
  "ResponseSynthesisOutputSchema = z_object [(''responseText'', Req, any_text)]"

definition EmbeddingInputSchema :: schema where
  "EmbeddingInputSchema = z_object [(''text'', Req, some_text), (''purpose'', Req, z_enum [''query'', ''memory_document'']),
     (''dimensions'', Req, z_number positive_int)]"

definition EmbeddingOutputSchema :: schema where
  "EmbeddingOutputSchema = z_object [(''embedding'', Req, z_array 0 (z_number (\<lambda>_. True))), (''model'', Req, some_text),
     (''dimensions'', Req, z_number positive_int)]"

definition buildEmbeddingOutputSchema :: "json \<Rightarrow> schema" where
  "buildEmbeddingOutputSchema input = z_refine EmbeddingOutputSchema (\<lambda>v.
     of_nat (length (items_of (obj_field v ''embedding''))) = number_of (obj_field input ''dimensions'') \<and>
     obj_field v ''dimensions'' = obj_field input ''dimensions'')"

end
