(* ===== verification/ModelOps.thy ===== *)
theory ModelOps
  imports Gateway Policy Zod
begin

text \<open>
  \<open>src/src/elora/llm/\<close>: the one executor every model operation goes through, the operations themselves and
  the choice of a provider. The state is the database and, beside it, whatever a provider's service
  keeps (\<open>'p\<close>): a provider method is a step of that state, so "no call was made" is visible as "the
  state is unchanged". Tracing spans have no effect on results and are left out.
\<close>

subsection \<open>Providers\<close>

datatype model_operation_error_kind =
    TIMEOUT | PROVIDER_FAILURE | INVALID_OUTPUT | PERSISTENCE_FAILURE | SENSITIVE_CONTEXT_BLOCKED
  | MODEL_REFUSAL | INCOMPLETE_OUTPUT

record provider_usage =
  us_inputTokens :: "int option"
  us_outputTokens :: "int option"
  us_cacheCreationInputTokens :: "int option"
  us_cacheReadInputTokens :: "int option"
  us_raw :: "metadata option"

record provider_call_result =
  pr_output :: json
  pr_usage :: provider_usage
  pr_providerRequestId :: "string option"
  pr_providerResponseId :: "string option"
  pr_resolvedModel :: "string option"

text \<open>
  What awaiting a provider call under the timer yields: its value, the error it threw (a
  \<open>ModelOperationError\<close> with its kind and whether it may be retried, or any other error; with the name of
  its class), or the timer first.
\<close>

datatype 'a call_outcome =
    Resolved 'a
  | RejectedOperation model_operation_error_kind bool string
  | RejectedOther string
  | TimerFired

record 'p llm_provider =
  lp_providerId :: string
  lp_modelId :: string
  lp_generateResponse :: "json \<Rightarrow> 'p \<Rightarrow> string call_outcome \<times> 'p"
  lp_interpretIntent :: "json \<Rightarrow> 'p \<Rightarrow> provider_call_result call_outcome \<times> 'p"
  lp_plan :: "json \<Rightarrow> 'p \<Rightarrow> provider_call_result call_outcome \<times> 'p"
  lp_critique :: "json \<Rightarrow> 'p \<Rightarrow> provider_call_result call_outcome \<times> 'p"
  lp_extract :: "json \<Rightarrow> 'p \<Rightarrow> provider_call_result call_outcome \<times> 'p"
  lp_rerank :: "json \<Rightarrow> 'p \<Rightarrow> provider_call_result call_outcome \<times> 'p"

text \<open>The environment variables this layer reads\<close>

record model_env =
  nv_MODEL_PROVIDER :: "string option"
  nv_ANTHROPIC_API_KEY :: "string option"
  nv_OPENAI_API_KEY :: "string option"
  nv_MODEL_POLICY_APPROVED_PROVIDERS :: "string option"

definition present :: "string option \<Rightarrow> string list" where
  "present v = (case v of None \<Rightarrow> [] | Some s \<Rightarrow> if s = [] then [] else [s])"

definition defaultApprovedProvidersForConfidential :: "model_env \<Rightarrow> string list" where
  "defaultApprovedProvidersForConfidential v =
     (case present (nv_MODEL_POLICY_APPROVED_PROVIDERS v) of
        [] \<Rightarrow> [''anthropic'', ''openai'']
      | raw # _ \<Rightarrow> filter (\<lambda>entry. 0 < length entry) (map js_trim (split_char CHR '','' raw)))"

definition configuredProviderSecrets :: "model_env \<Rightarrow> string list" where
  "configuredProviderSecrets v = present (nv_ANTHROPIC_API_KEY v) @ present (nv_OPENAI_API_KEY v)"

datatype provider_kind = anthropic | openai

definition readProviderKindFromEnv :: "model_env \<Rightarrow> error + provider_kind" where
  "readProviderKindFromEnv v =
     (if nv_MODEL_PROVIDER v = Some ''anthropic'' then Inr anthropic
      else if nv_MODEL_PROVIDER v = Some ''openai'' then Inr openai
      else Inl (PlainError ''MODEL_PROVIDER must be set to \"anthropic\" or \"openai\"''))"

text \<open>The two provider classes wrap third-party clients; \<open>connect\<close> is their constructor.\<close>

definition selectLlmProvider ::
  "(provider_kind \<Rightarrow> string \<Rightarrow> 'p llm_provider) \<Rightarrow> provider_kind \<Rightarrow> model_env \<Rightarrow> error + 'p llm_provider" where
  "selectLlmProvider connect kind v =
     (case kind of
        anthropic \<Rightarrow> (case present (nv_ANTHROPIC_API_KEY v) of
            [] \<Rightarrow> Inl (PlainError ''selectLlmProvider: provider \"anthropic\" selected but no anthropicApiKey was supplied'')
          | key # _ \<Rightarrow> Inr (connect anthropic key))
      | openai \<Rightarrow> (case present (nv_OPENAI_API_KEY v) of
            [] \<Rightarrow> Inl (PlainError ''selectLlmProvider: provider \"openai\" selected but no openaiApiKey was supplied'')
          | key # _ \<Rightarrow> Inr (connect openai key)))"

definition selectConfiguredProviderFromEnv ::
  "(provider_kind \<Rightarrow> string \<Rightarrow> 'p llm_provider) \<Rightarrow> model_env \<Rightarrow> error + 'p llm_provider" where
  "selectConfiguredProviderFromEnv connect v =
     (case readProviderKindFromEnv v of Inl err \<Rightarrow> Inl err | Inr kind \<Rightarrow> selectLlmProvider connect kind v)"

subsection \<open>The executor\<close>

record content_policy_config =
  cp_declaredFields :: "sensitive_field list option"
  cp_approvedProvidersForConfidential :: "string list option"
  cp_restrictedAllowed :: "bool option"

record 'p operation_config =
  oc_tenantId :: uuid
  oc_cognitiveRunId :: "uuid option"
  oc_operationKind :: model_operation_kind
  oc_operationVersion :: "int option"
  oc_inputSchemaVersion :: "int option"
  oc_outputSchemaVersion :: "int option"
  oc_invocationKey :: string
  oc_attemptNumber :: "int option"
  oc_providerId :: string
  oc_modelId :: string
  oc_input :: json
  oc_outputSchema :: "json \<Rightarrow> schema"
  oc_callProvider :: "json \<Rightarrow> 'p \<Rightarrow> provider_call_result call_outcome \<times> 'p"
  oc_contentPolicy :: "content_policy_config option"

datatype model_operation_result =
    Succeeded (mo_value: json) (mo_source: classification_source) (mo_id: uuid)
  | NotSucceeded (mo_kind: model_operation_error_kind) (mo_retryable: bool) (mo_invocationId: "uuid option")

definition or_one :: "int option \<Rightarrow> int" where
  "or_one v = (case v of None \<Rightarrow> 1 | Some n \<Rightarrow> n)"

definition or_default :: "'a \<Rightarrow> 'a option \<Rightarrow> 'a" where
  "or_default x v = (case v of None \<Rightarrow> x | Some y \<Rightarrow> y)"

definition fingerprint :: "number_format \<Rightarrow> env \<Rightarrow> json \<Rightarrow> string" where
  "fingerprint nf e v = env_sha256 e (json_stringify nf v)"

definition startedRow :: "env \<Rightarrow> 'p operation_config \<Rightarrow> string \<Rightarrow> data_classification \<Rightarrow> nat \<Rightarrow> model_invocation" where
  "startedRow e cfg requestFingerprint c redactionCount =
     \<lparr>mi_id = env_uuid e 0, mi_tenant_id = oc_tenantId cfg, mi_cognitive_run_id = oc_cognitiveRunId cfg,
      mi_operation_kind = oc_operationKind cfg, mi_operation_version = or_one (oc_operationVersion cfg),
      mi_input_schema_version = or_one (oc_inputSchemaVersion cfg),
      mi_output_schema_version = or_one (oc_outputSchemaVersion cfg),
      mi_provider = oc_providerId cfg, mi_model = oc_modelId cfg, mi_status = STARTED,
      mi_invocation_key = oc_invocationKey cfg, mi_attempt_number = or_one (oc_attemptNumber cfg),
      mi_input_tokens = None, mi_output_tokens = None, mi_cache_creation_input_tokens = None,
      mi_cache_read_input_tokens = None, mi_provider_usage = [], mi_request_fingerprint = Some requestFingerprint,
      mi_response_fingerprint = None, mi_duration_ms = None, mi_error_class = None, mi_provider_request_id = None,
      mi_provider_response_id = None, mi_resolved_model = None, mi_input_policy_version = 1,
      mi_input_classification = c, mi_redaction_applied = (0 < redactionCount), mi_redaction_count = int redactionCount,
      mi_started_at = env_now e 0, mi_completed_at = None, mi_created_at = env_now e 0\<rparr>"

definition insertStartedRow :: "env \<Rightarrow> 'p operation_config \<Rightarrow> string \<Rightarrow> data_classification \<Rightarrow> nat \<Rightarrow> uuid dop" where
  "insertStartedRow e cfg requestFingerprint c redactionCount =
     withTenantTransaction e (oc_tenantId cfg) (\<lambda>_.
       tbind (insert_model_invocation (startedRow e cfg requestFingerprint c redactionCount)) (\<lambda>_. treturn (env_uuid e 0)))"

record terminal_fields =
  tf_status :: model_invocation_status
  tf_durationMs :: int
  tf_responseFingerprint :: "string option"
  tf_usage :: "provider_usage option"
  tf_errorClass :: "string option"
  tf_providerRequestId :: "string option"
  tf_providerResponseId :: "string option"
  tf_resolvedModel :: "string option"

definition terminalColumns :: "env \<Rightarrow> terminal_fields \<Rightarrow> model_invocation \<Rightarrow> model_invocation" where
  "terminalColumns e f m = m\<lparr>mi_status := tf_status f, mi_completed_at := Some (env_now e 4),
     mi_duration_ms := Some (tf_durationMs f), mi_response_fingerprint := tf_responseFingerprint f,
     mi_input_tokens := Option.bind (tf_usage f) us_inputTokens, mi_output_tokens := Option.bind (tf_usage f) us_outputTokens,
     mi_cache_creation_input_tokens := Option.bind (tf_usage f) us_cacheCreationInputTokens,
     mi_cache_read_input_tokens := Option.bind (tf_usage f) us_cacheReadInputTokens,
     mi_provider_usage := or_default [] (Option.bind (tf_usage f) us_raw), mi_error_class := tf_errorClass f,
     mi_provider_request_id := tf_providerRequestId f, mi_provider_response_id := tf_providerResponseId f,
     mi_resolved_model := tf_resolvedModel f\<rparr>"

definition markTerminal :: "env \<Rightarrow> uuid \<Rightarrow> uuid \<Rightarrow> terminal_fields \<Rightarrow> unit dop" where
  "markTerminal e tenantId invocationId f = withTenantTransaction e tenantId (\<lambda>c.
     let this = (\<lambda>m. mi_id m = invocationId \<and> mi_tenant_id m = tenantId) in
     tbind (require (\<lambda>d. list_all (\<lambda>m. this m \<longrightarrow> invocation_checks (terminalColumns e f m)) (model_invocations d))
       (CheckViolation ''model_invocations'')) (\<lambda>_.
     modify (\<lambda>d. d\<lparr>model_invocations := update_where this (terminalColumns e f) (model_invocations d)\<rparr>)))"

text \<open>The kind, retryability and error class of a call that yielded no usable output\<close>

datatype call_failure = CallFailure (cf_kind: model_operation_error_kind) (cf_retryable: bool) (cf_class: string)

definition judgeOutcome :: "schema \<Rightarrow> provider_call_result call_outcome \<Rightarrow> call_failure + (json \<times> provider_call_result)" where
  "judgeOutcome outputSchema outcome =
     (case outcome of
        Resolved callResult \<Rightarrow> (case outputSchema (pr_output callResult) of
            Some parsedOutput \<Rightarrow> Inr (parsedOutput, callResult)
          | None \<Rightarrow> Inl (CallFailure INVALID_OUTPUT False ''ModelOperationInvalidOutputError''))
      | RejectedOperation kind retryable cls \<Rightarrow> Inl (CallFailure kind retryable cls)
      | RejectedOther cls \<Rightarrow> Inl (CallFailure PROVIDER_FAILURE True cls)
      | TimerFired \<Rightarrow> Inl (CallFailure TIMEOUT True ''ModelOperationTimeoutError''))"

definition successFields :: "number_format \<Rightarrow> env \<Rightarrow> json \<Rightarrow> provider_call_result \<Rightarrow> terminal_fields" where
  "successFields nf e parsedOutput r = \<lparr>tf_status = SUCCEEDED, tf_durationMs = env_now e 2 - env_now e 1,
     tf_responseFingerprint = Some (fingerprint nf e parsedOutput), tf_usage = Some (pr_usage r), tf_errorClass = None,
     tf_providerRequestId = pr_providerRequestId r, tf_providerResponseId = pr_providerResponseId r,
     tf_resolvedModel = pr_resolvedModel r\<rparr>"

definition failureFields :: "env \<Rightarrow> call_failure \<Rightarrow> terminal_fields" where
  "failureFields e f = \<lparr>tf_status = (if cf_kind f = TIMEOUT then TIMED_OUT else INV_FAILED),
     tf_durationMs = env_now e 3 - env_now e 1, tf_responseFingerprint = None, tf_usage = None,
     tf_errorClass = Some (cf_class f), tf_providerRequestId = None, tf_providerResponseId = None, tf_resolvedModel = None\<rparr>"

definition callProvider ::
  "('i \<Rightarrow> 'p \<Rightarrow> 'a call_outcome \<times> 'p) \<Rightarrow> 'i \<Rightarrow> ('p, 'a call_outcome) wop" where
  "callProvider call input s = (case call input (snd s) of (r, p') \<Rightarrow> (Inr r, (fst s, p')))"

text \<open>A \<open>PERSISTENCE_FAILURE\<close> thrown by the provider's own code is treated like one of the final write.\<close>

definition runInvocation ::
  "number_format \<Rightarrow> env \<Rightarrow> 'p operation_config \<Rightarrow> json \<Rightarrow> uuid \<Rightarrow> ('p, model_operation_result) wop" where
  "runInvocation nf e cfg effectiveInput invocationId =
     obind (callProvider (oc_callProvider cfg) effectiveInput) (\<lambda>outcome.
     case judgeOutcome (oc_outputSchema cfg effectiveInput) outcome of
       Inr (parsedOutput, callResult) \<Rightarrow>
         obind (attempt (on_db (markTerminal e (oc_tenantId cfg) invocationId (successFields nf e parsedOutput callResult)))) (\<lambda>w.
         oreturn (case w of
             Inl _ \<Rightarrow> NotSucceeded PERSISTENCE_FAILURE True (Some invocationId)
           | Inr _ \<Rightarrow> Succeeded parsedOutput MODEL invocationId))
     | Inl f \<Rightarrow>
         if cf_class f = ''ModelOperationPersistenceError'' then oreturn (NotSucceeded PERSISTENCE_FAILURE True (Some invocationId))
         else obind (attempt (on_db (markTerminal e (oc_tenantId cfg) invocationId (failureFields e f)))) (\<lambda>_.
           oreturn (NotSucceeded (cf_kind f) (cf_retryable f) (Some invocationId))))"

definition executeModelOperation ::
  "number_format \<Rightarrow> model_env \<Rightarrow> env \<Rightarrow> 'p operation_config \<Rightarrow> ('p, model_operation_result) wop" where
  "executeModelOperation nf v e cfg =
     (let declaredFields = or_default [] (Option.bind (oc_contentPolicy cfg) cp_declaredFields);
          classifiedInput = evaluateModelInput (json_stringify nf (oc_input cfg)) declaredFields (configuredProviderSecrets v)
      in case decideContentPolicy classifiedInput (oc_providerId cfg)
           (or_default (defaultApprovedProvidersForConfidential v) (Option.bind (oc_contentPolicy cfg) cp_approvedProvidersForConfidential))
           (or_default False (Option.bind (oc_contentPolicy cfg) cp_restrictedAllowed)) of
         Denied _ _ \<Rightarrow> oreturn (NotSucceeded SENSITIVE_CONTEXT_BLOCKED False None)
       | Allowed c redactionNeeded \<Rightarrow>
           let (effectiveInput, redactionCount) =
                 (if redactionNeeded then redactModelInput (oc_input cfg) declaredFields else (oc_input cfg, 0))
           in obind (attempt (on_db (insertStartedRow e cfg (fingerprint nf e effectiveInput) c redactionCount))) (\<lambda>started.
              case started of
                Inl _ \<Rightarrow> oreturn (NotSucceeded PERSISTENCE_FAILURE True None)
              | Inr invocationId \<Rightarrow> runInvocation nf e cfg effectiveInput invocationId))"

end
