(* ===== verification/Operations.thy ===== *)
theory Operations
  imports ModelOps Memory
begin

text \<open>
  The seven model operations (\<open>src/src/elora/llm/operations/*.ts\<close>), each a configuration of the executor,
  and the explicit embedding of a memory version (\<open>src/src/elora/memory/embedMemoryRecordVersion.ts\<close>).
  Only response synthesis has a fallback, and only on top of a recorded invocation.
\<close>

record run_options =
  ro_tenantId :: uuid
  ro_cognitiveRunId :: "uuid option"
  ro_invocationKey :: string
  ro_attemptNumber :: "int option"
  ro_contentPolicy :: "content_policy_config option"

definition operationConfig ::
  "model_operation_kind \<Rightarrow> string \<Rightarrow> string \<Rightarrow> (json \<Rightarrow> schema) \<Rightarrow> (json \<Rightarrow> 'p \<Rightarrow> provider_call_result call_outcome \<times> 'p) \<Rightarrow>
   json \<Rightarrow> run_options \<Rightarrow> 'p operation_config" where
  "operationConfig kind providerId modelId outputSchema call input opts =
     \<lparr>oc_tenantId = ro_tenantId opts, oc_cognitiveRunId = ro_cognitiveRunId opts, oc_operationKind = kind,
      oc_operationVersion = None, oc_inputSchemaVersion = None, oc_outputSchemaVersion = None,
      oc_invocationKey = ro_invocationKey opts, oc_attemptNumber = ro_attemptNumber opts, oc_providerId = providerId,
      oc_modelId = modelId, oc_input = input, oc_outputSchema = outputSchema, oc_callProvider = call,
      oc_contentPolicy = ro_contentPolicy opts\<rparr>"

text \<open>\<open>const validatedInput = Schema.parse(input)\<close>: a rejected input throws before the executor runs.\<close>

definition withInput :: "schema \<Rightarrow> json \<Rightarrow> (json \<Rightarrow> ('p, 'a) wop) \<Rightarrow> ('p, 'a) wop" where
  "withInput sc input k = (case sc input of None \<Rightarrow> othrow (ZodError ''input'') | Some validatedInput \<Rightarrow> k validatedInput)"

definition runIntentInterpretation ::
  "number_format \<Rightarrow> model_env \<Rightarrow> env \<Rightarrow> 'p llm_provider \<Rightarrow> json \<Rightarrow> run_options \<Rightarrow> ('p, model_operation_result) wop" where
  "runIntentInterpretation nf v e prov input opts = withInput IntentInterpretationInputSchema input (\<lambda>validated.
     executeModelOperation nf v e (operationConfig intent_interpretation (lp_providerId prov) (lp_modelId prov)
       (\<lambda>_. IntentInterpretationOutputSchema) (lp_interpretIntent prov) validated opts))"

definition runPlanning ::
  "number_format \<Rightarrow> model_env \<Rightarrow> env \<Rightarrow> 'p llm_provider \<Rightarrow> json \<Rightarrow> run_options \<Rightarrow> ('p, model_operation_result) wop" where
  "runPlanning nf v e prov input opts = withInput PlanningInputSchema input (\<lambda>validated.
     executeModelOperation nf v e (operationConfig planning (lp_providerId prov) (lp_modelId prov)
       (\<lambda>_. PlanningOutputSchema) (lp_plan prov) validated opts))"

definition runCritique ::
  "number_format \<Rightarrow> model_env \<Rightarrow> env \<Rightarrow> 'p llm_provider \<Rightarrow> json \<Rightarrow> run_options \<Rightarrow> ('p, model_operation_result) wop" where
  "runCritique nf v e prov input opts = withInput CritiqueInputSchema input (\<lambda>validated.
     executeModelOperation nf v e (operationConfig critique (lp_providerId prov) (lp_modelId prov)
       (\<lambda>_. CritiqueOutputSchema) (lp_critique prov) validated opts))"

definition runExtraction ::
  "number_format \<Rightarrow> model_env \<Rightarrow> env \<Rightarrow> 'p llm_provider \<Rightarrow> json \<Rightarrow> run_options \<Rightarrow> ('p, model_operation_result) wop" where
  "runExtraction nf v e prov input opts = withInput ExtractionInputSchema input (\<lambda>validated.
     executeModelOperation nf v e (operationConfig extraction (lp_providerId prov) (lp_modelId prov)
       (\<lambda>_. ExtractionOutputSchema) (lp_extract prov) validated opts))"

definition runReranking ::
  "number_format \<Rightarrow> model_env \<Rightarrow> env \<Rightarrow> 'p llm_provider \<Rightarrow> json \<Rightarrow> run_options \<Rightarrow> ('p, model_operation_result) wop" where
  "runReranking nf v e prov input opts = withInput RerankingInputSchema input (\<lambda>validated.
     executeModelOperation nf v e (operationConfig reranking (lp_providerId prov) (lp_modelId prov)
       buildRerankingOutputSchema (lp_rerank prov) validated opts))"

subsection \<open>Response synthesis\<close>

definition no_usage :: provider_usage where
  "no_usage = \<lparr>us_inputTokens = None, us_outputTokens = None, us_cacheCreationInputTokens = None,
     us_cacheReadInputTokens = None, us_raw = None\<rparr>"

definition responseCallResult :: "string \<Rightarrow> provider_call_result" where
  "responseCallResult responseText = \<lparr>pr_output = JObj [(''responseText'', JStr responseText)], pr_usage = no_usage,
     pr_providerRequestId = None, pr_providerResponseId = None, pr_resolvedModel = None\<rparr>"

definition generateResponseCall :: "'p llm_provider \<Rightarrow> json \<Rightarrow> 'p \<Rightarrow> provider_call_result call_outcome \<times> 'p" where
  "generateResponseCall prov context p = map_prod (map_call_outcome responseCallResult) id (lp_generateResponse prov context p)"

definition synthesisResult :: "string \<Rightarrow> model_operation_result \<Rightarrow> model_operation_result" where
  "synthesisResult deterministicFallback result =
     (case result of
        NotSucceeded _ _ (Some invocationId) \<Rightarrow>
          Succeeded (JObj [(''responseText'', JStr deterministicFallback)]) DETERMINISTIC_FALLBACK invocationId
      | _ \<Rightarrow> result)"

definition runResponseSynthesis ::
  "number_format \<Rightarrow> model_env \<Rightarrow> env \<Rightarrow> 'p llm_provider \<Rightarrow> json \<Rightarrow> string \<Rightarrow> run_options \<Rightarrow> ('p, model_operation_result) wop" where
  "runResponseSynthesis nf v e prov input deterministicFallback opts =
     obind (executeModelOperation nf v e (operationConfig response_synthesis (lp_providerId prov) (lp_modelId prov)
       (\<lambda>_. ResponseSynthesisOutputSchema) (generateResponseCall prov) input opts)) (\<lambda>result.
     oreturn (synthesisResult deterministicFallback result))"

subsection \<open>Embedding\<close>

record 'p embedding_provider =
  ep_providerId :: string
  ep_modelId :: string
  ep_dimensions :: nat
  ep_embed :: "json \<Rightarrow> 'p \<Rightarrow> provider_call_result call_outcome \<times> 'p"

definition runEmbedding ::
  "number_format \<Rightarrow> model_env \<Rightarrow> env \<Rightarrow> 'p embedding_provider \<Rightarrow> json \<Rightarrow> run_options \<Rightarrow> ('p, model_operation_result) wop" where
  "runEmbedding nf v e prov input opts = withInput EmbeddingInputSchema input (\<lambda>validated.
     executeModelOperation nf v e (operationConfig embedding (ep_providerId prov) (ep_modelId prov)
       buildEmbeddingOutputSchema (ep_embed prov) validated opts))"

record embed_version_input =
  eb_tenantId :: uuid
  eb_memoryRecordVersionId :: uuid
  eb_attemptNumber :: "int option"

definition OPENAI_EMBEDDING_MODEL :: string where
  "OPENAI_EMBEDDING_MODEL = ''text-embedding-3-small''"

definition OPENAI_EMBEDDING_DIMENSIONS :: nat where
  "OPENAI_EMBEDDING_DIMENSIONS = 1536"

text \<open>\<open>openAiEmbed\<close> is the method of the class that wraps the third-party client.\<close>

definition createConfiguredEmbeddingProvider ::
  "(string \<Rightarrow> json \<Rightarrow> 'p \<Rightarrow> provider_call_result call_outcome \<times> 'p) \<Rightarrow> model_env \<Rightarrow> error + 'p embedding_provider" where
  "createConfiguredEmbeddingProvider openAiEmbed v =
     (case present (nv_OPENAI_API_KEY v) of
        [] \<Rightarrow> Inl (PlainError ''Embedding provider configuration error: OPENAI_API_KEY is required when MEMORY_RETRIEVAL_STRATEGY=hybrid'')
      | apiKey # _ \<Rightarrow> Inr \<lparr>ep_providerId = ''openai'', ep_modelId = OPENAI_EMBEDDING_MODEL,
          ep_dimensions = OPENAI_EMBEDDING_DIMENSIONS, ep_embed = openAiEmbed apiKey\<rparr>)"

definition embeddingInvocationKey :: "'p embedding_provider \<Rightarrow> embed_version_input \<Rightarrow> string" where
  "embeddingInvocationKey prov inp = buildIdempotencyKey [uuid_str (eb_tenantId inp), uuid_str (eb_memoryRecordVersionId inp),
     ''embedding'', ep_providerId prov, ep_modelId prov, nat_digits (ep_dimensions prov)]"

definition embeddingVector :: "json \<Rightarrow> js_number list" where
  "embeddingVector value = map (\<lambda>x. Finite (number_of x)) (items_of (obj_field value ''embedding''))"

text \<open>Its result: the failed operation, or the written embedding with the invocation behind it\<close>

definition embedMemoryRecordVersion ::
  "number_format \<Rightarrow> (string \<Rightarrow> string option) \<Rightarrow> model_env \<Rightarrow> env \<Rightarrow> (error + 'p embedding_provider) \<Rightarrow> embed_version_input \<Rightarrow>
   ('p, model_operation_result + uuid \<times> memory_embedding) wop" where
  "embedMemoryRecordVersion nf cast v e provider inp =
     obind (on_db (loadEligibleVersionContent (env_at 1 e) (eb_tenantId inp) (eb_memoryRecordVersionId inp))) (\<lambda>content.
     case provider of
       Inl err \<Rightarrow> othrow err
     | Inr prov \<Rightarrow>
         obind (runEmbedding nf v (env_at 2 e) prov
           (JObj [(''text'', JStr content), (''purpose'', JStr ''memory_document''), (''dimensions'', JNum (of_nat (ep_dimensions prov)))])
           \<lparr>ro_tenantId = eb_tenantId inp, ro_cognitiveRunId = None, ro_invocationKey = embeddingInvocationKey prov inp,
            ro_attemptNumber = Some (or_one (eb_attemptNumber inp)), ro_contentPolicy = None\<rparr>) (\<lambda>result.
         case result of
           NotSucceeded kind retryable i \<Rightarrow> oreturn (Inl result)
         | Succeeded value source i \<Rightarrow>
             obind (on_db (writeMemoryEmbedding nf cast (env_at 3 e)
               \<lparr>wb_tenantId = eb_tenantId inp, wb_memoryRecordVersionId = eb_memoryRecordVersionId inp,
                wb_embedding = embeddingVector value, wb_modelProvider = ep_providerId prov, wb_modelName = ep_modelId prov,
                wb_modelVersion = text_of (obj_field value ''model'')\<rparr>)) (\<lambda>written.
             oreturn (Inr (i, fst written)))))"

end
