(* ===== verification/PolicyProps.thy ===== *)
theory PolicyProps
  imports Policy Json
begin

text \<open>
  What the content policy guarantees: a class never drops as signals are added, secrets are refused, and
  after redaction no declared value is left in any string of the request.
\<close>

subsection \<open>Classes only rise\<close>

lemma rank_max: "CLASSIFICATION_RANK (maxClassification a b) = max (CLASSIFICATION_RANK a) (CLASSIFICATION_RANK b)"
  by (simp add: maxClassification_def max_def)

lemma rank_fold:
  "CLASSIFICATION_RANK (foldl maxClassification a cs) = fold max (map CLASSIFICATION_RANK cs) (CLASSIFICATION_RANK a)"
  by (induction cs arbitrary: a) (simp_all add: rank_max max.commute)

lemma le_fold_max: "(x :: nat) \<in> insert a (set xs) \<Longrightarrow> x \<le> fold max xs a"
  by (simp add: Max.set_eq_fold [symmetric])

lemma rank_SECRET: "CLASSIFICATION_RANK SECRET \<le> CLASSIFICATION_RANK c \<Longrightarrow> c = SECRET"
  by (cases c) auto

lemma signal_rank: "c \<in> set cs \<Longrightarrow> CLASSIFICATION_RANK c \<le> CLASSIFICATION_RANK (foldl maxClassification a cs)"
  unfolding rank_fold by (rule le_fold_max) simp

text \<open>The signals that make a request secret\<close>

definition is_secret :: "string \<Rightarrow> sensitive_field list \<Rightarrow> string list \<Rightarrow> bool" where
  "is_secret content declared secrets \<longleftrightarrow>
     (\<exists>f\<in>set declared. sf_classification f = SECRET) \<or>
     (\<exists>p\<in>set DETECTION_PATTERNS. fst (snd p) = SECRET \<and> regex_test (snd (snd p)) content) \<or>
     (\<exists>s\<in>set secrets. s \<noteq> [] \<and> js_includes s content)"

lemma secret_is_denied:
  assumes "is_secret content declared secrets"
  shows "\<exists>reason. decideContentPolicy (evaluateModelInput content declared secrets) p ps b = Denied SECRET reason"
proof -
  let ?pats = "filter (\<lambda>(_, _, pattern). regex_test pattern content) DETECTION_PATTERNS"
  let ?secs = "filter (\<lambda>secret. 0 < length secret \<and> js_includes secret content) secrets"
  let ?cs = "map sf_classification declared @ map (\<lambda>p. fst (snd p)) ?pats @ map (\<lambda>_. SECRET) ?secs"
  have cls: "ci_classification (evaluateModelInput content declared secrets) = foldl maxClassification INTERNAL ?cs"
    by (simp add: evaluateModelInput_def Let_def comp_def case_prod_beta)
  from assms consider f where "f \<in> set declared" "sf_classification f = SECRET"
    | p where "p \<in> set DETECTION_PATTERNS" "fst (snd p) = SECRET" "regex_test (snd (snd p)) content"
    | s where "s \<in> set secrets" "s \<noteq> []" "js_includes s content"
    unfolding is_secret_def by blast
  then have "SECRET \<in> set ?cs"
  proof cases
    case (1 f)
    then have "sf_classification f \<in> sf_classification ` set declared" by (intro imageI)
    then show ?thesis unfolding 1(2) set_append set_map by blast
  next
    case (2 p)
    then have "p \<in> set ?pats" by (simp add: case_prod_beta)
    then have "fst (snd p) \<in> (\<lambda>p. fst (snd p)) ` set ?pats" by (rule imageI)
    then show ?thesis unfolding 2(2) set_append set_map by blast
  next
    case (3 s)
    then have "s \<in> set ?secs" by simp
    then show ?thesis by auto
  qed
  then have "ci_classification (evaluateModelInput content declared secrets) = SECRET"
    unfolding cls by (intro rank_SECRET signal_rank)
  then show ?thesis by (simp add: decideContentPolicy_def Let_def del: foldl_append)
qed

subsection \<open>Redaction leaves no declared value\<close>

lemma js_includes_iff: "js_includes t s \<longleftrightarrow> (\<exists>a b. s = a @ t @ b)"
proof (induction s)
  case (Cons c s)
  show ?case
  proof
    assume "js_includes t (c # s)"
    then consider "c # s = t @ drop (length t) (c # s)" | "js_includes t s"
      by (metis append_take_drop_id js_includes.simps(2) starts_with_def)
    then show "\<exists>a b. c # s = a @ t @ b"
      using Cons.IH by cases (metis append_Nil, metis append_Cons)
  next
    assume "\<exists>a b. c # s = a @ t @ b"
    then obtain a b where ab: "c # s = a @ t @ b" by blast
    show "js_includes t (c # s)"
    proof (cases a)
      case Nil
      with ab show ?thesis by (metis append_Nil append_eq_conv_conj js_includes.simps(2) starts_with_def)
    next
      case (Cons x a')
      with ab Cons.IH show ?thesis by auto
    qed
  qed
qed auto

lemma join_split_on: "v \<noteq> [] \<Longrightarrow> join v (split_on v s) = s"
proof (induction v s rule: split_on.induct)
  case (2 v c s)
  have ne: "split_on v s \<noteq> []" for s by (cases s) (auto split: list.split)
  show ?case
  proof (cases "starts_with v (c # s)")
    case True
    with 2 have "join v (split_on v (drop (length v) (c # s))) = drop (length v) (c # s)" by simp
    moreover have "v @ drop (length v) (c # s) = c # s"
      using True by (metis append_take_drop_id starts_with_def)
    ultimately show ?thesis using True 2(3) ne by (simp add: join_Cons)
  next
    case False
    then obtain p ps where "split_on v s = p # ps" using ne by (cases "split_on v s") auto
    with False 2 show ?thesis by (cases ps) auto
  qed
qed simp

lemma split_on_free: "v \<noteq> [] \<Longrightarrow> p \<in> set (split_on v s) \<Longrightarrow> \<not> js_includes v p"
proof (induction v s arbitrary: p rule: split_on.induct)
  case (2 v c s)
  have ne: "split_on v s \<noteq> []" for s by (cases s) (auto split: list.split)
  show ?case
  proof (cases "starts_with v (c # s)")
    case True
    with 2 show ?thesis by auto
  next
    case False
    then obtain q ps where sp: "split_on v s = q # ps" using ne by (cases "split_on v s") auto
    have "\<not> js_includes v (c # q)"
    proof
      assume "js_includes v (c # q)"
      moreover have "\<not> js_includes v q" using 2 False sp by simp
      ultimately obtain b where "c # q = v @ b"
        by (metis append_take_drop_id js_includes.simps(2) starts_with_def)
      moreover have "\<exists>z. s = q @ z"
        using join_split_on [OF 2(3), of s] sp by (cases ps) auto
      ultimately show False using False by (auto simp: starts_with_def) (metis append_Cons append_assoc append_eq_conv_conj)
    qed
    with False 2 sp show ?thesis by auto
  qed
qed simp

text \<open>A text without the separator lies on one of its sides.\<close>

lemma includes_sides:
  assumes "js_includes u (x @ c # y)" "c \<notin> set u" "u \<noteq> []"
  shows "js_includes u x \<or> js_includes u y"
proof -
  obtain a b where ab: "x @ c # y = a @ u @ b" using assms(1) js_includes_iff by blast
  consider "length (a @ u) \<le> length x" | "length x < length a" | "length a \<le> length x" "length x < length (a @ u)"
    by linarith
  then show ?thesis
  proof cases
    case 1
    then have "take (length (a @ u)) x = a @ u"
      using arg_cong [OF ab, of "take (length (a @ u))"] by simp
    then have "x = a @ u @ drop (length (a @ u)) x"
      using append_take_drop_id [of "length (a @ u)" x] by simp
    then show ?thesis using js_includes_iff by blast
  next
    case 2
    then have "y = drop (Suc (length x)) a @ u @ b"
      using arg_cong [OF ab, of "drop (Suc (length x))"] by simp
    then show ?thesis using js_includes_iff by blast
  next
    case 3
    then have "length x - length a < length u" by simp
    with 3 have "(x @ c # y) ! length x \<in> set u"
      unfolding ab by (simp add: nth_append)
    with assms(2) show ?thesis by simp
  qed
qed

lemma includes_join:
  assumes "js_includes u (join (CHR ''['' # mid @ '']'') ps)" "CHR ''['' \<notin> set u" "CHR '']'' \<notin> set u" "u \<noteq> []"
  shows "(\<exists>p\<in>set ps. js_includes u p) \<or> js_includes u mid"
  using assms(1)
proof (induction ps)
  case Nil
  then show ?case using assms(4) by simp
next
  case (Cons p ps)
  show ?case
  proof (cases ps)
    case Nil
    with Cons.prems show ?thesis by simp
  next
    case (Cons q qs)
    then have "js_includes u (p @ CHR ''['' # (mid @ CHR '']'' # join (CHR ''['' # mid @ '']'') ps))"
      using Cons.prems by (simp add: join_Cons)
    from includes_sides [OF this assms(2,4)] includes_sides [OF _ assms(3,4)] Cons.IH show ?thesis by auto
  qed
qed

lemma split_on_parts: "v \<noteq> [] \<Longrightarrow> p \<in> set (split_on v s) \<Longrightarrow> js_includes p s"
proof -
  have "p \<in> set ps \<Longrightarrow> js_includes p (join v ps)" for ps
  proof (induction ps)
    case (Cons q qs)
    show ?case
    proof (cases "p = q")
      case True
      then have "\<exists>z. join v (q # qs) = [] @ p @ z" by (cases qs) auto
      then show ?thesis unfolding js_includes_iff by blast
    next
      case False
      with Cons have "js_includes p (join v qs)" "qs \<noteq> []" by auto
      then have "\<exists>a b. join v (q # qs) = (q @ v @ a) @ p @ b" by (auto simp: js_includes_iff join_Cons)
      then show ?thesis unfolding js_includes_iff by blast
    qed
  qed simp
  then show "v \<noteq> [] \<Longrightarrow> p \<in> set (split_on v s) \<Longrightarrow> js_includes p s"
    using join_split_on by metis
qed

lemma includes_trans: "js_includes u p \<Longrightarrow> js_includes p s \<Longrightarrow> js_includes u s"
  by (auto simp: js_includes_iff) (metis append_assoc)

text \<open>Values that cannot come back through a replacement text\<close>

definition plain_value :: "sensitive_field list \<Rightarrow> string \<Rightarrow> bool" where
  "plain_value declared u \<longleftrightarrow> u \<noteq> [] \<and> CHR ''['' \<notin> set u \<and> CHR '']'' \<notin> set u \<and>
     (\<forall>g\<in>set declared. \<not> js_includes u (''REDACTED:'' @ sf_name g))"

lemma redactField_free:
  assumes "plain_value declared u" "f \<in> set declared" "\<not> js_includes u (fst r) \<or> sf_value f = u"
  shows "\<not> js_includes u (fst (redactField f r))"
proof (cases "length (sf_value f) = 0 \<or> \<not> js_includes (sf_value f) (fst r)")
  case True
  then show ?thesis using assms(1,3) by (cases r) (auto simp: redactField_def plain_value_def)
next
  case False
  then have ne: "sf_value f \<noteq> []" by simp
  have "\<not> js_includes u p" if "p \<in> set (split_on (sf_value f) (fst r))" for p
    using assms(3) split_on_free [OF ne that] split_on_parts [OF ne that] includes_trans by blast
  moreover have "fst (redactField f r) = join (CHR ''['' # (''REDACTED:'' @ sf_name f) @ '']'') (split_on (sf_value f) (fst r))"
    using False by (cases r) (simp add: redactField_def redaction_mark_def)
  ultimately show ?thesis
    using assms(1,2) includes_join [of u "''REDACTED:'' @ sf_name f" "split_on (sf_value f) (fst r)"]
    unfolding plain_value_def by (metis (no_types, lifting))
qed

lemma redactString_free:
  assumes "plain_value declared u" "set fs \<subseteq> set declared" "\<not> js_includes u (fst r) \<or> u \<in> sf_value ` set fs"
  shows "\<not> js_includes u (fst (foldl (\<lambda>r f. redactField f r) r fs))"
  using assms(2,3)
proof (induction fs arbitrary: r)
  case (Cons f fs)
  then have "\<not> js_includes u (fst (redactField f r)) \<or> u \<in> sf_value ` set fs"
    using redactField_free [OF assms(1), of f r] by auto
  with Cons.IH [of "redactField f r"] Cons.prems(1) show ?case by simp
qed simp

text \<open>
  Redaction is complete. If no declared value contains a bracket or occurs in a replacement text, then
  after redaction no declared value occurs in any string of the request, however the values overlap and
  in whatever order they are declared.
\<close>

theorem redaction_removes_declared_values:
  assumes "\<forall>f\<in>set declared. sf_value f \<noteq> [] \<longrightarrow> plain_value declared (sf_value f)"
  shows "\<forall>s\<in>set (strings_in (fst (redactModelInput input declared))). \<forall>f\<in>set declared.
     sf_value f \<noteq> [] \<longrightarrow> \<not> js_includes (sf_value f) s"
proof -
  have str: "\<not> js_includes (sf_value f) (fst (redactStringValue declared s))" if "f \<in> set declared" "sf_value f \<noteq> []" for f s
    using redactString_free [of declared "sf_value f" declared "(s, 0)"] assms that by (auto simp: redactStringValue_def)
  have "s \<in> set (strings_in (fst (redactValue declared input))) \<Longrightarrow> \<exists>s'. s = fst (redactStringValue declared s')" for s
  proof (induction input)
    case (JStr x)
    then show ?case by (auto split: prod.splits intro: exI [of _ x])
  qed (auto simp: Let_def)
  with str show ?thesis unfolding redactModelInput_def by (metis (no_types))
qed

definition demo_fields :: "sensitive_field list" where
  "demo_fields = [\<lparr>sf_name = ''pin'', sf_classification = CONFIDENTIAL, sf_value = ''12''\<rparr>,
     \<lparr>sf_name = ''card'', sf_classification = CONFIDENTIAL, sf_value = ''1234''\<rparr>]"

theorem redaction_removes_declared_values_witness:
  "redactModelInput (JArr [JStr ''pay 1234 now'']) demo_fields = (JArr [JStr ''pay [REDACTED:pin]34 now''], 1) \<and>
     list_all (\<lambda>f. \<not> js_includes (sf_value f) ''pay [REDACTED:pin]34 now'') demo_fields"
proof
  show run: "redactModelInput (JArr [JStr ''pay 1234 now'']) demo_fields = (JArr [JStr ''pay [REDACTED:pin]34 now''], 1)"
    by code_simp
  have "list_all (\<lambda>f. sf_value f \<noteq> [] \<and> CHR ''['' \<notin> set (sf_value f) \<and> CHR '']'' \<notin> set (sf_value f) \<and>
      list_all (\<lambda>g. \<not> js_includes (sf_value f) (''REDACTED:'' @ sf_name g)) demo_fields) demo_fields"
    by code_simp
  then have "\<forall>f\<in>set demo_fields. sf_value f \<noteq> [] \<longrightarrow> plain_value demo_fields (sf_value f)"
    "\<forall>f\<in>set demo_fields. sf_value f \<noteq> []"
    by (auto simp: plain_value_def list_all_iff)
  with redaction_removes_declared_values [OF this(1), of "JArr [JStr ''pay 1234 now'']"]
  show "list_all (\<lambda>f. \<not> js_includes (sf_value f) ''pay [REDACTED:pin]34 now'') demo_fields"
    unfolding run by (simp add: list_all_iff)
qed

end
