(* ===== verification/ModelOpsProps.thy ===== *)
theory ModelOpsProps
  imports Operations PolicyProps Demo
begin

text \<open>
  What the executor guarantees to every operation: it never throws, a refused request reaches neither the
  database nor the provider, and a request that was sent leaves exactly one row that says how it ended.
\<close>

subsection \<open>The effect of one execution\<close>

definition added :: "model_invocation \<Rightarrow> db \<Rightarrow> db" where
  "added m d = d\<lparr>model_invocations := model_invocations d @ [m]\<rparr>"

lemma insertStartedRow_cases:
  "insertStartedRow e cfg fp c n d =
     (if fst (insertStartedRow e cfg fp c n d) = Inr (env_uuid e 0)
      then (Inr (env_uuid e 0), added (startedRow e cfg fp c n) d)
      else (fst (insertStartedRow e cfg fp c n d), d))"
  "fst (insertStartedRow e cfg fp c n d) = Inr i \<Longrightarrow> i = env_uuid e 0 \<and> env_uuid e 0 \<notin> mi_id ` set (model_invocations d) \<and>
     invocation_checks (startedRow e cfg fp c n)"
  by (auto simp: insertStartedRow_def withTenantTransaction_def insert_model_invocation_def insert_into_def tx_defs
      added_def startedRow_def split: if_splits)

text \<open>The update finds the new row only.\<close>

lemma markTerminal_added:
  assumes "mi_id m \<notin> mi_id ` set (model_invocations d)" "mi_tenant_id m = t"
  shows "markTerminal e t (mi_id m) f (added m d) =
     (if invocation_checks (terminalColumns e f m) then (Inr (), added (terminalColumns e f m) d)
      else (Inl (DbError (CheckViolation ''model_invocations'')), added m d))"
proof -
  have others: "mi_id x \<noteq> mi_id m" if "x \<in> set (model_invocations d)" for x
    using assms(1) imageI [OF that, of mi_id] by metis
  have "update_where (\<lambda>x. mi_id x = mi_id m \<and> mi_tenant_id x = t) (terminalColumns e f) (model_invocations d) = model_invocations d"
    by (rule update_where_id) (simp add: others)
  moreover have "list_all (\<lambda>x. mi_id x = mi_id m \<and> mi_tenant_id x = t \<longrightarrow> invocation_checks (terminalColumns e f x)) (model_invocations d)"
    using others by (auto simp: list_all_iff)
  ultimately show ?thesis
    using assms(2)
    by (simp add: markTerminal_def withTenantTransaction_def tx_defs require_def Let_def added_def)
qed

lemma terminalColumns_simps [simp]:
  "mi_id (terminalColumns e f m) = mi_id m" "mi_tenant_id (terminalColumns e f m) = mi_tenant_id m"
  "mi_status (terminalColumns e f m) = tf_status f" "mi_cognitive_run_id (terminalColumns e f m) = mi_cognitive_run_id m"
  "mi_response_fingerprint (terminalColumns e f m) = tf_responseFingerprint f"
  "mi_completed_at (terminalColumns e f m) = Some (env_now e 4)" "mi_error_class (terminalColumns e f m) = tf_errorClass f"
  "mi_operation_kind (terminalColumns e f m) = mi_operation_kind m" "mi_provider (terminalColumns e f m) = mi_provider m"
  "mi_model (terminalColumns e f m) = mi_model m" "mi_invocation_key (terminalColumns e f m) = mi_invocation_key m"
  by (simp_all add: terminalColumns_def)

lemma startedRow_simps [simp]:
  "mi_id (startedRow e cfg fp c n) = env_uuid e 0" "mi_tenant_id (startedRow e cfg fp c n) = oc_tenantId cfg"
  "mi_status (startedRow e cfg fp c n) = STARTED" "mi_cognitive_run_id (startedRow e cfg fp c n) = oc_cognitiveRunId cfg"
  "mi_completed_at (startedRow e cfg fp c n) = None" "mi_operation_kind (startedRow e cfg fp c n) = oc_operationKind cfg"
  "mi_provider (startedRow e cfg fp c n) = oc_providerId cfg" "mi_model (startedRow e cfg fp c n) = oc_modelId cfg"
  "mi_invocation_key (startedRow e cfg fp c n) = oc_invocationKey cfg"
  by (simp_all add: startedRow_def)

text \<open>
  How the recorded row and the reported result agree. A row stays open only if its last write failed: the result says
  so, or the clock of the process went back during a failed call, so that the negative duration violates a check.
\<close>

definition row_agrees :: "number_format \<Rightarrow> env \<Rightarrow> 'p operation_config \<Rightarrow> model_operation_result \<Rightarrow> model_invocation \<Rightarrow> bool" where
  "row_agrees nf e cfg res m \<longleftrightarrow>
     mi_id m = env_uuid e 0 \<and> mi_tenant_id m = oc_tenantId cfg \<and> mi_cognitive_run_id m = oc_cognitiveRunId cfg \<and>
     mi_operation_kind m = oc_operationKind cfg \<and> mi_provider m = oc_providerId cfg \<and> mi_model m = oc_modelId cfg \<and>
     mi_invocation_key m = oc_invocationKey cfg \<and>
     (case res of
        Succeeded value source i \<Rightarrow> i = env_uuid e 0 \<and> source = MODEL \<and> mi_status m = SUCCEEDED \<and>
          mi_completed_at m \<noteq> None \<and> mi_error_class m = None \<and> mi_response_fingerprint m = Some (fingerprint nf e value)
      | NotSucceeded kind retryable i \<Rightarrow> i = Some (env_uuid e 0) \<and>
          (mi_status m = (if kind = TIMEOUT then TIMED_OUT else INV_FAILED) \<and> mi_completed_at m \<noteq> None \<and> mi_error_class m \<noteq> None \<or>
           mi_status m = STARTED \<and> mi_completed_at m = None \<and> (kind = PERSISTENCE_FAILURE \<or> env_now e 3 < env_now e 1)))"

text \<open>The columns of a failed call satisfy the checks of the table unless the clock went back.\<close>

lemma failure_storable:
  "invocation_checks m \<Longrightarrow> env_now e 1 \<le> env_now e 3 \<Longrightarrow> invocation_checks (terminalColumns e (failureFields e f) m)"
  by (simp add: invocation_checks_def terminalColumns_def failureFields_def nonneg_or_null_def)

text \<open>A run of the row that was just inserted\<close>

lemma runInvocation_effect:
  assumes "mi_id m \<notin> mi_id ` set (model_invocations d)" "m = startedRow e cfg fp c n" "invocation_checks m"
  obtains res m' where "runInvocation nf e cfg input (mi_id m) (added m d, p) =
      (Inr res, (added m' d, snd (oc_callProvider cfg input p)))" "row_agrees nf e cfg res m'"
proof -
  obtain outcome p' where call: "oc_callProvider cfg input p = (outcome, p')" by fastforce
  have own: "mi_tenant_id m = oc_tenantId cfg" "mi_id m = env_uuid e 0" "mi_cognitive_run_id m = oc_cognitiveRunId cfg"
    "mi_operation_kind m = oc_operationKind cfg" "mi_provider m = oc_providerId cfg" "mi_model m = oc_modelId cfg"
    "mi_invocation_key m = oc_invocationKey cfg" "mi_status m = STARTED" "mi_completed_at m = None"
    by (simp_all add: assms(2))
  note run = runInvocation_def callProvider_def call obind_def oreturn_def attempt_def on_db_def
    markTerminal_added [OF assms(1) own(1), unfolded own(2)]
  show thesis
  proof (cases "judgeOutcome (oc_outputSchema cfg input) outcome")
    case (Inl f)
    let ?stored = "invocation_checks (terminalColumns e (failureFields e f) m)"
    have clock: "env_now e 3 < env_now e 1" if "\<not> ?stored" using that failure_storable [OF assms(3), of e f] by linarith
    show thesis
    proof (cases "cf_class f = ''ModelOperationPersistenceError'' \<or> \<not> ?stored")
      case True
      show thesis
        by (rule that [of "NotSucceeded (if cf_class f = ''ModelOperationPersistenceError'' then PERSISTENCE_FAILURE else cf_kind f)
              (cf_class f = ''ModelOperationPersistenceError'' \<or> cf_retryable f) (Some (mi_id m))" m])
          (use own Inl True clock in \<open>auto simp: run row_agrees_def\<close>)
    next
      case False
      show thesis
        by (rule that [of "NotSucceeded (cf_kind f) (cf_retryable f) (Some (mi_id m))" "terminalColumns e (failureFields e f) m"])
          (use own Inl False in \<open>auto simp: run row_agrees_def failureFields_def\<close>)
    qed
  next
    case (Inr vr)
    obtain v r where vr: "vr = (v, r)" by fastforce
    show thesis
      by (rule that [of "if invocation_checks (terminalColumns e (successFields nf e v r) m) then Succeeded v MODEL (mi_id m)
            else NotSucceeded PERSISTENCE_FAILURE True (Some (mi_id m))"
          "if invocation_checks (terminalColumns e (successFields nf e v r) m) then terminalColumns e (successFields nf e v r) m
           else m"])
        (use own Inr vr in \<open>auto simp: run row_agrees_def successFields_def split: if_splits\<close>)
  qed
qed

lemma executeModelOperation_effect:
  assumes "executeModelOperation nf v e cfg (d, p) = (r, (d', p'))"
  obtains (unsent) kind retryable where "r = Inr (NotSucceeded kind retryable None)" "d' = d" "p' = p"
  | (sent) res m where "r = Inr res" "d' = added m d" "row_agrees nf e cfg res m" "mi_id m \<notin> mi_id ` set (model_invocations d)"
      "\<exists>input. p' = snd (oc_callProvider cfg input p)"
proof -
  let ?fields = "or_default [] (Option.bind (oc_contentPolicy cfg) cp_declaredFields)"
  let ?decision = "decideContentPolicy (evaluateModelInput (json_stringify nf (oc_input cfg)) ?fields (configuredProviderSecrets v))
      (oc_providerId cfg)
      (or_default (defaultApprovedProvidersForConfidential v) (Option.bind (oc_contentPolicy cfg) cp_approvedProvidersForConfidential))
      (or_default False (Option.bind (oc_contentPolicy cfg) cp_restrictedAllowed))"
  show thesis
  proof (cases ?decision)
    case (Denied c reason)
    with assms show thesis
      by (intro unsent) (auto simp: executeModelOperation_def Let_def oreturn_def)
  next
    case (Allowed c redact)
    define sent_input where "sent_input = (if redact then redactModelInput (oc_input cfg) ?fields else (oc_input cfg, 0))"
    obtain input n where inp: "sent_input = (input, n)" by fastforce
    let ?ins = "insertStartedRow e cfg (fingerprint nf e input) c n d"
    let ?m = "startedRow e cfg (fingerprint nf e input) c n"
    have run: "executeModelOperation nf v e cfg (d, p) =
        (case ?ins of (Inl _, d1) \<Rightarrow> (Inr (NotSucceeded PERSISTENCE_FAILURE True None), (d1, p))
         | (Inr i, d1) \<Rightarrow> runInvocation nf e cfg input i (d1, p))"
      using inp unfolding sent_input_def
      by (simp add: executeModelOperation_def Allowed Let_def obind_def attempt_def on_db_def oreturn_def split: prod.split sum.split)
    show thesis
    proof (cases "fst ?ins")
      case (Inl err)
      then have "?ins = (Inl err, d)" by (subst insertStartedRow_cases(1)) simp
      with assms run show thesis by (intro unsent) auto
    next
      case (Inr i)
      with insertStartedRow_cases(2) [OF Inr] have i: "i = env_uuid e 0" and fresh: "mi_id ?m \<notin> mi_id ` set (model_invocations d)"
        and checks: "invocation_checks ?m" by simp_all
      from Inr i have "?ins = (Inr (env_uuid e 0), added ?m d)" by (subst insertStartedRow_cases(1)) simp
      with run have ex: "executeModelOperation nf v e cfg (d, p) = runInvocation nf e cfg input (mi_id ?m) (added ?m d, p)"
        by simp
      obtain res m where "runInvocation nf e cfg input (mi_id ?m) (added ?m d, p) = (Inr res, (added m d, snd (oc_callProvider cfg input p)))"
          and agrees: "row_agrees nf e cfg res m"
        by (rule runInvocation_effect [OF fresh refl checks, of nf input p])
      with assms(1) ex have "r = Inr res" "d' = added m d" "p' = snd (oc_callProvider cfg input p)" by simp_all
      moreover have "mi_id m \<notin> mi_id ` set (model_invocations d)" using fresh agrees by (simp add: row_agrees_def)
      ultimately show thesis using sent agrees by blast
    qed
  qed
qed

definition invocation_of :: "model_operation_result \<Rightarrow> uuid option" where
  "invocation_of res = (case res of Succeeded _ _ i \<Rightarrow> Some i | NotSucceeded _ _ i \<Rightarrow> i)"

lemma row_agrees_invocation: "row_agrees nf e cfg res m \<Longrightarrow> invocation_of res = Some (mi_id m)"
  by (auto simp: row_agrees_def invocation_of_def split: model_operation_result.splits)

text \<open>
  C37. The executor never throws. A result without an invocation id means that nothing was sent: the
  database and the provider are as before. A result with one means that exactly one row with a new id was
  appended, nothing else changed in the database, and the provider was called once; that row is the request's (id,
  tenant, run, operation, provider, model and key) and agrees with the reported result. After a success it is
  \<open>SUCCEEDED\<close> and holds the fingerprint of the value. After a failure it is closed, as \<open>TIMED_OUT\<close> for a timeout and
  as failed otherwise, with the class of the error; it is still \<open>STARTED\<close> only if the reported failure is one of
  persistence, or the clock of the process went back during the call.
\<close>

theorem model_invocation_lifecycle:
  "case executeModelOperation nf v e cfg (d, p) of (r, (d', p')) \<Rightarrow>
     \<exists>res. r = Inr res \<and>
       (if invocation_of res = None then d' = d \<and> p' = p
        else \<exists>m. d' = d\<lparr>model_invocations := model_invocations d @ [m]\<rparr> \<and>
               mi_id m \<notin> mi_id ` set (model_invocations d) \<and> row_agrees nf e cfg res m \<and>
               (\<exists>input. p' = snd (oc_callProvider cfg input p)))"
proof -
  obtain r d' p' where ex: "executeModelOperation nf v e cfg (d, p) = (r, (d', p'))" by (metis prod.exhaust)
  show ?thesis
    using ex
  proof (cases rule: executeModelOperation_effect)
    case (unsent kind retryable)
    then show ?thesis by (simp add: ex invocation_of_def)
  next
    case (sent res m)
    then show ?thesis by (simp add: ex row_agrees_invocation) (auto simp: added_def)
  qed
qed

subsection \<open>Secrets\<close>

text \<open>
  C38. A request that contains a configured provider key, carries a declared field of class SECRET or matches
  a secret pattern is never sent, whatever the providers and flags say: the executor refuses it before it
  writes a row or calls the provider.
\<close>

theorem secret_requests_are_never_sent:
  assumes "is_secret (json_stringify nf (oc_input cfg))
      (or_default [] (Option.bind (oc_contentPolicy cfg) cp_declaredFields)) (configuredProviderSecrets v)"
  shows "executeModelOperation nf v e cfg s = (Inr (NotSucceeded SENSITIVE_CONTEXT_BLOCKED False None), s)"
proof -
  obtain reason where "decideContentPolicy
      (evaluateModelInput (json_stringify nf (oc_input cfg))
        (or_default [] (Option.bind (oc_contentPolicy cfg) cp_declaredFields)) (configuredProviderSecrets v))
      (oc_providerId cfg)
      (or_default (defaultApprovedProvidersForConfidential v) (Option.bind (oc_contentPolicy cfg) cp_approvedProvidersForConfidential))
      (or_default False (Option.bind (oc_contentPolicy cfg) cp_restrictedAllowed)) = Denied SECRET reason"
    using secret_is_denied [OF assms] by blast
  then show ?thesis by (simp add: executeModelOperation_def Let_def oreturn_def)
qed

text \<open>A provider that answers every intent request and counts its calls\<close>

definition demo_numbers :: number_format where
  "demo_numbers = \<lparr>nf_string = (\<lambda>_. ''0''), nf_number = (\<lambda>_. Finite 0)\<rparr>"

definition demo_env_vars :: model_env where
  "demo_env_vars = \<lparr>nv_MODEL_PROVIDER = Some ''openai'', nv_ANTHROPIC_API_KEY = None, nv_OPENAI_API_KEY = Some ''key-77'',
     nv_MODEL_POLICY_APPROVED_PROVIDERS = None\<rparr>"

definition demo_opts :: run_options where
  "demo_opts = \<lparr>ro_tenantId = 1, ro_cognitiveRunId = None, ro_invocationKey = ''k'', ro_attemptNumber = None, ro_contentPolicy = None\<rparr>"

definition demo_answer :: "json \<Rightarrow> nat \<Rightarrow> provider_call_result call_outcome \<times> nat" where
  "demo_answer i n = (Resolved \<lparr>pr_output = JObj [(''responseText'', JStr ''yes'')], pr_usage = no_usage, pr_providerRequestId = None,
     pr_providerResponseId = None, pr_resolvedModel = None\<rparr>, Suc n)"

definition demo_config :: "string \<Rightarrow> nat operation_config" where
  "demo_config s = operationConfig response_synthesis ''openai'' ''m'' (\<lambda>_. ResponseSynthesisOutputSchema) demo_answer (JStr s) demo_opts"

lemma demo_config_answers:
  "map_prod id (map_prod (map mi_status \<circ> model_invocations) id)
     (executeModelOperation demo_numbers demo_env_vars demo_env (demo_config ''hello'') (demo_db, 0)) =
   (Inr (Succeeded (JObj [(''responseText'', JStr ''yes'')]) MODEL (env_uuid demo_env 0)), ([SUCCEEDED], 1))"
  by code_simp

theorem secret_requests_are_never_sent_witness:
  "executeModelOperation demo_numbers demo_env_vars demo_env (demo_config ''use key-77'') (demo_db, 0) =
     (Inr (NotSucceeded SENSITIVE_CONTEXT_BLOCKED False None), (demo_db, 0))"
proof (rule secret_requests_are_never_sent)
  have "js_includes ''key-77'' (json_stringify demo_numbers (JStr ''use key-77''))" by code_simp
  then show "is_secret (json_stringify demo_numbers (oc_input (demo_config ''use key-77'')))
      (or_default [] (Option.bind (oc_contentPolicy (demo_config ''use key-77'')) cp_declaredFields))
      (configuredProviderSecrets demo_env_vars)"
    by (simp add: is_secret_def demo_config_def operationConfig_def configuredProviderSecrets_def demo_env_vars_def present_def)
qed

end
