(* ===== verification/ThreadContext.thy ===== *)
theory ThreadContext
  imports Authority Text
begin

text \<open>
  The first stages of a turn (\<open>src/src/elora/normalizeIngress.ts\<close>, \<open>resolveContext.ts\<close>,
  \<open>persistMessage.ts\<close>, \<open>retrieveRelevantMemory.ts\<close>, \<open>assembleThreadContext.ts\<close>): the input is checked
  against the tenant's rows, the message is stored once per correlation id, and what is already known is
  gathered within fixed bounds. An id is its 128-bit value here, however its letters were capitalised.
\<close>

subsection \<open>Ingress\<close>

record elora_ingress =
  ig_tenantId :: string
  ig_workspaceId :: "string option"
  ig_projectId :: "string option"
  ig_threadId :: "string option"
  ig_actorId :: string
  ig_content :: string
  ig_sourceSurface :: "string option"
  ig_sourceCorrelationId :: "string option"
  ig_isSystemInitiated :: "bool option"

record normalized_ingress =
  ni_tenantId :: uuid
  ni_workspaceId :: "uuid option"
  ni_projectId :: "uuid option"
  ni_threadId :: "uuid option"
  ni_actorId :: uuid
  ni_content :: string
  ni_sourceSurface :: "string option"
  ni_sourceCorrelationId :: "string option"
  ni_isSystemInitiated :: bool

definition ingress_error :: "string \<Rightarrow> error" where
  "ingress_error msg = EloraError (EloraInvalidIngressInputError msg)"

definition required_id :: "string \<Rightarrow> string \<Rightarrow> error + uuid" where
  "required_id label s = (case uuid_of_str s of None \<Rightarrow> Inl (ingress_error (label @ '' must be a valid UUID'')) | Some i \<Rightarrow> Inr i)"

definition normalizeOptionalId :: "string \<Rightarrow> string option \<Rightarrow> error + uuid option" where
  "normalizeOptionalId label v =
     (case v of None \<Rightarrow> Inr None
      | Some s \<Rightarrow> (case required_id label s of Inl err \<Rightarrow> Inl err | Inr i \<Rightarrow> Inr (Some i)))"

text \<open>\<open>value?.trim() || null\<close>\<close>

definition trimmed_or_null :: "string option \<Rightarrow> string option" where
  "trimmed_or_null v = (case v of None \<Rightarrow> None | Some s \<Rightarrow> if js_trim s = [] then None else Some (js_trim s))"

definition sum_bind :: "'e + 'a \<Rightarrow> ('a \<Rightarrow> 'e + 'b) \<Rightarrow> 'e + 'b" where
  "sum_bind m f = (case m of Inl err \<Rightarrow> Inl err | Inr x \<Rightarrow> f x)"

definition normalizeIngress :: "elora_ingress \<Rightarrow> error + normalized_ingress" where
  "normalizeIngress inp =
     sum_bind (required_id ''tenantId'' (ig_tenantId inp)) (\<lambda>tenantId.
     sum_bind (required_id ''actorId'' (ig_actorId inp)) (\<lambda>actorId.
     if js_trim (ig_content inp) = [] then Inl (ingress_error ''content must not be empty'')
     else sum_bind (normalizeOptionalId ''workspaceId'' (ig_workspaceId inp)) (\<lambda>workspaceId.
       sum_bind (normalizeOptionalId ''projectId'' (ig_projectId inp)) (\<lambda>projectId.
       sum_bind (normalizeOptionalId ''threadId'' (ig_threadId inp)) (\<lambda>threadId.
       Inr \<lparr>ni_tenantId = tenantId, ni_workspaceId = workspaceId, ni_projectId = projectId, ni_threadId = threadId,
         ni_actorId = actorId, ni_content = js_trim (ig_content inp),
         ni_sourceSurface = trimmed_or_null (ig_sourceSurface inp),
         ni_sourceCorrelationId = trimmed_or_null (ig_sourceCorrelationId inp),
         ni_isSystemInitiated = (ig_isSystemInitiated inp = Some True)\<rparr>)))))"

subsection \<open>Context\<close>

record resolved_context =
  rx_tenantId :: uuid
  rx_workspaceId :: "uuid option"
  rx_projectId :: "uuid option"
  rx_threadId :: "uuid option"
  rx_actorId :: uuid

definition resolveWorkspace :: "client \<Rightarrow> normalized_ingress \<Rightarrow> uuid option dtx" where
  "resolveWorkspace c inp =
     (case ni_projectId inp of
        Some p \<Rightarrow>
          tbind (query (\<lambda>d. first_row (scoped_rows c pj_id pj_tenant_id p (ni_tenantId inp) (projects d)))) (\<lambda>projectRow.
          case projectRow of
            None \<Rightarrow> throw (EloraError (EloraContextResolutionError ''project'' p))
          | Some row \<Rightarrow>
              (case ni_workspaceId inp of
                 Some w \<Rightarrow> if pj_workspace_id row \<noteq> w then throw (EloraError (EloraTenantMismatchError p w (pj_workspace_id row)))
                          else treturn (Some (pj_workspace_id row))
               | None \<Rightarrow> treturn (Some (pj_workspace_id row))))
      | None \<Rightarrow>
          (case ni_workspaceId inp of
             None \<Rightarrow> treturn None
           | Some w \<Rightarrow>
               tbind (query (\<lambda>d. scoped_rows c ws_id ws_tenant_id w (ni_tenantId inp) (workspaces d))) (\<lambda>rows.
               if rows = [] then throw (EloraError (EloraContextResolutionError ''workspace'' w)) else treturn (Some w))))"

definition resolveContext_tx :: "normalized_ingress \<Rightarrow> client \<Rightarrow> resolved_context dtx" where
  "resolveContext_tx inp c =
     tbind (query (\<lambda>d. scoped_rows c ac_id ac_tenant_id (ni_actorId inp) (ni_tenantId inp) (actors d))) (\<lambda>actorRows.
     tbind (ensure (actorRows \<noteq> []) (EloraError (EloraActorNotFoundError (ni_actorId inp)))) (\<lambda>_.
     tbind (resolveWorkspace c inp) (\<lambda>resolvedWorkspaceId.
     tbind (case ni_threadId inp of
         None \<Rightarrow> treturn ()
       | Some th \<Rightarrow>
           tbind (query (\<lambda>d. scoped_rows c th_id th_tenant_id th (ni_tenantId inp) (threads d))) (\<lambda>threadRows.
           ensure (threadRows \<noteq> []) (EloraError (EloraContextResolutionError ''thread'' th)))) (\<lambda>_.
     treturn \<lparr>rx_tenantId = ni_tenantId inp, rx_workspaceId = resolvedWorkspaceId, rx_projectId = ni_projectId inp,
       rx_threadId = ni_threadId inp, rx_actorId = ni_actorId inp\<rparr>))))"

definition resolveContext :: "env \<Rightarrow> normalized_ingress \<Rightarrow> resolved_context dop" where
  "resolveContext e inp = withTenantTransaction e (ni_tenantId inp) (resolveContext_tx inp)"

subsection \<open>Messages\<close>

record persist_message_input =
  pm_context :: resolved_context
  pm_content :: string
  pm_sourceSurface :: "string option"
  pm_sourceCorrelationId :: "string option"

record persisted_message =
  pd_threadId :: uuid
  pd_messageId :: uuid
  pd_content :: string
  pd_isDuplicate :: bool

definition threadRow :: "env \<Rightarrow> persist_message_input \<Rightarrow> thread" where
  "threadRow e inp = \<lparr>th_id = env_uuid e 0, th_tenant_id = rx_tenantId (pm_context inp),
     th_workspace_id = rx_workspaceId (pm_context inp), th_project_id = rx_projectId (pm_context inp),
     th_title = take 120 (pm_content inp), th_originating_surface = pm_sourceSurface inp\<rparr>"

definition userMessageRow :: "env \<Rightarrow> persist_message_input \<Rightarrow> uuid \<Rightarrow> message" where
  "userMessageRow e inp threadId = \<lparr>ms_id = env_uuid e 1, ms_tenant_id = rx_tenantId (pm_context inp), ms_thread_id = threadId,
     ms_actor_id = rx_actorId (pm_context inp), ms_role = ''user'', ms_content = pm_content inp,
     ms_source_surface = pm_sourceSurface inp, ms_source_correlation_id = pm_sourceCorrelationId inp,
     ms_created_at = env_db_now e 0\<rparr>"

definition openThread :: "env \<Rightarrow> persist_message_input \<Rightarrow> uuid dtx" where
  "openThread e inp =
     (case rx_threadId (pm_context inp) of
        Some th \<Rightarrow> treturn th
      | None \<Rightarrow> tbind (rethrow (on_db_error (\<lambda>x. EloraError (EloraThreadPersistenceError x))) (insert_thread (threadRow e inp)))
                  (\<lambda>_. treturn (env_uuid e 0)))"

definition correlatedMessage :: "client \<Rightarrow> persist_message_input \<Rightarrow> uuid \<Rightarrow> message option dtx" where
  "correlatedMessage c inp threadId =
     (case pm_sourceCorrelationId inp of
        None \<Rightarrow> treturn None
      | Some k \<Rightarrow> query (\<lambda>d. first_row (order_by_asc ms_created_at (filter
          (\<lambda>m. ms_tenant_id m = rx_tenantId (pm_context inp) \<and> ms_thread_id m = threadId \<and> ms_source_correlation_id m = Some k)
          (rls_rows c ms_tenant_id (messages d))))))"

definition persistMessage_tx :: "env \<Rightarrow> persist_message_input \<Rightarrow> client \<Rightarrow> persisted_message dtx" where
  "persistMessage_tx e inp c =
     tbind (openThread e inp) (\<lambda>threadId.
     tbind (correlatedMessage c inp threadId) (\<lambda>existing.
     case existing of
       Some m \<Rightarrow> treturn \<lparr>pd_threadId = threadId, pd_messageId = ms_id m, pd_content = ms_content m, pd_isDuplicate = True\<rparr>
     | None \<Rightarrow>
         tbind (rethrow (on_db_error (\<lambda>x. EloraError (EloraMessagePersistenceError x)))
             (insert_message (userMessageRow e inp threadId))) (\<lambda>_.
         treturn \<lparr>pd_threadId = threadId, pd_messageId = env_uuid e 1, pd_content = pm_content inp, pd_isDuplicate = False\<rparr>)))"

definition persistMessage :: "env \<Rightarrow> persist_message_input \<Rightarrow> persisted_message dop" where
  "persistMessage e inp = withTenantTransaction e (rx_tenantId (pm_context inp)) (persistMessage_tx e inp)"

definition assistantRow :: "env \<Rightarrow> uuid \<Rightarrow> uuid \<Rightarrow> uuid \<Rightarrow> string \<Rightarrow> message" where
  "assistantRow e tenantId threadId actorId content = \<lparr>ms_id = env_uuid e 0, ms_tenant_id = tenantId, ms_thread_id = threadId,
     ms_actor_id = actorId, ms_role = ''assistant'', ms_content = content, ms_source_surface = None,
     ms_source_correlation_id = None, ms_created_at = env_db_now e 0\<rparr>"

definition persistAssistantReply :: "env \<Rightarrow> uuid \<Rightarrow> uuid \<Rightarrow> uuid \<Rightarrow> string \<Rightarrow> unit dop" where
  "persistAssistantReply e tenantId threadId actorId content = withTenantTransaction e tenantId (\<lambda>_.
     rethrow (on_db_error (\<lambda>x. EloraError (EloraMessagePersistenceError x)))
       (insert_message (assistantRow e tenantId threadId actorId content)))"

subsection \<open>Memory by words\<close>

record retrieved_memory =
  rm_id :: uuid
  rm_content :: string
  rm_recordType :: "string option"
  rm_scope :: "string option"

text \<open>
  \<open>split(/[^a-z0-9]+/)\<close>, except that a run of separators yields empty words between them; the filter on the
  length drops those as well. A \<open>Set\<close> keeps the first of equal elements.
\<close>

fun split_words :: "string \<Rightarrow> string list" where
  "split_words [] = [[]]"
| "split_words (c # s) = (let ws = split_words s in
     if is_digit_char c \<or> (is_alpha_char c \<and> lower_char c = c) then (c # hd ws) # tl ws else [] # ws)"

fun first_occurrences :: "'a list \<Rightarrow> 'a list" where
  "first_occurrences [] = []"
| "first_occurrences (x # xs) = x # first_occurrences (filter (\<lambda>y. y \<noteq> x) xs)"

definition STOPWORD_MIN_LENGTH :: nat where
  "STOPWORD_MIN_LENGTH = 4"

definition memory_tokens :: "string \<Rightarrow> string list" where
  "memory_tokens content = first_occurrences
     (filter (\<lambda>word. STOPWORD_MIN_LENGTH \<le> length word) (split_words (map lower_char content)))"

text \<open>\<open>content ILIKE '%token%'\<close>: a token has no wildcard in it.\<close>

definition ilike_contains :: "string \<Rightarrow> string \<Rightarrow> bool" where
  "ilike_contains token content = list_ex (\<lambda>i. take (length token) (drop i (map lower_char content)) = token) [0..<Suc (length content)]"

record retrieve_memory_input =
  rq_tenantId :: uuid
  rq_queryText :: string
  rq_limit :: "nat option"
  rq_requestingPersonaDomain :: "string option"

definition toRetrieved :: "memory_record \<Rightarrow> retrieved_memory" where
  "toRetrieved r = \<lparr>rm_id = mr_id r, rm_content = mr_content r, rm_recordType = mr_record_type r, rm_scope = mr_scope r\<rparr>"

definition domain_order :: "string option \<Rightarrow> memory_record list \<Rightarrow> memory_record list" where
  "domain_order dmn rows =
     (let recent = order_by_desc mr_created_at rows in
      case dmn of
        None \<Rightarrow> recent
      | Some s \<Rightarrow> if s = [] then recent
                  else filter (\<lambda>r. mr_scope r = Some s) recent @ filter (\<lambda>r. mr_scope r \<noteq> Some s) recent)"

definition retrieveRelevantMemory :: "env \<Rightarrow> retrieve_memory_input \<Rightarrow> retrieved_memory list dop" where
  "retrieveRelevantMemory e inp =
     (let limit = (case rq_limit inp of None \<Rightarrow> 5 | Some n \<Rightarrow> n); tokens = memory_tokens (rq_queryText inp) in
      if tokens = [] then oreturn []
      else withTenantTransaction e (rq_tenantId inp) (\<lambda>c. query (\<lambda>d. map toRetrieved (take limit
        (domain_order (rq_requestingPersonaDomain inp) (filter
          (\<lambda>r. mr_tenant_id r = rq_tenantId inp \<and> mr_deleted_at r = None \<and> list_ex (\<lambda>token. ilike_contains token (mr_content r)) tokens)
          (rls_rows c mr_tenant_id (memory_records d))))))))"

subsection \<open>Thread context\<close>

definition MAX_RECENT_MESSAGES :: nat where
  "MAX_RECENT_MESSAGES = 20"

definition MAX_THREAD_CONTEXT_CHARS :: nat where
  "MAX_THREAD_CONTEXT_CHARS = 20000"

definition MAX_MEMORY_SNIPPET_CHARS :: nat where
  "MAX_MEMORY_SNIPPET_CHARS = 200"

definition boundToCharBudget :: "string \<Rightarrow> nat \<Rightarrow> string" where
  "boundToCharBudget txt_in maxChars =
     (if length txt_in \<le> maxChars then txt_in
      else take maxChars txt_in @ [CHR 0x0A] @ ''[... truncated, '' @ nat_digits (length txt_in) @ '' chars total, over the '' @
        nat_digits maxChars @ ''-char thread-context budget]'')"

definition context_lines :: "message list \<Rightarrow> retrieved_memory list \<Rightarrow> string list" where
  "context_lines rows memory =
     (if rows \<noteq> [] then ''Recent thread history (oldest first):'' # map (\<lambda>m. ms_role m @ '': '' @ ms_content m) (rev rows) else []) @
     (if memory \<noteq> [] then ''Relevant prior memory on record:'' #
        map (\<lambda>r. ''- '' @ take MAX_MEMORY_SNIPPET_CHARS (rm_content r)) memory else [])"

definition assembleThreadContext :: "env \<Rightarrow> uuid \<Rightarrow> uuid \<Rightarrow> retrieved_memory list \<Rightarrow> string option dop" where
  "assembleThreadContext e tenantId threadId memory =
     obind (withTenantTransaction e tenantId (\<lambda>c. query (\<lambda>d. take MAX_RECENT_MESSAGES (order_by_desc ms_created_at
       (filter (\<lambda>m. ms_tenant_id m = tenantId \<and> ms_thread_id m = threadId) (rls_rows c ms_tenant_id (messages d))))))) (\<lambda>rows.
     oreturn (if rows = [] \<and> memory = [] then None
       else Some (boundToCharBudget (join [CHR 0x0A] (context_lines rows memory)) MAX_THREAD_CONTEXT_CHARS)))"

end
