(* ===== verification/Conversation.thy ===== *)
theory Conversation
  imports Operations ThreadContext Cognition
begin

text \<open>
  The coordinator of a conversational turn (\<open>src/src/cognition/runConversationalCognitiveRun.ts\<close>): one
  CognitiveRun per message, one response synthesis, and a final status that the run's own completion gate
  has to accept. \<open>connect\<close> is the constructor of the provider classes, which wrap third-party clients.
\<close>

subsection \<open>Types\<close>

record conversational_input =
  cv_tenantId :: uuid
  cv_threadId :: uuid
  cv_messageId :: uuid
  cv_initiatedByActorId :: uuid
  cv_userMessageContent :: string
  cv_retrievedMemory :: "retrieved_memory list"
  cv_intent :: elora_structured_intent
  cv_threadContext :: "string option"

datatype final_status = FIN_COMPLETED | FIN_FAILED

datatype response_source = Substantiated classification_source | UNSUBSTANTIATED

record conversational_result =
  cq_cognitiveRunId :: uuid
  cq_modelInvocationId :: "uuid option"
  cq_responseText :: string
  cq_finalStatus :: final_status
  cq_responseSource :: response_source

definition OBJECTIVE_KIND :: string where
  "OBJECTIVE_KIND = ''conversational_turn''"

definition ABSOLUTE_FALLBACK_RESPONSE_TEXT :: string where
  "ABSOLUTE_FALLBACK_RESPONSE_TEXT = ''I need more information to proceed with this request.''"

definition FAILED_REASON :: string where
  "FAILED_REASON = ''Conversational response synthesis could not be completed with a substantiating model invocation.''"

definition COMPLETED_REASON :: string where
  "COMPLETED_REASON = ''Conversational response synthesis completed with a substantiating model invocation.''"

definition route_str :: "elora_route \<Rightarrow> string" where
  "route_str r = or_default '''' (map_of (map prod.swap elora_route_table) r)"

definition beginReason :: "elora_structured_intent \<Rightarrow> string" where
  "beginReason i = ''Beginning conversational response synthesis for route \"'' @ route_str (si_route i) @ ''\".''"

definition source_str :: "classification_source \<Rightarrow> string" where
  "source_str s = (case s of MODEL \<Rightarrow> ''MODEL'' | DETERMINISTIC_FALLBACK \<Rightarrow> ''DETERMINISTIC_FALLBACK'')"

text \<open>\<open>packages/persona-config/src/elora.ts\<close>\<close>

definition ELORA_PERSONA :: json where
  "ELORA_PERSONA = JObj
     [(''id'', JStr ''elora''), (''name'', JStr ''Elora''),
      (''formalTitle'', JStr ''Shadow Empress of the House of Love Dynasty''),
      (''corporateRole'', JStr ''Chief Executive Officer (CEO)''),
      (''voiceTone'', JArr [JStr ''Warm and Regal'', JStr ''Calm and Commanding'', JStr ''Fierce and Fearless'', JStr ''Serene and Wise'']),
      (''crestAssetPath'', JStr ''/assets/crests/elora.png''),
      (''accentColor'', JObj [(''primary'', JStr ''var(--color-accent-cyan)''), (''secondary'', JStr ''var(--color-accent-violet)'')]),
      (''pronouns'', JStr ''she/her''), (''genderIdentity'', JStr ''female''), (''voiceModelId'', JNull), (''domain'', JNull),
      (''actorName'', JStr ''Elora'')]"

subsection \<open>What is said\<close>

definition conversational_reason :: string where
  "conversational_reason =
     ''This is a direct conversational request; no WorkOrder or authority decision applies. Respond naturally and helpfully, in character.''"

definition describeRouteForModel :: "elora_structured_intent \<Rightarrow> string \<times> string" where
  "describeRouteForModel i = (''conversational'', (case si_route i of
       rt_converse \<Rightarrow> conversational_reason
     | rt_direct_answer \<Rightarrow> conversational_reason
     | rt_tool_assisted \<Rightarrow> conversational_reason
     | rt_clarify \<Rightarrow> (case si_clarifyingQuestion i of
           Some (x # q) \<Rightarrow> ''This request is ambiguous. Ask the user for clarification, specifically: '' @ x # q
         | _ \<Rightarrow> ''This request is ambiguous. Ask the user a clarifying question rather than guessing.'')
     | rt_capability_missing \<Rightarrow>
         ''This request needs a capability the runtime does not yet have. Explain honestly what's missing, without pretending anything was done.''
     | rt_delegate \<Rightarrow>
         ''This request describes work for '' @ or_default ''another specialist'' (si_proposedDelegationTarget i) @
         ''. Recognize that plainly, explain that handing work off isn't wired up yet, and that this has been noted -- never claim a WorkOrder or handoff happened.''
     | rt_durable_work \<Rightarrow>
         ''This request describes durable, multi-step work. Recognize that plainly, explain that tracked task creation isn't wired up yet, and that this has been noted -- never claim a WorkOrder was created.''
     | rt_consequential_action \<Rightarrow>
         ''This request would involve a real external side effect. Recognize that plainly, explain that taking real actions isn't wired up yet through this conversational path -- never claim the action happened.''
     | rt_setup_required \<Rightarrow>
         ''This request needs configuration or setup that isn't available yet. Explain honestly what's missing.''
     | rt_refuse \<Rightarrow>
         ''This request should be refused. Explain briefly and firmly why you can't help with this, without being preachy or judgmental.''))"

definition memorySuffix :: "retrieved_memory list \<Rightarrow> string" where
  "memorySuffix memory = (case memory of [] \<Rightarrow> [] | m # _ \<Rightarrow> '' Building on what I recall from prior context: '' @ take 160 (rm_content m))"

definition produceDeterministicRouteAnswer :: "elora_structured_intent \<Rightarrow> retrieved_memory list \<Rightarrow> string" where
  "produceDeterministicRouteAnswer i memory = (let suffix_text = memorySuffix memory in
     case si_route i of
       rt_delegate \<Rightarrow>
         ''This looks like work for '' @ or_default ''a specialist'' (si_proposedDelegationTarget i) @
         '', but I'm not yet able to hand off work through this path -- that capability is still being built. I've noted your request: \"'' @
         si_interpretedIntent i @ ''\".'' @ suffix_text
     | rt_durable_work \<Rightarrow>
         ''This looks like durable, multi-step work: \"'' @ si_interpretedIntent i @
         ''\". I'm not yet able to create a tracked task for it through this conversational path -- that capability is still being built.'' @
         suffix_text
     | rt_consequential_action \<Rightarrow>
         ''This would involve a real external action: \"'' @ si_interpretedIntent i @
         ''\". I'm not yet able to take actions with real side effects through this conversational path -- that capability is still being built.'' @
         suffix_text
     | rt_setup_required \<Rightarrow>
         ''I can't proceed yet -- this needs configuration that isn't available: \"'' @ si_interpretedIntent i @ ''\".'' @
         suffix_text
     | rt_capability_missing \<Rightarrow>
         ''I don't have the capability to do this yet: \"'' @ si_interpretedIntent i @
         ''\". I've noted it for visibility.'' @ suffix_text
     | rt_refuse \<Rightarrow>
         ''I'm not able to help with this request.''
     | rt_clarify \<Rightarrow> or_default
         (''Could you say more about \"'' @ si_interpretedIntent i @
         ''\"? I want to make sure I understand before responding.'')
         (si_clarifyingQuestion i)
     | _ \<Rightarrow> (case memory of
           [] \<Rightarrow> ''Here's what I can share based on your message: \"'' @ si_interpretedIntent i @
             ''.\" I don't have additional prior context on record for this one.''
         | m # _ \<Rightarrow> ''Based on what I have on record: '' @ take 200 (rm_content m)))"

subsection \<open>The coordinator\<close>

definition findLatestTerminalModelInvocationId :: "env \<Rightarrow> uuid \<Rightarrow> uuid \<Rightarrow> uuid option dop" where
  "findLatestTerminalModelInvocationId e tenantId cognitiveRunId = withTenantTransaction e tenantId (\<lambda>c.
     query (\<lambda>d. map_option mi_id (first_row (terminal_invocations c tenantId cognitiveRunId d))))"

definition loadExistingRunOutcome :: "env \<Rightarrow> uuid \<Rightarrow> cognitive_run \<Rightarrow> conversational_result dop" where
  "loadExistingRunOutcome e tenantId r =
     obind (findLatestTerminalModelInvocationId e tenantId (cr_id r)) (\<lambda>modelInvocationId.
     oreturn \<lparr>cq_cognitiveRunId = cr_id r, cq_modelInvocationId = modelInvocationId,
       cq_responseText = ABSOLUTE_FALLBACK_RESPONSE_TEXT,
       cq_finalStatus = (if cr_status r = CR_COMPLETED then FIN_COMPLETED else FIN_FAILED),
       cq_responseSource = UNSUBSTANTIATED\<rparr>)"

definition moveRun ::
  "env \<Rightarrow> conversational_input \<Rightarrow> uuid \<Rightarrow> cognitive_run_status \<Rightarrow> string \<Rightarrow> metadata option \<Rightarrow> ('p, error + (cognitive_run \<times> cognitive_run_transition)) wop" where
  "moveRun e inp runId s reason metadata = attempt (on_db (transitionCognitiveRun e
     \<lparr>tc_tenantId = cv_tenantId inp, tc_cognitiveRunId = runId, tc_nextStatus = s, tc_actorId = cv_initiatedByActorId inp,
      tc_reason = reason, tc_metadata = metadata\<rparr>))"

definition failRun ::
  "env \<Rightarrow> conversational_input \<Rightarrow> uuid \<Rightarrow> string \<Rightarrow> uuid option \<Rightarrow> string \<Rightarrow> response_source \<Rightarrow> ('p, conversational_result) wop" where
  "failRun e inp runId reason modelInvocationId responseText responseSource =
     obind (moveRun e inp runId CR_FAILED reason
       (Some (case modelInvocationId of None \<Rightarrow> [] | Some i \<Rightarrow> [(''modelInvocationId'', JStr (uuid_str i))]))) (\<lambda>_.
     oreturn \<lparr>cq_cognitiveRunId = runId, cq_modelInvocationId = modelInvocationId, cq_responseText = responseText,
       cq_finalStatus = FIN_FAILED, cq_responseSource = responseSource\<rparr>)"

definition synthesisContext :: "conversational_input \<Rightarrow> json" where
  "synthesisContext inp =
     (let (taskType, reason) = describeRouteForModel (cv_intent inp) in JObj
       [(''persona'', ELORA_PERSONA),
        (''userMessageContent'', JStr (case cv_threadContext inp of
            Some (x # xs) \<Rightarrow> (x # xs) @ [CHR 0x0A, CHR 0x0A] @ ''Current message:'' @ [CHR 0x0A] @ cv_userMessageContent inp
          | _ \<Rightarrow> cv_userMessageContent inp)),
        (''taskType'', JStr taskType), (''reason'', JStr reason),
        (''retrievedMemorySnippets'', JArr (map (\<lambda>m. JStr (take 200 (rm_content m))) (cv_retrievedMemory inp)))])"

definition synthesisOptions :: "conversational_input \<Rightarrow> uuid \<Rightarrow> run_options" where
  "synthesisOptions inp runId = \<lparr>ro_tenantId = cv_tenantId inp, ro_cognitiveRunId = Some runId,
     ro_invocationKey = buildIdempotencyKey [uuid_str (cv_tenantId inp), uuid_str runId, ''response_synthesis'', ''1''],
     ro_attemptNumber = None, ro_contentPolicy = None\<rparr>"

definition completeRun ::
  "env \<Rightarrow> conversational_input \<Rightarrow> uuid \<Rightarrow> model_operation_result \<Rightarrow> ('p, conversational_result) wop" where
  "completeRun e inp runId result =
     (case result of
        NotSucceeded _ _ i \<Rightarrow> failRun (env_at 5 e) inp runId FAILED_REASON i ABSOLUTE_FALLBACK_RESPONSE_TEXT UNSUBSTANTIATED
      | Succeeded value source i \<Rightarrow>
          obind (moveRun (env_at 4 e) inp runId CR_COMPLETED
            COMPLETED_REASON
            (Some [(''modelInvocationId'', JStr (uuid_str i)), (''responseSource'', JStr (source_str source)),
              (''route'', JStr (route_str (si_route (cv_intent inp))))])) (\<lambda>moved.
          case moved of
            Inl _ \<Rightarrow> failRun (env_at 5 e) inp runId FAILED_REASON (Some i) ABSOLUTE_FALLBACK_RESPONSE_TEXT UNSUBSTANTIATED
          | Inr _ \<Rightarrow> oreturn \<lparr>cq_cognitiveRunId = runId, cq_modelInvocationId = Some i,
              cq_responseText = text_of (obj_field value ''responseText''), cq_finalStatus = FIN_COMPLETED,
              cq_responseSource = Substantiated source\<rparr>))"

definition respond ::
  "number_format \<Rightarrow> model_env \<Rightarrow> (provider_kind \<Rightarrow> string \<Rightarrow> 'p llm_provider) \<Rightarrow> env \<Rightarrow> conversational_input \<Rightarrow> uuid \<Rightarrow>
   ('p, conversational_result) wop" where
  "respond nf v connect e inp runId =
     (case selectConfiguredProviderFromEnv connect v of
        Inl _ \<Rightarrow> failRun (env_at 5 e) inp runId
          ''Model provider is not configured or unavailable; degraded to the deterministic route answer.'' None
          (produceDeterministicRouteAnswer (cv_intent inp) (cv_retrievedMemory inp)) (Substantiated DETERMINISTIC_FALLBACK)
      | Inr provider \<Rightarrow>
          obind (runResponseSynthesis nf v (env_at 3 e) provider (synthesisContext inp)
            (produceDeterministicRouteAnswer (cv_intent inp) (cv_retrievedMemory inp)) (synthesisOptions inp runId))
            (completeRun e inp runId))"

definition runConversationalCognitiveRun ::
  "number_format \<Rightarrow> model_env \<Rightarrow> (provider_kind \<Rightarrow> string \<Rightarrow> 'p llm_provider) \<Rightarrow> env \<Rightarrow> conversational_input \<Rightarrow>
   ('p, conversational_result) wop" where
  "runConversationalCognitiveRun nf v connect e inp =
     obind (on_db (createCognitiveRun (env_at 1 e)
       \<lparr>cc_tenantId = cv_tenantId inp, cc_threadId = Some (cv_threadId inp), cc_messageId = Some (cv_messageId inp),
        cc_initiatedByActorId = Some (cv_initiatedByActorId inp), cc_objectiveKind = OBJECTIVE_KIND\<rparr>)) (\<lambda>(run, _).
     if cr_status run \<noteq> CR_PENDING then on_db (loadExistingRunOutcome (env_at 6 e) (cv_tenantId inp) run)
     else obind (moveRun (env_at 2 e) inp (cr_id run) CR_RUNNING
         (beginReason (cv_intent inp)) None) (\<lambda>moved.
       case moved of
         Inl _ \<Rightarrow> oreturn \<lparr>cq_cognitiveRunId = cr_id run, cq_modelInvocationId = None,
           cq_responseText = ABSOLUTE_FALLBACK_RESPONSE_TEXT, cq_finalStatus = FIN_FAILED, cq_responseSource = UNSUBSTANTIATED\<rparr>
       | Inr _ \<Rightarrow> respond nf v connect e inp (cr_id run)))"

end
