(* ===== verification/ConversationProps.thy ===== *)
theory ConversationProps
  imports Conversation ModelOpsProps GatewayProps Runtime
begin

text \<open>
  What the coordinator of a conversational turn guarantees. It is composed of engine calls and recorded
  provider calls, so it leads from reachable databases to reachable ones and touches no other tenant; a
  turn reported as completed has a completed run with a finished provider call behind it; a turn that
  was begun before is never answered by a second provider call.
\<close>

subsection \<open>Turns as steps\<close>

text \<open>
  What a relation between databases has to allow so that a whole turn of tenant \<open>t\<close> keeps to it: the two
  engine calls on the run, and the record of one provider call.
\<close>

lemma operationConfig_tenant [simp]: "oc_tenantId (operationConfig k p m s c i opts) = ro_tenantId opts"
  by (simp add: operationConfig_def)

lemma synthesisOptions_tenant [simp]: "ro_tenantId (synthesisOptions inp i) = cv_tenantId inp"
  by (simp add: synthesisOptions_def)

locale turn_contract = db_preorder R for R :: "db \<Rightarrow> db \<Rightarrow> bool" +
  fixes t :: uuid
  assumes run_created: "cc_tenantId ci = t \<Longrightarrow> osteps R (createCognitiveRun e ci)"
    and run_moved: "tc_tenantId mi = t \<Longrightarrow> osteps R (transitionCognitiveRun e mi)"
    and invocation_added: "mi_id m \<notin> mi_id ` set (model_invocations d) \<Longrightarrow> mi_tenant_id m = t \<Longrightarrow> R d (added m d)"
begin

lemma reads: "osteps R (withTenantTransaction e t' (\<lambda>c. query (f c)))"
  by (intro osteps_tx) (simp add: steps_def query_def R_refl)

lemma execute: "oc_tenantId cfg = t \<Longrightarrow> wsteps R (executeModelOperation nf v e cfg)"
  unfolding wsteps_def
proof
  fix s :: "db \<times> 'a"
  assume t: "oc_tenantId cfg = t"
  obtain d p where s: "s = (d, p)" by fastforce
  obtain r d' p' where ex: "executeModelOperation nf v e cfg (d, p) = (r, (d', p'))" by (metis prod.exhaust)
  then have "R d d'"
  proof (cases rule: executeModelOperation_effect)
    case (sent res m)
    then show ?thesis using invocation_added [of m d] t by (simp add: row_agrees_def)
  qed (simp add: R_refl)
  then show "R (fst s) (fst (snd (executeModelOperation nf v e cfg s)))"
    by (simp add: s ex)
qed

lemma synthesis: "ro_tenantId opts = t \<Longrightarrow> wsteps R (runResponseSynthesis nf v e prov input fb opts)"
  unfolding runResponseSynthesis_def by (intro wsteps_obind wsteps_pure execute) simp

lemma move: "cv_tenantId inp = t \<Longrightarrow> wsteps R (moveRun e inp i s reason m)"
  unfolding moveRun_def by (intro wsteps_attempt wsteps_on_db run_moved) simp

lemma fail: "cv_tenantId inp = t \<Longrightarrow> wsteps R (failRun e inp i reason m txt src)"
  unfolding failRun_def by (intro wsteps_obind wsteps_pure move)

lemma complete: "cv_tenantId inp = t \<Longrightarrow> wsteps R (completeRun e inp i res)"
  unfolding completeRun_def
  by (auto intro!: wsteps_obind move fail wsteps_pure split: model_operation_result.split sum.split)

lemma answer: "cv_tenantId inp = t \<Longrightarrow> wsteps R (respond nf v connect e inp i)"
  unfolding respond_def by (auto intro!: wsteps_obind synthesis fail complete split: sum.split)

lemma conversation: "cv_tenantId inp = t \<Longrightarrow> wsteps R (runConversationalCognitiveRun nf v connect e inp)"
  unfolding runConversationalCognitiveRun_def loadExistingRunOutcome_def findLatestTerminalModelInvocationId_def
  by (auto intro!: wsteps_obind wsteps_on_db run_created move answer wsteps_pure osteps_obind reads osteps_pure
      split: prod.split sum.split)

end

definition turn_rel :: "uuid \<Rightarrow> db \<Rightarrow> db \<Rightarrow> bool" where
  "turn_rel t d d' \<longleftrightarrow> (reachable d \<longrightarrow> reachable d') \<and> tenant_frame t d d'"

lemma turn_step: "runtime_step t d d' \<Longrightarrow> turn_rel t d d'"
  using runtime_step_sound by (auto simp: turn_rel_def engine_rel_def intro: reachable.engine)

lemma turn_aside: "aside d d' \<Longrightarrow> tenant_frame t d d' \<Longrightarrow> turn_rel t d d'"
  by (auto simp: turn_rel_def intro: reachable.host)

lemma turn_opI: "(\<And>d. runtime_step t d (snd (m d))) \<Longrightarrow> osteps (turn_rel t) m"
  by (simp add: osteps_def turn_step)

lemma turn_ops:
  "osteps (turn_rel (cw_tenantId wi)) (createWorkOrder e wi)"
  "osteps (turn_rel (tw_tenantId ti)) (transitionWorkOrder e ti)"
  "osteps (turn_rel (dg_tenantId gi)) (writeDelegationReceipt e gi)"
  "osteps (turn_rel (cc_tenantId ci)) (createCognitiveRun e ci)"
  "osteps (turn_rel (tc_tenantId mi)) (transitionCognitiveRun e mi)"
  by (intro turn_opI runtime_step.intros refl)+

lemma turn_added:
  assumes "mi_id m \<notin> mi_id ` set (model_invocations d)" "mi_tenant_id m = t"
  shows "turn_rel t d (added m d)"
proof (rule turn_aside)
  show "aside d (added m d)"
    by (cases d) (simp add: added_def aside_def world_untouched_def wo_untouched_def dir_untouched_def cr_untouched_def
      mem_untouched_def wo_receipts_def wo_refs_ok_def)
  show "tenant_frame t d (added m d)"
    using assms by (auto simp: added_def tenant_frame_defs)
qed

interpretation turn: turn_contract "turn_rel t" t for t
proof unfold_locales
  show "turn_rel t d d" "turn_rel t d d' \<Longrightarrow> turn_rel t d' d'' \<Longrightarrow> turn_rel t d d''" for d d' d''
    by (auto simp: turn_rel_def frame.R_refl intro: frame.R_trans)
qed (use turn_ops(4,5) turn_added in auto)

subsection \<open>Completed turns\<close>

lemma createCognitiveRun_cases:
  "createCognitiveRun_tx e ci c d = Inr (r, d') \<Longrightarrow>
     fetchExistingCognitiveRun ci c d = Inr (r, d') \<or>
     (r = (newCognitiveRunRow e ci, initialCognitiveRunTransition e ci) \<and> d' = after_run_create e ci d)"
  by (auto simp: createCognitiveRun_tx_def tx_simps insert_cognitive_run_def insert_cognitive_run_transition_def
      rowToCognitiveRun_def after_run_create_def newCognitiveRunRow_def initialCognitiveRunTransition_def
      split: if_splits)

lemma fetchExistingRun_row:
  assumes "fetchExistingCognitiveRun ci c d = Inr ((r, t), d')"
  shows "r \<in> set (cognitive_runs d) \<and> cr_tenant_id r = cc_tenantId ci \<and> cr_idempotency_key r = cognitiveRunKey ci"
  using assms
  by (auto simp: fetchExistingCognitiveRun_def tx_simps rowToCognitiveRun_def split: if_splits
      dest!: first_row_filterD set_rls_rows)

lemma createCognitiveRun_result:
  assumes "createCognitiveRun e ci d = (Inr (r, t), d')"
  shows "r \<in> set (cognitive_runs d') \<and> cr_tenant_id r = cc_tenantId ci"
    and "cr_status r \<noteq> CR_PENDING \<Longrightarrow> d' = d"
proof -
  from assms have tx: "createCognitiveRun_tx e ci \<lparr>cl_tenant = cc_tenantId ci, cl_rls = env_rls e\<rparr> d = Inr ((r, t), d')"
    by (simp add: createCognitiveRun_def withTenantTransaction_Inr)
  from createCognitiveRun_cases [OF tx]
  show "r \<in> set (cognitive_runs d') \<and> cr_tenant_id r = cc_tenantId ci" "cr_status r \<noteq> CR_PENDING \<Longrightarrow> d' = d"
    by (auto simp: after_run_create_def newCognitiveRunRow_def dest: fetchExistingRun_row fetchExistingRun_Inr)
qed

lemma terminal_invocations_iff:
  "m \<in> set (terminal_invocations \<lparr>cl_tenant = t, cl_rls = b\<rparr> t i d) \<longleftrightarrow>
     m \<in> set (model_invocations d) \<and> mi_tenant_id m = t \<and> mi_cognitive_run_id m = Some i \<and> mi_status m \<noteq> STARTED"
  by (cases "mi_status m") (auto simp: terminal_invocations_def rls_rows_def)

lemma moveRun_caught: "\<exists>y s'. moveRun e inp i st reason m s = (Inr y, s')"
  by (simp add: moveRun_def attempt_def split: prod.split)

lemma moveRun_completed:
  assumes "moveRun e inp i CR_COMPLETED reason m (d, p) = (Inr (Inr x), (d', p'))"
  obtains r where "r \<in> set (cognitive_runs d')" "cr_id r = i" "cr_tenant_id r = cv_tenantId inp" "cr_status r = CR_COMPLETED"
    "has_evidence d' r" "model_invocations d' = model_invocations d"
proof -
  let ?ti = "\<lparr>tc_tenantId = cv_tenantId inp, tc_cognitiveRunId = i, tc_nextStatus = CR_COMPLETED,
      tc_actorId = cv_initiatedByActorId inp, tc_reason = reason, tc_metadata = m\<rparr>"
  let ?c = "\<lparr>cl_tenant = cv_tenantId inp, cl_rls = env_rls e\<rparr>"
  from assms have "runCognitiveTransition_tx e ?ti False ?c d = Inr (x, d')"
    by (auto simp: moveRun_def attempt_def on_db_def transitionCognitiveRun_def runCognitiveTransition_def
        withTenantTransaction_Inr split: prod.splits)
  then obtain r where r: "r \<in> set (cognitive_runs d)" "cr_id r = i" "cr_tenant_id r = cv_tenantId inp"
      "terminal_invocations ?c (cv_tenantId inp) i d \<noteq> []" "d' = after_run_move e ?ti (cr_status r) d"
    by (rule runCognitiveTransition_Inr) simp
  have inv: "model_invocations d' = model_invocations d" by (simp add: r(5) after_run_move_def)
  have "movedRun e CR_COMPLETED r \<in> set (cognitive_runs d')"
    using r(1-3) by (force simp: r(5) after_run_move_def set_update_where)
  moreover from r(4) obtain y where "y \<in> set (terminal_invocations ?c (cv_tenantId inp) i d)"
    using hd_in_set by blast
  then have "has_evidence d' (movedRun e CR_COMPLETED r)"
    using r(2,3) unfolding terminal_invocations_iff has_evidence_def inv by auto
  ultimately show thesis using r(2,3) inv by (intro that [of "movedRun e CR_COMPLETED r"]) simp_all
qed

lemma synthesis_records:
  assumes "runResponseSynthesis nf v e prov input fb opts (d, p) = (Inr (Succeeded x src i), (d', p'))"
  shows "\<exists>m\<in>set (model_invocations d'). mi_id m = i \<and> mi_cognitive_run_id m = ro_cognitiveRunId opts"
proof -
  let ?cfg = "operationConfig response_synthesis (lp_providerId prov) (lp_modelId prov)
      (\<lambda>_. ResponseSynthesisOutputSchema) (generateResponseCall prov) input opts"
  from assms obtain res where ex: "executeModelOperation nf v e ?cfg (d, p) = (Inr res, (d', p'))"
    and res: "synthesisResult fb res = Succeeded x src i"
    unfolding runResponseSynthesis_def by (auto simp: obind_def oreturn_def split: prod.splits sum.splits)
  from ex show ?thesis
  proof (cases rule: executeModelOperation_effect)
    case (unsent kind retryable)
    with res show ?thesis by (simp add: synthesisResult_def)
  next
    case (sent res' m)
    then have "invocation_of res = Some (mi_id m)" using row_agrees_invocation by fastforce
    then have "mi_id m = i"
      using res by (auto simp: invocation_of_def synthesisResult_def split: model_operation_result.splits option.splits)
    moreover have "mi_cognitive_run_id m = ro_cognitiveRunId opts"
      using sent(3) by (simp add: row_agrees_def operationConfig_def)
    ultimately show ?thesis using sent(2) by (auto simp: added_def)
  qed
qed

lemma failRun_result: "failRun e inp i reason m txt src s = (Inr res, s') \<Longrightarrow> cq_finalStatus res = FIN_FAILED"
  by (auto simp: failRun_def obind_def oreturn_def split: prod.splits sum.splits)

definition turn_run :: "conversational_input \<Rightarrow> create_cognitive_run_input" where
  "turn_run inp = \<lparr>cc_tenantId = cv_tenantId inp, cc_threadId = Some (cv_threadId inp), cc_messageId = Some (cv_messageId inp),
     cc_initiatedByActorId = Some (cv_initiatedByActorId inp), cc_objectiveKind = OBJECTIVE_KIND\<rparr>"

lemma turn_run_tenant [simp]: "cc_tenantId (turn_run inp) = cv_tenantId inp"
  by (simp add: turn_run_def)

text \<open>The three ways a turn can go\<close>

lemma conversation_cases:
  assumes "runConversationalCognitiveRun nf v connect e inp (d, p) = (x, s')"
  obtains (refused) err where "createCognitiveRun (env_at 1 e) (turn_run inp) d = (Inl err, d)" "x = Inl err" "s' = (d, p)"
  | (replayed) r t where "createCognitiveRun (env_at 1 e) (turn_run inp) d = (Inr (r, t), d)" "cr_status r \<noteq> CR_PENDING"
      "on_db (loadExistingRunOutcome (env_at 6 e) (cv_tenantId inp) r) (d, p) = (x, s')"
  | (begun) r t d1 y s2 where "createCognitiveRun (env_at 1 e) (turn_run inp) d = (Inr (r, t), d1)" "cr_status r = CR_PENDING"
      "moveRun (env_at 2 e) inp (cr_id r) CR_RUNNING (beginReason (cv_intent inp)) None (d1, p)
       = (Inr y, s2)"
      "case y of
         Inl _ \<Rightarrow> s' = s2 \<and> (\<exists>res. x = Inr res \<and> cq_finalStatus res = FIN_FAILED)
       | Inr _ \<Rightarrow> respond nf v connect e inp (cr_id r) s2 = (x, s')"
proof -
  obtain z d1 where c: "createCognitiveRun (env_at 1 e) (turn_run inp) d = (z, d1)" by fastforce
  note run = assms [unfolded runConversationalCognitiveRun_def turn_run_def [symmetric]]
  show thesis
  proof (cases z)
    case (Inl err)
    with c have "d1 = d" by (auto simp: createCognitiveRun_def withTenantTransaction_def split: sum.splits)
    with c Inl run show thesis by (intro refused) (auto simp: obind_def on_db_def)
  next
    case (Inr rt)
    obtain r t where rt: "rt = (r, t)" by fastforce
    show thesis
    proof (cases "cr_status r = CR_PENDING")
      case False
      with c createCognitiveRun_result(2) have "d1 = d" unfolding Inr rt by blast
      with False c run show thesis unfolding Inr rt by (intro replayed) (auto simp: obind_def on_db_def)
    next
      case True
      let ?m = "moveRun (env_at 2 e) inp (cr_id r) CR_RUNNING (beginReason (cv_intent inp)) None (d1, p)"
      obtain y s2 where m: "?m = (Inr y, s2)"
        using moveRun_caught by blast
      from run have "(case y of Inl _ \<Rightarrow> oreturn \<lparr>cq_cognitiveRunId = cr_id r, cq_modelInvocationId = None,
           cq_responseText = ABSOLUTE_FALLBACK_RESPONSE_TEXT, cq_finalStatus = FIN_FAILED, cq_responseSource = UNSUBSTANTIATED\<rparr>
         | Inr _ \<Rightarrow> respond nf v connect e inp (cr_id r)) s2 = (x, s')"
        using c True m unfolding Inr rt by (simp add: obind_def on_db_def)
      with c True m show thesis unfolding Inr rt
        by (intro begun) (auto simp: oreturn_def split: sum.splits)
    qed
  qed
qed

text \<open>
  C39. In a reachable database, a turn that the coordinator reports as completed has a completed CognitiveRun of
  its tenant with a finished provider call behind it, and the invocation it reports is recorded for that
  run: the coordinator cannot claim an answer the evidence does not carry.
\<close>

theorem completed_turn_is_substantiated:
  assumes "runConversationalCognitiveRun nf v connect e inp (d, p) = (Inr res, (d', p'))" "reachable d"
    and "cq_finalStatus res = FIN_COMPLETED"
  shows "\<exists>r\<in>set (cognitive_runs d'). cr_id r = cq_cognitiveRunId res \<and> cr_tenant_id r = cv_tenantId inp \<and>
    cr_status r = CR_COMPLETED \<and> has_evidence d' r \<and>
    (\<exists>m\<in>set (model_invocations d'). Some (mi_id m) = cq_modelInvocationId res \<and> mi_cognitive_run_id m = Some (cr_id r))"
  using assms(1)
proof (cases rule: conversation_cases)
  case (replayed r t)
  from replayed(3) have res: "d' = d" "cq_cognitiveRunId res = cr_id r" "cr_status r = CR_COMPLETED"
      "cq_modelInvocationId res = map_option mi_id (first_row (terminal_invocations
         \<lparr>cl_tenant = cv_tenantId inp, cl_rls = env_rls e\<rparr> (cv_tenantId inp) (cr_id r) d))"
    using assms(3)
    by (auto simp: on_db_def loadExistingRunOutcome_def findLatestTerminalModelInvocationId_def obind_def oreturn_def
        withTenantTransaction_def query_def split: prod.splits sum.splits if_splits)
  from createCognitiveRun_result(1) [OF replayed(1)] have r: "r \<in> set (cognitive_runs d)" "cr_tenant_id r = cv_tenantId inp"
    by simp_all
  with reachable_inv [OF assms(2)] res(3) have ev: "has_evidence d r"
    by (auto simp: cr_inv_def cr_consistent_def Let_def)
  let ?ms = "terminal_invocations \<lparr>cl_tenant = cv_tenantId inp, cl_rls = env_rls e\<rparr> (cv_tenantId inp) (cr_id r) d"
  from ev r(2) have "?ms \<noteq> []" unfolding has_evidence_def by (metis empty_iff list.set(1) terminal_invocations_iff)
  then obtain m ms where "?ms = m # ms" by (cases ?ms) auto
  moreover from this have "m \<in> set (model_invocations d) \<and> mi_cognitive_run_id m = Some (cr_id r)"
    by (metis list.set_intros(1) terminal_invocations_iff)
  ultimately show ?thesis using r ev res by auto
next
  case (begun r t d1 y s2)
  then obtain y' where "y = Inr y'" and resp: "respond nf v connect e inp (cr_id r) s2 = (Inr res, (d', p'))"
    using assms(3) by (auto split: sum.splits)
  obtain d2 p2 where s2: "s2 = (d2, p2)" by fastforce
  from resp obtain prov where prov: "selectConfiguredProviderFromEnv connect v = Inr prov"
    using failRun_result assms(3) unfolding respond_def by (fastforce split: sum.splits)
  let ?syn = "runResponseSynthesis nf v (env_at 3 e) prov (synthesisContext inp)
      (produceDeterministicRouteAnswer (cv_intent inp) (cv_retrievedMemory inp)) (synthesisOptions inp (cr_id r)) (d2, p2)"
  from resp prov obtain out d3 p3 where syn: "?syn = (Inr out, (d3, p3))"
    and comp: "completeRun e inp (cr_id r) out (d3, p3) = (Inr res, (d', p'))"
    unfolding respond_def s2 by (auto simp: obind_def split: prod.splits sum.splits)
  from comp obtain x src i where out: "out = Succeeded x src i"
    using failRun_result assms(3) unfolding completeRun_def by (cases out) (fastforce split: model_operation_result.splits)+
  from comp out obtain mv where mv: "moveRun (env_at 4 e) inp (cr_id r) CR_COMPLETED
      COMPLETED_REASON
      (Some [(''modelInvocationId'', JStr (uuid_str i)), (''responseSource'', JStr (source_str src)),
        (''route'', JStr (route_str (si_route (cv_intent inp))))]) (d3, p3) = (Inr (Inr mv), (d', p'))"
    and res: "cq_cognitiveRunId res = cr_id r" "cq_modelInvocationId res = Some i"
    using failRun_result assms(3) unfolding completeRun_def
    by (auto simp: obind_def oreturn_def split: prod.splits sum.splits) fastforce+
  from mv obtain r' where r': "r' \<in> set (cognitive_runs d')" "cr_id r' = cr_id r" "cr_tenant_id r' = cv_tenantId inp"
      "cr_status r' = CR_COMPLETED" "has_evidence d' r'" "model_invocations d' = model_invocations d3"
    by (rule moveRun_completed)
  from synthesis_records [OF syn [unfolded out]] obtain m where
    "m \<in> set (model_invocations d3)" "mi_id m = i" "mi_cognitive_run_id m = Some (cr_id r)"
    by (auto simp: synthesisOptions_def)
  with r' res show ?thesis by (intro bexI [of _ r'] conjI bexI [of _ m]) simp_all
qed simp

subsection \<open>Repeated turns and errors\<close>

lemma createCognitiveRun_existing:
  assumes "r \<in> set (cognitive_runs d)" "cr_tenant_id r = cc_tenantId ci" "cr_idempotency_key r = cognitiveRunKey ci"
  shows "createCognitiveRun_tx e ci c d = fetchExistingCognitiveRun ci c d"
proof -
  have "(cc_tenantId ci, cognitiveRunKey ci) \<in> set (map (\<lambda>r. (cr_tenant_id r, cr_idempotency_key r)) (cognitive_runs d))"
    using assms by force
  then show ?thesis by (simp add: createCognitiveRun_tx_def insert_or_nothing_def tbind_def)
qed

text \<open>
  C40. A turn whose run has left PENDING before is never executed again: the repeated call changes neither the
  database nor the provider's state, whatever it returns.
\<close>

theorem repeated_turn_calls_no_provider:
  assumes "\<exists>r\<in>set (cognitive_runs d). cr_tenant_id r = cv_tenantId inp \<and> cr_idempotency_key r = cognitiveRunKey (turn_run inp)"
    and "\<forall>r\<in>set (cognitive_runs d). cr_tenant_id r = cv_tenantId inp \<and> cr_idempotency_key r = cognitiveRunKey (turn_run inp) \<longrightarrow>
      cr_status r \<noteq> CR_PENDING"
  shows "snd (runConversationalCognitiveRun nf v connect e inp (d, p)) = (d, p)"
proof -
  obtain x s' where run: "runConversationalCognitiveRun nf v connect e inp (d, p) = (x, s')"
    by (metis prod.exhaust)
  then show ?thesis
  proof (cases rule: conversation_cases)
    case (replayed r t)
    then show ?thesis
      by (auto simp: run on_db_def loadExistingRunOutcome_def findLatestTerminalModelInvocationId_def obind_def oreturn_def
          withTenantTransaction_def query_def)
  next
    case (begun r t d1 y s2)
    obtain r0 where "r0 \<in> set (cognitive_runs d)" "cr_tenant_id r0 = cc_tenantId (turn_run inp)"
        "cr_idempotency_key r0 = cognitiveRunKey (turn_run inp)"
      using assms(1) by auto
    from begun(1) have "fetchExistingCognitiveRun (turn_run inp) \<lparr>cl_tenant = cv_tenantId inp, cl_rls = env_rls e\<rparr> d = Inr ((r, t), d1)"
      unfolding createCognitiveRun_def withTenantTransaction_Inr createCognitiveRun_existing [OF \<open>r0 \<in> _\<close> \<open>cr_tenant_id r0 = _\<close> \<open>cr_idempotency_key r0 = _\<close>]
      by simp
    from fetchExistingRun_row [OF this] begun(2) assms(2) show ?thesis by auto
  qed (simp add: run)
qed

lemma failRun_returns: "\<exists>res s'. failRun e inp i reason m txt src s = (Inr res, s')"
proof -
  obtain y s' where "moveRun e inp i CR_FAILED reason
      (Some (case m of None \<Rightarrow> [] | Some i \<Rightarrow> [(''modelInvocationId'', JStr (uuid_str i))])) s = (Inr y, s')"
    using moveRun_caught by blast
  then show ?thesis by (simp add: failRun_def obind_def oreturn_def)
qed

lemma completeRun_returns: "\<exists>res s'. completeRun e inp i out s = (Inr res, s')"
proof (cases out)
  case (NotSucceeded k b j)
  then show ?thesis using failRun_returns by (simp add: completeRun_def del: split_paired_Ex)
next
  case (Succeeded x src j)
  obtain y s1 where m: "moveRun (env_at 4 e) inp i CR_COMPLETED COMPLETED_REASON
      (Some [(''modelInvocationId'', JStr (uuid_str j)), (''responseSource'', JStr (source_str src)),
        (''route'', JStr (route_str (si_route (cv_intent inp))))]) s = (Inr y, s1)"
    using moveRun_caught by blast
  show ?thesis
    unfolding completeRun_def Succeeded model_operation_result.case
    using failRun_returns by (cases y) (simp_all add: obind_def m oreturn_def del: split_paired_Ex)
qed

lemma respond_returns: "\<exists>res s'. respond nf v connect e inp i s = (Inr res, s')"
proof (cases "selectConfiguredProviderFromEnv connect v")
  case (Inl err)
  then show ?thesis using failRun_returns by (simp add: respond_def del: split_paired_Ex)
next
  case (Inr prov)
  let ?cfg = "operationConfig response_synthesis (lp_providerId prov) (lp_modelId prov)
      (\<lambda>_. ResponseSynthesisOutputSchema) (generateResponseCall prov) (synthesisContext inp) (synthesisOptions inp i)"
  obtain d p where s: "s = (d, p)" by fastforce
  obtain r d' p' where ex: "executeModelOperation nf v (env_at 3 e) ?cfg (d, p) = (r, (d', p'))" by (metis prod.exhaust)
  then obtain res where r: "r = Inr res" by (cases rule: executeModelOperation_effect) auto
  show ?thesis
    unfolding respond_def Inr sum.case s runResponseSynthesis_def
    using completeRun_returns by (simp add: obind_def ex r oreturn_def del: split_paired_Ex)
qed

text \<open>
  Once a turn's run exists, nothing escapes as an exception: the coordinator throws only what the creation
  of the run throws, and then neither the database nor the provider has changed.
\<close>

theorem turn_errors_come_from_creation:
  assumes "runConversationalCognitiveRun nf v connect e inp (d, p) = (Inl err, s')"
  shows "createCognitiveRun (env_at 1 e) (turn_run inp) d = (Inl err, d) \<and> s' = (d, p)"
  using assms
proof (cases rule: conversation_cases)
  case (replayed r t)
  then show ?thesis
    by (auto simp: on_db_def loadExistingRunOutcome_def findLatestTerminalModelInvocationId_def obind_def oreturn_def
        withTenantTransaction_def query_def)
next
  case (begun r t d1 y s2)
  obtain res s1 where "respond nf v connect e inp (cr_id r) s2 = (Inr res, s1)" using respond_returns by blast
  with begun(4) show ?thesis by (cases y) auto
qed simp

subsection \<open>A turn evaluated\<close>

definition demo_llm :: "nat llm_provider" where
  "demo_llm = \<lparr>lp_providerId = ''openai'', lp_modelId = ''m'', lp_generateResponse = (\<lambda>_ n. (Resolved ''Hello.'', Suc n)),
     lp_interpretIntent = demo_answer, lp_plan = demo_answer, lp_critique = demo_answer, lp_extract = demo_answer, lp_rerank = demo_answer\<rparr>"

definition demo_turn :: "uuid \<Rightarrow> conversational_input" where
  "demo_turn th = \<lparr>cv_tenantId = 1, cv_threadId = th, cv_messageId = 30, cv_initiatedByActorId = 11, cv_userMessageContent = ''hi'',
     cv_retrievedMemory = [], cv_intent = baseIntent ''hi'' rt_converse ''hi'' 1, cv_threadContext = None\<rparr>"

definition demo_reply :: model_invocation where
  "demo_reply = (startedRow demo_env (demo_config ''hi'') ''f'' INTERNAL 0)\<lparr>mi_id := 400, mi_cognitive_run_id := Some 100, mi_status := SUCCEEDED\<rparr>"

text \<open>The turn of message 30, begun, answered and completed\<close>

definition demo_begun :: db where
  "demo_begun = after_run_create demo_env (turn_run (demo_turn 20)) demo_db"

definition demo_move_run :: "cognitive_run_status \<Rightarrow> transition_cognitive_run_input" where
  "demo_move_run st = \<lparr>tc_tenantId = 1, tc_cognitiveRunId = 100, tc_nextStatus = st, tc_actorId = 11, tc_reason = ''r'', tc_metadata = None\<rparr>"

definition demo_answered :: db where
  "demo_answered = added demo_reply (after_run_move (env_at 1 demo_env) (demo_move_run CR_RUNNING) CR_PENDING demo_begun)"

definition demo_done :: db where
  "demo_done = after_run_move (env_at 2 demo_env) (demo_move_run CR_COMPLETED) CR_RUNNING demo_answered"

lemma demo_begun_step: "snd (createCognitiveRun demo_env (turn_run (demo_turn 20)) demo_db) = demo_begun"
  by (simp add: run_simps createCognitiveRun_def createCognitiveRun_tx_def newCognitiveRunRow_def
      initialCognitiveRunTransition_def rowToCognitiveRun_def cognitiveRunSchema_ok_def objective_kind_ok_def is_alpha_char_def
      lower_char_def is_digit_char_def cognitiveRunKey_def after_run_create_def demo_begun_def turn_run_def demo_turn_def
      OBJECTIVE_KIND_def demo_defs)

lemmas run_move_simps = transitionCognitiveRun_def runCognitiveTransition_def runCognitiveTransition_tx_def lockCognitiveRun_def
  assertValidCognitiveRunTransition_def isValidCognitiveRunTransition_def isTerminalCognitiveRunStatus_def
  TERMINAL_COGNITIVE_RUN_STATUSES_def terminal_invocations_def after_run_move_def cognitiveRunTransitionRow_def
  after_run_create_def newCognitiveRunRow_def initialCognitiveRunTransition_def turn_run_def demo_turn_def

lemma demo_done_steps:
  "snd (transitionCognitiveRun (env_at 1 demo_env) (demo_move_run CR_RUNNING) demo_begun) =
     after_run_move (env_at 1 demo_env) (demo_move_run CR_RUNNING) CR_PENDING demo_begun"
  "snd (transitionCognitiveRun (env_at 2 demo_env) (demo_move_run CR_COMPLETED) demo_answered) = demo_done"
  by (simp_all add: run_simps run_move_simps demo_begun_def demo_answered_def demo_done_def demo_move_run_def added_def
      demo_reply_def demo_config_def operationConfig_def demo_opts_def startedRow_def demo_defs)

lemma demo_done_reachable: "reachable demo_done"
proof -
  have begun: "reachable demo_begun"
    using reachable.engine [OF demo_seed_reachable runtime_step.createCognitiveRun [where d = demo_db and e = demo_env and inp = "turn_run (demo_turn 20)", OF refl]]
    by (simp only: demo_begun_step)
  let ?d = "after_run_move (env_at 1 demo_env) (demo_move_run CR_RUNNING) CR_PENDING demo_begun"
  have "reachable ?d"
    using reachable.engine [OF begun runtime_step.transitionCognitiveRun [where d = demo_begun and e = "env_at 1 demo_env" and inp = "demo_move_run CR_RUNNING", OF refl]]
    by (simp only: demo_done_steps)
  moreover have "turn_rel 1 ?d demo_answered"
    unfolding demo_answered_def
    by (rule turn_added) (simp_all add: demo_reply_def startedRow_def demo_config_def operationConfig_def demo_opts_def
        after_run_move_def demo_begun_def after_run_create_def demo_db_def empty_db_def)
  ultimately have "reachable demo_answered" by (simp add: turn_rel_def)
  then show ?thesis
    using reachable.engine [OF _ runtime_step.transitionCognitiveRun [where d = demo_answered and e = "env_at 2 demo_env" and inp = "demo_move_run CR_COMPLETED", OF refl]]
    by (simp only: demo_done_steps)
qed

lemma demo_done_runs: "map (\<lambda>r. (cr_tenant_id r, cr_idempotency_key r, cr_status r)) (cognitive_runs demo_done) =
    [(1, cognitiveRunKey (turn_run (demo_turn 20)), CR_COMPLETED)]"
  by (simp add: demo_done_def demo_answered_def demo_begun_def after_run_move_def after_run_create_def update_where_def
      newCognitiveRunRow_def movedRun_def demo_move_run_def added_def demo_defs) (simp add: turn_run_def demo_turn_def)

lemma demo_done_schema: "list_all (\<lambda>r. cr_id r = 100 \<and> cognitiveRunSchema_ok r) (cognitive_runs demo_done)"
  by (simp add: demo_done_def demo_answered_def demo_begun_def after_run_move_def after_run_create_def update_where_def
      newCognitiveRunRow_def movedRun_def demo_move_run_def added_def demo_defs cognitiveRunSchema_ok_def cognitiveRunKey_def)
   (simp add: turn_run_def demo_turn_def objective_kind_ok_def is_alpha_char_def lower_char_def is_digit_char_def OBJECTIVE_KIND_def)

lemma demo_done_transitions: "cognitive_run_transitions demo_done = [initialCognitiveRunTransition demo_env (turn_run (demo_turn 20)),
    cognitiveRunTransitionRow (env_at 1 demo_env) (demo_move_run CR_RUNNING) CR_PENDING,
    cognitiveRunTransitionRow (env_at 2 demo_env) (demo_move_run CR_COMPLETED) CR_RUNNING]"
  by (simp add: demo_done_def demo_answered_def demo_begun_def after_run_move_def after_run_create_def added_def demo_db_def empty_db_def)

lemma demo_done_invocations: "model_invocations demo_done = [demo_reply]"
  by (simp add: demo_done_def demo_answered_def demo_begun_def after_run_move_def after_run_create_def added_def demo_db_def empty_db_def)

lemma demo_replay:
  "runConversationalCognitiveRun nf v connect demo_env (demo_turn 20) (demo_done, p) =
     (Inr \<lparr>cq_cognitiveRunId = 100, cq_modelInvocationId = Some 400, cq_responseText = ABSOLUTE_FALLBACK_RESPONSE_TEXT,
       cq_finalStatus = FIN_COMPLETED, cq_responseSource = UNSUBSTANTIATED\<rparr>, (demo_done, p))"
proof -
  obtain r where r: "cognitive_runs demo_done = [r]" "cr_tenant_id r = 1" "cr_status r = CR_COMPLETED"
      "cr_idempotency_key r = cognitiveRunKey (turn_run (demo_turn 20))" "cr_id r = 100" "cognitiveRunSchema_ok r"
    using demo_done_runs demo_done_schema by (auto simp: map_eq_Cons_conv)
  have tx: "createCognitiveRun_tx e (turn_run (demo_turn 20)) c demo_done = fetchExistingCognitiveRun (turn_run (demo_turn 20)) c demo_done" for e c
    by (rule createCognitiveRun_existing [of r]) (simp_all add: r demo_turn_def)
  have "createCognitiveRun (env_at 1 demo_env) (turn_run (demo_turn 20)) demo_done = (Inr (r, initialCognitiveRunTransition demo_env (turn_run (demo_turn 20))), demo_done)"
    unfolding createCognitiveRun_def withTenantTransaction_def tx
    by (simp add: fetchExistingCognitiveRun_def tbind_def query_def lift_result_def rls_rows_def rowToCognitiveRun_def r
        demo_done_transitions treturn_def order_by_asc_def cognitiveRunTransitionRow_def initialCognitiveRunTransition_def
        demo_move_run_def) (simp add: turn_run_def demo_turn_def demo_env_def)
  then show ?thesis
    unfolding runConversationalCognitiveRun_def turn_run_def [symmetric]
    by (simp add: obind_def on_db_def r loadExistingRunOutcome_def findLatestTerminalModelInvocationId_def oreturn_def
        withTenantTransaction_def query_def terminal_invocations_def demo_done_invocations rls_rows_def demo_env_def
        ) (simp add: demo_turn_def demo_reply_def startedRow_def demo_config_def operationConfig_def demo_opts_def demo_env_def)
qed

theorem repeated_turn_calls_no_provider_witness:
  "snd (runConversationalCognitiveRun demo_numbers demo_env_vars (\<lambda>_ _. demo_llm) demo_env (demo_turn 20) (demo_done, 0)) = (demo_done, 0)"
proof -
  obtain r where "cognitive_runs demo_done = [r]" "cr_tenant_id r = 1" "cr_status r = CR_COMPLETED"
      "cr_idempotency_key r = cognitiveRunKey (turn_run (demo_turn 20))"
    using demo_done_runs by (auto simp: map_eq_Cons_conv)
  then show ?thesis
    by (intro repeated_turn_calls_no_provider) (simp_all add: demo_turn_def)
qed

theorem turn_errors_come_from_creation_witness:
  "runConversationalCognitiveRun demo_numbers demo_env_vars (\<lambda>_ _. demo_llm) demo_env (demo_turn 99) (demo_db, 0) =
     (Inl (DbError (ForeignKeyViolation ''cognitive_runs'')), (demo_db, 0))"
proof -
  have "createCognitiveRun (env_at 1 demo_env) (turn_run (demo_turn 99)) demo_db = (Inl (DbError (ForeignKeyViolation ''cognitive_runs'')), demo_db)"
    by (simp add: run_simps createCognitiveRun_def createCognitiveRun_tx_def newCognitiveRunRow_def cognitiveRunKey_def
        cognitiveRunSchema_ok_def objective_kind_ok_def is_alpha_char_def lower_char_def is_digit_char_def turn_run_def demo_turn_def
        OBJECTIVE_KIND_def demo_defs fk_ok_def)
  then have "fst (runConversationalCognitiveRun demo_numbers demo_env_vars (\<lambda>_ _. demo_llm) demo_env (demo_turn 99) (demo_db, 0)) =
      Inl (DbError (ForeignKeyViolation ''cognitive_runs''))"
    unfolding runConversationalCognitiveRun_def turn_run_def [symmetric] by (simp add: obind_def on_db_def)
  then show ?thesis
    using turn_errors_come_from_creation [where nf = demo_numbers and v = demo_env_vars and connect = "\<lambda>_ _. demo_llm" and e = demo_env
        and inp = "demo_turn 99" and d = demo_db and p = 0]
    by (metis prod.collapse)
qed

theorem completed_turn_is_substantiated_witness:
  "\<exists>r. r \<in> set (cognitive_runs demo_done) \<and> cr_id r = 100 \<and> cr_status r = CR_COMPLETED \<and> has_evidence demo_done r"
proof -
  show ?thesis
    using completed_turn_is_substantiated [OF demo_replay demo_done_reachable] by auto
qed

end
