(* ===== verification/Hybrid.thy ===== *)
theory Hybrid
  imports Operations ThreadContext
begin

text \<open>
  Hybrid retrieval (\<open>src/src/elora/memory/retrieveHybridMemory.ts\<close>) and the choice between it and the
  retrieval by words (\<open>retrievalStrategy.ts\<close>). Two candidate lists, one from PostgreSQL's full-text search and
  one from pgvector, are fused by reciprocal ranks. What those extensions compute on a text is a field of
  \<open>pg_search\<close>; \<open>fl\<close> is the rounding of a sum or quotient to a double.
\<close>

subsection \<open>Types\<close>

record pg_search =
  ps_matches :: "string \<Rightarrow> string \<Rightarrow> bool"
  ps_rank :: "string \<Rightarrow> string \<Rightarrow> rat"
  ps_headline :: "string \<Rightarrow> string \<Rightarrow> string"
  ps_cast :: "string \<Rightarrow> string option"
  ps_distance :: "string \<Rightarrow> string \<Rightarrow> rat"
  ps_dateParse :: "string \<Rightarrow> timestamp option"

record hybrid_filters =
  hf_scopes :: "string list option"
  hf_recordTypes :: "string list option"
  hf_currentVersionCreatedAfter :: "string option"
  hf_currentVersionCreatedBefore :: "string option"

record hybrid_input =
  hy_tenantId :: uuid
  hy_queryText :: string
  hy_invocationKey :: string
  hy_attemptNumber :: "int option"
  hy_limit :: "int option"
  hy_candidateLimit :: "int option"
  hy_requestingPersonaDomain :: "string option"
  hy_filters :: "hybrid_filters option"

datatype rank_source = in_fts | in_vector

datatype vector_status = AVAILABLE | PROVIDER_FAILED | VEC_TIMED_OUT | POLICY_BLOCKED | PERSISTENCE_FAILED

record rrf_entry =
  fe_id :: uuid
  fe_rrfScore :: rat
  fe_ftsRank :: "nat option"
  fe_vectorRank :: "nat option"
  fe_sources :: "rank_source list"

record candidate_row =
  cn_memory_record_id :: uuid
  cn_source_candidate_id :: "uuid option"
  cn_record_type :: "string option"
  cn_scope :: "string option"
  cn_memory_record_version_id :: uuid
  cn_version_number :: nat
  cn_content :: string
  cn_version_created_at :: timestamp
  cn_matched_snippet :: "string option"
  cn_score :: rat

record hybrid_record =
  hr_record :: retrieved_memory
  hr_memoryRecordVersionId :: uuid
  hr_versionNumber :: nat
  hr_versionCreatedAt :: timestamp
  hr_sourceCandidateId :: "uuid option"
  hr_entry :: rrf_entry
  hr_vectorDistance :: "rat option"
  hr_matchedSnippet :: "string option"

record hybrid_result =
  hs_records :: "hybrid_record list"
  hs_queryModelInvocationId :: "uuid option"
  hs_vectorStatus :: vector_status
  hs_ftsCandidateCount :: nat
  hs_vectorCandidateCount :: nat

definition buildMemoryCitationLabel :: "uuid \<Rightarrow> nat \<Rightarrow> string" where
  "buildMemoryCitationLabel recordId versionNumber = ''memory:'' @ uuid_str recordId @ ''@version:'' @ nat_digits versionNumber"

subsection \<open>Fusion of two rankings\<close>

definition RRF_K :: nat where
  "RRF_K = 60"

definition new_entry :: "uuid \<Rightarrow> rrf_entry" where
  "new_entry i = \<lparr>fe_id = i, fe_rrfScore = 0, fe_ftsRank = None, fe_vectorRank = None, fe_sources = []\<rparr>"

text \<open>The map of entries in insertion order\<close>

fun entry_update :: "uuid \<Rightarrow> (rrf_entry \<Rightarrow> rrf_entry) \<Rightarrow> rrf_entry list \<Rightarrow> rrf_entry list" where
  "entry_update i f [] = [f (new_entry i)]"
| "entry_update i f (x # xs) = (if fe_id x = i then f x # xs else x # entry_update i f xs)"

definition ranked_entry :: "(rat \<Rightarrow> rat) \<Rightarrow> rank_source \<Rightarrow> nat \<Rightarrow> rrf_entry \<Rightarrow> rrf_entry" where
  "ranked_entry fl src rank x =
     (let y = x\<lparr>fe_rrfScore := fl (fe_rrfScore x + fl (1 / of_nat (RRF_K + rank))), fe_sources := fe_sources x @ [src]\<rparr>
      in case src of in_fts \<Rightarrow> y\<lparr>fe_ftsRank := Some rank\<rparr> | in_vector \<Rightarrow> y\<lparr>fe_vectorRank := Some rank\<rparr>)"

fun add_ranking :: "(rat \<Rightarrow> rat) \<Rightarrow> rank_source \<Rightarrow> nat \<Rightarrow> uuid list \<Rightarrow> rrf_entry list \<Rightarrow> rrf_entry list" where
  "add_ranking fl src rank [] entries = entries"
| "add_ranking fl src rank (i # is) entries =
     add_ranking fl src (Suc rank) is (entry_update i (ranked_entry fl src rank) entries)"

definition fuseRankings :: "(rat \<Rightarrow> rat) \<Rightarrow> uuid list \<Rightarrow> uuid list \<Rightarrow> rrf_entry list" where
  "fuseRankings fl ftsIds vectorIds = add_ranking fl in_vector 1 vectorIds (add_ranking fl in_fts 1 ftsIds [])"

fun mapEmbeddingErrorToVectorStatus :: "model_operation_error_kind \<Rightarrow> vector_status" where
  "mapEmbeddingErrorToVectorStatus TIMEOUT = VEC_TIMED_OUT"
| "mapEmbeddingErrorToVectorStatus SENSITIVE_CONTEXT_BLOCKED = POLICY_BLOCKED"
| "mapEmbeddingErrorToVectorStatus PERSISTENCE_FAILURE = PERSISTENCE_FAILED"
| "mapEmbeddingErrorToVectorStatus _ = PROVIDER_FAILED"

subsection \<open>Filters\<close>

record normalized_filters =
  nf_scopes :: "string list option"
  nf_recordTypes :: "string list option"
  nf_createdAfter :: "timestamp option"
  nf_createdBefore :: "timestamp option"

definition nonempty_list :: "'a list option \<Rightarrow> 'a list option" where
  "nonempty_list v = (case v of Some (x # xs) \<Rightarrow> Some (x # xs) | _ \<Rightarrow> None)"

definition validateTimestamp :: "pg_search \<Rightarrow> string \<Rightarrow> string option \<Rightarrow> error + timestamp option" where
  "validateTimestamp pg label raw =
     (case nonempty_list raw of
        None \<Rightarrow> Inr None
      | Some s \<Rightarrow> (case ps_dateParse pg s of
            None \<Rightarrow> Inl (PlainError (''retrieveHybridMemory: filters.'' @ label @ '' is not a valid timestamp: '' @ s))
          | Some t \<Rightarrow> Inr (Some t)))"

definition normalizeFilters :: "pg_search \<Rightarrow> hybrid_filters option \<Rightarrow> error + normalized_filters" where
  "normalizeFilters pg filters =
     sum_bind (validateTimestamp pg ''currentVersionCreatedAfter'' (Option.bind filters hf_currentVersionCreatedAfter)) (\<lambda>after.
     sum_bind (validateTimestamp pg ''currentVersionCreatedBefore'' (Option.bind filters hf_currentVersionCreatedBefore)) (\<lambda>before.
     Inr \<lparr>nf_scopes = nonempty_list (Option.bind filters hf_scopes),
       nf_recordTypes = nonempty_list (Option.bind filters hf_recordTypes), nf_createdAfter = after, nf_createdBefore = before\<rparr>))"

text \<open>The conditions of \<open>buildFilterClauses\<close>; SQL's comparison with NULL is not true.\<close>

definition any_of :: "'a list option \<Rightarrow> 'a option \<Rightarrow> bool" where
  "any_of allowed v = (case allowed of None \<Rightarrow> True | Some xs \<Rightarrow> (case v of None \<Rightarrow> False | Some x \<Rightarrow> x \<in> set xs))"

definition passes_filters :: "normalized_filters \<Rightarrow> memory_record \<Rightarrow> memory_record_version \<Rightarrow> bool" where
  "passes_filters f r v \<longleftrightarrow> any_of (nf_scopes f) (mr_scope r) \<and> any_of (nf_recordTypes f) (mr_record_type r) \<and>
     (case nf_createdAfter f of None \<Rightarrow> True | Some t \<Rightarrow> t \<le> mv_created_at v) \<and>
     (case nf_createdBefore f of None \<Rightarrow> True | Some t \<Rightarrow> mv_created_at v < t)"

subsection \<open>Candidates\<close>

text \<open>The rows of \<open>memory_records mr JOIN memory_record_versions mrv\<close> that may be retrieved\<close>

definition eligible :: "client \<Rightarrow> uuid \<Rightarrow> normalized_filters \<Rightarrow> db \<Rightarrow> (memory_record \<times> memory_record_version) list" where
  "eligible c tenantId f d =
     filter (\<lambda>(r, v). mr_tenant_id r = tenantId \<and> mr_deleted_at r = None \<and> mr_current_version_id r \<noteq> None \<and>
         \<not> mv_is_deletion_marker v \<and> passes_filters f r v)
       (concat (map (\<lambda>r. map (Pair r) (filter
           (\<lambda>v. mr_current_version_id r = Some (mv_id v) \<and> mv_memory_record_id v = mr_id r \<and> mv_tenant_id v = mr_tenant_id r)
           (rls_rows c mv_tenant_id (memory_record_versions d))))
         (rls_rows c mr_tenant_id (memory_records d))))"

definition candidateRowOf :: "memory_record \<Rightarrow> memory_record_version \<Rightarrow> string option \<Rightarrow> rat \<Rightarrow> candidate_row" where
  "candidateRowOf r v snippet score = \<lparr>cn_memory_record_id = mr_id r, cn_source_candidate_id = mr_source_candidate_id r,
     cn_record_type = mr_record_type r, cn_scope = mr_scope r, cn_memory_record_version_id = mv_id v,
     cn_version_number = mv_version_number v, cn_content = mv_content v, cn_version_created_at = mv_created_at v,
     cn_matched_snippet = snippet, cn_score = score\<rparr>"

text \<open>\<open>ORDER BY score, mrv.created_at DESC, mr.id ASC\<close>: the last sort decides first.\<close>

definition candidate_order :: "(rat \<Rightarrow> rat) \<Rightarrow> candidate_row list \<Rightarrow> candidate_row list" where
  "candidate_order direction rows =
     sort_key (\<lambda>x. direction (cn_score x)) (sort_key (\<lambda>x. - cn_version_created_at x) (sort_key cn_memory_record_id rows))"

definition queryFtsCandidates ::
  "pg_search \<Rightarrow> env \<Rightarrow> uuid \<Rightarrow> string \<Rightarrow> int \<Rightarrow> normalized_filters \<Rightarrow> candidate_row list dop" where
  "queryFtsCandidates pg e tenantId queryText candidateLimit f = withTenantTransaction e tenantId (\<lambda>c. query (\<lambda>d.
     take (nat candidateLimit) (candidate_order uminus
       (map (\<lambda>(r, v). candidateRowOf r v (Some (ps_headline pg (mv_content v) queryText)) (ps_rank pg (mv_content v) queryText))
         (filter (\<lambda>(r, v). ps_matches pg (mv_content v) queryText) (eligible c tenantId f d))))))"

definition matching_embeddings ::
  "client \<Rightarrow> env \<Rightarrow> string \<Rightarrow> string \<Rightarrow> string \<Rightarrow> nat \<Rightarrow> memory_record_version \<Rightarrow> db \<Rightarrow> memory_embedding list" where
  "matching_embeddings c e modelProvider modelName modelVersion dimensions v d = filter
     (\<lambda>m. me_memory_record_version_id m = mv_id v \<and> me_tenant_id m = mv_tenant_id v \<and> me_status m = ACTIVE \<and>
        me_model_provider m = modelProvider \<and> me_model_name m = modelName \<and> me_model_version m = modelVersion \<and>
        me_dimensions m = dimensions \<and> me_source_content_hash m = env_sha256 e (mv_content v))
     (rls_rows c me_tenant_id (memory_embeddings d))"

definition queryVectorCandidates ::
  "number_format \<Rightarrow> pg_search \<Rightarrow> env \<Rightarrow> uuid \<Rightarrow> js_number list \<Rightarrow> nat \<Rightarrow> string \<Rightarrow> string \<Rightarrow> string \<Rightarrow> int \<Rightarrow>
   normalized_filters \<Rightarrow> candidate_row list dop" where
  "queryVectorCandidates nf pg e tenantId queryVector dimensions modelProvider modelName modelVersion candidateLimit f =
     withTenantTransaction e tenantId (\<lambda>c.
       tbind (lift_result (serializeVector nf queryVector)) (\<lambda>serialized.
       case ps_cast pg serialized of
         None \<Rightarrow> throw (DbError (InvalidTextRepresentation ''vector''))
       | Some wanted \<Rightarrow> query (\<lambda>d. take (nat candidateLimit) (candidate_order id
           (concat (map (\<lambda>(r, v). map (\<lambda>m. candidateRowOf r v None (ps_distance pg (me_embedding m) wanted))
               (matching_embeddings c e modelProvider modelName modelVersion dimensions v d))
             (eligible c tenantId f d)))))))"

subsection \<open>Retrieval\<close>

text \<open>The row of an id: the full-text row where there is one\<close>

definition row_of :: "candidate_row list \<Rightarrow> candidate_row list \<Rightarrow> uuid \<Rightarrow> candidate_row option" where
  "row_of ftsRows vectorRows i =
     (case filter (\<lambda>x. cn_memory_record_id x = i) ftsRows of
        [] \<Rightarrow> first_row (filter (\<lambda>x. cn_memory_record_id x = i) vectorRows)
      | x # xs \<Rightarrow> Some (last (x # xs)))"

definition distance_of :: "candidate_row list \<Rightarrow> uuid \<Rightarrow> rat option" where
  "distance_of vectorRows i =
     (case filter (\<lambda>x. cn_memory_record_id x = i) vectorRows of [] \<Rightarrow> None | xs \<Rightarrow> Some (cn_score (last xs)))"

definition domainMatches :: "string option \<Rightarrow> candidate_row \<Rightarrow> bool" where
  "domainMatches dmn row \<longleftrightarrow> nonempty_list dmn \<noteq> None \<and> cn_scope row = dmn"

definition fused_order :: "string option \<Rightarrow> (rrf_entry \<times> candidate_row) list \<Rightarrow> (rrf_entry \<times> candidate_row) list" where
  "fused_order dmn xs =
     sort_key (\<lambda>(x, r). - fe_rrfScore x) (sort_key (\<lambda>(x, r). if domainMatches dmn r then 0 else 1 :: nat)
       (sort_key (\<lambda>(x, r). - cn_version_created_at r) (sort_key (\<lambda>(x, r). cn_memory_record_id r) xs)))"

definition hybridRecord :: "candidate_row list \<Rightarrow> rrf_entry \<times> candidate_row \<Rightarrow> hybrid_record" where
  "hybridRecord vectorRows p = (case p of (x, r) \<Rightarrow>
     \<lparr>hr_record = \<lparr>rm_id = cn_memory_record_id r, rm_content = cn_content r, rm_recordType = cn_record_type r, rm_scope = cn_scope r\<rparr>,
      hr_memoryRecordVersionId = cn_memory_record_version_id r, hr_versionNumber = cn_version_number r,
      hr_versionCreatedAt = cn_version_created_at r, hr_sourceCandidateId = cn_source_candidate_id r, hr_entry = x,
      hr_vectorDistance = distance_of vectorRows (cn_memory_record_id r), hr_matchedSnippet = cn_matched_snippet r\<rparr>)"

definition fuseCandidates :: "(rat \<Rightarrow> rat) \<Rightarrow> string option \<Rightarrow> int \<Rightarrow> candidate_row list \<Rightarrow> candidate_row list \<Rightarrow> hybrid_record list" where
  "fuseCandidates fl dmn limit ftsRows vectorRows =
     (let fused = fuseRankings fl (map cn_memory_record_id ftsRows) (map cn_memory_record_id vectorRows);
          rows = concat (map (\<lambda>x. case row_of ftsRows vectorRows (fe_id x) of None \<Rightarrow> [] | Some r \<Rightarrow> [(x, r)]) fused)
      in map (hybridRecord vectorRows) (take (nat limit) (fused_order dmn rows)))"

definition int_digits :: "int \<Rightarrow> string" where
  "int_digits n = (if n < 0 then ''-'' @ nat_digits (nat (- n)) else nat_digits (nat n))"

definition checkLimits :: "hybrid_input \<Rightarrow> error + int \<times> int" where
  "checkLimits inp =
     (let limit = or_default 5 (hy_limit inp); candidateLimit = or_default (max 20 (limit * 4)) (hy_candidateLimit inp) in
      if limit \<le> 0 then Inl (PlainError (''retrieveHybridMemory: limit must be > 0, got '' @ int_digits limit))
      else if candidateLimit < limit then Inl (PlainError (''retrieveHybridMemory: candidateLimit ('' @ int_digits candidateLimit @
        '') must be >= limit ('' @ int_digits limit @ '')''))
      else if 100 < candidateLimit then Inl (PlainError (''retrieveHybridMemory: candidateLimit ('' @ int_digits candidateLimit @
        '') exceeds the maximum of 100''))
      else Inr (limit, candidateLimit))"

definition retrieveHybridMemory ::
  "number_format \<Rightarrow> pg_search \<Rightarrow> (rat \<Rightarrow> rat) \<Rightarrow> model_env \<Rightarrow> env \<Rightarrow> 'p embedding_provider \<Rightarrow> hybrid_input \<Rightarrow>
   ('p, hybrid_result) wop" where
  "retrieveHybridMemory nf pg fl v e provider inp =
     (case checkLimits inp of
        Inl err \<Rightarrow> othrow err
      | Inr (limit, candidateLimit) \<Rightarrow>
        (case normalizeFilters pg (hy_filters inp) of
           Inl err \<Rightarrow> othrow err
         | Inr filters \<Rightarrow>
             obind (runEmbedding nf v (env_at 1 e) provider
               (JObj [(''text'', JStr (hy_queryText inp)), (''purpose'', JStr ''query''), (''dimensions'', JNum (of_nat (ep_dimensions provider)))])
               \<lparr>ro_tenantId = hy_tenantId inp, ro_cognitiveRunId = None, ro_invocationKey = hy_invocationKey inp,
                ro_attemptNumber = hy_attemptNumber inp, ro_contentPolicy = None\<rparr>) (\<lambda>embeddingResult.
             obind (on_db (queryFtsCandidates pg (env_at 2 e) (hy_tenantId inp) (hy_queryText inp) candidateLimit filters)) (\<lambda>ftsCandidates.
             obind (case embeddingResult of
                 Succeeded value source i \<Rightarrow>
                   obind (on_db (queryVectorCandidates nf pg (env_at 3 e) (hy_tenantId inp) (embeddingVector value) (ep_dimensions provider)
                     (ep_providerId provider) (ep_modelId provider) (text_of (obj_field value ''model'')) candidateLimit filters)) (\<lambda>rows.
                   oreturn (rows, AVAILABLE, Some i))
               | NotSucceeded kind retryable i \<Rightarrow> oreturn ([], mapEmbeddingErrorToVectorStatus kind, i)) (\<lambda>(vectorCandidates, vectorStatus, i).
             oreturn \<lparr>hs_records = fuseCandidates fl (hy_requestingPersonaDomain inp) limit ftsCandidates vectorCandidates,
               hs_queryModelInvocationId = i, hs_vectorStatus = vectorStatus, hs_ftsCandidateCount = length ftsCandidates,
               hs_vectorCandidateCount = length vectorCandidates\<rparr>)))))"

datatype retrieval_strategy = deterministic | hybrid

definition readMemoryRetrievalStrategyFromEnv :: "string option \<Rightarrow> error + retrieval_strategy" where
  "readMemoryRetrievalStrategyFromEnv raw =
     (if raw = None \<or> raw = Some [] \<or> raw = Some ''deterministic'' then Inr deterministic
      else if raw = Some ''hybrid'' then Inr hybrid
      else Inl (PlainError (''MEMORY_RETRIEVAL_STRATEGY must be unset, \"deterministic\", or \"hybrid\" -- got: '' @
        json_string (or_default [] raw))))"

end
