(* ===== verification/Execution.thy ===== *)
theory Execution
  imports Conversation Tools WorkOrder
begin

text \<open>
  What a governed request leaves behind (\<open>src/src/elora/write*.ts\<close>, \<open>proposeMemoryCandidates.ts\<close>), the
  execution of its tool (\<open>runToolExecution.ts\<close>) and the texts of its answer
  (\<open>synthesizeIngestionResponse.ts\<close>, \<open>produceDirectAnswer.ts\<close>, \<open>generateEloraResponse.ts\<close>). Beside the
  database the state has the files of the tools and the state of the model providers.
\<close>

subsection \<open>The state of a request\<close>

type_synonym ('f, 'p, 'a) iop = "('f \<times> 'p, 'a) wop"

definition on_files :: "('f, 'a) wop \<Rightarrow> ('f, 'p, 'a) iop" where
  "on_files m s = (case s of (d, f, p) \<Rightarrow> (case m (d, f) of (r, (d', f')) \<Rightarrow> (r, (d', f', p))))"

definition on_model :: "('p, 'a) wop \<Rightarrow> ('f, 'p, 'a) iop" where
  "on_model m s = (case s of (d, f, p) \<Rightarrow> (case m (d, p) of (r, (d', p')) \<Rightarrow> (r, (d', f, p'))))"

subsection \<open>Receipts\<close>

definition eloraReceipt :: "env \<Rightarrow> uuid \<Rightarrow> uuid \<Rightarrow> receipt_payload \<Rightarrow> action_receipt" where
  "eloraReceipt e tenantId actorId payload = \<lparr>re_id = env_uuid e 0, re_tenant_id = tenantId, re_schema_version = 1,
     re_actor_id = actorId, re_acting_system = ''elora-v1'', re_created_at = env_now e 0, re_parent_receipt_id = None,
     re_supersedes_receipt_id = None, re_correction_receipt_id = None, re_payload = payload\<rparr>"

text \<open>
  The schema's check and the insert, which all four writers share: the columns of the WorkOrder, the run,
  the decision and the tool invocation, and the last parts of the idempotency key.
\<close>

definition insertEloraReceipt ::
  "env \<Rightarrow> uuid \<Rightarrow> uuid \<Rightarrow> receipt_payload \<Rightarrow> uuid option \<Rightarrow> uuid option \<Rightarrow> uuid option \<Rightarrow> uuid option \<Rightarrow> string list \<Rightarrow>
   action_receipt dtx" where
  "insertEloraReceipt e tenantId actorId payload workOrderId runId decisionId invocationId key =
     (let receipt = eloraReceipt e tenantId actorId payload in
      tbind (ensure (actionReceiptSchema_ok receipt) (ZodError ''actionReceipt'')) (\<lambda>_.
      tbind (rethrow (on_db_error (\<lambda>x. EloraError (EloraReceiptWriteError x)))
        (insert_action_receipt (action_receipt.extend receipt
          (action_receipt_row.fields workOrderId runId decisionId invocationId (buildIdempotencyKey (uuid_str tenantId # key)))))) (\<lambda>_.
      treturn receipt)))"

record elora_receipt_input =
  wr_tenantId :: uuid
  wr_workOrderId :: uuid
  wr_authorityDecisionId :: uuid
  wr_actorId :: uuid
  wr_responseText :: string
  wr_retrievedMemoryIds :: "uuid list"

definition writeEloraReceipt :: "env \<Rightarrow> elora_receipt_input \<Rightarrow> action_receipt dop" where
  "writeEloraReceipt e inp = withTenantTransaction e (wr_tenantId inp) (\<lambda>_.
     insertEloraReceipt e (wr_tenantId inp) (wr_actorId inp)
       (elora_ingestion_completed (wr_workOrderId inp) (take 500 (wr_responseText inp)) (wr_retrievedMemoryIds inp))
       (Some (wr_workOrderId inp)) None (Some (wr_authorityDecisionId inp)) None
       [uuid_str (wr_workOrderId inp), ''receipt'', ''elora_ingestion_completed''])"

record blocked_receipt_input =
  wk_tenantId :: uuid
  wk_workOrderId :: uuid
  wk_authorityDecisionId :: uuid
  wk_actorId :: uuid
  wk_responseText :: string

definition writeBlockedReceipt :: "env \<Rightarrow> blocked_receipt_input \<Rightarrow> action_receipt dop" where
  "writeBlockedReceipt e inp = withTenantTransaction e (wk_tenantId inp) (\<lambda>_.
     insertEloraReceipt e (wk_tenantId inp) (wk_actorId inp)
       (elora_request_blocked (Some (wk_workOrderId inp)) (take 500 (wk_responseText inp)))
       (Some (wk_workOrderId inp)) None (Some (wk_authorityDecisionId inp)) None
       [uuid_str (wk_workOrderId inp), ''receipt'', ''elora_request_blocked''])"

record execution_failure_input =
  wf_tenantId :: uuid
  wf_workOrderId :: uuid
  wf_runId :: uuid
  wf_toolInvocationId :: "uuid option"
  wf_authorityDecisionId :: "uuid option"
  wf_actorId :: uuid
  wf_failureType :: string
  wf_failureMessage :: string

definition writeExecutionFailureReceipt :: "env \<Rightarrow> execution_failure_input \<Rightarrow> action_receipt dop" where
  "writeExecutionFailureReceipt e inp = withTenantTransaction e (wf_tenantId inp) (\<lambda>_.
     insertEloraReceipt e (wf_tenantId inp) (wf_actorId inp)
       (run_failed (wf_runId inp) (wf_failureType inp) (wf_failureMessage inp))
       (Some (wf_workOrderId inp)) (Some (wf_runId inp)) (wf_authorityDecisionId inp) (wf_toolInvocationId inp)
       [uuid_str (wf_workOrderId inp), ''receipt'', ''run_failed'', uuid_str (wf_runId inp)])"

fun risk_str :: "risk_level \<Rightarrow> string" where
  "risk_str risk_low = ''low''"
| "risk_str risk_medium = ''medium''"
| "risk_str risk_high = ''high''"

record refusal_input =
  wx_tenantId :: uuid
  wx_messageId :: uuid
  wx_actorId :: uuid
  wx_content :: string
  wx_responseText :: string

definition refusalDecision :: "env \<Rightarrow> refusal_input \<Rightarrow> authority_decision" where
  "refusalDecision e inp =
     (let verdict = classifyAuthority \<lparr>ca_content = wx_content inp, ca_taskType = tt_unknown, ca_resolvedProjectId = None\<rparr> in
      \<lparr>ad_id = env_uuid e 1, ad_tenant_id = wx_tenantId inp, ad_schema_version = 1, ad_outcome = refuse,
       ad_requires_human_gatekeeper = cls_requires_human_gatekeeper verdict, ad_reason = Some (cls_reason verdict),
       ad_risk_level = Some (risk_str (cls_risk_level verdict)), ad_deciding_actor_id = Some (wx_actorId inp),
       ad_work_order_id = None, ad_run_id = None, ad_tool_invocation_id = None, ad_required_setup = None,
       ad_resolved_via_standing_rule_id = None, ad_created_at = env_now e 0\<rparr>)"

definition writeRefusalRecord :: "env \<Rightarrow> refusal_input \<Rightarrow> (authority_decision \<times> action_receipt) dop" where
  "writeRefusalRecord e inp = withTenantTransaction e (wx_tenantId inp) (\<lambda>_.
     let decision = refusalDecision e inp in
     tbind (rethrow (on_db_error (\<lambda>x. EloraError (EloraReceiptWriteError x))) (insert_authority_decision decision)) (\<lambda>_.
     tbind (insertEloraReceipt e (wx_tenantId inp) (wx_actorId inp) (elora_request_blocked None (take 500 (wx_responseText inp)))
       None None (Some (ad_id decision)) None [uuid_str (wx_messageId inp), ''receipt'', ''elora_request_blocked'']) (\<lambda>receipt.
     treturn (decision, receipt))))"

subsection \<open>Memory candidates\<close>

definition section_8 :: string where
  "section_8 = '' ('' @ [CHR 0xA7] @ ''8).''"

text \<open>Content, type and reason of the candidate\<close>

definition buildCandidateContent :: "authority_outcome \<Rightarrow> elora_structured_intent \<Rightarrow> string \<times> string \<times> string" where
  "buildCandidateContent outcome intent =
     (case outcome of
        capability_missing \<Rightarrow>
          (''User requested a capability the runtime structurally lacks: '' @ si_summary intent, ''capability_gap'',
           ''Recurring capability-missing pattern worth accumulating'' @ section_8)
      | setup_required \<Rightarrow>
          (''Implementation task lacked a project scope: '' @ si_summary intent, ''setup_gap'',
           ''Recurring task-type/workspace-missing-project pattern worth accumulating'' @ section_8)
      | _ \<Rightarrow>
          (''ELORA completed an ingestion request: '' @ si_summary intent, ''observation'',
           ''Derived from a successfully answered ELORA ingestion request.''))"

definition shouldPropose :: "authority_outcome \<Rightarrow> bool" where
  "shouldPropose outcome \<longleftrightarrow>
     outcome = act \<or> outcome = act_and_report \<or> outcome = capability_missing \<or> outcome = setup_required"

definition proposedCandidate :: "env \<Rightarrow> uuid \<Rightarrow> uuid \<Rightarrow> elora_structured_intent \<Rightarrow> authority_outcome \<Rightarrow> memory_candidate" where
  "proposedCandidate e tenantId workOrderId intent outcome =
     (case buildCandidateContent outcome intent of (content, candidateType, reason) \<Rightarrow>
      \<lparr>mc_id = env_uuid e 0, mc_tenant_id = tenantId, mc_source_message_id = None, mc_source_receipt_id = None,
       mc_source_work_order_id = Some workOrderId, mc_candidate_content = content, mc_candidate_type = Some candidateType,
       mc_confidence = Some (si_confidence intent), mc_scope = Some ''general'', mc_review_status = proposed,
       mc_reason_for_creation = Some reason, mc_promoted_memory_record_id = None, mc_created_at = env_now e 0,
       mc_reviewed_by_actor_id = None, mc_reviewed_at = None, mc_review_note = None\<rparr>)"

definition proposeMemoryCandidates ::
  "env \<Rightarrow> uuid \<Rightarrow> uuid \<Rightarrow> elora_structured_intent \<Rightarrow> authority_outcome \<Rightarrow> memory_candidate list dop" where
  "proposeMemoryCandidates e tenantId workOrderId intent outcome =
     (if \<not> shouldPropose outcome then oreturn []
      else withTenantTransaction e tenantId (\<lambda>_.
        let candidate = proposedCandidate e tenantId workOrderId intent outcome in
        tbind (ensure (memoryCandidateSchema_ok candidate) (ZodError ''memoryCandidate'')) (\<lambda>_.
        tbind (rethrow (on_db_error (\<lambda>x. EloraError (EloraMemoryCandidateError x))) (insert_memory_candidate candidate)) (\<lambda>_.
        treturn [candidate]))))"

subsection \<open>Tool execution\<close>

record tool_execution_input =
  te_tenantId :: uuid
  te_workOrderId :: uuid
  te_actorId :: uuid
  te_authorityDecisionId :: uuid
  te_workspaceId :: "uuid option"
  te_projectId :: "uuid option"
  te_threadId :: uuid
  te_sourceMessageId :: uuid
  te_correlationId :: string
  te_dispatched :: dispatched_tool_call
  te_intent :: elora_structured_intent
  te_outcome :: authority_outcome

record tool_execution_result =
  tz_finalStatus :: work_order_status
  tz_transitionPath :: "work_order_status list"
  tz_toolInvocationId :: "uuid option"
  tz_artifactId :: "string option"
  tz_responseText :: string
  tz_memoryCandidateIds :: "uuid list"

text \<open>A plain transition: no decision, no candidate, no metadata. Its result is the new status.\<close>

definition plain_move :: "uuid \<Rightarrow> uuid \<Rightarrow> uuid \<Rightarrow> work_order_status \<Rightarrow> string \<Rightarrow> transition_work_order_input" where
  "plain_move tenantId workOrderId actorId nextStatus reason = \<lparr>tw_tenantId = tenantId, tw_workOrderId = workOrderId,
     tw_nextStatus = nextStatus, tw_actorId = actorId, tw_reason = reason, tw_metadata = None,
     tw_authorityDecision = None, tw_memoryCandidate = None\<rparr>"

definition status_of :: "transition_work_order_result \<Rightarrow> work_order_status" where
  "status_of r = (case tr_workOrder r of (_, _, s, _) \<Rightarrow> s)"

definition te_move :: "env \<Rightarrow> tool_execution_input \<Rightarrow> work_order_status \<Rightarrow> string \<Rightarrow> ('f, transition_work_order_result) wop" where
  "te_move e inp nextStatus reason =
     on_db (transitionWorkOrder e (plain_move (te_tenantId inp) (te_workOrderId inp) (te_actorId inp) nextStatus reason))"

definition toolContext :: "tool_execution_input \<Rightarrow> tool_execution_context" where
  "toolContext inp = \<lparr>tx_tenantId = te_tenantId inp, tx_actorId = te_actorId inp, tx_workspaceId = te_workspaceId inp,
     tx_projectId = te_projectId inp, tx_workOrderId = te_workOrderId inp, tx_threadId = Some (te_threadId inp),
     tx_sourceMessageId = Some (te_sourceMessageId inp),
     tx_authorityOutcome = (if te_outcome inp = act then need_act else need_act_and_report),
     tx_actingSystem = ''elora-v1'', tx_correlationId = te_correlationId inp\<rparr>"

definition dispatchedInput :: "dispatched_tool_call \<Rightarrow> json" where
  "dispatchedInput dc = JObj [(''filename'', JStr (dt_filename dc)), (''content'', JStr (dt_content dc)), (''mimeType'', JStr (dt_mimeType dc))]"

definition error_or :: "string \<Rightarrow> tool_invocation_result \<Rightarrow> string" where
  "error_or dflt r = (case tr_error r of None \<Rightarrow> dflt | Some (_, message) \<Rightarrow> message)"

definition output_text :: "tool_invocation_result \<Rightarrow> string \<Rightarrow> string option" where
  "output_text r k = (case tr_output r of Some (JObj m) \<Rightarrow> jstr m k | _ \<Rightarrow> None)"

definition executionFailed ::
  "env \<Rightarrow> tool_execution_input \<Rightarrow> uuid \<Rightarrow> work_order_status list \<Rightarrow> tool_invocation_result \<Rightarrow> ('f, tool_execution_result) wop" where
  "executionFailed e inp runId path invocation =
     obind (te_move (env_at 4 e) inp FAILED (''Tool \"'' @ dt_toolName (te_dispatched inp) @ ''\" invocation failed: '' @
       error_or ''unknown error'' invocation)) (\<lambda>failed.
     obind (on_db (writeExecutionFailureReceipt (env_at 5 e) \<lparr>wf_tenantId = te_tenantId inp, wf_workOrderId = te_workOrderId inp,
       wf_runId = runId, wf_toolInvocationId = Some (tr_invocationId invocation),
       wf_authorityDecisionId = Some (te_authorityDecisionId inp), wf_actorId = te_actorId inp,
       wf_failureType = (case tr_error invocation of None \<Rightarrow> ''TOOL_EXECUTION_FAILED'' | Some (code, _) \<Rightarrow> code),
       wf_failureMessage = error_or ''Tool invocation failed'' invocation\<rparr>)) (\<lambda>_.
     oreturn \<lparr>tz_finalStatus = status_of failed, tz_transitionPath = path @ [status_of failed],
       tz_toolInvocationId = Some (tr_invocationId invocation), tz_artifactId = None,
       tz_responseText = ''I attempted to create the artifact, but the operation failed: '' @ error_or ''unknown error'' invocation,
       tz_memoryCandidateIds = []\<rparr>))"

definition executionSucceeded ::
  "env \<Rightarrow> tool_execution_input \<Rightarrow> work_order_status list \<Rightarrow> tool_invocation_result \<Rightarrow> ('f, tool_execution_result) wop" where
  "executionSucceeded e inp path invocation =
     obind (te_move (env_at 6 e) inp VALIDATING ''Execution complete, validating output'') (\<lambda>validating.
     obind (te_move (env_at 7 e) inp RECEIPT_WRITTEN ''Validation complete, receipt recorded'') (\<lambda>receiptWritten.
     obind (on_db (proposeMemoryCandidates (env_at 8 e) (te_tenantId inp) (te_workOrderId inp) (te_intent inp) (te_outcome inp)))
       (\<lambda>memoryCandidates.
     obind (te_move (env_at 9 e) inp COMPLETED ''Execution completed successfully'') (\<lambda>completed.
     oreturn \<lparr>tz_finalStatus = status_of completed,
       tz_transitionPath = path @ [status_of validating, status_of receiptWritten, status_of completed],
       tz_toolInvocationId = Some (tr_invocationId invocation), tz_artifactId = output_text invocation ''artifactId'',
       tz_responseText = ''I created the artifact \"'' @ or_default ''the requested file'' (output_text invocation ''relativePath'') @
         ''\" and recorded it as a durable artifact.'',
       tz_memoryCandidateIds = map mc_id memoryCandidates\<rparr>))))"

definition runToolExecution ::
  "gateway_texts \<Rightarrow> 'f registry \<Rightarrow> env \<Rightarrow> tool_execution_input \<Rightarrow> ('f, tool_execution_result) wop" where
  "runToolExecution g reg e inp =
     obind (te_move (env_at 1 e) inp EXECUTING (''Dispatching to registered tool \"'' @ dt_toolName (te_dispatched inp) @ ''\"'')) (\<lambda>executing.
     case tr_run executing of
       None \<Rightarrow> othrow (PlainError (''runToolExecution: EXECUTING transition for WorkOrder '' @ uuid_str (te_workOrderId inp) @
         '' did not create a Run''))
     | Some (runId, _) \<Rightarrow>
         obind (invokeRegisteredTool g (env_at 2 e) reg (dt_toolName (te_dispatched inp)) (dispatchedInput (te_dispatched inp))
           (toolContext inp)) (\<lambda>invocation.
         if tr_status invocation \<noteq> ti_succeeded then executionFailed e inp runId [status_of executing] invocation
         else executionSucceeded e inp [status_of executing] invocation))"

subsection \<open>Answers\<close>

datatype elora_response_type =
    resp_direct_answer | resp_escalation_required | resp_setup_required | resp_capability_missing | resp_refused
  | resp_clarification_required | resp_execution_failed

definition produceDirectAnswer :: "elora_structured_intent \<Rightarrow> retrieved_memory list \<Rightarrow> string" where
  "produceDirectAnswer intent memory = join ('' '')
     ([''Understood -- I've created a WorkOrder to track this '' @ task_type_str (si_task_type intent) @ '' request: \"'' @
         si_summary intent @ ''\".''] @
      (case memory of [] \<Rightarrow> [] | m # _ \<Rightarrow> [''Building on what I recall from prior context: '' @ take 160 (rm_content m)]) @
      [''This has been logged as a durable record you can inspect through the diagnostic console.''])"

definition synthesizeIngestionResponse ::
  "work_order_status \<Rightarrow> elora_structured_intent \<Rightarrow> string \<Rightarrow> string option \<Rightarrow> retrieved_memory list \<Rightarrow> elora_response_type \<times> string" where
  "synthesizeIngestionResponse finalStatus intent reason required memory =
     (case finalStatus of
        READY_TO_ACT \<Rightarrow> (resp_direct_answer, produceDirectAnswer intent memory)
      | AWAITING_AUTHORIZATION \<Rightarrow> (resp_escalation_required,
          ''This request involves an external side effect and requires authorization before I can proceed: '' @ reason @
          '' No action has been taken. This has been recorded as a WorkOrder awaiting authorization.'')
      | SETUP_REQUIRED \<Rightarrow> (resp_setup_required,
          ''I can't proceed yet -- required setup is missing: '' @ or_default ''unspecified'' required @ ''. '' @ reason @
          '' This has been recorded so it can be picked up once that setup exists.'')
      | CAPABILITY_MISSING \<Rightarrow> (resp_capability_missing,
          ''I don't have the capability to do this: '' @ reason @ '' This request has been recorded for visibility.'')
      | REFUSED \<Rightarrow> (resp_refused, ''I'm not able to help with this request: '' @ reason)
      | _ \<Rightarrow> (resp_clarification_required, ABSOLUTE_FALLBACK_RESPONSE_TEXT))"

definition resolveDefaultProvider ::
  "(provider_kind \<Rightarrow> string \<Rightarrow> 'p llm_provider) \<Rightarrow> model_env \<Rightarrow> string option \<Rightarrow> 'p llm_provider option" where
  "resolveDefaultProvider connect v llmDisabled =
     (if llmDisabled = Some ''true'' then None
      else case present (nv_ANTHROPIC_API_KEY v) of [] \<Rightarrow> None | apiKey # _ \<Rightarrow> Some (connect anthropic apiKey))"

definition passesSanityCheck :: "string \<Rightarrow> bool" where
  "passesSanityCheck s \<longleftrightarrow> 0 < length (js_trim s) \<and> length (js_trim s) < 4000"

definition generateEloraResponse ::
  "(provider_kind \<Rightarrow> string \<Rightarrow> 'p llm_provider) \<Rightarrow> model_env \<Rightarrow> string option \<Rightarrow> string \<Rightarrow> json \<Rightarrow> ('p, string) wop" where
  "generateEloraResponse connect v llmDisabled deterministicFallback context s =
     (case resolveDefaultProvider connect v llmDisabled of
        None \<Rightarrow> (Inr deterministicFallback, s)
      | Some provider \<Rightarrow>
          (case lp_generateResponse provider context (snd s) of
             (Resolved result, p') \<Rightarrow> (Inr (if passesSanityCheck result then result else deterministicFallback), (fst s, p'))
           | (_, p') \<Rightarrow> (Inr deterministicFallback, (fst s, p'))))"

end
