(* ===== verification/Ingest.thy ===== *)
theory Ingest
  imports Execution Hybrid
begin

text \<open>
  The ingestion of a message (\<open>src/src/elora/ingestUserMessage.ts\<close>): the stages from the raw request to
  the answer, composed as the orchestrator composes them. A message is either answered in conversation or,
  for an artifact request and for durable work of a trigger, carried by a WorkOrder. What the process reads
  from its environment and links in from outside is \<open>ingest_host\<close>.
\<close>

subsection \<open>The host\<close>

record ('f, 'p) ingest_host =
  ih_numbers :: number_format
  ih_models :: model_env
  ih_connect :: "provider_kind \<Rightarrow> string \<Rightarrow> 'p llm_provider"
  ih_embed :: "string \<Rightarrow> json \<Rightarrow> 'p \<Rightarrow> provider_call_result call_outcome \<times> 'p"
  ih_search :: pg_search
  ih_rounding :: "rat \<Rightarrow> rat"
  ih_compile :: "string \<Rightarrow> (string \<Rightarrow> bool) option"
  ih_texts :: gateway_texts
  ih_tools :: "'f tool_host"
  ih_retrievalStrategy :: "string option"
  ih_llmDisabled :: "string option"

subsection \<open>Results\<close>

record elora_ingestion_result =
  er_tenantId :: uuid
  er_threadId :: uuid
  er_messageId :: uuid
  er_isDuplicateMessage :: bool
  er_intent :: elora_structured_intent
  er_retrievedMemoryIds :: "uuid list"
  er_workOrderId :: "uuid option"
  er_authorityDecisionId :: "uuid option"
  er_authorityOutcome :: "authority_outcome option"
  er_finalWorkOrderStatus :: "work_order_status option"
  er_transitionPath :: "work_order_status list"
  er_responseType :: elora_response_type
  er_responseText :: string
  er_actionReceiptId :: "uuid option"
  er_blockedReceiptId :: "uuid option"
  er_toolInvocationId :: "uuid option"
  er_artifactId :: "string option"
  er_memoryCandidateIds :: "uuid list"
  er_cognitiveRunId :: "uuid option"
  er_modelInvocationId :: "uuid option"

text \<open>What every answer repeats of the stages before it; the other fields are empty until a branch sets them.\<close>

definition ingestionResult ::
  "uuid \<Rightarrow> persisted_message \<Rightarrow> elora_structured_intent \<Rightarrow> retrieved_memory list \<Rightarrow> elora_response_type \<Rightarrow> string \<Rightarrow> elora_ingestion_result" where
  "ingestionResult tenantId persisted intent memory responseType responseText =
     \<lparr>er_tenantId = tenantId, er_threadId = pd_threadId persisted, er_messageId = pd_messageId persisted,
      er_isDuplicateMessage = pd_isDuplicate persisted, er_intent = intent, er_retrievedMemoryIds = map rm_id memory,
      er_workOrderId = None, er_authorityDecisionId = None, er_authorityOutcome = None, er_finalWorkOrderStatus = None,
      er_transitionPath = [], er_responseType = responseType, er_responseText = responseText, er_actionReceiptId = None,
      er_blockedReceiptId = None, er_toolInvocationId = None, er_artifactId = None, er_memoryCandidateIds = [],
      er_cognitiveRunId = None, er_modelInvocationId = None\<rparr>"

subsection \<open>Helpers of the orchestrator\<close>

definition resolvePersonaActorId :: "env \<Rightarrow> uuid \<Rightarrow> string \<Rightarrow> uuid dop" where
  "resolvePersonaActorId e tenantId actorName = withTenantTransaction e tenantId (\<lambda>c.
     tbind (query (\<lambda>d. first_row (filter (\<lambda>a. ac_tenant_id a = tenantId \<and> ac_actor_name a = actorName)
       (rls_rows c ac_tenant_id (actors d))))) (\<lambda>row.
     case row of
       None \<Rightarrow> throw (EloraError (EloraPersonaActorNotFoundError tenantId actorName))
     | Some a \<Rightarrow> treturn (ac_id a)))"

definition computeConversationalResponseType :: "elora_structured_intent \<Rightarrow> response_source \<Rightarrow> elora_response_type" where
  "computeConversationalResponseType intent src =
     (if src = UNSUBSTANTIATED then resp_clarification_required
      else case si_route intent of
          rt_refuse \<Rightarrow> resp_refused
        | rt_setup_required \<Rightarrow> resp_setup_required
        | rt_capability_missing \<Rightarrow> resp_capability_missing
        | rt_clarify \<Rightarrow> resp_clarification_required
        | _ \<Rightarrow> resp_direct_answer)"

definition BLOCKED_STATUSES :: "work_order_status list" where
  "BLOCKED_STATUSES = [AWAITING_AUTHORIZATION, SETUP_REQUIRED, CAPABILITY_MISSING, REFUSED]"

definition RECONSTRUCTED_REASON :: string where
  "RECONSTRUCTED_REASON = ''Reconstructed from a previously processed, idempotent duplicate submission.''"

text \<open>
  The replay of a WorkOrder that an earlier submission has already moved. A query without \<open>ORDER BY\<close> yields the
  rows in insertion order here; at most one receipt of a type exists per WorkOrder.
\<close>

definition recordedResult ::
  "client \<Rightarrow> uuid \<Rightarrow> work_order \<Rightarrow> elora_structured_intent \<Rightarrow> retrieved_memory list \<Rightarrow> persisted_message \<Rightarrow> db \<Rightarrow> elora_ingestion_result" where
  "recordedResult c tenantId w intent memory persisted d =
     (let receipt = (\<lambda>kind. first_row (filter (\<lambda>r. re_tenant_id r = tenantId \<and> re_work_order_id r = Some (wo_id w) \<and>
              receipt_type (re_payload r) = kind) (rls_rows c re_tenant_id (action_receipts d))));
          (responseType, responseText) = synthesizeIngestionResponse (wo_status w) intent RECONSTRUCTED_REASON None memory
      in (ingestionResult tenantId persisted intent memory responseType responseText)
        \<lparr>er_workOrderId := Some (wo_id w), er_authorityDecisionId := wo_authority_decision_id w,
         er_authorityOutcome := (case wo_authority_decision_id w of None \<Rightarrow> None
           | Some i \<Rightarrow> map_option ad_outcome (first_row (filter (\<lambda>a. ad_id a = i) (rls_rows c ad_tenant_id (authority_decisions d))))),
         er_finalWorkOrderStatus := Some (wo_status w),
         er_transitionPath := map wt_to_status (order_by_asc wt_created_at (filter
           (\<lambda>t. wt_tenant_id t = tenantId \<and> wt_work_order_id t = wo_id w) (rls_rows c wt_tenant_id (wo_transitions d)))),
         er_actionReceiptId := map_option re_id (receipt ''elora_ingestion_completed''),
         er_blockedReceiptId := map_option re_id (receipt ''elora_request_blocked''),
         er_toolInvocationId := map_option ti_id (first_row (order_by_desc ti_created_at (filter
           (\<lambda>i. ti_tenant_id i = tenantId \<and> ti_work_order_id i = Some (wo_id w)) (rls_rows c ti_tenant_id (tool_invocations d))))),
         er_artifactId := map_option (\<lambda>a. uuid_str (af_id a)) (first_row (order_by_desc af_created_at (filter
           (\<lambda>a. af_tenant_id a = tenantId \<and> af_work_order_id a = Some (wo_id w)) (rls_rows c af_tenant_id (artifacts d))))),
         er_memoryCandidateIds := map mc_id (order_by_asc mc_created_at (filter
           (\<lambda>m. mc_tenant_id m = tenantId \<and> mc_source_work_order_id m = Some (wo_id w))
           (rls_rows c mc_tenant_id (memory_candidates d))))\<rparr>)"

definition loadAlreadyProcessedResult ::
  "env \<Rightarrow> uuid \<Rightarrow> work_order \<Rightarrow> elora_structured_intent \<Rightarrow> retrieved_memory list \<Rightarrow> persisted_message \<Rightarrow> elora_ingestion_result dop" where
  "loadAlreadyProcessedResult e tenantId w intent memory persisted = withTenantTransaction e tenantId (\<lambda>c.
     query (recordedResult c tenantId w intent memory persisted))"

subsection \<open>Memory and route\<close>

definition retrieveMemory ::
  "('f, 'p) ingest_host \<Rightarrow> env \<Rightarrow> uuid \<Rightarrow> persisted_message \<Rightarrow> ('p, retrieved_memory list) wop" where
  "retrieveMemory h e tenantId persisted =
     (case readMemoryRetrievalStrategyFromEnv (ih_retrievalStrategy h) of
        Inl err \<Rightarrow> othrow err
      | Inr deterministic \<Rightarrow> on_db (retrieveRelevantMemory e \<lparr>rq_tenantId = tenantId, rq_queryText = pd_content persisted,
          rq_limit = None, rq_requestingPersonaDomain = None\<rparr>)
      | Inr hybrid \<Rightarrow>
          (case createConfiguredEmbeddingProvider (ih_embed h) (ih_models h) of
             Inl err \<Rightarrow> othrow err
           | Inr provider \<Rightarrow>
               obind (retrieveHybridMemory (ih_numbers h) (ih_search h) (ih_rounding h) (ih_models h) e provider
                 \<lparr>hy_tenantId = tenantId, hy_queryText = pd_content persisted,
                  hy_invocationKey = buildIdempotencyKey [uuid_str tenantId, uuid_str (pd_messageId persisted), ''embedding'', ''query'',
                    ep_providerId provider, ep_modelId provider, nat_digits (ep_dimensions provider)],
                  hy_attemptNumber = None, hy_limit = None, hy_candidateLimit = None, hy_requestingPersonaDomain = None,
                  hy_filters = None\<rparr>) (\<lambda>result. oreturn (map hr_record (hs_records result)))))"

text \<open>The model's proposal of a route, where a provider is configured\<close>

definition routeOptions :: "uuid \<Rightarrow> uuid \<Rightarrow> run_options" where
  "routeOptions tenantId messageId = \<lparr>ro_tenantId = tenantId, ro_cognitiveRunId = None,
     ro_invocationKey = buildIdempotencyKey [uuid_str tenantId, uuid_str messageId, ''intent_interpretation'', ''1''],
     ro_attemptNumber = None, ro_contentPolicy = None\<rparr>"

definition interpretRoute ::
  "('f, 'p) ingest_host \<Rightarrow> env \<Rightarrow> uuid \<Rightarrow> persisted_message \<Rightarrow>
   ('p, uuid option + uuid \<times> intent_interpretation_output) wop option" where
  "interpretRoute h e tenantId persisted =
     (case selectConfiguredProviderFromEnv (ih_connect h) (ih_models h) of
        Inl _ \<Rightarrow> None
      | Inr provider \<Rightarrow> Some (
          obind (runIntentInterpretation (ih_numbers h) (ih_models h) e provider (JObj [(''content'', JStr (pd_content persisted))])
            (routeOptions tenantId (pd_messageId persisted))) (\<lambda>result.
          oreturn (case result of
              NotSucceeded _ _ i \<Rightarrow> Inl i
            | Succeeded value _ i \<Rightarrow> Inr (i, intentInterpretationOutput value)))))"

definition usesWorkOrderPipeline :: "elora_structured_intent \<Rightarrow> bool \<Rightarrow> bool" where
  "usesWorkOrderPipeline intent isSystemInitiated \<longleftrightarrow>
     si_task_type intent = tt_artifact_creation \<and> si_artifactRequest intent \<noteq> None \<or>
     isSystemInitiated \<and> si_route intent = rt_durable_work"

subsection \<open>Conversation\<close>

definition recordRefusal ::
  "env \<Rightarrow> resolved_context \<Rightarrow> persisted_message \<Rightarrow> elora_structured_intent \<Rightarrow> string \<Rightarrow> (uuid \<times> uuid) option dop" where
  "recordRefusal e ctx persisted intent responseText =
     (if si_route intent \<noteq> rt_refuse then oreturn None
      else obind (writeRefusalRecord e \<lparr>wx_tenantId = rx_tenantId ctx, wx_messageId = pd_messageId persisted,
          wx_actorId = rx_actorId ctx, wx_content = pd_content persisted, wx_responseText = responseText\<rparr>) (\<lambda>(decision, receipt).
        oreturn (Some (ad_id decision, re_id receipt))))"

definition conversationResult ::
  "resolved_context \<Rightarrow> persisted_message \<Rightarrow> elora_structured_intent \<Rightarrow> retrieved_memory list \<Rightarrow> conversational_result \<Rightarrow>
   (uuid \<times> uuid) option \<Rightarrow> elora_ingestion_result" where
  "conversationResult ctx persisted intent memory turn refusal =
     (ingestionResult (rx_tenantId ctx) persisted intent memory
        (computeConversationalResponseType intent (cq_responseSource turn)) (cq_responseText turn))
       \<lparr>er_authorityDecisionId := map_option fst refusal, er_authorityOutcome := map_option (\<lambda>_. refuse) refusal,
        er_blockedReceiptId := map_option snd refusal, er_cognitiveRunId := Some (cq_cognitiveRunId turn),
        er_modelInvocationId := cq_modelInvocationId turn\<rparr>"

definition conversationalInput ::
  "resolved_context \<Rightarrow> persisted_message \<Rightarrow> elora_structured_intent \<Rightarrow> retrieved_memory list \<Rightarrow> string option \<Rightarrow> conversational_input" where
  "conversationalInput ctx persisted intent memory threadContext = \<lparr>cv_tenantId = rx_tenantId ctx,
     cv_threadId = pd_threadId persisted, cv_messageId = pd_messageId persisted, cv_initiatedByActorId = rx_actorId ctx,
     cv_userMessageContent = pd_content persisted, cv_retrievedMemory = memory, cv_intent = intent, cv_threadContext = threadContext\<rparr>"

definition converse ::
  "('f, 'p) ingest_host \<Rightarrow> env \<Rightarrow> resolved_context \<Rightarrow> persisted_message \<Rightarrow> elora_structured_intent \<Rightarrow> retrieved_memory list \<Rightarrow>
   ('p, elora_ingestion_result) wop" where
  "converse h e ctx persisted intent memory =
     obind (on_db (assembleThreadContext (env_at 5 e) (rx_tenantId ctx) (pd_threadId persisted) memory)) (\<lambda>threadContext.
     obind (runConversationalCognitiveRun (ih_numbers h) (ih_models h) (ih_connect h) (env_at 20 e)
       (conversationalInput ctx persisted intent memory threadContext)) (\<lambda>turn.
     obind (on_db (persistAssistantReply (env_at 6 e) (rx_tenantId ctx) (pd_threadId persisted) (rx_actorId ctx) (cq_responseText turn))) (\<lambda>_.
     obind (on_db (recordRefusal (env_at 7 e) ctx persisted intent (cq_responseText turn))) (\<lambda>refusal.
     oreturn (conversationResult ctx persisted intent memory turn refusal)))))"

subsection \<open>WorkOrders\<close>

definition outcome_text :: "authority_outcome \<Rightarrow> work_order_status \<Rightarrow> string" where
  "outcome_text outcome branch = ''Authority outcome \"'' @ outcome_str outcome @ ''\" routed to '' @ status_name branch"

text \<open>A dispatched tool that is not registered turns the outcome into \<open>capability_missing\<close>.\<close>

definition checkedAuthority :: "'f registry \<Rightarrow> dispatched_tool_call option \<Rightarrow> resolved_authority \<Rightarrow> resolved_authority" where
  "checkedAuthority reg dispatched authority =
     (case dispatched of
        None \<Rightarrow> authority
      | Some dc \<Rightarrow> if isToolRegistered (dt_toolName dc) reg then authority
          else unresolved (classification capability_missing False
            (''Dispatched tool \"'' @ dt_toolName dc @ ''\" is not registered.'') risk_low None False))"

definition decisionInput :: "resolved_authority \<Rightarrow> authority_decision_input" where
  "decisionInput a = \<lparr>adi_outcome = cls_outcome a, adi_requiresHumanGatekeeper = cls_requires_human_gatekeeper a,
     adi_reason = Some (cls_reason a), adi_riskLevel = Some (risk_str (cls_risk_level a)), adi_decidingActorId = None,
     adi_requiredSetup = cls_required_setup a, adi_resolvedViaStandingRuleId = cls_resolvedViaStandingRuleId a\<rparr>"

definition answerContext ::
  "persisted_message \<Rightarrow> elora_structured_intent \<Rightarrow> resolved_authority \<Rightarrow> work_order_status \<Rightarrow> json \<Rightarrow> retrieved_memory list \<Rightarrow> json" where
  "answerContext persisted intent authority finalStatus toolResult memory = JObj
     [(''persona'', ELORA_PERSONA), (''userMessageContent'', JStr (pd_content persisted)),
      (''taskType'', JStr (task_type_str (si_task_type intent))), (''authorityOutcome'', JStr (outcome_str (cls_outcome authority))),
      (''reason'', JStr (cls_reason authority)), (''finalWorkOrderStatus'', JStr (status_name finalStatus)),
      (''toolResult'', toolResult), (''retrievedMemorySnippets'', JArr (map (\<lambda>m. JStr (take 200 (rm_content m))) memory))]"

definition toolResultJson :: "dispatched_tool_call \<Rightarrow> elora_structured_intent \<Rightarrow> work_order_status \<Rightarrow> json" where
  "toolResultJson dc intent finalStatus =
     (if finalStatus \<noteq> COMPLETED then JNull
      else JObj ((''toolName'', JStr (dt_toolName dc)) #
        (case si_artifactRequest intent of None \<Rightarrow> [] | Some r \<Rightarrow> [(''artifactFilename'', JStr (ar_filename r))])))"

text \<open>What the stages hand on to the branches: the authority, the decision's id and the path so far\<close>

record branch_input =
  br_context :: resolved_context
  br_persisted :: persisted_message
  br_intent :: elora_structured_intent
  br_memory :: "retrieved_memory list"
  br_workOrderId :: uuid
  br_authority :: resolved_authority
  br_decisionId :: uuid
  br_path :: "work_order_status list"

definition branchResult :: "branch_input \<Rightarrow> work_order_status \<Rightarrow> elora_response_type \<Rightarrow> string \<Rightarrow> elora_ingestion_result" where
  "branchResult b finalStatus responseType responseText =
     (ingestionResult (rx_tenantId (br_context b)) (br_persisted b) (br_intent b) (br_memory b) responseType responseText)
       \<lparr>er_workOrderId := Some (br_workOrderId b), er_authorityDecisionId := Some (br_decisionId b),
        er_authorityOutcome := Some (cls_outcome (br_authority b)), er_finalWorkOrderStatus := Some finalStatus,
        er_transitionPath := br_path b\<rparr>"

definition generateAnswer :: "('f, 'p) ingest_host \<Rightarrow> string \<Rightarrow> json \<Rightarrow> ('f, 'p, string) iop" where
  "generateAnswer h deterministicFallback context =
     on_model (generateEloraResponse (ih_connect h) (ih_models h) (ih_llmDisabled h) deterministicFallback context)"

definition executionInput :: "branch_input \<Rightarrow> string \<Rightarrow> dispatched_tool_call \<Rightarrow> tool_execution_input" where
  "executionInput b correlationId dc = \<lparr>te_tenantId = rx_tenantId (br_context b), te_workOrderId = br_workOrderId b,
     te_actorId = rx_actorId (br_context b), te_authorityDecisionId = br_decisionId b, te_workspaceId = rx_workspaceId (br_context b),
     te_projectId = rx_projectId (br_context b), te_threadId = pd_threadId (br_persisted b),
     te_sourceMessageId = pd_messageId (br_persisted b), te_correlationId = correlationId, te_dispatched = dc,
     te_intent = br_intent b, te_outcome = cls_outcome (br_authority b)\<rparr>"

definition executeBranch ::
  "('f, 'p) ingest_host \<Rightarrow> env \<Rightarrow> branch_input \<Rightarrow> string \<Rightarrow> dispatched_tool_call \<Rightarrow> ('f, 'p, elora_ingestion_result) iop" where
  "executeBranch h e b correlationId dc =
     obind (on_files (runToolExecution (ih_texts h) (core_registry (ih_tools h)) (env_at 40 e) (executionInput b correlationId dc))) (\<lambda>x.
     obind (generateAnswer h (tz_responseText x) (answerContext (br_persisted b) (br_intent b) (br_authority b) (tz_finalStatus x)
       (toolResultJson dc (br_intent b) (tz_finalStatus x)) (br_memory b))) (\<lambda>responseText.
     oreturn ((branchResult b (tz_finalStatus x)
         (if tz_finalStatus x = COMPLETED then resp_direct_answer else resp_execution_failed) responseText)
       \<lparr>er_transitionPath := br_path b @ tz_transitionPath x, er_toolInvocationId := tz_toolInvocationId x,
        er_artifactId := tz_artifactId x, er_memoryCandidateIds := tz_memoryCandidateIds x\<rparr>)))"

text \<open>The receipt of a branch that executes nothing: the answer's, the blocked request's, or none\<close>

definition branchReceipt :: "env \<Rightarrow> branch_input \<Rightarrow> work_order_status \<Rightarrow> string \<Rightarrow> (uuid option \<times> uuid option) dop" where
  "branchReceipt e b status responseText =
     (let ctx = br_context b in
      if status = READY_TO_ACT then
        obind (writeEloraReceipt e \<lparr>wr_tenantId = rx_tenantId ctx, wr_workOrderId = br_workOrderId b,
          wr_authorityDecisionId = br_decisionId b, wr_actorId = rx_actorId ctx, wr_responseText = responseText,
          wr_retrievedMemoryIds = map rm_id (br_memory b)\<rparr>) (\<lambda>receipt. oreturn (Some (re_id receipt), None))
      else if status \<in> set BLOCKED_STATUSES then
        obind (writeBlockedReceipt e \<lparr>wk_tenantId = rx_tenantId ctx, wk_workOrderId = br_workOrderId b,
          wk_authorityDecisionId = br_decisionId b, wk_actorId = rx_actorId ctx, wk_responseText = responseText\<rparr>)
          (\<lambda>receipt. oreturn (None, Some (re_id receipt)))
      else oreturn (None, None))"

definition answerBranch ::
  "('f, 'p) ingest_host \<Rightarrow> env \<Rightarrow> branch_input \<Rightarrow> work_order_status \<Rightarrow> ('f, 'p, elora_ingestion_result) iop" where
  "answerBranch h e b status =
     (let (responseType, synthesized) = synthesizeIngestionResponse status (br_intent b) (cls_reason (br_authority b))
            (cls_required_setup (br_authority b)) (br_memory b) in
      obind (generateAnswer h synthesized (answerContext (br_persisted b) (br_intent b) (br_authority b) status JNull (br_memory b)))
        (\<lambda>responseText.
      obind (on_db (branchReceipt (env_at 36 e) b status responseText)) (\<lambda>(actionReceiptId, blockedReceiptId).
      obind (on_db (proposeMemoryCandidates (env_at 37 e) (rx_tenantId (br_context b)) (br_workOrderId b) (br_intent b)
        (cls_outcome (br_authority b)))) (\<lambda>candidates.
      oreturn ((branchResult b status responseType responseText)
        \<lparr>er_actionReceiptId := actionReceiptId, er_blockedReceiptId := blockedReceiptId,
         er_memoryCandidateIds := map mc_id candidates\<rparr>)))))"

definition pipelineWorkOrder :: "resolved_context \<Rightarrow> persisted_message \<Rightarrow> elora_structured_intent \<Rightarrow> create_work_order_input" where
  "pipelineWorkOrder ctx persisted intent = \<lparr>cw_tenantId = rx_tenantId ctx, cw_workspaceId = rx_workspaceId ctx,
     cw_projectId = rx_projectId ctx, cw_threadId = pd_threadId persisted, cw_messageId = pd_messageId persisted,
     cw_actorId = rx_actorId ctx, cw_ownerActorId = None, cw_taskType = task_type_str (si_task_type intent),
     cw_interpretedIntent = Some (si_summary intent), cw_parentWorkOrderId = None, cw_delegationMode = None\<rparr>"

definition resolveIngestAuthority ::
  "('f, 'p) ingest_host \<Rightarrow> env \<Rightarrow> resolved_context \<Rightarrow> persisted_message \<Rightarrow> elora_structured_intent \<Rightarrow> resolved_authority dop" where
  "resolveIngestAuthority h e ctx persisted intent =
     resolveAuthorityWithHierarchy (ih_compile h) (env_at 33 e) (rx_tenantId ctx)
       \<lparr>ca_content = pd_content persisted, ca_taskType = si_task_type intent, ca_resolvedProjectId = rx_projectId ctx\<rparr>
       (resolvePersonaActorId (env_at 32 e) (rx_tenantId ctx) ''Elora'')"

text \<open>From the parsed intent to the branch its authority selects\<close>

definition classifyWorkOrder ::
  "('f, 'p) ingest_host \<Rightarrow> env \<Rightarrow> resolved_context \<Rightarrow> persisted_message \<Rightarrow> elora_structured_intent \<Rightarrow> retrieved_memory list \<Rightarrow>
   work_order \<Rightarrow> (branch_input \<times> work_order_status) dop" where
  "classifyWorkOrder h e ctx persisted intent memory w =
     (let move = plain_move (rx_tenantId ctx) (wo_id w) (rx_actorId ctx) in
      obind (transitionWorkOrder (env_at 31 e) (move INTENT_PARSED ''Structured task parse completed'')) (\<lambda>intentParsed.
      obind (resolveIngestAuthority h e ctx persisted intent) (\<lambda>resolved.
      let authority = checkedAuthority (core_registry (ih_tools h)) (dispatchTool intent) resolved in
      obind (transitionWorkOrder (env_at 34 e) ((move AUTHORITY_CLASSIFIED ''Authority classification completed'')
        \<lparr>tw_authorityDecision := Some (decisionInput authority)\<rparr>)) (\<lambda>authorityClassified.
      let branchStatus = AUTHORITY_OUTCOME_TO_WORK_ORDER_STATUS (cls_outcome authority) in
      case tr_authorityDecision authorityClassified of
        None \<Rightarrow> othrow JsTypeError
      | Some recorded \<Rightarrow>
          obind (transitionWorkOrder (env_at 35 e) (move branchStatus (outcome_text (cls_outcome authority) branchStatus))) (\<lambda>branched.
          oreturn (\<lparr>br_context = ctx, br_persisted = persisted, br_intent = intent, br_memory = memory, br_workOrderId = wo_id w,
            br_authority = authority, br_decisionId = ad_id recorded,
            br_path = [wo_status w, status_of intentParsed, status_of authorityClassified, status_of branched]\<rparr>, status_of branched))))))"

definition runWorkOrder ::
  "('f, 'p) ingest_host \<Rightarrow> env \<Rightarrow> normalized_ingress \<Rightarrow> resolved_context \<Rightarrow> persisted_message \<Rightarrow> elora_structured_intent \<Rightarrow>
   retrieved_memory list \<Rightarrow> ('f, 'p, elora_ingestion_result) iop" where
  "runWorkOrder h e normalized ctx persisted intent memory =
     obind (on_db (createWorkOrder (env_at 30 e) (pipelineWorkOrder ctx persisted intent))) (\<lambda>(w, _).
     if wo_status w \<noteq> RECEIVED then on_db (loadAlreadyProcessedResult (env_at 38 e) (rx_tenantId ctx) w intent memory persisted)
     else obind (on_db (classifyWorkOrder h e ctx persisted intent memory w)) (\<lambda>(b, status).
       case dispatchTool intent of
         Some dc \<Rightarrow>
           if status = READY_TO_ACT
           then executeBranch h e b (or_default (uuid_str (env_uuid (env_at 39 e) 0)) (ni_sourceCorrelationId normalized)) dc
           else answerBranch h e b status
       | None \<Rightarrow> answerBranch h e b status))"

subsection \<open>Ingestion\<close>

definition ingestUserMessage :: "('f, 'p) ingest_host \<Rightarrow> env \<Rightarrow> elora_ingress \<Rightarrow> ('f, 'p, elora_ingestion_result) iop" where
  "ingestUserMessage h e inp =
     (case normalizeIngress inp of
        Inl err \<Rightarrow> othrow err
      | Inr normalized \<Rightarrow>
          obind (on_db (resolveContext (env_at 1 e) normalized)) (\<lambda>ctx.
          obind (on_db (persistMessage (env_at 2 e) \<lparr>pm_context = ctx, pm_content = ni_content normalized,
            pm_sourceSurface = ni_sourceSurface normalized, pm_sourceCorrelationId = ni_sourceCorrelationId normalized\<rparr>)) (\<lambda>persisted.
          obind (on_model (retrieveMemory h (env_at 10 e) (rx_tenantId ctx) persisted)) (\<lambda>memory.
          obind (on_model (resolveEloraRoute (pd_content persisted) (ni_isSystemInitiated normalized)
            (interpretRoute h (env_at 4 e) (rx_tenantId ctx) persisted))) (\<lambda>routed.
          let intent = rr_intent routed in
          if usesWorkOrderPipeline intent (ni_isSystemInitiated normalized)
          then runWorkOrder h e normalized ctx persisted intent memory
          else on_model (converse h e ctx persisted intent memory))))))"

end
