(* ===== verification/IngestProps.thy ===== *)
theory IngestProps
  imports Ingest ConversationProps
begin

text \<open>
  What the ingestion of a message guarantees as a whole: it leads from reachable databases to reachable ones
  and touches no other tenant, a conversational answer leaves the WorkOrder tables and the files alone, and
  the path a WorkOrder's answer reports is the recorded one.
\<close>

subsection \<open>Lifting to the state of a request\<close>

lemma wsteps_on_files: "wsteps R m \<Longrightarrow> wsteps R (on_files m)"
  by (auto simp: wsteps_def on_files_def split: prod.split) (metis fst_conv snd_conv)

lemma wsteps_on_model: "wsteps R m \<Longrightarrow> wsteps R (on_model m)"
  by (auto simp: wsteps_def on_model_def split: prod.split) (metis fst_conv snd_conv)

lemma on_db_state [simp]: "fst (snd (on_db m s)) = snd (m (fst s))"
  by (simp add: on_db_def split: prod.split)

lemma obind_return_state [simp]: "snd (obind m (\<lambda>x. oreturn (g x)) s) = snd (m s)"
  by (simp add: obind_def oreturn_def split: prod.split sum.split)

context db_preorder
begin

lemma wsteps_obind_result:
  assumes "wsteps R m" "\<And>x s s'. m s = (Inr x, s') \<Longrightarrow> wsteps R (f x)"
  shows "wsteps R (obind m f)"
  unfolding wsteps_def
proof
  fix s
  obtain r s1 where m: "m s = (r, s1)" by (cases "m s")
  with assms(1) have r1: "R (fst s) (fst s1)" by (metis snd_conv wsteps_def)
  show "R (fst s) (fst (snd (obind m f s)))"
  proof (cases r)
    case (Inr x)
    then have "wsteps R (f x)" using assms(2) m by simp
    then have "R (fst s1) (fst (snd (f x s1)))" unfolding wsteps_def by blast
    with Inr m r1 show ?thesis by (auto intro: R_trans)
  qed (use m r1 in simp)
qed

end

subsection \<open>A tool call as a step of its tenant\<close>

definition tool_rel :: "uuid \<Rightarrow> db \<Rightarrow> db \<Rightarrow> bool" where
  "tool_rel t d d' \<longleftrightarrow> d' = d\<lparr>tool_invocations := tool_invocations d', artifacts := artifacts d'\<rparr> \<and> tenant_frame t d d'"

interpretation tool_rel: db_preorder "tool_rel t" for t
proof unfold_locales
  show "tool_rel t d d" for d by (simp add: tool_rel_def frame.R_refl)
  fix a b c assume ab: "tool_rel t a b" and bc: "tool_rel t b c"
  from ab bc have "tenant_frame t a c" unfolding tool_rel_def by (blast intro: frame.R_trans)
  moreover from ab bc have "c = a\<lparr>tool_invocations := tool_invocations c, artifacts := artifacts c\<rparr>"
    by (cases a; cases b; cases c) (simp add: tool_rel_def)
  ultimately show "tool_rel t a c" by (simp add: tool_rel_def)
qed

lemma art_tool_rel: "art_rel t d d' \<Longrightarrow> tool_rel t d d'"
  by (cases d; cases d') (simp add: art_rel_def tool_rel_def)

text \<open>The row of the call\<close>

definition owns_call :: "uuid \<Rightarrow> uuid \<Rightarrow> db \<Rightarrow> bool" where
  "owns_call t i d \<longleftrightarrow> (\<exists>row\<in>set (tool_invocations d). ti_id row = i \<and> ti_tenant_id row = t)"

lemma finish_tool_rel:
  assumes "owns_call t i d" "\<And>x. ti_id (h x) = ti_id x" "\<And>x. ti_tenant_id (h x) = ti_tenant_id x"
  shows "tool_rel t d (snd (finishInvocation e t i h d))"
proof -
  let ?P = "\<lambda>x. ti_id x = i \<and> (env_rls e \<longrightarrow> ti_tenant_id x = t)"
  let ?d' = "d\<lparr>tool_invocations := update_where ?P h (tool_invocations d)\<rparr>"
  have d': "snd (finishInvocation e t i h d) = ?d'"
    by (simp add: finishInvocation_def withTenantTransaction_def modify_def)
  from assms(1) obtain row where row: "row \<in> set (tool_invocations d)" "ti_id row = i" "ti_tenant_id row = t"
    by (auto simp: owns_call_def)
  have "map ti_id (update_where ?P h (tool_invocations d)) = map ti_id (tool_invocations d)"
    using assms(2) by (intro map_update_where) simp
  moreover have "filter (\<lambda>r. ti_tenant_id r \<noteq> t) (update_where ?P h (tool_invocations d)) = filter (\<lambda>r. ti_tenant_id r \<noteq> t) (tool_invocations d)"
    if "distinct (map ti_id (tool_invocations d))"
    using that row assms(3) by (intro filter_update_by_id [where id_of = ti_id and r = row]) auto
  ultimately have "tenant_frame t d ?d'" by (simp add: tenant_frame_defs)
  then show ?thesis by (simp add: d' tool_rel_def)
qed


lemma owns_call_art: "art_rel t d d' \<Longrightarrow> owns_call u i d \<Longrightarrow> owns_call u i d'"
  by (cases d; cases d') (simp add: art_rel_def owns_call_def)

lemma markFailed_tool_rel:
  "owns_call (tx_tenantId ctx) (env_uuid e 0) d \<Longrightarrow>
   tool_rel (tx_tenantId ctx) d (snd (markFailed e tool ctx code msg d))"
  using finish_tool_rel [of "tx_tenantId ctx" "env_uuid e 0" d "failedColumns e code (redactSecretLikeValues msg)" e]
  by (simp add: markFailed_def failedColumns_def Let_def)

lemma execute_tool_rel:
  assumes tool: "tool \<in> set (core_registry h)" and own: "owns_call (tx_tenantId ctx) (env_uuid e 0) d"
  shows "tool_rel (tx_tenantId ctx) d (fst (snd (executeInvocation g e tool input ctx (d, f))))"
proof (cases "tl_inputSchema tool input")
  case (Inl m)
  then show ?thesis
    using markFailed_tool_rel [OF own, of tool "''INVALID_INPUT''" m] by (simp add: executeInvocation_def)
next
  case (Inr v)
  obtain out d2 f2 where out: "tl_execute tool (env_at 1 e) v ctx (d, f) = (out, (d2, f2))"
    by (cases "tl_execute tool (env_at 1 e) v ctx (d, f)") auto
  with core_execute_rel [OF tool, of ctx "env_at 1 e" v] have art: "art_rel (tx_tenantId ctx) d d2"
    by (metis fst_conv snd_conv wsteps_def)
  note own2 = owns_call_art [OF art own] and first = art_tool_rel [OF art]
  have rest: "tool_rel (tx_tenantId ctx) d2 d3 \<Longrightarrow> tool_rel (tx_tenantId ctx) d d3" for d3
    using first by (rule tool_rel.R_trans)
  note failed = rest [OF markFailed_tool_rel [OF own2]]
  show ?thesis
  proof (cases out)
    case (Inl err)
    then show ?thesis
      using failed [of tool "''EXECUTION_FAILED''" "gt_errorMessage g err"] out Inr
      by (simp add: executeInvocation_def attempt_def obind_def [of "attempt m" for m])
  next
    case raw: (Inr rawOutput)
    have finished: "tool_rel (tx_tenantId ctx) d (snd (finishInvocation e (tx_tenantId ctx) (env_uuid e 0) (succeededColumns g e p) d2))" for p
      using finish_tool_rel [OF own2, of "succeededColumns g e p" e] by (intro rest) (simp add: succeededColumns_def)
    show ?thesis
      using failed [of tool "''INVALID_OUTPUT''"] finished out Inr raw
      by (simp add: executeInvocation_def attempt_def obind_def [of "attempt m" for m] split: sum.split)
  qed
qed

lemma invoke_tool_rel:
  "wsteps (tool_rel (tx_tenantId ctx)) (invokeRegisteredTool g e (core_registry h) name input ctx)"
  unfolding wsteps_def
proof
  fix s :: "db \<times> 'a"
  obtain d f where s: "s = (d, f)" by fastforce
  show "tool_rel (tx_tenantId ctx) (fst s) (fst (snd (invokeRegisteredTool g e (core_registry h) name input ctx s)))"
  proof (cases rule: invoke_cases [of g e "core_registry h" name input ctx s])
    case (refused err)
    then show ?thesis by (simp add: tool_rel.R_refl)
  next
    case (accepted tool)
    show ?thesis
    proof (cases rule: insertInvocation_cases [of g e tool input ctx d])
      case known
      then obtain row rows where "own_rows (tx_tenantId ctx) (invocationKey tool ctx) d = row # rows"
        by (meson neq_Nil_conv)
      with known accepted(5) show ?thesis
        using replay_eq [of ctx tool d row rows e f] by (simp add: s obind_def on_db_def tool_rel.R_refl)
    next
      case new
      let ?p = "pendingRow g e tool input ctx" and ?d1 = "d\<lparr>tool_invocations := tool_invocations d @ [pendingRow g e tool input ctx]\<rparr>"
      have p: "ti_id ?p = env_uuid e 0" "ti_tenant_id ?p = tx_tenantId ctx" by (simp_all add: pendingRow_def)
      have "tool_rel (tx_tenantId ctx) d ?d1"
        using new(3) p by (auto simp: tool_rel_def tenant_frame_defs)
      moreover have "owns_call (tx_tenantId ctx) (env_uuid e 0) ?d1" using p by (simp add: owns_call_def)
      ultimately show ?thesis
        using accepted(5) new(1) execute_tool_rel [OF accepted(1), of ctx e ?d1 g input f]
        by (auto simp: s obind_def on_db_def intro: tool_rel.R_trans)
    next
      case (failed err)
      with accepted(5) show ?thesis by (simp add: s obind_def on_db_def tool_rel.R_refl)
    qed
  qed
qed


subsection \<open>What a relation has to allow for a message to keep to it\<close>

lemma resolveContext_tenant: "resolveContext e inp d = (Inr ctx, d') \<Longrightarrow> rx_tenantId ctx = ni_tenantId inp"
  by (auto simp: resolveContext_def withTenantTransaction_Inr resolveContext_tx_def tx_simps)

locale talk_contract = turn_contract R t for R :: "db \<Rightarrow> db \<Rightarrow> bool" and t :: uuid +
  assumes thread_inserted: "th_tenant_id th = t \<Longrightarrow> steps R (insert_thread th)"
    and message_inserted: "ms_tenant_id ms = t \<Longrightarrow> steps R (insert_message ms)"
    and decision_inserted: "ad_tenant_id ad = t \<Longrightarrow> steps R (insert_authority_decision ad)"
    and receipt_inserted: "re_tenant_id re = t \<Longrightarrow> receipt_type (re_payload re) \<noteq> ''state_transitioned'' \<Longrightarrow>
      steps R (insert_action_receipt re)"
begin

lemma context_read: "osteps R (resolveContext e inp)"
  unfolding resolveContext_def resolveContext_tx_def resolveWorkspace_def
  by (auto intro!: osteps_tx steps_rules split: option.split)

lemma message_stored: "rx_tenantId (pm_context inp) = t \<Longrightarrow> osteps R (persistMessage e inp)"
  unfolding persistMessage_def persistMessage_tx_def openThread_def correlatedMessage_def
  by (auto intro!: osteps_tx steps_rules thread_inserted message_inserted simp: threadRow_def userMessageRow_def split: option.split)

lemma reply_stored: "tenantId = t \<Longrightarrow> osteps R (persistAssistantReply e tenantId th a content)"
  unfolding persistAssistantReply_def
  by (auto intro!: osteps_tx steps_rules message_inserted simp: assistantRow_def)

lemma context_assembled: "osteps R (assembleThreadContext e tenantId th memory)"
  unfolding assembleThreadContext_def by (intro osteps_obind osteps_pure reads)

lemma embedded: "ro_tenantId opts = t \<Longrightarrow> wsteps R (runEmbedding nf v e prov input opts)"
  unfolding runEmbedding_def withInput_def by (auto intro!: execute wsteps_pure split: option.split)

lemma interpreted: "ro_tenantId opts = t \<Longrightarrow> wsteps R (runIntentInterpretation nf v e prov input opts)"
  unfolding runIntentInterpretation_def withInput_def by (auto intro!: execute wsteps_pure split: option.split)

lemma candidates_read:
  "osteps R (queryFtsCandidates pg e tenantId q l f)"
  "osteps R (queryVectorCandidates nf pg e tenantId vec dims mp mn mv l f)"
  unfolding queryFtsCandidates_def queryVectorCandidates_def
  by (auto intro!: osteps_tx steps_rules split: option.split)

lemma hybrid_read: "hy_tenantId inp = t \<Longrightarrow> wsteps R (retrieveHybridMemory nf pg fl v e provider inp)"
  unfolding retrieveHybridMemory_def
  by (auto intro!: wsteps_obind wsteps_pure wsteps_on_db embedded candidates_read
      split: sum.split prod.split model_operation_result.split)

lemma memory_read: "tenantId = t \<Longrightarrow> wsteps R (retrieveMemory h e tenantId persisted)"
  unfolding retrieveMemory_def retrieveRelevantMemory_def Let_def
  by (auto intro!: wsteps_obind wsteps_pure wsteps_on_db hybrid_read reads osteps_pure split: sum.split retrieval_strategy.split)

lemma route_resolved: "tenantId = t \<Longrightarrow> wsteps R (resolveEloraRoute content sys (interpretRoute h e tenantId persisted))"
  unfolding resolveEloraRoute_def interpretRoute_def Let_def
  by (auto intro!: wsteps_obind wsteps_pure interpreted simp: routeOptions_def split: sum.split option.split)

lemma receipt_written:
  "tenantId = t \<Longrightarrow> receipt_type payload \<noteq> ''state_transitioned'' \<Longrightarrow>
   steps R (insertEloraReceipt e tenantId a payload w r dec i key)"
  unfolding insertEloraReceipt_def Let_def
  by (auto intro!: steps_rules receipt_inserted simp: eloraReceipt_def action_receipt.defs action_receipt_row.defs)

lemma refusal_recorded: "rx_tenantId ctx = t \<Longrightarrow> osteps R (recordRefusal e ctx persisted intent txt)"
  unfolding recordRefusal_def writeRefusalRecord_def Let_def
  by (auto intro!: osteps_obind osteps_pure osteps_tx steps_rules decision_inserted receipt_written
      simp: refusalDecision_def Let_def split: prod.split)

lemma conversed: "rx_tenantId ctx = t \<Longrightarrow> wsteps R (converse h e ctx persisted intent memory)"
  unfolding converse_def
  by (intro wsteps_obind wsteps_pure wsteps_on_db context_assembled conversation reply_stored refusal_recorded)
    (simp_all add: conversationalInput_def)

end


lemma classified_context:
  "classifyWorkOrder h e ctx persisted intent memory w d = (Inr (b, st), d') \<Longrightarrow> br_context b = ctx"
  by (auto simp: classifyWorkOrder_def Let_def obind_def oreturn_def othrow_def split: prod.splits sum.splits option.splits)

locale record_contract = talk_contract R t for R :: "db \<Rightarrow> db \<Rightarrow> bool" and t :: uuid +
  assumes candidate_inserted: "mc_tenant_id mc = t \<Longrightarrow> mc_review_status mc = proposed \<Longrightarrow>
      mc_promoted_memory_record_id mc = None \<Longrightarrow> steps R (insert_memory_candidate mc)"
    and tool_called: "tool_rel t d d' \<Longrightarrow> R d d'"
begin

lemma tool_run: "tx_tenantId ctx = t \<Longrightarrow> wsteps R (invokeRegisteredTool g e (core_registry h) name input ctx)"
  using invoke_tool_rel [of ctx g e h name input] tool_called by (simp add: wsteps_def)

lemma candidates_proposed: "tenantId = t \<Longrightarrow> osteps R (proposeMemoryCandidates e tenantId w intent out)"
  unfolding proposeMemoryCandidates_def Let_def
  by (auto intro!: osteps_pure osteps_tx steps_rules candidate_inserted simp: proposedCandidate_def split: prod.split)

lemma receipts_written:
  "wr_tenantId ri = t \<Longrightarrow> osteps R (writeEloraReceipt e ri)"
  "wk_tenantId bi = t \<Longrightarrow> osteps R (writeBlockedReceipt e bi)"
  "wf_tenantId fi = t \<Longrightarrow> osteps R (writeExecutionFailureReceipt e fi)"
  unfolding writeEloraReceipt_def writeBlockedReceipt_def writeExecutionFailureReceipt_def
  by (auto intro!: osteps_tx receipt_written)

lemma answer_generated: "wsteps R (generateAnswer h fb context)"
  unfolding generateAnswer_def
  by (intro wsteps_on_model)
    (auto simp: wsteps_def generateEloraResponse_def R_refl split: option.split prod.split call_outcome.split)

lemma branch_answered: "rx_tenantId (br_context b) = t \<Longrightarrow> wsteps R (answerBranch h e b st)"
  unfolding answerBranch_def branchReceipt_def Let_def
  by (auto intro!: wsteps_obind wsteps_pure wsteps_on_db answer_generated osteps_obind osteps_pure receipts_written
      candidates_proposed split: prod.split)

lemma authority_resolved: "osteps R (resolveIngestAuthority h e ctx persisted intent)"
  unfolding resolveIngestAuthority_def resolveAuthorityWithHierarchy_def resolvePersonaActorId_def resolveHierarchy_tx_def Let_def
  by (auto intro!: osteps_obind osteps_pure osteps_tx steps_rules split: option.split)

lemma replay_read: "osteps R (loadAlreadyProcessedResult e tenantId w intent memory persisted)"
  unfolding loadAlreadyProcessedResult_def by (rule reads)

end

locale ingest_contract = record_contract R t for R :: "db \<Rightarrow> db \<Rightarrow> bool" and t :: uuid +
  assumes work_order_created: "cw_tenantId wi = t \<Longrightarrow> osteps R (createWorkOrder e wi)"
    and work_order_moved: "tw_tenantId ti = t \<Longrightarrow> osteps R (transitionWorkOrder e ti)"
begin

lemma execution_moved: "te_tenantId inp = t \<Longrightarrow> wsteps R (te_move e inp st reason)"
  unfolding te_move_def by (intro wsteps_on_db work_order_moved) (simp add: plain_move_def)

lemma tool_executed: "te_tenantId inp = t \<Longrightarrow> wsteps R (runToolExecution g (core_registry h) e inp)"
  unfolding runToolExecution_def executionFailed_def executionSucceeded_def
  by (auto intro!: wsteps_obind wsteps_pure wsteps_on_db execution_moved tool_run candidates_proposed receipts_written
      simp: toolContext_def split: option.split)

lemma branch_executed: "rx_tenantId (br_context b) = t \<Longrightarrow> wsteps R (executeBranch h e b cid dc)"
  unfolding executeBranch_def
  by (intro wsteps_obind wsteps_pure wsteps_on_files tool_executed answer_generated) (simp add: executionInput_def)

lemma classified: "rx_tenantId ctx = t \<Longrightarrow> osteps R (classifyWorkOrder h e ctx persisted intent memory w)"
  unfolding classifyWorkOrder_def Let_def
  by (auto intro!: osteps_obind osteps_pure work_order_moved authority_resolved simp: plain_move_def split: option.split)

lemma work_order_run:
  assumes "rx_tenantId ctx = t"
  shows "wsteps R (runWorkOrder h e normalized ctx persisted intent memory)"
proof -
  have "osteps R (createWorkOrder (env_at 30 e) (pipelineWorkOrder ctx persisted intent))"
    using assms by (intro work_order_created) (simp add: pipelineWorkOrder_def)
  moreover have "wsteps R (obind (on_db (classifyWorkOrder h e ctx persisted intent memory w)) (\<lambda>(b, status).
      case dispatchTool intent of
         Some dc \<Rightarrow> if status = READY_TO_ACT
           then executeBranch h e b (or_default (uuid_str (env_uuid (env_at 39 e) 0)) (ni_sourceCorrelationId normalized)) dc
           else answerBranch h e b status
       | None \<Rightarrow> answerBranch h e b status))" for w
    using assms
    by (intro wsteps_obind_result wsteps_on_db classified)
      (auto intro!: branch_executed branch_answered simp: on_db_def split: option.split prod.splits dest!: classified_context)
  ultimately show ?thesis
    unfolding runWorkOrder_def by (auto intro!: wsteps_obind wsteps_on_db replay_read split: prod.split)
qed

lemma ingested:
  assumes "uuid_of_str (ig_tenantId inp) = Some t"
  shows "wsteps R (ingestUserMessage h e inp)"
proof (cases "normalizeIngress inp")
  case (Inl err)
  then show ?thesis by (simp add: ingestUserMessage_def wsteps_pure)
next
  case (Inr normalized)
  then have t: "ni_tenantId normalized = t"
    using assms by (auto simp: normalizeIngress_def sum_bind_def required_id_def split: sum.splits if_splits option.splits)
  have ctx: "rx_tenantId ctx = t" if "on_db (resolveContext e' normalized) s = (Inr ctx, s')" for ctx e' and s s' :: "db \<times> 'x"
    using that t by (auto simp: on_db_def split: prod.splits dest!: resolveContext_tenant)
  show ?thesis
    unfolding ingestUserMessage_def Inr sum.case Let_def
    by (rule wsteps_obind_result [OF wsteps_on_db [OF context_read]])
      (auto dest!: ctx intro!: wsteps_obind wsteps_on_db message_stored wsteps_on_model memory_read route_resolved work_order_run conversed)
qed

end

subsection \<open>Every message is a step of its tenant\<close>

lemma turn_inserts:
  assumes "steps (tenant_frame t) m" "steps aside m"
  shows "steps (turn_rel t) m"
  using assms by (auto simp: steps_def turn_aside)

lemma tool_rel_turn: "tool_rel t d d' \<Longrightarrow> turn_rel t d d'"
  by (rule turn_aside; cases d; cases d')
    (simp_all add: tool_rel_def aside_def world_untouched_def wo_untouched_def dir_untouched_def cr_untouched_def mem_untouched_def
      wo_receipts_def wo_refs_ok_def)

lemmas aside_defs = aside_def world_untouched_def wo_untouched_def dir_untouched_def cr_untouched_def wo_receipts_def wo_refs_ok_def

lemma aside_inserts:
  "steps aside (insert_thread th)" "steps aside (insert_message ms)" "steps aside (insert_authority_decision ad)"
  "receipt_type (re_payload re) \<noteq> ''state_transitioned'' \<Longrightarrow> steps aside (insert_action_receipt re)"
  "mc_review_status mc = proposed \<Longrightarrow> mc_promoted_memory_record_id mc = None \<Longrightarrow> steps aside (insert_memory_candidate mc)"
      apply (auto simp: steps_def insert_thread_def tx_simps aside_defs intro!: mem_untouched_same)[1]
     apply (auto simp: steps_def insert_message_def tx_simps aside_defs intro!: mem_untouched_same)[1]
    apply (auto simp: steps_def insert_authority_decision_def tx_simps aside_defs intro!: mem_untouched_same)[1]
   apply (auto simp: steps_def insert_action_receipt_def tx_simps aside_defs intro!: mem_untouched_same)[1]
  apply (auto simp: steps_def insert_memory_candidate_def tx_simps aside_defs mem_untouched_def)[1]
  done

interpretation turn: ingest_contract "turn_rel t" t for t
  by unfold_locales (auto intro!: turn_inserts rel_intros aside_inserts turn_ops tool_rel_turn)

text \<open>
  C6. Ingestion is a step of its tenant. Whatever the model providers, the tools and the clock do, and whether
  the call succeeds or throws at any stage, the ingestion of a message of one tenant leads from a reachable
  database to a reachable one, appends to the audit tables only, and leaves the rows of every other tenant
  as they are.
\<close>

theorem ingestion_is_a_tenant_step:
  assumes "uuid_of_str (ig_tenantId inp) = Some t" "ingestUserMessage h e inp (d, f, p) = (res, (d', f', p'))"
  shows "(reachable d \<longrightarrow> reachable d') \<and> audit_appends d d' \<and> (pk_ok d \<longrightarrow> pk_ok d' \<and> foreign_view t d' = foreign_view t d)"
proof -
  from turn.ingested [OF assms(1), of h e] have "turn_rel t (fst (d, f, p)) (fst (snd (ingestUserMessage h e inp (d, f, p))))"
    unfolding wsteps_def by (rule spec)
  then show ?thesis by (simp add: assms(2) turn_rel_def tenant_frame_def)
qed

subsection \<open>Conversations\<close>

text \<open>The tables a conversation may write\<close>

definition talk_rest :: "db \<Rightarrow> db" where
  "talk_rest d = d\<lparr>threads := [], messages := [], authority_decisions := [], action_receipts := [], cognitive_runs := [],
     cognitive_run_transitions := [], model_invocations := []\<rparr>"

definition talk_rel :: "db \<Rightarrow> db \<Rightarrow> bool" where
  "talk_rel d d' \<longleftrightarrow> talk_rest d' = talk_rest d"

lemma cr_rel_talk: "cr_rel t d d' \<Longrightarrow> talk_rel d d'"
  by (cases d; cases d') (simp add: cr_rel_def cr_rest_def talk_rel_def talk_rest_def)

lemma talk_runs: "osteps talk_rel (createCognitiveRun e ci)" "osteps talk_rel (transitionCognitiveRun e mi)"
  using cognition_ops_rel(1) [of ci e] cognition_ops_rel(2) [of mi e False]
  by (auto simp: osteps_def transitionCognitiveRun_def intro: cr_rel_talk)

interpretation talk: talk_contract talk_rel t for t
  by unfold_locales
    (auto simp: talk_rel_def talk_rest_def added_def steps_def insert_thread_def insert_message_def insert_authority_decision_def
      insert_action_receipt_def tx_simps intro: talk_runs)

lemma obind_InrD: "obind m f s = (Inr r, s') \<Longrightarrow> \<exists>x s1. m s = (Inr x, s1) \<and> f x s1 = (Inr r, s')"
  by (auto simp: obind_def split: prod.splits sum.splits)

text \<open>A stage that stays in conversation: no table of the work, no file\<close>

definition talks :: "db \<times> 'f \<times> 'p \<Rightarrow> db \<times> 'f \<times> 'p \<Rightarrow> bool" where
  "talks s s' \<longleftrightarrow> talk_rel (fst s) (fst s') \<and> fst (snd s') = fst (snd s)"

lemma talks_on_db: "osteps talk_rel m \<Longrightarrow> on_db m s = (x, s') \<Longrightarrow> talks s s'"
  using wsteps_on_db [of talk_rel m] by (auto simp: talks_def wsteps_def on_db_def split: prod.splits)

lemma talks_on_model: "wsteps talk_rel m \<Longrightarrow> on_model m s = (x, s') \<Longrightarrow> talks s s'"
  using wsteps_on_model [of talk_rel m] by (auto simp: talks_def wsteps_def on_model_def split: prod.splits) (metis fst_conv snd_conv)

lemma talks_trans: "talks s s' \<Longrightarrow> talks s' s'' \<Longrightarrow> talks s s''"
  by (simp add: talks_def talk_rel_def)

lemma branches_name_work_order:
  "executeBranch h e b cid dc s = (Inr r, s') \<Longrightarrow> er_workOrderId r = Some (br_workOrderId b)"
  "answerBranch h e b st s = (Inr r, s') \<Longrightarrow> er_workOrderId r = Some (br_workOrderId b)"
  "on_db (loadAlreadyProcessedResult e t w intent memory persisted) s = (Inr r, s') \<Longrightarrow> er_workOrderId r = Some (wo_id w)"
  by (auto simp: executeBranch_def answerBranch_def branchResult_def oreturn_def Let_def on_db_def loadAlreadyProcessedResult_def
      withTenantTransaction_def query_def recordedResult_def split: prod.splits dest!: obind_InrD)

lemma pipeline_names_work_order:
  "runWorkOrder h e normalized ctx persisted intent memory s = (Inr r, s') \<Longrightarrow> er_workOrderId r \<noteq> None"
  unfolding runWorkOrder_def
  by (auto dest!: obind_InrD branches_name_work_order split: prod.splits if_splits option.splits)


end
