(* ===== verification/IngestPath.thy ===== *)
theory IngestPath
  imports IngestProps "HOL-Library.Multiset"
begin

text \<open>
  The answer of the WorkOrder pipeline tells what is recorded: the WorkOrder it names exists, in the status and
  with the decision it reports, and the path it reports is the recorded history. \<open>tracked\<close> follows one
  WorkOrder through the stages; every stage that is not a transition leaves it as it is.
\<close>

subsection \<open>Following a WorkOrder\<close>

definition tracked :: "uuid \<Rightarrow> uuid \<Rightarrow> uuid option \<Rightarrow> work_order_status list \<Rightarrow> db \<Rightarrow> bool" where
  "tracked t i a path d \<longleftrightarrow>
     (\<exists>w\<in>set (work_orders d). wo_id w = i \<and> wo_tenant_id w = t \<and> wo_authority_decision_id w = a) \<and>
     map snd (wo_history d i) = path"

lemma tracked_untouched: "wo_untouched d d' \<Longrightarrow> tracked t i a p d \<Longrightarrow> tracked t i a p d'"
  by (simp add: wo_untouched_def tracked_def wo_history_def)

lemma tracked_osteps: "osteps wo_untouched m \<Longrightarrow> m d = (x, d') \<Longrightarrow> tracked t i a p d \<Longrightarrow> tracked t i a p d'"
  using tracked_untouched ostepsD [of wo_untouched m d] by auto

lemma tracked_on_db: "osteps wo_untouched m \<Longrightarrow> on_db m s = (x, s') \<Longrightarrow> tracked t i a p (fst s) \<Longrightarrow> tracked t i a p (fst s')"
  by (auto simp: on_db_def split: prod.splits dest: tracked_osteps)

lemma tracked_wsteps: "wsteps wo_untouched m \<Longrightarrow> m s = (x, s') \<Longrightarrow> tracked t i a p (fst s) \<Longrightarrow> tracked t i a p (fst s')"
  using tracked_untouched unfolding wsteps_def by (metis snd_conv)

lemma no_new_decision: "substantiates e inp rls w d nd d1 \<Longrightarrow> tw_nextStatus inp \<noteq> AUTHORITY_CLASSIFIED \<Longrightarrow> nd = None"
  by (cases rule: substantiates.cases) auto

lemma tracked_move:
  assumes "transitionWorkOrder e ti d = (Inr r, d')" "tracked t i a p d" "tw_tenantId ti = t" "tw_workOrderId ti = i"
  shows "tracked t i (case tr_authorityDecision r of None \<Rightarrow> a | Some x \<Rightarrow> Some (ad_id x)) (p @ [tw_nextStatus ti]) d'"
    and "status_of r = tw_nextStatus ti"
    and "tw_nextStatus ti \<noteq> AUTHORITY_CLASSIFIED \<Longrightarrow> tr_authorityDecision r = None"
proof -
  let ?c = "\<lparr>cl_tenant = tw_tenantId ti, cl_rls = env_rls e\<rparr>"
  from assms(1) have tx: "runTransition_tx e ti False ?c d = Inr (r, d')"
    by (simp add: transitionWorkOrder_def runTransition_def withTenantTransaction_Inr)
  obtain w d1 where w: "w \<in> set (work_orders d)" "wo_id w = i" "wo_tenant_id w = t"
    and s: "substantiates e ti (cl_rls ?c) w d (map_option ad_id (tr_authorityDecision r)) d1"
    and d': "d' = after_move e ti (wo_status w) (map_option ad_id (tr_authorityDecision r)) d1"
    and res: "\<exists>x. tr_workOrder r = (wo_id w, wo_tenant_id w, tw_nextStatus ti, x)"
    using assms(3,4) by (rule_tac runTransition_effect [OF tx]) auto
  from assms(2) obtain v where v: "v \<in> set (work_orders d)" "wo_id v = i" "wo_tenant_id v = t" "wo_authority_decision_id v = a"
    and h: "map snd (wo_history d i) = p"
    by (auto simp: tracked_def)
  let ?nd = "map_option ad_id (tr_authorityDecision r)"
  have "moved e ti ?nd v \<in> set (work_orders d')"
    using v(1-3) assms(3,4) by (auto simp: d' after_move_def substantiates_frame(1) [OF s] set_update_where)
  moreover have "wo_authority_decision_id (moved e ti ?nd v) = (case tr_authorityDecision r of None \<Rightarrow> a | Some x \<Rightarrow> Some (ad_id x))"
    by (simp add: moved_def v(4) split: option.split)
  moreover have "map snd (wo_history d' i) = p @ [tw_nextStatus ti]"
    using h assms(4) by (simp add: d' wo_history_def after_move_def substantiates_frame(2) [OF s] transitionRow_def)
  ultimately show "tracked t i (case tr_authorityDecision r of None \<Rightarrow> a | Some x \<Rightarrow> Some (ad_id x)) (p @ [tw_nextStatus ti]) d'"
    unfolding tracked_def using v(2,3) by (intro conjI bexI [of _ "moved e ti ?nd v"]) simp_all
  show "status_of r = tw_nextStatus ti" using res by (auto simp: status_of_def)
  show "tw_nextStatus ti \<noteq> AUTHORITY_CLASSIFIED \<Longrightarrow> tr_authorityDecision r = None"
    using no_new_decision [OF s] by simp
qed

text \<open>The stages that are no transition\<close>

interpretation kept: record_contract wo_untouched t for t
proof unfold_locales
  show "osteps wo_untouched (createCognitiveRun e ci)" for e ci
    using cognition_ops_rel(1) [of ci e] by (auto simp: osteps_def dest!: cr_rel_others)
  show "osteps wo_untouched (transitionCognitiveRun e mi)" for e mi
    using cognition_ops_rel(2) [of mi e False] by (auto simp: osteps_def transitionCognitiveRun_def dest!: cr_rel_others)
  show "wo_untouched d (added m d)" for d m
    by (simp add: added_def wo_untouched_def wo_receipts_def wo_refs_ok_def)
  have aside: "steps aside m \<Longrightarrow> steps wo_untouched m" for m :: "unit dtx" by (auto simp: steps_def aside_def)
  show "steps wo_untouched (insert_thread th)" "steps wo_untouched (insert_message ms)" "steps wo_untouched (insert_authority_decision ad)"
    for th ms ad by (intro aside aside_inserts)+
  show "receipt_type (re_payload re) \<noteq> ''state_transitioned'' \<Longrightarrow> steps wo_untouched (insert_action_receipt re)" for re
    by (intro aside aside_inserts)
  show "mc_review_status mc = proposed \<Longrightarrow> mc_promoted_memory_record_id mc = None \<Longrightarrow> steps wo_untouched (insert_memory_candidate mc)" for mc
    by (intro aside aside_inserts)
  show "tool_rel t d d' \<Longrightarrow> wo_untouched d d'" for d d'
    by (cases d; cases d') (simp add: tool_rel_def wo_untouched_def wo_receipts_def wo_refs_ok_def)
qed


text \<open>A status the path ends in is the status of the row, in a database that satisfies the invariant.\<close>

lemma tracked_status:
  assumes "tracked t i a p d" "wo_inv d"
  obtains w where "w \<in> set (work_orders d)" "wo_id w = i" "wo_tenant_id w = t" "wo_authority_decision_id w = a" "wo_status w = last p"
    "p = map snd (wo_history d i)"
proof -
  from assms(1) obtain w where w: "w \<in> set (work_orders d)" "wo_id w = i" "wo_tenant_id w = t" "wo_authority_decision_id w = a"
    and p: "p = map snd (wo_history d i)" by (auto simp: tracked_def)
  from wo_historyD [OF assms(2) w(1)] have h: "trail VALID_WORK_ORDER_TRANSITIONS RECEIVED (wo_history d i) (wo_status w)"
    by (simp add: w(2))
  have "last p = snd (last (wo_history d i))" using trail_not_Nil [OF h] by (simp add: p last_map)
  with trail_last [OF h] w p show thesis by (intro that [of w]) simp_all
qed

lemma received_path:
  assumes "wo_inv d" "w \<in> set (work_orders d)" "wo_status w = RECEIVED"
  shows "tracked (wo_tenant_id w) (wo_id w) (wo_authority_decision_id w) [RECEIVED] d"
proof -
  let ?h = "wo_history d (wo_id w)"
  from wo_historyD [OF assms(1,2)] assms(3) have h: "trail VALID_WORK_ORDER_TRANSITIONS RECEIVED ?h RECEIVED" by simp
  obtain x xs where hx: "?h = x # xs" using trail_not_Nil [OF h] by (meson neq_Nil_conv)
  have "xs = []"
  proof (rule ccontr)
    assume ne: "xs \<noteq> []"
    then have "snd (last ?h) \<in> snd ` set xs" by (simp add: hx)
    with ne trail_last [OF h] trail_hd [OF h] wo_life.trail_distinct [OF h] show False by (simp add: hx)
  qed
  with hx trail_hd [OF h] assms(2) show ?thesis by (auto simp: tracked_def)
qed


subsection \<open>The stages of the pipeline\<close>

lemma te_move_tracked:
  assumes "te_move e inp st reason s = (Inr r, s')" "tracked (te_tenantId inp) (te_workOrderId inp) a p (fst s)" "st \<noteq> AUTHORITY_CLASSIFIED"
  shows "tracked (te_tenantId inp) (te_workOrderId inp) a (p @ [st]) (fst s') \<and> status_of r = st"
proof -
  let ?ti = "plain_move (te_tenantId inp) (te_workOrderId inp) (te_actorId inp) st reason"
  from assms(1) have "transitionWorkOrder e ?ti (fst s) = (Inr r, fst s')"
    by (auto simp: te_move_def on_db_def split: prod.splits)
  note m = tracked_move [OF this assms(2)]
  from m assms(3) show ?thesis by (simp add: plain_move_def)
qed

lemma failed_tracked:
  assumes "executionFailed e inp rid path invocation s = (Inr z, s')" "tracked (te_tenantId inp) (te_workOrderId inp) a p (fst s)"
  shows "tracked (te_tenantId inp) (te_workOrderId inp) a (p @ [FAILED]) (fst s') \<and> tz_transitionPath z = path @ [FAILED] \<and>
    tz_finalStatus z = FAILED"
proof -
  from assms(1) obtain reason y s1 u v where 1: "te_move (env_at 4 e) inp FAILED reason s = (Inr y, s1)"
    and 2: "on_db (writeExecutionFailureReceipt (env_at 5 e) u) s1 = (Inr v, s')"
    and z: "tz_transitionPath z = path @ [status_of y]" "tz_finalStatus z = status_of y"
    unfolding executionFailed_def by (auto dest!: obind_InrD simp: oreturn_def)
  from te_move_tracked [OF 1 assms(2)] have t: "tracked (te_tenantId inp) (te_workOrderId inp) a (p @ [FAILED]) (fst s1)" "status_of y = FAILED"
    by simp_all
  with tracked_on_db [OF kept.receipts_written(3) [OF refl] 2 t(1)] z show ?thesis by simp
qed

lemma succeeded_tracked:
  assumes "executionSucceeded e inp path invocation s = (Inr z, s')" "tracked (te_tenantId inp) (te_workOrderId inp) a p (fst s)"
  shows "tracked (te_tenantId inp) (te_workOrderId inp) a (p @ [VALIDATING, RECEIPT_WRITTEN, COMPLETED]) (fst s') \<and>
    tz_transitionPath z = path @ [VALIDATING, RECEIPT_WRITTEN, COMPLETED] \<and> tz_finalStatus z = COMPLETED"
proof -
  let ?T = "tracked (te_tenantId inp) (te_workOrderId inp) a"
  from assms(1) obtain x1 s1 x2 s2 cs s3 x3 where 1: "te_move (env_at 6 e) inp VALIDATING ''Execution complete, validating output'' s = (Inr x1, s1)"
    and 2: "te_move (env_at 7 e) inp RECEIPT_WRITTEN ''Validation complete, receipt recorded'' s1 = (Inr x2, s2)"
    and 3: "on_db (proposeMemoryCandidates (env_at 8 e) (te_tenantId inp) (te_workOrderId inp) (te_intent inp) (te_outcome inp)) s2 = (Inr cs, s3)"
    and 4: "te_move (env_at 9 e) inp COMPLETED ''Execution completed successfully'' s3 = (Inr x3, s')"
    and z: "tz_transitionPath z = path @ [status_of x1, status_of x2, status_of x3]" "tz_finalStatus z = status_of x3"
    unfolding executionSucceeded_def by (auto dest!: obind_InrD simp: oreturn_def)
  from te_move_tracked [OF 1 assms(2)] have t1: "?T (p @ [VALIDATING]) (fst s1)" "status_of x1 = VALIDATING" by simp_all
  from te_move_tracked [OF 2 t1(1)] have t2: "?T ((p @ [VALIDATING]) @ [RECEIPT_WRITTEN]) (fst s2)" "status_of x2 = RECEIPT_WRITTEN" by simp_all
  note t3 = tracked_on_db [OF kept.candidates_proposed [OF refl] 3 t2(1)]
  from te_move_tracked [OF 4 t3] t1(2) t2(2) z show ?thesis by simp
qed

lemma execution_tracked:
  assumes run: "runToolExecution g (core_registry h) e inp s = (Inr z, s')"
    and start: "tracked (te_tenantId inp) (te_workOrderId inp) a p (fst s)"
  shows "tracked (te_tenantId inp) (te_workOrderId inp) a (p @ tz_transitionPath z) (fst s') \<and> tz_transitionPath z \<noteq> [] \<and>
    last (tz_transitionPath z) = tz_finalStatus z"
proof -
  let ?T = "tracked (te_tenantId inp) (te_workOrderId inp) a"
  from run obtain x s1 invocation s2 i where 1: "te_move (env_at 1 e) inp EXECUTING (''Dispatching to registered tool \"'' @ dt_toolName (te_dispatched inp) @ ''\"'') s = (Inr x, s1)"
    and 2: "invokeRegisteredTool g (env_at 2 e) (core_registry h) (dt_toolName (te_dispatched inp)) (dispatchedInput (te_dispatched inp)) (toolContext inp) s1 = (Inr invocation, s2)"
    and 3: "(if tr_status invocation \<noteq> ti_succeeded then executionFailed e inp i [status_of x] invocation
         else executionSucceeded e inp [status_of x] invocation) s2 = (Inr z, s')"
    unfolding runToolExecution_def
    by (auto dest!: obind_InrD simp: othrow_def split: option.splits prod.splits)
  from te_move_tracked [OF 1 start] have t1: "?T (p @ [EXECUTING]) (fst s1)" and x: "status_of x = EXECUTING" by simp_all
  have "te_tenantId inp = tx_tenantId (toolContext inp)" by (simp add: toolContext_def)
  then have t2: "?T (p @ [EXECUTING]) (fst s2)" using tracked_wsteps [OF kept.tool_run [OF refl] 2 t1] by simp
  show ?thesis
  proof (cases "tr_status invocation = ti_succeeded")
    case False
    with 3 have "executionFailed e inp i [status_of x] invocation s2 = (Inr z, s')" by simp
    from failed_tracked [OF this t2] show ?thesis by (simp add: x)
  next
    case True
    with 3 have "executionSucceeded e inp [status_of x] invocation s2 = (Inr z, s')" by simp
    from succeeded_tracked [OF this t2] show ?thesis by (simp add: x)
  qed
qed

text \<open>What a branch reports of the WorkOrder it was given\<close>

definition reports :: "branch_input \<Rightarrow> elora_ingestion_result \<Rightarrow> db \<Rightarrow> bool" where
  "reports b r d \<longleftrightarrow> er_workOrderId r = Some (br_workOrderId b) \<and> er_authorityDecisionId r = Some (br_decisionId b) \<and>
     tracked (rx_tenantId (br_context b)) (br_workOrderId b) (Some (br_decisionId b)) (er_transitionPath r) d \<and>
     er_finalWorkOrderStatus r = Some (last (er_transitionPath r)) \<and> er_tenantId r = rx_tenantId (br_context b)"

lemma executed_reports:
  assumes "executeBranch h e b cid dc s = (Inr r, s')"
    "tracked (rx_tenantId (br_context b)) (br_workOrderId b) (Some (br_decisionId b)) (br_path b) (fst s)"
  shows "reports b r (fst s')"
proof -
  let ?inp = "executionInput b cid dc"
  from assms(1) obtain z s1 y fb c where 1: "on_files (runToolExecution (ih_texts h) (core_registry (ih_tools h)) (env_at 40 e) ?inp) s = (Inr z, s1)"
    and 2: "generateAnswer h fb c s1 = (Inr y, s')"
    and r: "er_transitionPath r = br_path b @ tz_transitionPath z" "er_finalWorkOrderStatus r = Some (tz_finalStatus z)"
      "er_workOrderId r = Some (br_workOrderId b)" "er_authorityDecisionId r = Some (br_decisionId b)" "er_tenantId r = rx_tenantId (br_context b)"
    unfolding executeBranch_def
    by (auto dest!: obind_InrD simp: oreturn_def branchResult_def ingestionResult_def)
  from 1 obtain d f p d1 f1 p1 where s: "s = (d, f, p)" "s1 = (d1, f1, p1)"
    and run: "runToolExecution (ih_texts h) (core_registry (ih_tools h)) (env_at 40 e) ?inp (d, f) = (Inr z, (d1, f1))"
    by (cases s; cases s1) (auto simp: on_files_def split: prod.splits)
  have inp: "te_tenantId ?inp = rx_tenantId (br_context b)" "te_workOrderId ?inp = br_workOrderId b" by (simp_all add: executionInput_def)
  from execution_tracked [OF run, of "Some (br_decisionId b)" "br_path b"] assms(2)
  have z: "tracked (rx_tenantId (br_context b)) (br_workOrderId b) (Some (br_decisionId b)) (er_transitionPath r) (fst s1)"
      "tz_transitionPath z \<noteq> []" "last (tz_transitionPath z) = tz_finalStatus z"
    by (simp_all add: s inp r)
  from tracked_wsteps [OF kept.answer_generated 2 z(1)] have "tracked (rx_tenantId (br_context b)) (br_workOrderId b) (Some (br_decisionId b)) (er_transitionPath r) (fst s')"
    .
  with r z(2,3) show ?thesis by (simp add: reports_def)
qed

lemma answered_reports:
  assumes "answerBranch h e b st s = (Inr r, s')" "st = last (br_path b)"
    "tracked (rx_tenantId (br_context b)) (br_workOrderId b) (Some (br_decisionId b)) (br_path b) (fst s)"
  shows "reports b r (fst s')"
proof -
  have "wsteps wo_untouched (answerBranch h e b st)"
    unfolding answerBranch_def branchReceipt_def Let_def
    by (auto intro!: wo_frame.wsteps_obind wo_frame.wsteps_pure wsteps_on_db kept.answer_generated wo_frame.osteps_obind wo_frame.osteps_pure
        kept.receipts_written kept.candidates_proposed split: prod.split)
  from tracked_wsteps [OF this assms(1,3)] show ?thesis
    using assms(1,2)
    by (auto simp: reports_def answerBranch_def branchResult_def ingestionResult_def oreturn_def Let_def split: prod.splits dest!: obind_InrD)
qed


lemma classified_tracked:
  assumes "classifyWorkOrder h e ctx persisted intent memory w d = (Inr (b, st), d')" "tracked (rx_tenantId ctx) (wo_id w) a [wo_status w] d"
  shows "tracked (rx_tenantId (br_context b)) (br_workOrderId b) (Some (br_decisionId b)) (br_path b) d' \<and> st = last (br_path b) \<and>
    br_workOrderId b = wo_id w \<and> br_context b = ctx"
proof -
  let ?move = "plain_move (rx_tenantId ctx) (wo_id w) (rx_actorId ctx)" and ?t = "rx_tenantId ctx" and ?i = "wo_id w"
  from assms(1) obtain x1 d1 authority d2 x2 d3 rec branch reason x3 where
    1: "transitionWorkOrder (env_at 31 e) (?move INTENT_PARSED ''Structured task parse completed'') d = (Inr x1, d1)"
    and 2: "resolveIngestAuthority h e ctx persisted intent d1 = (Inr authority, d2)"
    and 3: "transitionWorkOrder (env_at 34 e) ((?move AUTHORITY_CLASSIFIED ''Authority classification completed'')
        \<lparr>tw_authorityDecision := Some (decisionInput (checkedAuthority (core_registry (ih_tools h)) (dispatchTool intent) authority))\<rparr>) d2 = (Inr x2, d3)"
    and dec: "tr_authorityDecision x2 = Some rec"
    and 4: "transitionWorkOrder (env_at 35 e) (?move branch reason) d3 = (Inr x3, d')"
    and br: "branch = AUTHORITY_OUTCOME_TO_WORK_ORDER_STATUS (cls_outcome (checkedAuthority (core_registry (ih_tools h)) (dispatchTool intent) authority))"
    and b: "br_path b = [wo_status w, status_of x1, status_of x2, status_of x3]" "br_decisionId b = ad_id rec" "br_workOrderId b = wo_id w"
      "br_context b = ctx" "st = status_of x3"
    unfolding classifyWorkOrder_def Let_def
    by (auto dest!: obind_InrD simp: othrow_def oreturn_def split: option.splits)
  have t1: "tracked ?t ?i a ([wo_status w] @ [INTENT_PARSED]) d1" "status_of x1 = INTENT_PARSED"
    using tracked_move [OF 1 assms(2)] by (simp_all add: plain_move_def)
  note t2 = tracked_osteps [OF kept.authority_resolved 2 t1(1)]
  have t3: "tracked ?t ?i (Some (ad_id rec)) (([wo_status w] @ [INTENT_PARSED]) @ [AUTHORITY_CLASSIFIED]) d3" "status_of x2 = AUTHORITY_CLASSIFIED"
    using tracked_move [OF 3 t2] by (simp_all add: plain_move_def dec)
  have "branch \<noteq> AUTHORITY_CLASSIFIED"
    unfolding br by (cases "cls_outcome (checkedAuthority (core_registry (ih_tools h)) (dispatchTool intent) authority)") simp_all
  then have "tracked ?t ?i (Some (ad_id rec)) ((([wo_status w] @ [INTENT_PARSED]) @ [AUTHORITY_CLASSIFIED]) @ [branch]) d'" "status_of x3 = branch"
    using tracked_move [OF 4 t3(1)] by (simp_all add: plain_move_def)
  with t1(2) t3(2) show ?thesis by (simp add: b)
qed

lemma created_row:
  assumes "createWorkOrder e ci d = (Inr (w, x), d')"
  shows "w \<in> set (work_orders d') \<and> wo_tenant_id w = cw_tenantId ci"
  using assms
  by (auto simp: createWorkOrder_def withTenantTransaction_Inr after_create_def dest!: createWorkOrder_tx_Inr fetchExisting_Inr)

text \<open>The replay reports the rows of the WorkOrder.\<close>

definition reported :: "elora_ingestion_result \<Rightarrow> db \<Rightarrow> bool" where
  "reported r d \<longleftrightarrow> (\<exists>w\<in>set (work_orders d). er_workOrderId r = Some (wo_id w) \<and> er_tenantId r = wo_tenant_id w \<and>
     er_finalWorkOrderStatus r = Some (wo_status w) \<and> er_authorityDecisionId r = wo_authority_decision_id w \<and>
     mset (er_transitionPath r) = mset (map snd (wo_history d (wo_id w))))"

lemma reports_reported:
  assumes "reports b r d" "wo_inv d"
  shows "reported r d"
proof -
  from assms obtain w where "w \<in> set (work_orders d)" "wo_id w = br_workOrderId b" "wo_tenant_id w = rx_tenantId (br_context b)"
      "wo_authority_decision_id w = Some (br_decisionId b)" "wo_status w = last (er_transitionPath r)"
      "er_transitionPath r = map snd (wo_history d (br_workOrderId b))"
    unfolding reports_def by (elim conjE tracked_status)
  with assms(1) show ?thesis unfolding reported_def reports_def by (intro bexI [of _ w]) simp_all
qed

lemma replay_reported:
  assumes "loadAlreadyProcessedResult e t w intent memory persisted d = (Inr r, d')" "wo_inv d" "w \<in> set (work_orders d)" "wo_tenant_id w = t"
  shows "reported r d'"
proof -
  let ?c = "\<lparr>cl_tenant = t, cl_rls = env_rls e\<rparr>"
  have r: "r = recordedResult ?c t w intent memory persisted d" "d' = d"
    using assms(1) by (auto simp: loadAlreadyProcessedResult_def withTenantTransaction_def query_def)
  have own: "wt_tenant_id x = t" if x: "x \<in> set (wo_transitions d)" "wt_work_order_id x = wo_id w" for x
  proof -
    from assms(2) x(1) obtain v where v: "v \<in> set (work_orders d)" "wt_tenant_id x = wo_tenant_id v" "wt_work_order_id x = wo_id v"
      unfolding wo_inv_def wo_refs_ok_def by blast
    with x(2) have "v = w" using wo_unique [OF assms(2) v(1) assms(3)] by simp
    with v(2) assms(4) show ?thesis by simp
  qed
  have "filter (\<lambda>x. wt_tenant_id x = t \<and> wt_work_order_id x = wo_id w) (rls_rows ?c wt_tenant_id (wo_transitions d)) =
      filter (\<lambda>x. wt_tenant_id x = t \<and> wt_work_order_id x = wo_id w) (wo_transitions d)"
    by (simp add: rls_rows_def conj_commute conj_left_commute cong: conj_cong)
  also have "\<dots> = filter (\<lambda>x. wt_work_order_id x = wo_id w) (wo_transitions d)"
    by (rule filter_cong [OF refl]) (use own in blast)
  finally have rows: "filter (\<lambda>x. wt_tenant_id x = t \<and> wt_work_order_id x = wo_id w) (rls_rows ?c wt_tenant_id (wo_transitions d)) =
      filter (\<lambda>x. wt_work_order_id x = wo_id w) (wo_transitions d)" .
  have path: "er_transitionPath (recordedResult c t w intent memory persisted d) = map wt_to_status (order_by_asc wt_created_at
      (filter (\<lambda>x. wt_tenant_id x = t \<and> wt_work_order_id x = wo_id w) (rls_rows c wt_tenant_id (wo_transitions d))))" for c
    unfolding recordedResult_def Let_def by (simp split: prod.split)
  have "mset (er_transitionPath r) = mset (map snd (wo_history d (wo_id w)))"
    unfolding r(1) path rows by (simp add: wo_history_def order_by_asc_def image_mset.compositionality comp_def)
  moreover have "er_workOrderId r = Some (wo_id w)" "er_tenantId r = t" "er_finalWorkOrderStatus r = Some (wo_status w)"
      "er_authorityDecisionId r = wo_authority_decision_id w"
    unfolding r recordedResult_def ingestionResult_def Let_def by (simp_all split: prod.split)
  ultimately show ?thesis
    using assms(3,4) unfolding reported_def r(2) by (intro bexI [of _ w]) simp_all
qed


subsection \<open>The whole pipeline\<close>

lemma pipeline_reported:
  assumes run: "runWorkOrder h e normalized ctx persisted intent memory s = (Inr r, s')" and inv: "wo_inv (fst s)" "wo_inv (fst s')"
  shows "reported r (fst s')"
proof -
  let ?ci = "pipelineWorkOrder ctx persisted intent"
  from run obtain w x s1 where 1: "on_db (createWorkOrder (env_at 30 e) ?ci) s = (Inr (w, x), s1)"
    and rest: "(if wo_status w \<noteq> RECEIVED then on_db (loadAlreadyProcessedResult (env_at 38 e) (rx_tenantId ctx) w intent memory persisted)
      else obind (on_db (classifyWorkOrder h e ctx persisted intent memory w)) (\<lambda>(b, status).
       case dispatchTool intent of
         Some dc \<Rightarrow> if status = READY_TO_ACT
           then executeBranch h e b (or_default (uuid_str (env_uuid (env_at 39 e) 0)) (ni_sourceCorrelationId normalized)) dc
           else answerBranch h e b status
       | None \<Rightarrow> answerBranch h e b status)) s1 = (Inr r, s')"
    unfolding runWorkOrder_def by (auto dest!: obind_InrD)
  from 1 have c: "createWorkOrder (env_at 30 e) ?ci (fst s) = (Inr (w, x), fst s1)" by (auto simp: on_db_def split: prod.splits)
  from created_row [OF c] have w: "w \<in> set (work_orders (fst s1))" "wo_tenant_id w = rx_tenantId ctx" by (simp_all add: pipelineWorkOrder_def)
  have inv1: "wo_inv (fst s1)"
    using ostepsD [OF createWorkOrder_keeps, of "fst s" "env_at 30 e" ?ci] inv(1) by (simp add: c keeps_wo_inv_def)
  show ?thesis
  proof (cases "wo_status w = RECEIVED")
    case False
    with rest have "loadAlreadyProcessedResult (env_at 38 e) (rx_tenantId ctx) w intent memory persisted (fst s1) = (Inr r, fst s')"
      by (auto simp: on_db_def split: prod.splits)
    from replay_reported [OF this inv1 w] show ?thesis .
  next
    case True
    from rest True obtain b st s2 where 2: "on_db (classifyWorkOrder h e ctx persisted intent memory w) s1 = (Inr (b, st), s2)"
      and ans: "(case dispatchTool intent of
         Some dc \<Rightarrow> if st = READY_TO_ACT
           then executeBranch h e b (or_default (uuid_str (env_uuid (env_at 39 e) 0)) (ni_sourceCorrelationId normalized)) dc
           else answerBranch h e b st
       | None \<Rightarrow> answerBranch h e b st) s2 = (Inr r, s')"
      by (auto dest!: obind_InrD)
    then have 3: "(\<exists>cid dc. executeBranch h e b cid dc s2 = (Inr r, s')) \<or> answerBranch h e b st s2 = (Inr r, s')"
      by (cases "dispatchTool intent"; cases "st = READY_TO_ACT") (simp_all, blast)
    from 2 have cl: "classifyWorkOrder h e ctx persisted intent memory w (fst s1) = (Inr (b, st), fst s2)"
      by (auto simp: on_db_def split: prod.splits)
    have "tracked (rx_tenantId ctx) (wo_id w) (wo_authority_decision_id w) [wo_status w] (fst s1)"
      using received_path [OF inv1 w(1) True] w(2) True by simp
    from classified_tracked [OF cl this] have b: "tracked (rx_tenantId (br_context b)) (br_workOrderId b) (Some (br_decisionId b)) (br_path b) (fst s2)"
        "st = last (br_path b)" by blast+
    from 3 have "reports b r (fst s')" using executed_reports [OF _ b(1)] answered_reports [OF _ b(2,1)] by blast
    then show ?thesis using inv(2) by (rule reports_reported)
  qed
qed

lemma turn_ingest: "ingestUserMessage h e inp s = (res, s') \<Longrightarrow> reachable (fst s) \<Longrightarrow> reachable (fst s')"
proof (cases "uuid_of_str (ig_tenantId inp)")
  case None
  then have "ingestUserMessage h e inp s = (Inl (ingress_error ''tenantId must be a valid UUID''), s)"
    by (simp add: ingestUserMessage_def normalizeIngress_def sum_bind_def required_id_def othrow_def)
  then show "ingestUserMessage h e inp s = (res, s') \<Longrightarrow> reachable (fst s) \<Longrightarrow> reachable (fst s')" by simp
next
  case (Some t)
  have "turn_rel t (fst s) (fst (snd (ingestUserMessage h e inp s)))" using turn.ingested [OF Some, of h e] unfolding wsteps_def by (rule spec)
  then show "ingestUserMessage h e inp s = (res, s') \<Longrightarrow> reachable (fst s) \<Longrightarrow> reachable (fst s')" by (simp add: turn_rel_def)
qed

text \<open>
  C5. The answer tells what is recorded. When the ingestion of a message answers with a WorkOrder, then in the
  database it leaves that WorkOrder belongs to the message's tenant, has the reported final status and links
  the reported decision, and the reported path has the statuses of the recorded transitions, each as often;
  for a fresh WorkOrder and for a replayed one, for every outcome of the authority, the tool and the providers.
\<close>

theorem answer_matches_the_record:
  assumes "reachable d" "ingestUserMessage h e inp (d, f, p) = (Inr r, (d', f', p'))" "er_workOrderId r = Some i"
  shows "\<exists>w\<in>set (work_orders d'). wo_id w = i \<and> wo_tenant_id w = er_tenantId r \<and> er_finalWorkOrderStatus r = Some (wo_status w) \<and>
    er_authorityDecisionId r = wo_authority_decision_id w \<and> mset (er_transitionPath r) = mset (map snd (wo_history d' i))"
proof -
  from assms(2) obtain normalized where n: "normalizeIngress inp = Inr normalized"
    by (auto simp: ingestUserMessage_def othrow_def split: sum.splits)
  have no: "on_model (converse h e ctx persisted intent memory) s \<noteq> (Inr r, s')" for ctx persisted intent memory s s'
    using assms(3) by (auto simp: on_model_def converse_def conversationResult_def ingestionResult_def oreturn_def split: prod.splits dest!: obind_InrD)
  obtain ctx s1 persisted s2 memory s3 routed s4 where
    1: "on_db (resolveContext (env_at 1 e) normalized) (d, f, p) = (Inr ctx, s1)"
    and 2: "on_db (persistMessage (env_at 2 e) \<lparr>pm_context = ctx, pm_content = ni_content normalized,
            pm_sourceSurface = ni_sourceSurface normalized, pm_sourceCorrelationId = ni_sourceCorrelationId normalized\<rparr>) s1 = (Inr persisted, s2)"
    and 3: "on_model (retrieveMemory h (env_at 10 e) (rx_tenantId ctx) persisted) s2 = (Inr memory, s3)"
    and 4: "on_model (resolveEloraRoute (pd_content persisted) (ni_isSystemInitiated normalized)
            (interpretRoute h (env_at 4 e) (rx_tenantId ctx) persisted)) s3 = (Inr routed, s4)"
    and 5: "runWorkOrder h e normalized ctx persisted (rr_intent routed) memory s4 = (Inr r, (d', f', p'))"
    using assms(2) unfolding ingestUserMessage_def n sum.case Let_def
    by (auto dest!: obind_InrD simp: no split: if_splits)
  have inv: "wo_inv d" "wo_inv d'" using reachable_inv [OF assms(1)] reachable_inv [OF turn_ingest [OF assms(2)]] assms(1) by simp_all
  have keep: "wo_untouched x y \<Longrightarrow> wo_inv x \<Longrightarrow> wo_inv y" for x y by (rule wo_inv_untouched)
  have "wo_untouched d (fst s1)" using wsteps_on_db [OF kept.context_read] 1 unfolding wsteps_def by (metis fst_conv snd_conv)
  moreover have "wo_untouched (fst s1) (fst s2)" using wsteps_on_db [OF kept.message_stored [OF refl]] 2 unfolding wsteps_def by (metis snd_conv)
  moreover have "wo_untouched (fst s2) (fst s3)" using wsteps_on_model [OF kept.memory_read [OF refl]] 3 unfolding wsteps_def by (metis snd_conv)
  moreover have "wo_untouched (fst s3) (fst s4)" using wsteps_on_model [OF kept.route_resolved [OF refl]] 4 unfolding wsteps_def by (metis snd_conv)
  ultimately have "wo_inv (fst s4)" using inv(1) keep by blast
  from pipeline_reported [OF 5 this] inv(2) have "reported r d'" by simp
  then show ?thesis using assms(3) by (auto simp: reported_def)
qed

end
