(* ===== verification/IngestDemo.thy ===== *)
theory IngestDemo
  imports IngestPath AuthorityProps
begin

text \<open>
  The ingestion evaluated on a small database: the message \<open>Hi\<close> of the operator of tenant 1, on a host
  without a model provider. It is answered in conversation by the deterministic text.
\<close>

definition demo_unset :: model_env where
  "demo_unset = \<lparr>nv_MODEL_PROVIDER = None, nv_ANTHROPIC_API_KEY = None, nv_OPENAI_API_KEY = None, nv_MODEL_POLICY_APPROVED_PROVIDERS = None\<rparr>"

definition demo_search :: pg_search where
  "demo_search = \<lparr>ps_matches = (\<lambda>q s. js_includes q s), ps_rank = (\<lambda>_ _. 1), ps_headline = (\<lambda>_ s. s), ps_cast = Some,
     ps_distance = (\<lambda>_ _. 0), ps_dateParse = (\<lambda>s. Some (int (length s)))\<rparr>"

definition demo_ingest_host :: "((string \<times> string) list, nat) ingest_host" where
  "demo_ingest_host = \<lparr>ih_numbers = demo_numbers, ih_models = demo_unset, ih_connect = (\<lambda>_ _. demo_llm),
     ih_embed = (\<lambda>_ _ n. (RejectedOther ''offline'', n)), ih_search = demo_search, ih_rounding = id,
     ih_compile = demo_compile, ih_texts = demo_texts, ih_tools = demo_host, ih_retrievalStrategy = None, ih_llmDisabled = None\<rparr>"

definition demo_ingress :: elora_ingress where
  "demo_ingress = \<lparr>ig_tenantId = uuid_str 1, ig_workspaceId = None, ig_projectId = None, ig_threadId = Some (uuid_str 20),
     ig_actorId = uuid_str 11, ig_content = ''Hi'', ig_sourceSurface = None, ig_sourceCorrelationId = None, ig_isSystemInitiated = None\<rparr>"

definition demo_normalized :: normalized_ingress where
  "demo_normalized = \<lparr>ni_tenantId = 1, ni_workspaceId = None, ni_projectId = None, ni_threadId = Some 20, ni_actorId = 11,
     ni_content = ''Hi'', ni_sourceSurface = None, ni_sourceCorrelationId = None, ni_isSystemInitiated = False\<rparr>"

definition demo_context :: resolved_context where
  "demo_context = \<lparr>rx_tenantId = 1, rx_workspaceId = None, rx_projectId = None, rx_threadId = Some 20, rx_actorId = 11\<rparr>"

definition demo_message :: persist_message_input where
  "demo_message = \<lparr>pm_context = demo_context, pm_content = ''Hi'', pm_sourceSurface = None, pm_sourceCorrelationId = None\<rparr>"

definition demo_stored :: db where
  "demo_stored = demo_db\<lparr>messages := messages demo_db @ [userMessageRow (env_at 2 demo_env) demo_message 20]\<rparr>"

definition demo_persisted :: persisted_message where
  "demo_persisted = \<lparr>pd_threadId = 20, pd_messageId = 133, pd_content = ''Hi'', pd_isDuplicate = False\<rparr>"

lemma demo_normalizes: "normalizeIngress demo_ingress = Inr demo_normalized"
  by (simp add: normalizeIngress_def demo_ingress_def sum_bind_def required_id_def uuid_roundtrip normalizeOptionalId_def
      js_trim_def is_ws_def trimmed_or_null_def demo_normalized_def)

lemma demo_resolves: "resolveContext (env_at 1 demo_env) demo_normalized demo_db = (Inr demo_context, demo_db)"
  by (simp add: resolveContext_def resolveContext_tx_def run_simps ensure_def resolveWorkspace_def demo_normalized_def demo_context_def
      demo_db_def demo_env_def)

lemma demo_persists: "persistMessage (env_at 2 demo_env) demo_message demo_db = (Inr demo_persisted, demo_stored)"
  by (simp add: persistMessage_def persistMessage_tx_def openThread_def correlatedMessage_def run_simps demo_message_def
      demo_context_def demo_persisted_def demo_stored_def userMessageRow_def demo_db_def demo_env_def empty_db_def)

lemma demo_intent: "parseIntentDegraded ''Hi'' False = baseIntent ''Hi'' rt_converse ''Hi'' (1/2)" "detectArtifactCreationRequest ''Hi'' = None"
  by code_simp+

text \<open>The run of the turn is created; what follows it never throws.\<close>

lemma demo_turn_created: "cv_tenantId inp = 1 \<Longrightarrow> cv_threadId inp = 20 \<Longrightarrow> cv_messageId inp = 133 \<Longrightarrow> cv_initiatedByActorId inp = 11 \<Longrightarrow>
    createCognitiveRun (env_at 1 (env_at 20 demo_env)) (turn_run inp) demo_stored =
      (Inr (newCognitiveRunRow (env_at 1 (env_at 20 demo_env)) (turn_run inp), initialCognitiveRunTransition (env_at 1 (env_at 20 demo_env)) (turn_run inp)),
       after_run_create (env_at 1 (env_at 20 demo_env)) (turn_run inp) demo_stored)"
  by (simp add: run_simps createCognitiveRun_def createCognitiveRun_tx_def newCognitiveRunRow_def userMessageRow_def demo_stored_def
      initialCognitiveRunTransition_def rowToCognitiveRun_def cognitiveRunSchema_ok_def objective_kind_ok_def is_alpha_char_def
      lower_char_def is_digit_char_def cognitiveRunKey_def after_run_create_def turn_run_def demo_context_def demo_message_def
      OBJECTIVE_KIND_def demo_defs)

lemma demo_turn_returns:
  assumes "cv_tenantId inp = 1" "cv_threadId inp = 20" "cv_messageId inp = 133" "cv_initiatedByActorId inp = 11"
  shows "\<exists>res s'. runConversationalCognitiveRun nf v connect (env_at 20 demo_env) inp (demo_stored, p) = (Inr res, s')"
proof -
  let ?e = "env_at 20 demo_env"
  let ?run = "newCognitiveRunRow (env_at 1 ?e) (turn_run inp)"
  let ?d = "after_run_create (env_at 1 ?e) (turn_run inp) demo_stored"
  obtain y s1 where m: "moveRun (env_at 2 ?e) inp (cr_id ?run) CR_RUNNING (beginReason (cv_intent inp)) None (?d, p) = (Inr y, s1)"
    using moveRun_caught by blast
  have "cr_status ?run = CR_PENDING" by (simp add: newCognitiveRunRow_def)
  then show ?thesis
    unfolding runConversationalCognitiveRun_def turn_run_def [symmetric]
    using respond_returns [of nf v connect ?e inp "cr_id ?run" s1]
    by (cases y) (simp_all add: obind_def on_db_def demo_turn_created [OF assms] m oreturn_def del: split_paired_Ex One_nat_def)
qed

text \<open>The turn leaves the messages and what they refer to as they are.\<close>

definition talk_kept :: "db \<Rightarrow> db \<Rightarrow> bool" where
  "talk_kept d d' \<longleftrightarrow> messages d' = messages d \<and> threads d' = threads d \<and> actors d' = actors d \<and> tenants d' = tenants d"

lemma cr_rel_talk_kept: "cr_rel t d d' \<Longrightarrow> talk_kept d d'"
  by (cases d; cases d') (simp add: cr_rel_def cr_rest_def talk_kept_def)

lemma talk_kept_runs: "osteps talk_kept (createCognitiveRun e ci)" "osteps talk_kept (transitionCognitiveRun e mi)"
  using cognition_ops_rel(1) [of ci e] cognition_ops_rel(2) [of mi e False]
  by (auto simp: osteps_def transitionCognitiveRun_def intro: cr_rel_talk_kept)

interpretation spoken: turn_contract talk_kept t for t
  by unfold_locales (auto simp: talk_kept_def added_def intro: talk_kept_runs)

text \<open>The reply of the assistant is stored where the user's message was.\<close>

lemma demo_reply_stored:
  assumes "talk_kept demo_stored d"
  shows "\<exists>d'. persistAssistantReply (env_at 6 demo_env) 1 20 11 reply d = (Inr (), d')"
  using assms by (simp add: persistAssistantReply_def run_simps assistantRow_def talk_kept_def demo_stored_def userMessageRow_def demo_defs
      demo_message_def demo_context_def)

lemma demo_assembled: "\<exists>x. assembleThreadContext (env_at 5 demo_env) 1 20 [] demo_stored = (Inr x, demo_stored)"
  by (simp add: assembleThreadContext_def obind_def oreturn_def withTenantTransaction_def query_def)

lemma demo_people: "rx_tenantId demo_context = 1" "rx_actorId demo_context = 11" "pd_threadId demo_persisted = 20" "pd_messageId demo_persisted = 133"
  "pd_content demo_persisted = ''Hi''"
  by (simp_all add: demo_context_def demo_persisted_def)

lemma demo_converses:
  assumes "si_route intent = rt_converse"
  shows "\<exists>r d' p'. converse demo_ingest_host demo_env demo_context demo_persisted intent [] (demo_stored, p) =
     (Inr r, (d', p')) \<and> er_workOrderId r = None"
proof -
  obtain x where x: "assembleThreadContext (env_at 5 demo_env) 1 20 [] demo_stored = (Inr x, demo_stored)" using demo_assembled by blast
  let ?inp = "conversationalInput demo_context demo_persisted intent [] x"
  have i: "cv_tenantId ?inp = 1" "cv_threadId ?inp = 20" "cv_messageId ?inp = 133" "cv_initiatedByActorId ?inp = 11"
    by (simp_all add: conversationalInput_def demo_people)
  obtain turn d1 p1 where t: "runConversationalCognitiveRun demo_numbers demo_unset (\<lambda>_ _. demo_llm) (env_at 20 demo_env) ?inp (demo_stored, p) = (Inr turn, (d1, p1))"
    using demo_turn_returns [OF i] by fast
  have "talk_kept (fst (demo_stored, p)) (fst (d1, p1))"
    using spoken.conversation [OF i(1)] t unfolding wsteps_def by (metis snd_conv)
  then obtain d2 where "persistAssistantReply (env_at 6 demo_env) 1 20 11 (cq_responseText turn) d1 = (Inr (), d2)"
    using demo_reply_stored [of d1] by auto
  then show ?thesis
    by (simp add: converse_def obind_def on_db_def demo_ingest_host_def demo_people x t recordRefusal_def assms oreturn_def conversationResult_def
        ingestionResult_def)
qed

lemma demo_ingests:
  "\<exists>r d' f' p'. ingestUserMessage demo_ingest_host demo_env demo_ingress (demo_db, [], 0) = (Inr r, (d', f', p')) \<and> er_workOrderId r = None"
proof -
  have tok: "memory_tokens ''Hi'' = []" by code_simp
  have none: "selectConfiguredProviderFromEnv (\<lambda>_ _. demo_llm) demo_unset = Inl (PlainError ''MODEL_PROVIDER must be set to \"anthropic\" or \"openai\"'')"
    by (simp add: selectConfiguredProviderFromEnv_def readProviderKindFromEnv_def demo_unset_def)
  have mem: "retrieveMemory demo_ingest_host (env_at 10 demo_env) 1 demo_persisted s = (Inr [], s)" for s
    by (simp add: retrieveMemory_def demo_ingest_host_def readMemoryRetrievalStrategyFromEnv_def demo_people on_db_def
        retrieveRelevantMemory_def tok oreturn_def split: prod.split)
  have route: "resolveEloraRoute ''Hi'' False (interpretRoute demo_ingest_host (env_at 4 demo_env) 1 demo_persisted) s =
      (Inr \<lparr>rr_intent = parseIntentDegraded ''Hi'' False, rr_classificationSource = DETERMINISTIC_FALLBACK, rr_modelInvocationId = None\<rparr>, s)" for s
    by (simp add: resolveEloraRoute_def demo_intent(2) interpretRoute_def demo_ingest_host_def none oreturn_def)
  have r: "si_route (parseIntentDegraded ''Hi'' False) = rt_converse" by (simp add: demo_intent(1) baseIntent_def)
  have u: "\<not> usesWorkOrderPipeline (parseIntentDegraded ''Hi'' False) False"
    by (simp add: usesWorkOrderPipeline_def demo_intent(1) baseIntent_def)
  have n: "ni_content demo_normalized = ''Hi''" "ni_sourceSurface demo_normalized = None" "ni_sourceCorrelationId demo_normalized = None"
    "ni_isSystemInitiated demo_normalized = False"
    by (simp_all add: demo_normalized_def)
  have "ingestUserMessage demo_ingest_host demo_env demo_ingress (demo_db, [], 0) =
      on_model (converse demo_ingest_host demo_env demo_context demo_persisted (parseIntentDegraded ''Hi'' False) []) (demo_stored, [], 0)"
    using u by (simp add: ingestUserMessage_def demo_normalizes obind_def on_db_def on_model_def demo_resolves n demo_message_def [symmetric]
        demo_persists demo_people mem route Let_def del: One_nat_def)
  then show ?thesis
    using demo_converses [OF r, of 0] by (auto simp: on_model_def)
qed

theorem ingestion_is_a_tenant_step_witness:
  "\<exists>res d' f' p'. ingestUserMessage demo_ingest_host demo_env demo_ingress (demo_db, [], 0) = (Inr res, (d', f', p')) \<and>
     reachable d' \<and> audit_appends demo_db d' \<and> foreign_view 1 d' = foreign_view 1 demo_db"
proof -
  obtain r d' f' p' where run: "ingestUserMessage demo_ingest_host demo_env demo_ingress (demo_db, [], 0) = (Inr r, (d', f', p'))"
    using demo_ingests by blast
  have t: "uuid_of_str (ig_tenantId demo_ingress) = Some 1" by (simp add: demo_ingress_def uuid_roundtrip)
  have "pk_ok demo_db" by (simp add: pk_ok_def demo_db_def empty_db_def)
  with ingestion_is_a_tenant_step [OF t run] demo_seed_reachable run show ?thesis by blast
qed


subsection \<open>A replayed message\<close>

text \<open>
  A trigger's message with the correlation id \<open>c\<close> was stored before, and its WorkOrder has left RECEIVED; the
  trigger submits it again.
\<close>

definition demo_retry :: elora_ingress where
  "demo_retry = demo_ingress\<lparr>ig_sourceCorrelationId := Some ''c'', ig_isSystemInitiated := Some True\<rparr>"

definition demo_retry_message :: persist_message_input where
  "demo_retry_message = demo_message\<lparr>pm_sourceCorrelationId := Some ''c''\<rparr>"

definition demo_known :: persisted_message where
  "demo_known = demo_persisted\<lparr>pd_isDuplicate := True\<rparr>"

definition demo_received :: db where
  "demo_received = demo_db\<lparr>messages := messages demo_db @ [userMessageRow (env_at 2 demo_env) demo_retry_message 20]\<rparr>"

definition demo_durable :: elora_structured_intent where
  "demo_durable = parseIntentDegraded ''Hi'' True"

definition demo_order :: create_work_order_input where
  "demo_order = pipelineWorkOrder demo_context demo_known demo_durable"

definition demo_parse :: transition_work_order_input where
  "demo_parse = plain_move 1 100 11 INTENT_PARSED ''Structured task parse completed''"

definition demo_ordered :: db where
  "demo_ordered = after_create demo_env demo_order demo_received"

definition demo_parsed :: db where
  "demo_parsed = snd (transitionWorkOrder (env_at 1 demo_env) demo_parse demo_ordered)"

lemma demo_durable_simps: "si_route demo_durable = rt_durable_work" "task_type_str (si_task_type demo_durable) = ''unknown''"
    "si_summary demo_durable = ''Hi''" "detectArtifactCreationRequest ''Hi'' = None" "si_artifactRequest demo_durable = None"
  by code_simp+

lemmas demo_retry_defs = demo_received_def demo_retry_message_def demo_message_def demo_context_def userMessageRow_def

lemma demo_ordered_step: "snd (createWorkOrder demo_env demo_order demo_received) = demo_ordered"
  by (simp add: demo_ordered_def after_create_def run_simps create_run_simps demo_order_def pipelineWorkOrder_def demo_durable_simps
      demo_known_def demo_persisted_def demo_defs demo_retry_defs)

definition demo_order_row :: work_order where
  "demo_order_row = moved (env_at 1 demo_env) demo_parse None (newWorkOrderRow demo_env demo_order)"

lemma demo_parsed_simps:
  "work_orders demo_parsed = [demo_order_row]" "wo_transitions demo_parsed = [initialTransitionRow demo_env demo_order,
     transitionRow (env_at 1 demo_env) demo_parse RECEIVED]"
  "messages demo_parsed = messages demo_received" "threads demo_parsed = threads demo_db" "actors demo_parsed = actors demo_db"
  by (simp_all add: demo_parsed_def demo_order_row_def demo_ordered_def after_create_def run_simps transition_run_simps demo_parse_def
      plain_move_def newWorkOrderRow_def demo_order_def pipelineWorkOrder_def initialTransitionRow_def demo_durable_simps
      demo_known_def demo_persisted_def demo_defs demo_retry_defs update_where_def del: One_nat_def)

lemma demo_parsed_reachable: "reachable demo_parsed"
proof -
  have "snd (persistMessage (env_at 2 demo_env) demo_retry_message demo_db) = demo_received"
    by (simp add: persistMessage_def persistMessage_tx_def openThread_def correlatedMessage_def run_simps demo_retry_defs demo_defs)
  moreover have "osteps (turn_rel 1) (persistMessage (env_at 2 demo_env) demo_retry_message)"
    by (rule turn.message_stored) (simp add: demo_retry_message_def demo_message_def demo_context_def)
  ultimately have "turn_rel 1 demo_db demo_received" unfolding osteps_def by metis
  then have "reachable demo_received" using demo_seed_reachable by (simp add: turn_rel_def)
  then have "reachable demo_ordered"
    using reachable.engine [OF _ runtime_step.createWorkOrder [where d = demo_received and e = demo_env and inp = demo_order, OF refl]]
    by (simp only: demo_ordered_step)
  then show ?thesis
    using reachable.engine [OF _ runtime_step.transitionWorkOrder [where d = demo_ordered and e = "env_at 1 demo_env" and inp = demo_parse, OF refl]]
    by (simp only: demo_parsed_def)
qed

lemma demo_order_key: "workOrderKey (env_at k demo_env) demo_order = workOrderKey demo_env demo_order"
  by (simp add: workOrderKey_def intentFingerprint_def)

lemma demo_order_simps: "cw_tenantId demo_order = 1" "cw_ownerActorId demo_order = None" "wo_tenant_id demo_order_row = 1"
  "wo_idempotency_key demo_order_row = workOrderKey demo_env demo_order" "wo_id demo_order_row = 100" "wo_status demo_order_row = INTENT_PARSED"
  "rowToWorkOrder demo_order_row = Inr demo_order_row"
  "wt_tenant_id (initialTransitionRow demo_env demo_order) = 1" "wt_work_order_id (initialTransitionRow demo_env demo_order) = 100"
  "wt_from_status (initialTransitionRow demo_env demo_order) = None" "wt_from_status (transitionRow (env_at k demo_env) demo_parse RECEIVED) = Some RECEIVED"
  "wt_tenant_id (transitionRow (env_at k demo_env) demo_parse RECEIVED) = 1"
  by (simp_all add: demo_order_def pipelineWorkOrder_def demo_context_def demo_order_row_def moved_def demo_parse_def plain_move_def
      newWorkOrderRow_def demo_env_def initialTransitionRow_def transitionRow_def rowToWorkOrder_def workOrderSchema_ok_def workOrderKey_def
      demo_durable_simps)

lemma demo_order_found:
  "createWorkOrder (env_at 30 demo_env) demo_order demo_parsed = (Inr (demo_order_row, initialTransitionRow demo_env demo_order), demo_parsed)"
  by (simp add: createWorkOrder_def createWorkOrder_tx_def withTenantTransaction_def insert_or_nothing_def tx_defs fetchExistingWorkOrder_def demo_parsed_simps
      demo_order_key demo_order_simps rls_rows_def order_by_asc_def)

lemma demo_retried:
  "\<exists>r. ingestUserMessage demo_ingest_host demo_env demo_retry (demo_parsed, [], 0) = (Inr r, (demo_parsed, [], 0)) \<and> er_workOrderId r = Some 100"
proof -
  let ?n = "demo_normalized\<lparr>ni_sourceCorrelationId := Some ''c'', ni_isSystemInitiated := True\<rparr>"
  have n: "normalizeIngress demo_retry = Inr ?n"
    by (simp add: normalizeIngress_def demo_retry_def demo_ingress_def sum_bind_def required_id_def uuid_roundtrip normalizeOptionalId_def
      js_trim_def is_ws_def trimmed_or_null_def demo_normalized_def)
  have c: "resolveContext (env_at 1 demo_env) ?n demo_parsed = (Inr demo_context, demo_parsed)"
    by (simp add: resolveContext_def resolveContext_tx_def run_simps ensure_def resolveWorkspace_def demo_normalized_def demo_context_def
      demo_parsed_simps demo_db_def demo_env_def)
  have p: "persistMessage (env_at 2 demo_env) demo_retry_message demo_parsed = (Inr demo_known, demo_parsed)"
    by (simp add: persistMessage_def persistMessage_tx_def openThread_def correlatedMessage_def run_simps demo_retry_defs demo_known_def
      demo_persisted_def demo_parsed_simps demo_db_def demo_env_def)
  have i: "ni_content ?n = ''Hi''" "ni_sourceSurface ?n = None" "pd_content demo_known = ''Hi''"
    by (simp_all add: demo_normalized_def demo_known_def demo_persisted_def)
  have tok: "memory_tokens ''Hi'' = []" by code_simp
  have none: "selectConfiguredProviderFromEnv (\<lambda>_ _. demo_llm) demo_unset = Inl (PlainError ''MODEL_PROVIDER must be set to \"anthropic\" or \"openai\"'')"
    by (simp add: selectConfiguredProviderFromEnv_def readProviderKindFromEnv_def demo_unset_def)
  have mem: "retrieveMemory demo_ingest_host (env_at 10 demo_env) 1 demo_known s = (Inr [], s)" for s
    by (simp add: retrieveMemory_def demo_ingest_host_def readMemoryRetrievalStrategyFromEnv_def i on_db_def
        retrieveRelevantMemory_def tok oreturn_def split: prod.split)
  have route: "resolveEloraRoute ''Hi'' True (interpretRoute demo_ingest_host (env_at 4 demo_env) 1 demo_known) s =
      (Inr \<lparr>rr_intent = demo_durable, rr_classificationSource = DETERMINISTIC_FALLBACK, rr_modelInvocationId = None\<rparr>, s)" for s
    by (simp add: resolveEloraRoute_def demo_durable_simps interpretRoute_def demo_ingest_host_def none oreturn_def demo_durable_def [symmetric])
  have m: "\<lparr>pm_context = demo_context, pm_content = ''Hi'', pm_sourceSurface = None, pm_sourceCorrelationId = Some ''c''\<rparr> = demo_retry_message"
    by (simp add: demo_retry_message_def demo_message_def)
  have u: "usesWorkOrderPipeline demo_durable True" by (simp add: usesWorkOrderPipeline_def demo_durable_simps)
  have "ingestUserMessage demo_ingest_host demo_env demo_retry (demo_parsed, [], 0) =
      runWorkOrder demo_ingest_host demo_env ?n demo_context demo_known demo_durable [] (demo_parsed, [], 0)"
    using u by (simp add: ingestUserMessage_def n obind_def on_db_def on_model_def c i m p demo_people mem route Let_def del: One_nat_def)
  then show ?thesis
    by (simp add: runWorkOrder_def demo_order_def [symmetric] obind_def on_db_def demo_order_found demo_order_simps loadAlreadyProcessedResult_def
        withTenantTransaction_def query_def recordedResult_def Let_def split: prod.split)
qed

theorem answer_matches_the_record_witness:
  "\<exists>r. ingestUserMessage demo_ingest_host demo_env demo_retry (demo_parsed, [], 0) = (Inr r, (demo_parsed, [], 0)) \<and>
     er_finalWorkOrderStatus r = Some INTENT_PARSED \<and> mset (er_transitionPath r) = {#RECEIVED, INTENT_PARSED#}"
proof -
  obtain r where r: "ingestUserMessage demo_ingest_host demo_env demo_retry (demo_parsed, [], 0) = (Inr r, (demo_parsed, [], 0))"
      "er_workOrderId r = Some 100"
    using demo_retried by blast
  have "map snd (wo_history demo_parsed 100) = [RECEIVED, INTENT_PARSED]"
    by (simp add: wo_history_def demo_parsed_simps demo_order_simps) (simp add: initialTransitionRow_def transitionRow_def demo_parse_def plain_move_def)
  with r answer_matches_the_record [OF demo_parsed_reachable r] show ?thesis
    by (auto simp: demo_parsed_simps demo_order_simps)
qed

end
