(* ===== verification/Briefing.thy ===== *)
theory Briefing
  imports Directives Tools WorkOrder
begin

text \<open>
  What goes into a briefing (\<open>src/src/briefing/collectCandidates.ts\<close>, \<open>selectFirstMove.ts\<close>,
  \<open>generateProse.ts\<close>): the candidates collected from the tables, their ranks, the first move and the text.
  Characters are 8 bits wide here, so the two glyphs the code writes beyond them, the dash U+2014 and the
  ellipsis U+2026, are fields of \<open>glyphs\<close>.
\<close>

subsection \<open>Candidates\<close>

record glyphs =
  gl_dash :: string
  gl_ellipsis :: string

datatype candidate_source =
    SrcDirective uuid "uuid option" directive_type
  | SrcWorkOrder uuid
  | SrcActionReceipt uuid
  | SrcMemoryCandidate uuid

record candidate_draft =
  cd_lane :: briefing_lane
  cd_source :: candidate_source
  cd_inclusionReason :: string
  cd_displayTitle :: string
  cd_displayDetail :: "string option"
  cd_ageDaysSnapshot :: int
  cd_carryCountSnapshot :: "int option"
  cd_deferCountSnapshot :: "int option"
  cd_escalationLevelSnapshot :: "int option"
  cd_firstMoveEligible :: bool
  cd_isBlockerType :: bool
  cd_dueAt :: "timestamp option"
  cd_dependentWorkOrderCount :: int
  cd_ageDays :: int

fun directive_type_str :: "directive_type \<Rightarrow> string" where
  "directive_type_str decision = ''decision''"
| "directive_type_str focus = ''focus''"
| "directive_type_str action = ''action''"
| "directive_type_str blocker = ''blocker''"
| "directive_type_str watch = ''watch''"

fun directive_state_str :: "directive_state \<Rightarrow> string" where
  "directive_state_str PROPOSED = ''PROPOSED''"
| "directive_state_str OPEN = ''OPEN''"
| "directive_state_str IN_PROGRESS = ''IN_PROGRESS''"
| "directive_state_str DEFERRED = ''DEFERRED''"
| "directive_state_str D_COMPLETED = ''COMPLETED''"
| "directive_state_str DISMISSED = ''DISMISSED''"
| "directive_state_str EXPIRED = ''EXPIRED''"
| "directive_state_str SUPERSEDED = ''SUPERSEDED''"

fun lane_str :: "briefing_lane \<Rightarrow> string" where
  "lane_str (Lane t) = directive_type_str t"
| "lane_str lane_completed = ''completed''"
| "lane_str lane_evidence = ''evidence''"

definition DAY_MS :: int where
  "DAY_MS = 24 * 60 * 60 * 1000"

definition ageDaysBetween :: "timestamp \<Rightarrow> timestamp \<Rightarrow> int" where
  "ageDaysBetween earlier later = max 0 ((later - earlier) div DAY_MS)"

definition resolveSinceTimestamp :: "client \<Rightarrow> uuid \<Rightarrow> string \<Rightarrow> timestamp \<Rightarrow> db \<Rightarrow> timestamp" where
  "resolveSinceTimestamp c tenantId briefingType now d =
     (case first_row (order_by_desc id (map (\<lambda>i. the (bi_published_at i)) (filter
         (\<lambda>i. bi_tenant_id i = tenantId \<and> bi_briefing_type i = briefingType \<and> bi_published_at i \<noteq> None)
         (rls_rows c bi_tenant_id (briefing_issues d))))) of
        Some published \<Rightarrow> published
      | None \<Rightarrow> now - DAY_MS)"

text \<open>What the four collectors of informational rows have in common\<close>

definition plainDraft :: "briefing_lane \<Rightarrow> candidate_source \<Rightarrow> string \<Rightarrow> string \<Rightarrow> string option \<Rightarrow> int \<Rightarrow> candidate_draft" where
  "plainDraft lane src reason title detail age = \<lparr>cd_lane = lane, cd_source = src, cd_inclusionReason = reason,
     cd_displayTitle = title, cd_displayDetail = detail, cd_ageDaysSnapshot = age, cd_carryCountSnapshot = None,
     cd_deferCountSnapshot = None, cd_escalationLevelSnapshot = None, cd_firstMoveEligible = False, cd_isBlockerType = False,
     cd_dueAt = None, cd_dependentWorkOrderCount = 0, cd_ageDays = age\<rparr>"

definition directiveDraft :: "timestamp \<Rightarrow> unresolved_candidate \<Rightarrow> candidate_draft" where
  "directiveDraft now x =
     (let dv = dd_directive x; t = od_directive_type dv; age = ageDaysBetween (od_first_seen_at dv) now in
      \<lparr>cd_lane = Lane t, cd_source = SrcDirective (od_id dv) (map_option dr_id (dd_latestRevision x)) t,
       cd_inclusionReason = ''Unresolved '' @ directive_type_str t @ '' Directive (state: '' @ directive_state_str (od_state dv) @ '')'',
       cd_displayTitle = (case dd_latestRevision x of None \<Rightarrow> ''(untitled Directive)'' | Some r \<Rightarrow> dr_title r),
       cd_displayDetail = (case dd_latestRevision x of None \<Rightarrow> None
         | Some r \<Rightarrow> (case dr_why_now r of Some w \<Rightarrow> Some w | None \<Rightarrow> dr_body r)),
       cd_ageDaysSnapshot = age, cd_carryCountSnapshot = Some (int (dd_carryCount x)),
       cd_deferCountSnapshot = Some (int (dd_deferCount x)), cd_escalationLevelSnapshot = Some (int (dd_escalationLevel x)),
       cd_firstMoveEligible = (t \<in> {decision, action, blocker}), cd_isBlockerType = (t = blocker), cd_dueAt = od_due_at dv,
       cd_dependentWorkOrderCount = int (uc_dependentWorkOrderCount x), cd_ageDays = age\<rparr>)"

definition collectUnresolvedDirectives :: "client \<Rightarrow> uuid \<Rightarrow> timestamp \<Rightarrow> candidate_draft list dtx" where
  "collectUnresolvedDirectives c tenantId now =
     tbind (listUnresolvedDirectivesWithClient c tenantId now) (\<lambda>candidates. treturn (map (directiveDraft now) candidates))"

definition ACTIVE_WORK_ORDER_STATUSES :: "work_order_status list" where
  "ACTIVE_WORK_ORDER_STATUSES = [RECEIVED, INTENT_PARSED, AUTHORITY_CLASSIFIED, READY_TO_ACT, EXECUTING, VALIDATING,
     RECEIPT_WRITTEN, MEMORY_CANDIDATES_CREATED]"

definition BLOCKED_WORK_ORDER_STATUSES :: "work_order_status list" where
  "BLOCKED_WORK_ORDER_STATUSES = [FAILED, AWAITING_AUTHORIZATION, SETUP_REQUIRED, CAPABILITY_MISSING, REFUSED]"

definition workOrderDraft :: "timestamp \<Rightarrow> work_order \<Rightarrow> candidate_draft" where
  "workOrderDraft now w = plainDraft
     (if wo_status w \<in> set BLOCKED_WORK_ORDER_STATUSES then Lane blocker
      else if wo_status w = COMPLETED then lane_completed else Lane action)
     (SrcWorkOrder (wo_id w)) (''WorkOrder status: '' @ status_name (wo_status w))
     (or_else (wo_interpreted_intent w) (wo_task_type w))
     (Some (''task_type: '' @ wo_task_type w @ '', status: '' @ status_name (wo_status w)))
     (ageDaysBetween (wo_created_at w) now)"

definition collectWorkOrders :: "client \<Rightarrow> uuid \<Rightarrow> timestamp \<Rightarrow> timestamp \<Rightarrow> db \<Rightarrow> candidate_draft list" where
  "collectWorkOrders c tenantId since now d = map (workOrderDraft now) (order_by_asc wo_updated_at (filter
     (\<lambda>w. wo_tenant_id w = tenantId \<and> (wo_status w \<in> set ACTIVE_WORK_ORDER_STATUSES \<or>
        wo_status w \<in> set BLOCKED_WORK_ORDER_STATUSES \<or> wo_status w = COMPLETED \<and> since \<le> wo_updated_at w))
     (rls_rows c wo_tenant_id (work_orders d))))"

definition EVIDENCE_RECEIPT_TYPES_EXCLUDED :: "string list" where
  "EVIDENCE_RECEIPT_TYPES_EXCLUDED = [''state_transitioned'', ''trigger_fire_skipped'']"

definition collectActionReceipts :: "client \<Rightarrow> uuid \<Rightarrow> timestamp \<Rightarrow> timestamp \<Rightarrow> db \<Rightarrow> candidate_draft list" where
  "collectActionReceipts c tenantId since now d =
     map (\<lambda>r. plainDraft lane_evidence (SrcActionReceipt (re_id r))
         (''Recent ActionReceipt (type: '' @ receipt_type (re_payload r) @ '')'') (receipt_type (re_payload r)) None
         (ageDaysBetween (re_created_at r) now))
       (order_by_asc re_created_at (filter (\<lambda>r. re_tenant_id r = tenantId \<and> since \<le> re_created_at r \<and>
          receipt_type (re_payload r) \<notin> set EVIDENCE_RECEIPT_TYPES_EXCLUDED) (rls_rows c re_tenant_id (action_receipts d))))"

definition clipped :: "glyphs \<Rightarrow> string \<Rightarrow> string" where
  "clipped g s = (if 80 < length s then take 80 s @ gl_ellipsis g else s)"

definition collectMemoryCandidates :: "glyphs \<Rightarrow> client \<Rightarrow> uuid \<Rightarrow> timestamp \<Rightarrow> db \<Rightarrow> candidate_draft list" where
  "collectMemoryCandidates g c tenantId now d =
     map (\<lambda>m. plainDraft lane_evidence (SrcMemoryCandidate (mc_id m)) ''Pending MemoryCandidate awaiting review''
         (clipped g (mc_candidate_content m)) None (ageDaysBetween (mc_created_at m) now))
       (order_by_asc mc_created_at (filter (\<lambda>m. mc_tenant_id m = tenantId \<and> mc_review_status m = proposed)
          (rls_rows c mc_tenant_id (memory_candidates d))))"

fun skip_reason_str :: "skip_reason \<Rightarrow> string" where
  "skip_reason_str ownership_unauthorized = ''ownership_unauthorized''"
| "skip_reason_str owner_not_elora = ''owner_not_elora''"

text \<open>\<open>payload?.reason\<close> of a skipped fire; the code reads it of no other receipt.\<close>

definition payload_reason :: "receipt_payload \<Rightarrow> string option" where
  "payload_reason p = (case p of trigger_fire_skipped _ _ _ r _ \<Rightarrow> Some (skip_reason_str r) | _ \<Rightarrow> None)"

definition collectScheduledTriggerFailures :: "client \<Rightarrow> uuid \<Rightarrow> timestamp \<Rightarrow> timestamp \<Rightarrow> db \<Rightarrow> candidate_draft list" where
  "collectScheduledTriggerFailures c tenantId since now d =
     map (\<lambda>r. plainDraft (Lane blocker) (SrcActionReceipt (re_id r))
         (''Scheduled trigger fire skipped (reason: '' @ or_else (payload_reason (re_payload r)) ''unknown'' @ '')'')
         (''Trigger fire skipped: '' @ or_else (payload_reason (re_payload r)) ''unknown reason'') None
         (ageDaysBetween (re_created_at r) now))
       (order_by_asc re_created_at (filter (\<lambda>r. re_tenant_id r = tenantId \<and>
          receipt_type (re_payload r) = ''trigger_fire_skipped'' \<and> since \<le> re_created_at r)
          (rls_rows c re_tenant_id (action_receipts d))))"

definition collectCandidates ::
  "glyphs \<Rightarrow> client \<Rightarrow> uuid \<Rightarrow> string \<Rightarrow> timestamp \<Rightarrow> (candidate_draft list \<times> timestamp) dtx" where
  "collectCandidates g c tenantId briefingType now =
     tbind (query (resolveSinceTimestamp c tenantId briefingType now)) (\<lambda>since.
     tbind (collectUnresolvedDirectives c tenantId now) (\<lambda>directiveDrafts.
     query (\<lambda>d. (directiveDrafts @ collectWorkOrders c tenantId since now d @ collectActionReceipts c tenantId since now d @
       collectMemoryCandidates g c tenantId now d @ collectScheduledTriggerFailures c tenantId since now d, since))))"

subsection \<open>Ranking\<close>

definition compareByDeadline :: "timestamp option \<Rightarrow> timestamp option \<Rightarrow> int" where
  "compareByDeadline a b = (case (a, b) of
       (None, None) \<Rightarrow> 0 | (None, Some _) \<Rightarrow> 1 | (Some _, None) \<Rightarrow> - 1 | (Some x, Some y) \<Rightarrow> x - y)"

definition compareForFirstMove :: "candidate_draft \<Rightarrow> candidate_draft \<Rightarrow> int" where
  "compareForFirstMove a b =
     (if cd_isBlockerType a \<noteq> cd_isBlockerType b then (if cd_isBlockerType a then - 1 else 1)
      else let deadlineCompare = compareByDeadline (cd_dueAt a) (cd_dueAt b) in
        if deadlineCompare \<noteq> 0 then deadlineCompare
        else if cd_dependentWorkOrderCount a \<noteq> cd_dependentWorkOrderCount b
          then cd_dependentWorkOrderCount b - cd_dependentWorkOrderCount a
        else cd_ageDays b - cd_ageDays a)"

text \<open>\<open>Array.prototype.sort\<close> with a comparator: stable, and equal elements keep their order.\<close>

fun insert_by :: "('a \<Rightarrow> 'a \<Rightarrow> int) \<Rightarrow> 'a \<Rightarrow> 'a list \<Rightarrow> 'a list" where
  "insert_by cmp x [] = [x]"
| "insert_by cmp x (y # ys) = (if cmp x y \<le> 0 then x # y # ys else y # insert_by cmp x ys)"

definition js_sort :: "('a \<Rightarrow> 'a \<Rightarrow> int) \<Rightarrow> 'a list \<Rightarrow> 'a list" where
  "js_sort cmp xs = foldr (insert_by cmp) xs []"

definition selectFirstMove :: "candidate_draft list \<Rightarrow> candidate_draft option" where
  "selectFirstMove drafts = first_row (js_sort compareForFirstMove (filter cd_firstMoveEligible drafts))"

text \<open>
  The code keys the ranks by the draft objects; here a draft is its position in the list, and the ranks are
  listed in the order of the drafts.
\<close>

definition lane_order :: "candidate_draft list \<Rightarrow> briefing_lane \<Rightarrow> nat list" where
  "lane_order drafts lane = js_sort (\<lambda>i j. compareForFirstMove (drafts ! i) (drafts ! j))
     (filter (\<lambda>i. cd_lane (drafts ! i) = lane) [0..<length drafts])"

definition rankWithinLane :: "candidate_draft list \<Rightarrow> nat list" where
  "rankWithinLane drafts =
     map (\<lambda>i. Suc (length (takeWhile (\<lambda>j. j \<noteq> i) (lane_order drafts (cd_lane (drafts ! i)))))) [0..<length drafts]"

subsection \<open>Prose\<close>

record renderable_entry =
  rn_entry :: briefing_issue_entry
  rn_title :: string
  rn_detail :: "string option"

record prose_context =
  px_briefingType :: string
  px_localIssueDate :: string
  px_timezone :: string
  px_sinceTimestamp :: timestamp

fun LANE_HEADINGS :: "glyphs \<Rightarrow> briefing_lane \<Rightarrow> string" where
  "LANE_HEADINGS g (Lane decision) = ''Decisions Required''"
| "LANE_HEADINGS g (Lane focus) = ''Focus''"
| "LANE_HEADINGS g (Lane action) = ''Actions''"
| "LANE_HEADINGS g (Lane blocker) = ''Blocked or Held''"
| "LANE_HEADINGS g (Lane watch) = ''Watch '' @ gl_dash g @ '' No Action''"
| "LANE_HEADINGS g lane_completed = ''Completed Since Last Issue''"
| "LANE_HEADINGS g lane_evidence = ''Evidence Summary''"

definition LANE_ORDER :: "briefing_lane list" where
  "LANE_ORDER = [Lane decision, Lane focus, Lane action, Lane blocker, Lane watch, lane_completed, lane_evidence]"

definition newline :: string where
  "newline = [CHR 0x0A]"

definition renderEntryLine :: "glyphs \<Rightarrow> renderable_entry \<Rightarrow> string" where
  "renderEntryLine g r = ''- **'' @ rn_title r @ ''**'' @
     (case rn_detail r of Some (x # xs) \<Rightarrow> '' '' @ gl_dash g @ '' '' @ x # xs | _ \<Rightarrow> '''') @
     (if be_new_to_issue (rn_entry r) then '''' else '' _(carried forward)_'')"

definition lane_entries :: "briefing_lane \<Rightarrow> renderable_entry list \<Rightarrow> renderable_entry list" where
  "lane_entries lane renderables = js_sort (\<lambda>a b. int (be_rank (rn_entry a)) - int (be_rank (rn_entry b)))
     (filter (\<lambda>r. be_lane (rn_entry r) = lane \<and> be_entry_status (rn_entry r) = be_active) renderables)"

definition renderLaneSection :: "glyphs \<Rightarrow> renderable_entry list \<Rightarrow> briefing_lane \<Rightarrow> string" where
  "renderLaneSection g renderables lane =
     (let heading = ''## '' @ LANE_HEADINGS g lane; sorted = lane_entries lane renderables in
      if sorted = [] then heading @ newline @ newline @ ''_Nothing in this lane today._''
      else heading @ newline @ newline @ join newline (map (renderEntryLine g) sorted))"

definition generateProse :: "glyphs \<Rightarrow> prose_context \<Rightarrow> renderable_entry list \<Rightarrow> renderable_entry option \<Rightarrow> string" where
  "generateProse g context renderables firstMove =
     (let carried = filter (\<lambda>r. \<not> be_new_to_issue (rn_entry r) \<and> be_entry_status (rn_entry r) = be_active) renderables in
      join (newline @ newline)
        ([''# Briefing '' @ gl_dash g @ '' '' @ px_briefingType context @ '' '' @ gl_dash g @ '' '' @ px_localIssueDate context @
            '' ('' @ px_timezone context @ '')'' @ newline @ newline @
            ''_Completed/evidence sections reflect activity since '' @ toISOString (px_sinceTimestamp context) @ ''._'',
          ''## First Move'',
          case firstMove of Some r \<Rightarrow> renderEntryLine g r | None \<Rightarrow> ''_No first-move candidate today._''] @
         map (renderLaneSection g renderables) LANE_ORDER @
         [''## Carried Forward'',
          if carried = [] then ''_Nothing carried forward from a prior issue._''
          else join newline (map (\<lambda>r. ''- **'' @ rn_title r @ ''** _('' @ LANE_HEADINGS g (be_lane (rn_entry r)) @ '')_'') carried)]) @
      newline)"

end
