(* ===== verification/BriefingIssue.thy ===== *)
theory BriefingIssue
  imports Briefing
begin

text \<open>
  The issuing of a briefing (\<open>src/src/briefing/issueBriefing.ts\<close>, \<open>rowMappers.ts\<close>) and its reads
  (\<open>getBriefingIssueDetail.ts\<close>, \<open>getLatestBriefingIssue.ts\<close>). The whole assembly is one database transaction
  in which a file is written: an exception rolls back the rows and leaves the file. The host knows what the
  driver reads back of a \<open>date\<close> column (\<open>None\<close> where PostgreSQL refuses the text), the message of an error
  and the glyphs.
\<close>

subsection \<open>Types\<close>

record 'f briefing_host =
  bh_tools :: "'f tool_host"
  bh_date :: "string \<Rightarrow> string option"
  bh_message :: "error \<Rightarrow> string"
  bh_glyphs :: glyphs

record issue_briefing_input =
  ib_tenantId :: uuid
  ib_briefingType :: string
  ib_localIssueDate :: string
  ib_timezone :: string
  ib_issuedByActorId :: uuid
  ib_sourceMessageId :: "uuid option"
  ib_sourceWorkOrderId :: "uuid option"
  ib_now :: "timestamp option"

record issue_briefing_result =
  ir_issue :: briefing_issue
  ir_entries :: "briefing_issue_entry list"
  ir_alreadyIssued :: bool

definition rowToBriefingIssue :: "briefing_issue \<Rightarrow> error + briefing_issue" where
  "rowToBriefingIssue row = (if briefingIssueSchema_ok row then Inr row else Inl (ZodError ''briefingIssue''))"

definition rowToBriefingIssueEntry :: "briefing_issue_entry \<Rightarrow> error + briefing_issue_entry" where
  "rowToBriefingIssueEntry row = (if briefingIssueEntrySchema_ok row then Inr row else Inl (ZodError ''briefingIssueEntry''))"

subsection \<open>Input\<close>

text \<open>\<open>/^\d{4}-\d{2}-\d{2}$/\<close>\<close>

definition local_date_ok :: "string \<Rightarrow> bool" where
  "local_date_ok s \<longleftrightarrow> length s = 10 \<and> s ! 4 = CHR ''-'' \<and> s ! 7 = CHR ''-'' \<and>
     list_all (\<lambda>i. is_digit_char (s ! i)) [0, 1, 2, 3, 5, 6, 8, 9]"

definition validateBriefingInput :: "issue_briefing_input \<Rightarrow> error + unit" where
  "validateBriefingInput inp =
     (if js_trim (ib_briefingType inp) = [] then Inl (BriefingError (InvalidBriefingInputError ''briefingType must not be empty''))
      else if \<not> local_date_ok (ib_localIssueDate inp) then Inl (BriefingError (InvalidBriefingInputError
        (''localIssueDate must be YYYY-MM-DD, got \"'' @ ib_localIssueDate inp @ ''\"'')))
      else if js_trim (ib_timezone inp) = [] then Inl (BriefingError (InvalidBriefingInputError ''timezone must not be empty''))
      else Inr ())"

definition resolveOptionalTenantScopedId :: "client \<Rightarrow> ref_table \<Rightarrow> uuid \<Rightarrow> uuid option \<Rightarrow> string \<Rightarrow> uuid option dtx" where
  "resolveOptionalTenantScopedId c tbl tenantId i label =
     (case i of
        None \<Rightarrow> treturn None
      | Some x \<Rightarrow> tbind (query (\<lambda>d. first_row (ref_ids c tbl x tenantId d))) (\<lambda>row.
          case row of None \<Rightarrow> throw (BriefingError (BriefingReferenceNotFoundError label x)) | Some r \<Rightarrow> treturn (Some r)))"

definition briefingKey :: "issue_briefing_input \<Rightarrow> string" where
  "briefingKey inp = buildIdempotencyKey
     [uuid_str (ib_tenantId inp), ib_briefingType inp, ib_localIssueDate inp, ib_timezone inp]"

definition issueRow :: "env \<Rightarrow> issue_briefing_input \<Rightarrow> timestamp \<Rightarrow> string \<Rightarrow> uuid option \<Rightarrow> uuid option \<Rightarrow> briefing_issue" where
  "issueRow e inp now stored_date messageId workOrderId = \<lparr>bi_id = env_uuid e 0, bi_tenant_id = ib_tenantId inp,
     bi_briefing_type = ib_briefingType inp, bi_local_issue_date = stored_date, bi_timezone = ib_timezone inp,
     bi_status = ASSEMBLING, bi_issued_by_actor_id = ib_issuedByActorId inp, bi_source_message_id = messageId,
     bi_source_work_order_id = workOrderId, bi_first_move_directive_id = None, bi_prose_artifact_id = None,
     bi_idempotency_key = briefingKey inp, bi_generated_at = None, bi_published_at = None, bi_closed_at = None,
     bi_created_at = now\<rparr>"

definition persistence_failed :: "'f briefing_host \<Rightarrow> string \<Rightarrow> error \<Rightarrow> error" where
  "persistence_failed h what err = BriefingError (BriefingPersistenceError (what @ '' insert failed: '' @ bh_message h err))"

text \<open>\<open>INSERT \<dots> ON CONFLICT (tenant_id, idempotency_key) DO NOTHING\<close>; the driver's error is caught and wrapped.\<close>

definition openIssue ::
  "'f briefing_host \<Rightarrow> env \<Rightarrow> issue_briefing_input \<Rightarrow> timestamp \<Rightarrow> uuid option \<Rightarrow> uuid option \<Rightarrow> bool dtx" where
  "openIssue h e inp now messageId workOrderId =
     rethrow (persistence_failed h ''briefing_issues'')
       (case bh_date h (ib_localIssueDate inp) of
          None \<Rightarrow> throw (DbError (CheckViolation ''briefing_issues''))
        | Some stored_date \<Rightarrow> insert_or_nothing
            (\<lambda>d. (ib_tenantId inp, briefingKey inp) \<in> set (map (\<lambda>i. (bi_tenant_id i, bi_idempotency_key i)) (briefing_issues d)))
            (insert_briefing_issue (issueRow e inp now stored_date messageId workOrderId)))"

subsection \<open>Entries\<close>

fun source_matches :: "candidate_source \<Rightarrow> briefing_issue_entry \<Rightarrow> bool" where
  "source_matches (SrcDirective i _ _) x \<longleftrightarrow> be_directive_id x = Some i"
| "source_matches (SrcWorkOrder i) x \<longleftrightarrow> be_work_order_id x = Some i"
| "source_matches (SrcActionReceipt i) x \<longleftrightarrow> be_action_receipt_id x = Some i"
| "source_matches (SrcMemoryCandidate i) x \<longleftrightarrow> be_memory_candidate_id x = Some i"

text \<open>\<open>ORDER BY published_at DESC NULLS LAST\<close>\<close>

definition nulls_last :: "briefing_issue list \<Rightarrow> briefing_issue list" where
  "nulls_last rows = order_by_desc (\<lambda>i. the (bi_published_at i)) (filter (\<lambda>i. bi_published_at i \<noteq> None) rows) @
     filter (\<lambda>i. bi_published_at i = None) rows"

definition findCarriedFromIssueId :: "client \<Rightarrow> uuid \<Rightarrow> uuid \<Rightarrow> candidate_source \<Rightarrow> db \<Rightarrow> uuid option" where
  "findCarriedFromIssueId c tenantId currentIssueId src d =
     map_option bi_id (first_row (nulls_last (concat (map
       (\<lambda>x. filter (\<lambda>i. bi_id i = be_briefing_issue_id x \<and> bi_tenant_id i = be_tenant_id x \<and> bi_id i \<noteq> currentIssueId)
          (rls_rows c bi_tenant_id (briefing_issues d)))
       (filter (\<lambda>x. be_tenant_id x = tenantId \<and> source_matches src x \<and> be_entry_status x = be_active)
          (rls_rows c be_tenant_id (briefing_issue_entries d)))))))"

definition entryRow ::
  "env \<Rightarrow> nat \<Rightarrow> issue_briefing_input \<Rightarrow> timestamp \<Rightarrow> candidate_draft \<Rightarrow> nat \<Rightarrow> uuid option \<Rightarrow> briefing_issue_entry" where
  "entryRow e k inp now draft rank carried = \<lparr>be_id = env_uuid e k, be_tenant_id = ib_tenantId inp,
     be_briefing_issue_id = env_uuid e 0,
     be_directive_id = (case cd_source draft of SrcDirective i _ _ \<Rightarrow> Some i | _ \<Rightarrow> None),
     be_directive_revision_id = (case cd_source draft of SrcDirective _ r _ \<Rightarrow> r | _ \<Rightarrow> None),
     be_work_order_id = (case cd_source draft of SrcWorkOrder i \<Rightarrow> Some i | _ \<Rightarrow> None),
     be_action_receipt_id = (case cd_source draft of SrcActionReceipt i \<Rightarrow> Some i | _ \<Rightarrow> None),
     be_memory_candidate_id = (case cd_source draft of SrcMemoryCandidate i \<Rightarrow> Some i | _ \<Rightarrow> None),
     be_lane = cd_lane draft, be_rank = rank, be_entry_status = be_active, be_new_to_issue = (carried = None),
     be_carried_from_issue_id = carried, be_age_days_snapshot = Some (cd_ageDaysSnapshot draft),
     be_carry_count_snapshot = cd_carryCountSnapshot draft, be_defer_count_snapshot = cd_deferCountSnapshot draft,
     be_escalation_level_snapshot = cd_escalationLevelSnapshot draft, be_inclusion_reason = cd_inclusionReason draft,
     be_created_at = now\<rparr>"

text \<open>Where an entry was carried from is looked up for all drafts before the first entry is inserted.\<close>

definition entryRows :: "env \<Rightarrow> client \<Rightarrow> issue_briefing_input \<Rightarrow> timestamp \<Rightarrow> candidate_draft list \<Rightarrow> db \<Rightarrow> briefing_issue_entry list" where
  "entryRows e c inp now drafts d = map (\<lambda>(k, draft, rank). entryRow e (Suc k) inp now draft rank
       (findCarriedFromIssueId c (ib_tenantId inp) (env_uuid e 0) (cd_source draft) d))
     (enumerate 0 (zip drafts (rankWithinLane drafts)))"

text \<open>The briefing's assembly up to the prose: the drafts, their entries and the window's start\<close>

definition assembleEntries ::
  "'f briefing_host \<Rightarrow> env \<Rightarrow> issue_briefing_input \<Rightarrow> timestamp \<Rightarrow> client \<Rightarrow> (candidate_draft list \<times> briefing_issue_entry list \<times> timestamp) dtx" where
  "assembleEntries h e inp now c =
     tbind (collectCandidates (bh_glyphs h) c (ib_tenantId inp) (ib_briefingType inp) now) (\<lambda>(drafts, since).
     tbind (query (entryRows e c inp now drafts)) (\<lambda>rows.
     tbind (insert_each insert_briefing_issue_entry rowToBriefingIssueEntry rows) (\<lambda>entries.
     treturn (drafts, entries, since))))"

definition renderables :: "candidate_draft list \<Rightarrow> briefing_issue_entry list \<Rightarrow> renderable_entry list" where
  "renderables drafts entries = map2 (\<lambda>draft entry. \<lparr>rn_entry = entry, rn_title = cd_displayTitle draft,
     rn_detail = cd_displayDetail draft\<rparr>) drafts entries"

definition firstMoveDirectiveId :: "candidate_draft list \<Rightarrow> uuid option" where
  "firstMoveDirectiveId drafts = (case selectFirstMove drafts of
       None \<Rightarrow> None
     | Some draft \<Rightarrow> (case cd_source draft of SrcDirective i _ _ \<Rightarrow> Some i | _ \<Rightarrow> None))"

definition briefingProse ::
  "'f briefing_host \<Rightarrow> issue_briefing_input \<Rightarrow> candidate_draft list \<Rightarrow> briefing_issue_entry list \<Rightarrow> timestamp \<Rightarrow> string" where
  "briefingProse h inp drafts entries since =
     (let rs = renderables drafts entries in
      generateProse (bh_glyphs h) \<lparr>px_briefingType = ib_briefingType inp, px_localIssueDate = ib_localIssueDate inp,
        px_timezone = ib_timezone inp, px_sinceTimestamp = since\<rparr> rs
        (case firstMoveDirectiveId drafts of None \<Rightarrow> None
         | Some i \<Rightarrow> first_row (filter (\<lambda>r. be_directive_id (rn_entry r) = Some i) rs)))"

subsection \<open>The transaction\<close>

text \<open>
  A transaction whose statements also touch files. On an exception the rows are those from before it; the
  files stay as they were left.
\<close>

definition in_tx :: "'a dtx \<Rightarrow> ('f, 'a) wop" where
  "in_tx m s = (case m (fst s) of Inl err \<Rightarrow> (Inl err, s) | Inr (x, d') \<Rightarrow> (Inr x, (d', snd s)))"

definition with_files :: "env \<Rightarrow> uuid \<Rightarrow> (client \<Rightarrow> ('f, 'a) wop) \<Rightarrow> ('f, 'a) wop" where
  "with_files e tenantId callback s =
     (case callback \<lparr>cl_tenant = tenantId, cl_rls = env_rls e\<rparr> s of
        (Inl err, s') \<Rightarrow> (Inl err, (fst s, snd s'))
      | (Inr x, s') \<Rightarrow> (Inr x, s'))"

definition in_files :: "('f \<Rightarrow> (error + 'a) \<times> 'f) \<Rightarrow> ('f, 'a) wop" where
  "in_files m s = (case m (snd s) of (r, f') \<Rightarrow> (r, (fst s, f')))"

definition proseArtifactRow :: "env \<Rightarrow> nat \<Rightarrow> issue_briefing_input \<Rightarrow> timestamp \<Rightarrow> write_result \<Rightarrow> artifact" where
  "proseArtifactRow e k inp now w = \<lparr>af_id = env_uuid e k, af_tenant_id = ib_tenantId inp, af_workspace_id = None,
     af_project_id = None, af_work_order_id = None, af_actor_id = None, af_artifact_type = ''briefing_prose'',
     af_storage_reference = Some (wr_relativePath w), af_mime_type = Some ''text/markdown'',
     af_byte_count = Some (wr_byteCount w), af_content_hash = Some (wr_contentHash w),
     af_idempotency_key = buildIdempotencyKey [uuid_str (ib_tenantId inp), uuid_str (env_uuid e 0), ''artifact'', ''briefing_prose''],
     af_created_at = now\<rparr>"

definition prosePath :: "issue_briefing_input \<Rightarrow> string" where
  "prosePath inp = ''briefings/'' @ ib_briefingType inp @ ''/'' @ ib_localIssueDate inp @ ''.md''"

definition insertProseArtifact ::
  "'f briefing_host \<Rightarrow> env \<Rightarrow> nat \<Rightarrow> issue_briefing_input \<Rightarrow> string \<Rightarrow> timestamp \<Rightarrow> ('f, uuid) wop" where
  "insertProseArtifact h e k inp prose now =
     (let t = bh_tools h; wroot = resolveWorkspaceRoot (hs_config t) (ib_tenantId inp) None in
      obind (in_files (\<lambda>f. case ensureWorkspaceRoot (hs_fs t) wroot f of Inl err \<Rightarrow> (Inl err, f) | Inr f' \<Rightarrow> (Inr (), f'))) (\<lambda>_.
      obind (in_files (writeWorkspaceFile (hs_fs t) (env_sha256 e) (hs_cwd t) (hs_tmpSuffix t) (hs_config t) wroot
        (prosePath inp) prose True)) (\<lambda>w.
      obind (attempt (in_tx (insert_artifact (proseArtifactRow e k inp now w)))) (\<lambda>outcome.
      case outcome of
        Inr _ \<Rightarrow> oreturn (env_uuid e k)
      | Inl err \<Rightarrow>
          (case resolveContainedPath (hs_cwd t) wroot (prosePath inp) of
             Inl err' \<Rightarrow> othrow err'
           | Inr p \<Rightarrow> obind (in_files (\<lambda>f. (Inr (), removeWorkspaceFileQuietly (hs_fs t) p f))) (\<lambda>_.
               othrow (persistence_failed h ''artifacts'' err)))))))"

definition publish :: "env \<Rightarrow> issue_briefing_input \<Rightarrow> timestamp \<Rightarrow> uuid option \<Rightarrow> uuid \<Rightarrow> briefing_issue dtx" where
  "publish e inp now firstMove artifactId =
     tbind (require (\<lambda>d. fk_ok od_id (operator_directives d) firstMove \<and> fk_ok af_id (artifacts d) (Some artifactId))
       (ForeignKeyViolation ''briefing_issues'')) (\<lambda>_.
     tbind (modify (\<lambda>d. d\<lparr>briefing_issues := update_where (\<lambda>i. bi_id i = env_uuid e 0 \<and> bi_tenant_id i = ib_tenantId inp)
       (\<lambda>i. i\<lparr>bi_status := ISSUED, bi_first_move_directive_id := firstMove, bi_prose_artifact_id := Some artifactId,
          bi_generated_at := Some now, bi_published_at := Some now\<rparr>) (briefing_issues d)\<rparr>)) (\<lambda>_.
     tbind (query (\<lambda>d. first_row (filter (\<lambda>i. bi_id i = env_uuid e 0 \<and> bi_tenant_id i = ib_tenantId inp) (briefing_issues d)))) (\<lambda>row.
     case row of None \<Rightarrow> throw JsTypeError | Some i \<Rightarrow> lift_result (rowToBriefingIssue i))))"

text \<open>The text order of the lanes, which \<open>ORDER BY lane, rank\<close> follows\<close>

fun lane_index :: "briefing_lane \<Rightarrow> int" where
  "lane_index (Lane action) = 0"
| "lane_index (Lane blocker) = 1"
| "lane_index lane_completed = 2"
| "lane_index (Lane decision) = 3"
| "lane_index lane_evidence = 4"
| "lane_index (Lane focus) = 5"
| "lane_index (Lane watch) = 6"

definition entries_of :: "client \<Rightarrow> uuid \<Rightarrow> uuid \<Rightarrow> db \<Rightarrow> briefing_issue_entry list" where
  "entries_of c tenantId issueId d = order_by_asc (\<lambda>x. lane_index (be_lane x)) (order_by_asc (\<lambda>x. int (be_rank x))
     (filter (\<lambda>x. be_tenant_id x = tenantId \<and> be_briefing_issue_id x = issueId) (rls_rows c be_tenant_id (briefing_issue_entries d))))"

definition fetchEntries :: "client \<Rightarrow> uuid \<Rightarrow> uuid \<Rightarrow> briefing_issue_entry list dtx" where
  "fetchEntries c tenantId issueId = tbind (query (entries_of c tenantId issueId)) (collect_rows rowToBriefingIssueEntry)"

definition existingIssue :: "issue_briefing_input \<Rightarrow> client \<Rightarrow> issue_briefing_result dtx" where
  "existingIssue inp c =
     tbind (query (\<lambda>d. first_row (filter (\<lambda>i. bi_tenant_id i = ib_tenantId inp \<and> bi_idempotency_key i = briefingKey inp)
       (rls_rows c bi_tenant_id (briefing_issues d))))) (\<lambda>row.
     case row of
       None \<Rightarrow> throw (BriefingError (BriefingPersistenceError (''briefing_issues insert for idempotency_key \"'' @ briefingKey inp @
         ''\" conflicted but no row was found on retry'')))
     | Some r \<Rightarrow>
         tbind (lift_result (rowToBriefingIssue r)) (\<lambda>issue.
         tbind (fetchEntries c (ib_tenantId inp) (bi_id issue)) (\<lambda>entries.
         treturn \<lparr>ir_issue = issue, ir_entries = entries, ir_alreadyIssued = True\<rparr>)))"

definition prepareIssue :: "'f briefing_host \<Rightarrow> env \<Rightarrow> issue_briefing_input \<Rightarrow> timestamp \<Rightarrow> client \<Rightarrow> bool dtx" where
  "prepareIssue h e inp now c =
     tbind (assertTenantScopedReference c tbl_actors (ib_issuedByActorId inp) (ib_tenantId inp)
       (BriefingError (BriefingReferenceNotFoundError ''issuedByActorId'' (ib_issuedByActorId inp)))) (\<lambda>_.
     tbind (resolveOptionalTenantScopedId c tbl_messages (ib_tenantId inp) (ib_sourceMessageId inp) ''sourceMessageId'') (\<lambda>messageId.
     tbind (resolveOptionalTenantScopedId c tbl_work_orders (ib_tenantId inp) (ib_sourceWorkOrderId inp) ''sourceWorkOrderId'') (\<lambda>workOrderId.
     openIssue h e inp now messageId workOrderId)))"

definition issueBriefing :: "'f briefing_host \<Rightarrow> env \<Rightarrow> issue_briefing_input \<Rightarrow> ('f, issue_briefing_result) wop" where
  "issueBriefing h e inp =
     (case validateBriefingInput inp of
        Inl err \<Rightarrow> othrow err
      | Inr _ \<Rightarrow>
          (let now = or_else (ib_now inp) (env_now e 0) in
           with_files e (ib_tenantId inp) (\<lambda>c.
             obind (in_tx (prepareIssue h e inp now c)) (\<lambda>inserted.
             if \<not> inserted then in_tx (existingIssue inp c)
             else obind (in_tx (assembleEntries h e inp now c)) (\<lambda>(drafts, entries, since).
               obind (insertProseArtifact h e (Suc (length drafts)) inp (briefingProse h inp drafts entries since) now) (\<lambda>artifactId.
               obind (in_tx (publish e inp now (firstMoveDirectiveId drafts) artifactId)) (\<lambda>issue.
               oreturn \<lparr>ir_issue = issue, ir_entries = entries, ir_alreadyIssued = False\<rparr>)))))))"

subsection \<open>Reads\<close>

definition getBriefingIssueDetail :: "env \<Rightarrow> uuid \<Rightarrow> uuid \<Rightarrow> (briefing_issue \<times> briefing_issue_entry list) dop" where
  "getBriefingIssueDetail e tenantId issueId = withTenantTransaction e tenantId (\<lambda>c.
     tbind (query (\<lambda>d. first_row (scoped_rows c bi_id bi_tenant_id issueId tenantId (briefing_issues d)))) (\<lambda>row.
     case row of
       None \<Rightarrow> throw (BriefingError (BriefingIssueNotFoundError issueId))
     | Some r \<Rightarrow>
         tbind (query (entries_of c tenantId issueId)) (\<lambda>rows.
         tbind (lift_result (rowToBriefingIssue r)) (\<lambda>issue.
         tbind (collect_rows rowToBriefingIssueEntry rows) (\<lambda>entries.
         treturn (issue, entries))))))"

record entry_display =
  ey_title :: string
  ey_detail :: "string option"

record issue_with_display =
  iw_issue :: briefing_issue
  iw_entries :: "briefing_issue_entry list"
  iw_displayByEntryId :: "uuid \<Rightarrow> entry_display option"

text \<open>
  One kind of source: nothing is queried when no entry has it, else every entry of the kind is entered. For
  directives the test is on the revision ids, so entries whose directive has no revision are skipped when no
  entry has one.
\<close>

definition enter_displays ::
  "bool \<Rightarrow> (briefing_issue_entry \<Rightarrow> entry_display option) \<Rightarrow> briefing_issue_entry list \<Rightarrow>
   (uuid \<Rightarrow> entry_display option) \<Rightarrow> uuid \<Rightarrow> entry_display option" where
  "enter_displays asked display entries m =
     (if asked then fold (\<lambda>x m. case display x of None \<Rightarrow> m | Some t \<Rightarrow> m(be_id x \<mapsto> t)) entries m else m)"

definition row_by_id :: "client \<Rightarrow> ('r \<Rightarrow> uuid) \<Rightarrow> ('r \<Rightarrow> uuid) \<Rightarrow> uuid \<Rightarrow> 'r list \<Rightarrow> uuid option \<Rightarrow> 'r option" where
  "row_by_id c id_of tenant_of tenantId rows i =
     (case i of None \<Rightarrow> None | Some x \<Rightarrow> first_row (scoped_rows c id_of tenant_of x tenantId rows))"

definition directiveDisplay :: "directive_revision option \<Rightarrow> entry_display" where
  "directiveDisplay r = (case r of
       None \<Rightarrow> \<lparr>ey_title = ''(untitled Directive)'', ey_detail = None\<rparr>
     | Some v \<Rightarrow> \<lparr>ey_title = dr_title v, ey_detail = (case dr_why_now v of Some y \<Rightarrow> Some y | None \<Rightarrow> dr_body v)\<rparr>)"

definition workOrderDisplay :: "work_order option \<Rightarrow> entry_display" where
  "workOrderDisplay r = (case r of
       None \<Rightarrow> \<lparr>ey_title = ''(WorkOrder)'', ey_detail = None\<rparr>
     | Some w \<Rightarrow> \<lparr>ey_title = or_else (wo_interpreted_intent w) (wo_task_type w),
         ey_detail = Some (''task_type: '' @ wo_task_type w @ '', status: '' @ status_name (wo_status w))\<rparr>)"

definition receiptDisplay :: "action_receipt option \<Rightarrow> entry_display" where
  "receiptDisplay r = \<lparr>ey_title = (case r of
       None \<Rightarrow> ''(ActionReceipt)''
     | Some x \<Rightarrow> if receipt_type (re_payload x) = ''trigger_fire_skipped''
         then ''Trigger fire skipped: '' @ or_else (payload_reason (re_payload x)) ''unknown reason''
         else receipt_type (re_payload x)), ey_detail = None\<rparr>"

text \<open>\<open>content ? \<dots> : "(MemoryCandidate)"\<close>: the empty text counts as absent.\<close>

definition memoryDisplay :: "glyphs \<Rightarrow> memory_candidate option \<Rightarrow> entry_display" where
  "memoryDisplay g r = \<lparr>ey_title = (case r of
       None \<Rightarrow> ''(MemoryCandidate)''
     | Some m \<Rightarrow> if mc_candidate_content m = [] then ''(MemoryCandidate)'' else clipped g (mc_candidate_content m)), ey_detail = None\<rparr>"

definition resolveDisplayText ::
  "glyphs \<Rightarrow> client \<Rightarrow> uuid \<Rightarrow> briefing_issue_entry list \<Rightarrow> db \<Rightarrow> uuid \<Rightarrow> entry_display option" where
  "resolveDisplayText g c tenantId entries d =
     (let asked = (\<lambda>col. list_ex (\<lambda>x. col x \<noteq> None) entries);
          shown = (\<lambda>col display x. if col x = None then None else Some (display x)) in
      enter_displays (asked be_memory_candidate_id) (shown be_memory_candidate_id (\<lambda>x. memoryDisplay g
        (row_by_id c mc_id mc_tenant_id tenantId (memory_candidates d) (be_memory_candidate_id x)))) entries
      (enter_displays (asked be_action_receipt_id) (shown be_action_receipt_id (\<lambda>x. receiptDisplay
        (map_option action_receipt.truncate (row_by_id c re_id re_tenant_id tenantId (action_receipts d) (be_action_receipt_id x))))) entries
      (enter_displays (asked be_work_order_id) (shown be_work_order_id (\<lambda>x. workOrderDisplay
        (row_by_id c wo_id wo_tenant_id tenantId (work_orders d) (be_work_order_id x)))) entries
      (enter_displays (asked be_directive_revision_id) (shown be_directive_id (\<lambda>x. directiveDisplay
        (row_by_id c dr_id dr_tenant_id tenantId (directive_revisions d) (be_directive_revision_id x)))) entries
      (\<lambda>_. None)))))"

text \<open>\<open>ORDER BY published_at DESC LIMIT 1\<close>: without a clause for them, PostgreSQL puts the nulls first here.\<close>

definition nulls_first :: "briefing_issue list \<Rightarrow> briefing_issue list" where
  "nulls_first rows = filter (\<lambda>i. bi_published_at i = None) rows @
     order_by_desc (\<lambda>i. the (bi_published_at i)) (filter (\<lambda>i. bi_published_at i \<noteq> None) rows)"

definition getLatestBriefingIssue :: "glyphs \<Rightarrow> env \<Rightarrow> uuid \<Rightarrow> string \<Rightarrow> issue_with_display option dop" where
  "getLatestBriefingIssue g e tenantId briefingType = withTenantTransaction e tenantId (\<lambda>c.
     tbind (query (\<lambda>d. first_row (nulls_first (filter (\<lambda>i. bi_tenant_id i = tenantId \<and> bi_briefing_type i = briefingType)
       (rls_rows c bi_tenant_id (briefing_issues d)))))) (\<lambda>row.
     case row of
       None \<Rightarrow> treturn None
     | Some r \<Rightarrow>
         tbind (query (\<lambda>d. filter (\<lambda>x. be_entry_status x = be_active) (entries_of c tenantId (bi_id r) d))) (\<lambda>rows.
         tbind (collect_rows rowToBriefingIssueEntry rows) (\<lambda>entries.
         tbind (query (resolveDisplayText g c tenantId entries)) (\<lambda>displays.
         tbind (lift_result (rowToBriefingIssue r)) (\<lambda>issue.
         treturn (Some \<lparr>iw_issue = issue, iw_entries = entries, iw_displayByEntryId = displays\<rparr>)))))))"

end
