(* ===== verification/BriefingRank.thy ===== *)
theory BriefingRank
  imports BriefingIssue "HOL-Library.Multiset"
begin

text \<open>
  The order of a briefing. A comparator of the language is any function to numbers; \<open>js_comparator\<close> says what
  makes it an order, and what the stable sort then does. It is interpreted by the comparator of the first move,
  on drafts and on their positions, and by the comparison of ranks.
\<close>

subsection \<open>Sorting by a comparator\<close>

lemma js_sort_simps [simp]: "js_sort cmp [] = []" "js_sort cmp (x # xs) = insert_by cmp x (js_sort cmp xs)"
  by (simp_all add: js_sort_def)

locale js_comparator =
  fixes cmp :: "'a \<Rightarrow> 'a \<Rightarrow> int"
  assumes mirrored: "cmp x y \<le> 0 \<longleftrightarrow> 0 \<le> cmp y x"
    and chained: "cmp x y \<le> 0 \<Longrightarrow> cmp y z \<le> 0 \<Longrightarrow> cmp x z \<le> 0"
begin

lemma strict: "cmp x y < 0 \<longleftrightarrow> 0 < cmp y x"
  using mirrored [of x y] mirrored [of y x] by linarith

lemma strict_chained: "cmp x y < 0 \<Longrightarrow> cmp y z \<le> 0 \<Longrightarrow> cmp x z < 0"
  using chained [of y z x] mirrored [of z x] strict [of x y] by fastforce

lemma mset_insert_by [simp]: "mset (insert_by cmp x ys) = add_mset x (mset ys)"
  by (induction ys) auto

lemma mset_js_sort [simp]: "mset (js_sort cmp xs) = mset xs"
  by (induction xs) simp_all

lemma set_js_sort [simp]: "set (js_sort cmp xs) = set xs"
  using mset_js_sort [of xs] by (rule mset_eq_setD)

lemma set_insert_by [simp]: "set (insert_by cmp x ys) = insert x (set ys)"
  using mset_insert_by [of x ys] by (metis set_mset_add_mset_insert set_mset_mset)

lemma insert_by_sorted:
  "sorted_wrt (\<lambda>a b. cmp a b < 0 \<or> cmp a b = 0 \<and> P a b) ys \<Longrightarrow> \<forall>y\<in>set ys. P x y \<Longrightarrow>
   sorted_wrt (\<lambda>a b. cmp a b < 0 \<or> cmp a b = 0 \<and> P a b) (insert_by cmp x ys)"
proof (induction ys)
  case (Cons y ys)
  show ?case
  proof (cases "cmp x y \<le> 0")
    case True
    have "cmp x z < 0 \<or> cmp x z = 0 \<and> P x z" if "z \<in> set ys" for z
    proof -
      from Cons.prems(1) that have "cmp y z \<le> 0" by auto
      with True have "cmp x z \<le> 0" by (rule chained)
      with Cons.prems(2) that show ?thesis by auto
    qed
    with True Cons.prems show ?thesis by auto
  next
    case False
    then have "cmp y x < 0" by (simp add: strict)
    with False Cons show ?thesis by auto
  qed
qed simp

text \<open>Stability: among equals the order of the input.\<close>

lemma js_sort_stable:
  "sorted_wrt P xs \<Longrightarrow> sorted_wrt (\<lambda>a b. cmp a b < 0 \<or> cmp a b = 0 \<and> P a b) (js_sort cmp xs)"
proof (induction xs)
  case (Cons x xs)
  then show ?case using insert_by_sorted [of P "js_sort cmp xs" x] by simp
qed simp

lemma js_sort_sorted: "sorted_wrt (\<lambda>a b. cmp a b \<le> 0) (js_sort cmp xs)"
  by (rule sorted_wrt_mono_rel [OF _ js_sort_stable [of "\<lambda>_ _. True"]]) (auto simp: sorted_wrt_iff_nth_less)

text \<open>What comes first is the first of the least.\<close>

definition leads :: "'a \<Rightarrow> 'a list \<Rightarrow> bool" where
  "leads m xs \<longleftrightarrow> (\<exists>before after. xs = before @ m # after \<and> (\<forall>y\<in>set before. 0 < cmp y m) \<and> (\<forall>y\<in>set after. cmp m y \<le> 0))"

lemma leads_unique: "leads m xs \<Longrightarrow> leads n xs \<Longrightarrow> m = n"
  by (auto simp: leads_def append_eq_append_conv2 append_eq_Cons_conv Cons_eq_append_conv not_less [symmetric])

lemma js_sort_leads: "js_sort cmp xs = m # rest \<Longrightarrow> leads m xs"
proof (induction xs arbitrary: m rest)
  case (Cons x xs)
  show ?case
  proof (cases "js_sort cmp xs")
    case Nil
    then have "xs = []" using set_js_sort [of xs] by simp
    with Cons.prems show ?thesis unfolding leads_def by (intro exI [of _ "[]"]) simp
  next
    case (Cons n ns)
    then obtain before after where xs: "xs = before @ n # after" "\<forall>y\<in>set before. 0 < cmp y n" "\<forall>y\<in>set after. cmp n y \<le> 0"
      using Cons.IH unfolding leads_def by blast
    have s: "js_sort cmp (x # xs) = insert_by cmp x (n # ns)" using Cons by simp
    show ?thesis
    proof (cases "cmp x n \<le> 0")
      case True
      have "cmp x y \<le> 0" if "y \<in> set xs" for y
        using that xs True chained [of x n y] strict [of n y] by (auto simp: order.strict_iff_order)
      with True s Cons.prems show ?thesis unfolding leads_def by (intro exI [of _ "[]"] exI [of _ xs]) simp
    next
      case False
      with s Cons.prems xs show ?thesis unfolding leads_def by (intro exI [of _ "x # before"] exI [of _ after]) simp
    qed
  qed
qed simp

end

subsection \<open>The comparator of the first move\<close>

interpretation fm: js_comparator compareForFirstMove
  by unfold_locales (auto simp: compareForFirstMove_def compareByDeadline_def Let_def split: option.splits if_splits)

interpretation at_position: js_comparator "\<lambda>i j. compareForFirstMove (drafts ! i) (drafts ! j)" for drafts
  by unfold_locales (rule fm.mirrored, rule fm.chained)

interpretation by_rank: js_comparator "\<lambda>a b. int (be_rank (rn_entry a)) - int (be_rank (rn_entry b))"
  by unfold_locales auto

text \<open>
  The order the code means, written without numbers: a blocker before anything else, then what is due before what is
  due later or never, then what more WorkOrders depend on, then what is older.
\<close>

fun due_before :: "timestamp option \<Rightarrow> timestamp option \<Rightarrow> bool" where
  "due_before None b = False"
| "due_before (Some t) None = True"
| "due_before (Some t) (Some u) = (t < u)"

definition outranks :: "candidate_draft \<Rightarrow> candidate_draft \<Rightarrow> bool" where
  "outranks a b \<longleftrightarrow> cd_isBlockerType a \<and> \<not> cd_isBlockerType b \<or>
     cd_isBlockerType a = cd_isBlockerType b \<and>
       (due_before (cd_dueAt a) (cd_dueAt b) \<or>
        cd_dueAt a = cd_dueAt b \<and>
          (cd_dependentWorkOrderCount b < cd_dependentWorkOrderCount a \<or>
           cd_dependentWorkOrderCount a = cd_dependentWorkOrderCount b \<and> cd_ageDays b < cd_ageDays a))"

lemma compareForFirstMove_less: "compareForFirstMove a b < 0 \<longleftrightarrow> outranks a b"
  by (cases "cd_dueAt a"; cases "cd_dueAt b")
    (auto simp: compareForFirstMove_def compareByDeadline_def outranks_def)

lemma compareForFirstMove_greater: "0 < compareForFirstMove a b \<longleftrightarrow> outranks b a"
  using fm.strict [of b a] by (simp add: compareForFirstMove_less)

text \<open>
  C15. The first move is the best candidate. A draft is selected if and only if it is eligible, it outranks every
  eligible draft before it in the list, and no eligible draft after it outranks it, where blockers come first, then
  the nearer deadline (any deadline before none), then the larger number of dependent WorkOrders, then the greater
  age in days. So a draft is selected whenever one is eligible.
\<close>

theorem first_move_is_best:
  "(selectFirstMove drafts = Some x \<longleftrightarrow> (\<exists>before after. filter cd_firstMoveEligible drafts = before @ x # after \<and>
     (\<forall>y\<in>set before. outranks x y) \<and> (\<forall>y\<in>set after. \<not> outranks y x))) \<and>
   (selectFirstMove drafts = None \<longleftrightarrow> (\<forall>y\<in>set drafts. \<not> cd_firstMoveEligible y))"
    (is "(_ \<longleftrightarrow> ?best) \<and> ?none")
proof -
  let ?xs = "filter cd_firstMoveEligible drafts"
  have best: "?best \<longleftrightarrow> fm.leads x ?xs"
    by (simp add: fm.leads_def compareForFirstMove_greater compareForFirstMove_less [symmetric] not_less fm.mirrored)
  show ?thesis
  proof (cases "js_sort compareForFirstMove ?xs")
    case Nil
    then have "?xs = []" using fm.set_js_sort [of ?xs] by (metis set_empty)
    then show ?thesis by (auto simp: selectFirstMove_def first_row_def filter_empty_conv)
  next
    case (Cons m rest)
    then have "fm.leads m ?xs" by (rule fm.js_sort_leads)
    moreover from Cons have "?xs \<noteq> []" by (metis js_sort_simps(1) list.distinct(1))
    then have "\<exists>y\<in>set drafts. cd_firstMoveEligible y" by (simp add: filter_empty_conv)
    ultimately show ?thesis
      using Cons fm.leads_unique [of m ?xs x] unfolding best by (auto simp: selectFirstMove_def first_row_def)
  qed
qed

subsection \<open>Ranks\<close>

definition position :: "'a \<Rightarrow> 'a list \<Rightarrow> nat" where
  "position x xs = length (takeWhile (\<lambda>y. y \<noteq> x) xs)"

lemma position_nth: "x \<in> set xs \<Longrightarrow> position x xs < length xs \<and> xs ! position x xs = x"
  by (induction xs) (auto simp: position_def)

lemma position_of_nth: "distinct xs \<Longrightarrow> k < length xs \<Longrightarrow> position (xs ! k) xs = k"
  using position_nth [of "xs ! k" xs] by (auto simp: nth_eq_iff_index_eq)

lemma position_set: "distinct xs \<Longrightarrow> (\<lambda>x. position x xs) ` set xs = {0..<length xs}"
  by (auto simp: position_nth image_iff) (metis position_of_nth nth_mem)

lemma sorted_position:
  assumes "sorted_wrt R xs" "x \<in> set xs" "y \<in> set xs" "x \<noteq> y" "\<not> (R x y \<and> R y x)"
  shows "position x xs < position y xs \<longleftrightarrow> R x y"
  using sorted_wrt_nth_less [OF assms(1), of "position x xs" "position y xs"] sorted_wrt_nth_less [OF assms(1), of "position y xs" "position x xs"]
    position_nth [OF assms(2)] position_nth [OF assms(3)] assms(4,5) by (metis linorder_neqE_nat)

lemma lane_order_simps:
  "set (lane_order drafts lane) = {i. i < length drafts \<and> cd_lane (drafts ! i) = lane}" "distinct (lane_order drafts lane)"
  by (auto simp: lane_order_def at_position.set_js_sort mset_eq_imp_distinct_iff [OF at_position.mset_js_sort])

lemma rankWithinLane_nth:
  "i < length drafts \<Longrightarrow> rankWithinLane drafts ! i = Suc (position i (lane_order drafts (cd_lane (drafts ! i))))"
  by (simp add: rankWithinLane_def position_def)

lemma length_rankWithinLane [simp]: "length (rankWithinLane drafts) = length drafts"
  by (simp add: rankWithinLane_def)

text \<open>
  C16. The ranks of a lane number its drafts from 1, in the order of the first move, with the drafts it does not
  tell apart in the order they were collected.
\<close>

theorem ranks_follow_the_order:
  assumes "i < length drafts" "j < length drafts" "i \<noteq> j" "cd_lane (drafts ! i) = cd_lane (drafts ! j)"
  shows "(rankWithinLane drafts ! i < rankWithinLane drafts ! j \<longleftrightarrow>
      compareForFirstMove (drafts ! i) (drafts ! j) < 0 \<or> compareForFirstMove (drafts ! i) (drafts ! j) = 0 \<and> i < j) \<and>
    (\<lambda>k. rankWithinLane drafts ! k) ` {k. k < length drafts \<and> cd_lane (drafts ! k) = cd_lane (drafts ! i)} =
      {1..card {k. k < length drafts \<and> cd_lane (drafts ! k) = cd_lane (drafts ! i)}}"
proof -
  let ?l = "cd_lane (drafts ! i)" and ?R = "\<lambda>a b. compareForFirstMove (drafts ! a) (drafts ! b) < 0 \<or> compareForFirstMove (drafts ! a) (drafts ! b) = 0 \<and> a < b"
  have "sorted_wrt ?R (lane_order drafts ?l)"
    unfolding lane_order_def by (rule at_position.js_sort_stable) (simp add: sorted_wrt_filter)
  then have "position i (lane_order drafts ?l) < position j (lane_order drafts ?l) \<longleftrightarrow> ?R i j"
    using assms fm.strict [of "drafts ! j" "drafts ! i"] fm.strict [of "drafts ! i" "drafts ! j"] by (intro sorted_position) (auto simp: lane_order_simps)
  then have order: "rankWithinLane drafts ! i < rankWithinLane drafts ! j \<longleftrightarrow> ?R i j"
    using assms by (simp add: rankWithinLane_nth)
  let ?K = "{k. k < length drafts \<and> cd_lane (drafts ! k) = ?l}"
  have "(\<lambda>k. rankWithinLane drafts ! k) ` ?K = Suc ` (\<lambda>k. position k (lane_order drafts ?l)) ` ?K"
    by (force simp: rankWithinLane_nth image_image)
  also have "\<dots> = {1..length (lane_order drafts ?l)}"
    using position_set [OF lane_order_simps(2), of drafts ?l] by (simp add: lane_order_simps image_Suc_atLeastLessThan atLeastLessThanSuc_atLeastAtMost)
  also have "length (lane_order drafts ?l) = card ?K"
    using distinct_card [OF lane_order_simps(2), of drafts ?l] by (simp add: lane_order_simps)
  finally show ?thesis using order by blast
qed

end
