(* ===== verification/BriefingProps.thy ===== *)
theory BriefingProps
  imports BriefingRank DirectiveProps IngestProps
begin

text \<open>
  What an issued briefing guarantees: the exact effect of issuing one, that it happens once per key, that its
  candidates are the rows that need attention and nothing else, and that it stays within its tenant.
\<close>

subsection \<open>The effect of issuing\<close>

lemma rowTo_Inr [simp]:
  "rowToBriefingIssue i = Inr j \<longleftrightarrow> briefingIssueSchema_ok i \<and> j = i"
  "rowToBriefingIssueEntry x = Inr y \<longleftrightarrow> briefingIssueEntrySchema_ok x \<and> y = x"
  by (auto simp: rowToBriefingIssue_def rowToBriefingIssueEntry_def)

lemma collect_entries_Inr:
  "collect_rows rowToBriefingIssueEntry rows d = Inr (xs, d') \<longleftrightarrow> d' = d \<and> xs = rows \<and> list_all briefingIssueEntrySchema_ok rows"
proof -
  have "list_all2 (\<lambda>r y. briefingIssueEntrySchema_ok r \<and> y = r) rows xs \<longleftrightarrow> xs = rows \<and> list_all briefingIssueEntrySchema_ok rows" for xs
    by (induction rows arbitrary: xs) (auto simp: list_all2_Cons1)
  then show ?thesis by (auto simp: collect_rows_def fold_collect tx_simps)
qed

lemma collectUnresolved_reads: "collectUnresolvedDirectives c t now d = Inr (x, d') \<Longrightarrow> d' = d"
  by (auto simp: collectUnresolvedDirectives_def listUnresolvedDirectivesWithClient_def tx_simps fold_collect collect_rows_def)

lemma collectCandidates_reads: "collectCandidates g c t ty now d = Inr (x, d') \<Longrightarrow> d' = d"
  by (auto simp: collectCandidates_def tx_simps dest!: collectUnresolved_reads)

definition with_entries :: "briefing_issue_entry list \<Rightarrow> db \<Rightarrow> db" where
  "with_entries rows d = d\<lparr>briefing_issue_entries := briefing_issue_entries d @ rows\<rparr>"

lemma insert_entries_Inr:
  assumes "insert_each insert_briefing_issue_entry rowToBriefingIssueEntry rows d = Inr (xs, d')"
  shows "d' = with_entries rows d \<and> xs = rows \<and> list_all briefingIssueEntrySchema_ok rows"
proof -
  have "d' = with_entries rows d \<and> map rowToBriefingIssueEntry rows = map Inr xs"
    by (rule insert_each_Inr [OF assms]) (auto simp: insert_briefing_issue_entry_def with_entries_def tx_simps)
  moreover have "map rowToBriefingIssueEntry rows = map Inr xs \<Longrightarrow> xs = rows \<and> list_all briefingIssueEntrySchema_ok rows"
    by (induction rows arbitrary: xs) (auto simp: map_eq_Cons_conv)
  ultimately show ?thesis by simp
qed

definition published :: "timestamp \<Rightarrow> uuid option \<Rightarrow> uuid \<Rightarrow> briefing_issue \<Rightarrow> briefing_issue" where
  "published now firstMove artifactId i = i\<lparr>bi_status := ISSUED, bi_first_move_directive_id := firstMove,
     bi_prose_artifact_id := Some artifactId, bi_generated_at := Some now, bi_published_at := Some now\<rparr>"

definition briefing_now :: "env \<Rightarrow> issue_briefing_input \<Rightarrow> timestamp" where
  "briefing_now e inp = or_else (ib_now inp) (env_now e 0)"

definition briefing_client :: "env \<Rightarrow> issue_briefing_input \<Rightarrow> client" where
  "briefing_client e inp = \<lparr>cl_tenant = ib_tenantId inp, cl_rls = env_rls e\<rparr>"

text \<open>The database with the issue, its entries and its artifact\<close>

definition after_issue ::
  "env \<Rightarrow> issue_briefing_input \<Rightarrow> briefing_issue \<Rightarrow> candidate_draft list \<Rightarrow> briefing_issue_entry list \<Rightarrow> artifact \<Rightarrow> db \<Rightarrow> db" where
  "after_issue e inp i drafts rows a d =
     (let here = d\<lparr>briefing_issues := briefing_issues d @ [i], briefing_issue_entries := briefing_issue_entries d @ rows,
          artifacts := artifacts d @ [a]\<rparr> in
      here\<lparr>briefing_issues := update_where (\<lambda>x. bi_id x = env_uuid e 0 \<and> bi_tenant_id x = ib_tenantId inp)
        (published (briefing_now e inp) (firstMoveDirectiveId drafts) (af_id a)) (briefing_issues here)\<rparr>)"

lemma obind_Inr_iff: "obind m f s = (Inr r, s') \<longleftrightarrow> (\<exists>x s1. m s = (Inr x, s1) \<and> f x s1 = (Inr r, s'))"
  by (auto simp: obind_def split: prod.splits sum.splits)

lemma in_tx_Inr: "in_tx m s = (Inr x, s') \<longleftrightarrow> (\<exists>d'. m (fst s) = Inr (x, d') \<and> s' = (d', snd s))"
  by (auto simp: in_tx_def split: sum.splits)

lemma in_files_Inr: "in_files m s = (Inr x, s') \<longleftrightarrow> (\<exists>f'. m (snd s) = (Inr x, f') \<and> s' = (fst s, f'))"
  by (auto simp: in_files_def split: prod.splits)

lemma with_files_Inr: "with_files e t cb s = (Inr x, s') \<longleftrightarrow> cb \<lparr>cl_tenant = t, cl_rls = env_rls e\<rparr> s = (Inr x, s')"
  by (auto simp: with_files_def split: prod.splits sum.splits)

lemma openIssue_Inr:
  assumes "openIssue h e inp now msg wo d = Inr (b, d')"
  shows "b \<longleftrightarrow> (ib_tenantId inp, briefingKey inp) \<notin> (\<lambda>i. (bi_tenant_id i, bi_idempotency_key i)) ` set (briefing_issues d)"
    and "\<not> b \<Longrightarrow> d' = d"
    and "b \<Longrightarrow> \<exists>stored. bh_date h (ib_localIssueDate inp) = Some stored \<and> env_uuid e 0 \<notin> bi_id ` set (briefing_issues d) \<and>
      d' = d\<lparr>briefing_issues := briefing_issues d @ [issueRow e inp now stored msg wo]\<rparr>"
  using assms by (auto simp: openIssue_def insert_briefing_issue_def tx_simps issueRow_def split: option.splits)

lemma resolveOptional_Inr: "resolveOptionalTenantScopedId c tbl t i label d = Inr (x, d') \<Longrightarrow> d' = d"
  by (auto simp: resolveOptionalTenantScopedId_def tx_simps split: option.splits)

lemma prepareIssue_Inr:
  assumes "prepareIssue h e inp now c d = Inr (b, d')"
  obtains msg wo where "openIssue h e inp now msg wo d = Inr (b, d')"
  using assms by (auto simp: prepareIssue_def tx_simps dest!: resolveOptional_Inr)

lemma write_path:
  assumes "writeWorkspaceFile api sha cwd sfx cfg wroot p txt ov f = (Inr w, f')"
  shows "wr_relativePath w = p"
proof -
  have "\<exists>v. (case v of Inl err \<Rightarrow> (Inl err, f)
      | Inr (targetPath, existed) \<Rightarrow>
          (case fs_mkdir api f (path_dirname targetPath) of
             Inl err \<Rightarrow> (Inl err, f)
           | Inr fs1 \<Rightarrow>
               (case fs_writeFile api fs1 (targetPath @ sfx) (utf8_bytes txt) of
                  Inl err \<Rightarrow> (Inl err, fs1)
                | Inr fs2 \<Rightarrow>
                    (case fs_rename api fs2 (targetPath @ sfx) targetPath of
                       Inl err \<Rightarrow> (Inl err, fs2)
                     | Inr fs3 \<Rightarrow>
                         (Inr \<lparr>wr_relativePath = p, wr_byteCount = length (utf8_bytes txt), wr_contentHash = sha (utf8_bytes txt),
                            wr_created = \<not> existed, wr_overwritten = existed\<rparr>, fs3))))) = (Inr w, f')"
    using assms unfolding writeWorkspaceFile_def Let_def by (rule exI)
  then obtain v where v: "(case v of Inl err \<Rightarrow> (Inl err, f)
      | Inr (targetPath, existed) \<Rightarrow>
          (case fs_mkdir api f (path_dirname targetPath) of
             Inl err \<Rightarrow> (Inl err, f)
           | Inr fs1 \<Rightarrow>
               (case fs_writeFile api fs1 (targetPath @ sfx) (utf8_bytes txt) of
                  Inl err \<Rightarrow> (Inl err, fs1)
                | Inr fs2 \<Rightarrow>
                    (case fs_rename api fs2 (targetPath @ sfx) targetPath of
                       Inl err \<Rightarrow> (Inl err, fs2)
                     | Inr fs3 \<Rightarrow>
                         (Inr \<lparr>wr_relativePath = p, wr_byteCount = length (utf8_bytes txt), wr_contentHash = sha (utf8_bytes txt),
                            wr_created = \<not> existed, wr_overwritten = existed\<rparr>, fs3))))) = (Inr w, f')" ..
  show ?thesis
  proof (cases v)
    case (Inr x)
    with v show ?thesis by (cases x) (auto split: sum.split_asm)
  qed (use v in simp)
qed

lemma insertProseArtifact_Inr:
  assumes "insertProseArtifact h e k inp prose now (d, f) = (Inr i, (d', f'))"
  obtains w where "i = env_uuid e k" "d' = d\<lparr>artifacts := artifacts d @ [proseArtifactRow e k inp now w]\<rparr>"
    "env_uuid e k \<notin> af_id ` set (artifacts d)" "wr_relativePath w = prosePath inp"
proof -
  let ?t = "bh_tools h"
  let ?root = "resolveWorkspaceRoot (hs_config ?t) (ib_tenantId inp) None"
  from assms obtain x1 s1 w s2 y s3 where
        1: "in_files (\<lambda>f. case ensureWorkspaceRoot (hs_fs ?t) ?root f of Inl err \<Rightarrow> (Inl err, f) | Inr f' \<Rightarrow> (Inr (), f')) (d, f) = (Inr x1, s1)"
      and 2: "in_files (writeWorkspaceFile (hs_fs ?t) (env_sha256 e) (hs_cwd ?t) (hs_tmpSuffix ?t) (hs_config ?t) ?root
        (prosePath inp) prose True) s1 = (Inr w, s2)"
      and a: "attempt (in_tx (insert_artifact (proseArtifactRow e k inp now w))) s2 = (Inr y, s3)"
      and y: "(case y of Inr _ \<Rightarrow> oreturn (env_uuid e k)
        | Inl err \<Rightarrow> (case resolveContainedPath (hs_cwd ?t) ?root (prosePath inp) of
             Inl err' \<Rightarrow> othrow err'
           | Inr p \<Rightarrow> obind (in_files (\<lambda>f. (Inr (), removeWorkspaceFileQuietly (hs_fs ?t) p f))) (\<lambda>_.
               othrow (persistence_failed h ''artifacts'' err)))) s3 = (Inr i, (d', f'))"
    unfolding insertProseArtifact_def Let_def obind_Inr_iff by blast
  have "fst s2 = d" using 1 2 by (auto simp: in_files_Inr)
  have i: "i = env_uuid e k \<and> insert_artifact (proseArtifactRow e k inp now w) d = Inr ((), d')"
  proof (cases "insert_artifact (proseArtifactRow e k inp now w) d")
    case (Inl err)
    then have "y = Inl err" using a \<open>fst s2 = d\<close> by (simp add: attempt_def in_tx_def)
    with y show ?thesis by (auto simp: othrow_def obind_def in_files_def split: sum.split_asm)
  next
    case (Inr z)
    then have "y = Inr ()" "s3 = (snd z, snd s2)" using a \<open>fst s2 = d\<close> by (auto simp: attempt_def in_tx_def split: prod.splits)
    with y Inr show ?thesis by (cases z) (simp add: oreturn_def)
  qed
  from 2 have "wr_relativePath w = prosePath inp" by (auto simp: in_files_Inr dest: write_path)
  moreover from i have "d' = d\<lparr>artifacts := artifacts d @ [proseArtifactRow e k inp now w]\<rparr>" "env_uuid e k \<notin> af_id ` set (artifacts d)"
    by (auto simp: insert_artifact_def tx_simps proseArtifactRow_def)
  ultimately show thesis using that i by blast
qed

lemma publish_Inr:
  assumes "publish e inp now fm a d = Inr (i, d')"
  shows "d' = d\<lparr>briefing_issues := update_where (\<lambda>x. bi_id x = env_uuid e 0 \<and> bi_tenant_id x = ib_tenantId inp)
      (published now fm a) (briefing_issues d)\<rparr> \<and> i \<in> set (briefing_issues d') \<and> bi_id i = env_uuid e 0 \<and> briefingIssueSchema_ok i"
  using assms by (auto simp: publish_def tx_simps published_def [abs_def] split: option.splits dest!: first_row_filterD)

text \<open>Issuing either finds the issue of its key and changes nothing, or assembles it.\<close>

definition fresh_issue ::
  "'f briefing_host \<Rightarrow> env \<Rightarrow> issue_briefing_input \<Rightarrow> db \<Rightarrow> issue_briefing_result \<Rightarrow> db \<Rightarrow> bool" where
  "fresh_issue h e inp d r d' \<longleftrightarrow> (\<exists>stored msg wo drafts since w.
     let now = briefing_now e inp; c = briefing_client e inp; i = issueRow e inp now stored msg wo;
         opened = d\<lparr>briefing_issues := briefing_issues d @ [i]\<rparr>; rows = entryRows e c inp now drafts opened;
         a = proseArtifactRow e (Suc (length drafts)) inp now w
     in (ib_tenantId inp, briefingKey inp) \<notin> (\<lambda>i. (bi_tenant_id i, bi_idempotency_key i)) ` set (briefing_issues d) \<and>
        env_uuid e 0 \<notin> bi_id ` set (briefing_issues d) \<and> af_id a \<notin> af_id ` set (artifacts d) \<and>
        collectCandidates (bh_glyphs h) c (ib_tenantId inp) (ib_briefingType inp) now opened = Inr ((drafts, since), opened) \<and>
        insert_each insert_briefing_issue_entry rowToBriefingIssueEntry rows opened = Inr (rows, with_entries rows opened) \<and>
        list_all briefingIssueEntrySchema_ok rows \<and> wr_relativePath w = prosePath inp \<and>
        d' = after_issue e inp i drafts rows a d \<and> ir_issue r \<in> set (briefing_issues d') \<and> bi_id (ir_issue r) = env_uuid e 0 \<and>
        briefingIssueSchema_ok (ir_issue r) \<and> ir_entries r = rows \<and> \<not> ir_alreadyIssued r)"

lemma issueBriefing_cases:
  assumes "issueBriefing h e inp (d, f) = (Inr r, (d', f'))"
  obtains
    (existing) "d' = d" "f' = f" "existingIssue inp (briefing_client e inp) d = Inr (r, d)"
      "(ib_tenantId inp, briefingKey inp) \<in> (\<lambda>i. (bi_tenant_id i, bi_idempotency_key i)) ` set (briefing_issues d)"
  | (fresh) "fresh_issue h e inp d r d'"
proof -
  let ?now = "briefing_now e inp" and ?c = "briefing_client e inp"
  have "obind (in_tx (prepareIssue h e inp ?now ?c)) (\<lambda>inserted. if \<not> inserted then in_tx (existingIssue inp ?c)
             else obind (in_tx (assembleEntries h e inp ?now ?c)) (\<lambda>(drafts, entries, since).
               obind (insertProseArtifact h e (Suc (length drafts)) inp (briefingProse h inp drafts entries since) ?now) (\<lambda>artifactId.
               obind (in_tx (publish e inp ?now (firstMoveDirectiveId drafts) artifactId)) (\<lambda>issue.
               oreturn \<lparr>ir_issue = issue, ir_entries = entries, ir_alreadyIssued = False\<rparr>)))) (d, f) = (Inr r, (d', f'))"
    using assms unfolding issueBriefing_def Let_def briefing_now_def briefing_client_def
    by (cases "validateBriefingInput inp") (simp_all only: sum.case othrow_def with_files_Inr prod.inject sum.distinct simp_thms)
  then obtain b s1 where p0: "in_tx (prepareIssue h e inp ?now ?c) (d, f) = (Inr b, s1)"
    and r: "(if \<not> b then in_tx (existingIssue inp ?c)
             else obind (in_tx (assembleEntries h e inp ?now ?c)) (\<lambda>(drafts, entries, since).
               obind (insertProseArtifact h e (Suc (length drafts)) inp (briefingProse h inp drafts entries since) ?now) (\<lambda>artifactId.
               obind (in_tx (publish e inp ?now (firstMoveDirectiveId drafts) artifactId)) (\<lambda>issue.
               oreturn \<lparr>ir_issue = issue, ir_entries = entries, ir_alreadyIssued = False\<rparr>)))) s1 = (Inr r, (d', f'))"
    unfolding obind_Inr_iff by blast
  then have p: "prepareIssue h e inp ?now ?c d = Inr (b, fst s1)" "snd s1 = f" by (auto simp: in_tx_Inr)
  from p(1) obtain msg wo where o1: "openIssue h e inp ?now msg wo d = Inr (b, fst s1)" by (rule prepareIssue_Inr)
  show thesis
  proof (cases b)
    case False
    then have s1: "s1 = (d, f)" using openIssue_Inr(2) [OF o1] p(2) by (simp add: prod_eq_iff)
    have "existingIssue inp ?c d = Inr (r, d') \<and> f' = f"
      using r False by (auto simp: s1 in_tx_Inr)
    moreover have "d' = d" if "existingIssue inp ?c d = Inr (r, d')"
      using that by (auto simp: existingIssue_def fetchEntries_def tx_simps collect_entries_Inr split: option.splits)
    ultimately show thesis using existing openIssue_Inr(1) [OF o1] False by blast
  next
    case True
    from openIssue_Inr(3) [OF o1 True] obtain stored where st: "env_uuid e 0 \<notin> bi_id ` set (briefing_issues d)"
        "fst s1 = d\<lparr>briefing_issues := briefing_issues d @ [issueRow e inp ?now stored msg wo]\<rparr>" by blast
    have "obind (in_tx (assembleEntries h e inp ?now ?c)) (\<lambda>(drafts, entries, since).
               obind (insertProseArtifact h e (Suc (length drafts)) inp (briefingProse h inp drafts entries since) ?now) (\<lambda>artifactId.
               obind (in_tx (publish e inp ?now (firstMoveDirectiveId drafts) artifactId)) (\<lambda>issue.
               oreturn \<lparr>ir_issue = issue, ir_entries = entries, ir_alreadyIssued = False\<rparr>))) s1 = (Inr r, (d', f'))"
      using r by (simp only: True simp_thms if_False)
    then obtain x s2 where as0: "in_tx (assembleEntries h e inp ?now ?c) s1 = (Inr x, s2)"
      and rest: "(case x of (drafts, entries, since) \<Rightarrow>
               obind (insertProseArtifact h e (Suc (length drafts)) inp (briefingProse h inp drafts entries since) ?now) (\<lambda>artifactId.
               obind (in_tx (publish e inp ?now (firstMoveDirectiveId drafts) artifactId)) (\<lambda>issue.
               oreturn \<lparr>ir_issue = issue, ir_entries = entries, ir_alreadyIssued = False\<rparr>))) s2 = (Inr r, (d', f'))"
      unfolding obind_Inr_iff [of "in_tx (assembleEntries h e inp ?now ?c)"] by blast
    obtain drafts rows since where x: "x = (drafts, rows, since)" by (cases x)
    from as0 p(2) obtain d2 where as: "assembleEntries h e inp ?now ?c (fst s1) = Inr ((drafts, rows, since), d2)" and s2: "s2 = (d2, f)"
      by (auto simp: in_tx_Inr x)
    from rest obtain i s3 issue s4 where
        pr: "insertProseArtifact h e (Suc (length drafts)) inp (briefingProse h inp drafts rows since) ?now (d2, f) = (Inr i, s3)"
      and pu0: "in_tx (publish e inp ?now (firstMoveDirectiveId drafts) i) s3 = (Inr issue, s4)"
      and re0: "oreturn \<lparr>ir_issue = issue, ir_entries = rows, ir_alreadyIssued = False\<rparr> s4 = (Inr r :: error + _, (d', f'))"
      unfolding x s2 prod.case obind_Inr_iff by (elim exE conjE) (rule that, assumption+)
    from re0 have re: "r = \<lparr>ir_issue = issue, ir_entries = rows, ir_alreadyIssued = False\<rparr>" "s4 = (d', f')" by (simp_all add: oreturn_def)
    with pu0 have pu: "publish e inp ?now (firstMoveDirectiveId drafts) i (fst s3) = Inr (issue, d')" by (auto simp: in_tx_Inr)
    let ?o = "d\<lparr>briefing_issues := briefing_issues d @ [issueRow e inp ?now stored msg wo]\<rparr>"
    let ?rows = "entryRows e ?c inp ?now drafts ?o"
    from as [unfolded st(2)] have cc: "collectCandidates (bh_glyphs h) ?c (ib_tenantId inp) (ib_briefingType inp) ?now ?o = Inr ((drafts, since), ?o)"
      and ie: "insert_each insert_briefing_issue_entry rowToBriefingIssueEntry ?rows ?o = Inr (rows, d2)"
      by (auto simp: assembleEntries_def tx_simps dest: collectCandidates_reads)
    from insert_entries_Inr [OF ie] have d2: "d2 = with_entries ?rows ?o" "rows = ?rows" "list_all briefingIssueEntrySchema_ok ?rows" by simp_all
    obtain d3 f3 where s3: "s3 = (d3, f3)" by fastforce
    obtain w where w: "i = env_uuid e (Suc (length drafts))"
        "d3 = d2\<lparr>artifacts := artifacts d2 @ [proseArtifactRow e (Suc (length drafts)) inp ?now w]\<rparr>"
        "env_uuid e (Suc (length drafts)) \<notin> af_id ` set (artifacts d2)" "wr_relativePath w = prosePath inp"
      using pr unfolding s3 by (rule insertProseArtifact_Inr)
    note pub = publish_Inr [OF pu]
    have d': "d' = after_issue e inp (issueRow e inp ?now stored msg wo) drafts ?rows (proseArtifactRow e (Suc (length drafts)) inp ?now w) d"
      using conjunct1 [OF pub] by (simp add: s3 w(1,2) d2(1) after_issue_def Let_def with_entries_def proseArtifactRow_def)
    have "fresh_issue h e inp d r d'"
      unfolding fresh_issue_def Let_def
    proof (intro exI conjI)
      show "(ib_tenantId inp, briefingKey inp) \<notin> (\<lambda>i. (bi_tenant_id i, bi_idempotency_key i)) ` set (briefing_issues d)"
        using openIssue_Inr(1) [OF o1] True by blast
      show "insert_each insert_briefing_issue_entry rowToBriefingIssueEntry ?rows ?o = Inr (?rows, with_entries ?rows ?o)"
        using ie d2(1,2) by simp
      show "af_id (proseArtifactRow e (Suc (length drafts)) inp ?now w) \<notin> af_id ` set (artifacts d)"
        using w(3) by (simp add: d2(1) with_entries_def proseArtifactRow_def)
      show "ir_issue r \<in> set (briefing_issues d')" "bi_id (ir_issue r) = env_uuid e 0" "briefingIssueSchema_ok (ir_issue r)"
        using conjunct2 [OF pub] by (simp_all add: re(1))
      show "ir_entries r = ?rows" "\<not> ir_alreadyIssued r" using d2(2) by (simp_all add: re(1))
    qed (fact st(1) w(4) cc d2(3) d')+
    then show thesis by (rule fresh)
  qed
qed

subsection \<open>Issued once\<close>

text \<open>Every entry belongs to an issue, which the foreign key of the table demands.\<close>

definition entries_belong :: "db \<Rightarrow> bool" where
  "entries_belong d \<longleftrightarrow> be_briefing_issue_id ` set (briefing_issue_entries d) \<subseteq> bi_id ` set (briefing_issues d)"

lemma ids_published [simp]: "bi_id (published n f a i) = bi_id i" "bi_tenant_id (published n f a i) = bi_tenant_id i"
    "bi_idempotency_key (published n f a i) = bi_idempotency_key i"
  by (simp_all add: published_def)

lemma maps_update_published [simp]:
  "map bi_id (update_where P (published n f a) xs) = map bi_id xs"
  "map (\<lambda>i. (bi_tenant_id i, bi_idempotency_key i)) (update_where P (published n f a) xs) = map (\<lambda>i. (bi_tenant_id i, bi_idempotency_key i)) xs"
  by (simp_all add: update_where_def)

lemma after_issue_simps:
  "map bi_id (briefing_issues (after_issue e inp i drafts rows a d)) = map bi_id (briefing_issues d) @ [bi_id i]"
  "map (\<lambda>i. (bi_tenant_id i, bi_idempotency_key i)) (briefing_issues (after_issue e inp i drafts rows a d)) =
     map (\<lambda>i. (bi_tenant_id i, bi_idempotency_key i)) (briefing_issues d) @ [(bi_tenant_id i, bi_idempotency_key i)]"
  "briefing_issue_entries (after_issue e inp i drafts rows a d) = briefing_issue_entries d @ rows"
  "artifacts (after_issue e inp i drafts rows a d) = artifacts d @ [a]"
  "actors (after_issue e inp i drafts rows a d) = actors d" "messages (after_issue e inp i drafts rows a d) = messages d"
  "work_orders (after_issue e inp i drafts rows a d) = work_orders d"
  by (simp_all add: after_issue_def Let_def)

lemma entryRows_simps:
  "x \<in> set (entryRows e c inp now drafts d) \<Longrightarrow> be_briefing_issue_id x = env_uuid e 0 \<and> be_tenant_id x = ib_tenantId inp \<and> be_entry_status x = be_active"
  by (auto simp: entryRows_def entryRow_def)

text \<open>What the first statements of the transaction have to find\<close>

definition briefing_refs :: "'f briefing_host \<Rightarrow> issue_briefing_input \<Rightarrow> db \<Rightarrow> bool" where
  "briefing_refs h inp d \<longleftrightarrow> validateBriefingInput inp = Inr () \<and> bh_date h (ib_localIssueDate inp) \<noteq> None \<and>
     ref_ids (briefing_client demo_env inp) tbl_actors (ib_issuedByActorId inp) (ib_tenantId inp) d \<noteq> [] \<and>
     (\<forall>m. ib_sourceMessageId inp = Some m \<longrightarrow> ref_ids (briefing_client demo_env inp) tbl_messages m (ib_tenantId inp) d \<noteq> []) \<and>
     (\<forall>w. ib_sourceWorkOrderId inp = Some w \<longrightarrow> ref_ids (briefing_client demo_env inp) tbl_work_orders w (ib_tenantId inp) d \<noteq> [])"

lemma own_rows_rls: "filter (\<lambda>r. P r \<and> tenant_of r = t) (rls_rows \<lparr>cl_tenant = t, cl_rls = b\<rparr> tenant_of rows) = filter (\<lambda>r. P r \<and> tenant_of r = t) rows"
  by (auto simp: rls_rows_def intro!: filter_cong)

lemma ref_ids_own:
  "ref_ids (briefing_client e inp) tbl_actors i (ib_tenantId inp) d = ref_ids (briefing_client demo_env inp) tbl_actors i (ib_tenantId inp) d"
  "ref_ids (briefing_client e inp) tbl_messages i (ib_tenantId inp) d = ref_ids (briefing_client demo_env inp) tbl_messages i (ib_tenantId inp) d"
  "ref_ids (briefing_client e inp) tbl_work_orders i (ib_tenantId inp) d = ref_ids (briefing_client demo_env inp) tbl_work_orders i (ib_tenantId inp) d"
  by (simp_all add: briefing_client_def scoped_rows_def own_rows_rls)

lemma resolveOptional_iff:
  "resolveOptionalTenantScopedId c tbl t i label d = Inr (x, d') \<longleftrightarrow>
     d' = d \<and> (case i of None \<Rightarrow> x = None | Some m \<Rightarrow> ref_ids c tbl m t d \<noteq> [] \<and> x = Some (hd (ref_ids c tbl m t d)))"
proof (cases i)
  case (Some m)
  then show ?thesis by (cases "ref_ids c tbl m t d") (auto simp: resolveOptionalTenantScopedId_def tx_defs)
qed (auto simp: resolveOptionalTenantScopedId_def tx_defs)

lemma issueBriefing_refs:
  assumes "issueBriefing h e inp (d, f) = (Inr r, s')"
  shows "briefing_refs h inp d"
proof -
  let ?c = "briefing_client e inp" and ?now = "briefing_now e inp"
  from assms have v: "validateBriefingInput inp = Inr ()"
    by (auto simp: issueBriefing_def othrow_def split: sum.splits)
  from assms obtain b d1 where "prepareIssue h e inp ?now ?c d = Inr (b, d1)"
    unfolding issueBriefing_def v sum.case Let_def with_files_Inr obind_Inr_iff in_tx_Inr briefing_now_def briefing_client_def fst_conv by blast
  then have "ref_ids ?c tbl_actors (ib_issuedByActorId inp) (ib_tenantId inp) d \<noteq> []"
      "\<forall>m. ib_sourceMessageId inp = Some m \<longrightarrow> ref_ids ?c tbl_messages m (ib_tenantId inp) d \<noteq> []"
      "\<forall>w. ib_sourceWorkOrderId inp = Some w \<longrightarrow> ref_ids ?c tbl_work_orders w (ib_tenantId inp) d \<noteq> []"
      "bh_date h (ib_localIssueDate inp) \<noteq> None"
    by (auto simp: prepareIssue_def tx_simps resolveOptional_iff openIssue_def simp del: ref_ids.simps split: option.splits)
  with v show ?thesis by (simp add: briefing_refs_def ref_ids_own [of e] del: ref_ids.simps)
qed

lemma prepareIssue_again:
  assumes "briefing_refs h inp d" "(ib_tenantId inp, briefingKey inp) \<in> set (map (\<lambda>i. (bi_tenant_id i, bi_idempotency_key i)) (briefing_issues d))"
  shows "prepareIssue h e inp now (briefing_client e inp) d = Inr (False, d)"
proof -
  let ?c = "briefing_client e inp"
  have "\<exists>x y. resolveOptionalTenantScopedId ?c tbl_messages (ib_tenantId inp) (ib_sourceMessageId inp) ''sourceMessageId'' d = Inr (x, d) \<and>
      resolveOptionalTenantScopedId ?c tbl_work_orders (ib_tenantId inp) (ib_sourceWorkOrderId inp) ''sourceWorkOrderId'' d = Inr (y, d)"
    using assms(1) by (cases "ib_sourceMessageId inp"; cases "ib_sourceWorkOrderId inp")
      (simp_all add: resolveOptional_iff briefing_refs_def ref_ids_own [of e] del: ref_ids.simps)
  then obtain x y where "resolveOptionalTenantScopedId ?c tbl_messages (ib_tenantId inp) (ib_sourceMessageId inp) ''sourceMessageId'' d = Inr (x, d)"
      "resolveOptionalTenantScopedId ?c tbl_work_orders (ib_tenantId inp) (ib_sourceWorkOrderId inp) ''sourceWorkOrderId'' d = Inr (y, d)"
    by blast
  then show ?thesis
    using assms by (auto simp: prepareIssue_def briefing_refs_def tx_defs assertTenantScopedReference_def openIssue_def insert_or_nothing_def
        ref_ids_own [of e] simp del: ref_ids.simps)
qed

lemma issueBriefing_again:
  assumes "briefing_refs h inp d" "(ib_tenantId inp, briefingKey inp) \<in> set (map (\<lambda>i. (bi_tenant_id i, bi_idempotency_key i)) (briefing_issues d))"
  shows "issueBriefing h e inp (d, f) = in_tx (existingIssue inp (briefing_client e inp)) (d, f)"
proof -
  have v: "validateBriefingInput inp = Inr ()" using assms(1) by (simp add: briefing_refs_def)
  have "in_tx (prepareIssue h e inp (or_else (ib_now inp) (env_now e 0)) (briefing_client e inp)) (d, f) = (Inr False, (d, f))"
    by (simp add: in_tx_def prepareIssue_again [OF assms])
  then show ?thesis
    unfolding issueBriefing_def v sum.case Let_def with_files_def briefing_client_def [symmetric]
    by (simp add: obind_def in_tx_def split: sum.split prod.split)
qed

lemma existingIssue_own:
  "existingIssue inp (briefing_client e inp) = existingIssue inp (briefing_client e' inp)"
proof -
  have own: "filter (\<lambda>r. tenant_of r = ib_tenantId inp \<and> P r) (rls_rows (briefing_client e inp) tenant_of rows) =
      filter (\<lambda>r. tenant_of r = ib_tenantId inp \<and> P r) rows" for e P tenant_of rows
    by (auto simp: rls_rows_def briefing_client_def intro!: filter_cong)
  show ?thesis unfolding existingIssue_def fetchEntries_def entries_of_def own ..
qed

lemma existing_after_issue:
  assumes "fresh_issue h e inp d r d'" "entries_belong d"
  shows "\<exists>r2. existingIssue inp (briefing_client e' inp) d' = Inr (r2, d') \<and> ir_issue r2 = ir_issue r \<and>
    mset (ir_entries r2) = mset (ir_entries r) \<and> ir_alreadyIssued r2"
proof -
  let ?key = "\<lambda>i. (bi_tenant_id i, bi_idempotency_key i)" and ?c = "briefing_client e' inp"
  from assms(1) obtain i drafts rows a where new: "(ib_tenantId inp, briefingKey inp) \<notin> ?key ` set (briefing_issues d)"
      "env_uuid e 0 \<notin> bi_id ` set (briefing_issues d)"
    and d': "d' = after_issue e inp i drafts rows a d" and i: "bi_id i = env_uuid e 0" "?key i = (ib_tenantId inp, briefingKey inp)"
    and r: "ir_issue r \<in> set (briefing_issues d')" "bi_id (ir_issue r) = env_uuid e 0" "briefingIssueSchema_ok (ir_issue r)" "ir_entries r = rows"
    and rows: "\<forall>x\<in>set rows. be_briefing_issue_id x = env_uuid e 0 \<and> be_tenant_id x = ib_tenantId inp" "list_all briefingIssueEntrySchema_ok rows"
    unfolding fresh_issue_def Let_def
    by (elim exE conjE) (rule that, assumption, assumption, assumption, simp add: issueRow_def, simp add: issueRow_def,
      assumption, assumption, assumption, assumption, blast dest: entryRows_simps, assumption)
  have keys: "map ?key (briefing_issues d') = map ?key (briefing_issues d) @ [?key i]"
    and ids: "map bi_id (briefing_issues d') = map bi_id (briefing_issues d) @ [bi_id i]" by (simp_all only: d' after_issue_simps)
  obtain xs y where xy: "briefing_issues d' = xs @ [y]" "map ?key xs = map ?key (briefing_issues d)" "?key y = ?key i"
      "map bi_id xs = map bi_id (briefing_issues d)" "bi_id y = bi_id i"
    using keys ids by (cases "briefing_issues d'" rule: rev_cases) auto
  have "set (map bi_id xs) = bi_id ` set (briefing_issues d)" "set (map ?key xs) = ?key ` set (briefing_issues d)" using xy(2,4) by simp_all
  then have xs: "env_uuid e 0 \<notin> bi_id ` set xs" "(ib_tenantId inp, briefingKey inp) \<notin> ?key ` set xs" using new by simp_all
  have "ir_issue r \<notin> set xs" using r(2) xs(1) by (metis imageI)
  then have y: "ir_issue r = y" using r(1) xy(1) by simp
  have none: "filter (\<lambda>i. bi_tenant_id i = ib_tenantId inp \<and> bi_idempotency_key i = briefingKey inp) xs = []"
    using xs(2) by (force simp: filter_empty_conv)
  have found: "filter (\<lambda>i. bi_tenant_id i = ib_tenantId inp \<and> bi_idempotency_key i = briefingKey inp) (rls_rows ?c bi_tenant_id (briefing_issues d')) = [y]"
    using none xy(3) i(2) by (auto simp: rls_rows_def briefing_client_def xy(1) cong: conj_cong)
  have "filter (\<lambda>x. be_tenant_id x = ib_tenantId inp \<and> be_briefing_issue_id x = env_uuid e 0) (briefing_issue_entries d) = []"
    using assms(2) new(2) unfolding entries_belong_def filter_empty_conv image_subset_iff by metis
  then have mine: "filter (\<lambda>x. be_tenant_id x = ib_tenantId inp \<and> be_briefing_issue_id x = env_uuid e 0)
      (rls_rows ?c be_tenant_id (briefing_issue_entries d')) = rows"
    using rows(1) by (auto simp: rls_rows_def briefing_client_def d' after_issue_simps conj_ac filter_id_conv cong: conj_cong)
  have es: "mset (entries_of ?c (ib_tenantId inp) (env_uuid e 0) d') = mset rows" "list_all briefingIssueEntrySchema_ok (entries_of ?c (ib_tenantId inp) (env_uuid e 0) d')"
    using rows(2) by (simp_all add: entries_of_def mine order_by_asc_def list_all_iff)
  have "collect_rows rowToBriefingIssueEntry (entries_of ?c (ib_tenantId inp) (env_uuid e 0) d') d' = Inr (entries_of ?c (ib_tenantId inp) (env_uuid e 0) d', d')"
    using es(2) by (simp add: collect_entries_Inr)
  then show ?thesis
    using es r(3) y xy(5) i(1)
    by (simp add: existingIssue_def found tx_defs lift_result_def rowToBriefingIssue_def fetchEntries_def r(4))
qed

text \<open>
  C13. A briefing is issued once. When issuing has returned, a later call for the same type, date and time zone
  returns the issue that was stored, with the same entries, marks it as already issued, and changes neither the
  database nor a file, whatever the clock and the new ids are and whatever became of the files in between.
\<close>

theorem briefing_issued_once:
  assumes "issueBriefing h e inp (d, f) = (Inr r, (d', f'))" "entries_belong d"
  shows "\<exists>r2. issueBriefing h e2 inp (d', f2) = (Inr r2, (d', f2)) \<and> ir_alreadyIssued r2 \<and> ir_issue r2 = ir_issue r \<and>
    mset (ir_entries r2) = mset (ir_entries r)"
  using assms(1)
proof (cases rule: issueBriefing_cases)
  case existing
  have refs: "briefing_refs h inp d" using assms(1) by (rule issueBriefing_refs)
  have "existingIssue inp (briefing_client e2 inp) d = Inr (r, d)" using existing(3) existingIssue_own [of inp e2 e] by simp
  moreover from this have "ir_alreadyIssued r" by (auto simp: existingIssue_def tx_simps split: option.splits)
  ultimately show ?thesis using issueBriefing_again [OF refs, of e2 f2] existing(1,4) by (simp add: in_tx_def)
next
  case fresh
  from fresh obtain i drafts rows a where d': "d' = after_issue e inp i drafts rows a d" "bi_tenant_id i = ib_tenantId inp" "bi_idempotency_key i = briefingKey inp"
    unfolding fresh_issue_def Let_def by (elim exE conjE) (rule that, assumption, simp_all add: issueRow_def)
  then have "briefing_refs h inp d'" "(ib_tenantId inp, briefingKey inp) \<in> set (map (\<lambda>i. (bi_tenant_id i, bi_idempotency_key i)) (briefing_issues d'))"
    using issueBriefing_refs [OF assms(1)] unfolding after_issue_simps d'(1) by (simp_all add: briefing_refs_def after_issue_simps scoped_rows_def)
  note again = issueBriefing_again [OF this, of e2 f2]
  from existing_after_issue [OF fresh assms(2), of e2] show ?thesis unfolding again by (auto simp: in_tx_def)
qed

subsection \<open>The candidates\<close>

lemma own_filter: "filter (\<lambda>r. tenant_of r = t \<and> P r) (rls_rows \<lparr>cl_tenant = t, cl_rls = b\<rparr> tenant_of rows) = filter (\<lambda>r. tenant_of r = t \<and> P r) rows"
  by (auto simp: rls_rows_def intro!: filter_cong)

text \<open>What a draft reports, and in which lane; the revision of a Directive is stated apart.\<close>

fun subject :: "candidate_source \<Rightarrow> candidate_source" where
  "subject (SrcDirective i _ ty) = SrcDirective i None ty"
| "subject s = s"

definition reported :: "candidate_draft \<Rightarrow> briefing_lane \<times> candidate_source" where
  "reported x = (cd_lane x, subject (cd_source x))"

definition work_order_lane :: "work_order \<Rightarrow> briefing_lane" where
  "work_order_lane w = (if wo_status w = COMPLETED then lane_completed
     else if wo_status w \<in> {FAILED, AWAITING_AUTHORIZATION, SETUP_REQUIRED, CAPABILITY_MISSING, REFUSED} then Lane blocker
     else Lane action)"

definition receipt_lane :: "action_receipt_row \<Rightarrow> briefing_lane" where
  "receipt_lane r = (if receipt_type (re_payload r) = ''trigger_fire_skipped'' then Lane blocker else lane_evidence)"

text \<open>The end of the last issue: what was published last for this type, or a day ago if nothing was\<close>

definition last_published :: "uuid \<Rightarrow> string \<Rightarrow> timestamp \<Rightarrow> db \<Rightarrow> timestamp" where
  "last_published t ty now d =
     (let times = {p. \<exists>i\<in>set (briefing_issues d). bi_tenant_id i = t \<and> bi_briefing_type i = ty \<and> bi_published_at i = Some p}
      in if times = {} then now - 86400000 else Max times)"

lemma latest_is_Max:
  "(case first_row (order_by_desc id xs) of Some p \<Rightarrow> p | None \<Rightarrow> z) = (if xs = [] then z else Max (set xs))" for xs :: "int list"
proof (cases "first_row (order_by_desc id xs)")
  case None
  with first_row_order_by_desc [where key = id and rows = xs] have "xs = []" by (simp del: first_row_None)
  with None show ?thesis by (simp del: first_row_None)
next
  case (Some p)
  with first_row_order_by_desc [where key = id and rows = xs] have "p \<in> set xs" "\<forall>y\<in>set xs. y \<le> p" by simp_all
  moreover from this have "Max (set xs) = p" by (intro Max_eqI) auto
  ultimately show ?thesis using Some by auto
qed

lemma since_is_last_published: "resolveSinceTimestamp \<lparr>cl_tenant = t, cl_rls = b\<rparr> t ty now d = last_published t ty now d"
proof -
  let ?rows = "filter (\<lambda>i. bi_tenant_id i = t \<and> bi_briefing_type i = ty \<and> bi_published_at i \<noteq> None) (briefing_issues d)"
  let ?times = "map (\<lambda>i. the (bi_published_at i)) ?rows"
  have times: "{p. \<exists>i\<in>set (briefing_issues d). bi_tenant_id i = t \<and> bi_briefing_type i = ty \<and> bi_published_at i = Some p} = set ?times"
    by force
  have "resolveSinceTimestamp \<lparr>cl_tenant = t, cl_rls = b\<rparr> t ty now d =
      (case first_row (order_by_desc id ?times) of Some p \<Rightarrow> p | None \<Rightarrow> now - DAY_MS)"
    by (simp only: resolveSinceTimestamp_def own_filter)
  also have "\<dots> = last_published t ty now d"
    unfolding last_published_def Let_def times latest_is_Max by (simp only: set_empty) (simp add: DAY_MS_def)
  finally show ?thesis .
qed

text \<open>A draft of a Directive shows its newest revision and its counters.\<close>

definition shows_directive :: "uuid \<Rightarrow> db \<Rightarrow> candidate_draft \<Rightarrow> bool" where
  "shows_directive t d x \<longleftrightarrow> (\<forall>i rv ty. cd_source x = SrcDirective i rv ty \<longrightarrow>
     (\<exists>c. dd_directive c \<in> set (operator_directives d) \<and> od_id (dd_directive c) = i \<and> counted t d c \<and>
        rv = map_option dr_id (dd_latestRevision c) \<and> cd_carryCountSnapshot x = Some (int (dd_carryCount c)) \<and>
        cd_deferCountSnapshot x = Some (int (dd_deferCount c)) \<and> cd_escalationLevelSnapshot x = Some (int (dd_escalationLevel c)) \<and>
        cd_dependentWorkOrderCount x = int (uc_dependentWorkOrderCount c) \<and> cd_dueAt x = od_due_at (dd_directive c)))"

definition eligible_source :: "candidate_source \<Rightarrow> bool" where
  "eligible_source s \<longleftrightarrow> (case s of SrcDirective i rv ty \<Rightarrow> ty \<in> {decision, action, blocker} | _ \<Rightarrow> False)"

lemma collectUnresolved_exact:
  assumes "collectUnresolvedDirectives \<lparr>cl_tenant = t, cl_rls = b\<rparr> t now d = Inr (ds, d')"
  shows "mset (map reported ds) =
      image_mset (\<lambda>v. (Lane (od_directive_type v), SrcDirective (od_id v) None (od_directive_type v)))
        {#v \<in># mset (operator_directives d). od_tenant_id v = t \<and> awaiting now v#} \<and>
    (\<forall>x\<in>set ds. shows_directive t d x \<and> (cd_firstMoveEligible x \<longleftrightarrow> eligible_source (cd_source x)))"
proof -
  let ?c = "\<lparr>cl_tenant = t, cl_rls = b\<rparr>"
  let ?rows = "order_by_asc od_first_seen_at (filter (\<lambda>x. od_tenant_id x = t \<and> awaiting now x) (operator_directives d))"
  from assms obtain cs where all: "list_all2 (\<lambda>r y. unresolvedCandidate ?c t d r = Inr y) ?rows cs"
    and ds: "ds = map (directiveDraft now) cs"
    by (auto simp: collectUnresolvedDirectives_def listUnresolvedDirectivesWithClient_def tx_simps fold_collect
        collect_rows_def isUnresolved_iff own_filter)
  from all have rows: "map dd_directive cs = ?rows" and counts: "\<forall>c\<in>set cs. counted t d c"
    by (induction rule: list_all2_induct) (auto dest: unresolvedCandidate_Inr)
  have "map reported ds = map (\<lambda>v. (Lane (od_directive_type v), SrcDirective (od_id v) None (od_directive_type v))) (map dd_directive cs)"
    by (simp add: ds reported_def directiveDraft_def Let_def)
  then have "mset (map reported ds) =
      image_mset (\<lambda>v. (Lane (od_directive_type v), SrcDirective (od_id v) None (od_directive_type v))) (mset ?rows)"
    unfolding rows by (simp only: mset_map)
  moreover have "mset ?rows = {#v \<in># mset (operator_directives d). od_tenant_id v = t \<and> awaiting now v#}"
    by (simp add: order_by_asc_def)
  moreover have "dd_directive c \<in> set (operator_directives d)" if "c \<in> set cs" for c
  proof -
    have "dd_directive c \<in> set ?rows" unfolding rows [symmetric] using that by simp
    then show ?thesis by simp
  qed
  ultimately show ?thesis
    using counts by (auto simp: ds shows_directive_def eligible_source_def directiveDraft_def Let_def)
qed

lemma mset_draft_rows: "mset (map f (order_by_asc key (filter P rows))) = image_mset f {#r \<in># mset rows. P r#}"
  by (simp add: order_by_asc_def)

lemma collected_rows:
  "mset (map reported (collectWorkOrders \<lparr>cl_tenant = t, cl_rls = b\<rparr> t since now d)) =
     image_mset (\<lambda>w. (work_order_lane w, SrcWorkOrder (wo_id w)))
       {#w \<in># mset (work_orders d). wo_tenant_id w = t \<and> (wo_status w = COMPLETED \<longrightarrow> since \<le> wo_updated_at w)#}"
  "mset (map reported (collectMemoryCandidates g \<lparr>cl_tenant = t, cl_rls = b\<rparr> t now d)) =
     image_mset (\<lambda>m. (lane_evidence, SrcMemoryCandidate (mc_id m)))
       {#m \<in># mset (memory_candidates d). mc_tenant_id m = t \<and> mc_review_status m = proposed#}"
proof -
  have any: "wo_status w \<in> set ACTIVE_WORK_ORDER_STATUSES \<or> wo_status w \<in> set BLOCKED_WORK_ORDER_STATUSES \<or> wo_status w = COMPLETED \<and> P \<longleftrightarrow>
      (wo_status w = COMPLETED \<longrightarrow> P)" for w :: work_order and P
    by (cases "wo_status w") (simp_all add: ACTIVE_WORK_ORDER_STATUSES_def BLOCKED_WORK_ORDER_STATUSES_def)
  have lane: "reported (workOrderDraft now w) = (work_order_lane w, SrcWorkOrder (wo_id w))" for w
    by (cases "wo_status w") (simp_all add: reported_def workOrderDraft_def plainDraft_def work_order_lane_def BLOCKED_WORK_ORDER_STATUSES_def)
  show "mset (map reported (collectWorkOrders \<lparr>cl_tenant = t, cl_rls = b\<rparr> t since now d)) =
     image_mset (\<lambda>w. (work_order_lane w, SrcWorkOrder (wo_id w)))
       {#w \<in># mset (work_orders d). wo_tenant_id w = t \<and> (wo_status w = COMPLETED \<longrightarrow> since \<le> wo_updated_at w)#}"
    unfolding collectWorkOrders_def own_filter any map_map by (simp add: order_by_asc_def lane comp_def)
  show "mset (map reported (collectMemoryCandidates g \<lparr>cl_tenant = t, cl_rls = b\<rparr> t now d)) =
     image_mset (\<lambda>m. (lane_evidence, SrcMemoryCandidate (mc_id m)))
       {#m \<in># mset (memory_candidates d). mc_tenant_id m = t \<and> mc_review_status m = proposed#}"
    unfolding collectMemoryCandidates_def own_filter map_map
    by (simp add: order_by_asc_def comp_def reported_def plainDraft_def)
qed

lemma collected_receipts:
  "mset (map reported (collectActionReceipts \<lparr>cl_tenant = t, cl_rls = b\<rparr> t since now d)) +
   mset (map reported (collectScheduledTriggerFailures \<lparr>cl_tenant = t, cl_rls = b\<rparr> t since now d)) =
     image_mset (\<lambda>r. (receipt_lane r, SrcActionReceipt (re_id r)))
       {#r \<in># mset (action_receipts d). re_tenant_id r = t \<and> since \<le> re_created_at r \<and>
          receipt_type (re_payload r) \<noteq> ''state_transitioned''#}"
proof -
  let ?skipped = "\<lambda>r. receipt_type (re_payload r) = ''trigger_fire_skipped''"
  let ?all = "{#r \<in># mset (action_receipts d). re_tenant_id r = t \<and> since \<le> re_created_at r \<and>
     receipt_type (re_payload r) \<noteq> ''state_transitioned''#}"
  let ?f = "\<lambda>r. (receipt_lane r, SrcActionReceipt (re_id r))"
  have "mset (map reported (collectActionReceipts \<lparr>cl_tenant = t, cl_rls = b\<rparr> t since now d)) =
      image_mset (\<lambda>r. (lane_evidence, SrcActionReceipt (re_id r))) (filter_mset (\<lambda>r. \<not> ?skipped r) ?all)"
    unfolding collectActionReceipts_def own_filter map_map
    by (auto simp: order_by_asc_def comp_def reported_def plainDraft_def EVIDENCE_RECEIPT_TYPES_EXCLUDED_def filter_filter_mset
        intro!: arg_cong [of _ _ "image_mset _"] filter_mset_cong)
  also have "\<dots> = image_mset ?f (filter_mset (\<lambda>r. \<not> ?skipped r) ?all)"
    by (rule image_mset_cong) (simp add: receipt_lane_def)
  finally have a: "mset (map reported (collectActionReceipts \<lparr>cl_tenant = t, cl_rls = b\<rparr> t since now d)) =
      image_mset ?f (filter_mset (\<lambda>r. \<not> ?skipped r) ?all)" .
  have "mset (map reported (collectScheduledTriggerFailures \<lparr>cl_tenant = t, cl_rls = b\<rparr> t since now d)) =
      image_mset (\<lambda>r. (Lane blocker, SrcActionReceipt (re_id r))) (filter_mset ?skipped ?all)"
    unfolding collectScheduledTriggerFailures_def own_filter map_map
    by (auto simp: order_by_asc_def comp_def reported_def plainDraft_def filter_filter_mset
        intro!: arg_cong [of _ _ "image_mset _"] filter_mset_cong)
  also have "\<dots> = image_mset ?f (filter_mset ?skipped ?all)"
    by (rule image_mset_cong) (simp add: receipt_lane_def)
  finally have s: "mset (map reported (collectScheduledTriggerFailures \<lparr>cl_tenant = t, cl_rls = b\<rparr> t since now d)) =
      image_mset ?f (filter_mset ?skipped ?all)" .
  show ?thesis unfolding a s image_mset_union [symmetric]
    by (subst add.commute) (simp only: multiset_partition [symmetric])
qed

text \<open>
  C14. Nothing that needs attention is left out, nothing else is taken, and nothing is taken twice. With their lanes
  and counted with multiplicity, the sources of the drafts are exactly: the tenant's Directives that await the
  operator, in the lane of their type; the tenant's WorkOrders, in the lane of their status, but for those completed
  before the window; the tenant's receipts in the window that are not plain transitions, a skipped fire as a blocker
  and the others as evidence; the tenant's memory candidates that await review, as evidence. The window starts when
  the tenant's last issue of the type was published, or a day ago if there was none. A draft of a Directive shows its
  newest revision and its counters, and only decisions, actions and blockers may be the first move.
\<close>

theorem candidates_are_exact:
  assumes "collectCandidates g \<lparr>cl_tenant = t, cl_rls = b\<rparr> t ty now d = Inr ((drafts, since), d')"
  shows "mset (map reported drafts) =
      image_mset (\<lambda>v. (Lane (od_directive_type v), SrcDirective (od_id v) None (od_directive_type v)))
        {#v \<in># mset (operator_directives d). od_tenant_id v = t \<and> awaiting now v#} +
      image_mset (\<lambda>w. (work_order_lane w, SrcWorkOrder (wo_id w)))
        {#w \<in># mset (work_orders d). wo_tenant_id w = t \<and> (wo_status w = COMPLETED \<longrightarrow> since \<le> wo_updated_at w)#} +
      image_mset (\<lambda>r. (receipt_lane r, SrcActionReceipt (re_id r)))
        {#r \<in># mset (action_receipts d). re_tenant_id r = t \<and> since \<le> re_created_at r \<and>
           receipt_type (re_payload r) \<noteq> ''state_transitioned''#} +
      image_mset (\<lambda>m. (lane_evidence, SrcMemoryCandidate (mc_id m)))
        {#m \<in># mset (memory_candidates d). mc_tenant_id m = t \<and> mc_review_status m = proposed#} \<and>
    since = last_published t ty now d \<and>
    (\<forall>x\<in>set drafts. shows_directive t d x \<and> (cd_firstMoveEligible x \<longleftrightarrow> eligible_source (cd_source x))) \<and> d' = d"
proof -
  let ?c = "\<lparr>cl_tenant = t, cl_rls = b\<rparr>"
  from assms obtain ds d1 where ds0: "collectUnresolvedDirectives ?c t now d = Inr (ds, d1)" "d' = d1"
      and since: "since = resolveSinceTimestamp ?c t ty now d"
      and drafts0: "drafts = ds @ collectWorkOrders ?c t since now d1 @ collectActionReceipts ?c t since now d1 @
       collectMemoryCandidates g ?c t now d1 @ collectScheduledTriggerFailures ?c t since now d1"
    by (auto simp: collectCandidates_def tx_simps)
  note ds = ds0 [unfolded collectUnresolved_reads [OF ds0(1)]] and drafts = drafts0 [unfolded collectUnresolved_reads [OF ds0(1)]]
  note dirs = collectUnresolved_exact [OF ds(1)]
  have "shows_directive t d x \<and> (cd_firstMoveEligible x \<longleftrightarrow> eligible_source (cd_source x))" if "x \<in> set drafts" for x
    using that dirs unfolding drafts
    by (auto simp: collectWorkOrders_def collectActionReceipts_def collectMemoryCandidates_def collectScheduledTriggerFailures_def
        workOrderDraft_def plainDraft_def shows_directive_def eligible_source_def)
  moreover have "mset (map reported drafts) = mset (map reported ds) + mset (map reported (collectWorkOrders ?c t since now d)) +
      (mset (map reported (collectActionReceipts ?c t since now d)) + mset (map reported (collectScheduledTriggerFailures ?c t since now d))) +
      mset (map reported (collectMemoryCandidates g ?c t now d))"
    unfolding drafts by (simp only: map_append mset_append ac_simps)
  ultimately show ?thesis
    using dirs since ds(2) by (simp only: collected_rows collected_receipts since_is_last_published) blast
qed

subsection \<open>Within the tenant\<close>

lemma frame_publish:
  "tenant_frame t d (d\<lparr>briefing_issues := update_where (\<lambda>x. bi_id x = i \<and> bi_tenant_id x = t) (published n f a) (briefing_issues d)\<rparr>)"
proof -
  have "filter (\<lambda>r. bi_tenant_id r \<noteq> t) (update_where (\<lambda>x. bi_id x = i \<and> bi_tenant_id x = t) (published n f a) xs) =
      filter (\<lambda>r. bi_tenant_id r \<noteq> t) xs" for xs
    by (induction xs) (auto simp: update_where_def)
  then show ?thesis by (simp add: tenant_frame_defs)
qed

lemma after_issue_steps:
  "after_issue e inp i drafts rows a d =
     (let opened = d\<lparr>briefing_issues := briefing_issues d @ [i]\<rparr>; full = (with_entries rows opened)\<lparr>artifacts := artifacts d @ [a]\<rparr>
      in full\<lparr>briefing_issues := update_where (\<lambda>x. bi_id x = env_uuid e 0 \<and> bi_tenant_id x = ib_tenantId inp)
        (published (briefing_now e inp) (firstMoveDirectiveId drafts) (af_id a)) (briefing_issues full)\<rparr>)"
  by (simp add: after_issue_def with_entries_def Let_def)

lemma fresh_issue_frame:
  assumes "fresh_issue h e inp d r d'"
  shows "tenant_frame (ib_tenantId inp) d d'"
proof -
  let ?t = "ib_tenantId inp"
  from assms obtain i drafts rows a where new: "env_uuid e 0 \<notin> bi_id ` set (briefing_issues d)" "af_id a \<notin> af_id ` set (artifacts d)"
    and ins: "insert_each insert_briefing_issue_entry rowToBriefingIssueEntry rows (d\<lparr>briefing_issues := briefing_issues d @ [i]\<rparr>) =
        Inr (rows, with_entries rows (d\<lparr>briefing_issues := briefing_issues d @ [i]\<rparr>))"
    and d': "d' = after_issue e inp i drafts rows a d" and t: "bi_id i = env_uuid e 0" "bi_tenant_id i = ?t" "af_tenant_id a = ?t"
      "\<forall>x\<in>set rows. be_tenant_id x = ?t"
    unfolding fresh_issue_def Let_def
    by (elim exE conjE) (rule that, assumption, assumption, assumption, assumption, simp_all add: issueRow_def proseArtifactRow_def entryRows_simps)
  let ?o = "d\<lparr>briefing_issues := briefing_issues d @ [i]\<rparr>" and ?full = "(with_entries rows (d\<lparr>briefing_issues := briefing_issues d @ [i]\<rparr>))\<lparr>artifacts := artifacts d @ [a]\<rparr>"
  have "tenant_frame ?t d ?o" using new(1) t(1,2) by (auto simp: tenant_frame_defs)
  moreover have "tenant_frame ?t ?o (with_entries rows ?o)"
    using t(4) by (intro stepsD [OF frame.steps_insert_each ins] frame_insert_briefing_issue_entry) simp
  moreover have "tenant_frame ?t (with_entries rows ?o) ?full"
    using new(2) t(3) by (auto simp: tenant_frame_defs with_entries_def)
  moreover have "tenant_frame ?t ?full d'" unfolding d' after_issue_steps Let_def by (rule frame_publish)
  ultimately show ?thesis by (blast intro: frame.R_trans)
qed

lemma with_files_Inl: "with_files e t cb s = (Inl err, s') \<Longrightarrow> fst s' = fst s"
  by (auto simp: with_files_def split: prod.splits sum.splits)

lemma issueBriefing_Inl: "issueBriefing h e inp (d, f) = (Inl err, (d', f')) \<Longrightarrow> d' = d"
  by (cases "validateBriefingInput inp") (auto simp: issueBriefing_def Let_def othrow_def dest: with_files_Inl)

lemma fresh_issue_aside: "fresh_issue h e inp d r d' \<Longrightarrow> aside d d'"
  unfolding fresh_issue_def Let_def
  by (elim exE conjE) (simp add: aside_defs after_issue_def Let_def wo_untouched_def mem_untouched_same)

text \<open>
  C17. Issuing a briefing is a step of its tenant: whether it returns or throws at any stage, it leads from a
  reachable database to a reachable one and leaves the rows of other tenants as they are; and when it throws,
  the database is as before, entries, artifact and issue included.
\<close>

theorem briefing_is_a_tenant_step:
  assumes "issueBriefing h e inp (d, f) = (res, (d', f'))"
  shows "(reachable d \<longrightarrow> reachable d') \<and> (pk_ok d \<longrightarrow> pk_ok d' \<and> foreign_view (ib_tenantId inp) d' = foreign_view (ib_tenantId inp) d) \<and>
    ((\<exists>err. res = Inl err) \<longrightarrow> d' = d)"
proof (cases res)
  case (Inl err)
  have "d' = d" using assms unfolding Inl by (rule issueBriefing_Inl)
  with Inl show ?thesis by simp
next
  case (Inr r)
  have "turn_rel (ib_tenantId inp) d d'"
    using assms [unfolded Inr]
  proof (cases rule: issueBriefing_cases)
    case existing
    then show ?thesis by (simp add: turn_rel_def frame.R_refl)
  next
    case fresh
    then show ?thesis using fresh_issue_aside fresh_issue_frame turn_aside by blast
  qed
  with Inr show ?thesis by (simp add: turn_rel_def tenant_frame_def)
qed

subsection \<open>What is stored\<close>

text \<open>Entries as their schema wants them, in an issue of their tenant, with distinct ranks in each lane of an issue\<close>

definition briefings_ok :: "db \<Rightarrow> bool" where
  "briefings_ok d \<longleftrightarrow> (\<forall>x\<in>set (briefing_issue_entries d). briefingIssueEntrySchema_ok x \<and>
     (be_briefing_issue_id x, be_tenant_id x) \<in> (\<lambda>i. (bi_id i, bi_tenant_id i)) ` set (briefing_issues d))"

lemma published_keys [simp]:
  "(\<lambda>i. (bi_id i, bi_tenant_id i)) ` set (update_where P (published n f a) xs) = (\<lambda>i. (bi_id i, bi_tenant_id i)) ` set xs"
  unfolding set_map [symmetric] by (rule arg_cong [where f = set]) (simp add: update_where_def)

lemma briefings_ok_belong: "briefings_ok d \<Longrightarrow> entries_belong d"
  by (auto simp: briefings_ok_def entries_belong_def)

text \<open>
  C18. Entries keep their type. Whatever briefings are issued, every entry of the table satisfies its schema, so it has
  exactly one source, a positive rank and a reason, and it belongs to an issue of its own tenant.
\<close>

theorem entries_keep_their_type:
  assumes "issueBriefing h e inp (d, f) = (res, (d', f'))" "briefings_ok d"
  shows "briefings_ok d'"
proof (cases res)
  case (Inl err)
  have "d' = d" using assms(1) unfolding Inl by (rule issueBriefing_Inl)
  with assms(2) show ?thesis by simp
next
  case (Inr r)
  from assms(1) [unfolded Inr] show ?thesis
  proof (cases rule: issueBriefing_cases)
    case existing
    with assms(2) show ?thesis by simp
  next
    case fresh
    then obtain i drafts rows a where rows: "list_all briefingIssueEntrySchema_ok rows" "d' = after_issue e inp i drafts rows a d"
        "\<forall>x\<in>set rows. be_briefing_issue_id x = bi_id i \<and> be_tenant_id x = bi_tenant_id i"
      unfolding fresh_issue_def Let_def
      by (elim exE conjE) (rule that, assumption, assumption, auto simp: issueRow_def dest: entryRows_simps)
    show ?thesis
      using assms(2) rows(1,3) unfolding briefings_ok_def by (auto simp: rows(2) after_issue_def Let_def list_all_iff)
  qed
qed

end
