(* ===== verification/BriefingDemo.thy ===== *)
theory BriefingDemo
  imports BriefingProps GatewayProps
begin

text \<open>
  Briefings evaluated: the first issue of tenant 1, which has nothing to report, written to a file system that is
  a list of files; and two drafts that compete for the first move.
\<close>

definition demo_press :: "(string \<times> string) list briefing_host" where
  "demo_press = \<lparr>bh_tools = demo_host\<lparr>hs_config := \<lparr>wc_baseRoot = ''/ws'', wc_maxBytes = NotFinite\<rparr>\<rparr>, bh_date = Some,
     bh_message = (\<lambda>_. ''failed''), bh_glyphs = \<lparr>gl_dash = ''--'', gl_ellipsis = ''...''\<rparr>\<rparr>"

definition demo_briefing :: issue_briefing_input where
  "demo_briefing = \<lparr>ib_tenantId = 1, ib_briefingType = ''am'', ib_localIssueDate = ''2024-01-02'', ib_timezone = ''UTC'',
     ib_issuedByActorId = 10, ib_sourceMessageId = None, ib_sourceWorkOrderId = None, ib_now = Some 0\<rparr>"

abbreviation demo_reader :: client where
  "demo_reader \<equiv> \<lparr>cl_tenant = 1, cl_rls = True\<rparr>"

definition demo_busy :: db where
  "demo_busy = demo_db\<lparr>work_orders := [newWorkOrderRow demo_env demo_create]\<rparr>"

definition demo_issue :: briefing_issue where
  "demo_issue = issueRow demo_env demo_briefing 0 ''2024-01-02'' None None"

definition demo_opened :: db where
  "demo_opened = demo_busy\<lparr>briefing_issues := [demo_issue]\<rparr>"

definition demo_draft :: candidate_draft where
  "demo_draft = workOrderDraft 0 (newWorkOrderRow demo_env demo_create)"

definition demo_entry :: briefing_issue_entry where
  "demo_entry = entryRow demo_env (Suc 0) demo_briefing 0 demo_draft (Suc 0) None"

definition demo_entered :: db where
  "demo_entered = demo_opened\<lparr>briefing_issue_entries := [demo_entry]\<rparr>"

lemma demo_uuid_text: "uuid_str 1 = ''00000000-0000-0000-0000-000000000001''"
proof -
  have z: "nibbles k 0 = replicate k 0" for k by (simp add: nibbles_def map_replicate_const)
  have n: "nibbles 32 (unat (1 :: uuid)) = replicate 31 0 @ [1]" using nibbles_Suc [of 31 1] z by simp
  show ?thesis unfolding uuid_str_def uuid_hex_def n by code_simp
qed

lemma demo_press_ids: "env_uuid demo_env 0 = 100" "env_uuid demo_env (Suc 0) = 101" "env_uuid demo_env 2 = 102" "env_rls demo_env"
  by (simp_all add: demo_env_def)

lemma demo_briefing_valid: "validateBriefingInput demo_briefing = Inr ()"
  by code_simp

lemma demo_briefing_opens: "prepareIssue demo_press demo_env demo_briefing 0 demo_reader demo_busy = Inr (True, demo_opened)"
  by (simp add: prepareIssue_def openIssue_def insert_briefing_issue_def resolveOptionalTenantScopedId_def run_simps demo_briefing_def
      demo_busy_def demo_db_def empty_db_def demo_press_def demo_opened_def demo_issue_def issueRow_def demo_env_def)

lemma demo_tables: "work_orders demo_opened = [newWorkOrderRow demo_env demo_create]" "operator_directives demo_opened = []"
  "directive_revisions demo_opened = []" "action_receipts demo_opened = []" "memory_candidates demo_opened = []"
  "briefing_issues demo_opened = [demo_issue]" "briefing_issue_entries demo_opened = []" "tenants demo_opened = [1, 2]"
  by (simp_all add: demo_opened_def demo_busy_def demo_db_def empty_db_def)

lemma demo_press_rows: "cw_tenantId demo_create = 1" "wo_status (newWorkOrderRow demo_env demo_create) = RECEIVED" "wo_tenant_id (newWorkOrderRow demo_env demo_create) = 1"
  "bi_published_at demo_issue = None" "bi_tenant_id demo_issue = 1" "bi_id demo_issue = 100"
  by (simp_all add: newWorkOrderRow_def demo_create_def demo_issue_def issueRow_def demo_briefing_def demo_env_def)

lemma demo_one_draft: "collectCandidates g demo_reader 1 ''am'' 0 demo_opened = Inr (([demo_draft], - DAY_MS), demo_opened)"
  by (simp add: collectCandidates_def collectUnresolvedDirectives_def listUnresolvedDirectivesWithClient_def collect_rows_def fold_collect
      tx_defs tx_simps demo_tables demo_press_rows resolveSinceTimestamp_def collectWorkOrders_def collectActionReceipts_def
      collectMemoryCandidates_def collectScheduledTriggerFailures_def rls_rows_def first_row_def order_by_desc_def order_by_asc_def demo_draft_def ACTIVE_WORK_ORDER_STATUSES_def)

lemma demo_entry_rows: "entryRows demo_env demo_reader demo_briefing 0 [demo_draft] demo_opened = [demo_entry]"
  by (simp add: entryRows_def rankWithinLane_def lane_order_def js_sort_def enumerate_eq_zip findCarriedFromIssueId_def demo_tables
      rls_rows_def nulls_last_def order_by_desc_def first_row_def demo_entry_def)

lemma demo_entry_ok: "entry_one_source demo_entry" "0 < be_rank demo_entry" "be_inclusion_reason demo_entry \<noteq> []"
    "be_id demo_entry = 101" "be_tenant_id demo_entry = 1" "be_briefing_issue_id demo_entry = 100"
    "be_work_order_id demo_entry = Some 100" "be_directive_id demo_entry = None" "be_directive_revision_id demo_entry = None"
    "be_action_receipt_id demo_entry = None" "be_memory_candidate_id demo_entry = None" "be_carried_from_issue_id demo_entry = None"
    "wo_id (newWorkOrderRow demo_env demo_create) = 100"
  by (simp_all add: entry_one_source_def demo_entry_def entryRow_def demo_draft_def workOrderDraft_def plainDraft_def demo_env_def
      demo_briefing_def newWorkOrderRow_def)

lemma demo_entry_stored: "insert_briefing_issue_entry demo_entry demo_opened = Inr ((), demo_entered)"
  by (simp add: insert_briefing_issue_entry_def run_simps demo_tables demo_entry_ok demo_press_rows demo_press_ids demo_entered_def)

lemma demo_assembled_entries:
  "assembleEntries demo_press demo_env demo_briefing 0 demo_reader demo_opened = Inr (([demo_draft], [demo_entry], - DAY_MS), demo_entered)"
proof -
  have "ib_tenantId demo_briefing = 1" "ib_briefingType demo_briefing = ''am''" by (simp_all add: demo_briefing_def)
  then show ?thesis
    by (simp add: assembleEntries_def tx_defs demo_one_draft demo_entry_rows demo_entry_stored rowToBriefingIssueEntry_def briefingIssueEntrySchema_ok_def demo_entry_ok)
qed

text \<open>The file is written; what it holds does not matter here.\<close>

lemma demo_paths:
  "resolveWorkspaceRoot \<lparr>wc_baseRoot = ''/ws'', wc_maxBytes = NotFinite\<rparr> 1 None = ''/ws/00000000-0000-0000-0000-000000000001/_no_workspace''"
  "prosePath demo_briefing = ''briefings/am/2024-01-02.md''"
  "validateRelativePath ''briefings/am/2024-01-02.md'' = Inr ()"
  "resolveContainedPath ''/'' ''/ws/00000000-0000-0000-0000-000000000001/_no_workspace'' ''briefings/am/2024-01-02.md'' =
     Inr ''/ws/00000000-0000-0000-0000-000000000001/_no_workspace/briefings/am/2024-01-02.md''"
  "assertRealpathContained RealPath ''/'' ''/ws/00000000-0000-0000-0000-000000000001/_no_workspace''
     ''/ws/00000000-0000-0000-0000-000000000001/_no_workspace/briefings/am/2024-01-02.md'' = Inr ()"
  unfolding resolveWorkspaceRoot_def demo_uuid_text by code_simp+

lemma demo_file_written:
  "\<exists>w f. writeWorkspaceFile list_fs sha ''/'' ''.tmp'' \<lparr>wc_baseRoot = ''/ws'', wc_maxBytes = NotFinite\<rparr>
     ''/ws/00000000-0000-0000-0000-000000000001/_no_workspace'' ''briefings/am/2024-01-02.md'' prose True [] = (Inr w, f)"
  by (simp add: writeWorkspaceFile_def list_fs_def demo_paths exceeds_def Let_def)

lemma demo_prose_stored:
  "\<exists>w f. insertProseArtifact demo_press demo_env 2 demo_briefing prose 0 (demo_entered, []) =
     (Inr 102, (demo_entered\<lparr>artifacts := [proseArtifactRow demo_env 2 demo_briefing 0 w]\<rparr>, f))"
proof -
  have h: "hs_config (bh_tools demo_press) = \<lparr>wc_baseRoot = ''/ws'', wc_maxBytes = NotFinite\<rparr>" "hs_fs (bh_tools demo_press) = list_fs"
    "hs_cwd (bh_tools demo_press) = ''/''" "hs_tmpSuffix (bh_tools demo_press) = ''.tmp''" "ib_tenantId demo_briefing = 1"
    by (simp_all add: demo_press_def demo_host_def demo_briefing_def)
  obtain w f where w: "writeWorkspaceFile list_fs (env_sha256 demo_env) ''/'' ''.tmp'' \<lparr>wc_baseRoot = ''/ws'', wc_maxBytes = NotFinite\<rparr>
     ''/ws/00000000-0000-0000-0000-000000000001/_no_workspace'' ''briefings/am/2024-01-02.md'' prose True [] = (Inr w, f)"
    using demo_file_written by blast
  have "ensureWorkspaceRoot list_fs r [] = Inr []" for r by (simp add: ensureWorkspaceRoot_def list_fs_def)
  moreover have "insert_artifact (proseArtifactRow demo_env 2 demo_briefing 0 w) demo_entered =
      Inr ((), demo_entered\<lparr>artifacts := [proseArtifactRow demo_env 2 demo_briefing 0 w]\<rparr>)"
    by (simp add: insert_artifact_def run_simps proseArtifactRow_def demo_entered_def demo_opened_def demo_busy_def demo_db_def empty_db_def
        demo_briefing_def)
  ultimately show ?thesis
    by (intro exI) (simp add: insertProseArtifact_def Let_def h demo_paths w obind_def in_files_def in_tx_def attempt_def oreturn_def demo_press_ids)
qed

lemma demo_published:
  fixes w :: write_result
  defines "d \<equiv> demo_entered\<lparr>artifacts := [proseArtifactRow demo_env 2 demo_briefing 0 w]\<rparr>"
  shows "\<exists>i d'. publish demo_env demo_briefing 0 None 102 d = Inr (i, d')"
proof -
  have "artifacts d = [proseArtifactRow demo_env 2 demo_briefing 0 w]" "briefing_issues d = [demo_issue]"
    by (simp_all add: d_def demo_entered_def demo_tables)
  then show ?thesis
    by (simp add: publish_def run_simps update_where_def demo_press_rows demo_press_ids proseArtifactRow_def lift_result_def rowToBriefingIssue_def
        briefingIssueSchema_ok_def demo_briefing_def demo_issue_def issueRow_def briefingKey_def)
qed

lemma demo_issued:
  "\<exists>r d' f'. issueBriefing demo_press demo_env demo_briefing (demo_busy, []) = (Inr r, (d', f')) \<and> ir_entries r = [demo_entry] \<and> \<not> ir_alreadyIssued r"
proof -
  let ?prose = "briefingProse demo_press demo_briefing [demo_draft] [demo_entry] (- DAY_MS)"
  obtain w f where w: "insertProseArtifact demo_press demo_env 2 demo_briefing ?prose 0 (demo_entered, []) =
     (Inr 102, (demo_entered\<lparr>artifacts := [proseArtifactRow demo_env 2 demo_briefing 0 w]\<rparr>, f))"
    using demo_prose_stored by blast
  obtain i d' where p: "publish demo_env demo_briefing 0 None 102 (demo_entered\<lparr>artifacts := [proseArtifactRow demo_env 2 demo_briefing 0 w]\<rparr>) = Inr (i, d')"
    using demo_published by blast
  have two: "Suc (Suc 0) = 2" by simp
  have "firstMoveDirectiveId [demo_draft] = None"
    by (simp add: firstMoveDirectiveId_def selectFirstMove_def demo_draft_def workOrderDraft_def plainDraft_def js_sort_def first_row_def)
  moreover have "ib_tenantId demo_briefing = 1" "ib_now demo_briefing = Some 0"
    by (simp_all add: demo_briefing_def)
  ultimately show ?thesis
    using w [folded two] p [folded two] by (simp add: issueBriefing_def demo_briefing_valid with_files_def obind_def in_tx_def oreturn_def
      demo_briefing_opens demo_assembled_entries demo_press_ids)
qed

subsection \<open>Witnesses\<close>

lemma demo_busy_tables: "briefing_issue_entries demo_busy = []" "briefing_issues demo_busy = []"
  by (simp_all add: demo_busy_def demo_db_def empty_db_def)

theorem briefing_issued_once_witness:
  "\<exists>r d' f'. issueBriefing demo_press demo_env demo_briefing (demo_busy, []) = (Inr r, (d', f')) \<and> \<not> ir_alreadyIssued r \<and>
     (\<exists>r2. issueBriefing demo_press (env_at 50 demo_env) demo_briefing (d', []) = (Inr r2, (d', [])) \<and> ir_alreadyIssued r2 \<and>
        ir_issue r2 = ir_issue r \<and> mset (ir_entries r2) = {#demo_entry#})"
proof -
  obtain r d' f' where run: "issueBriefing demo_press demo_env demo_briefing (demo_busy, []) = (Inr r, (d', f'))"
      "ir_entries r = [demo_entry]" "\<not> ir_alreadyIssued r"
    using demo_issued by blast
  have "entries_belong demo_busy" by (simp add: entries_belong_def demo_busy_tables)
  from briefing_issued_once [OF run(1) this, of "env_at 50 demo_env" "[]"] run show ?thesis by auto
qed

theorem briefing_is_a_tenant_step_witness:
  "\<exists>r d' f'. issueBriefing demo_press demo_env demo_briefing (demo_busy, []) = (Inr r, (d', f')) \<and>
     foreign_view 1 d' = foreign_view 1 demo_busy"
proof -
  obtain r d' f' where run: "issueBriefing demo_press demo_env demo_briefing (demo_busy, []) = (Inr r, (d', f'))"
    using demo_issued by blast
  have "pk_ok demo_busy" by (simp add: pk_ok_def demo_busy_def demo_db_def empty_db_def)
  moreover have "ib_tenantId demo_briefing = 1" by (simp add: demo_briefing_def)
  ultimately show ?thesis using briefing_is_a_tenant_step [OF run] run by auto
qed

theorem entries_keep_their_type_witness:
  "\<exists>r d' f'. issueBriefing demo_press demo_env demo_briefing (demo_busy, []) = (Inr r, (d', f')) \<and> briefings_ok d'"
proof -
  obtain r d' f' where run: "issueBriefing demo_press demo_env demo_briefing (demo_busy, []) = (Inr r, (d', f'))"
    using demo_issued by blast
  have "briefings_ok demo_busy" by (simp add: briefings_ok_def demo_busy_tables)
  from entries_keep_their_type [OF run this] run show ?thesis by blast
qed

theorem candidates_are_exact_witness:
  "\<exists>drafts since. collectCandidates (bh_glyphs demo_press) demo_reader 1 ''am'' 0 demo_opened = Inr ((drafts, since), demo_opened) \<and>
     mset (map reported drafts) = {#(Lane action, SrcWorkOrder 100)#} \<and> since = - 86400000"
proof -
  note run = demo_one_draft [of "bh_glyphs demo_press"]
  have "last_published 1 ''am'' 0 demo_opened = - 86400000" "work_order_lane (newWorkOrderRow demo_env demo_create) = Lane action"
    by (simp_all add: last_published_def demo_tables demo_press_rows work_order_lane_def)
  with candidates_are_exact [OF run] run show ?thesis by (simp add: demo_tables demo_press_rows demo_entry_ok demo_press_ids)
qed

text \<open>Two drafts of a lane: a decision without a date, and a blocker that is due.\<close>

definition demo_open_question :: candidate_draft where
  "demo_open_question = (plainDraft (Lane action) (SrcDirective 1 None decision) ''r'' ''t'' None 3)\<lparr>cd_firstMoveEligible := True\<rparr>"

definition demo_due :: candidate_draft where
  "demo_due = (plainDraft (Lane action) (SrcDirective 2 None blocker) ''r'' ''t'' None 0)\<lparr>cd_firstMoveEligible := True,
     cd_isBlockerType := True, cd_dueAt := Some 5\<rparr>"

lemma demo_outranks: "outranks demo_due demo_open_question"
  by (simp add: outranks_def demo_open_question_def demo_due_def plainDraft_def)

lemma demo_comparison: "compareForFirstMove demo_open_question demo_due = 1" "compareForFirstMove demo_due demo_open_question = - 1"
  "cd_firstMoveEligible demo_due" "cd_firstMoveEligible demo_open_question" "cd_lane demo_due = cd_lane demo_open_question"
  by (simp_all add: compareForFirstMove_def demo_open_question_def demo_due_def plainDraft_def)

theorem first_move_is_best_witness:
  "selectFirstMove [demo_draft, demo_open_question, demo_due] = Some demo_due"
proof -
  have "filter cd_firstMoveEligible [demo_draft, demo_open_question, demo_due] = [demo_open_question] @ demo_due # []"
    by (simp add: demo_comparison) (simp add: demo_draft_def workOrderDraft_def plainDraft_def)
  then show ?thesis
    using first_move_is_best [of "[demo_draft, demo_open_question, demo_due]" demo_due] demo_outranks by fastforce
qed

theorem ranks_follow_the_order_witness:
  "rankWithinLane [demo_open_question, demo_due] ! 1 < rankWithinLane [demo_open_question, demo_due] ! 0"
  using ranks_follow_the_order [of 1 "[demo_open_question, demo_due]" 0] by (simp add: demo_comparison)

text \<open>
  The type and the time zone may hold the separator of the key, so two different briefings can share one: the
  later call is answered with the issue of the earlier. The file of the prose does not depend on the time zone.
\<close>

lemma briefing_keys_collide:
  assumes "i = demo_briefing\<lparr>ib_briefingType := ''a'', ib_timezone := ''2024-01-03:UTC''\<rparr>"
    "j = demo_briefing\<lparr>ib_briefingType := ''a:2024-01-02'', ib_localIssueDate := ''2024-01-03''\<rparr>"
  shows "briefingKey i = briefingKey j \<and> validateBriefingInput i = Inr () \<and> validateBriefingInput j = Inr ()"
proof -
  have "validateBriefingInput i = Inr ()" "validateBriefingInput j = Inr ()" unfolding assms by code_simp+
  then show ?thesis by (simp add: assms briefingKey_def demo_briefing_def buildIdempotencyKey_def)
qed

lemma prose_path_ignores_the_timezone: "prosePath (inp\<lparr>ib_timezone := tz\<rparr>) = prosePath inp"
  by (simp add: prosePath_def)

end
