(* ===== verification/Calendar.thy ===== *)
theory Calendar
  imports Text Vectors
begin

text \<open>
  Dates of JavaScript and the arithmetic of \<open>src/src/elora/triggers/computeNextFireAt.ts\<close> on them: the setters
  of \<open>Date\<close> in UTC, ISO 8601 durations, and the addition of a duration. A date is \<open>None\<close> when it is invalid.
\<close>

type_synonym js_date = "timestamp option"

definition MS_PER_DAY :: int where
  "MS_PER_DAY = 86400000"

definition time_clip :: "int \<Rightarrow> js_date" where
  "time_clip t = (if \<bar>t\<bar> \<le> 8640000000000000 then Some t else None)"

subsection \<open>Civil dates\<close>

definition leap_year :: "int \<Rightarrow> bool" where
  "leap_year y \<longleftrightarrow> y mod 4 = 0 \<and> (y mod 100 \<noteq> 0 \<or> y mod 400 = 0)"

definition days_in_month :: "int \<Rightarrow> int \<Rightarrow> int" where
  "days_in_month y m = (if m = 2 then (if leap_year y then 29 else 28) else if m \<in> {4, 6, 9, 11} then 30 else 31)"

text \<open>The inverse of \<open>civil_from_days\<close>: years begin in March, so that the leap day comes last.\<close>

definition days_from_civil :: "int \<Rightarrow> int \<Rightarrow> int \<Rightarrow> int" where
  "days_from_civil y m d =
     (let y' = (if m \<le> 2 then y - 1 else y); era = y' div 400; yoe = y' mod 400;
          mp = (if m > 2 then m - 3 else m + 9); doy = (153 * mp + 2) div 5 + d - 1
      in era * 146097 + (yoe * 365 + yoe div 4 - yoe div 100 + doy) - 719468)"

definition year_of_era :: "int \<Rightarrow> int" where
  "year_of_era doe = (doe - doe div 1460 + doe div 36524 - doe div 146096) div 365"

definition era_day :: "int \<Rightarrow> int \<Rightarrow> int" where
  "era_day yoe doy = yoe * 365 + yoe div 4 - yoe div 100 + doy"

text \<open>The days of the year that begins in March of year \<open>yoe\<close> of an era\<close>

definition march_year :: "int \<Rightarrow> int" where
  "march_year yoe = (if leap_year (yoe + 1) then 366 else 365)"

lemma year_of_era_day:
  assumes "0 \<le> yoe" "yoe < 400" "0 \<le> doy" "doy < march_year yoe"
  shows "year_of_era (era_day yoe doy) = yoe"
proof -
  define c q r where "c = yoe div 100" and "q = yoe mod 100 div 4" and "r = yoe mod 4"
  have yoe: "yoe = 100 * c + 4 * q + r" 
  proof -
    have "yoe mod 100 mod 4 = yoe mod 4" by (rule mod_mod_cancel) simp
    then show ?thesis
      using mult_div_mod_eq [of 100 yoe] mult_div_mod_eq [of 4 "yoe mod 100"] unfolding c_def q_def r_def by linarith
  qed
  have b: "0 \<le> c" "c \<le> 3" "0 \<le> q" "q \<le> 24" "0 \<le> r" "r \<le> 3"
    using assms(1,2) zdiv_mono1 [of yoe 399 100] zdiv_mono1 [of "yoe mod 100" 99 4]
    by (simp_all add: c_def q_def r_def div_int_pos_iff)
  have doy: "doy \<le> 364 \<or> doy = 365 \<and> r = 3 \<and> (q \<le> 23 \<or> c = 3)"
  proof (cases "doy \<le> 364")
    case False
    with assms(4) have "leap_year (yoe + 1)" "doy = 365" by (auto simp: march_year_def split: if_splits)
    then have "(yoe + 1) mod 4 = 0" "(yoe + 1) mod 100 \<noteq> 0 \<or> (yoe + 1) mod 400 = 0" by (auto simp: leap_year_def)
    have "r = 3"
    proof -
      have "yoe + 1 = r + 1 + 4 * (25 * c + q)" using yoe by simp
      then have "(r + 1) mod 4 = 0" using \<open>(yoe + 1) mod 4 = 0\<close> by (metis mod_mult_self2)
      with b show ?thesis by presburger
    qed
    moreover have "c = 3" if "q = 24"
    proof (rule ccontr)
      assume "c \<noteq> 3"
      with b have "c = 0 \<or> c = 1 \<or> c = 2" by linarith
      then have "(yoe + 1) mod 100 = 0 \<and> (yoe + 1) mod 400 \<noteq> 0" using yoe that \<open>r = 3\<close> by auto
      with \<open>(yoe + 1) mod 100 \<noteq> 0 \<or> (yoe + 1) mod 400 = 0\<close> show False by simp
    qed
    ultimately show ?thesis using b \<open>doy = 365\<close> by linarith
  qed simp
  let ?e = "36524 * c + 1461 * q + 365 * r + doy"
  have e: "era_day yoe doy = ?e"
  proof -
    have "yoe div 4 = 25 * c + q" "yoe div 100 = c"
      using b by (auto simp: yoe intro!: int_div_pos_eq [where r = r] int_div_pos_eq [where r = "4 * q + r"])
    then show ?thesis by (simp add: era_day_def yoe)
  qed
  define x y z :: int where "x = (if 1460 \<le> 24 * c + q + 365 * r + doy then 1 else 0)"
    and "y = (if 36524 \<le> 1461 * q + 365 * r + doy then 1 else 0)" and "z = (if ?e = 146096 then 1 else 0)"
  have "?e div 1460 = 25 * c + q + x"
    by (rule int_div_pos_eq [where r = "24 * c + q + 365 * r + doy - 1460 * x"]) (use b doy assms(3) in \<open>auto simp: x_def algebra_simps\<close>)
  moreover have "?e div 36524 = c + y"
    by (rule int_div_pos_eq [where r = "1461 * q + 365 * r + doy - 36524 * y"]) (use b doy assms(3) in \<open>auto simp: y_def algebra_simps\<close>)
  moreover have "?e div 146096 = z"
    by (rule int_div_pos_eq [where r = "?e - 146096 * z"]) (use b doy assms(3) in \<open>auto simp: z_def algebra_simps\<close>)
  ultimately have "year_of_era ?e = (365 * yoe + (doy - x + y - z)) div 365"
    by (simp add: year_of_era_def yoe algebra_simps)
  also have "\<dots> = yoe"
    by (rule int_div_pos_eq [where r = "doy - x + y - z"]) (use b doy assms(3) in \<open>auto simp: x_def y_def z_def\<close>)
  finally show ?thesis by (simp add: e)
qed

lemma era_day_covers:
  assumes "0 \<le> doe" "doe < 146097"
  obtains yoe doy where "0 \<le> yoe" "yoe < 400" "0 \<le> doy" "doy < march_year yoe" "doe = era_day yoe doy"
proof -
  define c where "c = min 3 (doe div 36524)"
  define c' where "c' = doe - 36524 * c"
  have c: "0 \<le> c" "c \<le> 3" "0 \<le> c'" "c' \<le> 36524" "c < 3 \<Longrightarrow> c' < 36524"
    using assms mult_div_mod_eq [of 36524 doe] pos_mod_bound [of 36524 doe] pos_mod_sign [of 36524 doe]
    unfolding c_def c'_def by (auto simp: min_def div_int_pos_iff)
  define q where "q = c' div 1461"
  define q' where "q' = c' mod 1461"
  have q: "0 \<le> q" "q \<le> 24" "0 \<le> q'" "q' \<le> 1460" "c' = 1461 * q + q'"
    using c(3,4) zdiv_mono1 [of c' 36524 1461] pos_mod_bound [of 1461 c'] by (simp_all add: q_def q'_def div_int_pos_iff)
  have q24: "q = 24 \<Longrightarrow> c < 3 \<Longrightarrow> q' < 1460" using q(5) c(5) by linarith
  define r where "r = min 3 (q' div 365)"
  define doy where "doy = q' - 365 * r"
  have r: "0 \<le> r" "r \<le> 3" "0 \<le> doy" "doy \<le> 365" "r < 3 \<Longrightarrow> doy < 365" "q' = 365 * r + doy"
    using q(3,4) mult_div_mod_eq [of 365 q'] pos_mod_bound [of 365 q'] pos_mod_sign [of 365 q']
    unfolding r_def doy_def by (auto simp: min_def div_int_pos_iff)
  let ?yoe = "100 * c + 4 * q + r"
  have y: "?yoe div 4 = 25 * c + q" "?yoe div 100 = c"
    using c q r by (simp_all add: int_div_pos_eq [where r = r] int_div_pos_eq [where r = "4 * q + r"])
  have "doe = era_day ?yoe doy" by (simp add: era_day_def y) (use q(5) r(6) c'_def in linarith)
  moreover have "doy < march_year ?yoe"
  proof (cases "doy = 365")
    case True
    with r have "r = 3" by linarith
    with True q24 q r(6) have "q < 24 \<or> c = 3" using c(2) by linarith
    have "?yoe + 1 = 4 * (25 * c + q + 1)" using \<open>r = 3\<close> by simp
    then have 4: "(?yoe + 1) mod 4 = 0" by (metis mod_mult_self1_is_0)
    have "(?yoe + 1) mod 100 \<noteq> 0 \<or> (?yoe + 1) mod 400 = 0"
    proof (cases "q < 24")
      case True
      have "(?yoe + 1) mod 100 = 4 * q + 4"
        by (rule int_mod_pos_eq [where q = c]) (use True q(1) \<open>r = 3\<close> in auto)
      with q(1) show ?thesis by linarith
    next
      case False
      with \<open>q < 24 \<or> c = 3\<close> q(2) \<open>r = 3\<close> show ?thesis by simp
    qed
    with 4 True show ?thesis by (simp add: march_year_def leap_year_def)
  qed (use r(4) in \<open>simp add: march_year_def\<close>)
  ultimately show thesis using that [of ?yoe doy] c(1,2) q(1,2) r(1-3) by linarith
qed

text \<open>The days of the March year, month by month\<close>

definition month_start :: "int \<Rightarrow> int" where
  "month_start mp = (153 * mp + 2) div 5"

lemma month_start_bounds: "5 * month_start mp \<le> 153 * mp + 2" "153 * mp + 2 < 5 * month_start mp + 5"
  using mult_div_mod_eq [of 5 "153 * mp + 2"] pos_mod_bound [of 5 "153 * mp + 2"] pos_mod_sign [of 5 "153 * mp + 2"]
  by (simp_all add: month_start_def)

lemma month_of_doy:
  assumes "month_start mp \<le> doy" "doy < month_start (mp + 1)"
  shows "(5 * doy + 2) div 153 = mp"
  by (rule int_div_pos_eq [where r = "5 * doy + 2 - 153 * mp"])
    (use assms month_start_bounds [of mp] month_start_bounds [of "mp + 1"] in auto)

lemma doy_in_month:
  defines "mp \<equiv> \<lambda>doy. (5 * doy + 2) div 153"
  assumes "0 \<le> doy" "doy \<le> 365"
  shows "0 \<le> mp doy" "mp doy \<le> 11" "month_start (mp doy) \<le> doy" "doy < month_start (mp doy + 1)"
proof -
  have "153 * mp doy \<le> 5 * doy + 2" "5 * doy + 2 < 153 * mp doy + 153"
    using mult_div_mod_eq [of 153 "5 * doy + 2"] pos_mod_bound [of 153 "5 * doy + 2"] pos_mod_sign [of 153 "5 * doy + 2"]
    unfolding mp_def by linarith+
  note b = this
  show "0 \<le> mp doy" "mp doy \<le> 11" using b assms(2,3) by linarith+
  show "month_start (mp doy) \<le> doy" using b(1) month_start_bounds(1) [of "mp doy"] by linarith
  have "153 * (mp doy + 1) + 2 = 153 * mp doy + 155" by simp
  with b(2) month_start_bounds(2) [of "mp doy + 1"] show "doy < month_start (mp doy + 1)" by linarith
qed

text \<open>A month of the calendar as a month of the year that begins in March\<close>

lemma month_length:
  assumes "1 \<le> m" "m \<le> 12" "mp = (if m > 2 then m - 3 else m + 9)" "yoe = (if m \<le> 2 then y - 1 else y) mod 400"
  shows "days_in_month y m = min (month_start (mp + 1)) (march_year yoe) - month_start mp"
proof -
  have "((y - 1) mod 400 + 1) mod k = y mod k" if "k dvd 400" for k
  proof -
    have "((y - 1) mod 400 + 1) mod k = ((y - 1) mod 400 mod k + 1) mod k" by (simp add: mod_add_left_eq)
    also have "\<dots> = y mod k" unfolding mod_mod_cancel [OF that] by (simp add: mod_add_left_eq)
    finally show ?thesis .
  qed
  then have leap: "leap_year ((y - 1) mod 400 + 1) = leap_year y" by (simp add: leap_year_def)
  have "march_year yoe \<ge> 365" by (simp add: march_year_def)
  moreover have "m = 1 \<or> m = 2 \<or> m = 3 \<or> m = 4 \<or> m = 5 \<or> m = 6 \<or> m = 7 \<or> m = 8 \<or> m = 9 \<or> m = 10 \<or> m = 11 \<or> m = 12" using assms(1,2) by presburger
  ultimately show ?thesis
    by (elim disjE) (simp_all add: assms(3,4) days_in_month_def month_start_def leap march_year_def)
qed

subsection \<open>The two directions\<close>

lemma civil_from_days_alt:
  "civil_from_days z = (let doe = (z + 719468) mod 146097; yoe = year_of_era doe; doy = doe - era_day yoe 0;
      mp = (5 * doy + 2) div 153; m = (if mp < 10 then mp + 3 else mp - 9)
    in (yoe + (z + 719468) div 146097 * 400 + (if m \<le> 2 then 1 else 0), m, doy - month_start mp + 1))"
  unfolding civil_from_days_def Let_def year_of_era_def era_day_def month_start_def add_0_right mult.commute [of _ 365] ..

lemma days_from_civil_alt:
  "days_from_civil y m d = (let y' = (if m \<le> 2 then y - 1 else y) in
     y' div 400 * 146097 + era_day (y' mod 400) (month_start (if m > 2 then m - 3 else m + 9) + d - 1) - 719468)"
  by (simp add: days_from_civil_def era_day_def month_start_def Let_def)

lemma era_day_split: "era_day yoe doy - era_day yoe 0 = doy"
  by (simp add: era_day_def)

lemma era_day_bounds:
  assumes "0 \<le> yoe" "yoe < 400" "0 \<le> doy" "doy < march_year yoe"
  shows "0 \<le> era_day yoe doy" "era_day yoe doy < 146097"
proof -
  have "0 \<le> yoe div 4 - yoe div 100" using assms(1) by (simp add: zdiv_mono2)
  then show "0 \<le> era_day yoe doy" using assms by (simp add: era_day_def)
  show "era_day yoe doy < 146097"
  proof (cases "yoe = 399")
    case False
    have "yoe div 4 \<le> 99" "0 \<le> yoe div 100" using assms zdiv_mono1 [of yoe 399 4] by (simp_all add: div_int_pos_iff)
    moreover have "doy \<le> 365" using assms(4) by (simp add: march_year_def split: if_splits)
    ultimately show ?thesis using False assms(2) by (simp add: era_day_def)
  qed (use assms(4) in \<open>simp add: era_day_def march_year_def leap_year_def\<close>)
qed

theorem civil_days:
  assumes "1 \<le> m" "m \<le> 12" "1 \<le> d" "d \<le> days_in_month y m"
  shows "civil_from_days (days_from_civil y m d) = (y, m, d)"
proof -
  define y' mp where "y' = (if m \<le> 2 then y - 1 else y)" and "mp = (if m > 2 then m - 3 else m + 9)"
  let ?yoe = "y' mod 400" and ?doy = "month_start mp + d - 1"
  have len: "days_in_month y m = min (month_start (mp + 1)) (march_year ?yoe) - month_start mp"
    by (rule month_length [OF assms(1,2)]) (simp_all add: mp_def y'_def)
  have mp: "0 \<le> mp" "mp \<le> 11" using assms(1,2) by (auto simp: mp_def)
  have "0 \<le> month_start mp" using mp(1) by (simp add: month_start_def)
  then have doy: "0 \<le> ?doy" "?doy < march_year ?yoe" "?doy < month_start (mp + 1)" "month_start mp \<le> ?doy" using assms(3,4) len by auto
  have yoe: "0 \<le> ?yoe" "?yoe < 400" by simp_all
  have z: "days_from_civil y m d + 719468 = y' div 400 * 146097 + era_day ?yoe ?doy"
    by (simp add: days_from_civil_alt y'_def mp_def Let_def)
  have "(y' div 400 * 146097 + era_day ?yoe ?doy) mod 146097 = era_day ?yoe ?doy"
      "(y' div 400 * 146097 + era_day ?yoe ?doy) div 146097 = y' div 400"
    using era_day_bounds [OF yoe doy(1,2)] by simp_all
  then have "civil_from_days (days_from_civil y m d) = (let m' = (if mp < 10 then mp + 3 else mp - 9)
      in (?yoe + y' div 400 * 400 + (if m' \<le> 2 then 1 else 0), m', ?doy - month_start mp + 1))"
    by (simp only: civil_from_days_alt z Let_def year_of_era_day [OF yoe doy(1,2)] era_day_split month_of_doy [OF doy(4,3)])
  moreover have "(if mp < 10 then mp + 3 else mp - 9) = m" using assms(1,2) by (auto simp: mp_def)
  moreover have "?yoe + y' div 400 * 400 = y'" by simp
  ultimately show ?thesis by (simp add: y'_def Let_def)
qed

theorem days_civil:
  assumes "civil_from_days z = (y, m, d)"
  shows "days_from_civil y m d = z" "1 \<le> m" "m \<le> 12" "1 \<le> d" "d \<le> days_in_month y m"
proof -
  let ?n = "z + 719468"
  obtain yoe doy where e: "0 \<le> yoe" "yoe < 400" "0 \<le> doy" "doy < march_year yoe" "?n mod 146097 = era_day yoe doy"
    by (rule era_day_covers [of "?n mod 146097"]) simp_all
  let ?mp = "(5 * doy + 2) div 153"
  have "doy \<le> 365" using e(4) by (simp add: march_year_def split: if_splits)
  note mp = doy_in_month [OF e(3) this]
  have y: "y = yoe + ?n div 146097 * 400 + (if m \<le> 2 then 1 else 0)" "m = (if ?mp < 10 then ?mp + 3 else ?mp - 9)"
      "d = doy - month_start ?mp + 1"
    using assms unfolding civil_from_days_alt Let_def e(5) year_of_era_day [OF e(1-4)] era_day_split by auto
  show m: "1 \<le> m" "m \<le> 12" using mp(1,2) by (simp_all add: y(2))
  have mp_eq: "?mp = (if m > 2 then m - 3 else m + 9)" using mp(1,2) by (simp add: y(2))
  have y': "(if m \<le> 2 then y - 1 else y) = yoe + ?n div 146097 * 400" using y(1) by simp
  have "(yoe + ?n div 146097 * 400) mod 400 = yoe" "(yoe + ?n div 146097 * 400) div 400 = ?n div 146097" using e(1,2) by simp_all
  note era = this
  have "days_from_civil y m d = ?n div 146097 * 146097 + era_day yoe (month_start ?mp + d - 1) - 719468"
    unfolding days_from_civil_alt Let_def y' era mp_eq [symmetric] ..
  also have "month_start ?mp + d - 1 = doy" by (simp add: y(3))
  finally show "days_from_civil y m d = z" using e(5) mult_div_mod_eq [of 146097 ?n] by linarith
  show "1 \<le> d" using mp(3) by (simp add: y(3))
  have "days_in_month y m = min (month_start (?mp + 1)) (march_year yoe) - month_start ?mp"
    by (rule month_length [OF m mp_eq]) (simp only: y' era(1))
  then show "d \<le> days_in_month y m" using mp(4) e(4) by (simp add: y(3))
qed


subsection \<open>The setters\<close>

definition utc_civil :: "timestamp \<Rightarrow> int \<times> int \<times> int" where
  "utc_civil t = civil_from_days (t div MS_PER_DAY)"

text \<open>ECMAScript's \<open>MakeDay\<close>: the month counts from 0 and may run over, as may the day.\<close>

definition make_day :: "int \<Rightarrow> int \<Rightarrow> int \<Rightarrow> int" where
  "make_day y mon d = days_from_civil (y + mon div 12) (mon mod 12 + 1) 1 + d - 1"

definition on_day :: "timestamp \<Rightarrow> int \<Rightarrow> js_date" where
  "on_day t day = time_clip (day * MS_PER_DAY + t mod MS_PER_DAY)"

definition setUTCDate :: "(int \<Rightarrow> int) \<Rightarrow> timestamp \<Rightarrow> js_date" where
  "setUTCDate f t = (case utc_civil t of (y, m, d) \<Rightarrow> on_day t (make_day y (m - 1) (f d)))"

definition addUTCMonths :: "int \<Rightarrow> timestamp \<Rightarrow> js_date" where
  "addUTCMonths n t = (case utc_civil t of (y, m, d) \<Rightarrow> on_day t (make_day y (m - 1 + n) d))"

definition addUTCFullYears :: "int \<Rightarrow> timestamp \<Rightarrow> js_date" where
  "addUTCFullYears n t = (case utc_civil t of (y, m, d) \<Rightarrow> on_day t (make_day (y + n) (m - 1) d))"

text \<open>\<open>next.setUTCHours(next.getUTCHours() + n)\<close> and the like: the larger units stay, the smaller ones too.\<close>

definition addUTCHours :: "int \<Rightarrow> timestamp \<Rightarrow> js_date" where
  "addUTCHours n t = time_clip (t div MS_PER_DAY * MS_PER_DAY + (t mod MS_PER_DAY div 3600000 + n) * 3600000 + t mod 3600000)"

definition addUTCMinutes :: "int \<Rightarrow> timestamp \<Rightarrow> js_date" where
  "addUTCMinutes n t = time_clip (t div 3600000 * 3600000 + (t mod 3600000 div 60000 + n) * 60000 + t mod 60000)"

text \<open>The sum is a double, which the setter truncates to an integer.\<close>

definition addUTCSeconds :: "(rat \<Rightarrow> rat) \<Rightarrow> rat \<Rightarrow> timestamp \<Rightarrow> js_date" where
  "addUTCSeconds rounding s t =
     time_clip (t div 60000 * 60000 + \<lfloor>rounding (of_int (t mod 60000 div 1000) + rounding s)\<rfloor> * 1000 + t mod 1000)"

text \<open>\<open>Date.UTC\<close> reads the years 0 to 99 as 1900 to 1999.\<close>

definition lastDayOfUtcMonth :: "int \<Rightarrow> int \<Rightarrow> int option" where
  "lastDayOfUtcMonth year monthIndex =
     (let yr = (if 0 \<le> year \<and> year \<le> 99 then 1900 + year else year) in
      map_option (\<lambda>t. case utc_civil t of (y, m, d) \<Rightarrow> d) (time_clip (make_day yr (monthIndex + 1) 0 * MS_PER_DAY)))"

subsection \<open>Durations\<close>

record iso_duration =
  du_years :: nat
  du_months :: nat
  du_days :: nat
  du_hours :: nat
  du_minutes :: nat
  du_seconds :: rat

text \<open>A group \<open>(?:(\d+)u)?\<close> of the pattern, with the number it denotes: 0 where it is absent.\<close>

definition take_unit :: "char \<Rightarrow> string \<Rightarrow> nat \<times> string" where
  "take_unit u s = (let ds = takeWhile is_digit_char s in
     case dropWhile is_digit_char s of
       c # rest \<Rightarrow> if ds \<noteq> [] \<and> c = u then (digits_value ds, rest) else (0, s)
     | [] \<Rightarrow> (0, s))"

definition take_seconds :: "string \<Rightarrow> rat \<times> string" where
  "take_seconds s = (let ds = takeWhile is_digit_char s in
     if ds = [] then (0, s)
     else case dropWhile is_digit_char s of
        CHR ''S'' # rest \<Rightarrow> (of_nat (digits_value ds), rest)
      | CHR ''.'' # r \<Rightarrow>
          (let fs = takeWhile is_digit_char r in
           case dropWhile is_digit_char r of
             CHR ''S'' # rest \<Rightarrow> if fs = [] then (0, s)
               else (of_nat (digits_value ds) + of_nat (digits_value fs) / 10 ^ length fs, rest)
           | _ \<Rightarrow> (0, s))
      | _ \<Rightarrow> (0, s))"

text \<open>\<open>ISO8601_DURATION_PATTERN\<close>: after \<open>T\<close> every group may be absent too.\<close>

definition parse_duration :: "string \<Rightarrow> iso_duration option" where
  "parse_duration s =
     (case s of
        CHR ''P'' # r \<Rightarrow>
          (let (y, r1) = take_unit CHR ''Y'' r; (mo, r2) = take_unit CHR ''M'' r1; (dy, r3) = take_unit CHR ''D'' r2 in
           case r3 of
             [] \<Rightarrow> Some \<lparr>du_years = y, du_months = mo, du_days = dy, du_hours = 0, du_minutes = 0, du_seconds = 0\<rparr>
           | CHR ''T'' # r4 \<Rightarrow>
               (let (h, r5) = take_unit CHR ''H'' r4; (mi, r6) = take_unit CHR ''M'' r5; (sec, r7) = take_seconds r6 in
                if r7 = [] then Some \<lparr>du_years = y, du_months = mo, du_days = dy, du_hours = h, du_minutes = mi, du_seconds = sec\<rparr>
                else None)
           | _ \<Rightarrow> None)
      | _ \<Rightarrow> None)"

text \<open>The day is set to 1 while year and month move, then to the original day or the last of the month.\<close>

definition addYearsMonths :: "int \<Rightarrow> int \<Rightarrow> timestamp \<Rightarrow> js_date" where
  "addYearsMonths years months t =
     (case utc_civil t of (_, _, originalDay) \<Rightarrow>
        Option.bind (setUTCDate (\<lambda>_. 1) t) (\<lambda>t1.
        Option.bind (addUTCFullYears years t1) (\<lambda>t2.
        Option.bind (addUTCMonths months t2) (\<lambda>t3.
        case utc_civil t3 of (y, m, _) \<Rightarrow>
          Option.bind (lastDayOfUtcMonth y (m - 1)) (\<lambda>lastDay. setUTCDate (\<lambda>_. min originalDay lastDay) t3)))))"

definition addDuration :: "(rat \<Rightarrow> rat) \<Rightarrow> iso_duration \<Rightarrow> timestamp \<Rightarrow> js_date" where
  "addDuration rounding du t =
     Option.bind (if du_years du \<noteq> 0 \<or> du_months du \<noteq> 0 then addYearsMonths (int (du_years du)) (int (du_months du)) t else Some t) (\<lambda>t1.
     Option.bind (setUTCDate (\<lambda>d. d + int (du_days du)) t1) (\<lambda>t2.
     Option.bind (addUTCHours (int (du_hours du)) t2) (\<lambda>t3.
     Option.bind (addUTCMinutes (int (du_minutes du)) t3) (\<lambda>t4.
     addUTCSeconds rounding (du_seconds du) t4))))"


definition addIso8601Duration :: "(rat \<Rightarrow> rat) \<Rightarrow> timestamp \<Rightarrow> string \<Rightarrow> error + js_date" where
  "addIso8601Duration rounding t durationExpression =
     (let trimmed = js_trim durationExpression in
      case parse_duration trimmed of
        None \<Rightarrow> Inl (TriggerError (InvalidScheduleExpressionError durationExpression interval))
      | Some du \<Rightarrow> if trimmed = ''P'' then Inl (TriggerError (InvalidScheduleExpressionError durationExpression interval))
          else Inr (addDuration rounding du t))"

subsection \<open>Addition is calendar arithmetic\<close>

lemma time_clip_Some: "time_clip t = Some t' \<Longrightarrow> t' = t"
  by (simp add: time_clip_def split: if_splits)

lemma on_day_Some: "on_day t day = Some t' \<Longrightarrow> t' div MS_PER_DAY = day \<and> t' mod MS_PER_DAY = t mod MS_PER_DAY"
  by (auto simp: on_day_def MS_PER_DAY_def dest!: time_clip_Some)

lemma make_day_in_year: "1 \<le> m \<Longrightarrow> m \<le> 12 \<Longrightarrow> make_day y (m - 1) d = days_from_civil y m 1 + d - 1"
  by (simp add: make_day_def)

lemma days_from_civil_day: "days_from_civil y m d = days_from_civil y m 1 + d - 1"
  by (simp add: days_from_civil_def Let_def)

lemma first_of_month:
  assumes "1 \<le> m" "m \<le> 12"
  shows "civil_from_days (days_from_civil y m 1) = (y, m, 1)"
  by (rule civil_days [OF assms]) (auto simp: days_in_month_def)

lemma on_day_shift:
  assumes "on_day t (t div MS_PER_DAY + n) = Some t'"
  shows "t' = t + n * MS_PER_DAY"
  using on_day_Some [OF assms] mult_div_mod_eq [of MS_PER_DAY t] mult_div_mod_eq [of MS_PER_DAY t'] unfolding MS_PER_DAY_def by linarith

lemma day_added:
  assumes "setUTCDate (\<lambda>d. d + n) t = Some t'"
  shows "t' = t + n * MS_PER_DAY"
proof -
  obtain y m d where c: "utc_civil t = (y, m, d)" by (cases "utc_civil t")
  note z = days_civil [OF c [unfolded utc_civil_def]]
  have "make_day y (m - 1) (d + n) = t div MS_PER_DAY + n"
    using make_day_in_year [OF z(2,3), of y "d + n"] z(1) days_from_civil_day [of y m d] by linarith
  then show ?thesis using assms c by (intro on_day_shift) (simp add: setUTCDate_def)
qed

lemma unit_added:
  fixes t :: int
  assumes "t' = t div a * a + (t mod a div b + n) * b + t mod b" "b dvd a"
  shows "t' = t + n * b"
proof -
  have "b * (t mod a div b) + t mod b = t mod a" using mult_div_mod_eq [of b "t mod a"] by (simp only: mod_mod_cancel [OF assms(2)])
  moreover have "t div a * a + (t mod a div b + n) * b + t mod b = t div a * a + (b * (t mod a div b) + t mod b) + n * b"
    by (simp add: algebra_simps)
  ultimately show ?thesis unfolding assms(1) by simp
qed

lemma hours_added: "addUTCHours n t = Some t' \<Longrightarrow> t' = t + n * 3600000"
  by (rule unit_added [where a = MS_PER_DAY]) (auto simp: addUTCHours_def MS_PER_DAY_def dest!: time_clip_Some)

lemma minutes_added: "addUTCMinutes n t = Some t' \<Longrightarrow> t' = t + n * 60000"
  by (rule unit_added [where a = 3600000]) (auto simp: addUTCMinutes_def dest!: time_clip_Some)

lemma seconds_added:
  assumes "addUTCSeconds rounding (of_int n) t = Some t'" "\<And>k. rounding (of_int k) = of_int k"
  shows "t' = t + n * 1000"
proof (rule unit_added [where a = 60000])
  have "rounding (of_int (t mod 60000 div 1000) + rounding (of_int n)) = of_int (t mod 60000 div 1000 + n)"
    by (simp only: assms(2) of_int_add [symmetric])
  then have "\<lfloor>rounding (of_int (t mod 60000 div 1000) + rounding (of_int n))\<rfloor> = t mod 60000 div 1000 + n" by (simp only: floor_of_int)
  with time_clip_Some [OF assms(1) [unfolded addUTCSeconds_def]]
  show "t' = t div 60000 * 60000 + (t mod 60000 div 1000 + n) * 1000 + t mod 1000" by (simp only:)
qed simp

text \<open>The first of March, counted over all years\<close>

lemma div_parts:
  fixes k :: int
  assumes "0 < k" "0 < c"
  shows "y div k = c * (y div (k * c)) + y mod (k * c) div k"
  using assms by (simp add: zmod_zmult2_eq zdiv_zmult2_eq)

lemma march_first: "y div 400 * 146097 + era_day (y mod 400) doy = 365 * y + y div 4 - y div 100 + y div 400 + doy"
proof -
  have "y div 4 = 100 * (y div 400) + y mod 400 div 4" "y div 100 = 4 * (y div 400) + y mod 400 div 100"
    using div_parts [of 4 100 y] div_parts [of 100 4 y] by simp_all
  moreover have "400 * (y div 400) + y mod 400 = y" by (rule mult_div_mod_eq)
  ultimately show ?thesis unfolding era_day_def by linarith
qed

lemma div_step:
  assumes "0 < (k :: int)"
  shows "(y + 1) div k = y div k + (if (y + 1) mod k = 0 then 1 else 0)"
proof -
  have e: "k * ((y + 1) div k) + (y + 1) mod k = y + 1" by (rule mult_div_mod_eq)
  have b: "0 \<le> (y + 1) mod k" "(y + 1) mod k < k" using assms by simp_all
  show ?thesis
  proof (cases "(y + 1) mod k = 0")
    case True
    have "k * ((y + 1) div k - 1) = y + 1 - k" using e True by (simp only: right_diff_distrib mult_1_right)
    then have "y div k = (y + 1) div k - 1"
      by (intro int_div_pos_eq [where r = "k - 1"]) (use assms in linarith)+
    with True show ?thesis by simp
  next
    case False
    have "y div k = (y + 1) div k"
      by (rule int_div_pos_eq [where r = "(y + 1) mod k - 1"]) (use e b False in linarith)+
    with False show ?thesis by simp
  qed
qed

lemma mod_shift:
  assumes "k dvd 400"
  shows "(y mod 400 + 1) mod k = (y + 1) mod (k :: int)"
proof -
  have "(y mod 400 + 1) mod k = (y mod 400 mod k + 1) mod k" by (simp add: mod_add_left_eq)
  then show ?thesis unfolding mod_mod_cancel [OF assms] by (simp add: mod_add_left_eq)
qed

lemma march_year_step:
  "(y + 1) div 400 * 146097 + era_day ((y + 1) mod 400) 0 = y div 400 * 146097 + era_day (y mod 400) (march_year (y mod 400))"
proof -
  have "leap_year (y mod 400 + 1) = leap_year (y + 1)" by (simp add: leap_year_def mod_shift)
  then have l: "march_year (y mod 400) = (if (y + 1) mod 4 = 0 \<and> ((y + 1) mod 100 \<noteq> 0 \<or> (y + 1) mod 400 = 0) then 366 else 365)"
    by (simp only: march_year_def) (simp only: leap_year_def)
  have sum: "(if a \<and> (\<not> b \<or> c) then 366 else 365) = 365 + ((if a then 1 else 0) - (if b then 1 else 0) + (if c then 1 else (0 :: int)))"
    if "c \<longrightarrow> b" "b \<longrightarrow> a" for a b c
    using that by (cases a; cases b; cases c; simp)
  have dvd: "x mod b = 0 \<longrightarrow> x mod a = 0" if "a dvd b" for a b x :: int
    using mod_mod_cancel [OF that, of x] by (metis mod_0)
  have imp: "(y + 1) mod 100 = 0 \<longrightarrow> (y + 1) mod 4 = 0" "(y + 1) mod 400 = 0 \<longrightarrow> (y + 1) mod 100 = 0" by (rule dvd, simp)+
  have m: "march_year (y mod 400) = 365 + ((if (y + 1) mod 4 = 0 then 1 else 0) - (if (y + 1) mod 100 = 0 then 1 else 0)
      + (if (y + 1) mod 400 = 0 then 1 else 0))"
    unfolding l by (rule sum [OF imp(2,1)])
  have d: "(y + 1) div 4 = y div 4 + (if (y + 1) mod 4 = 0 then 1 else 0)" "(y + 1) div 100 = y div 100 + (if (y + 1) mod 100 = 0 then 1 else 0)"
    "(y + 1) div 400 = y div 400 + (if (y + 1) mod 400 = 0 then 1 else 0)" by (rule div_step, simp)+
  have "365 * (y + 1) + (a + x) - (b + w) + (c + z) + 0 = 365 * y + a - b + c + (365 + (x - w + z))" for a b c x w z by simp
  then show ?thesis unfolding march_first unfolding m d .
qed

text \<open>A month ends where the next one begins.\<close>

lemma month_step:
  assumes "1 \<le> m" "m \<le> 12"
  shows "make_day y m 1 = days_from_civil y m 1 + days_in_month y m"
proof -
  define y' mp where "y' = (if m \<le> 2 then y - 1 else y)" and "mp = (if m > 2 then m - 3 else m + 9)"
  have len: "days_in_month y m = min (month_start (mp + 1)) (march_year (y' mod 400)) - month_start mp"
    by (rule month_length [OF assms]) (simp_all add: mp_def y'_def)
  have here: "days_from_civil y m 1 = y' div 400 * 146097 + era_day (y' mod 400) (month_start mp) - 719468"
    by (simp add: days_from_civil_alt y'_def mp_def Let_def)
  show ?thesis
  proof (cases "m = 2")
    case True
    then have "make_day y m 1 = (y' + 1) div 400 * 146097 + era_day ((y' + 1) mod 400) 0 - 719468"
      by (simp add: make_day_def days_from_civil_alt y'_def Let_def month_start_def)
    moreover have "min (month_start (mp + 1)) (march_year (y' mod 400)) = march_year (y' mod 400)"
      using True by (simp add: mp_def month_start_def march_year_def)
    ultimately show ?thesis unfolding here len march_year_step by (simp add: era_day_def)
  next
    case False
    then have mp: "0 \<le> mp" "mp \<le> 10" using assms by (auto simp: mp_def)
    have "make_day y m 1 = y' div 400 * 146097 + era_day (y' mod 400) (month_start (mp + 1)) - 719468"
    proof -
      have "m = 1 \<or> m = 3 \<or> m = 4 \<or> m = 5 \<or> m = 6 \<or> m = 7 \<or> m = 8 \<or> m = 9 \<or> m = 10 \<or> m = 11 \<or> m = 12" using assms False by presburger
      then show ?thesis by (elim disjE) (simp_all add: make_day_def days_from_civil_alt y'_def mp_def Let_def)
    qed
    moreover have "month_start (mp + 1) \<le> month_start 11" using mp by (simp add: month_start_def zdiv_mono1)
    then have "min (month_start (mp + 1)) (march_year (y' mod 400)) = month_start (mp + 1)"
      by (simp add: month_start_def march_year_def)
    ultimately show ?thesis unfolding here len by (simp add: era_day_def)
  qed
qed

lemma last_day:
  assumes "lastDayOfUtcMonth y (m - 1) = Some d" "100 \<le> y" "1 \<le> m" "m \<le> 12"
  shows "d = days_in_month y m"
proof -
  have "make_day y m 0 = days_from_civil y m (days_in_month y m)"
    using month_step [OF assms(3,4), of y] days_from_civil_day [of y m "days_in_month y m"] by (simp add: make_day_def)
  moreover have "civil_from_days (days_from_civil y m (days_in_month y m)) = (y, m, days_in_month y m)"
    by (rule civil_days [OF assms(3,4)]) (auto simp: days_in_month_def)
  ultimately show ?thesis
    using assms by (auto simp: lastDayOfUtcMonth_def utc_civil_def MS_PER_DAY_def dest!: time_clip_Some)
qed

text \<open>The month \<open>n\<close> months after January of year 0, and the day of it that \<open>d\<close> is clamped to\<close>

definition clamped_day :: "int \<Rightarrow> int \<Rightarrow> int" where
  "clamped_day n d = (let y = n div 12; m = n mod 12 + 1 in days_from_civil y m (min d (days_in_month y m)))"

lemma years_months_added:
  assumes "addYearsMonths years months t = Some t'" "utc_civil t = (y, m, d)" "100 \<le> y" "0 \<le> years" "0 \<le> months"
  shows "t' div MS_PER_DAY = clamped_day (12 * (y + years) + (m - 1) + months) d \<and> t' mod MS_PER_DAY = t mod MS_PER_DAY"
proof -
  note z = days_civil [OF assms(2) [unfolded utc_civil_def]]
  obtain t1 t2 t3 where 1: "setUTCDate (\<lambda>_. 1) t = Some t1" and 2: "addUTCFullYears years t1 = Some t2" and 3: "addUTCMonths months t2 = Some t3"
    and 4: "(case utc_civil t3 of (y, m, _) \<Rightarrow> Option.bind (lastDayOfUtcMonth y (m - 1)) (\<lambda>lastDay. setUTCDate (\<lambda>_. min d lastDay) t3)) = Some t'"
    using assms(1,2) by (auto simp: addYearsMonths_def bind_eq_Some_conv)
  have d1: "t1 div MS_PER_DAY = days_from_civil y m 1" "t1 mod MS_PER_DAY = t mod MS_PER_DAY"
    using 1 assms(2) on_day_Some [of t _ t1] by (auto simp: setUTCDate_def make_day_in_year z(2,3))
  have c1: "utc_civil t1 = (y, m, 1)" by (simp add: utc_civil_def d1 first_of_month z(2,3))
  have d2: "t2 div MS_PER_DAY = days_from_civil (y + years) m 1" "t2 mod MS_PER_DAY = t mod MS_PER_DAY"
    using 2 c1 d1(2) on_day_Some [of t1 _ t2] by (auto simp: addUTCFullYears_def make_day_in_year z(2,3))
  have c2: "utc_civil t2 = (y + years, m, 1)" by (simp add: utc_civil_def d2 first_of_month z(2,3))
  define n where "n = 12 * (y + years) + (m - 1) + months"
  have n: "n div 12 = y + years + (m - 1 + months) div 12" "n mod 12 = (m - 1 + months) mod 12"
    using div_mult_self4 [of 12 "y + years" "m - 1 + months"] mod_mult_self4 [of 12 "y + years" "m - 1 + months"]
    by (simp_all add: n_def add.assoc)
  have d3: "t3 div MS_PER_DAY = days_from_civil (n div 12) (n mod 12 + 1) 1" "t3 mod MS_PER_DAY = t mod MS_PER_DAY"
    using 3 c2 d2(2) on_day_Some [of t2 _ t3] by (auto simp: addUTCMonths_def make_day_def n)
  have m3: "1 \<le> n mod 12 + 1" "n mod 12 + 1 \<le> 12" by simp_all
  have c3: "utc_civil t3 = (n div 12, n mod 12 + 1, 1)" unfolding utc_civil_def d3 by (rule first_of_month [OF m3])
  obtain l where l: "lastDayOfUtcMonth (n div 12) (n mod 12 + 1 - 1) = Some l" "setUTCDate (\<lambda>_. min d l) t3 = Some t'"
    using 4 unfolding c3 by (auto simp: bind_eq_Some_conv)
  have "100 \<le> n div 12" using assms(3-5) z(2) zdiv_mono1 [of 1200 n 12] by (simp add: n_def)
  from last_day [OF l(1) this m3] have "setUTCDate (\<lambda>_. min d (days_in_month (n div 12) (n mod 12 + 1))) t3 = Some t'" using l(2) by simp
  then have "on_day t3 (make_day (n div 12) (n mod 12 + 1 - 1) (min d (days_in_month (n div 12) (n mod 12 + 1)))) = Some t'"
    by (simp only: setUTCDate_def c3 prod.case)
  from on_day_Some [OF this] show ?thesis
    unfolding n_def [symmetric]
    by (simp only: d3(2) make_day_in_year [OF m3] clamped_day_def Let_def days_from_civil_day [symmetric])
qed

lemma clamped_same:
  assumes "civil_from_days z = (y, m, d)"
  shows "clamped_day (12 * y + (m - 1)) d = z"
proof -
  note c = days_civil [OF assms]
  have "(12 * y + (m - 1)) div 12 = y" "(12 * y + (m - 1)) mod 12 + 1 = m" using c(2,3) by simp_all
  then show ?thesis using c(1,5) by (simp add: clamped_day_def Let_def)
qed

text \<open>
  C12. Adding a duration is calendar arithmetic. Whenever the result is a date, it is the day of the month shifted by the
  years and months, clamped to the length of the target month, then moved by the days, hours, minutes and seconds, at
  the same time of day: no month is skipped, whatever the day the schedule started on. The years 0 to 99 are left
  out, which \<open>Date.UTC\<close> reads as 1900 to 1999.
\<close>

theorem duration_is_calendar_arithmetic:
  assumes "addDuration rounding du t = Some t'" "utc_civil t = (y, m, d)" "100 \<le> y"
    and "du_seconds du = of_int s" "\<And>k. rounding (of_int k) = of_int k"
  shows "t' = clamped_day (12 * (y + int (du_years du)) + (m - 1) + int (du_months du)) d * MS_PER_DAY + t mod MS_PER_DAY
    + int (du_days du) * MS_PER_DAY + int (du_hours du) * 3600000 + int (du_minutes du) * 60000 + s * 1000"
proof -
  let ?ym = "if du_years du \<noteq> 0 \<or> du_months du \<noteq> 0 then addYearsMonths (int (du_years du)) (int (du_months du)) t else Some t"
  let ?day = "clamped_day (12 * (y + int (du_years du)) + (m - 1) + int (du_months du)) d"
  obtain t1 t2 t3 t4 where 1: "?ym = Some t1" and 2: "setUTCDate (\<lambda>d. d + int (du_days du)) t1 = Some t2"
    and 3: "addUTCHours (int (du_hours du)) t2 = Some t3" "addUTCMinutes (int (du_minutes du)) t3 = Some t4"
    and 4: "addUTCSeconds rounding (of_int s) t4 = Some t'"
    using assms(1,4) by (auto simp: addDuration_def bind_eq_Some_conv split del: if_split)
  have "t1 div MS_PER_DAY = ?day \<and> t1 mod MS_PER_DAY = t mod MS_PER_DAY"
  proof (cases "du_years du \<noteq> 0 \<or> du_months du \<noteq> 0")
    case True
    with 1 show ?thesis by (intro years_months_added [OF _ assms(2,3)]) simp_all
  next
    case False
    with 1 clamped_same [OF assms(2) [unfolded utc_civil_def]] show ?thesis by simp
  qed
  then have "t1 = ?day * MS_PER_DAY + t mod MS_PER_DAY" using div_mult_mod_eq [of t1 MS_PER_DAY] by simp
  with day_added [OF 2] hours_added [OF 3(1)] minutes_added [OF 3(2)] seconds_added [OF 4 assms(5)] show ?thesis by simp
qed

text \<open>Two texts the pattern accepts that denote no time at all: the schedule would not move.\<close>

lemma setters_still: "setUTCDate (\<lambda>d. d + 0) t = time_clip t" "addUTCHours 0 t = time_clip t" "addUTCMinutes 0 t = time_clip t"
proof -
  obtain y m d where c: "utc_civil t = (y, m, d)" by (cases "utc_civil t")
  note z = days_civil [OF c [unfolded utc_civil_def]]
  have "make_day y (m - 1) (d + 0) = t div MS_PER_DAY"
    using make_day_in_year [OF z(2,3), of y d] z(1) days_from_civil_day [of y m d] by simp
  with c show "setUTCDate (\<lambda>d. d + 0) t = time_clip t" by (simp add: setUTCDate_def on_day_def)
  have "t div a * a + (t mod a div b + 0) * b + t mod b = t" if "b dvd a" for a b
    using unit_added [OF refl that, of t 0] by simp
  then show "addUTCHours 0 t = time_clip t" "addUTCMinutes 0 t = time_clip t"
    by (simp_all add: addUTCHours_def addUTCMinutes_def MS_PER_DAY_def)
qed

lemma empty_duration:
  assumes "\<bar>t\<bar> \<le> 8640000000000000" "\<And>k :: int. \<lfloor>rounding (of_int k + rounding s)\<rfloor> = k"
    "parse_duration (js_trim e) = Some \<lparr>du_years = 0, du_months = 0, du_days = 0, du_hours = 0, du_minutes = 0, du_seconds = s\<rparr>" "js_trim e \<noteq> ''P''"
  shows "addIso8601Duration rounding t e = Inr (Some t)"
proof -
  have c: "time_clip t = Some t" using assms(1) by (simp add: time_clip_def)
  have "t div 60000 * 60000 + (t mod 60000 div 1000) * 1000 + t mod 1000 = t"
    using unit_added [OF refl, of 1000 60000 t 0] by simp
  then have "addUTCSeconds rounding s t = Some t" by (simp only: addUTCSeconds_def assms(2) c)
  then show ?thesis
    using assms(3,4) setters_still [of t] by (simp add: addIso8601Duration_def addDuration_def c)
qed

lemma still_schedules:
  assumes "\<bar>t\<bar> \<le> 8640000000000000"
  shows "addIso8601Duration id t ''PT'' = Inr (Some t)" "addIso8601Duration id t ''PT0.5S'' = Inr (Some t)"
proof -
  have "js_trim ''PT'' = ''PT''" "js_trim ''PT0.5S'' = ''PT0.5S''" by code_simp+
  moreover have "parse_duration ''PT'' = Some \<lparr>du_years = 0, du_months = 0, du_days = 0, du_hours = 0, du_minutes = 0, du_seconds = 0\<rparr>"
    "parse_duration ''PT0.5S'' = Some \<lparr>du_years = 0, du_months = 0, du_days = 0, du_hours = 0, du_minutes = 0, du_seconds = 1/2\<rparr>" by code_simp+
  moreover have "\<lfloor>of_int k + (1/2 :: rat)\<rfloor> = k" for k by (rule floor_unique) simp_all
  ultimately show "addIso8601Duration id t ''PT'' = Inr (Some t)" "addIso8601Duration id t ''PT0.5S'' = Inr (Some t)"
    by (simp_all add: empty_duration [OF assms, where s = 0] empty_duration [OF assms, where s = "1/2"])
qed

end
