(* ===== verification/Triggers.thy ===== *)
theory Triggers
  imports Calendar Ingest
begin

text \<open>
  The creation of scheduled triggers (\<open>src/src/elora/triggers/createScheduledTrigger.ts\<close>,
  \<open>computeNextFireAt.ts\<close> and the two receipt writers). The cron library, the reading of a date text by the
  engine, the rounding of doubles, the timestamps PostgreSQL accepts and the message of an error are fields of
  \<open>trigger_clock\<close>.
\<close>

subsection \<open>The next fire time\<close>

record trigger_clock =
  tk_rounding :: "rat \<Rightarrow> rat"
  tk_dateParse :: "string \<Rightarrow> js_date"
  tk_cron :: "string \<Rightarrow> string \<Rightarrow> timestamp \<Rightarrow> (error + timestamp) option"
  tk_instant :: "timestamp \<Rightarrow> bool"
  tk_message :: "error \<Rightarrow> string"

definition invalid_schedule :: "string \<Rightarrow> schedule_kind \<Rightarrow> error" where
  "invalid_schedule e kind = TriggerError (InvalidScheduleExpressionError e kind)"

text \<open>
  \<open>tk_cron\<close> is \<open>None\<close> when the expression does not parse; when it has no further occurrence the error of
  \<open>next()\<close> is not caught.
\<close>

definition computeNextFireAt :: "trigger_clock \<Rightarrow> schedule_kind \<Rightarrow> string \<Rightarrow> string option \<Rightarrow> timestamp \<Rightarrow> error + js_date" where
  "computeNextFireAt k kind scheduleExpression timezone start =
     (case kind of
        one_off \<Rightarrow> (case tk_dateParse k scheduleExpression of
            None \<Rightarrow> Inl (invalid_schedule scheduleExpression one_off)
          | Some t \<Rightarrow> Inr (Some t))
      | interval \<Rightarrow> addIso8601Duration (tk_rounding k) start scheduleExpression
      | cron \<Rightarrow> (case tk_cron k scheduleExpression (or_else timezone ''UTC'') start of
            None \<Rightarrow> Inl (invalid_schedule scheduleExpression cron)
          | Some (Inl err) \<Rightarrow> Inl err
          | Some (Inr t) \<Rightarrow> Inr (Some t)))"

subsection \<open>Input\<close>

record create_trigger_input =
  ct_tenantId :: string
  ct_workspaceId :: "string option"
  ct_projectId :: "string option"
  ct_owningActorId :: string
  ct_createdByActorId :: string
  ct_scheduleKind :: string
  ct_scheduleExpression :: string
  ct_timezone :: "string option"
  ct_syntheticMessageContent :: string
  ct_triggerCategory :: "string option"

text \<open>The input once its ids and its kind are checked\<close>

record trigger_request =
  tq_tenantId :: uuid
  tq_workspaceId :: "uuid option"
  tq_projectId :: "uuid option"
  tq_owningActorId :: uuid
  tq_createdByActorId :: uuid
  tq_scheduleKind :: schedule_kind
  tq_scheduleExpression :: string
  tq_timezone :: "string option"
  tq_syntheticMessageContent :: string
  tq_triggerCategory :: "string option"

definition trigger_input_error :: "string \<Rightarrow> error" where
  "trigger_input_error reason = TriggerError (InvalidScheduledTriggerInputError reason)"

definition trigger_id :: "string \<Rightarrow> string \<Rightarrow> error + uuid" where
  "trigger_id label s = (case uuid_of_str s of None \<Rightarrow> Inl (trigger_input_error (label @ '' must be a valid UUID'')) | Some i \<Rightarrow> Inr i)"

definition optional_trigger_id :: "string \<Rightarrow> string option \<Rightarrow> error + uuid option" where
  "optional_trigger_id label v = (case v of None \<Rightarrow> Inr None
     | Some s \<Rightarrow> (case trigger_id label s of Inl err \<Rightarrow> Inl err | Inr i \<Rightarrow> Inr (Some i)))"

definition schedule_kind_of :: "string \<Rightarrow> schedule_kind option" where
  "schedule_kind_of s = (if s = ''cron'' then Some cron else if s = ''interval'' then Some interval
     else if s = ''one_off'' then Some one_off else None)"

definition validateTriggerInput :: "create_trigger_input \<Rightarrow> error + trigger_request" where
  "validateTriggerInput inp =
     sum_bind (trigger_id ''tenantId'' (ct_tenantId inp)) (\<lambda>tenantId.
     sum_bind (trigger_id ''owningActorId'' (ct_owningActorId inp)) (\<lambda>owningActorId.
     sum_bind (trigger_id ''createdByActorId'' (ct_createdByActorId inp)) (\<lambda>createdByActorId.
     sum_bind (optional_trigger_id ''workspaceId'' (ct_workspaceId inp)) (\<lambda>workspaceId.
     sum_bind (optional_trigger_id ''projectId'' (ct_projectId inp)) (\<lambda>projectId.
     case schedule_kind_of (ct_scheduleKind inp) of
       None \<Rightarrow> Inl (trigger_input_error (''scheduleKind must be one of cron/interval/one_off, got \"'' @ ct_scheduleKind inp @ ''\"''))
     | Some kind \<Rightarrow>
         if js_trim (ct_scheduleExpression inp) = [] then Inl (trigger_input_error ''scheduleExpression must not be empty'')
         else if js_trim (ct_syntheticMessageContent inp) = [] then Inl (trigger_input_error ''syntheticMessageContent must not be empty'')
         else Inr \<lparr>tq_tenantId = tenantId, tq_workspaceId = workspaceId, tq_projectId = projectId, tq_owningActorId = owningActorId,
           tq_createdByActorId = createdByActorId, tq_scheduleKind = kind, tq_scheduleExpression = ct_scheduleExpression inp,
           tq_timezone = ct_timezone inp, tq_syntheticMessageContent = ct_syntheticMessageContent inp,
           tq_triggerCategory = ct_triggerCategory inp\<rparr>)))))"

definition assertTriggerActorExists :: "client \<Rightarrow> uuid \<Rightarrow> uuid \<Rightarrow> string \<Rightarrow> unit dtx" where
  "assertTriggerActorExists c tenantId actorId label =
     tbind (query (\<lambda>d. scoped_rows c ac_id ac_tenant_id actorId tenantId (actors d))) (\<lambda>rows.
     ensure (rows \<noteq> []) (TriggerError (ScheduledTriggerActorNotFoundError label actorId)))"

definition contentFingerprint :: "env \<Rightarrow> string \<Rightarrow> string" where
  "contentFingerprint e content = take 16 (env_sha256 e content)"

definition triggerKey :: "env \<Rightarrow> trigger_request \<Rightarrow> string" where
  "triggerKey e q = buildIdempotencyKey [uuid_str (tq_tenantId q), uuid_str (tq_owningActorId q), schedule_kind_str (tq_scheduleKind q),
     tq_scheduleExpression q, contentFingerprint e (tq_syntheticMessageContent q)]"

subsection \<open>Receipts\<close>

definition triggerReceipt :: "env \<Rightarrow> uuid \<Rightarrow> uuid \<Rightarrow> receipt_payload \<Rightarrow> action_receipt" where
  "triggerReceipt e tenantId actorId payload = \<lparr>re_id = env_uuid e 0, re_tenant_id = tenantId, re_schema_version = 1,
     re_actor_id = actorId, re_acting_system = ''elora-triggers-v1'', re_created_at = env_now e 0, re_parent_receipt_id = None,
     re_supersedes_receipt_id = None, re_correction_receipt_id = None, re_payload = payload\<rparr>"

definition receipts_of_key :: "client \<Rightarrow> uuid \<Rightarrow> string \<Rightarrow> db \<Rightarrow> action_receipt_row list" where
  "receipts_of_key c tenantId key d =
     filter (\<lambda>r. re_tenant_id r = tenantId \<and> re_idempotency_key r = key) (rls_rows c re_tenant_id (action_receipts d))"

text \<open>What the two writers share: the schema, the insert, and the row found when its key was taken\<close>

definition insertTriggerReceipt :: "client \<Rightarrow> action_receipt \<Rightarrow> uuid option \<Rightarrow> string \<Rightarrow> action_receipt dtx" where
  "insertTriggerReceipt c receipt decisionId key =
     tbind (ensure (actionReceiptSchema_ok receipt) (ZodError ''actionReceipt'')) (\<lambda>_.
     tbind (rethrow (on_db_error (\<lambda>x. TriggerError (ScheduledTriggerReceiptWriteError x)))
       (insert_or_nothing
         (\<lambda>d. (re_tenant_id receipt, key) \<in> set (map (\<lambda>r. (re_tenant_id r, re_idempotency_key r)) (action_receipts d)))
         (insert_action_receipt (action_receipt.extend receipt (action_receipt_row.fields None None decisionId None key))))) (\<lambda>inserted.
     if inserted then treturn receipt
     else tbind (query (\<lambda>d. first_row (receipts_of_key c (re_tenant_id receipt) key d))) (\<lambda>row.
       case row of
         None \<Rightarrow> throw JsTypeError
       | Some r \<Rightarrow> tbind (ensure (actionReceiptSchema_ok (action_receipt.truncate r)) (ZodError ''actionReceipt'')) (\<lambda>_.
           treturn (action_receipt.truncate r)))))"

definition triggerReceiptKey :: "uuid \<Rightarrow> uuid \<Rightarrow> string" where
  "triggerReceiptKey tenantId triggerId = buildIdempotencyKey [uuid_str tenantId, uuid_str triggerId, ''receipt'', ''trigger_created'']"

definition writeTriggerCreatedReceipt :: "env \<Rightarrow> client \<Rightarrow> uuid \<Rightarrow> scheduled_trigger \<Rightarrow> uuid \<Rightarrow> authority_outcome \<Rightarrow> action_receipt dtx" where
  "writeTriggerCreatedReceipt e c tenantId trigger decisionId outcome = insertTriggerReceipt c
     (triggerReceipt e tenantId (tg_created_by_actor_id trigger) (trigger_created (tg_id trigger)
       (uuid_str (tg_owning_actor_id trigger)) (schedule_kind_str (tg_schedule_kind trigger)) outcome))
     (Some decisionId) (triggerReceiptKey tenantId (tg_id trigger))"

definition skippedReceiptKey :: "uuid \<Rightarrow> uuid \<Rightarrow> timestamp \<Rightarrow> string" where
  "skippedReceiptKey tenantId triggerId occurrence =
     buildIdempotencyKey [uuid_str tenantId, uuid_str triggerId, toISOString occurrence, ''receipt'', ''trigger_fire_skipped'']"

definition writeTriggerFireSkippedReceipt ::
  "env \<Rightarrow> client \<Rightarrow> uuid \<Rightarrow> scheduled_trigger \<Rightarrow> skip_reason \<Rightarrow> timestamp \<Rightarrow> action_receipt dtx" where
  "writeTriggerFireSkippedReceipt e c tenantId trigger reason occurrence = insertTriggerReceipt c
     (triggerReceipt e tenantId (tg_created_by_actor_id trigger) (trigger_fire_skipped (tg_id trigger)
       (uuid_str (tg_owning_actor_id trigger)) (uuid_str (tg_created_by_actor_id trigger)) reason occurrence))
     None (skippedReceiptKey tenantId (tg_id trigger) occurrence)"

subsection \<open>Creation\<close>

datatype create_trigger_result =
    created_result scheduled_trigger authority_decision uuid
  | blocked_result authority_outcome string authority_decision

text \<open>
  The schema's \<open>parse\<close> of a row; its dates have years of four digits. The parsed object drops the thread and
  the key, which no caller reads from it; the model returns the row.
\<close>

definition rowToTrigger :: "scheduled_trigger \<Rightarrow> error + scheduled_trigger" where
  "rowToTrigger row =
     (if scheduledTriggerSchema_ok row \<and> (case tg_next_fire_at row of None \<Rightarrow> True | Some t \<Rightarrow> length (toISOString t) = 24)
      then Inr row else Inl (ZodError ''scheduledTrigger''))"

definition triggerPersistenceError :: "string \<Rightarrow> error" where
  "triggerPersistenceError reason = TriggerError (ScheduledTriggerPersistenceError reason)"

definition rowToDecision :: "authority_decision \<Rightarrow> error + authority_decision" where
  "rowToDecision row = (if 0 < ad_schema_version row then Inr row else Inl (ZodError ''authorityDecision''))"

definition loadAlreadyCreatedResult :: "client \<Rightarrow> uuid \<Rightarrow> scheduled_trigger \<Rightarrow> create_trigger_result dtx" where
  "loadAlreadyCreatedResult c tenantId row =
     tbind (lift_result (rowToTrigger row)) (\<lambda>trigger.
     tbind (query (\<lambda>d. first_row (scoped_rows c ad_id ad_tenant_id (tg_authority_decision_id trigger) tenantId (authority_decisions d)))) (\<lambda>decision.
     case decision of
       None \<Rightarrow> throw (triggerPersistenceError (''scheduled_triggers row '' @ uuid_str (tg_id trigger) @
         '' references authority_decision_id '' @ uuid_str (tg_authority_decision_id trigger) @ '', which does not exist''))
     | Some row \<Rightarrow>
         tbind (lift_result (rowToDecision row)) (\<lambda>a.
         tbind (query (\<lambda>d. first_row (receipts_of_key c tenantId (triggerReceiptKey tenantId (tg_id trigger)) d))) (\<lambda>receipt.
         case receipt of
           None \<Rightarrow> throw (triggerPersistenceError (''scheduled_triggers row '' @ uuid_str (tg_id trigger) @
             '' has no corresponding trigger_created receipt''))
         | Some r \<Rightarrow> treturn (created_result trigger a (re_id r))))))"

definition AUTHORIZED_OUTCOMES :: "authority_outcome set" where
  "AUTHORIZED_OUTCOMES = {act, act_and_report}"

definition triggerDecision :: "env \<Rightarrow> trigger_request \<Rightarrow> resolved_authority \<Rightarrow> authority_decision" where
  "triggerDecision e q a = \<lparr>ad_id = env_uuid e 0, ad_tenant_id = tq_tenantId q, ad_schema_version = 1, ad_outcome = cls_outcome a,
     ad_requires_human_gatekeeper = cls_requires_human_gatekeeper a, ad_reason = Some (cls_reason a),
     ad_risk_level = Some (risk_str (cls_risk_level a)), ad_deciding_actor_id = Some (tq_createdByActorId q),
     ad_work_order_id = None, ad_run_id = None, ad_tool_invocation_id = None, ad_required_setup = cls_required_setup a,
     ad_resolved_via_standing_rule_id = cls_resolvedViaStandingRuleId a, ad_created_at = env_now e 1\<rparr>"

definition triggerRow :: "env \<Rightarrow> trigger_request \<Rightarrow> timestamp \<Rightarrow> scheduled_trigger" where
  "triggerRow e q firstFireAt = \<lparr>tg_id = env_uuid e 1, tg_tenant_id = tq_tenantId q, tg_workspace_id = tq_workspaceId q,
     tg_project_id = tq_projectId q, tg_owning_actor_id = tq_owningActorId q, tg_created_by_actor_id = tq_createdByActorId q,
     tg_authority_decision_id = env_uuid e 0, tg_status = tg_active, tg_schedule_kind = tq_scheduleKind q,
     tg_schedule_expression = tq_scheduleExpression q, tg_timezone = tq_timezone q,
     tg_synthetic_message_content = tq_syntheticMessageContent q, tg_trigger_category = tq_triggerCategory q,
     tg_next_fire_at = Some firstFireAt, tg_last_fired_at = None, tg_last_fired_work_order_id = None, tg_thread_id = None,
     tg_idempotency_key = triggerKey e q, tg_created_at = env_now e 1, tg_updated_at = env_now e 1\<rparr>"

definition triggers_of_key :: "client \<Rightarrow> uuid \<Rightarrow> string \<Rightarrow> db \<Rightarrow> scheduled_trigger list" where
  "triggers_of_key c tenantId key d =
     filter (\<lambda>x. tg_tenant_id x = tenantId \<and> tg_idempotency_key x = key) (rls_rows c tg_tenant_id (scheduled_triggers d))"

text \<open>
  \<open>toISOString\<close> of an invalid date throws, inside the \<open>try\<close> of the insert; so does PostgreSQL for an instant
  it cannot store.
\<close>

definition insertTrigger :: "trigger_clock \<Rightarrow> env \<Rightarrow> trigger_request \<Rightarrow> js_date \<Rightarrow> (scheduled_trigger option) dtx" where
  "insertTrigger k e q firstFireAt =
     rethrow (\<lambda>err. triggerPersistenceError (''scheduled_triggers insert failed: '' @ tk_message k err))
       (case firstFireAt of
          None \<Rightarrow> throw (PlainError ''Invalid time value'')
        | Some t \<Rightarrow>
            tbind (ensure (tk_instant k t) (DbError (CheckViolation ''scheduled_triggers''))) (\<lambda>_.
            tbind (insert_or_nothing
              (\<lambda>d. (tq_tenantId q, triggerKey e q) \<in> set (map (\<lambda>x. (tg_tenant_id x, tg_idempotency_key x)) (scheduled_triggers d)))
              (insert_scheduled_trigger (triggerRow e q t))) (\<lambda>inserted.
            treturn (if inserted then Some (triggerRow e q t) else None))))"

definition persistTrigger ::
  "trigger_clock \<Rightarrow> env \<Rightarrow> trigger_request \<Rightarrow> js_date \<Rightarrow> resolved_authority \<Rightarrow> client \<Rightarrow> create_trigger_result dtx" where
  "persistTrigger k e q firstFireAt authority c =
     (let decision = triggerDecision e q authority in
      tbind (rethrow (\<lambda>err. triggerPersistenceError (''authority_decisions insert failed: '' @ tk_message k err))
        (insert_authority_decision decision)) (\<lambda>_.
      if cls_outcome authority \<notin> AUTHORIZED_OUTCOMES
      then treturn (blocked_result (cls_outcome authority) (cls_reason authority) decision)
      else tbind (insertTrigger k e q firstFireAt) (\<lambda>inserted.
        case inserted of
          None \<Rightarrow>
            tbind (query (\<lambda>d. first_row (triggers_of_key c (tq_tenantId q) (triggerKey e q) d))) (\<lambda>raced.
            case raced of None \<Rightarrow> throw JsTypeError | Some row \<Rightarrow> loadAlreadyCreatedResult c (tq_tenantId q) row)
        | Some row \<Rightarrow>
            tbind (lift_result (rowToTrigger row)) (\<lambda>trigger.
            tbind (writeTriggerCreatedReceipt (env_at 2 e) c (tq_tenantId q) trigger (ad_id decision) (cls_outcome authority)) (\<lambda>receipt.
            treturn (created_result trigger decision (re_id receipt)))))))"

definition findExistingTrigger :: "env \<Rightarrow> trigger_request \<Rightarrow> client \<Rightarrow> (scheduled_trigger option) dtx" where
  "findExistingTrigger e q c =
     tbind (assertTriggerActorExists c (tq_tenantId q) (tq_owningActorId q) ''owningActorId'') (\<lambda>_.
     tbind (assertTriggerActorExists c (tq_tenantId q) (tq_createdByActorId q) ''createdByActorId'') (\<lambda>_.
     query (\<lambda>d. first_row (triggers_of_key c (tq_tenantId q) (triggerKey e q) d))))"

text \<open>The walk up the hierarchy starts from the creator, never from the named owner.\<close>

definition triggerAuthority :: "(string \<Rightarrow> (string \<Rightarrow> bool) option) \<Rightarrow> env \<Rightarrow> trigger_request \<Rightarrow> resolved_authority dop" where
  "triggerAuthority compile e q = resolveAuthorityWithHierarchy compile (env_at 1 e) (tq_tenantId q)
     \<lparr>ca_content = tq_syntheticMessageContent q, ca_taskType = tt_unknown, ca_resolvedProjectId = tq_projectId q\<rparr>
     (oreturn (tq_createdByActorId q))"

definition createScheduledTrigger ::
  "(string \<Rightarrow> (string \<Rightarrow> bool) option) \<Rightarrow> trigger_clock \<Rightarrow> env \<Rightarrow> create_trigger_input \<Rightarrow> create_trigger_result dop" where
  "createScheduledTrigger compile k e inp =
     (case validateTriggerInput inp of
        Inl err \<Rightarrow> othrow err
      | Inr q \<Rightarrow>
          (case computeNextFireAt k (tq_scheduleKind q) (tq_scheduleExpression q) (tq_timezone q) (env_now e 0) of
             Inl err \<Rightarrow> othrow err
           | Inr firstFireAt \<Rightarrow>
               obind (withTenantTransaction e (tq_tenantId q) (findExistingTrigger e q)) (\<lambda>existing.
               case existing of
                 Some row \<Rightarrow> withTenantTransaction e (tq_tenantId q) (\<lambda>c. loadAlreadyCreatedResult c (tq_tenantId q) row)
               | None \<Rightarrow>
                   obind (triggerAuthority compile e q) (\<lambda>authority.
                   withTenantTransaction e (tq_tenantId q) (persistTrigger k e q firstFireAt authority)))))"

end
