(* ===== verification/TriggerFire.thy ===== *)
theory TriggerFire
  imports Triggers
begin

text \<open>
  The firing of due triggers (\<open>src/src/elora/triggers/fireDueTriggers.ts\<close>, \<open>src/src/redis/triggerLock.ts\<close>): one
  occurrence is locked, checked again, and submitted to the ingestion. Redis is a parameter: the state
  \<open>'r\<close> with its conditional \<open>SET\<close>, \<open>GET\<close> and \<open>DEL\<close>. Each transaction commits before the next step, as in the code.
\<close>

subsection \<open>The lock\<close>

record 'r redis_api =
  rd_set_nx :: "'r \<Rightarrow> string \<Rightarrow> string \<Rightarrow> nat \<Rightarrow> (error + bool) \<times> 'r"
  rd_get :: "'r \<Rightarrow> string \<Rightarrow> error + string option"
  rd_del :: "'r \<Rightarrow> string \<Rightarrow> 'r"

definition FIRING_LOCK_TTL_MS :: nat where
  "FIRING_LOCK_TTL_MS = 120000"

record acquired_lock =
  al_key :: string
  al_token :: string

definition buildTriggerFiringLockKey :: "uuid \<Rightarrow> uuid \<Rightarrow> timestamp \<Rightarrow> string" where
  "buildTriggerFiringLockKey tenantId triggerId occurrence =
     ''trigger-firing-lock:'' @ uuid_str tenantId @ '':'' @ uuid_str triggerId @ '':'' @ toISOString occurrence"

definition acquireTriggerFiringLock :: "'r redis_api \<Rightarrow> env \<Rightarrow> string \<Rightarrow> nat \<Rightarrow> 'r \<Rightarrow> (error + acquired_lock option) \<times> 'r" where
  "acquireTriggerFiringLock api e key ttl r =
     (let token = uuid_str (env_uuid e 0) in
      case rd_set_nx api r key token ttl of
        (Inl err, r') \<Rightarrow> (Inl err, r')
      | (Inr ok, r') \<Rightarrow> (Inr (if ok then Some \<lparr>al_key = key, al_token = token\<rparr> else None), r'))"

text \<open>The script runs atomically: it deletes the key only while it holds this acquisition's token.\<close>

definition releaseTriggerFiringLock :: "'r redis_api \<Rightarrow> acquired_lock \<Rightarrow> 'r \<Rightarrow> (error + unit) \<times> 'r" where
  "releaseTriggerFiringLock api lock r =
     (case rd_get api r (al_key lock) of
        Inl err \<Rightarrow> (Inl err, r)
      | Inr held \<Rightarrow> (Inr (), if held = Some (al_token lock) then rd_del api r (al_key lock) else r))"

subsection \<open>The state of a firing\<close>

text \<open>Beside the database: the files of the tools, the model providers and Redis\<close>

type_synonym ('f, 'p, 'r, 'a) fop = "('f \<times> 'p \<times> 'r, 'a) wop"

definition on_ingest :: "('f, 'p, 'a) iop \<Rightarrow> ('f, 'p, 'r, 'a) fop" where
  "on_ingest m s = (case s of (d, f, p, r) \<Rightarrow> (case m (d, f, p) of (x, (d', f', p')) \<Rightarrow> (x, (d', f', p', r))))"

definition on_redis :: "('r \<Rightarrow> (error + 'a) \<times> 'r) \<Rightarrow> ('f, 'p, 'r, 'a) fop" where
  "on_redis m s = (case s of (d, f, p, r) \<Rightarrow> (case m r of (x, r') \<Rightarrow> (x, (d, f, p, r'))))"

text \<open>\<open>try { m } finally { fin }\<close>: an exception of \<open>fin\<close> replaces the outcome of \<open>m\<close>.\<close>

definition with_finally :: "('g, 'a) wop \<Rightarrow> ('g, unit) wop \<Rightarrow> ('g, 'a) wop" where
  "with_finally m fin s =
     (case m s of (x, s1) \<Rightarrow> (case fin s1 of (Inl err, s2) \<Rightarrow> (Inl err, s2) | (Inr _, s2) \<Rightarrow> (x, s2)))"

subsection \<open>Due triggers\<close>

text \<open>A row with its occurrence, the time it is due\<close>

type_synonym due_trigger = "scheduled_trigger \<times> timestamp"

definition normalizeTriggerRow :: "scheduled_trigger \<Rightarrow> error + due_trigger" where
  "normalizeTriggerRow row =
     (case tg_next_fire_at row of
        None \<Rightarrow> Inl (PlainError (''Scheduled trigger '' @ uuid_str (tg_id row) @ '' has no next_fire_at -- should never be selected as due''))
      | Some t \<Rightarrow> Inr (row, t))"

fun normalize_rows :: "scheduled_trigger list \<Rightarrow> error + due_trigger list" where
  "normalize_rows [] = Inr []"
| "normalize_rows (row # rows) =
     (case normalizeTriggerRow row of
        Inl err \<Rightarrow> Inl err
      | Inr x \<Rightarrow> (case normalize_rows rows of Inl err \<Rightarrow> Inl err | Inr xs \<Rightarrow> Inr (x # xs)))"

definition is_due :: "uuid \<Rightarrow> timestamp \<Rightarrow> scheduled_trigger \<Rightarrow> bool" where
  "is_due tenantId now x \<longleftrightarrow> tg_tenant_id x = tenantId \<and> tg_status x = tg_active \<and>
     (case tg_next_fire_at x of None \<Rightarrow> False | Some t \<Rightarrow> t \<le> now)"

definition selectDueTriggers :: "env \<Rightarrow> uuid \<Rightarrow> due_trigger list dop" where
  "selectDueTriggers e tenantId = withTenantTransaction e tenantId (\<lambda>c.
     tbind (query (\<lambda>d. order_by_asc (\<lambda>x. the (tg_next_fire_at x)) (filter (is_due tenantId (env_db_now e 0))
       (rls_rows c tg_tenant_id (scheduled_triggers d))))) (\<lambda>rows.
     lift_result (normalize_rows rows)))"

datatype fire_outcome =
    outcome_fired uuid "uuid option"
  | outcome_skipped uuid skip_reason
  | outcome_stale uuid
  | outcome_lock_contended uuid

definition triggerThread :: "env \<Rightarrow> uuid \<Rightarrow> scheduled_trigger \<Rightarrow> thread" where
  "triggerThread e tenantId trigger = \<lparr>th_id = env_uuid e 0, th_tenant_id = tenantId, th_workspace_id = tg_workspace_id trigger,
     th_project_id = tg_project_id trigger, th_title = ''Scheduled trigger '' @ uuid_str (tg_id trigger),
     th_originating_surface = Some ''scheduled_trigger''\<rparr>"

definition update_trigger :: "uuid \<Rightarrow> uuid \<Rightarrow> (scheduled_trigger \<Rightarrow> bool) \<Rightarrow> (scheduled_trigger \<Rightarrow> scheduled_trigger) \<Rightarrow> unit dtx" where
  "update_trigger i tenantId P f = modify (\<lambda>d. d\<lparr>scheduled_triggers :=
     update_where (\<lambda>x. tg_id x = i \<and> tg_tenant_id x = tenantId \<and> P x) f (scheduled_triggers d)\<rparr>)"

definition ensureTriggerThread :: "env \<Rightarrow> client \<Rightarrow> uuid \<Rightarrow> scheduled_trigger \<Rightarrow> uuid dtx" where
  "ensureTriggerThread e c tenantId trigger =
     (case tg_thread_id trigger of
        Some i \<Rightarrow> treturn i
      | None \<Rightarrow>
          (let threadRow = triggerThread e tenantId trigger in
           tbind (insert_thread threadRow) (\<lambda>_.
           tbind (query (\<lambda>d. \<exists>x\<in>set (scoped_rows c tg_id tg_tenant_id (tg_id trigger) tenantId (scheduled_triggers d)). tg_thread_id x = None)) (\<lambda>updated.
           tbind (update_trigger (tg_id trigger) tenantId (\<lambda>x. tg_thread_id x = None)
             (\<lambda>x. x\<lparr>tg_thread_id := Some (th_id threadRow), tg_updated_at := env_db_now e 0\<rparr>)) (\<lambda>_.
           if updated then treturn (th_id threadRow)
           else tbind (query (\<lambda>d. first_row (scoped_rows c tg_id tg_tenant_id (tg_id trigger) tenantId (scheduled_triggers d)))) (\<lambda>row.
             case row of
               None \<Rightarrow> throw JsTypeError
             | Some x \<Rightarrow> (case tg_thread_id x of None \<Rightarrow> throw JsTypeError | Some i \<Rightarrow> treturn i)))))))"

subsection \<open>One occurrence\<close>

text \<open>
  A call that opens its own transaction on another connection, made inside a transaction that has written
  nothing yet.
\<close>

definition own_connection :: "'a dop \<Rightarrow> 'a dtx" where
  "own_connection m d = (case m d of (Inl err, d') \<Rightarrow> Inl err | (Inr x, d') \<Rightarrow> Inr (x, d'))"

definition skipFiring :: "env \<Rightarrow> client \<Rightarrow> uuid \<Rightarrow> scheduled_trigger \<Rightarrow> skip_reason \<Rightarrow> timestamp \<Rightarrow> (fire_outcome + 'b) dtx" where
  "skipFiring e c tenantId fresh reason occurrence =
     tbind (writeTriggerFireSkippedReceipt e c tenantId fresh reason occurrence) (\<lambda>_.
     treturn (Inl (outcome_skipped (tg_id fresh) reason)))"

definition prepareFiring :: "env \<Rightarrow> uuid \<Rightarrow> due_trigger \<Rightarrow> (fire_outcome + scheduled_trigger \<times> uuid) dop" where
  "prepareFiring e tenantId due = withTenantTransaction e tenantId (\<lambda>c.
     tbind (query (\<lambda>d. first_row (scoped_rows c tg_id tg_tenant_id (tg_id (fst due)) tenantId (scheduled_triggers d)))) (\<lambda>row.
     case row of
       None \<Rightarrow> treturn (Inl (outcome_stale (tg_id (fst due))))
     | Some fresh \<Rightarrow>
         if tg_status fresh \<noteq> tg_active \<or> tg_next_fire_at fresh \<noteq> Some (snd due)
         then treturn (Inl (outcome_stale (tg_id (fst due))))
         else tbind (own_connection (resolvePersonaActorId (env_at 1 e) tenantId ''Elora'')) (\<lambda>eloraActorId.
           if tg_owning_actor_id fresh \<noteq> eloraActorId then skipFiring e c tenantId fresh owner_not_elora (snd due)
           else tbind (isOwnershipAssignmentAuthorized c tenantId (tg_created_by_actor_id fresh) (tg_owning_actor_id fresh)) (\<lambda>authorized.
             if \<not> authorized then skipFiring e c tenantId fresh ownership_unauthorized (snd due)
             else tbind (ensureTriggerThread e c tenantId fresh) (\<lambda>threadId. treturn (Inr (fresh, threadId)))))))"

definition triggerMessage :: "uuid \<Rightarrow> scheduled_trigger \<Rightarrow> uuid \<Rightarrow> timestamp \<Rightarrow> elora_ingress" where
  "triggerMessage tenantId fresh threadId occurrence = \<lparr>ig_tenantId = uuid_str tenantId,
     ig_workspaceId = map_option uuid_str (tg_workspace_id fresh), ig_projectId = map_option uuid_str (tg_project_id fresh),
     ig_threadId = Some (uuid_str threadId), ig_actorId = uuid_str (tg_owning_actor_id fresh),
     ig_content = tg_synthetic_message_content fresh, ig_sourceSurface = Some ''scheduled_trigger'',
     ig_sourceCorrelationId = Some (buildIdempotencyKey [uuid_str tenantId, uuid_str (tg_id fresh), toISOString occurrence]),
     ig_isSystemInitiated = Some True\<rparr>"

text \<open>A trigger of one occurrence has no next; the others count from the occurrence, not from the clock.\<close>

definition followingFireAt :: "trigger_clock \<Rightarrow> scheduled_trigger \<Rightarrow> timestamp \<Rightarrow> error + timestamp option" where
  "followingFireAt k fresh occurrence =
     (if tg_schedule_kind fresh = one_off then Inr None
      else case computeNextFireAt k (tg_schedule_kind fresh) (tg_schedule_expression fresh) (tg_timezone fresh) occurrence of
          Inl err \<Rightarrow> Inl err
        | Inr None \<Rightarrow> Inl (PlainError ''Invalid time value'')
        | Inr (Some t) \<Rightarrow> Inr (Some t))"

definition fired :: "timestamp \<Rightarrow> uuid option \<Rightarrow> timestamp option \<Rightarrow> scheduled_trigger \<Rightarrow> scheduled_trigger" where
  "fired now workOrderId nextFireAt x = x\<lparr>tg_last_fired_at := Some now, tg_last_fired_work_order_id := workOrderId,
     tg_next_fire_at := nextFireAt, tg_updated_at := now\<rparr>"

definition markFired :: "trigger_clock \<Rightarrow> env \<Rightarrow> uuid \<Rightarrow> uuid \<Rightarrow> uuid option \<Rightarrow> timestamp option \<Rightarrow> unit dop" where
  "markFired k e tenantId triggerId workOrderId nextFireAt = withTenantTransaction e tenantId (\<lambda>_.
     tbind (ensure (case nextFireAt of None \<Rightarrow> True | Some t \<Rightarrow> tk_instant k t) (DbError (CheckViolation ''scheduled_triggers''))) (\<lambda>_.
     tbind (require (\<lambda>d. fk_ok wo_id (work_orders d) workOrderId) (ForeignKeyViolation ''scheduled_triggers'')) (\<lambda>_.
     update_trigger triggerId tenantId (\<lambda>_. True) (fired (env_db_now e 0) workOrderId nextFireAt))))"

definition fireOccurrence ::
  "('f, 'p) ingest_host \<Rightarrow> trigger_clock \<Rightarrow> env \<Rightarrow> uuid \<Rightarrow> due_trigger \<Rightarrow> ('f, 'p, 'r, fire_outcome) fop" where
  "fireOccurrence h k e tenantId due =
     obind (on_db (prepareFiring (env_at 1 e) tenantId due)) (\<lambda>prepared.
     case prepared of
       Inl outcome \<Rightarrow> oreturn outcome
     | Inr (fresh, threadId) \<Rightarrow>
         obind (on_ingest (ingestUserMessage h (env_at 10 e) (triggerMessage tenantId fresh threadId (snd due)))) (\<lambda>result.
         case followingFireAt k fresh (snd due) of
           Inl err \<Rightarrow> othrow err
         | Inr nextFireAt \<Rightarrow>
             obind (on_db (markFired k (env_at 5 e) tenantId (tg_id fresh) (er_workOrderId result) nextFireAt)) (\<lambda>_.
             oreturn (outcome_fired (tg_id fresh) (er_workOrderId result)))))"

definition fireDueTrigger ::
  "('f, 'p) ingest_host \<Rightarrow> trigger_clock \<Rightarrow> 'r redis_api \<Rightarrow> env \<Rightarrow> uuid \<Rightarrow> due_trigger \<Rightarrow> ('f, 'p, 'r, fire_outcome) fop" where
  "fireDueTrigger h k api e tenantId due =
     obind (on_redis (acquireTriggerFiringLock api e (buildTriggerFiringLockKey tenantId (tg_id (fst due)) (snd due)) FIRING_LOCK_TTL_MS)) (\<lambda>lock.
     case lock of
       None \<Rightarrow> oreturn (outcome_lock_contended (tg_id (fst due)))
     | Some l \<Rightarrow> with_finally (fireOccurrence h k e tenantId due) (on_redis (releaseTriggerFiringLock api l)))"

subsection \<open>Polling\<close>

text \<open>Occurrence \<open>n\<close> of a pass reads its own part of the streams of ids and times.\<close>

primrec fireAll ::
  "('f, 'p) ingest_host \<Rightarrow> trigger_clock \<Rightarrow> 'r redis_api \<Rightarrow> env \<Rightarrow> uuid \<Rightarrow> nat \<Rightarrow> due_trigger list \<Rightarrow> ('f, 'p, 'r, fire_outcome list) fop" where
  "fireAll h k api e tenantId n [] = oreturn []"
| "fireAll h k api e tenantId n (due # rest) =
     obind (fireDueTrigger h k api (env_at (100 * Suc n) e) tenantId due) (\<lambda>outcome.
     obind (fireAll h k api e tenantId (Suc n) rest) (\<lambda>outcomes. oreturn (outcome # outcomes)))"

definition pollTenantOnce ::
  "('f, 'p) ingest_host \<Rightarrow> trigger_clock \<Rightarrow> 'r redis_api \<Rightarrow> env \<Rightarrow> uuid \<Rightarrow> ('f, 'p, 'r, fire_outcome list) fop" where
  "pollTenantOnce h k api e tenantId = obind (on_db (selectDueTriggers e tenantId)) (fireAll h k api e tenantId 0)"

text \<open>The tenants are listed without a tenant's transaction; an exception of one tenant's pass ends the whole pass.\<close>

primrec pollTenants ::
  "('f, 'p) ingest_host \<Rightarrow> trigger_clock \<Rightarrow> 'r redis_api \<Rightarrow> (nat \<Rightarrow> env) \<Rightarrow> nat \<Rightarrow> uuid list \<Rightarrow> ('f, 'p, 'r, fire_outcome list) fop" where
  "pollTenants h k api envs n [] = oreturn []"
| "pollTenants h k api envs n (t # ts) =
     obind (pollTenantOnce h k api (envs n) t) (\<lambda>outcomes.
     obind (pollTenants h k api envs (Suc n) ts) (\<lambda>rest. oreturn (outcomes @ rest)))"

definition pollAllTenantsOnce ::
  "('f, 'p) ingest_host \<Rightarrow> trigger_clock \<Rightarrow> 'r redis_api \<Rightarrow> (nat \<Rightarrow> env) \<Rightarrow> ('f, 'p, 'r, fire_outcome list) fop" where
  "pollAllTenantsOnce h k api envs = obind (on_db (\<lambda>d. (Inr (tenants d), d))) (pollTenants h k api envs 0)"

end
