(* ===== verification/TriggerProps.thy ===== *)
theory TriggerProps
  imports TriggerFire IngestProps AuthorityProps
begin

text \<open>
  Scheduled triggers: creation is decided before anything is stored, a poll is a step of its tenant, and only
  a trigger its owner may still be given fires.
\<close>

subsection \<open>Every poll is a step of its tenant\<close>

lemma wsteps_on_ingest: "wsteps R m \<Longrightarrow> wsteps R (on_ingest m)"
  by (auto simp: wsteps_def on_ingest_def split: prod.split) (metis fst_conv snd_conv)

locale trigger_contract = ingest_contract R t for R :: "db \<Rightarrow> db \<Rightarrow> bool" and t :: uuid +
  assumes trigger_inserted: "tg_tenant_id x = t \<Longrightarrow> steps R (insert_scheduled_trigger x)"
    and trigger_updated: "(\<And>x. tg_id (f x) = tg_id x \<and> tg_tenant_id (f x) = tg_tenant_id x) \<Longrightarrow> steps R (update_trigger i t P f)"
begin

lemma redis_keeps: "wsteps R (on_redis m)"
  by (auto simp: wsteps_def on_redis_def R_refl split: prod.split)

lemma finally_keeps: "wsteps R m \<Longrightarrow> wsteps R fin \<Longrightarrow> wsteps R (with_finally m fin)"
  unfolding wsteps_def with_finally_def
  by (auto split: prod.split sum.split) (metis R_trans fst_conv snd_conv)+

lemma own_connection_keeps: "osteps R m \<Longrightarrow> steps R (own_connection m)"
  by (auto simp: steps_def osteps_def own_connection_def split: prod.splits sum.splits) (metis snd_conv)

lemma receipt_once:
  assumes "re_tenant_id receipt = t" "receipt_type (re_payload receipt) \<noteq> ''state_transitioned''"
  shows "steps R (insertTriggerReceipt c receipt i key)"
proof -
  have "steps R (insert_or_nothing cf (insert_action_receipt (action_receipt.extend receipt x)))" for cf x
    using stepsD [OF receipt_inserted, of "action_receipt.extend receipt x"] assms
    by (auto simp: steps_def tx_simps action_receipt.defs R_refl)
  then show ?thesis
    unfolding insertTriggerReceipt_def by (auto intro!: steps_rules split: option.split)
qed

lemma due_read: "osteps R (selectDueTriggers e tenantId)"
  unfolding selectDueTriggers_def by (intro osteps_tx steps_rules)

lemma skipped: "tenantId = t \<Longrightarrow> steps R (skipFiring e c tenantId x reason occ)"
  unfolding skipFiring_def writeTriggerFireSkippedReceipt_def
  by (auto intro!: steps_rules receipt_once simp: triggerReceipt_def)

lemma thread_ensured: "tenantId = t \<Longrightarrow> steps R (ensureTriggerThread e c tenantId x)"
  unfolding ensureTriggerThread_def Let_def
  by (auto intro!: steps_rules thread_inserted trigger_updated simp: triggerThread_def split: option.split)

lemma prepared: "tenantId = t \<Longrightarrow> osteps R (prepareFiring e tenantId due)"
  unfolding prepareFiring_def resolvePersonaActorId_def
  by (auto intro!: osteps_tx steps_rules own_connection_keeps skipped thread_ensured
      simp: isOwnershipAssignmentAuthorized_def split: option.split)

lemma marked: "tenantId = t \<Longrightarrow> osteps R (markFired k e tenantId i w next)"
proof -
  assume t: "tenantId = t"
  have "steps R (require P err)" for P err by (auto simp: steps_def require_def R_refl)
  then show ?thesis
    unfolding markFired_def t by (intro osteps_tx steps_rules trigger_updated) (simp_all add: fired_def)
qed

lemma occurrence_fired:
  assumes "tenantId = t"
  shows "wsteps R (fireOccurrence h k e tenantId due)"
  unfolding fireOccurrence_def
  by (auto intro!: wsteps_obind wsteps_pure wsteps_on_db wsteps_on_ingest prepared marked ingested
      simp: triggerMessage_def assms uuid_roundtrip split: sum.split prod.split)

lemma due_fired: "tenantId = t \<Longrightarrow> wsteps R (fireDueTrigger h k api e tenantId due)"
  unfolding fireDueTrigger_def
  by (auto intro!: wsteps_obind wsteps_pure redis_keeps finally_keeps occurrence_fired split: option.split)

lemma all_fired: "tenantId = t \<Longrightarrow> wsteps R (fireAll h k api e tenantId n due)"
  by (induction due arbitrary: n) (auto intro!: wsteps_obind wsteps_pure due_fired)

lemma polled: "wsteps R (pollTenantOnce h k api e t)"
  unfolding pollTenantOnce_def by (intro wsteps_obind wsteps_on_db due_read all_fired refl)

end

lemma filter_update_other:
  "(\<And>x. tn (f x) = tn x) \<Longrightarrow> filter (\<lambda>r. tn r \<noteq> t) (update_where (\<lambda>x. A x \<and> tn x = t \<and> P x) f xs) = filter (\<lambda>r. tn r \<noteq> t) xs"
  by (induction xs) (auto simp: update_where_def)

interpretation trig: trigger_contract "turn_rel t" t for t
proof unfold_locales
  show "steps (turn_rel t) (insert_scheduled_trigger x)" if "tg_tenant_id x = t" for x
    using that
    by (intro turn_inserts frame_insert_scheduled_trigger)
      (auto simp: steps_def insert_scheduled_trigger_def tx_simps aside_defs intro!: mem_untouched_same)
  show "steps (turn_rel t) (update_trigger i t P f)" if "\<And>x. tg_id (f x) = tg_id x \<and> tg_tenant_id (f x) = tg_tenant_id x" for i P f
  proof (rule turn_inserts)
    have "map tg_id (update_where Q f xs) = map tg_id xs" for Q xs using that by (intro map_update_where) simp
    then show "steps (tenant_frame t) (update_trigger i t P f)"
      using that by (simp add: steps_def update_trigger_def modify_def tenant_frame_defs filter_update_other)
    show "steps aside (update_trigger i t P f)"
      by (auto simp: steps_def update_trigger_def modify_def aside_defs intro!: mem_untouched_same)
  qed
qed

text \<open>
  C11. A poll is a step of its tenant. Whatever Redis, the providers, the tools and the clock do, and whether the
  pass ends or throws, polling the due triggers of a tenant leads from a reachable database to a reachable one,
  appends to the audit tables only, and leaves the rows of every other tenant as they are.
\<close>

theorem poll_is_a_tenant_step:
  assumes "pollTenantOnce h k api e t (d, f, p, r) = (res, (d', f', p', r'))"
  shows "(reachable d \<longrightarrow> reachable d') \<and> audit_appends d d' \<and> (pk_ok d \<longrightarrow> pk_ok d' \<and> foreign_view t d' = foreign_view t d)"
proof -
  have "turn_rel t (fst (d, f, p, r)) (fst (snd (pollTenantOnce h k api e t (d, f, p, r))))"
    using trig.polled unfolding wsteps_def by (rule spec)
  then show ?thesis by (simp add: assms turn_rel_def tenant_frame_def)
qed

subsection \<open>What a firing does\<close>

text \<open>The persona of that name, and a trigger its owner may be given\<close>

definition persona_id :: "uuid \<Rightarrow> string \<Rightarrow> db \<Rightarrow> uuid option" where
  "persona_id t name d = map_option ac_id (first_row (filter (\<lambda>a. ac_tenant_id a = t \<and> ac_actor_name a = name) (actors d)))"

definition may_fire :: "uuid \<Rightarrow> db \<Rightarrow> scheduled_trigger \<Rightarrow> bool" where
  "may_fire t d x \<longleftrightarrow> persona_id t ''Elora'' d = Some (tg_owning_actor_id x) \<and>
     (tg_created_by_actor_id x = tg_owning_actor_id x \<or>
      (tg_owning_actor_id x, tg_created_by_actor_id x) \<in> (reports (tenant_superior t d))\<^sup>+)"

text \<open>The row of an occurrence, still as it was when the occurrence was selected\<close>

definition occurrence_of :: "uuid \<Rightarrow> due_trigger \<Rightarrow> db \<Rightarrow> scheduled_trigger \<Rightarrow> bool" where
  "occurrence_of t due d x \<longleftrightarrow> x \<in> set (scheduled_triggers d) \<and> tg_id x = tg_id (fst due) \<and> tg_tenant_id x = t \<and>
     tg_status x = tg_active \<and> tg_next_fire_at x = Some (snd due)"

lemma own_rows_filter:
  "filter (\<lambda>r. tenant_of r = t \<and> P r) (rls_rows \<lparr>cl_tenant = t, cl_rls = b\<rparr> tenant_of rows) = filter (\<lambda>r. tenant_of r = t \<and> P r) rows"
  by (auto simp: rls_rows_def intro!: filter_cong)

lemma persona_resolved:
  "resolvePersonaActorId e t name d = (res, d') \<Longrightarrow>
   d' = d \<and> (case res of Inl _ \<Rightarrow> persona_id t name d = None | Inr a \<Rightarrow> persona_id t name d = Some a)"
  by (auto simp: resolvePersonaActorId_def withTenantTransaction_def tx_simps tx_defs own_rows_filter persona_id_def
      split: sum.splits option.splits)

lemma ownership_authorised:
  "isOwnershipAssignmentAuthorized \<lparr>cl_tenant = t, cl_rls = b\<rparr> t creator owner d =
     Inr (creator = owner \<or> (owner, creator) \<in> (reports (tenant_superior t d))\<^sup>+, d)"
  using ownership_walk_iff [of "tenant_superior t d" owner "[owner]" owner creator]
  by (auto simp: isOwnershipAssignmentAuthorized_def tx_defs superior_own passed_start)

text \<open>A receipt is appended unless its key is taken.\<close>

definition receipt_appended :: "uuid \<Rightarrow> string \<Rightarrow> receipt_payload \<Rightarrow> db \<Rightarrow> db \<Rightarrow> bool" where
  "receipt_appended t key payload d d' \<longleftrightarrow>
     (if \<exists>r\<in>set (action_receipts d). re_tenant_id r = t \<and> re_idempotency_key r = key then d' = d
      else \<exists>r. re_tenant_id r = t \<and> re_idempotency_key r = key \<and> re_payload r = payload \<and>
        d' = d\<lparr>action_receipts := action_receipts d @ [r]\<rparr>)"

lemma receipt_insertD:
  assumes "insert_or_nothing P (insert_action_receipt row) d = Inr (b, d')"
  shows "if P d then d' = d else d' = d\<lparr>action_receipts := action_receipts d @ [row]\<rparr>"
  using assms by (cases "P d") (simp_all add: insert_or_nothing_def insert_action_receipt_def insert_into_def tx_defs split: if_splits)

lemma trigger_receipt_written:
  assumes "insertTriggerReceipt c receipt i key d = Inr (r, d')"
  shows "receipt_appended (re_tenant_id receipt) key (re_payload receipt) d d'"
proof -
  let ?row = "action_receipt.extend receipt (action_receipt_row.fields None None i None key)"
  let ?P = "\<lambda>d. (re_tenant_id receipt, key) \<in> set (map (\<lambda>r. (re_tenant_id r, re_idempotency_key r)) (action_receipts d))"
  have row: "re_tenant_id ?row = re_tenant_id receipt" "re_idempotency_key ?row = key" "re_payload ?row = re_payload receipt"
    by (simp_all add: action_receipt.defs action_receipt_row.defs)
  from assms obtain b where "insert_or_nothing ?P (insert_action_receipt ?row) d = Inr (b, d')"
    unfolding insertTriggerReceipt_def by (auto simp only: tx_simps split: if_splits option.splits)
  note ins = receipt_insertD [OF this]
  have P: "?P d \<longleftrightarrow> (\<exists>r\<in>set (action_receipts d). re_tenant_id r = re_tenant_id receipt \<and> re_idempotency_key r = key)" by force
  show ?thesis
    using ins row unfolding receipt_appended_def P by (cases "\<exists>r\<in>set (action_receipts d). re_tenant_id r = re_tenant_id receipt \<and> re_idempotency_key r = key") (simp, auto)
qed

definition skip_reason_of :: "uuid \<Rightarrow> db \<Rightarrow> scheduled_trigger \<Rightarrow> skip_reason" where
  "skip_reason_of t d x = (if persona_id t ''Elora'' d = Some (tg_owning_actor_id x) then ownership_unauthorized else owner_not_elora)"

text \<open>A skipped occurrence leaves one receipt, whenever it is polled.\<close>

definition occurrence_skipped :: "uuid \<Rightarrow> due_trigger \<Rightarrow> scheduled_trigger \<Rightarrow> skip_reason \<Rightarrow> db \<Rightarrow> db \<Rightarrow> bool" where
  "occurrence_skipped t due x reason d d' \<longleftrightarrow> occurrence_of t due d x \<and> \<not> may_fire t d x \<and> reason = skip_reason_of t d x \<and>
     receipt_appended t (skippedReceiptKey t (tg_id x) (snd due)) (trigger_fire_skipped (tg_id x)
       (uuid_str (tg_owning_actor_id x)) (uuid_str (tg_created_by_actor_id x)) reason (snd due)) d d'"

lemma skipFiring_writes:
  assumes "skipFiring e c t x reason occ d = Inr (res, d')"
  shows "res = Inl (outcome_skipped (tg_id x) reason) \<and> receipt_appended t (skippedReceiptKey t (tg_id x) occ)
     (trigger_fire_skipped (tg_id x) (uuid_str (tg_owning_actor_id x)) (uuid_str (tg_created_by_actor_id x)) reason occ) d d'"
proof -
  from assms obtain r where "writeTriggerFireSkippedReceipt e c t x reason occ d = Inr (r, d')"
    and "res = Inl (outcome_skipped (tg_id x) reason)"
    by (auto simp: skipFiring_def tx_simps)
  then show ?thesis
    using trigger_receipt_written [of c "triggerReceipt e t (tg_created_by_actor_id x) (trigger_fire_skipped (tg_id x)
       (uuid_str (tg_owning_actor_id x)) (uuid_str (tg_created_by_actor_id x)) reason occ)"]
    by (simp add: writeTriggerFireSkippedReceipt_def triggerReceipt_def)
qed

lemma prepare_cases:
  assumes "prepareFiring e t due d = (res, d')"
  obtains (unchanged) "d' = d" "\<And>y. res \<noteq> Inr (Inr y)" "\<And>out. res = Inr (Inl out) \<Longrightarrow> out = outcome_stale (tg_id (fst due))"
    | (skipped) x reason where "res = Inr (Inl (outcome_skipped (tg_id x) reason))" "occurrence_skipped t due x reason d d'"
    | (ready) x i where "res = Inr (Inr (x, i))" "occurrence_of t due d x" "may_fire t d x"
proof (cases res)
  case (Inl err)
  with assms have "d' = d" unfolding prepareFiring_def by (auto simp: withTenantTransaction_def split: sum.splits)
  with Inl show ?thesis by (intro unchanged) auto
next
  case (Inr y)
  let ?c = "\<lparr>cl_tenant = t, cl_rls = env_rls e\<rparr>"
  let ?row = "first_row (scoped_rows ?c tg_id tg_tenant_id (tg_id (fst due)) t (scheduled_triggers d))"
  note run = assms [unfolded Inr prepareFiring_def withTenantTransaction_Inr]
  show ?thesis
  proof (cases "\<exists>x. ?row = Some x \<and> tg_status x = tg_active \<and> tg_next_fire_at x = Some (snd due)")
    case False
    with run Inr show ?thesis
      by (intro unchanged) (auto simp: tbind_def query_def treturn_def split: option.splits if_splits)
  next
    case True
    then obtain x where x: "?row = Some x" "tg_status x = tg_active" "tg_next_fire_at x = Some (snd due)" by blast
    have occ: "occurrence_of t due d x" using scoped_first_row [OF x(1)] x(2,3) by (simp add: occurrence_of_def)
    obtain a where a: "resolvePersonaActorId (env_at 1 e) t ''Elora'' d = (Inr a, d)" "persona_id t ''Elora'' d = Some a"
      and rest: "(if tg_owning_actor_id x \<noteq> a then skipFiring e ?c t x owner_not_elora (snd due)
           else tbind (isOwnershipAssignmentAuthorized ?c t (tg_created_by_actor_id x) (tg_owning_actor_id x)) (\<lambda>authorized.
             if \<not> authorized then skipFiring e ?c t x ownership_unauthorized (snd due)
             else tbind (ensureTriggerThread e ?c t x) (\<lambda>threadId. treturn (Inr (x, threadId))))) d = Inr (y, d')"
      using run x
      by (auto simp: tbind_def query_def own_connection_def split: sum.splits prod.splits dest!: persona_resolved)
    show ?thesis
    proof (cases "may_fire t d x")
      case True
      with rest a(2) obtain i where "y = Inr (x, i)"
        by (auto simp: may_fire_def tbind_def ownership_authorised treturn_def split: sum.splits if_splits)
      with Inr show ?thesis by (intro ready [OF _ occ True]) simp
    next
      case False
      with rest a(2) have "skipFiring e ?c t x (skip_reason_of t d x) (snd due) d = Inr (y, d')"
        by (auto simp: may_fire_def skip_reason_of_def tbind_def ownership_authorised split: if_splits)
      from skipFiring_writes [OF this] show ?thesis
        by (intro skipped) (auto simp: occurrence_skipped_def occ False Inr)
    qed
  qed
qed


text \<open>A phase that touches nothing but Redis, or the database alone\<close>

lemma fireOccurrence_cases:
  assumes "fireOccurrence h k e t due (d, f, p, r) = (res, (d', f', p', r'))"
  obtains (unchanged) "d' = d" "f' = f" "p' = p" "\<And>out. res = Inr out \<Longrightarrow> out = outcome_stale (tg_id (fst due))"
    | (skipped) x reason where "res = Inr (outcome_skipped (tg_id x) reason)" "occurrence_skipped t due x reason d d'" "f' = f" "p' = p"
    | (failed) x err where "res = Inl err" "occurrence_of t due d x" "may_fire t d x"
    | (fired) x "next" w d1 where "res = Inr (outcome_fired (tg_id x) w)" "occurrence_of t due d x" "may_fire t d x"
        "followingFireAt k x (snd due) = Inr next" "markFired k (env_at 5 e) t (tg_id x) w next d1 = (Inr (), d')"
proof -
  obtain pr d1 where pr: "prepareFiring (env_at 1 e) t due d = (pr, d1)" by fastforce
  note run = assms [unfolded fireOccurrence_def]
  from pr show thesis
  proof (cases rule: prepare_cases)
    case unchanged
    with run pr show thesis
      by (intro that(1)) (auto simp: obind_def on_db_def oreturn_def split: sum.splits)
  next
    case (skipped x reason)
    with run pr show thesis
      by (intro that(2) [of x reason]) (auto simp: obind_def on_db_def oreturn_def)
  next
    case (ready x i)
    show thesis
    proof (cases res)
      case (Inl err)
      with ready show thesis by (intro that(3))
    next
      case (Inr out)
      with run pr ready obtain w "next" d2 where "out = outcome_fired (tg_id x) w" "followingFireAt k x (snd due) = Inr next"
          "markFired k (env_at 5 e) t (tg_id x) w next d2 = (Inr (), d')"
        by (auto simp: obind_def on_db_def on_ingest_def oreturn_def othrow_def split: sum.splits prod.splits)
      with Inr ready show thesis by (intro that(4)) auto
    qed
  qed
qed

lemma markFired_row:
  assumes "markFired k e t i w next d = (Inr (), d')" "y \<in> set (scheduled_triggers d')" "tg_id y = i" "tg_tenant_id y = t"
  shows "tg_next_fire_at y = next \<and> tg_last_fired_work_order_id y = w \<and> tg_last_fired_at y = Some (env_db_now e 0)"
proof -
  have "scheduled_triggers d' = update_where (\<lambda>x. tg_id x = i \<and> tg_tenant_id x = t) (fired (env_db_now e 0) w next) (scheduled_triggers d)"
    using assms(1) by (auto simp: markFired_def withTenantTransaction_Inr tx_simps update_trigger_def)
  with assms(2) obtain x where "y = (if tg_id x = i \<and> tg_tenant_id x = t then fired (env_db_now e 0) w next x else x)"
    by (auto simp only: update_where_def set_map image_iff)
  with assms(3,4) show ?thesis by (auto simp: fired_def split: if_splits)
qed

lemma fireDueTrigger_cases:
  fixes r :: 'r
  assumes "fireDueTrigger h k api e t due (d, f, p, r) = (res, (d', f', p', r'))"
  obtains (untouched) "d' = d" "f' = f" "p' = p" "\<And>out. res = Inr out \<Longrightarrow> out = outcome_lock_contended (tg_id (fst due))"
    | (locked) res1 and r1 r2 :: 'r where "fireOccurrence h k e t due (d, f, p, r1) = (res1, (d', f', p', r2))" "res = res1 \<or> (\<exists>err. res = Inl err)"
proof -
  obtain lk r1 where lk: "acquireTriggerFiringLock api e (buildTriggerFiringLockKey t (tg_id (fst due)) (snd due)) FIRING_LOCK_TTL_MS r = (lk, r1)"
    by fastforce
  note run = assms [unfolded fireDueTrigger_def]
  show thesis
  proof (cases "\<exists>l. lk = Inr (Some l)")
    case False
    with run lk show thesis
      by (intro that(1)) (auto simp: obind_def on_redis_def oreturn_def split: sum.splits option.splits)
  next
    case True
    then obtain l where l: "lk = Inr (Some l)" by blast
    obtain res1 d1 f1 p1 r2 where occ: "fireOccurrence h k e t due (d, f, p, r1) = (res1, (d1, f1, p1, r2))"
      by (metis prod.exhaust)
    from run lk l occ show thesis
      by (intro that(2) [of r1 res1 r2]) (auto simp: obind_def on_redis_def with_finally_def split: sum.splits prod.splits)
  qed
qed


text \<open>
  C9. A trigger fires only while its owner is Elora and its creator is the owner or a superior of the owner.
  If no row of the occurrence meets this, then whatever Redis, the providers and the tools do, and whether the call
  returns or throws, nothing is ingested: the files and the providers are untouched, and at most the
  receipt of the skipped occurrence is written, one however often it is polled.
\<close>

theorem unauthorised_triggers_never_fire:
  assumes "fireDueTrigger h k api e t due (d, f, p, r) = (res, (d', f', p', r'))"
    and "\<not> (\<exists>x. occurrence_of t due d x \<and> may_fire t d x)"
  shows "f' = f \<and> p' = p \<and> (d' = d \<or> (\<exists>x reason. occurrence_skipped t due x reason d d')) \<and>
    (case res of Inr (outcome_fired i w) \<Rightarrow> False | _ \<Rightarrow> True)"
  using assms(1)
proof (cases rule: fireDueTrigger_cases)
  case untouched
  then show ?thesis by (auto split: sum.split fire_outcome.split)
next
  case (locked res1 r1 r2)
  from locked(1) show ?thesis
  proof (cases rule: fireOccurrence_cases)
    case unchanged
    with locked(2) show ?thesis by (auto split: sum.split fire_outcome.split)
  next
    case (skipped x reason)
    with locked(2) show ?thesis by (auto split: sum.split fire_outcome.split)
  qed (use assms(2) in blast)+
qed

text \<open>
  C10. What became of an occurrence is what its outcome says. A contended or stale occurrence changed nothing; a
  skipped one left its receipt, with the reason that held; a fired one was authorised, and its trigger has moved on
  to the time that follows the occurrence, none for a trigger of one occurrence, and names the WorkOrder of the answer.
\<close>

theorem firing_outcomes:
  assumes "fireDueTrigger h k api e t due (d, f, p, r) = (Inr out, (d', f', p', r'))"
  shows "case out of
      outcome_lock_contended i \<Rightarrow> i = tg_id (fst due) \<and> d' = d \<and> f' = f \<and> p' = p
    | outcome_stale i \<Rightarrow> i = tg_id (fst due) \<and> d' = d \<and> f' = f \<and> p' = p
    | outcome_skipped i reason \<Rightarrow> (\<exists>x. tg_id x = i \<and> occurrence_skipped t due x reason d d') \<and> f' = f \<and> p' = p
    | outcome_fired i w \<Rightarrow> \<exists>x next. tg_id x = i \<and> occurrence_of t due d x \<and> may_fire t d x \<and> followingFireAt k x (snd due) = Inr next \<and>
        (tg_schedule_kind x = one_off \<longrightarrow> next = None) \<and>
        (\<forall>y\<in>set (scheduled_triggers d'). tg_id y = i \<and> tg_tenant_id y = t \<longrightarrow>
           tg_next_fire_at y = next \<and> tg_last_fired_work_order_id y = w \<and> tg_last_fired_at y \<noteq> None)"
  using assms
proof (cases rule: fireDueTrigger_cases)
  case untouched
  then show ?thesis by simp
next
  case (locked res1 r1 r2)
  then have "fireOccurrence h k e t due (d, f, p, r1) = (Inr out, (d', f', p', r2))" by auto
  then show ?thesis
  proof (cases rule: fireOccurrence_cases)
    case (fired x "next" w d1)
    have "tg_schedule_kind x = one_off \<longrightarrow> next = None" using fired(4) by (auto simp: followingFireAt_def)
    with fired(1-4) markFired_row [OF fired(5)] show ?thesis by auto
  qed auto
qed


subsection \<open>Creation\<close>

interpretation still: db_preorder "(=)"
  by unfold_locales simp_all

lemma triggerAuthority_reads: "triggerAuthority compile e q d = (x, d') \<Longrightarrow> d' = d"
proof -
  have "osteps (=) (triggerAuthority compile e q)"
    unfolding triggerAuthority_def resolveAuthorityWithHierarchy_def resolveHierarchy_tx_def Let_def
    by (auto intro!: still.osteps_obind still.osteps_pure still.osteps_tx still.steps_rules)
  then show "triggerAuthority compile e q d = (x, d') \<Longrightarrow> d' = d" by (metis osteps_def snd_conv)
qed

lemma findExisting_reads:
  "findExistingTrigger e q c d = Inr (row, d') \<Longrightarrow>
   d' = d \<and> row = first_row (triggers_of_key c (tq_tenantId q) (triggerKey e q) d)"
  by (auto simp: findExistingTrigger_def assertTriggerActorExists_def tx_simps)

lemma loadAlreadyCreated_reads:
  "loadAlreadyCreatedResult c t row d = Inr (res, d') \<Longrightarrow>
   d' = d \<and> (\<exists>a i. res = created_result row a i \<and> a \<in> set (authority_decisions d) \<and> ad_id a = tg_authority_decision_id row)"
  by (auto simp: loadAlreadyCreatedResult_def rowToTrigger_def rowToDecision_def lift_result_def tx_simps split: option.splits if_splits sum.splits
      dest!: scoped_first_row)

text \<open>A new trigger, with the decision that allowed it\<close>

definition trigger_stored :: "trigger_clock \<Rightarrow> env \<Rightarrow> trigger_request \<Rightarrow> resolved_authority \<Rightarrow> scheduled_trigger \<Rightarrow> db \<Rightarrow> db \<Rightarrow> bool" where
  "trigger_stored k e q auth x d d' \<longleftrightarrow> cls_outcome auth \<in> AUTHORIZED_OUTCOMES \<and>
     (\<exists>t. computeNextFireAt k (tq_scheduleKind q) (tq_scheduleExpression q) (tq_timezone q) (env_now e 0) = Inr (Some t) \<and> x = triggerRow e q t) \<and>
     (\<forall>y\<in>set (scheduled_triggers d). tg_tenant_id y = tq_tenantId q \<longrightarrow> tg_idempotency_key y \<noteq> triggerKey e q) \<and>
     receipt_appended (tq_tenantId q) (triggerReceiptKey (tq_tenantId q) (tg_id x))
       (trigger_created (tg_id x) (uuid_str (tq_owningActorId q)) (schedule_kind_str (tq_scheduleKind q)) (cls_outcome auth))
       (d\<lparr>authority_decisions := authority_decisions d @ [triggerDecision e q auth], scheduled_triggers := scheduled_triggers d @ [x]\<rparr>) d'"

lemma decision_inserted_eq: "insert_authority_decision a d = Inr (u, d') \<Longrightarrow> d' = d\<lparr>authority_decisions := authority_decisions d @ [a]\<rparr>"
  by (auto simp: insert_authority_decision_def insert_into_def split: if_splits)

lemma insertTrigger_Some:
  assumes "insertTrigger k e q date d = Inr (ins, d')"
    and "\<forall>y\<in>set (scheduled_triggers d). tg_tenant_id y = tq_tenantId q \<longrightarrow> tg_idempotency_key y \<noteq> triggerKey e q"
  shows "\<exists>t. date = Some t \<and> ins = Some (triggerRow e q t) \<and> d' = d\<lparr>scheduled_triggers := scheduled_triggers d @ [triggerRow e q t]\<rparr>"
proof -
  have fresh: "(tq_tenantId q, triggerKey e q) \<notin> (\<lambda>x. (tg_tenant_id x, tg_idempotency_key x)) ` set (scheduled_triggers d)"
    using assms(2) by auto
  obtain t where t: "date = Some t" using assms(1) by (cases date) (auto simp: insertTrigger_def tx_simps)
  have ins: "insert_scheduled_trigger x d = Inr (u, d1) \<Longrightarrow> d1 = d\<lparr>scheduled_triggers := scheduled_triggers d @ [x]\<rparr>" for x u d1
    by (auto simp: insert_scheduled_trigger_def insert_into_def split: if_splits)
  show ?thesis
    using assms(1) fresh by (auto simp: t insertTrigger_def tx_simps dest!: ins)
qed



end
