(* ===== verification/TriggerDemo.thy ===== *)
theory TriggerDemo
  imports TriggerProps IngestDemo
begin

text \<open>
  Triggers evaluated. Elora, actor 21, reports to the manager 22; actor 23 is a peer. The peer named Elora as the
  owner of trigger 40, which is due; Redis is a list of keys.
\<close>

definition demo_redis :: "(string \<times> string) list redis_api" where
  "demo_redis = \<lparr>rd_set_nx = (\<lambda>r k v _. if map_of r k = None then (Inr True, (k, v) # r) else (Inr False, r)),
     rd_get = (\<lambda>r k. Inr (map_of r k)), rd_del = (\<lambda>r k. filter (\<lambda>x. fst x \<noteq> k) r)\<rparr>"

definition demo_clock :: trigger_clock where
  "demo_clock = \<lparr>tk_rounding = id, tk_dateParse = (\<lambda>_. Some 0), tk_cron = (\<lambda>_ _ t. Some (Inr (t + 60000))), tk_instant = (\<lambda>_. True),
     tk_message = (\<lambda>_. ''failed'')\<rparr>"

definition demo_trigger :: scheduled_trigger where
  "demo_trigger = \<lparr>tg_id = 40, tg_tenant_id = 1, tg_workspace_id = None, tg_project_id = None, tg_owning_actor_id = 21,
     tg_created_by_actor_id = 23, tg_authority_decision_id = 50, tg_status = tg_active, tg_schedule_kind = one_off,
     tg_schedule_expression = ''2024-01-01'', tg_timezone = None, tg_synthetic_message_content = ''Hi'', tg_trigger_category = None,
     tg_next_fire_at = Some 0, tg_last_fired_at = None, tg_last_fired_work_order_id = None, tg_thread_id = None,
     tg_idempotency_key = ''k'', tg_created_at = 0, tg_updated_at = 0\<rparr>"

definition demo_crew :: db where
  "demo_crew = empty_db\<lparr>tenants := [1],
     actors := [\<lparr>ac_id = 21, ac_tenant_id = 1, ac_actor_name = ''Elora'', ac_reports_to_actor_id = Some 22\<rparr>,
                \<lparr>ac_id = 22, ac_tenant_id = 1, ac_actor_name = ''manager'', ac_reports_to_actor_id = None\<rparr>,
                \<lparr>ac_id = 23, ac_tenant_id = 1, ac_actor_name = ''peer'', ac_reports_to_actor_id = None\<rparr>],
     scheduled_triggers := [demo_trigger]\<rparr>"

lemma demo_crew_tables: "scheduled_triggers demo_crew = [demo_trigger]" "tenants demo_crew = [1]" "action_receipts demo_crew = []"
    "ac_id ` set (actors demo_crew) = {21, 22, 23}" "pk_ok demo_crew"
  by (auto simp: demo_crew_def empty_db_def pk_ok_def)

lemma demo_trigger_simps: "tg_id demo_trigger = 40" "tg_tenant_id demo_trigger = 1" "tg_status demo_trigger = tg_active"
    "tg_next_fire_at demo_trigger = Some 0" "tg_owning_actor_id demo_trigger = 21" "tg_created_by_actor_id demo_trigger = 23"
    "tg_schedule_kind demo_trigger = one_off"
  by (simp_all add: demo_trigger_def)

lemma demo_peer: "isOwnershipAssignmentAuthorized \<lparr>cl_tenant = 1, cl_rls = True\<rparr> 1 23 21 demo_crew = Inr (False, demo_crew)"
  by (simp add: isOwnershipAssignmentAuthorized_def tx_defs ownership_walk.simps superior_of_def scoped_rows_def rls_rows_def
      demo_crew_def empty_db_def)

lemma demo_elora: "resolvePersonaActorId e 1 ''Elora'' demo_crew = (Inr 21, demo_crew)"
  by (simp add: resolvePersonaActorId_def run_simps demo_crew_def empty_db_def)

lemma demo_unauthorised: "\<not> (\<exists>x. occurrence_of 1 (demo_trigger, 0) demo_crew x \<and> may_fire 1 demo_crew x)"
proof -
  have "\<not> may_fire 1 demo_crew demo_trigger"
    using demo_peer unfolding ownership_authorised by (simp add: may_fire_def demo_trigger_simps)
  then show ?thesis by (auto simp: occurrence_of_def demo_crew_tables)
qed

lemma uuid_str_not_Nil: "uuid_str i \<noteq> []"
  using length_uuid_str [of i] by force

lemma demo_rls: "env_rls demo_env" "env_rls (env_at n demo_env)"
  by (simp_all add: demo_env_def)

lemma demo_skip_written:
  "\<exists>r d'. writeTriggerFireSkippedReceipt e \<lparr>cl_tenant = 1, cl_rls = True\<rparr> 1 demo_trigger ownership_unauthorized 0 demo_crew = Inr (r, d')"
  by (simp add: writeTriggerFireSkippedReceipt_def insertTriggerReceipt_def triggerReceipt_def run_simps actionReceiptSchema_ok_def
      action_receipt.defs action_receipt_row.defs demo_trigger_simps demo_crew_tables uuid_str_not_Nil)


lemma demo_prepared:
  assumes "env_rls e"
  shows "\<exists>d'. prepareFiring e 1 (demo_trigger, 0) demo_crew = (Inr (Inl (outcome_skipped 40 ownership_unauthorized)), d')"
proof -
  obtain r d' where w: "writeTriggerFireSkippedReceipt e \<lparr>cl_tenant = 1, cl_rls = True\<rparr> 1 demo_trigger ownership_unauthorized 0 demo_crew = Inr (r, d')"
    using demo_skip_written by blast
  with assms show ?thesis
    by (simp add: prepareFiring_def withTenantTransaction_def tx_defs own_connection_def demo_elora skipFiring_def w demo_peer
        scoped_rows_def rls_rows_def demo_crew_tables demo_trigger_simps)
qed

lemma demo_skipped:
  assumes "env_rls e"
  shows "\<exists>d'. fireDueTrigger demo_ingest_host demo_clock demo_redis e 1 (demo_trigger, 0) (demo_crew, [], 0, []) =
     (Inr (outcome_skipped 40 ownership_unauthorized), (d', [], 0, []))"
proof -
  obtain d' where "prepareFiring (env_at 1 e) 1 (demo_trigger, 0) demo_crew = (Inr (Inl (outcome_skipped 40 ownership_unauthorized)), d')"
    using demo_prepared [of "env_at 1 e"] assms by auto
  then have "fireOccurrence demo_ingest_host demo_clock e 1 (demo_trigger, 0) (demo_crew, [], 0, r) =
      (Inr (outcome_skipped 40 ownership_unauthorized), (d', [], 0, r))" for r :: "(string \<times> string) list"
    by (simp add: fireOccurrence_def obind_def on_db_def oreturn_def)
  then show ?thesis
    by (simp add: fireDueTrigger_def obind_def on_redis_def acquireTriggerFiringLock_def demo_redis_def with_finally_def
        releaseTriggerFiringLock_def Let_def)
qed

theorem unauthorised_triggers_never_fire_witness:
  "\<exists>d' x. fireDueTrigger demo_ingest_host demo_clock demo_redis demo_env 1 (demo_trigger, 0) (demo_crew, [], 0, []) =
     (Inr (outcome_skipped 40 ownership_unauthorized), (d', [], 0, [])) \<and> (d' = demo_crew \<or> occurrence_skipped 1 (demo_trigger, 0) x ownership_unauthorized demo_crew d')"
proof -
  obtain d' where run: "fireDueTrigger demo_ingest_host demo_clock demo_redis demo_env 1 (demo_trigger, 0) (demo_crew, [], 0, []) =
     (Inr (outcome_skipped 40 ownership_unauthorized), (d', [], 0, []))" using demo_skipped [of demo_env] demo_rls by blast
  have "skip_reason_of 1 demo_crew demo_trigger = ownership_unauthorized"
    using persona_resolved [OF demo_elora] by (simp add: skip_reason_of_def demo_trigger_simps)
  then have "occurrence_skipped 1 (demo_trigger, 0) x reason demo_crew d' \<Longrightarrow> reason = ownership_unauthorized" for x reason
    by (auto simp: occurrence_skipped_def occurrence_of_def demo_crew_tables)
  with unauthorised_triggers_never_fire [OF run demo_unauthorised] run show ?thesis by blast
qed

theorem firing_outcomes_witness:
  "\<exists>d' x. fireDueTrigger demo_ingest_host demo_clock demo_redis demo_env 1 (demo_trigger, 0) (demo_crew, [], 0, []) =
     (Inr (outcome_skipped 40 ownership_unauthorized), (d', [], 0, [])) \<and> tg_id x = 40 \<and>
     occurrence_skipped 1 (demo_trigger, 0) x ownership_unauthorized demo_crew d'"
proof -
  obtain d' where run: "fireDueTrigger demo_ingest_host demo_clock demo_redis demo_env 1 (demo_trigger, 0) (demo_crew, [], 0, []) =
     (Inr (outcome_skipped 40 ownership_unauthorized), (d', [], 0, []))" using demo_skipped [of demo_env] demo_rls by blast
  from firing_outcomes [OF run] run show ?thesis by auto
qed


theorem poll_is_a_tenant_step_witness:
  "\<exists>d'. pollTenantOnce demo_ingest_host demo_clock demo_redis demo_env 1 (demo_crew, [], 0, []) =
     (Inr [outcome_skipped 40 ownership_unauthorized], (d', [], 0, [])) \<and> pk_ok d' \<and> foreign_view 1 d' = foreign_view 1 demo_crew"
proof -
  have "selectDueTriggers demo_env 1 demo_crew = (Inr [(demo_trigger, 0)], demo_crew)"
    by (simp add: selectDueTriggers_def run_simps is_due_def demo_crew_tables demo_trigger_simps lift_result_def normalizeTriggerRow_def)
      (simp add: demo_env_def)
  moreover obtain d' where "fireDueTrigger demo_ingest_host demo_clock demo_redis (env_at 100 demo_env) 1 (demo_trigger, 0) (demo_crew, [], 0, []) =
     (Inr (outcome_skipped 40 ownership_unauthorized), (d', [], 0, []))" using demo_skipped [of "env_at 100 demo_env"] demo_rls by blast
  ultimately have run: "pollTenantOnce demo_ingest_host demo_clock demo_redis demo_env 1 (demo_crew, [], 0, []) =
     (Inr [outcome_skipped 40 ownership_unauthorized], (d', [], 0, []))"
    by (simp add: pollTenantOnce_def obind_def on_db_def oreturn_def del: One_nat_def)
  from poll_is_a_tenant_step [OF run] run demo_crew_tables(5) show ?thesis by blast
qed

subsection \<open>A creation\<close>

definition demo_wish :: create_trigger_input where
  "demo_wish = \<lparr>ct_tenantId = uuid_str 1, ct_workspaceId = None, ct_projectId = None, ct_owningActorId = uuid_str 21,
     ct_createdByActorId = uuid_str 22, ct_scheduleKind = ''one_off'', ct_scheduleExpression = ''2024-01-01'', ct_timezone = None,
     ct_syntheticMessageContent = ''Hi'', ct_triggerCategory = None\<rparr>"

definition demo_request :: trigger_request where
  "demo_request = \<lparr>tq_tenantId = 1, tq_workspaceId = None, tq_projectId = None, tq_owningActorId = 21, tq_createdByActorId = 22,
     tq_scheduleKind = one_off, tq_scheduleExpression = ''2024-01-01'', tq_timezone = None, tq_syntheticMessageContent = ''Hi'',
     tq_triggerCategory = None\<rparr>"

definition demo_staff :: db where
  "demo_staff = demo_crew\<lparr>scheduled_triggers := []\<rparr>"

lemma demo_wish_valid: "validateTriggerInput demo_wish = Inr demo_request"
proof -
  have "js_trim ''2024-01-01'' = ''2024-01-01''" "js_trim ''Hi'' = ''Hi''" by code_simp+
  then show ?thesis
    by (simp add: validateTriggerInput_def demo_wish_def sum_bind_def trigger_id_def uuid_roundtrip optional_trigger_id_def schedule_kind_of_def
        demo_request_def)
qed

lemma demo_wish_authority: "\<exists>a. triggerAuthority demo_compile demo_env demo_request d = (Inr a, d) \<and> cls_outcome a = act_and_report \<and> cls_resolvedViaStandingRuleId a = None"
proof -
  have "cls_outcome (classifyAuthority \<lparr>ca_content = ''Hi'', ca_taskType = tt_unknown, ca_resolvedProjectId = None\<rparr>) = act_and_report"
    by code_simp
  then show ?thesis
    by (simp add: triggerAuthority_def demo_request_def resolveAuthorityWithHierarchy_def Let_def oreturn_def unresolved_def)
qed

lemma demo_wish_found: "findExistingTrigger demo_env demo_request \<lparr>cl_tenant = 1, cl_rls = True\<rparr> demo_staff = Inr (None, demo_staff)"
  by (simp add: findExistingTrigger_def assertTriggerActorExists_def triggers_of_key_def run_simps demo_request_def demo_staff_def
      demo_crew_def empty_db_def)


lemma demo_wish_persisted:
  assumes "cls_outcome a = act_and_report" "cls_resolvedViaStandingRuleId a = None"
  shows "\<exists>x b i d'. persistTrigger demo_clock demo_env demo_request (Some 0) a \<lparr>cl_tenant = 1, cl_rls = True\<rparr> demo_staff =
     Inr (created_result x b i, d')"
proof -
  let ?a = "triggerDecision demo_env demo_request a" and ?x = "triggerRow demo_env demo_request 0"
  let ?d1 = "demo_staff\<lparr>authority_decisions := [?a]\<rparr>"
  let ?d2 = "?d1\<lparr>scheduled_triggers := [?x]\<rparr>"
  have a: "insert_authority_decision ?a demo_staff = Inr ((), ?d1)"
    by (simp add: insert_authority_decision_def run_simps triggerDecision_def assms demo_request_def demo_staff_def demo_crew_def empty_db_def)
  have iso: "length (toISOString 0) = 24" by code_simp
  have x: "insertTrigger demo_clock demo_env demo_request (Some 0) ?d1 = Inr (Some ?x, ?d2)"
    by (simp add: insertTrigger_def insert_scheduled_trigger_def run_simps ensure_def demo_clock_def triggerRow_def triggerDecision_def demo_request_def
        demo_staff_def demo_crew_def empty_db_def rethrow_def)
  have r: "rowToTrigger ?x = Inr ?x"
    using iso by (simp add: rowToTrigger_def scheduledTriggerSchema_ok_def triggerRow_def demo_request_def)
  have "\<exists>r d'. writeTriggerCreatedReceipt (env_at 2 demo_env) \<lparr>cl_tenant = 1, cl_rls = True\<rparr> 1 ?x (ad_id ?a) act_and_report ?d2 = Inr (r, d')"
    by (simp add: writeTriggerCreatedReceipt_def insertTriggerReceipt_def triggerReceipt_def run_simps actionReceiptSchema_ok_def rethrow_def
        action_receipt.defs action_receipt_row.defs uuid_str_not_Nil triggerRow_def triggerDecision_def demo_request_def demo_staff_def demo_crew_def empty_db_def)
  then obtain r d' where "writeTriggerCreatedReceipt (env_at 2 demo_env) \<lparr>cl_tenant = 1, cl_rls = True\<rparr> 1 ?x (ad_id ?a) act_and_report ?d2 = Inr (r, d')"
    by blast
  moreover have "tq_tenantId demo_request = 1" by (simp add: demo_request_def)
  ultimately show ?thesis
    using a x r by (simp add: persistTrigger_def Let_def tx_defs assms AUTHORIZED_OUTCOMES_def)
qed


subsection \<open>A duration\<close>

text \<open>A month after the 31st of January 2024 at noon is noon of the 29th of February.\<close>

theorem duration_is_calendar_arithmetic_witness:
  "addDuration id \<lparr>du_years = 0, du_months = 1, du_days = 0, du_hours = 0, du_minutes = 0, du_seconds = 0\<rparr> 1706702400000 = Some 1709208000000 \<and>
     utc_civil 1709208000000 = (2024, 2, 29) \<and> clamped_day (12 * 2024 + 1) 31 * MS_PER_DAY + 43200000 = 1709208000000"
proof -
  let ?du = "\<lparr>du_years = 0, du_months = 1, du_days = 0, du_hours = 0, du_minutes = 0, du_seconds = 0\<rparr>"
  have run: "addDuration id ?du 1706702400000 = Some 1709208000000" "utc_civil 1706702400000 = (2024, 1, 31)" "utc_civil 1709208000000 = (2024, 2, 29)"
      "1706702400000 mod MS_PER_DAY = 43200000"
    by code_simp+
  from duration_is_calendar_arithmetic [OF run(1,2), of 0] run show ?thesis by simp
qed

end
