(* ===== verification/Spec2Isabelle.thy ===== *)
theory Spec2Isabelle
  imports Runtime DirectiveProps CognitionProps MemoryProps WorkspaceProps AuthorityProps GatewayProps ModelOpsProps ConversationProps Hybrid IngestDemo BriefingDemo TriggerDemo
begin

text \<open>
  Vireon CORE, a multi-tenant runtime that turns messages into audited work. Every request becomes rows of
  one PostgreSQL database; engines move those rows through explicit state machines, write receipts for
  what they did, and gate every outside effect by a recorded authority decision. All paths below are
  relative to the repository; \<open>src/src/\<close> is the runtime package.

  \<^bold>\<open>How the theories correspond to the code\<close>

  \<^item> \<open>Prelude\<close> holds the effect types. \<open>tx\<close> is a statement inside an open transaction (it may throw, and
    then nothing of it is kept), \<open>op\<close> an operation between transactions (what it committed before it
    threw stays). The locale \<open>step_preorder\<close> lifts a relation between the database before and after
    from single statements to whole operations. \<open>Text\<close>, \<open>Json\<close>, \<open>Regex\<close>, \<open>Paths\<close> and \<open>Ids\<close> model what
    the code uses of the language: decimal and ISO texts, \<open>JSON\<close>, regular expressions, the POSIX
    half of \<open>path\<close>, UUID texts and idempotency keys (\<open>shared/ids.ts\<close>).
  \<^item> \<open>Schemas\<close>, \<open>Errors\<close>, \<open>Database\<close>: the records of \<open>schemas/*.ts\<close> and of the migrations, every error
    class, and the tables with their keys, foreign keys, checks and row-level security
    (\<open>db/withTenantTransaction.ts\<close>, \<open>db/assertTenantScopedReference.ts\<close>). \<open>Frames\<close> says what an
    operation of one tenant may do to the database as a whole.
  \<^item> \<open>Lifecycle\<close> is the contract shared by the audited entities, a locale interpreted for WorkOrders,
    Directives and CognitiveRuns: a transition table, terminal states, and the histories it allows.
  \<^item> \<open>WorkOrderState\<close>, \<open>WorkOrder\<close> (\<open>state/*.ts\<close>): creation, the one transition routine, delegation
    receipts. \<open>WorkOrderStep\<close> specifies a committed transition as a step relation, \<open>WorkOrderInv\<close> the
    invariant, \<open>WorkOrderProps\<close> the contract the callers use.
  \<^item> \<open>DirectiveState\<close>, \<open>Directives\<close>, \<open>DirectiveInv\<close>, \<open>DirectiveProps\<close> (\<open>directives/*.ts\<close>): the ledger of
    directives with its dedupe pipeline, revisions, verbs, suppressions and reads.
  \<^item> \<open>Cognition\<close>, \<open>CognitionInv\<close>, \<open>CognitionProps\<close> (\<open>cognition/*.ts\<close>): CognitiveRuns.
  \<^item> \<open>Memory\<close>, \<open>MemoryInv\<close>, \<open>MemoryProps\<close>, \<open>Vectors\<close> (\<open>elora/memory/*.ts\<close>): candidates, versioned records,
    deletion, embeddings and their vector text.
  \<^item> \<open>Workspace\<close>, \<open>WorkspaceProps\<close>, \<open>Gateway\<close>, \<open>Tools\<close>, \<open>GatewayProps\<close> (\<open>tools/*.ts\<close>): path containment
    over an abstract file system, the tool registry, the gateway and the three core tools.
  \<^item> \<open>Authority\<close>, \<open>AuthorityProps\<close> (\<open>elora/classifyAuthority.ts\<close>, \<open>parseIntent.ts\<close>, \<open>resolveEloraRoute.ts\<close>,
    \<open>resolveAuthorityWithHierarchy.ts\<close>): cue classification, routing, and the reporting hierarchy.
  \<^item> \<open>World\<close>, \<open>WorldProps\<close>: the world state (\<open>elora/world-state/\<close>): entities, claims with their evidence and
    conflicts, and the proof that a claim cites records of its own tenant only.
  \<^item> \<open>Policy\<close>, \<open>PolicyProps\<close>: the content policy of model requests (\<open>elora/llm/contentPolicy/\<close>): the JSON
    values that may be sent, detection and redaction of secrets.
  \<^item> \<open>Zod\<close>, \<open>ModelOps\<close>, \<open>Operations\<close>, \<open>ModelOpsProps\<close>: schemas of model outputs, the executor of
    provider calls with its audit record (\<open>elora/llm/executeModelOperation.ts\<close>), the provider adapters and
    selection, and the operations built on them (\<open>synthesizeResponse\<close>, \<open>runEmbedding\<close>, \<dots>). Proved: every
    call leaves one record that ends as its outcome says, and a request with a secret is never sent.
  \<^item> \<open>ThreadContext\<close>, \<open>Conversation\<close>, \<open>ConversationProps\<close>: the first stages of a message (ingress,
    thread, message, memory, context) and the coordinator of a conversational turn
    (\<open>cognition/runConversationalCognitiveRun.ts\<close>), whose outcomes are tied to the recorded run.
  \<^item> \<open>Hybrid\<close>: retrieval by full text and vectors, fused by reciprocal ranks
    (\<open>elora/memory/retrieveHybridMemory.ts\<close>).
  \<^item> \<open>Execution\<close>, \<open>Ingest\<close> (\<open>elora/ingestUserMessage.ts\<close>, \<open>runToolExecution.ts\<close> and the receipt writers): the
    whole path of a message from the raw request to the answer, over the database, the files and the state
    of the model providers. \<open>IngestProps\<close> lifts the tenant relation and two frame relations through every
    stage by the locales \<open>talk_contract\<close> and \<open>ingest_contract\<close>; \<open>IngestPath\<close> follows one WorkOrder through
    the stages and shows that the answer says what is recorded. \<open>IngestDemo\<close> evaluates two ingestions.
  \<^item> \<open>BriefingRank\<close>, \<open>Briefing\<close>, \<open>BriefingIssue\<close>, \<open>BriefingProps\<close> (\<open>briefing/*.ts\<close>): the candidates of a briefing, their
    lanes, ranks and first move, the prose, the issuing transaction with the file it writes, and the reads. Proved: an issue is
    stored once, the candidates are exact, the first move is the best one. \<open>BriefingDemo\<close> evaluates an issue.
  \<^item> \<open>Calendar\<close>: dates and durations (\<open>elora/triggers/computeNextFireAt.ts\<close>). The civil calendar and the
    setters of \<open>Date\<close> are defined arithmetically and shown to round-trip; adding an ISO 8601 duration is calendar arithmetic.
  \<^item> \<open>Triggers\<close>, \<open>TriggerFire\<close>, \<open>TriggerProps\<close> (\<open>elora/triggers/*.ts\<close>, \<open>redis/triggerLock.ts\<close>): the creation of scheduled triggers,
    the firing of an occurrence under its lock and the polls. The locale \<open>trigger_contract\<close> extends \<open>ingest_contract\<close>; a trigger is stored
    only with authority and fires only for an owner its creator may name. \<open>TriggerDemo\<close> evaluates a skipped occurrence and a creation.
  \<^item> \<open>Runtime\<close> composes the engines into one transition system over the shared database;
    the present theory states what holds of every database that system can reach.

  \<^bold>\<open>What the groups of lemmas show\<close>

  The \<open>*_Inr\<close> lemmas of each component give the exact effect of a committed operation; the
  \<open>*_keeps\<close> lemmas that it preserves the component's invariant; the \<open>*_rel\<close> lemmas that it leaves the
  tables of the other components and of the other tenants alone. \<open>Runtime\<close> puts the three together.
  The properties in the \<open>*Props\<close> theories concern one component each.

  \<^bold>\<open>Parameters\<close>

  The environment \<open>env\<close> supplies the clock, the random UUIDs, the SHA-256 digest and whether row-level
  security binds the connecting role; every theorem holds for all of them unless it names a
  hypothesis. Code outside the repository is a parameter of the definition that uses it: the number
  format of the language, regular-expression compilation of stored patterns, the file system, the model and
  embedding providers, \<open>world_pg\<close> and \<open>pg_search\<close> (what PostgreSQL's text search, vector and date functions compute), the model
  providers (a function from request and provider state to an answer and a new state), the rounding
  \<open>fl\<close> of doubles, \<open>briefing_host\<close> (what the driver reads of a date, and two glyphs), \<open>trigger_clock\<close> (the cron library, the
  reading of a date text, the instants PostgreSQL can store) and Redis.

  \<^bold>\<open>Bounds and termination\<close>

  Loops over data are structural. The walks up the reporting hierarchy and through parent directories
  end because the visited ids, respectively the length of the path, bound them. The only fuel is that
  of \<open>json_parse\<close>, the length of the text: every recursive call consumes a character.

  \<^bold>\<open>Not modelled\<close>

  Connection pooling, migrations, tracing, the Redis connection and HTTP plumbing are I/O around the operations. The
  web console, persona configuration and the diagnostic scripts hold no runtime state.
  Concurrency is modelled as the interleaving of whole transactions, which the row locks
  (\<open>FOR UPDATE\<close>) of the code are there to provide. The HTTP
  surface, which parses requests and calls the operations, and the worker that polls on a timer are not
  modelled. UUID texts that differ in the case of letters are one \<open>uuid\<close> of the model.
\<close>

section \<open>What every reachable database satisfies\<close>

text \<open>
  C3. History determines status. In every reachable database, replaying the recorded transitions of a
  WorkOrder through the status graph gives exactly its current status; the history has at most ten
  entries and never visits a status twice.
\<close>

theorem work_order_history_replays:
  assumes "reachable d" "w \<in> set (work_orders d)"
  shows "replay VALID_WORK_ORDER_TRANSITIONS RECEIVED (wo_history d (wo_id w)) = Some (wo_status w) \<and>
    length (wo_history d (wo_id w)) \<le> 10 \<and> distinct (map snd (wo_history d (wo_id w)))"
proof -
  from reachable_inv [OF assms(1)] assms(2)
  have t: "trail VALID_WORK_ORDER_TRANSITIONS RECEIVED (wo_history d (wo_id w)) (wo_status w)"
    by (auto simp: wo_inv_def wo_consistent_def Let_def)
  with wo_life.trail_length [OF t] wo_life.trail_distinct [OF t] wo_rank_le [of "wo_status w"]
  show ?thesis by (simp add: trail_iff_replay)
qed

lemma demo_reachable: "reachable demo_db1"
proof -
  note demo_seed_reachable
  moreover have "runtime_step 1 demo_db demo_db1"
    using runtime_step.createWorkOrder [of demo_create 1 demo_db demo_env]
    by (simp add: demo_created) (simp add: demo_create_def)
  ultimately show ?thesis by (rule reachable.engine)
qed

theorem work_order_history_replays_witness:
  "replay VALID_WORK_ORDER_TRANSITIONS RECEIVED (wo_history demo_db1 100) = Some RECEIVED"
  using work_order_history_replays [OF demo_reachable, of "newWorkOrderRow demo_env demo_create"]
  by (simp add: demo_db1_simps demo_env_def)

text \<open>
  C1. Nothing is executed without authority. If a WorkOrder of a reachable database was ever
  \<open>EXECUTING\<close>, it links an authority decision of its own tenant, taken for this WorkOrder, whose
  outcome is neither \<open>refuse\<close> nor \<open>capability_missing\<close>; and unless that outcome is \<open>act\<close> or
  \<open>act_and_report\<close>, the history shows the recorded release from the status the outcome demanded.
\<close>

theorem execution_is_authorised:
  assumes "reachable d" "w \<in> set (work_orders d)" "EXECUTING \<in> snd ` set (wo_history d (wo_id w))"
  shows "\<exists>a\<in>set (authority_decisions d). wo_authority_decision_id w = Some (ad_id a) \<and>
    ad_tenant_id a = wo_tenant_id w \<and> ad_work_order_id a = Some (wo_id w) \<and>
    ad_outcome a \<notin> {refuse, capability_missing} \<and>
    (ad_outcome a \<notin> {act, act_and_report} \<longrightarrow>
      (Some (AUTHORITY_OUTCOME_TO_WORK_ORDER_STATUS (ad_outcome a)), READY_TO_ACT) \<in> set (wo_history d (wo_id w)))"
proof -
  let ?h = "wo_history d (wo_id w)"
  from reachable_inv [OF assms(1)] assms(2) have
    t: "trail VALID_WORK_ORDER_TRANSITIONS RECEIVED ?h (wo_status w)" and
    l: "authority_linked (authority_decisions d) w ?h"
    by (auto simp: wo_inv_def wo_consistent_def Let_def)
  from trail_entered [OF t assms(3)] have "READY_TO_ACT \<in> snd ` set ?h" by (auto simp: into_status)
  from trail_entered [OF t this] obtain s where s: "(Some s, READY_TO_ACT) \<in> set ?h"
    and si: "s \<in> {AUTHORITY_CLASSIFIED, AWAITING_AUTHORIZATION, SETUP_REQUIRED}" "s \<in> snd ` set ?h"
    by (auto simp: into_status)
  have from_class: "s \<noteq> AUTHORITY_CLASSIFIED \<Longrightarrow> (Some AUTHORITY_CLASSIFIED, s) \<in> set ?h"
    using trail_entered [OF t si(2)] si(1) by (auto simp: into_status)
  with si(2) trail_moves [OF t from_class] have "AUTHORITY_CLASSIFIED \<in> snd ` set ?h"
    by (cases "s = AUTHORITY_CLASSIFIED") simp_all
  with l obtain a where a: "a \<in> set (authority_decisions d)" "wo_authority_decision_id w = Some (ad_id a)"
    "ad_tenant_id a = wo_tenant_id w" "ad_work_order_id a = Some (wo_id w)"
    "\<And>t. (Some AUTHORITY_CLASSIFIED, t) \<in> set ?h \<Longrightarrow> t = FAILED \<or> t = AUTHORITY_OUTCOME_TO_WORK_ORDER_STATUS (ad_outcome a)"
    by (auto simp: authority_linked_def split: option.splits)
  have "AUTHORITY_OUTCOME_TO_WORK_ORDER_STATUS (ad_outcome a) = (if s = AUTHORITY_CLASSIFIED then READY_TO_ACT else s)"
    using a(5) [of READY_TO_ACT] a(5) [of s] s from_class si(1) by auto
  with a(1-4) s si(1) show ?thesis
    by (intro bexI [of _ a]) (cases "ad_outcome a"; auto split: if_splits)+
qed

lemma walk_steps: "(\<lambda>d d'. \<exists>t. runtime_step t d d')\<^sup>*\<^sup>* d (snd (walk e t i a fixtures d))"
proof (induction fixtures arbitrary: d e)
  case (Cons f fixtures)
  obtain s reason di ci where f: "f = (s, reason, di, ci)" by (cases f)
  let ?inp = "\<lparr>tw_tenantId = t, tw_workOrderId = i, tw_nextStatus = s, tw_actorId = a, tw_reason = reason,
    tw_metadata = None, tw_authorityDecision = di, tw_memoryCandidate = ci\<rparr>"
  obtain r d1 where r: "transitionWorkOrder e ?inp d = (r, d1)" by fastforce
  have "runtime_step t d d1"
    using runtime_step.transitionWorkOrder [of ?inp t d e] r by simp
  then show ?case
    using Cons.IH r f by (cases r) (auto simp: obind_def intro: converse_rtranclp_into_rtranclp)
qed (simp add: oreturn_def)

lemma steps_reachable: "(\<lambda>d d'. \<exists>t. runtime_step t d d')\<^sup>*\<^sup>* d d' \<Longrightarrow> reachable d \<Longrightarrow> reachable d'"
  by (induction rule: rtranclp_induct) (auto intro: reachable.engine)

lemma demo_path_steps: "(\<lambda>d d'. \<exists>t. runtime_step t d d')\<^sup>*\<^sup>* demo_db1 (snd demo_path)"
proof -
  have "demo_path = walk (env_at 1 demo_env) 1 100 11 HAPPY_PATH_TRANSITIONS demo_db1"
    by (simp add: demo_path_def demo_created)
  then show ?thesis by (metis walk_steps)
qed

lemmas demo_path_reachable = steps_reachable [OF demo_path_steps demo_reachable]

lemma demo_path_order:
  obtains w where "w \<in> set (work_orders (snd demo_path))" "wo_id w = 100" "wo_status w = COMPLETED"
proof -
  from demo_path_facts obtain w where "work_orders (snd demo_path) = [w]" "wo_id w = 100" "wo_status w = COMPLETED"
    by (cases "work_orders (snd demo_path)") auto
  then show thesis by (intro that [of w]) auto
qed

lemma demo_path_statuses:
  "snd ` set (wo_history (snd demo_path) 100) = insert RECEIVED (set (map fst HAPPY_PATH_TRANSITIONS))"
proof -
  let ?ts = "wo_transitions (snd demo_path)"
  have "\<forall>t\<in>set ?ts. wt_work_order_id t = 100"
    using demo_path_facts by (simp add: list_all_iff)
  then have "map snd (wo_history (snd demo_path) 100) = map wt_to_status ?ts"
    by (simp add: wo_history_def)
  with demo_path_facts have "map snd (wo_history (snd demo_path) 100) = RECEIVED # map fst HAPPY_PATH_TRANSITIONS" by simp
  from arg_cong [OF this, of set] show ?thesis by simp
qed

theorem execution_is_authorised_witness:
  "\<exists>a\<in>set (authority_decisions (snd demo_path)). ad_work_order_id a = Some 100 \<and>
     ad_outcome a \<notin> {refuse, capability_missing}"
proof -
  obtain w where w: "w \<in> set (work_orders (snd demo_path))" "wo_id w = 100" by (rule demo_path_order)
  have "EXECUTING \<in> snd ` set (wo_history (snd demo_path) (wo_id w))"
    unfolding w(2) demo_path_statuses by (simp add: HAPPY_PATH_TRANSITIONS_def)
  from execution_is_authorised [OF demo_path_reachable w(1) this] w(2) show ?thesis by auto
qed

text \<open>
  C4. A completed WorkOrder is accounted for: it has exactly one run, of its own tenant, and exactly
  one transition receipt, which records the move from \<open>VALIDATING\<close> to \<open>RECEIPT_WRITTEN\<close> of this
  WorkOrder.
\<close>

theorem completed_is_accounted:
  assumes "reachable d" "w \<in> set (work_orders d)" "wo_status w = COMPLETED"
  shows "map ru_tenant_id (wo_runs d (wo_id w)) = [wo_tenant_id w] \<and>
    map re_payload (wo_receipts d (wo_id w)) =
      [state_transitioned ''work_order'' (wo_id w) ''VALIDATING'' ''RECEIPT_WRITTEN'']"
proof -
  let ?h = "wo_history d (wo_id w)"
  from reachable_inv [OF assms(1)] assms(2) have c: "wo_consistent d w" by (simp add: wo_inv_def)
  then have t: "trail VALID_WORK_ORDER_TRANSITIONS RECEIVED ?h (wo_status w)" by (simp add: wo_consistent_def Let_def)
  have "COMPLETED \<in> snd ` set ?h" using trail_current [OF t] assms(3) by simp
  from trail_entered [OF t this] obtain f where f: "f \<in> snd ` set ?h" "COMPLETED \<in> set (VALID_WORK_ORDER_TRANSITIONS f)"
    by auto
  then have f': "f = RECEIPT_WRITTEN \<or> f = MEMORY_CANDIDATES_CREATED" by (cases f) auto
  then have r: "RECEIPT_WRITTEN \<in> snd ` set ?h"
  proof
    assume "f = MEMORY_CANDIDATES_CREATED"
    with trail_entered [OF t f(1)] obtain g where "g \<in> snd ` set ?h" "MEMORY_CANDIDATES_CREATED \<in> set (VALID_WORK_ORDER_TRANSITIONS g)"
      by auto
    then show ?thesis by (cases g) auto
  qed (use f in simp)
  from trail_entered [OF t r] have "VALIDATING \<in> snd ` set ?h" by (auto simp: into_status)
  from trail_entered [OF t this] have "EXECUTING \<in> snd ` set ?h" by (auto simp: into_status)
  with r c show ?thesis by (simp add: wo_consistent_def Let_def)
qed

theorem completed_is_accounted_witness:
  "map re_payload (wo_receipts (snd demo_path) 100) =
     [state_transitioned ''work_order'' 100 ''VALIDATING'' ''RECEIPT_WRITTEN'']"
proof -
  obtain w where "w \<in> set (work_orders (snd demo_path))" "wo_id w = 100" "wo_status w = COMPLETED"
    by (rule demo_path_order)
  with completed_is_accounted [OF demo_path_reachable this(1,3)] show ?thesis by simp
qed

text \<open>
  C20. In every reachable database each Directive has a permitted history that ends in its state,
  revisions numbered \<open>1, 2, 3, \<dots>\<close> without gaps, temporal columns that mirror its latest revision, and
  a deduplication key no other Directive of its tenant has.
\<close>

theorem directives_are_consistent:
  assumes "reachable d" "x \<in> set (operator_directives d)"
  shows "replay VALID_DIRECTIVE_TRANSITIONS PROPOSED (dir_history d (od_id x)) = Some (od_state x) \<and>
    map dr_revision_number (dir_revs d (od_id x)) = [1..<Suc (length (dir_revs d (od_id x)))] \<and>
    dir_revs d (od_id x) \<noteq> [] \<and>
    temporal_columns x = revision_temporals (last (dir_revs d (od_id x))) \<and>
    (\<forall>y\<in>set (operator_directives d). od_tenant_id y = od_tenant_id x \<and> od_dedupe_key y = od_dedupe_key x \<longrightarrow> y = x)"
proof -
  from reachable_inv [OF assms(1)] assms(2) have c: "dir_consistent d x"
    and dist: "distinct (map (\<lambda>x. (od_tenant_id x, od_dedupe_key x)) (operator_directives d))"
    by (auto simp: dir_inv_def)
  from dist assms(2) have "\<forall>y\<in>set (operator_directives d).
      od_tenant_id y = od_tenant_id x \<and> od_dedupe_key y = od_dedupe_key x \<longrightarrow> y = x"
    by (auto simp: distinct_map dest: inj_onD)
  with c show ?thesis by (simp add: dir_consistent_def Let_def trail_iff_replay)
qed

theorem directives_are_consistent_witness:
  "replay VALID_DIRECTIVE_TRANSITIONS PROPOSED (dir_history demo_dir_db 100) = Some PROPOSED \<and>
   map dr_revision_number (dir_revs demo_dir_db 100) = [1..<Suc (length (dir_revs demo_dir_db 100))]"
proof -
  have "runtime_step 1 demo_db demo_dir_db"
    using runtime_step.createOrMergeDirective [of demo_detect 1 demo_db demo_env]
    by (simp add: demo_detected) (simp add: demo_detect_def)
  with demo_seed_reachable have "reachable demo_dir_db" by (rule reachable.engine)
  moreover have "map (\<lambda>x. (od_id x, od_state x)) (operator_directives demo_dir_db) = [(100, PROPOSED)]"
    by (simp add: demo_dir_db_def after_directive_create_def demo_db_def empty_db_def)
      (simp add: newDirectiveRow_def demo_env_def)
  then obtain x where "operator_directives demo_dir_db = [x]" "od_id x = 100" "od_state x = PROPOSED" by auto
  ultimately show ?thesis using directives_are_consistent [of demo_dir_db x] by simp
qed

text \<open>
  C21. In every reachable database each CognitiveRun has a permitted history of at most three entries
  that ends in its status; a completed one has a finished model invocation of its own behind it; it
  has a start time exactly if it was ever running and an end time exactly if it is terminal.
\<close>

theorem cognitive_runs_are_consistent:
  assumes "reachable d" "r \<in> set (cognitive_runs d)"
  shows "replay VALID_COGNITIVE_RUN_TRANSITIONS CR_PENDING (cr_history d (cr_id r)) = Some (cr_status r) \<and>
    length (cr_history d (cr_id r)) \<le> 3 \<and>
    (cr_status r = CR_COMPLETED \<longrightarrow> has_evidence d r) \<and>
    (cr_started_at r \<noteq> None \<longleftrightarrow> CR_RUNNING \<in> snd ` set (cr_history d (cr_id r))) \<and>
    (cr_ended_at r \<noteq> None \<longleftrightarrow> isTerminalCognitiveRunStatus (cr_status r))"
proof -
  from reachable_inv [OF assms(1)] assms(2) have c: "cr_consistent d r" by (simp add: cr_inv_def)
  then have t: "trail VALID_COGNITIVE_RUN_TRANSITIONS CR_PENDING (cr_history d (cr_id r)) (cr_status r)"
    by (simp add: cr_consistent_def Let_def)
  have "cr_rank (cr_status r) \<le> 2" by (cases "cr_status r") auto
  with c cr_life.trail_length [OF t] show ?thesis by (simp add: cr_consistent_def Let_def trail_iff_replay)
qed

theorem cognitive_runs_are_consistent_witness:
  "replay VALID_COGNITIVE_RUN_TRANSITIONS CR_PENDING
     (cr_history (after_run_create demo_env demo_run_input demo_db) 100) = Some CR_PENDING"
proof -
  let ?d = "after_run_create demo_env demo_run_input demo_db" and ?r = "newCognitiveRunRow demo_env demo_run_input"
  have "runtime_step 1 demo_db ?d"
    using runtime_step.createCognitiveRun [of demo_run_input 1 demo_db demo_env]
    by (simp add: demo_run_created) (simp add: demo_run_input_def)
  with demo_seed_reachable have "reachable ?d" by (rule reachable.engine)
  moreover have "?r \<in> set (cognitive_runs ?d)" by (simp add: after_run_create_def)
  moreover have "cr_id ?r = 100" "cr_status ?r = CR_PENDING" by (simp_all add: newCognitiveRunRow_def demo_env_def)
  ultimately show ?thesis using cognitive_runs_are_consistent [of ?d ?r] by simp
qed

text \<open>
  C36. World state. In every reachable database a claim has exactly one object and a validity window that is not
  empty, its confidence is a probability, its subject, object and corrected claim are of its tenant, each of
  its evidence rows names exactly one source, of the kind it declares, and following corrections never
  returns to the claim.
\<close>

theorem world_state_is_consistent:
  assumes "reachable d" "x \<in> set (claims d)"
  shows "(clm_object_entity_id x = None) = (clm_object_value x \<noteq> None) \<and>
    (\<forall>v. clm_valid_to x = Some v \<longrightarrow> clm_valid_from x < v) \<and>
    (\<forall>p. clm_confidence x = Some p \<longrightarrow> 0 \<le> p \<and> p \<le> 1) \<and>
    names_in (ent_keys d) (clm_tenant_id x) (clm_subject_entity_id x) \<and>
    names_in (ent_keys d) (clm_tenant_id x) (clm_object_entity_id x) \<and>
    names_in (claim_keys d) (clm_tenant_id x) (clm_supersedes_claim_id x) \<and>
    (\<forall>v\<in>set (claim_evidence_rows d). ce_claim_id v = clm_id x \<longrightarrow> ce_tenant_id v = clm_tenant_id x \<and> evidence_checks v) \<and>
    (clm_id x, clm_id x) \<notin> (supersedes d)\<^sup>+"
proof -
  from reachable_inv [OF assms(1)] have inv: "world_inv d" by simp
  then have ok: "claim_ok d x" and acyc: "acyclic (supersedes d)" using assms(2) by (simp_all add: world_inv_def)
  have ev: "ce_tenant_id v = clm_tenant_id x \<and> evidence_checks v" if "v \<in> set (claim_evidence_rows d)" "ce_claim_id v = clm_id x" for v
  proof -
    from inv that obtain y where "y \<in> set (claims d)" "clm_tenant_id y = ce_tenant_id v" "clm_id y = clm_id x" and c: "evidence_checks v"
      by (auto simp: world_inv_def claim_keys_def)
    with inv assms(2) have "y = x" by (auto simp: world_inv_def distinct_map dest: inj_onD)
    with c \<open>clm_tenant_id y = ce_tenant_id v\<close> show ?thesis by simp
  qed
  show ?thesis
    using ok acyc ev unfolding claim_ok_def claim_checks_def acyclic_def by (auto split: option.splits)
qed

lemma demo_world_reachable: "reachable demo_world2"
proof -
  have "runtime_step 1 demo_db demo_world1" "runtime_step 1 demo_world1 demo_world2"
    using runtime_step.createEntity [of demo_entity 1 demo_db demo_env] runtime_step.recordClaim [of demo_claim 1 demo_world1 demo_pg demo_env]
    by (simp_all add: demo_world1_def demo_world2_def demo_entity_def demo_claim_def)
  then show ?thesis by (blast intro: reachable.engine demo_seed_reachable)
qed

theorem world_state_is_consistent_witness:
  "list_all (\<lambda>x. clm_id x = 100 \<and> names_in (ent_keys demo_world2) (clm_tenant_id x) (clm_subject_entity_id x)) (claims demo_world2) \<and>
   claims demo_world2 \<noteq> []"
proof -
  have ids: "map clm_id (claims demo_world2) = [100]" by (rule demo_claims)
  then have "list_all (\<lambda>x. clm_id x = 100) (claims demo_world2)" by (auto simp: list_all_iff map_eq_Cons_conv)
  with ids world_state_is_consistent [OF demo_world_reachable] show ?thesis by (auto simp: list_all_iff)
qed

section \<open>Isolation and audit\<close>

text \<open>
  C2. Tenant isolation. Whatever operation a tenant calls, with whatever ids in its input, with
  row-level security enforced or not, and whether the call succeeds or throws: the rows of every other
  tenant in all tables are exactly as before, and primary keys stay unique.
\<close>

theorem tenant_isolation:
  assumes "runtime_step t d d'" "pk_ok d"
  shows "foreign_view t d' = foreign_view t d \<and> pk_ok d'"
  using runtime_step_sound [OF assms(1)] assms(2) by (simp add: engine_rel_def tenant_frame_def)

theorem tenant_isolation_witness:
  "foreign_view 2 (snd (transitionWorkOrder demo_env ((demo_move INTENT_PARSED)\<lparr>tw_tenantId := 2\<rparr>) demo_db1)) =
     foreign_view 2 demo_db1"
proof -
  have "pk_ok demo_db1"
    by (simp add: pk_ok_def demo_db1_def after_create_def demo_db_def empty_db_def)
  then show ?thesis
    using tenant_isolation [OF runtime_step.transitionWorkOrder [of "(demo_move INTENT_PARSED)\<lparr>tw_tenantId := 2\<rparr>" 2]]
    by (simp add: demo_move_def)
qed

text \<open>
  C22. The audit trail is append-only. Over any sequence of engine calls of any tenants, the messages,
  WorkOrder transitions, authority decisions, receipts, Directive revisions, transitions, provenance
  and suppressions and CognitiveRun transitions recorded before remain, unchanged and in place.
\<close>

theorem audit_is_append_only:
  assumes "(\<lambda>d d'. \<exists>t. runtime_step t d d')\<^sup>*\<^sup>* d d'"
  shows "audit_appends d d'"
  using assms
proof (induction rule: rtranclp_induct)
  case base
  show ?case by (simp add: audit_appends_def)
next
  case (step d1 d2)
  then show ?case using runtime_step_sound audit_appends_trans by (auto simp: engine_rel_def tenant_frame_def)
qed

theorem audit_is_append_only_witness: "audit_appends demo_db1 (snd demo_path)"
  by (rule audit_is_append_only) (rule demo_path_steps)

text \<open>
  C23. Terminal WorkOrders are frozen: over any sequence of engine calls of any tenants starting in a
  reachable database, the row of a terminal WorkOrder stays exactly as it is.
\<close>

theorem terminal_work_orders_frozen:
  assumes "(\<lambda>d d'. \<exists>t. runtime_step t d d')\<^sup>*\<^sup>* d d'" "reachable d" "w \<in> set (work_orders d)"
    "isTerminalWorkOrderStatus (wo_status w)"
  shows "w \<in> set (work_orders d')"
proof -
  from assms(1) have "reachable d' \<and> w \<in> set (work_orders d')"
  proof (induction rule: rtranclp_induct)
    case (step d1 d2)
    then show ?case using terminal_wo_kept [OF _ _ _ assms(4)] reachable_inv by (blast intro: reachable.engine)
  qed (use assms in simp)
  then show ?thesis ..
qed

theorem terminal_work_orders_frozen_witness:
  "\<exists>w\<in>set (work_orders (snd (transitionWorkOrder demo_env (demo_move EXECUTING) (snd demo_path)))).
     wo_id w = 100 \<and> wo_status w = COMPLETED"
proof -
  obtain w where w: "w \<in> set (work_orders (snd demo_path))" "wo_id w = 100" "wo_status w = COMPLETED"
    by (rule demo_path_order)
  have "(\<lambda>d d'. \<exists>t. runtime_step t d d')\<^sup>*\<^sup>* (snd demo_path)
      (snd (transitionWorkOrder demo_env (demo_move EXECUTING) (snd demo_path)))"
    by (intro r_into_rtranclp exI [of _ 1] runtime_step.transitionWorkOrder) (simp add: demo_move_def)
  from terminal_work_orders_frozen [OF this demo_path_reachable w(1)] w show ?thesis
    by (auto simp: isTerminalWorkOrderStatus_def TERMINAL_WORK_ORDER_STATUSES_def)
qed

end
